(* ===== verification/Prelude.thy ===== *)
theory Prelude
  imports Main "HOL-Library.Word" "HOL-Library.Char_ord" "HOL-Library.List_Lexorder"
begin

text \<open>
  What every component shares: the types of raw data, the reply of an HTTP handler, the
  operations of a database table (a list of rows in storage order) with their frame and
  uniqueness lemmas, the shape of a transaction (\<open>BEGIN\<close>, \<open>COMMIT\<close>,
  \<open>ROLLBACK\<close>, and the \<open>catch\<close> around them), the locale of keyed tables, and the
  collections of facts that drive the component proofs.
\<close>

named_theorems table_simps \<open>membership and lookup in an updated table\<close>
named_theorems keep_unique \<open>table operations that keep a key unique\<close>
named_theorems frame \<open>what an operation leaves unchanged\<close>

section \<open>Raw data\<close>

type_synonym bytes = "8 word list"

text \<open>Milliseconds since the epoch (\<open>Date.now()\<close>, \<open>BIGINT\<close> and \<open>TIMESTAMPTZ\<close> columns).\<close>

type_synonym ms = int

section \<open>Replies of HTTP handlers\<close>

text \<open>
  \<open>reply.code(c).send({error: e})\<close> is \<open>Fail c e\<close>; a reply with a payload is
  \<open>Done c p\<close>. A handler that returns a value without a code replies with 200.
\<close>

datatype 'a reply = Fail nat string | Done nat 'a

fun is_done :: "'a reply \<Rightarrow> bool" where
  "is_done (Done _ _) = True"
| "is_done (Fail _ _) = False"

lemma is_done_iff [simp]: "is_done r \<longleftrightarrow> (\<exists>c p. r = Done c p)"
  by (cases r) auto

abbreviation internal_error :: "'a reply" where
  "internal_error \<equiv> Fail 500 ''INTERNAL_ERROR''"

abbreviation invalid_request :: "'a reply" where
  "invalid_request \<equiv> Fail 400 ''INVALID_REQUEST''"

section \<open>Transactions\<close>

text \<open>
  What makes a statement raise: a constraint of \<open>schema.sql\<close>, or an exception of the
  handler's own code between the statements.
\<close>

datatype db_error = Unique_Violation | Foreign_Key_Violation | Check_Violation
  | Out_Of_Range | Invalid_Text | Type_Error | Raised string

text \<open>A transaction's body ends in \<open>COMMIT\<close> or \<open>ROLLBACK\<close>, with the handler's reply.\<close>

datatype 'a tx_end = Commit 'a | Rollback 'a

text \<open>
  \<open>run_tx fault err s body\<close>: \<open>fault\<close> says that the database itself fails during the
  transaction. A fault or a raised error reaches the handler's \<open>catch\<close>, which rolls back
  and replies \<open>err\<close>.
\<close>

definition run_tx :: "bool \<Rightarrow> 'a \<Rightarrow> 's \<Rightarrow> db_error + ('s \<times> 'a tx_end) \<Rightarrow> 's \<times> 'a" where
  "run_tx fault err s body =
     (if fault then (s, err)
      else case body of
             Inl e \<Rightarrow> (s, err)
           | Inr (s', fin) \<Rightarrow> (case fin of Commit r \<Rightarrow> (s', r) | Rollback r \<Rightarrow> (s, r)))"

lemma run_tx_fault [simp]: "run_tx True err s body = (s, err)"
  by (simp add: run_tx_def)

lemma run_tx_Inl [simp]: "run_tx fault err s (Inl e) = (s, err)"
  by (simp add: run_tx_def)

lemma run_tx_Commit [simp]: "run_tx False err s (Inr (s', Commit r)) = (s', r)"
  by (simp add: run_tx_def)

lemma run_tx_Rollback [simp]: "run_tx False err s (Inr (s', Rollback r)) = (s, r)"
  by (simp add: run_tx_def)

lemma run_tx_cases:
  assumes "run_tx fault err s body = (t, r)"
  obtains (committed) "\<not> fault" "body = Inr (t, Commit r)"
    | (unchanged) "t = s" "r = err \<or> (\<exists>s'. body = Inr (s', Rollback r))"
  using assms
  by (auto simp: run_tx_def split: if_splits sum.splits prod.splits tx_end.splits)

lemma run_tx_invariant:
  assumes "P s" and "\<And>s' r. body = Inr (s', Commit r) \<Longrightarrow> P s'"
  shows "P (fst (run_tx fault err s body))"
  using assms by (auto simp: run_tx_def split: sum.splits prod.splits tx_end.splits)

text \<open>A statement after another: an exception skips the rest.\<close>

definition try_then :: "'e + 'a \<Rightarrow> ('a \<Rightarrow> 'e + 'b) \<Rightarrow> 'e + 'b" where
  "try_then r f = (case r of Inl e \<Rightarrow> Inl e | Inr x \<Rightarrow> f x)"

fun try_fold :: "('x \<Rightarrow> 's \<Rightarrow> 'e + 's) \<Rightarrow> 'x list \<Rightarrow> 's \<Rightarrow> 'e + 's" where
  "try_fold f [] s = Inr s"
| "try_fold f (x # xs) s = try_then (f x s) (try_fold f xs)"

lemma try_then_simps [simp]: "try_then (Inl e) f = Inl e" "try_then (Inr x) f = f x"
  by (simp_all add: try_then_def)

lemma try_then_Inr_iff: "try_then r f = Inr y \<longleftrightarrow> (\<exists>x. r = Inr x \<and> f x = Inr y)"
  by (cases r) auto

lemma try_fold_invariant:
  assumes "try_fold f xs s = Inr s'" and "P s"
    and step: "\<And>x s s'. x \<in> set xs \<Longrightarrow> P s \<Longrightarrow> f x s = Inr s' \<Longrightarrow> P s'"
  shows "P s'"
  using assms
proof (induction xs arbitrary: s)
  case (Cons x xs)
  then obtain s1 where s1: "f x s = Inr s1" "try_fold f xs s1 = Inr s'" by (auto simp: try_then_Inr_iff)
  have "P s1" using Cons.prems(2) Cons.prems(3) [of x s s1] s1(1) by simp
  with Cons.IH [of s1] s1(2) Cons.prems(3) show ?case by (meson list.set_intros(2))
qed simp

section \<open>Tables\<close>

definition has_row :: "('r \<Rightarrow> bool) \<Rightarrow> 'r list \<Rightarrow> bool" where
  "has_row p rs = list_ex p rs"

text \<open>\<open>UPDATE t SET f WHERE p\<close>\<close>

definition update_where :: "('r \<Rightarrow> bool) \<Rightarrow> ('r \<Rightarrow> 'r) \<Rightarrow> 'r list \<Rightarrow> 'r list" where
  "update_where p f rs = map (\<lambda>x. if p x then f x else x) rs"

text \<open>\<open>DELETE FROM t WHERE p\<close>\<close>

definition delete_where :: "('r \<Rightarrow> bool) \<Rightarrow> 'r list \<Rightarrow> 'r list" where
  "delete_where p rs = filter (\<lambda>x. \<not> p x) rs"

text \<open>\<open>INSERT .. ON CONFLICT DO NOTHING\<close>, the conflict being a row with the same key.\<close>

definition insert_ignore :: "('r \<Rightarrow> 'k) \<Rightarrow> 'r \<Rightarrow> 'r list \<Rightarrow> 'r list" where
  "insert_ignore key r rs = (if has_row (\<lambda>x. key x = key r) rs then rs else rs @ [r])"

text \<open>\<open>INSERT .. ON CONFLICT DO UPDATE SET f\<close>.\<close>

definition upsert :: "('r \<Rightarrow> 'k) \<Rightarrow> ('r \<Rightarrow> 'r) \<Rightarrow> 'r \<Rightarrow> 'r list \<Rightarrow> 'r list" where
  "upsert key f r rs =
     (if has_row (\<lambda>x. key x = key r) rs then update_where (\<lambda>x. key x = key r) f rs
      else rs @ [r])"

text \<open>A plain \<open>INSERT\<close> into a table with a unique key.\<close>

definition insert_unique :: "('r \<Rightarrow> 'k) \<Rightarrow> 'r \<Rightarrow> 'r list \<Rightarrow> db_error + 'r list" where
  "insert_unique key r rs =
     (if has_row (\<lambda>x. key x = key r) rs then Inl Unique_Violation else Inr (rs @ [r]))"

definition unique_key :: "('r \<Rightarrow> 'k) \<Rightarrow> 'r list \<Rightarrow> bool" where
  "unique_key key rs = distinct (map key rs)"

definition count_where :: "('r \<Rightarrow> bool) \<Rightarrow> 'r list \<Rightarrow> nat" where
  "count_where p rs = length (filter p rs)"

lemma has_row_iff [table_simps]: "has_row p rs \<longleftrightarrow> (\<exists>x \<in> set rs. p x)"
  by (simp add: has_row_def list_ex_iff)

lemma has_row_Nil [simp]: "\<not> has_row p []"
  by (simp add: has_row_def)

lemma has_row_Cons [simp]: "has_row p (x # xs) \<longleftrightarrow> p x \<or> has_row p xs"
  by (simp add: has_row_def)

lemma set_update_where [table_simps]:
  "set (update_where p f rs) = {x \<in> set rs. \<not> p x} \<union> f ` {x \<in> set rs. p x}"
  by (auto simp: update_where_def)

lemma set_delete_where [table_simps]: "set (delete_where p rs) = {x \<in> set rs. \<not> p x}"
  by (simp add: delete_where_def)

lemma set_insert_ignore [table_simps]:
  "set (insert_ignore key r rs) =
     (if \<exists>x \<in> set rs. key x = key r then set rs else insert r (set rs))"
  by (auto simp: insert_ignore_def has_row_iff)

lemma set_upsert [table_simps]:
  "set (upsert key f r rs) =
     (if \<exists>x \<in> set rs. key x = key r
      then {x \<in> set rs. key x \<noteq> key r} \<union> f ` {x \<in> set rs. key x = key r}
      else insert r (set rs))"
  by (auto simp: upsert_def has_row_iff set_update_where)

lemma set_insert_unique [table_simps]:
  "insert_unique key r rs = Inr rs' \<Longrightarrow>
     set rs' = insert r (set rs) \<and> (\<forall>x \<in> set rs. key x \<noteq> key r)"
  by (auto simp: insert_unique_def has_row_iff split: if_splits)

lemma unique_key_update_where [keep_unique]:
  "unique_key key rs \<Longrightarrow> (\<And>x. key (f x) = key x) \<Longrightarrow> unique_key key (update_where p f rs)"
proof -
  assume u: "unique_key key rs" and k: "\<And>x. key (f x) = key x"
  have "map key (update_where p f rs) = map key rs"
    by (simp add: update_where_def k)
  with u show ?thesis by (simp add: unique_key_def)
qed

lemma unique_key_delete_where [keep_unique]:
  "unique_key key rs \<Longrightarrow> unique_key key (delete_where p rs)"
  by (simp add: unique_key_def delete_where_def distinct_map_filter)

lemma unique_key_insert_ignore [keep_unique]:
  "unique_key key rs \<Longrightarrow> unique_key key (insert_ignore key r rs)"
  by (auto simp: unique_key_def insert_ignore_def has_row_iff)

lemma unique_key_upsert [keep_unique]:
  "unique_key key rs \<Longrightarrow> (\<And>x. key (f x) = key x) \<Longrightarrow> unique_key key (upsert key f r rs)"
  by (auto simp: upsert_def has_row_iff unique_key_update_where) (auto simp: unique_key_def)

lemma upsert_refs:
  assumes "\<And>x. g (f x) = g x" and "g ` set rs \<subseteq> A" and "g r \<in> A"
  shows "g ` set (upsert key f r rs) \<subseteq> A"
  using assms by (auto simp: set_upsert)

lemma update_where_refs:
  assumes "\<And>x. g (f x) = g x" and "g ` set rs \<subseteq> A"
  shows "g ` set (update_where p f rs) \<subseteq> A"
  using assms by (auto simp: set_update_where)

lemma update_where_all:
  assumes "\<And>x. x \<in> set rs \<Longrightarrow> p x \<Longrightarrow> Q (f x)" and "\<And>x. x \<in> set rs \<Longrightarrow> \<not> p x \<Longrightarrow> Q x"
  shows "\<forall>x \<in> set (update_where p f rs). Q x"
  using assms by (auto simp: set_update_where)

lemma unique_key_insert_unique [keep_unique]:
  "unique_key key rs \<Longrightarrow> insert_unique key r rs = Inr rs' \<Longrightarrow> unique_key key rs'"
  by (auto simp: unique_key_def insert_unique_def has_row_iff split: if_splits) metis

lemma unique_key_Nil [simp]: "unique_key key []"
  by (simp add: unique_key_def)

lemma unique_keyD:
  "unique_key key rs \<Longrightarrow> x \<in> set rs \<Longrightarrow> y \<in> set rs \<Longrightarrow> key x = key y \<Longrightarrow> x = y"
  by (auto simp: unique_key_def distinct_map dest: inj_onD)

text \<open>\<open>SELECT .. WHERE p\<close> read with \<open>rows[0]\<close>.\<close>

lemma find_SomeD: "List.find p rs = Some x \<Longrightarrow> x \<in> set rs \<and> p x"
  by (auto simp: find_Some_iff)

lemma find_NoneD: "List.find p rs = None \<Longrightarrow> x \<in> set rs \<Longrightarrow> \<not> p x"
  by (auto simp: find_None_iff)

lemma find_None_not_has_row: "List.find p rs = None \<longleftrightarrow> \<not> has_row p rs"
  by (auto simp: find_None_iff has_row_iff)

lemma find_unique:
  assumes "unique_key key rs" and "x \<in> set rs"
  shows "List.find (\<lambda>y. key y = key x) rs = Some x"
  using assms by (induction rs) (auto simp: unique_key_def)

lemma find_append: "List.find p (xs @ ys) =
    (case List.find p xs of None \<Rightarrow> List.find p ys | Some x \<Rightarrow> Some x)"
  by (induction xs) auto

lemma find_update_where_other:
  assumes "\<And>x. p x \<Longrightarrow> q (f x) = q x"  and "\<And>x. p x \<Longrightarrow> \<not> q x"
  shows "List.find q (update_where p f rs) = List.find q rs"
  using assms by (induction rs) (auto simp: update_where_def)

lemma find_delete_where_other:
  assumes "\<And>x. q x \<Longrightarrow> \<not> p x"
  shows "List.find q (delete_where p rs) = List.find q rs"
  using assms by (induction rs) (auto simp: delete_where_def)

lemma find_upsert:
  assumes "\<And>x. key (f x) = key x"
  shows "List.find (\<lambda>x. key x = k) (upsert key f r rs) =
    (if k = key r then (case List.find (\<lambda>x. key x = k) rs of None \<Rightarrow> Some r | Some x \<Rightarrow> Some (f x))
     else List.find (\<lambda>x. key x = k) rs)"
proof (cases "has_row (\<lambda>x. key x = key r) rs")
  case True
  have "List.find (\<lambda>x. key x = k) (update_where (\<lambda>x. key x = key r) f rs)
      = (if k = key r then map_option f (List.find (\<lambda>x. key x = k) rs) else List.find (\<lambda>x. key x = k) rs)"
    by (induction rs) (auto simp: update_where_def assms)
  moreover have "List.find (\<lambda>x. key x = key r) rs \<noteq> None" using True by (simp add: find_None_not_has_row)
  ultimately show ?thesis using True by (auto simp: upsert_def)
next
  case False
  then have "List.find (\<lambda>x. key x = key r) rs = None" by (simp add: find_None_not_has_row)
  with False show ?thesis by (auto simp: upsert_def find_append split: option.splits)
qed

lemma count_where_0_iff: "count_where p rs = 0 \<longleftrightarrow> (\<forall>x \<in> set rs. \<not> p x)"
  by (simp add: count_where_def filter_empty_conv)

section \<open>The interface of a keyed table\<close>

text \<open>
  What the handlers rely on when they keep one row per key: a row is found under its key
  after it was put, putting a row leaves every other key alone, and removing a key removes
  only that key.
\<close>

locale keyed_table =
  fixes lookup :: "'t \<Rightarrow> 'k \<Rightarrow> 'r option"
    and put :: "'k \<Rightarrow> 'r \<Rightarrow> 't \<Rightarrow> 't"
    and drop_key :: "'k \<Rightarrow> 't \<Rightarrow> 't"
  assumes lookup_put: "lookup (put k r t) k' = (if k' = k then Some r else lookup t k')"
    and lookup_drop: "lookup (drop_key k t) k' = (if k' = k then None else lookup t k')"
begin

lemma put_put: "lookup (put k r (put k r' t)) k' = lookup (put k r t) k'"
  by (simp add: lookup_put)

lemma put_commute:
  "k \<noteq> l \<Longrightarrow> lookup (put k r (put l q t)) k' = lookup (put l q (put k r t)) k'"
  by (simp add: lookup_put)

lemma drop_twice: "lookup (drop_key k (drop_key k t)) k' = lookup (drop_key k t) k'"
  by (simp add: lookup_drop)

lemma take_once: "lookup (drop_key k t) k = None"
  by (simp add: lookup_drop)

end

text \<open>
  A JavaScript \<open>Map\<close>, in insertion order: \<open>set\<close> on a key it holds keeps the key's
  place, on a new key appends it.
\<close>

type_synonym ('k, 'v) jsmap = "('k \<times> 'v) list"

definition map_get :: "('k, 'v) jsmap \<Rightarrow> 'k \<Rightarrow> 'v option" where
  "map_get m k = map_of m k"

fun map_set :: "'k \<Rightarrow> 'v \<Rightarrow> ('k, 'v) jsmap \<Rightarrow> ('k, 'v) jsmap" where
  "map_set k v [] = [(k, v)]"
| "map_set k v ((k', v') # m) = (if k' = k then (k, v) # m else (k', v') # map_set k v m)"

definition map_delete :: "'k \<Rightarrow> ('k, 'v) jsmap \<Rightarrow> ('k, 'v) jsmap" where
  "map_delete k m = filter (\<lambda>e. fst e \<noteq> k) m"

lemma map_get_set: "map_get (map_set k v m) k' = (if k' = k then Some v else map_get m k')"
  by (induction m) (auto simp: map_get_def)

lemma map_get_delete: "map_get (map_delete k m) k' = (if k' = k then None else map_get m k')"
  by (induction m) (auto simp: map_get_def map_delete_def)

lemma map_get_Nil [simp]: "map_get [] k = None"
  by (simp add: map_get_def)

lemma dom_map_set: "fst ` set (map_set k v m) = insert k (fst ` set m)"
  by (induction k v m rule: map_set.induct) auto

lemma distinct_map_set: "distinct (map fst m) \<Longrightarrow> distinct (map fst (map_set k v m))"
proof (induction m)
  case (Cons e m)
  obtain k' v' where e: "e = (k', v')" by (cases e)
  from Cons have IH: "distinct (map fst (map_set k v m))" by simp
  have "k' \<notin> fst ` set (map_set k v m)" if "k' \<noteq> k"
    using Cons.prems that by (simp add: e dom_map_set)
  with IH Cons.prems show ?case by (auto simp: e)
qed simp

lemma length_map_set: "length (map_set k v m) = (if k \<in> fst ` set m then length m else Suc (length m))"
  by (induction k v m rule: map_set.induct) auto

interpretation jsmap: keyed_table map_get map_set map_delete
  by unfold_locales (simp_all add: map_get_set map_get_delete)

section \<open>Choosing a row\<close>

text \<open>
  \<open>ORDER BY f LIMIT 1\<close>: the order among rows with equal \<open>f\<close> is the database's, so a number
  \<open>tie\<close> chooses among them.
\<close>

definition first_by :: "('r \<Rightarrow> ms) \<Rightarrow> nat \<Rightarrow> 'r list \<Rightarrow> 'r option" where
  "first_by f tie rs =
     (let ms = filter (\<lambda>r. list_all (\<lambda>x. f r \<le> f x) rs) rs
      in if ms = [] then None else Some (ms ! (tie mod length ms)))"

lemma first_by_SomeD:
  assumes "first_by f tie rs = Some r"
  shows "r \<in> set rs" and "\<forall>x \<in> set rs. f r \<le> f x"
proof -
  let ?ms = "filter (\<lambda>r. list_all (\<lambda>x. f r \<le> f x) rs) rs"
  from assms have "?ms \<noteq> []" "r = ?ms ! (tie mod length ?ms)" by (auto simp: first_by_def Let_def split: if_splits)
  then have "r \<in> set ?ms" by (metis length_greater_0_conv mod_less_divisor nth_mem)
  then show "r \<in> set rs" "\<forall>x \<in> set rs. f r \<le> f x" by (auto simp: list_all_iff)
qed

lemma first_by_None_iff: "first_by f tie rs = None \<longleftrightarrow> rs = []"
proof
  show "first_by f tie rs = None \<Longrightarrow> rs = []"
  proof (rule ccontr)
    assume none: "first_by f tie rs = None" and ne: "rs \<noteq> []"
    have "Min (f ` set rs) \<in> f ` set rs" using ne by (intro Min_in) auto
    then obtain r where "r \<in> set rs" "f r = Min (f ` set rs)" by auto
    then have "r \<in> set (filter (\<lambda>r. list_all (\<lambda>x. f r \<le> f x) rs) rs)"
      by (auto simp: list_all_iff)
    with none show False unfolding first_by_def Let_def by (metis empty_iff list.set(1) option.distinct(1))
  qed
qed (simp add: first_by_def)

section \<open>The interface of a single-use store\<close>

text \<open>
  \<open>hand a s\<close> hands out at most one item; \<open>available s\<close> are the items it may still hand out. An
  item that was handed out is gone, and taking never brings one back.
\<close>

fun run_takes :: "('a \<Rightarrow> 's \<Rightarrow> 's \<times> 'k option) \<Rightarrow> 'a list \<Rightarrow> 's \<Rightarrow> 'k list" where
  "run_takes hand [] s = []"
| "run_takes hand (a # as) s =
     (case hand a s of
        (s', Some k) \<Rightarrow> k # run_takes hand as s'
      | (s', None) \<Rightarrow> run_takes hand as s')"

locale single_use =
  fixes available :: "'s \<Rightarrow> 'k set"
    and hand :: "'a \<Rightarrow> 's \<Rightarrow> 's \<times> 'k option"
    and good :: "'s \<Rightarrow> bool"
  assumes take_removes: "good s \<Longrightarrow> hand a s = (s', Some k) \<Longrightarrow> k \<in> available s \<and> k \<notin> available s'"
    and take_mono: "good s \<Longrightarrow> hand a s = (s', r) \<Longrightarrow> available s' \<subseteq> available s \<and> good s'"
begin

lemma takes_available: "good s \<Longrightarrow> set (run_takes hand as s) \<subseteq> available s"
proof (induction as arbitrary: s)
  case (Cons a as)
  obtain s' r where t: "hand a s = (s', r)" by (cases "hand a s")
  from take_mono [OF Cons.prems t] Cons.IH [of s'] take_removes [OF Cons.prems, of a s'] t
  show ?case by (auto split: option.splits)
qed simp

lemma takes_distinct: "good s \<Longrightarrow> distinct (run_takes hand as s)"
proof (induction as arbitrary: s)
  case (Cons a as)
  obtain s' r where t: "hand a s = (s', r)" by (cases "hand a s")
  from take_mono [OF Cons.prems t] Cons.IH [of s'] take_removes [OF Cons.prems, of a s'] t takes_available [of s' as]
  show ?case by (auto split: option.splits)
qed simp

end

section \<open>The interface of a durable mailbox\<close>

text \<open>
  What a sender and a receiver rely on: an item stays pending from the time it was put until
  its key is acknowledged; putting a key that is known changes nothing, so a retry is safe.
\<close>

datatype ('k, 'm) mailbox_op = Put 'k 'm | Ack "'k set"

fun run_mailbox :: "('k \<Rightarrow> 'm \<Rightarrow> 's \<Rightarrow> 's) \<Rightarrow> ('k set \<Rightarrow> 's \<Rightarrow> 's) \<Rightarrow> ('k, 'm) mailbox_op list \<Rightarrow> 's \<Rightarrow> 's" where
  "run_mailbox put ack [] s = s"
| "run_mailbox put ack (Put k m # ops) s = run_mailbox put ack ops (put k m s)"
| "run_mailbox put ack (Ack K # ops) s = run_mailbox put ack ops (ack K s)"

locale durable_mailbox =
  fixes known :: "'s \<Rightarrow> 'k set"
    and pending :: "'s \<Rightarrow> ('k \<times> 'm) set"
    and put :: "'k \<Rightarrow> 'm \<Rightarrow> 's \<Rightarrow> 's"
    and ack :: "'k set \<Rightarrow> 's \<Rightarrow> 's"
  assumes put_new: "k \<notin> known s \<Longrightarrow> pending (put k m s) = insert (k, m) (pending s)"
    and put_known: "k \<in> known s \<Longrightarrow> put k m s = s"
    and known_put: "known (put k m s) = insert k (known s)"
    and pending_ack: "pending (ack K s) = {p \<in> pending s. fst p \<notin> K}"
begin

lemma put_twice: "put k m' (put k m s) = put k m s"
  by (rule put_known) (simp add: known_put)

lemma put_keeps: "p \<in> pending s \<Longrightarrow> p \<in> pending (put k m s)"
  by (cases "k \<in> known s") (simp_all add: put_known put_new)

lemma pending_until_acked:
  "p \<in> pending s \<Longrightarrow> \<forall>K. Ack K \<in> set ops \<longrightarrow> fst p \<notin> K \<Longrightarrow> p \<in> pending (run_mailbox put ack ops s)"
proof (induction ops arbitrary: s)
  case (Cons op ops)
  then show ?case by (cases op) (simp_all add: put_keeps pending_ack)
qed simp

lemma put_pending_until_acked:
  "k \<notin> known s \<Longrightarrow> \<forall>K. Ack K \<in> set ops \<longrightarrow> k \<notin> K \<Longrightarrow> (k, m) \<in> pending (run_mailbox put ack ops (put k m s))"
  by (rule pending_until_acked) (simp_all add: put_new)

lemma acked_gone: "k \<in> K \<Longrightarrow> (k, m) \<notin> pending (ack K s)"
  by (simp add: pending_ack)

end

end
