(* ===== verification/Js_Text.thy ===== *)
theory Js_Text
  imports Prelude
begin

text \<open>
  JavaScript text and the encodings of Node's \<open>Buffer\<close>: character classes, case mapping,
  trimming, UTF-8, hexadecimal and base64, each as a function, with the round trips the
  components rest on. A string is a list of characters with codes below 256; case mapping
  changes ASCII letters only.
\<close>

section \<open>Characters\<close>

definition code :: "char \<Rightarrow> nat" where
  "code c = of_char c"

definition is_digit :: "char \<Rightarrow> bool" where
  "is_digit c \<longleftrightarrow> 48 \<le> code c \<and> code c \<le> 57"

definition is_upper :: "char \<Rightarrow> bool" where
  "is_upper c \<longleftrightarrow> 65 \<le> code c \<and> code c \<le> 90"

definition is_lower :: "char \<Rightarrow> bool" where
  "is_lower c \<longleftrightarrow> 97 \<le> code c \<and> code c \<le> 122"

definition is_hex_lower :: "char \<Rightarrow> bool" where
  "is_hex_lower c \<longleftrightarrow> is_digit c \<or> (97 \<le> code c \<and> code c \<le> 102)"

definition is_hex_upper :: "char \<Rightarrow> bool" where
  "is_hex_upper c \<longleftrightarrow> is_digit c \<or> (65 \<le> code c \<and> code c \<le> 70)"

definition is_hex :: "char \<Rightarrow> bool" where
  "is_hex c \<longleftrightarrow> is_hex_lower c \<or> is_hex_upper c"

text \<open>White space and line terminators of \<open>String.prototype.trim\<close>.\<close>

definition is_space :: "char \<Rightarrow> bool" where
  "is_space c \<longleftrightarrow> (9 \<le> code c \<and> code c \<le> 13) \<or> code c = 32 \<or> code c = 160"

definition lower_char :: "char \<Rightarrow> char" where
  "lower_char c = (if is_upper c then char_of (code c + 32) else c)"

definition upper_char :: "char \<Rightarrow> char" where
  "upper_char c = (if is_lower c then char_of (code c - 32) else c)"

definition to_lower :: "string \<Rightarrow> string" where
  "to_lower s = map lower_char s"

definition to_upper :: "string \<Rightarrow> string" where
  "to_upper s = map upper_char s"

definition trim :: "string \<Rightarrow> string" where
  "trim s = rev (dropWhile is_space (rev (dropWhile is_space s)))"

definition starts_with :: "string \<Rightarrow> string \<Rightarrow> bool" where
  "starts_with p s \<longleftrightarrow> take (length p) s = p"

text \<open>\<open>s.split(c)\<close> and \<open>ss.join(c)\<close> for a separator of one character.\<close>

fun split_on :: "char \<Rightarrow> string \<Rightarrow> string list" where
  "split_on d [] = [[]]"
| "split_on d (c # s) =
     (if c = d then [] # split_on d s
      else case split_on d s of [] \<Rightarrow> [[c]] | w # ws \<Rightarrow> (c # w) # ws)"

fun join_with :: "char \<Rightarrow> string list \<Rightarrow> string" where
  "join_with d [] = []"
| "join_with d [s] = s"
| "join_with d (s # t # ss) = s @ d # join_with d (t # ss)"

lemma split_on_not_Nil [simp]: "split_on d s \<noteq> []"
  by (induction s) (auto split: list.splits)

lemma join_split: "join_with d (split_on d s) = s"
proof (induction s)
  case (Cons c s)
  obtain w ws where w: "split_on d s = w # ws" by (cases "split_on d s") simp_all
  with Cons show ?case by (cases ws) auto
qed simp

lemma code_less [simp]: "code c < 256"
  by (simp add: code_def)

lemma code_char_of: "n < 256 \<Longrightarrow> code (char_of n) = n"
  by (simp add: code_def)

lemma char_of_code [simp]: "char_of (code c) = c"
  by (simp add: code_def)

lemma code_eq_iff [simp]: "code c = code d \<longleftrightarrow> c = d"
  by (simp add: code_def)

lemma char_eqI: "code c = code d \<Longrightarrow> c = d"
  by simp

lemma length_to_lower [simp]: "length (to_lower s) = length s"
  by (simp add: to_lower_def)

lemma lower_char_idem [simp]: "lower_char (lower_char c) = lower_char c"
  by (auto simp: lower_char_def is_upper_def code_char_of)

lemma to_lower_idem [simp]: "to_lower (to_lower s) = to_lower s"
  by (simp add: to_lower_def)

lemma lower_char_hex_lower: "is_hex_lower c \<Longrightarrow> lower_char c = c"
  by (auto simp: is_hex_lower_def is_digit_def lower_char_def is_upper_def)

lemma to_lower_hex: "list_all is_hex_lower s \<Longrightarrow> to_lower s = s"
  by (induction s) (auto simp: to_lower_def lower_char_hex_lower)

lemma to_lower_append: "to_lower (s @ t) = to_lower s @ to_lower t"
  by (simp add: to_lower_def)

section \<open>UTF-8\<close>

text \<open>\<open>Buffer.from(s, 'utf8')\<close> on code units below 256.\<close>

definition utf8_char :: "char \<Rightarrow> bytes" where
  "utf8_char c =
     (if code c < 128 then [word_of_nat (code c)]
      else [word_of_nat (192 + code c div 64), word_of_nat (128 + code c mod 64)])"

definition utf8 :: "string \<Rightarrow> bytes" where
  "utf8 s = concat (map utf8_char s)"

text \<open>Evaluation on words instead of unary numbers.\<close>

lemma utf8_char_code [code]:
  "utf8_char c = (let w = of_char c in if w < 128 then [w] else [192 + w div 64, 128 + w mod 64])"
proof -
  define w :: "8 word" where "w = word_of_nat (code c)"
  have "code c < 256" by (simp add: code_def)
  then have u: "unat w = code c" by (simp add: w_def unsigned_of_nat take_bit_nat_eq_self)
  have "of_char c = w" by (simp add: w_def code_def of_nat_of_char)
  moreover have "(w < 128) = (code c < 128)" by (simp add: word_less_nat_alt u)
  moreover have "word_of_nat (code c div 64) = w div 64" "word_of_nat (code c mod 64) = w mod 64"
    by (simp_all add: word_arith_nat_defs u)
  ultimately show ?thesis by (simp add: utf8_char_def Let_def w_def)
qed

lemma utf8_Nil [simp]: "utf8 [] = []"
  by (simp add: utf8_def)

lemma utf8_Cons: "utf8 (c # s) = utf8_char c @ utf8 s"
  by (simp add: utf8_def)

lemma utf8_append [simp]: "utf8 (s @ t) = utf8 s @ utf8 t"
  by (simp add: utf8_def)

lemma word_of_nat_byte_inject:
  "m < 256 \<Longrightarrow> n < 256 \<Longrightarrow> (word_of_nat m :: 8 word) = word_of_nat n \<longleftrightarrow> m = n"
  by (auto simp: word_of_nat_eq_iff take_bit_nat_eq_self)

lemma utf8_char_prefix:
  assumes "utf8_char c @ s = utf8_char d @ t"
  shows "c = d \<and> s = t"
proof -
  have b: "code c div 64 < 4" "code d div 64 < 4" "code c mod 64 < 64" "code d mod 64 < 64"
    using code_less [of c] code_less [of d] by (auto simp: less_mult_imp_div_less)
  consider "code c < 128" "code d < 128" | "128 \<le> code c" "128 \<le> code d"
    | "code c < 128" "128 \<le> code d" | "128 \<le> code c" "code d < 128" by linarith
  then have "code c = code d"
  proof cases
    case 2
    then have "code c div 64 = code d div 64" "code c mod 64 = code d mod 64"
      using assms b by (simp_all add: utf8_char_def word_of_nat_byte_inject del: of_nat_add)
    then show ?thesis by (metis div_mod_decomp)
  qed (use assms b in \<open>simp_all add: utf8_char_def word_of_nat_byte_inject del: of_nat_add\<close>)
  then have "c = d" by simp
  with assms show ?thesis by simp
qed

lemma utf8_char_not_Nil [simp]: "utf8_char c \<noteq> []"
  by (simp add: utf8_char_def)

lemma utf8_inject [simp]: "utf8 s = utf8 t \<longleftrightarrow> s = t"
proof
  show "utf8 s = utf8 t \<Longrightarrow> s = t"
  proof (induction s arbitrary: t)
    case Nil
    then show ?case by (cases t) (auto simp: utf8_Cons)
  next
    case (Cons c s)
    then obtain d t' where t: "t = d # t'" by (cases t) (auto simp: utf8_Cons)
    from Cons.prems have "utf8_char c @ utf8 s = utf8_char d @ utf8 t'"
      by (simp add: t utf8_Cons)
    then have "c = d" and "utf8 s = utf8 t'" using utf8_char_prefix by blast+
    with Cons.IH show ?case by (simp add: t)
  qed
qed simp

section \<open>Hexadecimal\<close>

definition hex_digit :: "nat \<Rightarrow> char" where
  "hex_digit n = char_of (if n < 10 then 48 + n else 87 + n)"

definition hex_value :: "char \<Rightarrow> nat option" where
  "hex_value c =
     (if is_digit c then Some (code c - 48)
      else if 97 \<le> code c \<and> code c \<le> 102 then Some (code c - 87)
      else if 65 \<le> code c \<and> code c \<le> 70 then Some (code c - 55)
      else None)"

text \<open>\<open>buffer.toString('hex')\<close>\<close>

definition hex_encode :: "bytes \<Rightarrow> string" where
  "hex_encode bs = concat (map (\<lambda>b. [hex_digit (unat b div 16), hex_digit (unat b mod 16)]) bs)"

text \<open>\<open>Buffer.from(s, 'hex')\<close>: it stops at the first pair that is not hexadecimal.\<close>

fun hex_decode :: "string \<Rightarrow> bytes" where
  "hex_decode (a # b # s) =
     (case (hex_value a, hex_value b) of
        (Some x, Some y) \<Rightarrow> word_of_nat (16 * x + y) # hex_decode s
      | _ \<Rightarrow> [])"
| "hex_decode s = []"

lemma code_hex_digit: "n < 16 \<Longrightarrow> code (hex_digit n) = (if n < 10 then 48 + n else 87 + n)"
  by (simp add: hex_digit_def code_char_of)

lemma hex_value_digit: "n < 16 \<Longrightarrow> hex_value (hex_digit n) = Some n"
  by (auto simp: hex_value_def is_digit_def code_hex_digit)

lemma unat_byte_less [simp]: "unat (b :: 8 word) < 256"
  using unsigned_less [of b] by simp

lemma hex_decode_encode: "hex_decode (hex_encode bs) = bs"
proof (induction bs)
  case (Cons b bs)
  have "unat b div 16 < 16" "unat b mod 16 < 16"
    using unat_byte_less [of b] by (auto intro: div_less_iff_less_mult [THEN iffD2])
  with Cons show ?case
    by (simp add: hex_encode_def hex_value_digit)
qed (simp add: hex_encode_def)

lemma length_hex_encode [simp]: "length (hex_encode bs) = 2 * length bs"
  by (induction bs) (simp_all add: hex_encode_def)

lemma hex_encode_inject [simp]: "hex_encode a = hex_encode b \<longleftrightarrow> a = b"
  by (metis hex_decode_encode)

lemma is_hex_lower_digit: "n < 16 \<Longrightarrow> is_hex_lower (hex_digit n)"
  by (auto simp: is_hex_lower_def is_digit_def code_hex_digit)

lemma hex_encode_lower: "list_all is_hex_lower (hex_encode bs)"
proof (induction bs)
  case (Cons b bs)
  have "unat b div 16 < 16" "unat b mod 16 < 16"
    using unat_byte_less [of b] by (auto intro: div_less_iff_less_mult [THEN iffD2])
  with Cons show ?case by (simp add: hex_encode_def is_hex_lower_digit)
qed (simp add: hex_encode_def)

section \<open>Base64\<close>

definition b64_char :: "nat \<Rightarrow> char" where
  "b64_char n = char_of (if n < 26 then 65 + n else if n < 52 then 71 + n
     else if n < 62 then n - 4 else if n = 62 then 43 else 47)"

text \<open>The decoder also takes the URL-safe letters \<open>-\<close> and \<open>_\<close>.\<close>

definition b64_value :: "char \<Rightarrow> nat option" where
  "b64_value c =
     (if is_upper c then Some (code c - 65)
      else if is_lower c then Some (code c - 71)
      else if is_digit c then Some (code c + 4)
      else if code c = 43 \<or> code c = 45 then Some 62
      else if code c = 47 \<or> code c = 95 then Some 63
      else None)"

abbreviation byte :: "nat \<Rightarrow> 8 word" where
  "byte \<equiv> word_of_nat"

text \<open>\<open>buffer.toString('base64')\<close>\<close>

fun b64_encode :: "bytes \<Rightarrow> string" where
  "b64_encode [] = []"
| "b64_encode [a] = [b64_char (unat a div 4), b64_char (unat a mod 4 * 16), CHR ''='', CHR ''='']"
| "b64_encode [a, b] =
     [b64_char (unat a div 4), b64_char (unat a mod 4 * 16 + unat b div 16),
      b64_char (unat b mod 16 * 4), CHR ''='']"
| "b64_encode (a # b # c # bs) =
     b64_char (unat a div 4) # b64_char (unat a mod 4 * 16 + unat b div 16)
     # b64_char (unat b mod 16 * 4 + unat c div 64) # b64_char (unat c mod 64)
     # b64_encode bs"

fun sextets_decode :: "nat list \<Rightarrow> bytes" where
  "sextets_decode (p # q # r # s # xs) =
     byte (4 * p + q div 16) # byte (q mod 16 * 16 + r div 4) # byte (r mod 4 * 64 + s)
     # sextets_decode xs"
| "sextets_decode [p, q, r] = [byte (4 * p + q div 16), byte (q mod 16 * 16 + r div 4)]"
| "sextets_decode [p, q] = [byte (4 * p + q div 16)]"
| "sextets_decode _ = []"

text \<open>
  \<open>Buffer.from(s, 'base64')\<close>: characters outside the alphabet, padding included, are
  skipped, and a last group of two or three letters gives one or two bytes.
\<close>

definition b64_decode :: "string \<Rightarrow> bytes" where
  "b64_decode s = sextets_decode (List.map_filter b64_value s)"

lemma b64_value_char: "n < 64 \<Longrightarrow> b64_value (b64_char n) = Some n"
  by (auto simp: b64_value_def b64_char_def is_upper_def is_lower_def is_digit_def code_char_of)

lemma b64_value_pad [simp]: "b64_value CHR ''='' = None"
  by (simp add: b64_value_def is_upper_def is_lower_def is_digit_def code_def)

lemma byte_bounds [simp]:
  "unat (a :: 8 word) div 4 < 64" "unat a mod 4 * 16 < 64" "unat a mod 16 * 4 < 64"
  "unat a mod 64 < 64" "unat a div 16 < 16" "unat a div 64 < 4"
  using unat_byte_less [of a] by (simp_all add: less_mult_imp_div_less)

lemma sextet2_less [simp]: "unat (a :: 8 word) mod 4 * 16 + unat (b :: 8 word) div 16 < 64"
  using byte_bounds(5) [of b] mod_less_divisor [of 4 "unat a"] by linarith

lemma sextet3_less [simp]: "unat (a :: 8 word) mod 16 * 4 + unat (b :: 8 word) div 64 < 64"
  using byte_bounds(6) [of b] mod_less_divisor [of 16 "unat a"] by linarith

lemma byte1: "byte (4 * (unat a div 4) + (unat a mod 4 * 16 + unat (b :: 8 word) div 16) div 16) = a"
  using byte_bounds(5) [of b] by (simp add: div_add1_eq)

lemma byte2: "byte ((unat (a :: 8 word) mod 4 * 16 + unat b div 16) mod 16 * 16
    + (unat b mod 16 * 4 + unat (c :: 8 word) div 64) div 4) = b"
  using byte_bounds(5) [of b] byte_bounds(6) [of c] by (simp add: mod_add_eq)

lemma byte3: "byte ((unat (b :: 8 word) mod 16 * 4 + unat c div 64) mod 4 * 64 + unat c mod 64) = c"
  using byte_bounds(6) [of c] by (simp add: mod_add_eq)

lemma b64_decode_encode: "b64_decode (b64_encode bs) = bs"
proof (induction bs rule: b64_encode.induct)
  case (4 a b c bs)
  then show ?case
    by (simp add: b64_decode_def b64_value_char map_filter_simps byte1 byte2 byte3)
next
  case (3 a b)
  show ?case
    using byte1 [of a b] byte2 [of a b 0]
    by (simp add: b64_decode_def b64_value_char map_filter_simps)
next
  case (2 a)
  show ?case
    using byte1 [of a 0]
    by (simp add: b64_decode_def b64_value_char map_filter_simps)
qed (simp add: b64_decode_def map_filter_simps)

lemma b64_encode_inject [simp]: "b64_encode a = b64_encode b \<longleftrightarrow> a = b"
  by (metis b64_decode_encode)

lemma length_b64_encode: "length (b64_encode bs) = 4 * ((length bs + 2) div 3)"
proof (induction bs rule: b64_encode.induct)
  case (4 a b c bs)
  have "(5 + length bs) div 3 = Suc ((2 + length bs) div 3)"
    using div_add_self1 [of 3 "2 + length bs"] by (simp add: add.commute)
  with 4 show ?case by (simp add: add.commute)
qed auto

section \<open>Patterns of the source\<close>

definition is_b64_letter :: "char \<Rightarrow> bool" where
  "is_b64_letter c \<longleftrightarrow> is_upper c \<or> is_lower c \<or> is_digit c \<or> code c = 43 \<or> code c = 47"

definition pad_length :: "string \<Rightarrow> nat" where
  "pad_length s = length (takeWhile (\<lambda>c. c = CHR ''='') (rev s))"

text \<open>\<open>/^[A-Za-z0-9+/]+={0,2}$/\<close>\<close>

definition is_base64 :: "string \<Rightarrow> bool" where
  "is_base64 s \<longleftrightarrow>
     pad_length s \<le> 2 \<and> pad_length s < length s
     \<and> list_all is_b64_letter (take (length s - pad_length s) s)"

text \<open>\<open>/^[0-9a-fA-F]+$/\<close>\<close>

definition is_hex_string :: "string \<Rightarrow> bool" where
  "is_hex_string s \<longleftrightarrow> s \<noteq> [] \<and> list_all is_hex s"

text \<open>\<open>/^[a-f0-9]{n}$/\<close>\<close>

definition is_lower_hex_of :: "nat \<Rightarrow> string \<Rightarrow> bool" where
  "is_lower_hex_of n s \<longleftrightarrow> length s = n \<and> list_all is_hex_lower s"

lemma is_lower_hex_of_encode [simp]: "is_lower_hex_of n (hex_encode bs) \<longleftrightarrow> n = 2 * length bs"
  by (auto simp: is_lower_hex_of_def hex_encode_lower)

section \<open>Base64url\<close>

text \<open>\<open>buffer.toString('base64url')\<close>: no padding, and the two URL-safe letters.\<close>

definition url_letter :: "char \<Rightarrow> char" where
  "url_letter c = (if c = CHR ''+'' then CHR ''-'' else if c = CHR ''/'' then CHR ''_'' else c)"

definition b64url_encode :: "bytes \<Rightarrow> string" where
  "b64url_encode bs = map url_letter (filter (\<lambda>c. c \<noteq> CHR ''='') (b64_encode bs))"

text \<open>\<open>/^[A-Za-z0-9_-]+$/\<close>\<close>

definition is_b64url :: "string \<Rightarrow> bool" where
  "is_b64url s \<longleftrightarrow>
     s \<noteq> [] \<and> list_all (\<lambda>c. is_upper c \<or> is_lower c \<or> is_digit c \<or> c = CHR ''_'' \<or> c = CHR ''-'') s"

definition b64_letters :: "string \<Rightarrow> bool" where
  "b64_letters s \<longleftrightarrow> list_all (\<lambda>c. is_b64_letter c \<or> c = CHR ''='') s"

lemma b64_char_letter: "n < 64 \<Longrightarrow> is_b64_letter (b64_char n)"
  by (auto simp: is_b64_letter_def b64_char_def is_upper_def is_lower_def is_digit_def code_char_of)

lemma b64_encode_letters: "b64_letters (b64_encode bs)"
  by (induction bs rule: b64_encode.induct) (simp_all add: b64_letters_def b64_char_letter)

lemma pad_length_pads: "list_all is_b64_letter ls \<Longrightarrow> pad_length (ls @ replicate n (CHR ''='')) = n"
proof -
  assume l: "list_all is_b64_letter ls"
  have e: "\<not> is_b64_letter (CHR ''='')" by code_simp
  have "takeWhile (\<lambda>c. c = CHR ''='') (replicate n (CHR ''='') @ rev ls) = replicate n (CHR ''='') @ takeWhile (\<lambda>c. c = CHR ''='') (rev ls)"
    by (rule takeWhile_append2) auto
  moreover have "takeWhile (\<lambda>c. c = CHR ''='') (rev ls) = []"
    using l e by (cases ls rule: rev_cases) auto
  ultimately show ?thesis by (simp add: pad_length_def)
qed

lemma b64_shape: "\<exists>ls n. b64_encode bs = ls @ replicate n (CHR ''='') \<and> n \<le> 2 \<and> list_all is_b64_letter ls \<and> (bs \<noteq> [] \<longrightarrow> ls \<noteq> [])"
proof (induction bs rule: b64_encode.induct)
  case 1
  show ?case by (intro exI [of _ "[]"] exI [of _ 0]) simp
next
  case (2 a)
  show ?case by (intro exI [of _ "[b64_char (unat a div 4), b64_char (unat a mod 4 * 16)]"] exI [of _ 2])
      (simp add: numeral_2_eq_2 b64_char_letter)
next
  case (3 a b)
  show ?case by (intro exI [of _ "take 3 (b64_encode [a, b])"] exI [of _ 1]) (simp add: b64_char_letter)
next
  case (4 a b c bs)
  then obtain ls n where "b64_encode bs = ls @ replicate n (CHR ''='')" "n \<le> 2" "list_all is_b64_letter ls" by blast
  then show ?case by (intro exI [of _ "take 4 (b64_encode (a # b # c # bs)) @ ls"] exI [of _ n]) (simp add: b64_char_letter)
qed

lemma is_base64_encode: "bs \<noteq> [] \<Longrightarrow> is_base64 (b64_encode bs)"
  using b64_shape [of bs] pad_length_pads by (auto simp: is_base64_def)

lemma b64_value_url_letter: "b64_value (url_letter c) = b64_value c"
  by (simp add: url_letter_def b64_value_def is_upper_def is_lower_def is_digit_def code_def)

lemma b64_decode_url: "b64_decode (b64url_encode bs) = bs"
proof -
  have "List.map_filter b64_value (map url_letter (filter (\<lambda>c. c \<noteq> CHR ''='') s)) = List.map_filter b64_value s"
    for s
    by (induction s) (auto simp: map_filter_simps b64_value_url_letter split: option.splits)
  then have "b64_decode (b64url_encode bs) = b64_decode (b64_encode bs)"
    by (simp add: b64_decode_def b64url_encode_def)
  then show ?thesis by (simp add: b64_decode_encode)
qed

lemma url_letter_ok:
  "is_b64_letter c \<Longrightarrow>
     is_upper (url_letter c) \<or> is_lower (url_letter c) \<or> is_digit (url_letter c)
     \<or> url_letter c = CHR ''_'' \<or> url_letter c = CHR ''-''"
proof -
  assume c: "is_b64_letter c"
  have "c = CHR ''+''" if "code c = 43"
    by (rule char_eqI) (simp add: that, simp add: code_def)
  moreover have "c = CHR ''/''" if "code c = 47"
    by (rule char_eqI) (simp add: that, simp add: code_def)
  ultimately show ?thesis
    using c by (cases "code c = 43"; cases "code c = 47")
      (auto simp: is_b64_letter_def url_letter_def)
qed

lemma is_b64url_encode: "bs \<noteq> [] \<Longrightarrow> is_b64url (b64url_encode bs)"
proof -
  assume ne: "bs \<noteq> []"
  have "b64url_encode bs \<noteq> []"
    using b64_decode_url [of bs] ne by (auto simp: b64_decode_def map_filter_simps)
  moreover have "list_all (\<lambda>c. is_upper c \<or> is_lower c \<or> is_digit c \<or> c = CHR ''_'' \<or> c = CHR ''-'')
      (map url_letter (filter (\<lambda>c. c \<noteq> CHR ''='') s))" if "b64_letters s" for s
    using that by (induction s) (auto simp: b64_letters_def dest: url_letter_ok)
  ultimately show ?thesis
    using b64_encode_letters [of bs] by (simp add: is_b64url_def b64url_encode_def)
qed

lemma length_unpadded:
  "length (filter (\<lambda>c. c \<noteq> CHR ''='') (b64_encode bs)) = (4 * length bs + 2) div 3"
proof -
  have np: "n < 64 \<Longrightarrow> b64_char n \<noteq> CHR ''=''" for n
    using b64_value_char [of n] by (metis b64_value_pad option.distinct(1))
  show ?thesis
  proof (induction bs rule: b64_encode.induct)
    case (4 a b c bs)
    have "(4 * (3 + length bs) + 2) div 3 = 4 + (4 * length bs + 2) div 3"
      using div_mult_self1 [of 3 "4 * length bs + 2" 4] by (simp add: algebra_simps)
    with 4 show ?case by (simp add: np)
  qed (simp_all add: np)
qed

lemma length_b64url [simp]: "length (b64url_encode bs) = (4 * length bs + 2) div 3"
  by (simp add: b64url_encode_def length_unpadded)


end
