(* ===== verification/Json.thy ===== *)
theory Json
  imports Js_Text "HOL-Library.Monad_Syntax"
begin

text \<open>
  JSON as the handlers see it: the value type of a parsed body with the readers that the
  schemas are made of, and \<open>JSON.stringify\<close> on arrays of scalars, the canonical form
  that every signed payload of the program has. The second half shows that this form is
  injective: two different payloads never have the same bytes.
\<close>

section \<open>Values and schema readers\<close>

datatype json = JNull | JBool bool | JInt int | JFloat string | JStr string
  | JArr "json list" | JObj "(string \<times> json) list"

text \<open>\<open>z.object\<close> reads a field; an absent key is \<open>undefined\<close>.\<close>

definition is_obj :: "json \<Rightarrow> bool" where
  "is_obj j \<longleftrightarrow> (case j of JObj _ \<Rightarrow> True | _ \<Rightarrow> False)"

definition field :: "string \<Rightarrow> json \<Rightarrow> json option" where
  "field k j = (case j of JObj fs \<Rightarrow> map_of fs k | _ \<Rightarrow> None)"

definition required :: "string \<Rightarrow> (json \<Rightarrow> 'a option) \<Rightarrow> json \<Rightarrow> 'a option" where
  "required k p j = Option.bind (field k j) p"

definition optional :: "string \<Rightarrow> (json \<Rightarrow> 'a option) \<Rightarrow> json \<Rightarrow> 'a option option" where
  "optional k p j =
     (if is_obj j then (case field k j of None \<Rightarrow> Some None | Some v \<Rightarrow> map_option Some (p v))
      else None)"

definition nullable :: "(json \<Rightarrow> 'a option) \<Rightarrow> json \<Rightarrow> 'a option option" where
  "nullable p v = (if v = JNull then Some None else map_option Some (p v))"

text \<open>\<open>.strict()\<close>: no other key.\<close>

definition only_keys :: "string list \<Rightarrow> json \<Rightarrow> bool" where
  "only_keys ks j \<longleftrightarrow> (case j of JObj fs \<Rightarrow> list_all (\<lambda>e. fst e \<in> set ks) fs | _ \<Rightarrow> False)"

definition must :: "bool \<Rightarrow> unit option" where
  "must b = (if b then Some () else None)"

definition as_string :: "json \<Rightarrow> string option" where
  "as_string j = (case j of JStr s \<Rightarrow> Some s | _ \<Rightarrow> None)"

definition string_where :: "(string \<Rightarrow> bool) \<Rightarrow> json \<Rightarrow> string option" where
  "string_where p j = (case j of JStr s \<Rightarrow> if p s then Some s else None | _ \<Rightarrow> None)"

definition as_bool :: "json \<Rightarrow> bool option" where
  "as_bool j = (case j of JBool b \<Rightarrow> Some b | _ \<Rightarrow> None)"

text \<open>\<open>z.number().int()\<close> takes safe integers.\<close>

definition max_safe_integer :: int where
  "max_safe_integer = 9007199254740991"

definition int_where :: "(int \<Rightarrow> bool) \<Rightarrow> json \<Rightarrow> int option" where
  "int_where p j =
     (case j of JInt n \<Rightarrow> if \<bar>n\<bar> \<le> max_safe_integer \<and> p n then Some n else None | _ \<Rightarrow> None)"

definition array_of :: "(json \<Rightarrow> 'a option) \<Rightarrow> json \<Rightarrow> 'a list option" where
  "array_of p j = (case j of JArr xs \<Rightarrow> those (map p xs) | _ \<Rightarrow> None)"

lemma must_True [simp]: "must True = Some ()"
  and must_False [simp]: "must False = None"
  by (simp_all add: must_def)

lemma must_Some_iff [simp]: "must b = Some u \<longleftrightarrow> b"
  by (simp add: must_def)

lemma string_where_Some: "string_where p j = Some s \<longleftrightarrow> j = JStr s \<and> p s"
  by (auto simp: string_where_def split: json.splits)

lemma as_string_Some: "as_string j = Some s \<longleftrightarrow> j = JStr s"
  by (auto simp: as_string_def split: json.splits)

lemma int_where_Some:
  "int_where p j = Some n \<longleftrightarrow> j = JInt n \<and> \<bar>n\<bar> \<le> max_safe_integer \<and> p n"
  by (auto simp: int_where_def split: json.splits)

lemma those_length: "those xs = Some ys \<Longrightarrow> length ys = length xs"
  by (induction xs arbitrary: ys) (auto split: option.splits)

lemma those_all: "those (map p xs) = Some ys \<Longrightarrow> y \<in> set ys \<Longrightarrow> \<exists>x \<in> set xs. p x = Some y"
  by (induction xs arbitrary: ys) (auto split: option.splits)

section \<open>JSON text of scalar arrays\<close>

datatype scalar = SNull | SBool bool | SInt int | SStr string

definition quote_char :: char where "quote_char = char_of (34 :: nat)"
definition backslash :: char where "backslash = char_of (92 :: nat)"

definition escape_char :: "char \<Rightarrow> string" where
  "escape_char c =
     (if code c = 34 \<or> code c = 92 then [backslash, c]
      else if code c = 8 then [backslash, CHR ''b'']
      else if code c = 9 then [backslash, CHR ''t'']
      else if code c = 10 then [backslash, CHR ''n'']
      else if code c = 12 then [backslash, CHR ''f'']
      else if code c = 13 then [backslash, CHR ''r'']
      else if code c < 32 then
        [backslash, CHR ''u'', CHR ''0'', CHR ''0'', hex_digit (code c div 16), hex_digit (code c mod 16)]
      else [c])"

definition json_string :: "string \<Rightarrow> string" where
  "json_string s = quote_char # concat (map escape_char s) @ [quote_char]"

fun show_nat :: "nat \<Rightarrow> string" where
  "show_nat n = (if n < 10 then [char_of (48 + n)]
     else show_nat (n div 10) @ [char_of (48 + n mod 10)])"

declare show_nat.simps [simp del]

definition show_int :: "int \<Rightarrow> string" where
  "show_int i = (if i < 0 then CHR ''-'' # show_nat (nat (- i)) else show_nat (nat i))"

fun show_scalar :: "scalar \<Rightarrow> string" where
  "show_scalar SNull = ''null''"
| "show_scalar (SBool b) = (if b then ''true'' else ''false'')"
| "show_scalar (SInt i) = show_int i"
| "show_scalar (SStr s) = json_string s"

fun show_elems :: "scalar list \<Rightarrow> string" where
  "show_elems [] = '']''"
| "show_elems [v] = show_scalar v @ '']''"
| "show_elems (v # w # vs) = show_scalar v @ CHR '','' # show_elems (w # vs)"

definition json_array :: "scalar list \<Rightarrow> string" where
  "json_array vs = CHR ''['' # show_elems vs"

section \<open>Injectivity\<close>

lemma code_quote [simp]: "code quote_char = 34"
  and code_backslash [simp]: "code backslash = 92"
  by (simp_all add: quote_char_def backslash_def code_char_of)

lemma code_lits [simp]:
  "code CHR ''b'' = 98" "code CHR ''t'' = 116" "code CHR ''n'' = 110" "code CHR ''f'' = 102"
  "code CHR ''r'' = 114" "code CHR ''u'' = 117" "code CHR ''0'' = 48" "code CHR '','' = 44"
  "code CHR '']'' = 93" "code CHR ''-'' = 45"
  by (simp_all add: code_def)

lemma hex_digit_inject: "m < 16 \<Longrightarrow> n < 16 \<Longrightarrow> hex_digit m = hex_digit n \<longleftrightarrow> m = n"
  by (metis hex_value_digit option.inject)

lemma escape_char_not_Nil [simp]: "escape_char c \<noteq> []"
  by (simp add: escape_char_def)

lemma escape_char_plain: "escape_char c = [c] \<longleftrightarrow> 32 \<le> code c \<and> code c \<noteq> 34 \<and> code c \<noteq> 92"
  by (auto simp: escape_char_def)

text \<open>What follows the backslash.\<close>

definition escape_tail :: "nat \<Rightarrow> string" where
  "escape_tail n =
     (if n = 34 \<or> n = 92 then [char_of n]
      else if n = 8 then [CHR ''b'']
      else if n = 9 then [CHR ''t'']
      else if n = 10 then [CHR ''n'']
      else if n = 12 then [CHR ''f'']
      else if n = 13 then [CHR ''r'']
      else [CHR ''u'', CHR ''0'', CHR ''0'', hex_digit (n div 16), hex_digit (n mod 16)])"

lemma escape_char_escaped: "escape_char c \<noteq> [c] \<Longrightarrow> escape_char c = backslash # escape_tail (code c)"
  unfolding escape_char_plain by (auto simp: escape_char_def escape_tail_def)

lemma escape_char_start:
  assumes "escape_char c = d # s"
  shows "d \<noteq> quote_char"
proof
  assume q: "d = quote_char"
  show False
  proof (cases "escape_char c = [c]")
    case True
    with assms q have "code c = 34" by simp
    with True show False by (simp add: escape_char_plain)
  next
    case False
    then have "d = backslash" using assms escape_char_escaped [of c] by simp
    with q have "code quote_char = code backslash" by simp
    then show False by simp
  qed
qed

definition escape_code :: "nat \<Rightarrow> nat" where
  "escape_code n =
     (if n = 34 \<or> n = 92 then n else if n = 8 then 98 else if n = 9 then 116 else if n = 10 then 110
      else if n = 12 then 102 else if n = 13 then 114 else 117)"

lemma escape_tail_code: "n < 256 \<Longrightarrow> \<exists>r. escape_tail n = char_of (escape_code n) # r"
  by (auto simp: escape_tail_def escape_code_def intro!: char_eqI simp: code_char_of)

lemma escape_tail_prefix:
  assumes "escape_tail m @ s = escape_tail n @ t" and "m < 256" and "n < 256"
  shows "m = n"
proof -
  have b: "m div 16 < 16" "m mod 16 < 16" "n div 16 < 16" "n mod 16 < 16"
    using assms(2,3) by (auto simp: less_mult_imp_div_less)
  obtain p q where "escape_tail m = char_of (escape_code m) # p" "escape_tail n = char_of (escape_code n) # q"
    using escape_tail_code assms(2,3) by metis
  with assms(1) have "code (char_of (escape_code m)) = code (char_of (escape_code n))" by simp
  moreover have "escape_code m < 256" "escape_code n < 256"
    using assms(2,3) by (simp_all add: escape_code_def)
  ultimately have same: "escape_code m = escape_code n" by (simp add: code_char_of)
  show ?thesis
  proof (cases "escape_code m = 117")
    case True
    have u: "escape_tail k = [CHR ''u'', CHR ''0'', CHR ''0'', hex_digit (k div 16), hex_digit (k mod 16)]"
      if "escape_code k = 117" for k
      using that by (simp add: escape_code_def escape_tail_def split: if_splits)
    from u [OF True] u [OF True [unfolded same]] assms(1)
    have "hex_digit (m div 16) = hex_digit (n div 16)" "hex_digit (m mod 16) = hex_digit (n mod 16)" by auto
    then have "m div 16 = n div 16" "m mod 16 = n mod 16" using b by (simp_all add: hex_digit_inject)
    then show ?thesis by (metis div_mod_decomp)
  next
    case False
    with same show ?thesis by (simp add: escape_code_def split: if_splits)
  qed
qed

lemma escape_control_prefix:
  assumes eq: "escape_char c @ s = escape_char d @ t"
    and c: "escape_char c \<noteq> [c]" and d: "escape_char d \<noteq> [d]"
  shows "c = d"
proof -
  have "escape_tail (code c) @ s = escape_tail (code d) @ t"
    using eq by (simp add: escape_char_escaped [OF c] escape_char_escaped [OF d])
  from escape_tail_prefix [OF this code_less code_less] show ?thesis by simp
qed

lemma escape_char_prefix:
  assumes "escape_char c @ s = escape_char d @ t"
  shows "c = d \<and> s = t"
proof -
  have plain: "escape_char d = [d]" if "escape_char c = [c]" "escape_char c @ s = escape_char d @ t"
    for c d :: char and s t
  proof (rule ccontr)
    assume "escape_char d \<noteq> [d]"
    then have "c = backslash" using that escape_char_escaped [of d] by simp
    with that(1) show False by (simp add: escape_char_plain)
  qed
  show ?thesis
  proof (cases "escape_char c = [c]")
    case True
    with plain [OF True assms] assms show ?thesis by simp
  next
    case False
    then have d: "escape_char d \<noteq> [d]" using plain [of d t c s] assms by metis
    from escape_control_prefix [OF assms False d] assms show ?thesis by simp
  qed
qed

lemma escape_body_prefix:
  "concat (map escape_char s) @ quote_char # x = concat (map escape_char t) @ quote_char # y \<Longrightarrow>
     s = t \<and> x = y"
proof (induction s arbitrary: t)
  case Nil
  show ?case
  proof (cases t)
    case (Cons d t')
    obtain e r where e: "escape_char d = e # r" by (meson escape_char_not_Nil list.exhaust)
    with Nil Cons have "e = quote_char" by simp
    with escape_char_start [OF e] show ?thesis by simp
  qed (use Nil in simp)
next
  case (Cons c s)
  show ?case
  proof (cases t)
    case Nil
    obtain e r where e: "escape_char c = e # r" by (meson escape_char_not_Nil list.exhaust)
    with Nil Cons.prems have "e = quote_char" by simp
    with escape_char_start [OF e] show ?thesis by simp
  next
    case (Cons d t')
    with Cons.prems have
      "escape_char c @ (concat (map escape_char s) @ quote_char # x) =
       escape_char d @ (concat (map escape_char t') @ quote_char # y)" by simp
    from escape_char_prefix [OF this] Cons.IH [of t'] Cons show ?thesis by blast
  qed
qed

lemma json_string_prefix: "json_string s @ x = json_string t @ y \<Longrightarrow> s = t \<and> x = y"
  by (simp add: json_string_def) (rule escape_body_prefix)

subsection \<open>Numbers\<close>

lemma digit_char: "(n :: nat) < 10 \<Longrightarrow> is_digit (char_of (48 + n))"
  by (simp add: is_digit_def code_char_of)

lemma show_nat_digits: "list_all is_digit (show_nat n)"
proof (induction n rule: show_nat.induct)
  case (1 n)
  show ?case
    by (cases "n < 10") (simp_all add: show_nat.simps [of n] digit_char 1)
qed

definition read_nat :: "string \<Rightarrow> nat" where
  "read_nat s = foldl (\<lambda>a c. 10 * a + (code c - 48)) 0 s"

lemma read_show_nat: "read_nat (show_nat n) = n"
proof (induction n rule: show_nat.induct)
  case (1 n)
  show ?case
    by (cases "n < 10") (simp_all add: show_nat.simps [of n] read_nat_def code_char_of 1 [unfolded read_nat_def])
qed

lemma show_nat_not_Nil [simp]: "show_nat n \<noteq> []"
  by (simp add: show_nat.simps [of n])

lemma digits_prefix:
  assumes "list_all is_digit s" "list_all is_digit t" "\<not> is_digit a" "\<not> is_digit b"
    and "s @ a # x = t @ b # y"
  shows "s = t \<and> a = b \<and> x = y"
proof -
  have "takeWhile is_digit (s @ a # x) = s" "takeWhile is_digit (t @ b # y) = t"
    using assms(1-4) by (simp_all add: list_all_iff takeWhile_append)
  with assms(5) show ?thesis by auto
qed

lemma minus_not_digit [simp]: "\<not> is_digit CHR ''-''"
  by (simp add: is_digit_def)

lemma show_nat_hd: "show_nat n = c # s \<Longrightarrow> is_digit c"
  using show_nat_digits [of n] by simp

lemma show_int_prefix:
  assumes "\<not> is_digit a" "\<not> is_digit b" and eq: "show_int i @ a # x = show_int j @ b # y"
  shows "i = j \<and> a = b \<and> x = y"
proof -
  have nat_case: "m = n \<and> a = b \<and> x = y" if "show_nat m @ a # x = show_nat n @ b # y" for m n
    using digits_prefix [OF show_nat_digits show_nat_digits assms(1,2) that] by (metis read_show_nat)
  have mixed: False if "CHR ''-'' # u = show_nat n @ v" for u v n
    using that show_nat_hd [of n "CHR ''-''"] by (cases "show_nat n") auto
  consider "i < 0" "j < 0" | "i < 0" "0 \<le> j" | "0 \<le> i" "j < 0" | "0 \<le> i" "0 \<le> j" by linarith
  then show ?thesis
  proof cases
    case 1
    with eq nat_case [of "nat (- i)" "nat (- j)"] have "nat (- i) = nat (- j) \<and> a = b \<and> x = y"
      by (simp add: show_int_def)
    with 1 show ?thesis by (auto simp: nat_eq_iff2)
  next
    case 2
    with eq mixed show ?thesis by (simp add: show_int_def)
  next
    case 3
    with eq [symmetric] mixed show ?thesis by (simp add: show_int_def)
  next
    case 4
    with eq nat_case [of "nat i" "nat j"] have "nat i = nat j \<and> a = b \<and> x = y"
      by (simp add: show_int_def)
    with 4 show ?thesis by (auto simp: eq_nat_nat_iff)
  qed
qed

subsection \<open>Arrays\<close>

definition is_delim :: "char \<Rightarrow> bool" where
  "is_delim c \<longleftrightarrow> c = CHR '','' \<or> c = CHR '']''"

lemma delim_not_digit: "is_delim c \<Longrightarrow> \<not> is_digit c"
  by (auto simp: is_delim_def is_digit_def)

lemma show_int_hd: "show_int i = c # s \<Longrightarrow> is_digit c \<or> c = CHR ''-''"
  using show_nat_hd by (fastforce simp: show_int_def split: if_splits)

text \<open>The first character tells the kind of a scalar.\<close>

fun scalar_starts :: "scalar \<Rightarrow> char \<Rightarrow> bool" where
  "scalar_starts SNull c = (c = CHR ''n'')"
| "scalar_starts (SBool b) c = (c = (if b then CHR ''t'' else CHR ''f''))"
| "scalar_starts (SInt i) c = (is_digit c \<or> c = CHR ''-'')"
| "scalar_starts (SStr s) c = (c = quote_char)"

lemma show_scalar_start: "\<exists>c s. show_scalar v = c # s \<and> scalar_starts v c"
proof (cases v)
  case (SInt i)
  obtain c s where "show_int i = c # s" by (cases "show_int i") (auto simp: show_int_def split: if_splits)
  with show_int_hd SInt show ?thesis by auto
qed (auto simp: json_string_def)

lemma scalar_starts_Null: "scalar_starts SNull c \<Longrightarrow> code c = 110"
  and scalar_starts_Bool: "scalar_starts (SBool b) c \<Longrightarrow> code c = (if b then 116 else 102)"
  and scalar_starts_Int: "scalar_starts (SInt i) c \<Longrightarrow> code c < 58 \<and> code c \<noteq> 34 \<and> code c \<noteq> 44"
  and scalar_starts_Str: "scalar_starts (SStr s) c \<Longrightarrow> code c = 34"
  by (auto simp: is_digit_def split: if_splits)

lemmas scalar_starts_code = scalar_starts_Null scalar_starts_Bool scalar_starts_Int scalar_starts_Str

lemma scalar_not_delim:
  assumes "scalar_starts v c"
  shows "code c \<noteq> 93"
proof (cases v)
  case SNull with assms scalar_starts_Null [of c] show ?thesis by simp
next
  case (SBool b) with assms scalar_starts_Bool [of b c] show ?thesis by (cases b) simp_all
next
  case (SInt i) with assms scalar_starts_Int [of i c] show ?thesis by simp
next
  case (SStr s) with assms scalar_starts_Str [of s c] show ?thesis by simp
qed

definition scalar_kind :: "scalar \<Rightarrow> nat" where
  "scalar_kind v = (case v of SNull \<Rightarrow> 0 | SBool b \<Rightarrow> if b then 1 else 2 | SInt _ \<Rightarrow> 3 | SStr _ \<Rightarrow> 4)"

lemma scalar_starts_kind:
  assumes "scalar_starts v c"
  shows "scalar_kind v = (if code c = 110 then 0 else if code c = 116 then 1 else if code c = 102 then 2
    else if code c = 34 then 4 else 3)"
proof (cases v)
  case SNull with assms scalar_starts_Null [of c] show ?thesis by (simp add: scalar_kind_def)
next
  case (SBool b) with assms scalar_starts_Bool [of b c] show ?thesis by (cases b) (simp_all add: scalar_kind_def)
next
  case (SInt i) with assms scalar_starts_Int [of i c] show ?thesis by (simp add: scalar_kind_def)
next
  case (SStr s) with assms scalar_starts_Str [of s c] show ?thesis by (simp add: scalar_kind_def)
qed

lemma show_scalar_prefix:
  assumes eq: "show_scalar v @ a # x = show_scalar w @ b # y" and d: "is_delim a" "is_delim b"
  shows "v = w \<and> a = b \<and> x = y"
proof -
  obtain c s where c: "show_scalar v = c # s" "scalar_starts v c" using show_scalar_start [of v] by blast
  obtain c' s' where c': "show_scalar w = c' # s'" "scalar_starts w c'" using show_scalar_start [of w] by blast
  from eq c(1) c'(1) have "c = c'" by simp
  with scalar_starts_kind [OF c(2)] scalar_starts_kind [OF c'(2)] have kind: "scalar_kind v = scalar_kind w" by simp
  note nd = delim_not_digit [OF d(1)] delim_not_digit [OF d(2)]
  show ?thesis
  proof (cases v)
    case (SInt i)
    with kind obtain j where "w = SInt j" by (cases w) (auto simp: scalar_kind_def split: if_splits)
    with SInt eq show_int_prefix [OF nd, of i x j y] show ?thesis by simp
  next
    case (SStr t)
    with kind obtain u where "w = SStr u" by (cases w) (auto simp: scalar_kind_def split: if_splits)
    with SStr eq json_string_prefix [of t "a # x" u "b # y"] show ?thesis by simp
  next
    case (SBool p)
    with kind have "w = SBool p" by (cases w) (auto simp: scalar_kind_def split: if_splits)
    with SBool eq show ?thesis by simp
  next
    case SNull
    with kind have "w = SNull" by (cases w) (auto simp: scalar_kind_def split: if_splits)
    with SNull eq show ?thesis by simp
  qed
qed

lemma show_elems_Nil_Cons: "show_elems [] \<noteq> show_elems (v # vs)"
proof
  assume e: "show_elems [] = show_elems (v # vs)"
  obtain c s where "show_scalar v = c # s" "scalar_starts v c" using show_scalar_start by metis
  with e scalar_not_delim [of v c] show False by (cases vs) auto
qed

lemma delims [simp]: "is_delim CHR '']''" "is_delim CHR '',''"
  by (simp_all add: is_delim_def)

lemma show_elems_inject: "show_elems vs = show_elems ws \<Longrightarrow> vs = ws"
proof (induction vs arbitrary: ws rule: show_elems.induct)
  case 1
  then show ?case using show_elems_Nil_Cons by (cases ws) auto
next
  case (2 v)
  then obtain w ws' where ws: "ws = w # ws'" using show_elems_Nil_Cons by (metis list.exhaust)
  show ?case
  proof (cases ws')
    case Nil
    with 2 ws show_scalar_prefix [of v "CHR '']''" "[]" w "CHR '']''" "[]"] show ?thesis by simp
  next
    case (Cons u us)
    with 2 ws show_scalar_prefix [of v "CHR '']''" "[]" w "CHR '',''" "show_elems (u # us)"]
    show ?thesis by simp
  qed
next
  case (3 v v' vs)
  then obtain w ws' where ws: "ws = w # ws'" using show_elems_Nil_Cons by (metis list.exhaust)
  show ?case
  proof (cases ws')
    case Nil
    with 3 ws show_scalar_prefix [of v "CHR '',''" "show_elems (v' # vs)" w "CHR '']''" "[]"]
    show ?thesis by simp
  next
    case (Cons u us)
    with 3 ws show_scalar_prefix [of v "CHR '',''" "show_elems (v' # vs)" w "CHR '',''" "show_elems (u # us)"]
    show ?thesis by simp
  qed
qed

theorem json_array_inject: "json_array vs = json_array ws \<longleftrightarrow> vs = ws"
  by (auto simp: json_array_def dest: show_elems_inject)

end
