(* ===== verification/Protocol.thy ===== *)
theory Protocol
  imports Json
begin

text \<open>
  \<open>packages/protocol\<close>: the schemas that the relay and the daemon share, each as a reader from a
  parsed JSON value to a record (\<open>None\<close> where \<open>parse\<close> throws or \<open>safeParse\<close> fails), the
  relay origin check, the public UID, the signed payloads and the serverless invite. The
  third-party checks \<open>.uuid()\<close> and \<open>.datetime()\<close> and the cryptographic primitives are
  parameters.
\<close>

section \<open>Relay origins\<close>

text \<open>The fields of a parsed \<open>URL\<close> that the code reads.\<close>

record url =
  u_protocol :: string
  u_hostname :: string
  u_port :: string
  u_username :: string
  u_password :: string
  u_pathname :: string
  u_search :: string
  u_hash :: string
  u_origin :: string
  u_params :: "(string \<times> string) list"

definition hex_any :: "char \<Rightarrow> bool" where
  "hex_any c \<longleftrightarrow> is_hex_lower c \<or> is_hex_upper c"

text \<open>\<open>/^172\.(?:1[6-9]|2\d|3[01])\./\<close>\<close>

definition private_172 :: "string \<Rightarrow> bool" where
  "private_172 h \<longleftrightarrow>
     starts_with ''172.'' h \<and>
     (case drop 4 h of
        a # b # c # _ \<Rightarrow> c = CHR ''.'' \<and>
          (a = CHR ''1'' \<and> 54 \<le> code b \<and> code b \<le> 57 \<or> a = CHR ''2'' \<and> is_digit b
           \<or> a = CHR ''3'' \<and> (b = CHR ''0'' \<or> b = CHR ''1''))
      | _ \<Rightarrow> False)"

text \<open>\<open>/^\[f[cd][a-f0-9]{2}:/i\<close>\<close>

definition unique_local_v6 :: "string \<Rightarrow> bool" where
  "unique_local_v6 h \<longleftrightarrow>
     (case h of
        a # b # c # d # e # f # _ \<Rightarrow>
          a = CHR ''['' \<and> lower_char b = CHR ''f'' \<and>
          (lower_char c = CHR ''c'' \<or> lower_char c = CHR ''d'') \<and> hex_any d \<and> hex_any e \<and> f = CHR '':''
      | _ \<Rightarrow> False)"

definition is_local_host :: "string \<Rightarrow> bool" where
  "is_local_host h \<longleftrightarrow>
     h \<in> {''127.0.0.1'', ''[::1]'', ''localhost''} \<or> starts_with ''10.'' h \<or> starts_with ''192.168.'' h
     \<or> private_172 h \<or> unique_local_v6 h"

text \<open>\<open>parse_url\<close> is \<open>new URL\<close>, \<open>None\<close> where it throws.\<close>

definition normalize_relay_url :: "(string \<Rightarrow> url option) \<Rightarrow> string \<Rightarrow> bool \<Rightarrow> string option" where
  "normalize_relay_url parse_url v allow_local_http =
     (case parse_url v of
        None \<Rightarrow> None
      | Some u \<Rightarrow>
          if (u_protocol u \<noteq> ''https:'' \<and>
                \<not> (allow_local_http \<and> is_local_host (u_hostname u) \<and> u_protocol u = ''http:''))
             \<or> u_username u \<noteq> [] \<or> u_password u \<noteq> [] \<or> u_pathname u \<noteq> ''/''
             \<or> u_search u \<noteq> [] \<or> u_hash u \<noteq> []
          then None else Some (u_origin u))"

lemma normalize_relay_url_Some:
  "normalize_relay_url pu v a = Some r \<longleftrightarrow>
     (\<exists>u. pu v = Some u \<and> r = u_origin u \<and>
        (u_protocol u = ''https:'' \<or> a \<and> is_local_host (u_hostname u) \<and> u_protocol u = ''http:'') \<and>
        u_username u = [] \<and> u_password u = [] \<and> u_pathname u = ''/'' \<and> u_search u = [] \<and> u_hash u = [])"
  by (auto simp: normalize_relay_url_def split: option.splits if_splits)

section \<open>Base schemas\<close>

text \<open>\<open>/^[a-z0-9_]{3,32}$/\<close>\<close>

definition username_ok :: "string \<Rightarrow> bool" where
  "username_ok s \<longleftrightarrow>
     3 \<le> length s \<and> length s \<le> 32 \<and> list_all (\<lambda>c. is_lower c \<or> is_digit c \<or> c = CHR ''_'') s"

definition username_schema :: "json \<Rightarrow> string option" where
  "username_schema j =
     Option.bind (as_string j) (\<lambda>s. let u = to_lower (trim s) in if username_ok u then Some u else None)"

text \<open>\<open>/^CP-[A-F0-9]{4}-[A-F0-9]{4}$/\<close>\<close>

definition public_uid_ok :: "string \<Rightarrow> bool" where
  "public_uid_ok s \<longleftrightarrow>
     length s = 12 \<and> take 3 s = ''CP-'' \<and> list_all is_hex_upper (take 4 (drop 3 s)) \<and>
     s ! 7 = CHR ''-'' \<and> list_all is_hex_upper (drop 8 s)"

definition public_uid_schema :: "json \<Rightarrow> string option" where
  "public_uid_schema j =
     Option.bind (as_string j) (\<lambda>s. let u = to_upper (trim s) in if public_uid_ok u then Some u else None)"

definition contact_identifier_schema :: "json \<Rightarrow> string option" where
  "contact_identifier_schema j =
     (case public_uid_schema j of Some u \<Rightarrow> Some u | None \<Rightarrow> username_schema j)"

definition base64_schema :: "json \<Rightarrow> string option" where
  "base64_schema = string_where is_base64"

definition base64_max :: "nat \<Rightarrow> json \<Rightarrow> string option" where
  "base64_max n = string_where (\<lambda>s. is_base64 s \<and> length s \<le> n)"

definition base64_length :: "nat \<Rightarrow> json \<Rightarrow> string option" where
  "base64_length n = string_where (\<lambda>s. is_base64 s \<and> length s = n)"

definition hex_length :: "nat \<Rightarrow> json \<Rightarrow> string option" where
  "hex_length n = string_where (\<lambda>s. is_hex_string s \<and> length s = n)"

definition lookup_token_schema :: "json \<Rightarrow> string option" where
  "lookup_token_schema = string_where (is_lower_hex_of 64)"

definition string_len :: "nat \<Rightarrow> nat \<Rightarrow> json \<Rightarrow> string option" where
  "string_len lo hi = string_where (\<lambda>s. lo \<le> length s \<and> length s \<le> hi)"

definition nonempty_string :: "json \<Rightarrow> string option" where
  "nonempty_string = string_where (\<lambda>s. s \<noteq> [])"

definition enum_of :: "string list \<Rightarrow> json \<Rightarrow> string option" where
  "enum_of vs = string_where (\<lambda>s. s \<in> set vs)"

definition nonneg_int :: "json \<Rightarrow> int option" where
  "nonneg_int = int_where (\<lambda>n. 0 \<le> n)"

definition positive_int :: "json \<Rightarrow> int option" where
  "positive_int = int_where (\<lambda>n. 0 < n)"

definition int_range :: "int \<Rightarrow> int \<Rightarrow> json \<Rightarrow> int option" where
  "int_range lo hi = int_where (\<lambda>n. lo \<le> n \<and> n \<le> hi)"

definition array_len :: "nat \<Rightarrow> nat \<Rightarrow> (json \<Rightarrow> 'a option) \<Rightarrow> json \<Rightarrow> 'a list option" where
  "array_len lo hi p j =
     Option.bind (array_of p j) (\<lambda>xs. if lo \<le> length xs \<and> length xs \<le> hi then Some xs else None)"

text \<open>\<open>sha256\<close> is \<open>crypto.createHash('sha256')\<close>; \<open>\0\<close> is the NUL character.\<close>

definition nul :: char where "nul = char_of (0 :: nat)"

definition format_public_uid :: "(bytes \<Rightarrow> bytes) \<Rightarrow> string \<Rightarrow> string" where
  "format_public_uid sha256 fingerprint =
     (let hex = to_upper (take 8 (hex_encode (sha256 (utf8 (''cp-public-uid-v1'' @ [nul] @ fingerprint)))))
      in ''CP-'' @ take 4 hex @ ''-'' @ drop 4 hex)"

section \<open>Prekeys\<close>

record one_time_prekey =
  otp_id :: int
  otp_public :: string

record signed_prekey =
  sp_id :: int
  sp_public :: string
  sp_signature :: string

record prekey_bundle =
  pb_identity :: string
  pb_registration :: int
  pb_signed :: signed_prekey
  pb_one_time :: "one_time_prekey option"
  pb_pq_one_time :: "signed_prekey option"
  pb_pq_last_resort :: signed_prekey

definition one_time_prekey_schema :: "json \<Rightarrow> one_time_prekey option" where
  "one_time_prekey_schema j =
     do { i \<leftarrow> required ''id'' nonneg_int j;
          p \<leftarrow> required ''publicKey'' base64_schema j;
          Some \<lparr>otp_id = i, otp_public = p\<rparr> }"

definition signed_prekey_schema :: "json \<Rightarrow> signed_prekey option" where
  "signed_prekey_schema j =
     do { i \<leftarrow> required ''id'' nonneg_int j;
          p \<leftarrow> required ''publicKey'' base64_schema j;
          s \<leftarrow> required ''signature'' base64_schema j;
          Some \<lparr>sp_id = i, sp_public = p, sp_signature = s\<rparr> }"

definition prekey_bundle_schema :: "json \<Rightarrow> prekey_bundle option" where
  "prekey_bundle_schema j =
     do { i \<leftarrow> required ''identityKey'' base64_schema j;
          r \<leftarrow> required ''registrationId'' positive_int j;
          s \<leftarrow> required ''signedPrekey'' signed_prekey_schema j;
          o1 \<leftarrow> required ''oneTimePrekey'' (nullable one_time_prekey_schema) j;
          p \<leftarrow> required ''pqOneTimePrekey'' (nullable signed_prekey_schema) j;
          l \<leftarrow> required ''pqLastResortPrekey'' signed_prekey_schema j;
          Some \<lparr>pb_identity = i, pb_registration = r, pb_signed = s, pb_one_time = o1,
                pb_pq_one_time = p, pb_pq_last_resort = l\<rparr> }"

section \<open>Activation\<close>

record activation =
  ac_request :: string
  ac_code :: string
  ac_device :: string
  ac_auth_key :: string
  ac_identity_key :: string
  ac_registration :: int
  ac_signal_device :: int
  ac_signed :: signed_prekey
  ac_one_time :: "one_time_prekey list"
  ac_pq_one_time :: "signed_prekey list"
  ac_pq_last_resort :: signed_prekey

definition activation_schema :: "(string \<Rightarrow> bool) \<Rightarrow> json \<Rightarrow> activation option" where
  "activation_schema uuid_ok j =
     do { rq \<leftarrow> required ''requestId'' (string_where uuid_ok) j;
          c \<leftarrow> required ''activationCode'' (string_len 20 256) j;
          d \<leftarrow> required ''deviceId'' (string_where uuid_ok) j;
          a \<leftarrow> required ''deviceAuthPublicKey'' base64_schema j;
          i \<leftarrow> required ''signalIdentityPublicKey'' base64_schema j;
          rg \<leftarrow> required ''registrationId'' positive_int j;
          sd \<leftarrow> required ''signalDeviceId'' positive_int j;
          s \<leftarrow> required ''signedPrekey'' signed_prekey_schema j;
          o1 \<leftarrow> required ''oneTimePrekeys'' (array_len 20 200 one_time_prekey_schema) j;
          p \<leftarrow> required ''pqOneTimePrekeys'' (array_len 20 200 signed_prekey_schema) j;
          l \<leftarrow> required ''pqLastResortPrekey'' signed_prekey_schema j;
          Some \<lparr>ac_request = rq, ac_code = c, ac_device = d, ac_auth_key = a, ac_identity_key = i,
                ac_registration = rg, ac_signal_device = sd, ac_signed = s, ac_one_time = o1,
                ac_pq_one_time = p, ac_pq_last_resort = l\<rparr> }"

record challenge_verify =
  cv_device :: string
  cv_challenge :: string
  cv_signature :: string
  cv_hostname :: string

definition challenge_request_schema :: "(string \<Rightarrow> bool) \<Rightarrow> json \<Rightarrow> string option" where
  "challenge_request_schema uuid_ok j = required ''deviceId'' (string_where uuid_ok) j"

definition challenge_verify_schema :: "(string \<Rightarrow> bool) \<Rightarrow> json \<Rightarrow> challenge_verify option" where
  "challenge_verify_schema uuid_ok j =
     do { d \<leftarrow> required ''deviceId'' (string_where uuid_ok) j;
          c \<leftarrow> required ''challenge'' (hex_length 64) j;
          s \<leftarrow> required ''signature'' (hex_length 128) j;
          h \<leftarrow> required ''relayHostname'' nonempty_string j;
          Some \<lparr>cv_device = d, cv_challenge = c, cv_signature = s, cv_hostname = h\<rparr> }"

section \<open>Envelopes\<close>

record capabilities =
  cap_p2p :: "bool option"
  cap_version :: int

record envelope =
  env_id :: string
  env_mailbox :: string
  env_ciphertext :: string
  env_capabilities :: "capabilities option"
  env_type :: "string option"
  env_ttl :: "int option"
  env_created :: "int option"

definition capabilities_schema :: "json \<Rightarrow> capabilities option" where
  "capabilities_schema j =
     do { p \<leftarrow> optional ''supportsWebRtcP2p'' as_bool j;
          v \<leftarrow> required ''protocolVersion'' positive_int j;
          Some \<lparr>cap_p2p = p, cap_version = v\<rparr> }"

definition envelope_types :: "string list" where
  "envelope_types =
     [''MESSAGE'', ''RECEIPT_DELIVERED'', ''RECEIPT_READ'', ''TYPING'', ''ATTACHMENT_CHUNK'']"

definition envelope_id_ok :: "(string \<Rightarrow> bool) \<Rightarrow> string \<Rightarrow> bool" where
  "envelope_id_ok uuid_ok s \<longleftrightarrow> (is_hex_string s \<and> length s = 32) \<or> uuid_ok s"

definition envelope_schema :: "(string \<Rightarrow> bool) \<Rightarrow> json \<Rightarrow> envelope option" where
  "envelope_schema uuid_ok j =
     do { _ \<leftarrow> required ''version'' (int_where (\<lambda>n. n = 1)) j;
          i \<leftarrow> required ''envelopeId'' (string_where (envelope_id_ok uuid_ok)) j;
          m \<leftarrow> required ''mailboxId'' nonempty_string j;
          c \<leftarrow> required ''ciphertext'' base64_schema j;
          cc \<leftarrow> optional ''clientCapabilities'' capabilities_schema j;
          t \<leftarrow> optional ''envelopeType'' (enum_of envelope_types) j;
          l \<leftarrow> optional ''ttlMs'' (int_range 1 2592000000) j;
          cr \<leftarrow> optional ''createdAtMs'' nonneg_int j;
          Some \<lparr>env_id = i, env_mailbox = m, env_ciphertext = c, env_capabilities = cc,
                env_type = t, env_ttl = l, env_created = cr\<rparr> }"

record webrtc_signal =
  ws_signal :: string
  ws_from :: string
  ws_to :: string
  ws_session :: string
  ws_kind :: string
  ws_payload :: string
  ws_ttl :: int
  ws_capabilities :: "capabilities option"

definition signal_kinds :: "string list" where
  "signal_kinds = [''OFFER'', ''ANSWER'', ''ICE_CANDIDATE'', ''HANGUP'']"

definition webrtc_signal_schema :: "(string \<Rightarrow> bool) \<Rightarrow> json \<Rightarrow> webrtc_signal option" where
  "webrtc_signal_schema uuid_ok j =
     do { _ \<leftarrow> must (only_keys [''type'', ''signalId'', ''fromUid'', ''toUid'', ''sessionId'',
            ''signalType'', ''encryptedSignalPayload'', ''ttlMs'', ''clientCapabilities''] j);
          _ \<leftarrow> required ''type'' (enum_of [''WEBRTC_SIGNAL'']) j;
          s \<leftarrow> required ''signalId'' (string_where uuid_ok) j;
          f \<leftarrow> required ''fromUid'' public_uid_schema j;
          t \<leftarrow> required ''toUid'' public_uid_schema j;
          ss \<leftarrow> required ''sessionId'' (string_where uuid_ok) j;
          k \<leftarrow> required ''signalType'' (enum_of signal_kinds) j;
          p \<leftarrow> required ''encryptedSignalPayload''
                 (string_where (\<lambda>s. is_base64 s \<and> 4 \<le> length s \<and> length s \<le> 98304)) j;
          l \<leftarrow> optional ''ttlMs'' (int_range 1 30000) j;
          cc \<leftarrow> optional ''clientCapabilities'' capabilities_schema j;
          Some \<lparr>ws_signal = s, ws_from = f, ws_to = t, ws_session = ss, ws_kind = k, ws_payload = p,
                ws_ttl = (case l of Some n \<Rightarrow> n | None \<Rightarrow> 30000), ws_capabilities = cc\<rparr> }"

record blind_envelope =
  be_id :: string
  be_dropbox :: string
  be_ciphertext :: string

definition blind_envelope_schema :: "(string \<Rightarrow> bool) \<Rightarrow> json \<Rightarrow> blind_envelope option" where
  "blind_envelope_schema uuid_ok j =
     do { _ \<leftarrow> must (only_keys [''envelopeId'', ''blindDropboxId'', ''ciphertext''] j);
          i \<leftarrow> required ''envelopeId'' (string_where uuid_ok) j;
          d \<leftarrow> required ''blindDropboxId'' (string_where (is_lower_hex_of 64)) j;
          c \<leftarrow> required ''ciphertext'' (base64_max 33554432) j;
          Some \<lparr>be_id = i, be_dropbox = d, be_ciphertext = c\<rparr> }"

text \<open>\<open>hmac\<close> is HMAC-SHA256, key first.\<close>

definition blind_dropbox_id :: "(bytes \<Rightarrow> bytes \<Rightarrow> bytes) \<Rightarrow> bytes \<Rightarrow> int \<Rightarrow> string" where
  "blind_dropbox_id hmac secret epoch_hour =
     hex_encode (hmac secret (utf8 (''cp-blind-dropbox-v1:'' @ show_int epoch_hour)))"

section \<open>Vault backups\<close>

record backup_put =
  bp_token :: string
  bp_version :: int
  bp_nonce :: string
  bp_ciphertext :: string
  bp_updated :: string
  bp_fragment :: string
  bp_writer :: string
  bp_signature :: string
  bp_device :: "string option"
  bp_instance :: "string option"
  bp_device_signature :: "string option"
  bp_claim :: bool

definition backup_put_schema ::
  "(string \<Rightarrow> bool) \<Rightarrow> (string \<Rightarrow> bool) \<Rightarrow> json \<Rightarrow> backup_put option" where
  "backup_put_schema uuid_ok datetime_ok j =
     do { t \<leftarrow> required ''lookupToken'' lookup_token_schema j;
          v \<leftarrow> required ''version'' (int_range 1 2147483647) j;
          n \<leftarrow> required ''nonce'' (base64_length 16) j;
          c \<leftarrow> required ''ciphertext'' (base64_max 90177536) j;
          u \<leftarrow> required ''updatedAt'' (string_where datetime_ok) j;
          f \<leftarrow> required ''fragment7Shard'' (base64_max 256) j;
          w \<leftarrow> required ''writerPublicKey'' (base64_max 128) j;
          s \<leftarrow> required ''signature'' (base64_max 128) j;
          d \<leftarrow> optional ''deviceId'' (string_where uuid_ok) j;
          i \<leftarrow> optional ''instanceHash'' lookup_token_schema j;
          ds \<leftarrow> optional ''deviceSignature'' (base64_max 128) j;
          cl \<leftarrow> optional ''claim'' as_bool j;
          Some \<lparr>bp_token = t, bp_version = v, bp_nonce = n, bp_ciphertext = c, bp_updated = u,
                bp_fragment = f, bp_writer = w, bp_signature = s, bp_device = d, bp_instance = i,
                bp_device_signature = ds, bp_claim = (cl = Some True)\<rparr> }"

definition opt_str :: "string option \<Rightarrow> scalar" where
  "opt_str x = (case x of None \<Rightarrow> SNull | Some s \<Rightarrow> SStr s)"

lemma opt_str_inject [simp]: "opt_str x = opt_str y \<longleftrightarrow> x = y"
  by (auto simp: opt_str_def split: option.splits)

definition backup_signing_payload :: "backup_put \<Rightarrow> bytes" where
  "backup_signing_payload b =
     utf8 (json_array [SStr ''cp-backup-write-v1'', SStr (bp_token b), SInt (bp_version b),
       SStr (bp_nonce b), SStr (bp_ciphertext b), SStr (bp_updated b), SStr (bp_fragment b),
       SStr (bp_writer b), opt_str (bp_device b), opt_str (bp_instance b),
       opt_str (bp_device_signature b), SBool (bp_claim b)])"

lemma backup_payload_fields:
  assumes "backup_signing_payload a = backup_signing_payload b"
  shows "b = a\<lparr>bp_signature := bp_signature b\<rparr>"
  using assms by (simp add: backup_signing_payload_def json_array_inject)

section \<open>Ed25519 signatures\<close>

text \<open>
  \<open>verify key data sig\<close> is \<open>crypto.verify\<close> after \<open>crypto.createPublicKey\<close>, \<open>None\<close> where either
  throws.
\<close>

type_synonym verifier = "bytes \<Rightarrow> bytes \<Rightarrow> bytes \<Rightarrow> bool option"

definition verify_challenge :: "verifier \<Rightarrow> bytes \<Rightarrow> bytes \<Rightarrow> bytes \<Rightarrow> bool" where
  "verify_challenge verify key data sig = (verify key data sig = Some True)"

end
