(* ===== verification/Relay_Db.thy ===== *)
theory Relay_Db
  imports Protocol
begin

text \<open>
  The relay's PostgreSQL schema (\<open>apps/relay-server/src/schema.sql\<close> with the tables and columns
  that \<open>db.ts\<close> adds): a row record per table, the database as a record of tables, the lookups
  that several routes share, and the well-formedness that every route has to keep. A column that
  the code never reads (\<open>password_hash\<close>, \<open>pepper_version\<close>, generated row ids beside a unique key)
  has no field. A UUID is its lower-case text, as \<open>pg\<close> returns it.
\<close>

section \<open>Rows\<close>

datatype access_status = A_Pending | A_Approved | A_Rejected | A_Activated
datatype request_status = R_Pending | R_Accepted | R_Rejected
datatype appeal_status = P_Pending | P_Approved | P_Rejected

record user =
  us_id :: string
  us_name :: string
  us_uid :: "string option"
  us_revoked :: "ms option"

record access_request =
  ar_id :: string
  ar_name :: string
  ar_status :: access_status
  ar_code_hash :: "string option"
  ar_attempts :: int
  ar_expires :: "ms option"
  ar_used :: "ms option"
  ar_created :: ms
  ar_decided :: "ms option"

record connection_request =
  cr_id :: string
  cr_requester :: string
  cr_recipient :: string
  cr_status :: request_status
  cr_created :: ms
  cr_expires :: ms
  cr_decided :: "ms option"

record permission =
  pm_one :: string
  pm_two :: string
  pm_revoked :: "ms option"

record device =
  dv_id :: string
  dv_user :: string
  dv_identity :: bytes
  dv_auth :: bytes
  dv_registration :: int
  dv_signal_device :: int
  dv_revoked :: "ms option"

record signed_row =
  sk_device :: string
  sk_prekey :: int
  sk_public :: bytes
  sk_signature :: bytes
  sk_uploaded :: ms

record otp_row =
  ok_device :: string
  ok_prekey :: int
  ok_public :: bytes
  ok_consumed :: bool
  ok_consumed_at :: "ms option"
  ok_uploaded :: ms

record pq_row =
  qk_device :: string
  qk_prekey :: int
  qk_public :: bytes
  qk_signature :: bytes
  qk_last_resort :: bool
  qk_consumed :: bool
  qk_consumed_at :: "ms option"
  qk_uploaded :: ms

record key_version =
  kv_device :: string
  kv_type :: string
  kv_version :: int
  kv_fingerprint :: bytes

record message =
  mg_id :: string
  mg_sender :: string
  mg_recipient :: string
  mg_payload :: bytes
  mg_timestamp :: ms
  mg_delivered :: bool
  mg_expires :: ms

record session =
  se_token :: string
  se_device :: string
  se_expires :: ms

record appeal =
  ap_id :: string
  ap_requester :: string
  ap_target :: string
  ap_status :: appeal_status
  ap_created :: ms
  ap_decided :: "ms option"

record connection =
  cn_one :: string
  cn_two :: string
  cn_active :: bool
  cn_activated :: "ms option"
  cn_cancelled :: "ms option"

record blob =
  bl_id :: string
  bl_owner :: string
  bl_chunks :: int
  bl_size :: int

record chunk =
  ch_blob :: string
  ch_index :: int
  ch_nonce :: bytes
  ch_ciphertext :: bytes

record backup =
  bk_token :: string
  bk_version :: int
  bk_nonce :: bytes
  bk_ciphertext :: bytes
  bk_fragment :: bytes
  bk_writer :: bytes
  bk_signature :: string
  bk_signed_at :: string
  bk_device :: "string option"
  bk_instance :: "string option"
  bk_device_signature :: "string option"
  bk_claim :: bool
  bk_sha :: "string option"

record vault_lock =
  vl_device :: string
  vl_instance :: string

record blind_message =
  bm_id :: string
  bm_dropbox :: string
  bm_ciphertext :: bytes
  bm_sender_hash :: string
  bm_created :: ms
  bm_expires :: ms

record relay_db =
  users :: "user list"
  access_requests :: "access_request list"
  connection_requests :: "connection_request list"
  permissions :: "permission list"
  devices :: "device list"
  signed_prekeys :: "signed_row list"
  otps :: "otp_row list"
  pqs :: "pq_row list"
  key_versions :: "key_version list"
  messages :: "message list"
  sessions :: "session list"
  appeals :: "appeal list"
  connections :: "connection list"
  blobs :: "blob list"
  chunks :: "chunk list"
  backups :: "backup list"
  vault_locks :: "vault_lock list"
  blind_messages :: "blind_message list"
  exchange_acks :: "(string \<times> string) list"

definition empty_db :: relay_db where
  "empty_db =
     \<lparr>users = [], access_requests = [], connection_requests = [], permissions = [], devices = [],
      signed_prekeys = [], otps = [], pqs = [], key_versions = [], messages = [], sessions = [],
      appeals = [], connections = [], blobs = [], chunks = [], backups = [], vault_locks = [],
      blind_messages = [], exchange_acks = []\<rparr>"

section \<open>The relay's environment\<close>

text \<open>
  The configuration (\<open>config.ts\<close>) and the library functions that the routes call:
  \<open>uuid_ok\<close> and \<open>datetime_ok\<close> of zod, \<open>pg_uuid\<close> the conversion of a text parameter to
  \<open>UUID\<close> (\<open>None\<close> where PostgreSQL rejects it), hashing, HMAC and Ed25519.
\<close>

record relay_env =
  hostname :: string
  aliases :: string
  pepper :: string
  admin_username :: string
  admin_token :: string
  uuid_ok :: "string \<Rightarrow> bool"
  datetime_ok :: "string \<Rightarrow> bool"
  pg_uuid :: "string \<Rightarrow> string option"
  sha256 :: "bytes \<Rightarrow> bytes"
  hmac :: "bytes \<Rightarrow> bytes \<Rightarrow> bytes"
  verify :: verifier

text \<open>\<open>INTEGER\<close> columns.\<close>

definition int4_ok :: "int \<Rightarrow> bool" where
  "int4_ok n \<longleftrightarrow> - 2147483648 \<le> n \<and> n \<le> 2147483647"

section \<open>Lookups\<close>

definition find_device :: "string \<Rightarrow> relay_db \<Rightarrow> device option" where
  "find_device d db = List.find (\<lambda>x. dv_id x = d) (devices db)"

definition active_device :: "string \<Rightarrow> relay_db \<Rightarrow> device option" where
  "active_device d db = List.find (\<lambda>x. dv_id x = d \<and> dv_revoked x = None) (devices db)"

definition find_user :: "string \<Rightarrow> relay_db \<Rightarrow> user option" where
  "find_user u db = List.find (\<lambda>x. us_id x = u) (users db)"

definition device_user :: "string \<Rightarrow> relay_db \<Rightarrow> string option" where
  "device_user d db = map_option dv_user (find_device d db)"

text \<open>\<open>d JOIN users u .. WHERE d.revoked_at IS NULL AND u.revoked_at IS NULL\<close>\<close>

definition active_user :: "string \<Rightarrow> relay_db \<Rightarrow> user option" where
  "active_user d db =
     (case active_device d db of
        None \<Rightarrow> None
      | Some x \<Rightarrow> List.find (\<lambda>u. us_id u = dv_user x \<and> us_revoked u = None) (users db))"

definition ordered :: "string \<Rightarrow> string \<Rightarrow> string \<times> string" where
  "ordered a b = (if a < b then (a, b) else (b, a))"

definition permitted :: "relay_db \<Rightarrow> string \<Rightarrow> string \<Rightarrow> bool" where
  "permitted db a b =
     has_row (\<lambda>p. (pm_one p, pm_two p) = ordered a b \<and> pm_revoked p = None) (permissions db)"

definition find_lock :: "string \<Rightarrow> relay_db \<Rightarrow> vault_lock option" where
  "find_lock d db = List.find (\<lambda>l. vl_device l = d) (vault_locks db)"

definition device_exists :: "string \<Rightarrow> relay_db \<Rightarrow> bool" where
  "device_exists d db = has_row (\<lambda>x. dv_id x = d) (devices db)"

lemma ordered_commute: "ordered a b = ordered b a"
  by (auto simp: ordered_def)

lemma permitted_commute: "permitted db a b = permitted db b a"
  by (simp add: permitted_def ordered_commute [of a b])

lemma find_device_SomeD: "find_device d db = Some x \<Longrightarrow> x \<in> set (devices db) \<and> dv_id x = d"
  by (auto simp: find_device_def dest: find_SomeD)

lemma active_device_SomeD:
  "active_device d db = Some x \<Longrightarrow> x \<in> set (devices db) \<and> dv_id x = d \<and> dv_revoked x = None"
  by (auto simp: active_device_def dest: find_SomeD)

lemma active_user_SomeD:
  "active_user d db = Some u \<Longrightarrow>
     u \<in> set (users db) \<and> us_revoked u = None \<and> (\<exists>x \<in> set (devices db). dv_id x = d \<and> dv_revoked x = None \<and> dv_user x = us_id u)"
  by (auto simp: active_user_def dest!: active_device_SomeD find_SomeD split: option.splits)

lemma device_user_SomeD:
  "device_user d db = Some u \<Longrightarrow> \<exists>x \<in> set (devices db). dv_id x = d \<and> dv_user x = u"
  by (auto simp: device_user_def dest!: find_device_SomeD)

section \<open>Well-formedness\<close>

abbreviation "device_ids db \<equiv> dv_id ` set (devices db)"
abbreviation "user_ids db \<equiv> us_id ` set (users db)"

definition accounts_ok :: "relay_db \<Rightarrow> bool" where
  "accounts_ok db \<longleftrightarrow>
     unique_key us_id (users db) \<and> unique_key us_name (users db) \<and>
     (\<forall>x \<in> set (users db). \<forall>y \<in> set (users db). us_uid x = us_uid y \<longrightarrow> us_uid x \<noteq> None \<longrightarrow> x = y) \<and>
     unique_key dv_id (devices db) \<and> dv_user ` set (devices db) \<subseteq> user_ids db \<and>
     (\<forall>x \<in> set (devices db). \<forall>y \<in> set (devices db).
        dv_user x = dv_user y \<longrightarrow> dv_revoked x = None \<longrightarrow> dv_revoked y = None \<longrightarrow> x = y) \<and>
     unique_key se_token (sessions db) \<and> se_device ` set (sessions db) \<subseteq> device_ids db"

text \<open>A username has an account exactly when its access request was activated.\<close>

definition access_ok :: "relay_db \<Rightarrow> bool" where
  "access_ok db \<longleftrightarrow>
     unique_key ar_id (access_requests db) \<and> unique_key ar_name (access_requests db) \<and>
     (\<forall>r \<in> set (access_requests db). 0 \<le> ar_attempts r \<and> ar_attempts r \<le> 5) \<and>
     us_name ` set (users db) = ar_name ` {r \<in> set (access_requests db). ar_status r = A_Activated}"

definition prekeys_ok :: "relay_db \<Rightarrow> bool" where
  "prekeys_ok db \<longleftrightarrow>
     unique_key (\<lambda>k. (sk_device k, sk_prekey k)) (signed_prekeys db) \<and>
     sk_device ` set (signed_prekeys db) \<subseteq> device_ids db \<and>
     unique_key (\<lambda>k. (ok_device k, ok_prekey k)) (otps db) \<and> ok_device ` set (otps db) \<subseteq> device_ids db \<and>
     unique_key (\<lambda>k. (qk_device k, qk_prekey k)) (pqs db) \<and> qk_device ` set (pqs db) \<subseteq> device_ids db \<and>
     unique_key (\<lambda>k. (kv_device k, kv_type k, kv_version k)) (key_versions db) \<and>
     kv_device ` set (key_versions db) \<subseteq> device_ids db"

definition contacts_ok :: "relay_db \<Rightarrow> bool" where
  "contacts_ok db \<longleftrightarrow>
     unique_key cr_id (connection_requests db) \<and>
     unique_key (\<lambda>r. (cr_requester r, cr_recipient r)) (connection_requests db) \<and>
     (\<forall>r \<in> set (connection_requests db).
        cr_requester r \<noteq> cr_recipient r \<and> {cr_requester r, cr_recipient r} \<subseteq> user_ids db) \<and>
     unique_key (\<lambda>p. (pm_one p, pm_two p)) (permissions db) \<and>
     (\<forall>p \<in> set (permissions db). pm_one p < pm_two p \<and> {pm_one p, pm_two p} \<subseteq> user_ids db)"

text \<open>Every queued message is between two devices whose users may talk to each other.\<close>

definition mailbox_ok :: "relay_db \<Rightarrow> bool" where
  "mailbox_ok db \<longleftrightarrow>
     unique_key mg_id (messages db) \<and>
     (\<forall>m \<in> set (messages db). \<exists>x \<in> set (devices db). \<exists>y \<in> set (devices db).
        dv_id x = mg_sender m \<and> dv_id y = mg_recipient m \<and> permitted db (dv_user x) (dv_user y))"

definition blobs_ok :: "relay_db \<Rightarrow> bool" where
  "blobs_ok db \<longleftrightarrow>
     unique_key bl_id (blobs db) \<and> bl_owner ` set (blobs db) \<subseteq> device_ids db \<and>
     (\<forall>b \<in> set (blobs db). 0 < bl_chunks b \<and> bl_chunks b \<le> 400 \<and> 0 \<le> bl_size b \<and>
        bl_size b \<le> 26214400 \<and> bl_size b \<le> 65536 * bl_chunks b) \<and>
     unique_key (\<lambda>c. (ch_blob c, ch_index c)) (chunks db) \<and>
     (\<forall>c \<in> set (chunks db). \<exists>b \<in> set (blobs db). bl_id b = ch_blob c \<and>
        0 \<le> ch_index c \<and> ch_index c < bl_chunks b \<and> length (ch_nonce c) = 12 \<and>
        16 \<le> length (ch_ciphertext c) \<and> length (ch_ciphertext c) \<le> 65552)"

definition vaults_ok :: "relay_db \<Rightarrow> bool" where
  "vaults_ok db \<longleftrightarrow>
     unique_key bk_token (backups db) \<and>
     (\<forall>b \<in> set (backups db). is_lower_hex_of 64 (bk_token b) \<and> 1 \<le> bk_version b \<and>
        length (bk_nonce b) = 12 \<and> 16 \<le> length (bk_ciphertext b) \<and>
        length (bk_ciphertext b) \<le> 67108864 \<and> length (bk_writer b) = 44) \<and>
     unique_key vl_device (vault_locks db) \<and> vl_device ` set (vault_locks db) \<subseteq> device_ids db"

definition blind_ok :: "relay_db \<Rightarrow> bool" where
  "blind_ok db \<longleftrightarrow> unique_key bm_id (blind_messages db) \<and> distinct (exchange_acks db)"

definition appeals_ok :: "relay_db \<Rightarrow> bool" where
  "appeals_ok db \<longleftrightarrow>
     unique_key ap_id (appeals db) \<and>
     unique_key (\<lambda>a. (ap_requester a, ap_target a, ap_status a)) (appeals db) \<and>
     (\<forall>a \<in> set (appeals db). {ap_requester a, ap_target a} \<subseteq> user_ids db) \<and>
     unique_key (\<lambda>c. (cn_one c, cn_two c)) (connections db) \<and>
     (\<forall>c \<in> set (connections db). cn_one c < cn_two c)"

definition db_ok :: "relay_db \<Rightarrow> bool" where
  "db_ok db \<longleftrightarrow>
     accounts_ok db \<and> access_ok db \<and> prekeys_ok db \<and> contacts_ok db \<and> mailbox_ok db \<and>
     blobs_ok db \<and> vaults_ok db \<and> blind_ok db \<and> appeals_ok db"

lemmas db_ok_defs = db_ok_def accounts_ok_def access_ok_def prekeys_ok_def contacts_ok_def
  mailbox_ok_def blobs_ok_def vaults_ok_def blind_ok_def appeals_ok_def

lemma db_ok_parts:
  "db_ok db \<Longrightarrow> accounts_ok db" "db_ok db \<Longrightarrow> access_ok db" "db_ok db \<Longrightarrow> prekeys_ok db"
  "db_ok db \<Longrightarrow> contacts_ok db" "db_ok db \<Longrightarrow> mailbox_ok db" "db_ok db \<Longrightarrow> blobs_ok db"
  "db_ok db \<Longrightarrow> vaults_ok db" "db_ok db \<Longrightarrow> blind_ok db" "db_ok db \<Longrightarrow> appeals_ok db"
  by (simp_all add: db_ok_def)

lemma empty_db_ok: "db_ok empty_db"
  by (simp add: db_ok_defs empty_db_def)

lemma permitted_cong: "permissions db' = permissions db \<Longrightarrow> permitted db' = permitted db"
  by (intro ext) (simp add: permitted_def)

text \<open>What is left to show when one table changes.\<close>

named_theorems db_update \<open>well-formedness after the update of one table\<close>

lemma db_ok_access_requests [db_update]:
  "db_ok db \<Longrightarrow> access_ok (db\<lparr>access_requests := x\<rparr>) \<Longrightarrow> db_ok (db\<lparr>access_requests := x\<rparr>)"
  and db_ok_connection_requests [db_update]:
  "db_ok db \<Longrightarrow> contacts_ok (db\<lparr>connection_requests := x1\<rparr>) \<Longrightarrow> db_ok (db\<lparr>connection_requests := x1\<rparr>)"
  and db_ok_sessions [db_update]:
  "db_ok db \<Longrightarrow> accounts_ok (db\<lparr>sessions := x2\<rparr>) \<Longrightarrow> db_ok (db\<lparr>sessions := x2\<rparr>)"
  and db_ok_signed_prekeys [db_update]:
  "db_ok db \<Longrightarrow> prekeys_ok (db\<lparr>signed_prekeys := x3\<rparr>) \<Longrightarrow> db_ok (db\<lparr>signed_prekeys := x3\<rparr>)"
  and db_ok_otps [db_update]: "db_ok db \<Longrightarrow> prekeys_ok (db\<lparr>otps := x4\<rparr>) \<Longrightarrow> db_ok (db\<lparr>otps := x4\<rparr>)"
  and db_ok_pqs [db_update]: "db_ok db \<Longrightarrow> prekeys_ok (db\<lparr>pqs := x5\<rparr>) \<Longrightarrow> db_ok (db\<lparr>pqs := x5\<rparr>)"
  and db_ok_key_versions [db_update]:
  "db_ok db \<Longrightarrow> prekeys_ok (db\<lparr>key_versions := x6\<rparr>) \<Longrightarrow> db_ok (db\<lparr>key_versions := x6\<rparr>)"
  and db_ok_messages [db_update]:
  "db_ok db \<Longrightarrow> mailbox_ok (db\<lparr>messages := x7\<rparr>) \<Longrightarrow> db_ok (db\<lparr>messages := x7\<rparr>)"
  and db_ok_appeals [db_update]:
  "db_ok db \<Longrightarrow> appeals_ok (db\<lparr>appeals := x8\<rparr>) \<Longrightarrow> db_ok (db\<lparr>appeals := x8\<rparr>)"
  and db_ok_connections [db_update]:
  "db_ok db \<Longrightarrow> appeals_ok (db\<lparr>connections := x9\<rparr>) \<Longrightarrow> db_ok (db\<lparr>connections := x9\<rparr>)"
  and db_ok_blobs [db_update]: "db_ok db \<Longrightarrow> blobs_ok (db\<lparr>blobs := y1\<rparr>) \<Longrightarrow> db_ok (db\<lparr>blobs := y1\<rparr>)"
  and db_ok_chunks [db_update]: "db_ok db \<Longrightarrow> blobs_ok (db\<lparr>chunks := y2\<rparr>) \<Longrightarrow> db_ok (db\<lparr>chunks := y2\<rparr>)"
  and db_ok_backups [db_update]:
  "db_ok db \<Longrightarrow> vaults_ok (db\<lparr>backups := y3\<rparr>) \<Longrightarrow> db_ok (db\<lparr>backups := y3\<rparr>)"
  and db_ok_vault_locks [db_update]:
  "db_ok db \<Longrightarrow> vaults_ok (db\<lparr>vault_locks := y4\<rparr>) \<Longrightarrow> db_ok (db\<lparr>vault_locks := y4\<rparr>)"
  and db_ok_blind_messages [db_update]:
  "db_ok db \<Longrightarrow> blind_ok (db\<lparr>blind_messages := y5\<rparr>) \<Longrightarrow> db_ok (db\<lparr>blind_messages := y5\<rparr>)"
  and db_ok_exchange_acks [db_update]:
  "db_ok db \<Longrightarrow> blind_ok (db\<lparr>exchange_acks := y6\<rparr>) \<Longrightarrow> db_ok (db\<lparr>exchange_acks := y6\<rparr>)"
  by (simp_all add: db_ok_defs permitted_def)

section \<open>Inserts with the constraints of the schema\<close>

definition insert_user :: "user \<Rightarrow> relay_db \<Rightarrow> db_error + relay_db" where
  "insert_user u db =
     (if has_row (\<lambda>x. us_id x = us_id u \<or> us_name x = us_name u \<or> (us_uid u \<noteq> None \<and> us_uid x = us_uid u))
           (users db)
      then Inl Unique_Violation else Inr (db\<lparr>users := users db @ [u]\<rparr>))"

definition insert_device :: "device \<Rightarrow> relay_db \<Rightarrow> db_error + relay_db" where
  "insert_device d db =
     (if \<not> int4_ok (dv_registration d) \<or> \<not> int4_ok (dv_signal_device d) then Inl Out_Of_Range
      else if \<not> has_row (\<lambda>u. us_id u = dv_user d) (users db) then Inl Foreign_Key_Violation
      else if has_row (\<lambda>x. dv_id x = dv_id d \<or> (dv_revoked d = None \<and> dv_revoked x = None \<and> dv_user x = dv_user d))
                (devices db) then Inl Unique_Violation
      else Inr (db\<lparr>devices := devices db @ [d]\<rparr>))"

definition insert_session :: "session \<Rightarrow> relay_db \<Rightarrow> db_error + relay_db" where
  "insert_session s db =
     (if \<not> device_exists (se_device s) db then Inl Foreign_Key_Violation
      else case insert_unique se_token s (sessions db) of
             Inl e \<Rightarrow> Inl e | Inr rs \<Rightarrow> Inr (db\<lparr>sessions := rs\<rparr>))"

definition insert_signed :: "signed_row \<Rightarrow> relay_db \<Rightarrow> db_error + relay_db" where
  "insert_signed k db =
     (if \<not> int4_ok (sk_prekey k) then Inl Out_Of_Range
      else if \<not> device_exists (sk_device k) db then Inl Foreign_Key_Violation
      else case insert_unique (\<lambda>x. (sk_device x, sk_prekey x)) k (signed_prekeys db) of
             Inl e \<Rightarrow> Inl e | Inr rs \<Rightarrow> Inr (db\<lparr>signed_prekeys := rs\<rparr>))"

definition insert_otp :: "otp_row \<Rightarrow> relay_db \<Rightarrow> db_error + relay_db" where
  "insert_otp k db =
     (if \<not> int4_ok (ok_prekey k) then Inl Out_Of_Range
      else if \<not> device_exists (ok_device k) db then Inl Foreign_Key_Violation
      else case insert_unique (\<lambda>x. (ok_device x, ok_prekey x)) k (otps db) of
             Inl e \<Rightarrow> Inl e | Inr rs \<Rightarrow> Inr (db\<lparr>otps := rs\<rparr>))"

definition insert_pq :: "pq_row \<Rightarrow> relay_db \<Rightarrow> db_error + relay_db" where
  "insert_pq k db =
     (if \<not> int4_ok (qk_prekey k) then Inl Out_Of_Range
      else if \<not> device_exists (qk_device k) db then Inl Foreign_Key_Violation
      else case insert_unique (\<lambda>x. (qk_device x, qk_prekey x)) k (pqs db) of
             Inl e \<Rightarrow> Inl e | Inr rs \<Rightarrow> Inr (db\<lparr>pqs := rs\<rparr>))"

lemma device_exists_iff: "device_exists d db \<longleftrightarrow> d \<in> device_ids db"
  by (auto simp: device_exists_def has_row_iff)

lemma insert_user_Inr:
  "insert_user u db = Inr db' \<longleftrightarrow>
     db' = db\<lparr>users := users db @ [u]\<rparr> \<and>
     (\<forall>x \<in> set (users db). us_id x \<noteq> us_id u \<and> us_name x \<noteq> us_name u \<and> (us_uid u \<noteq> None \<longrightarrow> us_uid x \<noteq> us_uid u))"
  by (auto simp: insert_user_def has_row_iff)

lemma insert_device_Inr:
  "insert_device d db = Inr db' \<longleftrightarrow>
     db' = db\<lparr>devices := devices db @ [d]\<rparr> \<and> int4_ok (dv_registration d) \<and> int4_ok (dv_signal_device d) \<and>
     dv_user d \<in> user_ids db \<and>
     (\<forall>x \<in> set (devices db). dv_id x \<noteq> dv_id d \<and>
        (dv_revoked d = None \<longrightarrow> dv_revoked x = None \<longrightarrow> dv_user x \<noteq> dv_user d))"
  by (auto simp: insert_device_def has_row_iff image_iff) metis+

lemma insert_session_Inr:
  "insert_session s db = Inr db' \<longleftrightarrow>
     db' = db\<lparr>sessions := sessions db @ [s]\<rparr> \<and> se_device s \<in> device_ids db \<and>
     (\<forall>x \<in> set (sessions db). se_token x \<noteq> se_token s)"
  by (auto simp: insert_session_def insert_unique_def device_exists_iff has_row_iff)

lemma insert_signed_Inr:
  "insert_signed k db = Inr db' \<longleftrightarrow>
     db' = db\<lparr>signed_prekeys := signed_prekeys db @ [k]\<rparr> \<and> int4_ok (sk_prekey k) \<and>
     sk_device k \<in> device_ids db \<and>
     (\<forall>x \<in> set (signed_prekeys db). (sk_device x, sk_prekey x) \<noteq> (sk_device k, sk_prekey k))"
  by (auto simp: insert_signed_def insert_unique_def device_exists_iff has_row_iff)

lemma insert_otp_Inr:
  "insert_otp k db = Inr db' \<longleftrightarrow>
     db' = db\<lparr>otps := otps db @ [k]\<rparr> \<and> int4_ok (ok_prekey k) \<and> ok_device k \<in> device_ids db \<and>
     (\<forall>x \<in> set (otps db). (ok_device x, ok_prekey x) \<noteq> (ok_device k, ok_prekey k))"
  by (auto simp: insert_otp_def insert_unique_def device_exists_iff has_row_iff)

lemma insert_pq_Inr:
  "insert_pq k db = Inr db' \<longleftrightarrow>
     db' = db\<lparr>pqs := pqs db @ [k]\<rparr> \<and> int4_ok (qk_prekey k) \<and> qk_device k \<in> device_ids db \<and>
     (\<forall>x \<in> set (pqs db). (qk_device x, qk_prekey x) \<noteq> (qk_device k, qk_prekey k))"
  by (auto simp: insert_pq_def insert_unique_def device_exists_iff has_row_iff)

lemma unique_key_snoc [keep_unique]:
  "unique_key key rs \<Longrightarrow> (\<forall>x \<in> set rs. key x \<noteq> key r) \<Longrightarrow> unique_key key (rs @ [r])"
  by (auto simp: unique_key_def)

lemma insert_session_ok: "insert_session s db = Inr db' \<Longrightarrow> db_ok db \<Longrightarrow> db_ok db'"
  by (auto simp: insert_session_Inr db_ok_defs permitted_def intro: keep_unique)

lemma insert_signed_ok: "insert_signed k db = Inr db' \<Longrightarrow> prekeys_ok db \<Longrightarrow> prekeys_ok db'"
  by (auto simp: insert_signed_Inr prekeys_ok_def intro!: unique_key_snoc)

lemma insert_otp_ok: "insert_otp k db = Inr db' \<Longrightarrow> prekeys_ok db \<Longrightarrow> prekeys_ok db'"
  by (auto simp: insert_otp_Inr prekeys_ok_def intro!: unique_key_snoc)

lemma insert_pq_ok: "insert_pq k db = Inr db' \<Longrightarrow> prekeys_ok db \<Longrightarrow> prekeys_ok db'"
  by (auto simp: insert_pq_Inr prekeys_ok_def intro!: unique_key_snoc)

lemma db_ok_delete_sessions:
  assumes "db_ok db"
  shows "db_ok (db\<lparr>sessions := delete_where p (sessions db)\<rparr>)"
proof (rule db_ok_sessions [OF assms])
  have "set (delete_where p (sessions db)) \<subseteq> set (sessions db)" by (auto simp: set_delete_where)
  then have "se_device ` set (delete_where p (sessions db)) \<subseteq> se_device ` set (sessions db)"
    by (rule image_mono)
  moreover have "unique_key se_token (delete_where p (sessions db))"
    using db_ok_parts(1) [OF assms] by (simp add: accounts_ok_def unique_key_delete_where)
  ultimately show "accounts_ok (db\<lparr>sessions := delete_where p (sessions db)\<rparr>)"
    using db_ok_parts(1) [OF assms] unfolding accounts_ok_def by (simp, meson subset_trans)
qed

end
