(* ===== verification/Relay_Auth.thy ===== *)
theory Relay_Auth
  imports Relay_Db
begin

text \<open>
  \<open>apps/relay-server/src/auth.ts\<close>: bearer authentication, the Ed25519 challenge and response with
  its in-memory store of single-use challenges, the self-serve access application and the
  activation that creates an account. \<open>fault\<close> says that the database fails at the statement a
  handler is about to run; clock readings and random values are arguments in the order the code
  takes them.
\<close>

section \<open>Helpers\<close>

definition compute_hmac :: "relay_env \<Rightarrow> string \<Rightarrow> string" where
  "compute_hmac env c = hex_encode (hmac env (utf8 (pepper env)) (utf8 c))"

text \<open>\<open>crypto.timingSafeEqual\<close> throws on buffers of different length, which gives \<open>false\<close>.\<close>

definition timing_safe_compare :: "string \<Rightarrow> string \<Rightarrow> bool" where
  "timing_safe_compare a b =
     (let x = utf8 a; y = utf8 b in if length x \<noteq> length y then False else x = y)"

lemma timing_safe_compare_iff [simp]: "timing_safe_compare a b \<longleftrightarrow> a = b"
  by (auto simp: timing_safe_compare_def Let_def)

text \<open>\<open>Bearer\<close> followed by the token.\<close>

definition bearer_token :: "string option \<Rightarrow> string option" where
  "bearer_token h =
     (case h of Some s \<Rightarrow> if starts_with ''Bearer '' s then Some (drop 7 s) else None | None \<Rightarrow> None)"

definition session_device :: "ms \<Rightarrow> string \<Rightarrow> relay_db \<Rightarrow> string option" where
  "session_device now token db =
     map_option se_device
       (List.find (\<lambda>s. se_token s = token \<and> now < se_expires s \<and> active_user (se_device s) db \<noteq> None)
         (sessions db))"

text \<open>A device whose vault was claimed by another installation answers only to that installation.\<close>

definition instance_allowed :: "relay_env \<Rightarrow> relay_db \<Rightarrow> string \<Rightarrow> string option \<Rightarrow> bool" where
  "instance_allowed env db d inst =
     (case find_lock d db of
        None \<Rightarrow> True
      | Some l \<Rightarrow>
          (case inst of None \<Rightarrow> False | Some i \<Rightarrow> hex_encode (sha256 env (utf8 i)) = vl_instance l))"

definition auth_middleware ::
  "relay_env \<Rightarrow> bool \<Rightarrow> ms \<Rightarrow> string option \<Rightarrow> string option \<Rightarrow> relay_db \<Rightarrow> (nat \<times> string) + string" where
  "auth_middleware env fault now header inst db =
     (case bearer_token header of
        None \<Rightarrow> Inl (401, ''unauthorized_missing_token'')
      | Some token \<Rightarrow>
          if fault then Inl (500, ''INTERNAL_ERROR'')
          else (case session_device now token db of
                  None \<Rightarrow> Inl (401, ''unauthorized_invalid_token'')
                | Some d \<Rightarrow>
                    if instance_allowed env db d inst then Inr d
                    else Inl (409, ''VAULT_MOVED_RESTORE_REQUIRED'')))"

definition admin_auth_middleware :: "relay_env \<Rightarrow> string option \<Rightarrow> (nat \<times> string) + unit" where
  "admin_auth_middleware env header =
     (case bearer_token header of
        None \<Rightarrow> Inl (401, ''admin_auth_required'')
      | Some token \<Rightarrow>
          if length (utf8 token) = length (utf8 (admin_token env)) \<and> utf8 token = utf8 (admin_token env)
          then Inr () else Inl (401, ''invalid_admin_token''))"

lemma auth_middleware_Inr:
  assumes "auth_middleware env fault now header inst db = Inr d"
  obtains t s where "header = Some t" "starts_with ''Bearer '' t" "s \<in> set (sessions db)"
    "se_token s = drop 7 t" "se_device s = d" "now < se_expires s" "active_user d db \<noteq> None"
    "instance_allowed env db d inst"
  using assms
  by (auto simp: auth_middleware_def bearer_token_def session_device_def split: option.splits if_splits
      dest!: find_SomeD)

section \<open>Challenge and response\<close>

record challenge =
  cl_text :: string
  cl_expires :: ms

type_synonym challenges = "(string, challenge) jsmap"

definition request_challenge ::
  "relay_env \<Rightarrow> bool \<Rightarrow> ms \<Rightarrow> bytes \<Rightarrow> json \<Rightarrow> relay_db \<Rightarrow> challenges \<Rightarrow> challenges \<times> (string \<times> ms) reply" where
  "request_challenge env fault now rnd body db cs =
     (case challenge_request_schema (uuid_ok env) body of
        None \<Rightarrow> (cs, invalid_request)
      | Some d \<Rightarrow>
          if fault then (cs, internal_error)
          else if active_device (to_lower d) db = None then (cs, Fail 409 ''DEVICE_NOT_REGISTERED'')
          else let c = hex_encode rnd; e = now + 60 * 1000
               in (map_set d \<lparr>cl_text = c, cl_expires = e\<rparr> cs, Done 200 (c, e)))"

definition allowed_hostnames :: "relay_env \<Rightarrow> string list" where
  "allowed_hostnames env = hostname env # filter (\<lambda>s. s \<noteq> []) (map trim (split_on (CHR '','') (aliases env)))"

definition challenge_message :: "string \<Rightarrow> string \<Rightarrow> string \<Rightarrow> bytes" where
  "challenge_message d c h = utf8 (d @ c @ h)"

definition respond ::
  "relay_env \<Rightarrow> bool \<Rightarrow> ms \<Rightarrow> ms \<Rightarrow> bytes \<Rightarrow> json \<Rightarrow> relay_db \<Rightarrow> challenges \<Rightarrow>
     (relay_db \<times> challenges) \<times> (string \<times> ms) reply" where
  "respond env fault now now' rnd body db cs =
     (case challenge_verify_schema (uuid_ok env) body of
        None \<Rightarrow> ((db, cs), invalid_request)
      | Some b \<Rightarrow>
          (case map_get cs (cv_device b) of
             None \<Rightarrow> ((db, cs), Fail 401 ''challenge_not_found'')
           | Some stored \<Rightarrow>
               let cs' = map_delete (cv_device b) cs
               in if cl_text stored \<noteq> cv_challenge b then ((db, cs'), Fail 401 ''challenge_mismatch'')
                  else if cl_expires stored < now then ((db, cs'), Fail 401 ''challenge_expired'')
                  else if \<not> list_ex (timing_safe_compare (cv_hostname b)) (allowed_hostnames env)
                  then ((db, cs'), Fail 401 ''invalid_relay_hostname'')
                  else if fault then ((db, cs'), internal_error)
                  else (case active_device (to_lower (cv_device b)) db of
                          None \<Rightarrow> ((db, cs'), Fail 401 ''device_not_registered'')
                        | Some d \<Rightarrow>
                            if \<not> verify_challenge (verify env) (dv_auth d)
                                   (challenge_message (cv_device b) (cv_challenge b) (cv_hostname b))
                                   (hex_decode (cv_signature b))
                            then ((db, cs'), Fail 401 ''invalid_signature'')
                            else let token = b64url_encode rnd; e = now' + 24 * 60 * 60 * 1000
                                 in (case insert_session \<lparr>se_token = token, se_device = to_lower (cv_device b), se_expires = e\<rparr> db of
                                       Inl _ \<Rightarrow> ((db, cs'), internal_error)
                                     | Inr db' \<Rightarrow> ((db', cs'), Done 200 (token, e))))))"

text \<open>Everything that holds when a session was given out.\<close>

lemma respond_Done:
  assumes "respond env fault now now' rnd body db cs = ((db', cs'), Done k r)"
  obtains b stored d where "challenge_verify_schema (uuid_ok env) body = Some b"
    "map_get cs (cv_device b) = Some stored" "cl_text stored = cv_challenge b" "now \<le> cl_expires stored"
    "cv_hostname b \<in> set (allowed_hostnames env)"
    "active_device (to_lower (cv_device b)) db = Some d"
    "verify (env) (dv_auth d) (challenge_message (cv_device b) (cv_challenge b) (cv_hostname b))
       (hex_decode (cv_signature b)) = Some True"
    "insert_session \<lparr>se_token = b64url_encode rnd, se_device = to_lower (cv_device b),
       se_expires = now' + 86400000\<rparr> db = Inr db'"
    "cs' = map_delete (cv_device b) cs" "r = (b64url_encode rnd, now' + 86400000)" "\<not> fault"
  using assms
  by (auto simp: respond_def Let_def verify_challenge_def list_ex_iff
      split: option.splits if_splits sum.splits)

lemma respond_consumes:
  assumes "respond env fault now now' rnd body db cs = ((db', cs'), r)"
    and "challenge_verify_schema (uuid_ok env) body = Some b"
  shows "map_get cs' (cv_device b) = None"
  using assms
  by (auto simp: respond_def Let_def jsmap.take_once split: option.splits if_splits sum.splits)

lemma respond_db: "respond env fault now now' rnd body db cs = ((db', cs'), r) \<Longrightarrow>
    db' = db \<or> (\<exists>s. insert_session s db = Inr db')"
  by (auto simp: respond_def Let_def split: option.splits if_splits sum.splits)

lemma respond_ok: "respond env fault now now' rnd body db cs = ((db', cs'), r) \<Longrightarrow> db_ok db \<Longrightarrow> db_ok db'"
  using respond_db insert_session_ok by metis

end
