(* ===== verification/Relay_Access.thy ===== *)
theory Relay_Access
  imports Relay_Auth
begin

text \<open>
  The account routes of \<open>apps/relay-server/src/auth.ts\<close>: \<open>/api/access/apply\<close> issues a claim on a
  username with a short-lived activation code, \<open>/api/access/activate\<close> turns it into a user, a
  device and its prekeys in one transaction. The search for a free public UID is the only loop
  that could run forever; it is a partial function, and a lemma says when it returns.
\<close>

section \<open>Applying for a username\<close>

record claim =
  cm_request :: string
  cm_name :: string
  cm_code :: string
  cm_expires :: ms

definition access_conflict_renews :: "ms \<Rightarrow> access_request \<Rightarrow> bool" where
  "access_conflict_renews dbnow r \<longleftrightarrow>
     (ar_status r = A_Pending \<or> ar_status r = A_Approved) \<and>
     (case ar_expires r of Some e \<Rightarrow> e < dbnow | None \<Rightarrow> False)"

text \<open>
  \<open>INSERT .. SELECT .. WHERE NOT EXISTS (user) ON CONFLICT(username) DO UPDATE .. WHERE ..\<close>
  with the number of rows it wrote.
\<close>

definition claim_username ::
  "ms \<Rightarrow> string \<Rightarrow> string \<Rightarrow> string \<Rightarrow> ms \<Rightarrow> relay_db \<Rightarrow> db_error + (nat \<times> relay_db)" where
  "claim_username dbnow rid name hash expires db =
     (if has_row (\<lambda>u. us_name u = name) (users db) then Inr (0, db)
      else case List.find (\<lambda>r. ar_name r = name) (access_requests db) of
        None \<Rightarrow>
          if has_row (\<lambda>r. ar_id r = rid) (access_requests db) then Inl Unique_Violation
          else Inr (1, db\<lparr>access_requests := access_requests db @
            [\<lparr>ar_id = rid, ar_name = name, ar_status = A_Approved, ar_code_hash = Some hash,
              ar_attempts = 0, ar_expires = Some expires, ar_used = None, ar_created = dbnow,
              ar_decided = Some dbnow\<rparr>]\<rparr>)
      | Some r \<Rightarrow>
          if \<not> access_conflict_renews dbnow r then Inr (0, db)
          else if has_row (\<lambda>x. ar_id x = rid) (access_requests db) then Inl Unique_Violation
          else Inr (1, db\<lparr>access_requests := update_where (\<lambda>x. ar_name x = name)
            (\<lambda>x. x\<lparr>ar_id := rid, ar_status := A_Approved, ar_code_hash := Some hash,
              ar_expires := Some expires, ar_attempts := 0\<rparr>) (access_requests db)\<rparr>))"

definition access_apply ::
  "relay_env \<Rightarrow> bool \<Rightarrow> ms \<Rightarrow> ms \<Rightarrow> string \<Rightarrow> bytes \<Rightarrow> json \<Rightarrow> relay_db \<Rightarrow> relay_db \<times> claim reply" where
  "access_apply env fault now dbnow rid rnd body db =
     (case required ''username'' username_schema body of
        None \<Rightarrow> (db, invalid_request)
      | Some name \<Rightarrow>
          let c = b64url_encode rnd; e = now + 10 * 60 * 1000
          in if fault then (db, Fail 503 ''RELAY_UNAVAILABLE'')
             else (case claim_username dbnow rid name (compute_hmac env c) e db of
                     Inl _ \<Rightarrow> (db, Fail 503 ''RELAY_UNAVAILABLE'')
                   | Inr (n, db') \<Rightarrow>
                       if n = 0 then (db, Fail 409 ''USERNAME_UNAVAILABLE'')
                       else (db', Done 201 \<lparr>cm_request = rid, cm_name = name, cm_code = c, cm_expires = e\<rparr>)))"

text \<open>An account is never touched, and an unexpired claim on the name is never disclosed or rotated.\<close>

lemma claim_username_cases:
  assumes "claim_username dbnow rid name h e db = Inr (n, db')"
  obtains (refused) "n = 0" "db' = db"
    | (fresh) r where "n = 1" "db' = db\<lparr>access_requests := access_requests db @ [r]\<rparr>" "ar_id r = rid"
        "ar_name r = name" "ar_status r = A_Approved" "ar_attempts r = 0" "ar_code_hash r = Some h"
        "\<forall>x \<in> set (access_requests db). ar_name x \<noteq> name \<and> ar_id x \<noteq> rid"
        "\<forall>u \<in> set (users db). us_name u \<noteq> name"
    | (renewed) r where "n = 1" "r \<in> set (access_requests db)" "ar_name r = name"
        "access_conflict_renews dbnow r"
        "\<forall>x \<in> set (access_requests db). ar_id x \<noteq> rid" "\<forall>u \<in> set (users db). us_name u \<noteq> name"
        "db' = db\<lparr>access_requests := update_where (\<lambda>x. ar_name x = name)
            (\<lambda>x. x\<lparr>ar_id := rid, ar_status := A_Approved, ar_code_hash := Some h,
              ar_expires := Some e, ar_attempts := 0\<rparr>) (access_requests db)\<rparr>"
proof (cases "has_row (\<lambda>u. us_name u = name) (users db)")
  case True
  with assms show thesis by (intro refused) (auto simp: claim_username_def)
next
  case False
  then have nu: "\<forall>u \<in> set (users db). us_name u \<noteq> name" by (simp add: has_row_iff)
  show thesis
  proof (cases "List.find (\<lambda>r. ar_name r = name) (access_requests db)")
    case None
    with assms False nu find_NoneD [OF None] show thesis
      by (intro fresh) (auto simp: claim_username_def has_row_iff split: if_splits)
  next
    case (Some r)
    with find_SomeD [OF Some] assms False nu show thesis
      by (cases "access_conflict_renews dbnow r")
        (auto simp: claim_username_def has_row_iff split: if_splits intro: refused renewed)
  qed
qed

lemma unique_key_update_one:
  assumes "unique_key key rs" and "unique_key key' rs"
    and "\<And>x. key (f x) = key x" and "\<And>x. key' (f x) = b" and "\<forall>x \<in> set rs. key' x \<noteq> b"
  shows "unique_key key' (update_where (\<lambda>x. key x = a) f rs)"
  using assms
proof (induction rs)
  case (Cons r rs)
  have tl: "unique_key key rs" "unique_key key' rs" using Cons.prems(1,2) by (auto simp: unique_key_def)
  have IH: "unique_key key' (update_where (\<lambda>x. key x = a) f rs)" using Cons.IH [OF tl] Cons.prems(3-5) by simp
  have nothit: "update_where (\<lambda>x. key x = a) f rs = rs" if "key r = a"
  proof -
    have "\<forall>x \<in> set rs. key x \<noteq> a" 
      using Cons.prems(1) that unfolding unique_key_def by (simp add: image_iff) metis
    then show ?thesis by (auto simp: update_where_def intro!: map_idI)
  qed
  have img: "key' y = b \<or> (\<exists>x \<in> set rs. key' y = key' x)" if "y \<in> set (update_where (\<lambda>x. key x = a) f rs)" for y
    using that Cons.prems(4) by (auto simp: set_update_where)
  show ?case
  proof (cases "key r = a")
    case True
    then have "update_where (\<lambda>x. key x = a) f (r # rs) = f r # rs"
      using nothit by (simp add: update_where_def)
    with Cons.prems tl show ?thesis by (auto simp: unique_key_def)
  next
    case False
    then have eq: "update_where (\<lambda>x. key x = a) f (r # rs) = r # update_where (\<lambda>x. key x = a) f rs"
      by (simp add: update_where_def)
    have "key' r \<noteq> key' y" if "y \<in> set (update_where (\<lambda>x. key x = a) f rs)" for y
      using img [OF that] Cons.prems(2,5) by (auto simp: unique_key_def)
    with IH show ?thesis by (auto simp: eq unique_key_def)
  qed
qed (simp add: update_where_def)

lemma access_apply_ok:
  assumes "db_ok db" and "access_apply env fault now dbnow rid rnd body db = (db', r)"
  shows "db_ok db'"
proof (cases "db' = db")
  case False
  with assms(2) obtain name n where c: "claim_username dbnow rid name (compute_hmac env (b64url_encode rnd))
      (now + 600000) db = Inr (n, db')" "n \<noteq> 0"
    by (auto simp: access_apply_def Let_def split: option.splits if_splits sum.splits)
  have ok: "access_ok db" using assms(1) by (rule db_ok_parts)
  have "access_ok db'"
    using c(1)
  proof (cases rule: claim_username_cases)
    case refused
    with c(2) show ?thesis by simp
  next
    case (fresh r)
    with ok show ?thesis by (auto simp: access_ok_def intro!: unique_key_snoc)
  next
    case (renewed r)
    let ?f = "\<lambda>x. x\<lparr>ar_id := rid, ar_status := A_Approved,
      ar_code_hash := Some (compute_hmac env (b64url_encode rnd)), ar_expires := Some (now + 600000), ar_attempts := 0\<rparr>"
    have "unique_key ar_id (update_where (\<lambda>x. ar_name x = name) ?f (access_requests db))"
      using ok renewed(5) by (intro unique_key_update_one) (auto simp: access_ok_def)
    moreover have "unique_key ar_name (update_where (\<lambda>x. ar_name x = name) ?f (access_requests db))"
      using ok by (intro unique_key_update_where) (auto simp: access_ok_def)
    moreover have "x = r" if "x \<in> set (access_requests db)" "ar_name x = name" for x
      using ok that renewed(2,3) by (auto simp: access_ok_def dest: unique_keyD)
    then have "ar_name ` {x \<in> set (update_where (\<lambda>x. ar_name x = name) ?f (access_requests db)). ar_status x = A_Activated}
        = ar_name ` {x \<in> set (access_requests db). ar_status x = A_Activated}"
      using renewed(4) by (auto simp: set_update_where access_conflict_renews_def)
    ultimately show ?thesis
      using ok renewed(7) by (auto simp: access_ok_def set_update_where)
  qed
  moreover obtain x where "db' = db\<lparr>access_requests := x\<rparr>"
    using c(1) by (cases rule: claim_username_cases) (use c(2) in auto)
  ultimately show ?thesis using assms(1) db_ok_access_requests by simp
qed (use assms in simp)

section \<open>A free public UID\<close>

definition uid_candidate :: "(string \<Rightarrow> string) \<Rightarrow> string \<Rightarrow> nat \<Rightarrow> string" where
  "uid_candidate fmt base n = (if n = 0 then fmt base else fmt (base @ CHR '':'' # show_nat n))"

text \<open>The \<open>while(true)\<close> of the activation, from attempt \<open>n\<close> on.\<close>

partial_function (option) free_uid ::
  "(string \<Rightarrow> string) \<Rightarrow> (string \<Rightarrow> bool) \<Rightarrow> string \<Rightarrow> string \<Rightarrow> nat \<Rightarrow> string option" where
  "free_uid fmt taken base uid n =
     (if \<not> taken uid then Some uid
      else free_uid fmt taken base (uid_candidate fmt base (Suc n)) (Suc n))"

lemma free_uid_not_taken: "free_uid fmt taken base uid n = Some v \<Longrightarrow> \<not> taken v"
  by (erule free_uid.raw_induct [where P = "\<lambda>fmt taken base uid n v. \<not> taken v", rotated])
    (fastforce split: if_splits)

lemma free_uid_returns:
  "\<not> taken (uid_candidate fmt base (n + k)) \<Longrightarrow>
     \<exists>v. free_uid fmt taken base (uid_candidate fmt base n) n = Some v"
proof (induction k arbitrary: n)
  case 0
  then show ?case by (subst free_uid.simps) simp
next
  case (Suc k)
  then have "\<exists>v. free_uid fmt taken base (uid_candidate fmt base (Suc n)) (Suc n) = Some v" by simp
  then show ?case by (subst free_uid.simps) simp
qed

definition uid_taken :: "relay_db \<Rightarrow> string \<Rightarrow> bool" where
  "uid_taken db uid = has_row (\<lambda>u. us_uid u = Some uid) (users db)"

definition choose_uid :: "relay_env \<Rightarrow> string \<Rightarrow> relay_db \<Rightarrow> string option" where
  "choose_uid env user_id db =
     free_uid (format_public_uid (sha256 env)) (uid_taken db) user_id
       (uid_candidate (format_public_uid (sha256 env)) user_id 0) 0"

lemma choose_uid_code [code]:
  "choose_uid env user_id db =
     (let fmt = format_public_uid (sha256 env); c = uid_candidate fmt user_id 0
      in if \<not> uid_taken db c then Some c
         else free_uid fmt (uid_taken db) user_id (uid_candidate fmt user_id (Suc 0)) (Suc 0))"
  unfolding choose_uid_def by (subst free_uid.simps) (simp add: Let_def)

section \<open>Activation\<close>

record activated =
  av_token :: string
  av_expires :: ms
  av_user :: string
  av_device :: string
  av_name :: string
  av_uid :: "string option"

abbreviation session_ttl :: ms where
  "session_ttl \<equiv> 24 * 60 * 60 * 1000"

definition new_user :: "access_request \<Rightarrow> string \<Rightarrow> string \<Rightarrow> user" where
  "new_user r user_id uid =
     \<lparr>us_id = user_id, us_name = ar_name r, us_uid = Some uid, us_revoked = None\<rparr>"

definition new_device :: "activation \<Rightarrow> string \<Rightarrow> device" where
  "new_device p user_id =
     \<lparr>dv_id = to_lower (ac_device p), dv_user = user_id,
      dv_identity = b64_decode (ac_identity_key p), dv_auth = b64_decode (ac_auth_key p),
      dv_registration = ac_registration p, dv_signal_device = ac_signal_device p, dv_revoked = None\<rparr>"

definition new_signed :: "string \<Rightarrow> ms \<Rightarrow> signed_prekey \<Rightarrow> signed_row" where
  "new_signed d dbnow k =
     \<lparr>sk_device = d, sk_prekey = sp_id k, sk_public = b64_decode (sp_public k),
      sk_signature = b64_decode (sp_signature k), sk_uploaded = dbnow\<rparr>"

definition new_otp :: "string \<Rightarrow> ms \<Rightarrow> one_time_prekey \<Rightarrow> otp_row" where
  "new_otp d dbnow k =
     \<lparr>ok_device = d, ok_prekey = otp_id k, ok_public = b64_decode (otp_public k),
      ok_consumed = False, ok_consumed_at = None, ok_uploaded = dbnow\<rparr>"

definition new_pq :: "string \<Rightarrow> ms \<Rightarrow> bool \<Rightarrow> signed_prekey \<Rightarrow> pq_row" where
  "new_pq d dbnow lr k =
     \<lparr>qk_device = d, qk_prekey = sp_id k, qk_public = b64_decode (sp_public k),
      qk_signature = b64_decode (sp_signature k), qk_last_resort = lr,
      qk_consumed = False, qk_consumed_at = None, qk_uploaded = dbnow\<rparr>"

definition count_attempt :: "string \<Rightarrow> relay_db \<Rightarrow> relay_db" where
  "count_attempt rid db =
     db\<lparr>access_requests := update_where (\<lambda>x. ar_id x = rid)
          (\<lambda>x. x\<lparr>ar_attempts := ar_attempts x + 1\<rparr>) (access_requests db)\<rparr>"

definition mark_activated :: "string \<Rightarrow> ms \<Rightarrow> relay_db \<Rightarrow> relay_db" where
  "mark_activated rid dbnow db =
     db\<lparr>access_requests := update_where (\<lambda>x. ar_id x = rid)
          (\<lambda>x. x\<lparr>ar_status := A_Activated, ar_used := Some dbnow\<rparr>) (access_requests db)\<rparr>"

text \<open>The statements from \<open>Create User\<close> to the session, in the order of the code.\<close>

definition create_account ::
  "activation \<Rightarrow> access_request \<Rightarrow> string \<Rightarrow> string \<Rightarrow> session \<Rightarrow> ms \<Rightarrow> relay_db \<Rightarrow> db_error + relay_db" where
  "create_account p r user_id uid sess dbnow db =
     (let d = to_lower (ac_device p) in
      try_then (insert_user (new_user r user_id uid) db) (\<lambda>db.
      try_then (insert_device (new_device p user_id) db) (\<lambda>db.
      try_then (insert_signed (new_signed d dbnow (ac_signed p)) db) (\<lambda>db.
      try_then (try_fold (\<lambda>k. insert_otp (new_otp d dbnow k)) (ac_one_time p) db) (\<lambda>db.
      try_then (try_fold (\<lambda>k. insert_pq (new_pq d dbnow False k)) (ac_pq_one_time p) db) (\<lambda>db.
      try_then (insert_pq (new_pq d dbnow True (ac_pq_last_resort p)) db) (\<lambda>db.
      insert_session sess (mark_activated (ar_id r) dbnow db))))))))"

text \<open>A retry of an activation that was committed gives the account again, with a new session.\<close>

definition existing_account :: "access_request \<Rightarrow> activation \<Rightarrow> relay_db \<Rightarrow> (user \<times> device) option" where
  "existing_account r p db =
     (case List.find (\<lambda>u. us_name u = ar_name r) (users db) of
        None \<Rightarrow> None
      | Some u \<Rightarrow>
          (case List.find (\<lambda>d. dv_id d = to_lower (ac_device p) \<and> dv_user d = us_id u \<and> dv_revoked d = None)
                 (devices db) of
             None \<Rightarrow> None | Some d \<Rightarrow> Some (u, d)))"

definition activate_again ::
  "activation \<Rightarrow> access_request \<Rightarrow> bool \<Rightarrow> ms \<Rightarrow> string \<Rightarrow> relay_db \<Rightarrow> db_error + relay_db \<times> activated reply tx_end" where
  "activate_again p r is_match now token db =
     (case existing_account r p db of
        Some (u, d) \<Rightarrow>
          if is_match \<and> dv_identity d = b64_decode (ac_identity_key p) \<and> dv_auth d = b64_decode (ac_auth_key p)
          then try_then (insert_session \<lparr>se_token = token, se_device = dv_id d, se_expires = now + session_ttl\<rparr> db)
                 (\<lambda>db'. Inr (db', Commit (Done 200
                    \<lparr>av_token = token, av_expires = now + session_ttl, av_user = us_id u,
                     av_device = dv_id d, av_name = us_name u, av_uid = us_uid u\<rparr>)))
          else Inr (db, Rollback (Fail 409 ''ACTIVATION_ALREADY_COMPLETED''))
      | None \<Rightarrow> Inr (db, Rollback (Fail 409 ''ACTIVATION_ALREADY_COMPLETED'')))"

definition code_matches :: "relay_env \<Rightarrow> access_request \<Rightarrow> activation \<Rightarrow> bool" where
  "code_matches env r p \<longleftrightarrow>
     (case ar_code_hash r of
        None \<Rightarrow> False
      | Some h \<Rightarrow> h \<noteq> [] \<and> timing_safe_compare h (compute_hmac env (ac_code p)))"

lemma code_matchesD: "code_matches env r p \<Longrightarrow> ar_code_hash r = Some (compute_hmac env (ac_code p))"
  by (auto simp: code_matches_def split: option.splits)

text \<open>The transaction; \<open>None\<close> is the search for a public UID that does not end.\<close>

definition activate_tx ::
  "relay_env \<Rightarrow> ms \<Rightarrow> ms \<Rightarrow> ms \<Rightarrow> string \<Rightarrow> string \<Rightarrow> activation \<Rightarrow> relay_db \<Rightarrow>
     (db_error + relay_db \<times> activated reply tx_end) option" where
  "activate_tx env now now' dbnow user_id token p db =
     (case List.find (\<lambda>r. ar_id r = to_lower (ac_request p)) (access_requests db) of
        None \<Rightarrow> Some (Inr (db, Rollback (Fail 404 ''REQUEST_NOT_FOUND'')))
      | Some r \<Rightarrow>
          let is_match = code_matches env r p
          in if ar_status r = A_Activated then Some (activate_again p r is_match now' token db)
             else if ar_status r \<noteq> A_Approved then Some (Inr (db, Rollback (Fail 409 ''REQUEST_NOT_APPROVED'')))
             else if (case ar_expires r of None \<Rightarrow> True | Some e \<Rightarrow> e < now)
             then Some (Inr (db, Rollback (Fail 410 ''ACTIVATION_CODE_EXPIRED'')))
             else if 5 \<le> ar_attempts r
             then Some (Inr (db, Rollback (Fail 429 ''ACTIVATION_ATTEMPTS_EXCEEDED'')))
             else let db1 = count_attempt (ar_id r) db
                  in if \<not> is_match then Some (Inr (db1, Commit (Fail 401 ''ACTIVATION_CODE_INVALID'')))
                     else (case choose_uid env user_id db1 of
                             None \<Rightarrow> None
                           | Some uid \<Rightarrow>
                               let e = now' + session_ttl;
                                   sess = \<lparr>se_token = token, se_device = to_lower (ac_device p), se_expires = e\<rparr>
                               in Some (try_then (create_account p r user_id uid sess dbnow db1)
                                   (\<lambda>db2. Inr (db2, Commit (Done 201
                                      \<lparr>av_token = token, av_expires = e, av_user = user_id,
                                       av_device = ac_device p, av_name = ar_name r, av_uid = Some uid\<rparr>))))))"

definition blank_field :: "string \<Rightarrow> json \<Rightarrow> bool" where
  "blank_field k j = (case field k j of Some (JStr s) \<Rightarrow> trim s = [] | _ \<Rightarrow> True)"

definition access_activate ::
  "relay_env \<Rightarrow> bool \<Rightarrow> ms \<Rightarrow> ms \<Rightarrow> ms \<Rightarrow> string \<Rightarrow> bytes \<Rightarrow> json \<Rightarrow> relay_db \<Rightarrow>
     (relay_db \<times> activated reply) option" where
  "access_activate env fault now now' dbnow user_id rnd body db =
     (if blank_field ''requestId'' body then Some (db, Fail 400 ''REQUEST_ID_REQUIRED'')
      else if blank_field ''activationCode'' body then Some (db, Fail 400 ''ACTIVATION_CODE_REQUIRED'')
      else case activation_schema (uuid_ok env) body of
        None \<Rightarrow> Some (db, invalid_request)
      | Some p \<Rightarrow>
          if fault then Some (db, Fail 500 ''PREKEY_REGISTRATION_FAILED'')
          else map_option (run_tx False (Fail 500 ''PREKEY_REGISTRATION_FAILED'') db)
                 (activate_tx env now now' dbnow user_id (b64url_encode rnd) p db))"

section \<open>What activation keeps\<close>

text \<open>All of \<open>db_ok\<close> but the agreement of users and requests, which holds again at the end.\<close>

definition core_ok :: "relay_db \<Rightarrow> bool" where
  "core_ok db \<longleftrightarrow> accounts_ok db \<and> prekeys_ok db \<and> contacts_ok db \<and> mailbox_ok db \<and> blobs_ok db \<and>
     vaults_ok db \<and> blind_ok db \<and> appeals_ok db"

lemma db_ok_core: "db_ok db \<longleftrightarrow> core_ok db \<and> access_ok db"
  by (auto simp: db_ok_def core_ok_def)

lemmas core_defs = core_ok_def db_ok_defs

lemma core_insert_user:
  assumes "insert_user u db = Inr db'" and "core_ok db"
  shows "core_ok db'"
proof -
  from assms(1) have db': "db' = db\<lparr>users := users db @ [u]\<rparr>"
    and new: "\<forall>x \<in> set (users db). us_id x \<noteq> us_id u \<and> us_name x \<noteq> us_name u \<and> (us_uid u \<noteq> None \<longrightarrow> us_uid x \<noteq> us_uid u)"
    by (auto simp: insert_user_Inr)
  have "accounts_ok db'"
    using assms(2) new by (auto simp: db' core_ok_def accounts_ok_def intro!: unique_key_snoc)
  moreover have "contacts_ok db'" "appeals_ok db'"
    using assms(2) by (auto simp: db' core_ok_def contacts_ok_def appeals_ok_def)
  ultimately show ?thesis using assms(2) by (auto simp: db' core_defs permitted_def)
qed

lemma core_insert_device:
  assumes "insert_device d db = Inr db'" and "core_ok db"
  shows "core_ok db'"
proof -
  from assms(1) have db': "db' = db\<lparr>devices := devices db @ [d]\<rparr>" and fk: "dv_user d \<in> user_ids db"
    and new: "\<forall>x \<in> set (devices db). dv_id x \<noteq> dv_id d \<and>
        (dv_revoked d = None \<longrightarrow> dv_revoked x = None \<longrightarrow> dv_user x \<noteq> dv_user d)"
    by (auto simp: insert_device_Inr)
  have "accounts_ok db'"
    using assms(2) new fk by (auto simp: db' core_ok_def accounts_ok_def intro!: unique_key_snoc)
  moreover have "prekeys_ok db'" "blobs_ok db'" "vaults_ok db'"
    using assms(2) by (auto simp: db' core_ok_def prekeys_ok_def blobs_ok_def vaults_ok_def)
  moreover have "mailbox_ok db'"
    using assms(2) by (auto simp: db' core_ok_def mailbox_ok_def permitted_def)
  ultimately show ?thesis using assms(2) by (auto simp: db' core_ok_def contacts_ok_def blind_ok_def appeals_ok_def)
qed

lemma core_insert_session: "insert_session s db = Inr db' \<Longrightarrow> core_ok db \<Longrightarrow> core_ok db'"
  by (auto simp: insert_session_Inr core_defs permitted_def intro!: unique_key_snoc)

lemma core_frame [simp]: "core_ok (db\<lparr>access_requests := x\<rparr>) = core_ok db"
  by (simp add: core_defs permitted_def)

lemma core_insert_signed: "insert_signed k db = Inr db' \<Longrightarrow> core_ok db \<Longrightarrow> core_ok db'"
  using insert_signed_ok [of k db db'] by (auto simp: insert_signed_Inr core_defs permitted_def)

lemma core_insert_otp: "insert_otp k db = Inr db' \<Longrightarrow> core_ok db \<Longrightarrow> core_ok db'"
  using insert_otp_ok [of k db db'] by (auto simp: insert_otp_Inr core_defs permitted_def)

lemma core_insert_pq: "insert_pq k db = Inr db' \<Longrightarrow> core_ok db \<Longrightarrow> core_ok db'"
  using insert_pq_ok [of k db db'] by (auto simp: insert_pq_Inr core_defs permitted_def)

lemmas core_inserts = core_insert_user core_insert_device core_insert_session core_insert_signed
  core_insert_otp core_insert_pq

text \<open>The prekey inserts leave the accounts alone.\<close>

definition same_accounts :: "relay_db \<Rightarrow> relay_db \<Rightarrow> bool" where
  "same_accounts db db' \<longleftrightarrow> users db' = users db \<and> access_requests db' = access_requests db \<and>
     devices db' = devices db \<and> sessions db' = sessions db \<and> messages db' = messages db \<and>
     permissions db' = permissions db \<and> connection_requests db' = connection_requests db"

lemma same_accounts_trans: "same_accounts a b \<Longrightarrow> same_accounts b c \<Longrightarrow> same_accounts a c"
  by (simp add: same_accounts_def)

lemma otp_step: "core_ok s \<and> same_accounts db s \<Longrightarrow> insert_otp k s = Inr s' \<Longrightarrow> core_ok s' \<and> same_accounts db s'"
  using core_insert_otp [of k s s'] by (auto simp: insert_otp_Inr same_accounts_def)

lemma pq_step: "core_ok s \<and> same_accounts db s \<Longrightarrow> insert_pq k s = Inr s' \<Longrightarrow> core_ok s' \<and> same_accounts db s'"
  using core_insert_pq [of k s s'] by (auto simp: insert_pq_Inr same_accounts_def)

lemma prekey_folds:
  assumes "core_ok db"
  shows "try_fold (\<lambda>k. insert_otp (f k)) ks db = Inr db' \<Longrightarrow> core_ok db' \<and> same_accounts db db'"
    and "try_fold (\<lambda>k. insert_pq (g k)) ls db = Inr db' \<Longrightarrow> core_ok db' \<and> same_accounts db db'"
proof -
  have base: "core_ok db \<and> same_accounts db db" using assms by (simp add: same_accounts_def)
  show "core_ok db' \<and> same_accounts db db'" if "try_fold (\<lambda>k. insert_otp (f k)) ks db = Inr db'"
    using that base
    by (rule try_fold_invariant [where P = "\<lambda>s. core_ok s \<and> same_accounts db s"]) (rule otp_step)
  show "core_ok db' \<and> same_accounts db db'" if "try_fold (\<lambda>k. insert_pq (g k)) ls db = Inr db'"
    using that base
    by (rule try_fold_invariant [where P = "\<lambda>s. core_ok s \<and> same_accounts db s"]) (rule pq_step)
qed

text \<open>What a committed activation did to the tables of accounts.\<close>

lemma create_account_effect:
  assumes "create_account p r user_id uid sess dbnow db = Inr db'" and "core_ok db"
  shows "core_ok db'"
    and "users db' = users db @ [new_user r user_id uid]"
    and "devices db' = devices db @ [new_device p user_id]"
    and "access_requests db' = access_requests (mark_activated (ar_id r) dbnow db)"
    and "sessions db' = sessions db @ [sess]"
    and "\<forall>u \<in> set (users db). us_name u \<noteq> ar_name r"
    and "messages db' = messages db \<and> permissions db' = permissions db
      \<and> connection_requests db' = connection_requests db"
proof -
  let ?d = "to_lower (ac_device p)"
  from assms(1) obtain d1 d2 d3 d4 d5 d6 where s:
    "insert_user (new_user r user_id uid) db = Inr d1" "insert_device (new_device p user_id) d1 = Inr d2"
    "insert_signed (new_signed ?d dbnow (ac_signed p)) d2 = Inr d3"
    "try_fold (\<lambda>k. insert_otp (new_otp ?d dbnow k)) (ac_one_time p) d3 = Inr d4"
    "try_fold (\<lambda>k. insert_pq (new_pq ?d dbnow False k)) (ac_pq_one_time p) d4 = Inr d5"
    "insert_pq (new_pq ?d dbnow True (ac_pq_last_resort p)) d5 = Inr d6"
    "insert_session sess (mark_activated (ar_id r) dbnow d6) = Inr db'"
    by (auto simp: create_account_def Let_def try_then_Inr_iff)
  have c3: "core_ok d3" using s(1-3) assms(2) core_inserts by blast
  have c4: "core_ok d4" "same_accounts d3 d4" using prekey_folds(1) [OF c3 s(4)] by blast+
  have c5: "core_ok d5" "same_accounts d4 d5" using prekey_folds(2) [OF c4(1) s(5)] by blast+
  have c6: "core_ok d6" "same_accounts d5 d6"
    using s(6) c5 core_insert_pq by (auto simp: insert_pq_Inr same_accounts_def)
  then have "core_ok (mark_activated (ar_id r) dbnow d6)" by (simp add: mark_activated_def)
  with s(7) show "core_ok db'" by (rule core_insert_session)
  have same: "same_accounts d3 d6" using c4 c5 c6 same_accounts_trans by blast
  from s(1-3,7) same show "users db' = users db @ [new_user r user_id uid]"
    "devices db' = devices db @ [new_device p user_id]"
    "access_requests db' = access_requests (mark_activated (ar_id r) dbnow db)"
    "sessions db' = sessions db @ [sess]" "\<forall>u \<in> set (users db). us_name u \<noteq> ar_name r"
    "messages db' = messages db \<and> permissions db' = permissions db
      \<and> connection_requests db' = connection_requests db"
    by (auto simp: insert_user_Inr insert_device_Inr insert_signed_Inr insert_session_Inr
        same_accounts_def mark_activated_def new_user_def)
qed

lemma names_update_where:
  fixes f :: "access_request \<Rightarrow> access_request"
  assumes "\<And>x. ar_name (f x) = ar_name x"
  shows "ar_name ` {x \<in> set (update_where p f rs). P x} = ar_name ` {x \<in> set rs. P (if p x then f x else x)}"
proof -
  have "ar_name ` {x \<in> g ` S. P x} = ar_name ` {x \<in> S. P (g x)}" if "\<And>x. ar_name (g x) = ar_name x"
    for g :: "access_request \<Rightarrow> access_request" and S
  proof -
    have "{x \<in> g ` S. P x} = g ` {x \<in> S. P (g x)}" by auto
    then show ?thesis by (simp add: image_image that)
  qed
  from this [of "\<lambda>x. if p x then f x else x" "set rs"] show ?thesis
    by (simp add: update_where_def assms)
qed

lemma count_attempt_access:
  assumes "access_ok db" and "r \<in> set (access_requests db)" and "ar_attempts r < 5"
  shows "access_ok (count_attempt (ar_id r) db)"
proof -
  have "ar_attempts x < 5" if "x \<in> set (access_requests db)" "ar_id x = ar_id r" for x
    using that assms unique_keyD [of ar_id "access_requests db" x r] by (simp add: access_ok_def)
  then have "\<forall>x \<in> set (access_requests (count_attempt (ar_id r) db)). 0 \<le> ar_attempts x \<and> ar_attempts x \<le> 5"
    using assms(1) by (force simp: count_attempt_def set_update_where access_ok_def)
  moreover have "ar_name ` {x \<in> set (access_requests (count_attempt (ar_id r) db)). ar_status x = A_Activated}
      = ar_name ` {x \<in> set (access_requests db). ar_status x = A_Activated}"
    by (simp add: count_attempt_def names_update_where if_distrib [of ar_status])
  moreover have "unique_key ar_id (access_requests (count_attempt (ar_id r) db))"
    "unique_key ar_name (access_requests (count_attempt (ar_id r) db))"
    using assms(1) by (auto simp: access_ok_def count_attempt_def intro: keep_unique)
  ultimately show ?thesis
    using assms(1) by (simp add: access_ok_def) (simp add: count_attempt_def)
qed

lemma count_attempt_frame [simp]:
  "users (count_attempt rid db) = users db" "devices (count_attempt rid db) = devices db"
  "sessions (count_attempt rid db) = sessions db" "messages (count_attempt rid db) = messages db"
  "permissions (count_attempt rid db) = permissions db"
  "connection_requests (count_attempt rid db) = connection_requests db"
  "core_ok (count_attempt rid db) = core_ok db"
  by (simp_all add: count_attempt_def)

lemma create_account_ok:
  assumes "create_account p r user_id uid sess dbnow (count_attempt (ar_id r) db) = Inr db'"
    and "db_ok db" and "r \<in> set (access_requests db)" and "ar_attempts r < 5" and "ar_status r = A_Approved"
  shows "db_ok db'"
proof -
  let ?db1 = "count_attempt (ar_id r) db"
  have ok1: "access_ok ?db1" and core: "core_ok ?db1"
    using assms(2-4) count_attempt_access by (auto simp: db_ok_core)
  note eff = create_account_effect [OF assms(1) core]
  have one: "x = r" if "x \<in> set (access_requests db)" "ar_id x = ar_id r" for x
    using that assms(2,3) by (auto simp: db_ok_def access_ok_def dest: unique_keyD)
  have "access_ok db'"
    unfolding access_ok_def
  proof (intro conjI)
    show "unique_key ar_id (access_requests db')" "unique_key ar_name (access_requests db')"
      using ok1 eff(4) by (auto simp: access_ok_def mark_activated_def intro: keep_unique)
    show "\<forall>x \<in> set (access_requests db'). 0 \<le> ar_attempts x \<and> ar_attempts x \<le> 5"
      using ok1 eff(4) by (auto simp: access_ok_def mark_activated_def set_update_where)
    have "ar_name ` {x \<in> set (access_requests db'). ar_status x = A_Activated}
        = insert (ar_name r) (ar_name ` {x \<in> set (access_requests db). ar_status x = A_Activated})"
    proof -
      have "ar_name ` {x \<in> set (access_requests db'). ar_status x = A_Activated}
          = ar_name ` {x \<in> set (access_requests db). ar_id x = ar_id r \<or> ar_status x = A_Activated}"
        unfolding eff(4)
        by (simp add: mark_activated_def count_attempt_def names_update_where if_distrib [of ar_status]
            if_distrib [of ar_id]) (intro arg_cong [where f = "(`) ar_name"], auto)
      also have "{x \<in> set (access_requests db). ar_id x = ar_id r \<or> ar_status x = A_Activated}
          = insert r {x \<in> set (access_requests db). ar_status x = A_Activated}"
        using one assms(3) by auto
      finally show ?thesis by simp
    qed
    then show "us_name ` set (users db') = ar_name ` {x \<in> set (access_requests db'). ar_status x = A_Activated}"
      using assms(2) eff(2) by (simp add: db_ok_def access_ok_def new_user_def)
  qed
  with eff(1) show ?thesis by (simp add: db_ok_core)
qed

text \<open>Every way an activation can end.\<close>

lemma activate_cases:
  assumes "access_activate env fault now now' dbnow user_id rnd body db = Some (db', rep)"
  obtains (unchanged) "db' = db" "\<not> is_done rep"
    | (guess) p r where "activation_schema (uuid_ok env) body = Some p" "r \<in> set (access_requests db)"
        "ar_id r = to_lower (ac_request p)" "ar_status r = A_Approved" "ar_attempts r < 5"
        "\<not> code_matches env r p"
        "db' = count_attempt (ar_id r) db" "rep = Fail 401 ''ACTIVATION_CODE_INVALID''"
    | (again) p r u d where "activation_schema (uuid_ok env) body = Some p" "r \<in> set (access_requests db)"
        "ar_id r = to_lower (ac_request p)" "ar_status r = A_Activated"
        "code_matches env r p"
        "existing_account r p db = Some (u, d)" "dv_auth d = b64_decode (ac_auth_key p)"
        "insert_session \<lparr>se_token = b64url_encode rnd, se_device = dv_id d, se_expires = now' + session_ttl\<rparr> db = Inr db'"
        "\<exists>v. rep = Done 200 v"
    | (created) p r uid where "activation_schema (uuid_ok env) body = Some p" "r \<in> set (access_requests db)"
        "ar_id r = to_lower (ac_request p)" "ar_status r = A_Approved" "ar_attempts r < 5"
        "code_matches env r p"
        "\<exists>e. ar_expires r = Some e \<and> now \<le> e"
        "choose_uid env user_id (count_attempt (ar_id r) db) = Some uid"
        "create_account p r user_id uid
           \<lparr>se_token = b64url_encode rnd, se_device = to_lower (ac_device p), se_expires = now' + session_ttl\<rparr>
           dbnow (count_attempt (ar_id r) db) = Inr db'"
        "\<exists>v. rep = Done 201 v \<and> av_user v = user_id \<and> av_name v = ar_name r \<and> av_uid v = Some uid"
proof (cases "blank_field ''requestId'' body \<or> blank_field ''activationCode'' body \<or>
    activation_schema (uuid_ok env) body = None \<or> fault")
  case True
  with assms show thesis by (intro unchanged) (auto simp: access_activate_def split: if_splits option.splits)
next
  case False
  then obtain p where p: "activation_schema (uuid_ok env) body = Some p" by auto
  let ?tx = "activate_tx env now now' dbnow user_id (b64url_encode rnd) p db"
  from assms False p obtain out where out: "?tx = Some out"
    "run_tx False (Fail 500 ''PREKEY_REGISTRATION_FAILED'') db out = (db', rep)"
    by (auto simp: access_activate_def)
  show thesis
  proof (cases "List.find (\<lambda>r. ar_id r = to_lower (ac_request p)) (access_requests db)")
    case None
    with out show thesis by (intro unchanged) (auto simp: activate_tx_def)
  next
    case (Some r)
    note r = find_SomeD [OF Some]
    define ok where "ok = code_matches env r p"
    have tx: "?tx = (if ar_status r = A_Activated then Some (activate_again p r ok now' (b64url_encode rnd) db)
             else if ar_status r \<noteq> A_Approved then Some (Inr (db, Rollback (Fail 409 ''REQUEST_NOT_APPROVED'')))
             else if (case ar_expires r of None \<Rightarrow> True | Some e \<Rightarrow> e < now)
             then Some (Inr (db, Rollback (Fail 410 ''ACTIVATION_CODE_EXPIRED'')))
             else if 5 \<le> ar_attempts r
             then Some (Inr (db, Rollback (Fail 429 ''ACTIVATION_ATTEMPTS_EXCEEDED'')))
             else if \<not> ok then Some (Inr (count_attempt (ar_id r) db, Commit (Fail 401 ''ACTIVATION_CODE_INVALID'')))
             else case choose_uid env user_id (count_attempt (ar_id r) db) of
                             None \<Rightarrow> None
                           | Some uid \<Rightarrow> Some (try_then (create_account p r user_id uid
                                  \<lparr>se_token = b64url_encode rnd, se_device = to_lower (ac_device p), se_expires = now' + session_ttl\<rparr>
                                  dbnow (count_attempt (ar_id r) db))
                                   (\<lambda>db2. Inr (db2, Commit (Done 201
                                      \<lparr>av_token = b64url_encode rnd, av_expires = now' + session_ttl, av_user = user_id,
                                       av_device = ac_device p, av_name = ar_name r, av_uid = Some uid\<rparr>)))))"
      unfolding activate_tx_def Some Let_def by (simp add: ok_def)
    consider (act) "ar_status r = A_Activated" | (early) "ar_status r \<noteq> A_Activated"
        "ar_status r \<noteq> A_Approved \<or> (case ar_expires r of None \<Rightarrow> True | Some e \<Rightarrow> e < now) \<or> 5 \<le> ar_attempts r"
      | (live) "ar_status r = A_Approved" "\<exists>e. ar_expires r = Some e \<and> now \<le> e" "ar_attempts r < 5"
      by (cases "ar_status r"; cases "ar_expires r"; cases "the (ar_expires r) < now"; cases "ar_attempts r < 5")
        (auto simp: not_less)
    then show thesis
    proof cases
      case act
      with out tx have ag: "run_tx False (Fail 500 ''PREKEY_REGISTRATION_FAILED'') db
          (activate_again p r ok now' (b64url_encode rnd) db) = (db', rep)" by simp
      show thesis
      proof (cases "existing_account r p db")
        case None
        with ag show thesis by (intro unchanged) (auto simp: activate_again_def)
      next
        case (Some ud)
        obtain u d where ud: "ud = (u, d)" by (cases ud)
        show thesis
        proof (cases "ok \<and> dv_identity d = b64_decode (ac_identity_key p) \<and> dv_auth d = b64_decode (ac_auth_key p)")
          case False
          with ag Some ud show thesis by (intro unchanged) (auto simp: activate_again_def)
        next
          case True
          show thesis
          proof (cases "insert_session \<lparr>se_token = b64url_encode rnd, se_device = dv_id d, se_expires = now' + session_ttl\<rparr> db")
            case (Inl e)
            with ag Some ud True show thesis by (intro unchanged) (auto simp: activate_again_def)
          next
            case (Inr db2)
            with ag Some ud True p r act show thesis
              by (intro again [of p r u d]) (auto simp: activate_again_def ok_def)
          qed
        qed
      qed
    next
      case early
      with out tx show thesis by (intro unchanged) (auto split: if_splits)
    next
      case live
      show thesis
      proof (cases ok)
        case False
        with out tx live p r show thesis by (intro guess [of p r]) (auto simp: ok_def)
      next
        case True
        with out tx live obtain uid where uid: "choose_uid env user_id (count_attempt (ar_id r) db) = Some uid"
          by (auto split: option.splits)
        show thesis
        proof (cases "create_account p r user_id uid
            \<lparr>se_token = b64url_encode rnd, se_device = to_lower (ac_device p), se_expires = now' + session_ttl\<rparr>
            dbnow (count_attempt (ar_id r) db)")
          case (Inl e)
          with out tx live True uid show thesis by (intro unchanged) auto
        next
          case (Inr db2)
          with out tx live True uid p r show thesis by (intro created [of p r uid]) (auto simp: ok_def)
        qed
      qed
    qed
  qed
qed

lemma activate_ok:
  assumes "access_activate env fault now now' dbnow user_id rnd body db = Some (db', rep)" and "db_ok db"
  shows "db_ok db'"
  using assms(1)
proof (cases rule: activate_cases)
  case (guess p r)
  with assms(2) count_attempt_access [of db r] show ?thesis by (simp add: db_ok_core)
next
  case (again p r u d)
  with assms(2) insert_session_ok show ?thesis by blast
next
  case (created p r uid)
  with assms(2) create_account_ok show ?thesis by blast
qed (use assms(2) in simp)

text \<open>The handler answers as soon as one of the candidates for a public UID is free.\<close>

lemma activate_returns:
  assumes "\<not> uid_taken db (uid_candidate (format_public_uid (sha256 env)) user_id k)"
  shows "\<exists>out. access_activate env fault now now' dbnow user_id rnd body db = Some out"
proof -
  have "\<exists>u. choose_uid env user_id (count_attempt rid db) = Some u" for rid
    using free_uid_returns [of "uid_taken (count_attempt rid db)" "format_public_uid (sha256 env)" user_id 0 k] assms
    by (simp add: choose_uid_def uid_taken_def)
  then have "\<exists>o1. activate_tx env now now' dbnow user_id t p db = Some o1" for t p
    unfolding activate_tx_def by (auto simp: Let_def split: option.splits) (metis option.distinct(1))
  then show ?thesis
    by (auto simp: access_activate_def split: option.splits) (metis surj_pair)
qed

end
