(* ===== verification/Relay_Ws.thy ===== *)
theory Relay_Ws
  imports Relay_Auth
begin

text \<open>
  \<open>apps/relay-server/src/ws-handler.ts\<close>: the map from a device to its WebSocket, the upgrade that
  registers a socket, the close event that removes it, the check that a socket is still
  authorized, and the notification of a device. A socket is known by a number, so that the
  close event of a replaced socket can be told from that of its successor.
\<close>

section \<open>Frames and sockets\<close>

datatype frame =
    Envelope_Frame string string string string
  | New_Envelope
  | Replenish_Warning nat nat
  | Signal_Frame webrtc_signal
  | Signal_Result "string option" bool "string option"
  | Pong

record socket =
  so_id :: nat
  so_open :: bool
  so_buffered :: int
  so_fails :: bool
  so_sent :: "frame list"

type_synonym clients = "(string, socket) jsmap"

text \<open>\<open>max_buffered\<close> is \<open>None\<close> for \<open>Infinity\<close>; \<open>so_fails\<close> says that \<open>send\<close> throws.\<close>

definition accepts :: "int option \<Rightarrow> socket \<Rightarrow> bool" where
  "accepts max_buffered w \<longleftrightarrow>
     so_open w \<and> (case max_buffered of None \<Rightarrow> True | Some m \<Rightarrow> so_buffered w \<le> m)"

definition notify_client :: "string \<Rightarrow> frame \<Rightarrow> int option \<Rightarrow> clients \<Rightarrow> clients \<times> bool" where
  "notify_client d f max_buffered cs =
     (case map_get cs d of
        Some w \<Rightarrow>
          if accepts max_buffered w
          then if so_fails w then (cs, False)
               else (map_set d (w\<lparr>so_sent := so_sent w @ [f]\<rparr>) cs, True)
          else (cs, False)
      | None \<Rightarrow> (cs, False))"

definition notify_blind_activity :: "clients \<Rightarrow> clients" where
  "notify_blind_activity cs =
     fold (\<lambda>d cs. fst (notify_client d New_Envelope (Some (256 * 1024)) cs)) (map fst cs) cs"

definition sent_to :: "string \<Rightarrow> clients \<Rightarrow> frame list" where
  "sent_to d cs = (case map_get cs d of None \<Rightarrow> [] | Some w \<Rightarrow> so_sent w)"

lemma notify_client_only:
  "d' \<noteq> d \<Longrightarrow> map_get (fst (notify_client d f m cs)) d' = map_get cs d'"
  by (auto simp: notify_client_def jsmap.lookup_put split: option.splits)

lemma notify_client_sent:
  assumes "notify_client d f m cs = (cs', b)"
  shows "sent_to d cs' = (if b then sent_to d cs @ [f] else sent_to d cs)"
    and "d' \<noteq> d \<Longrightarrow> sent_to d' cs' = sent_to d' cs"
  using assms
  by (auto simp: notify_client_def sent_to_def jsmap.lookup_put split: option.splits if_splits)

lemma notify_client_True:
  assumes "notify_client d f m cs = (cs', True)"
  obtains w where "map_get cs d = Some w" "accepts m w" "\<not> so_fails w"
    "cs' = map_set d (w\<lparr>so_sent := so_sent w @ [f]\<rparr>) cs"
  using assms by (auto simp: notify_client_def split: option.splits if_splits)

lemma notify_client_False: "notify_client d f m cs = (cs', False) \<Longrightarrow> cs' = cs"
  by (auto simp: notify_client_def split: option.splits if_splits)

lemma notify_client_keys: "fst ` set (fst (notify_client d f m cs)) = fst ` set cs"
proof -
  have "d \<in> fst ` set cs" if "map_get cs d = Some w" for w
    using that by (force simp: map_get_def dest: map_of_SomeD)
  then show ?thesis by (auto simp: notify_client_def dom_map_set split: option.splits)
qed

section \<open>Upgrade\<close>

text \<open>The token of the \<open>Authorization\<close> header, or the \<open>token\<close> query parameter.\<close>

definition upgrade_token :: "string option \<Rightarrow> string option \<Rightarrow> string option" where
  "upgrade_token header query =
     (case header of
        Some s \<Rightarrow> if starts_with ''Bearer '' s then Some (drop 7 s) else query
      | None \<Rightarrow> query)"

text \<open>The part of the request target before the first question mark.\<close>

definition upgrade_path :: "string \<Rightarrow> string" where
  "upgrade_path target = takeWhile (\<lambda>c. c \<noteq> CHR ''?'') target"

text \<open>The device that an upgrade request may connect as; \<open>None\<close> destroys the socket.\<close>

definition upgrade_device ::
  "relay_env \<Rightarrow> bool \<Rightarrow> ms \<Rightarrow> string \<Rightarrow> string option \<Rightarrow> string option \<Rightarrow> string option \<Rightarrow> relay_db \<Rightarrow> string option" where
  "upgrade_device env fault now target header query inst db =
     (if upgrade_path target \<noteq> ''/ws'' then None
      else case upgrade_token header query of
        None \<Rightarrow> None
      | Some token \<Rightarrow>
          if fault then None
          else (case session_device now token db of
                  None \<Rightarrow> None
                | Some d \<Rightarrow> if instance_allowed env db d inst then Some d else None))"

text \<open>
  Registering replaces the socket that the device had, which is then closed: it is returned
  beside the map.
\<close>

definition register_socket :: "string \<Rightarrow> socket \<Rightarrow> clients \<Rightarrow> clients \<times> socket option" where
  "register_socket d w cs = (map_set d w cs, map_option (\<lambda>p. p\<lparr>so_open := False\<rparr>) (map_get cs d))"

definition socket_closed :: "string \<Rightarrow> nat \<Rightarrow> clients \<Rightarrow> clients" where
  "socket_closed d i cs =
     (case map_get cs d of
        Some w \<Rightarrow> if so_id w = i then map_delete d cs else cs
      | None \<Rightarrow> cs)"

lemma late_close_harmless:
  assumes "so_id w \<noteq> i"
  shows "socket_closed d i (fst (register_socket d w cs)) = fst (register_socket d w cs)"
  using assms by (simp add: socket_closed_def register_socket_def jsmap.lookup_put)

section \<open>Still authorized\<close>

text \<open>
  The query of \<open>authorized\<close>: an unset instance header is compared as the empty text. The same
  query decides at every ping whether the socket is terminated.
\<close>

definition socket_session_valid ::
  "relay_env \<Rightarrow> ms \<Rightarrow> string \<Rightarrow> string option \<Rightarrow> relay_db \<Rightarrow> bool" where
  "socket_session_valid env now token inst db =
     has_row (\<lambda>s. se_token s = token \<and> now < se_expires s \<and> active_user (se_device s) db \<noteq> None \<and>
        (case find_lock (se_device s) db of
           None \<Rightarrow> True
         | Some l \<Rightarrow> vl_instance l = (case inst of None \<Rightarrow> [] | Some i \<Rightarrow> hex_encode (sha256 env (utf8 i)))))
       (sessions db)"

definition socket_authorized ::
  "relay_env \<Rightarrow> ms \<Rightarrow> string \<Rightarrow> string option \<Rightarrow> string \<Rightarrow> nat \<Rightarrow> relay_db \<Rightarrow> clients \<Rightarrow> bool" where
  "socket_authorized env now token inst d i db cs \<longleftrightarrow>
     socket_session_valid env now token inst db \<and>
     (case map_get cs d of Some w \<Rightarrow> so_id w = i \<and> so_open w | None \<Rightarrow> False)"

text \<open>The ping timer: \<open>None\<close> terminates, otherwise the new value of \<open>isAlive\<close>.\<close>

definition ping_tick ::
  "relay_env \<Rightarrow> bool \<Rightarrow> ms \<Rightarrow> string \<Rightarrow> string option \<Rightarrow> bool \<Rightarrow> relay_db \<Rightarrow> bool option" where
  "ping_tick env fault now token inst is_alive db =
     (if fault \<or> \<not> socket_session_valid env now token inst db then None
      else if \<not> is_alive then None else Some False)"

end
