(* ===== verification/Relay_Prekeys.thy ===== *)
theory Relay_Prekeys
  imports Relay_Access Relay_Ws
begin

text \<open>
  \<open>apps/relay-server/src/prekeys.ts\<close>: upload of signed, one-time and post-quantum prekeys, their
  count, the bundle that opens a session (it consumes a one-time prekey of each kind) and the
  cleanup of old signed prekeys.
\<close>

section \<open>Uploads\<close>

definition upsert_signed :: "string \<Rightarrow> ms \<Rightarrow> signed_prekey \<Rightarrow> relay_db \<Rightarrow> db_error + relay_db" where
  "upsert_signed d dbnow k db =
     (if \<not> int4_ok (sp_id k) then Inl Out_Of_Range
      else if \<not> device_exists d db then Inl Foreign_Key_Violation
      else Inr (db\<lparr>signed_prekeys := upsert (\<lambda>x. (sk_device x, sk_prekey x))
        (\<lambda>x. x\<lparr>sk_public := b64_decode (sp_public k), sk_signature := b64_decode (sp_signature k),
               sk_uploaded := dbnow\<rparr>)
        (new_signed d dbnow k) (signed_prekeys db)\<rparr>))"

text \<open>\<open>SELECT COALESCE(MAX(version), 0) + 1\<close>\<close>

definition next_key_version :: "string \<Rightarrow> string \<Rightarrow> relay_db \<Rightarrow> int" where
  "next_key_version d kind db =
     foldr max (map kv_version (filter (\<lambda>v. kv_device v = d \<and> kv_type v = kind) (key_versions db))) 0 + 1"

definition track_key_version :: "string \<Rightarrow> bytes \<Rightarrow> relay_db \<Rightarrow> db_error + relay_db" where
  "track_key_version d fingerprint db =
     (let v = next_key_version d ''signed_prekey'' db
      in if \<not> int4_ok v then Inl Out_Of_Range
         else Inr (db\<lparr>key_versions := key_versions db @
           [\<lparr>kv_device = d, kv_type = ''signed_prekey'', kv_version = v, kv_fingerprint = fingerprint\<rparr>]\<rparr>))"

definition upload_signed ::
  "relay_env \<Rightarrow> bool \<Rightarrow> ms \<Rightarrow> string \<Rightarrow> json \<Rightarrow> relay_db \<Rightarrow> relay_db \<times> unit reply" where
  "upload_signed env fault dbnow d body db =
     (case signed_prekey_schema body of
        None \<Rightarrow> (db, invalid_request)
      | Some k \<Rightarrow>
          run_tx fault internal_error db
            (try_then (upsert_signed d dbnow k db) (\<lambda>db1.
             try_then (track_key_version d (sha256 env (b64_decode (sp_public k))) db1) (\<lambda>db2.
             Inr (db2, Commit (Done 200 ()))))))"

definition upsert_otp :: "string \<Rightarrow> ms \<Rightarrow> one_time_prekey \<Rightarrow> relay_db \<Rightarrow> db_error + relay_db" where
  "upsert_otp d dbnow k db =
     (if \<not> int4_ok (otp_id k) then Inl Out_Of_Range
      else if \<not> device_exists d db then Inl Foreign_Key_Violation
      else Inr (db\<lparr>otps := upsert (\<lambda>x. (ok_device x, ok_prekey x))
        (\<lambda>x. x\<lparr>ok_public := b64_decode (otp_public k), ok_consumed := False, ok_consumed_at := None\<rparr>)
        (new_otp d dbnow k) (otps db)\<rparr>))"

text \<open>A row keeps the \<open>prekey_type\<close> it was inserted with.\<close>

definition upsert_pq :: "string \<Rightarrow> ms \<Rightarrow> bool \<Rightarrow> signed_prekey \<Rightarrow> relay_db \<Rightarrow> db_error + relay_db" where
  "upsert_pq d dbnow lr k db =
     (if \<not> int4_ok (sp_id k) then Inl Out_Of_Range
      else if \<not> device_exists d db then Inl Foreign_Key_Violation
      else Inr (db\<lparr>pqs := upsert (\<lambda>x. (qk_device x, qk_prekey x))
        (\<lambda>x. x\<lparr>qk_public := b64_decode (sp_public k), qk_signature := b64_decode (sp_signature k),
               qk_consumed := False, qk_consumed_at := None\<rparr>)
        (new_pq d dbnow lr k) (pqs db)\<rparr>))"

definition upload_one_time :: "bool \<Rightarrow> ms \<Rightarrow> string \<Rightarrow> json \<Rightarrow> relay_db \<Rightarrow> relay_db \<times> unit reply" where
  "upload_one_time fault dbnow d body db =
     (case required ''oneTimePrekeys'' (array_len 1 200 one_time_prekey_schema) body of
        None \<Rightarrow> (db, invalid_request)
      | Some ks \<Rightarrow>
          run_tx fault internal_error db
            (try_then (try_fold (upsert_otp d dbnow) ks db) (\<lambda>db1. Inr (db1, Commit (Done 200 ())))))"

definition pq_upload_schema :: "json \<Rightarrow> (signed_prekey list \<times> signed_prekey option) option" where
  "pq_upload_schema j =
     do { ks \<leftarrow> required ''pqOneTimePrekeys'' (array_len 1 200 signed_prekey_schema) j;
          l \<leftarrow> optional ''pqLastResortPrekey'' signed_prekey_schema j;
          Some (ks, l) }"

definition upload_pq_one_time :: "bool \<Rightarrow> ms \<Rightarrow> string \<Rightarrow> json \<Rightarrow> relay_db \<Rightarrow> relay_db \<times> unit reply" where
  "upload_pq_one_time fault dbnow d body db =
     (case pq_upload_schema body of
        None \<Rightarrow> (db, invalid_request)
      | Some (ks, l) \<Rightarrow>
          run_tx fault internal_error db
            (try_then (try_fold (upsert_pq d dbnow False) ks db) (\<lambda>db1.
             try_then (case l of None \<Rightarrow> Inr db1 | Some k \<Rightarrow> upsert_pq d dbnow True k db1) (\<lambda>db2.
             Inr (db2, Commit (Done 200 ()))))))"

section \<open>Counts\<close>

definition otp_count :: "string \<Rightarrow> relay_db \<Rightarrow> nat" where
  "otp_count d db = count_where (\<lambda>k. ok_device k = d \<and> \<not> ok_consumed k) (otps db)"

definition pq_count :: "string \<Rightarrow> relay_db \<Rightarrow> nat" where
  "pq_count d db = count_where (\<lambda>k. qk_device k = d \<and> \<not> qk_consumed k \<and> \<not> qk_last_resort k) (pqs db)"

definition prekey_count :: "bool \<Rightarrow> string \<Rightarrow> relay_db \<Rightarrow> (nat \<times> nat) reply" where
  "prekey_count fault d db = (if fault then internal_error else Done 200 (otp_count d db, pq_count d db))"

section \<open>Bundles\<close>

record bundle_reply =
  bu_user :: string
  bu_device :: string
  bu_name :: string
  bu_uid :: "string option"
  bu_identity :: string
  bu_registration :: int
  bu_signal_device :: int
  bu_signed :: signed_prekey
  bu_one_time :: "one_time_prekey option"
  bu_pq_one_time :: "signed_prekey option"
  bu_last_resort :: signed_prekey

definition recipient_name :: "string \<Rightarrow> string" where
  "recipient_name s =
     (let v = trim s in if starts_with ''CP-'' (to_upper v) then to_upper v else to_lower v)"

definition bundle_schema :: "(string \<Rightarrow> bool) \<Rightarrow> json \<Rightarrow> (string option \<times> string option) option" where
  "bundle_schema ok j =
     do { d \<leftarrow> optional ''recipientDeviceId'' (string_where ok) j;
          n \<leftarrow> optional ''recipientUsername'' as_string j;
          Some (d, map_option recipient_name n) }"

text \<open>The device whose owner has this name or public UID.\<close>

definition device_of_name :: "string \<Rightarrow> relay_db \<Rightarrow> device option" where
  "device_of_name n db =
     List.find (\<lambda>d. dv_revoked d = None \<and>
       has_row (\<lambda>u. us_id u = dv_user d \<and> (us_name u = n \<or> us_uid u = Some n)) (users db)) (devices db)"

text \<open>The device id that the request means, as text: an empty name counts as absent.\<close>

definition resolve_target ::
  "string option \<Rightarrow> string option \<Rightarrow> relay_db \<Rightarrow> db_error + string option" where
  "resolve_target d n db =
     (case n of
        Some (c # cs) \<Rightarrow>
          if nul \<in> set (c # cs) then Inl Invalid_Text
          else Inr (map_option dv_id (device_of_name (c # cs) db))
      | _ \<Rightarrow> (case d of Some t \<Rightarrow> Inr (Some t) | None \<Rightarrow> Inl Type_Error))"

definition otp_rows :: "string \<Rightarrow> relay_db \<Rightarrow> otp_row list" where
  "otp_rows d db = filter (\<lambda>k. ok_device k = d \<and> \<not> ok_consumed k) (otps db)"

definition pq_rows :: "string \<Rightarrow> relay_db \<Rightarrow> pq_row list" where
  "pq_rows d db = filter (\<lambda>k. qk_device k = d \<and> \<not> qk_consumed k \<and> \<not> qk_last_resort k) (pqs db)"

definition consume_otp :: "ms \<Rightarrow> otp_row option \<Rightarrow> relay_db \<Rightarrow> relay_db" where
  "consume_otp dbnow k db =
     (case k of
        None \<Rightarrow> db
      | Some r \<Rightarrow> db\<lparr>otps := update_where (\<lambda>x. (ok_device x, ok_prekey x) = (ok_device r, ok_prekey r))
          (\<lambda>x. x\<lparr>ok_consumed := True, ok_consumed_at := Some dbnow\<rparr>) (otps db)\<rparr>)"

definition consume_pq :: "ms \<Rightarrow> pq_row option \<Rightarrow> relay_db \<Rightarrow> relay_db" where
  "consume_pq dbnow k db =
     (case k of
        None \<Rightarrow> db
      | Some r \<Rightarrow> db\<lparr>pqs := update_where (\<lambda>x. (qk_device x, qk_prekey x) = (qk_device r, qk_prekey r))
          (\<lambda>x. x\<lparr>qk_consumed := True, qk_consumed_at := Some dbnow\<rparr>) (pqs db)\<rparr>)"

definition otp_out :: "otp_row \<Rightarrow> one_time_prekey" where
  "otp_out r = \<lparr>otp_id = ok_prekey r, otp_public = b64_encode (ok_public r)\<rparr>"

definition pq_out :: "pq_row \<Rightarrow> signed_prekey" where
  "pq_out r = \<lparr>sp_id = qk_prekey r, sp_public = b64_encode (qk_public r), sp_signature = b64_encode (qk_signature r)\<rparr>"

definition signed_out :: "signed_row \<Rightarrow> signed_prekey" where
  "signed_out r = \<lparr>sp_id = sk_prekey r, sp_public = b64_encode (sk_public r), sp_signature = b64_encode (sk_signature r)\<rparr>"

text \<open>The part of the transaction after the target is known; the ties choose among equal upload times.\<close>

definition bundle_for ::
  "(nat \<times> nat \<times> nat \<times> nat) \<Rightarrow> ms \<Rightarrow> string \<Rightarrow> string \<Rightarrow> relay_db \<Rightarrow> db_error + relay_db \<times> bundle_reply reply tx_end" where
  "bundle_for ties dbnow requester target db =
     (let (t1, t2, t3, t4) = ties; d = to_lower target in
      case (device_user requester db, device_user d db) of
        (Some u1, Some u2) \<Rightarrow>
          if \<not> permitted db u1 u2 then Inr (db, Rollback (Fail 403 ''conversation_not_approved''))
          else (case active_device d db of
            None \<Rightarrow> Inr (db, Rollback (Fail 404 ''device_not_found''))
          | Some dev \<Rightarrow>
              (case find_user (dv_user dev) db of
                None \<Rightarrow> Inr (db, Rollback (Fail 404 ''device_not_found''))
              | Some usr \<Rightarrow>
                  (case first_by (\<lambda>k. - sk_uploaded k) t1 (filter (\<lambda>k. sk_device k = d) (signed_prekeys db)) of
                    None \<Rightarrow> Inr (db, Rollback (Fail 404 ''signed_prekey_not_found''))
                  | Some sk \<Rightarrow>
                      let otp = first_by ok_uploaded t2 (otp_rows d db);
                          db1 = consume_otp dbnow otp db;
                          pq = first_by qk_uploaded t3 (pq_rows d db1);
                          db2 = consume_pq dbnow pq db1
                      in (case first_by (\<lambda>_. 0) t4 (filter (\<lambda>k. qk_device k = d \<and> qk_last_resort k) (pqs db2)) of
                        None \<Rightarrow> Inr (db, Rollback (Fail 404 ''last_resort_pq_prekey_not_found''))
                      | Some lr \<Rightarrow>
                          Inr (db2, Commit (Done 200
                            \<lparr>bu_user = dv_user dev, bu_device = target, bu_name = us_name usr,
                             bu_uid = us_uid usr, bu_identity = b64_encode (dv_identity dev),
                             bu_registration = dv_registration dev, bu_signal_device = dv_signal_device dev,
                             bu_signed = signed_out sk, bu_one_time = map_option otp_out otp,
                             bu_pq_one_time = map_option pq_out pq, bu_last_resort = pq_out lr\<rparr>))))))
      | _ \<Rightarrow> Inl Type_Error)"

definition bundle_tx ::
  "(nat \<times> nat \<times> nat \<times> nat) \<Rightarrow> ms \<Rightarrow> string \<Rightarrow> string option \<Rightarrow> string option \<Rightarrow> relay_db \<Rightarrow>
     db_error + relay_db \<times> bundle_reply reply tx_end" where
  "bundle_tx ties dbnow requester d n db =
     try_then (resolve_target d n db) (\<lambda>target.
       case target of
         None \<Rightarrow> Inr (db, Rollback (Fail 404 ''user_not_found''))
       | Some t \<Rightarrow> bundle_for ties dbnow requester t db)"

text \<open>
  After the commit the inventory is counted and the recipient warned; \<open>late_fault\<close> says that
  one of these counts fails, which leaves the consumption committed and replies 500.
\<close>

definition fetch_bundle ::
  "relay_env \<Rightarrow> bool \<Rightarrow> bool \<Rightarrow> (nat \<times> nat \<times> nat \<times> nat) \<Rightarrow> ms \<Rightarrow> string \<Rightarrow> json \<Rightarrow> relay_db \<times> clients \<Rightarrow>
     (relay_db \<times> clients) \<times> bundle_reply reply" where
  "fetch_bundle env fault late_fault ties dbnow requester body st =
     (let (db, cs) = st in
      case bundle_schema (uuid_ok env) body of
        None \<Rightarrow> (st, invalid_request)
      | Some (d, n) \<Rightarrow>
          if d = None \<and> (n = None \<or> n = Some []) then (st, Fail 400 ''recipient_required'')
          else (case run_tx fault internal_error db (bundle_tx ties dbnow requester d n db) of
            (db', Done c b) \<Rightarrow>
              if late_fault then ((db', cs), internal_error)
              else let key = to_lower (bu_device b); o1 = otp_count key db'; p = pq_count key db'
                   in if o1 < 20 \<or> p < 20
                      then ((db', fst (notify_client (bu_device b) (Replenish_Warning o1 p) None cs)), Done c b)
                      else ((db', cs), Done c b)
          | (db', r) \<Rightarrow> ((db', cs), r)))"

section \<open>Cleanup\<close>

text \<open>\<open>SELECT DISTINCT ON (device_id) id .. ORDER BY device_id, uploaded_at DESC\<close>\<close>

definition latest_signed :: "(string \<Rightarrow> nat) \<Rightarrow> relay_db \<Rightarrow> string \<Rightarrow> signed_row option" where
  "latest_signed tie db d =
     first_by (\<lambda>k. - sk_uploaded k) (tie d) (filter (\<lambda>k. sk_device k = d) (signed_prekeys db))"

definition prekey_cleanup ::
  "relay_env \<Rightarrow> bool \<Rightarrow> (string \<Rightarrow> nat) \<Rightarrow> ms \<Rightarrow> string option \<Rightarrow> relay_db \<Rightarrow> relay_db \<times> unit reply" where
  "prekey_cleanup env fault tie dbnow header db =
     (case admin_auth_middleware env header of
        Inl (c, e) \<Rightarrow> (db, Fail c e)
      | Inr _ \<Rightarrow>
          if fault then (db, internal_error)
          else (db\<lparr>signed_prekeys := delete_where
                  (\<lambda>k. sk_uploaded k < dbnow - 2592000000 \<and> latest_signed tie db (sk_device k) \<noteq> Some k)
                  (signed_prekeys db)\<rparr>, Done 200 ()))"

section \<open>Uploads keep the tables well-formed\<close>

lemma upsert_signed_ok:
  assumes "upsert_signed d dbnow k db = Inr db'" and "db_ok db"
  shows "db_ok db'"
proof -
  let ?f = "\<lambda>x. x\<lparr>sk_public := b64_decode (sp_public k), sk_signature := b64_decode (sp_signature k), sk_uploaded := dbnow\<rparr>"
  let ?key = "\<lambda>x. (sk_device x, sk_prekey x)"
  from assms(1) have db': "db' = db\<lparr>signed_prekeys := upsert ?key ?f (new_signed d dbnow k) (signed_prekeys db)\<rparr>"
    and d: "d \<in> device_ids db" by (auto simp: upsert_signed_def device_exists_iff split: if_splits)
  have "unique_key ?key (upsert ?key ?f (new_signed d dbnow k) (signed_prekeys db))"
    using assms(2) by (intro unique_key_upsert) (auto simp: db_ok_def prekeys_ok_def)
  moreover have "sk_device ` set (upsert ?key ?f (new_signed d dbnow k) (signed_prekeys db)) \<subseteq> device_ids db"
    using d assms(2) by (intro upsert_refs) (auto simp: db_ok_def prekeys_ok_def new_signed_def)
  ultimately show ?thesis
    unfolding db' using assms(2) by (intro db_ok_signed_prekeys) (auto simp: db_ok_def prekeys_ok_def)
qed

lemma upsert_otp_ok:
  assumes "db_ok db" and "upsert_otp d dbnow k db = Inr db'"
  shows "db_ok db'"
proof -
  let ?f = "\<lambda>x. x\<lparr>ok_public := b64_decode (otp_public k), ok_consumed := False, ok_consumed_at := None\<rparr>"
  let ?key = "\<lambda>x. (ok_device x, ok_prekey x)"
  from assms(2) have db': "db' = db\<lparr>otps := upsert ?key ?f (new_otp d dbnow k) (otps db)\<rparr>"
    and d: "d \<in> device_ids db" by (auto simp: upsert_otp_def device_exists_iff split: if_splits)
  have "unique_key ?key (upsert ?key ?f (new_otp d dbnow k) (otps db))"
    using assms(1) by (intro unique_key_upsert) (auto simp: db_ok_def prekeys_ok_def)
  moreover have "ok_device ` set (upsert ?key ?f (new_otp d dbnow k) (otps db)) \<subseteq> device_ids db"
    using d assms(1) by (intro upsert_refs) (auto simp: db_ok_def prekeys_ok_def new_otp_def)
  ultimately show ?thesis
    unfolding db' using assms(1) by (intro db_ok_otps) (auto simp: db_ok_def prekeys_ok_def)
qed

lemma upsert_pq_ok:
  assumes "db_ok db" and "upsert_pq d dbnow lr k db = Inr db'"
  shows "db_ok db'"
proof -
  let ?f = "\<lambda>x. x\<lparr>qk_public := b64_decode (sp_public k), qk_signature := b64_decode (sp_signature k),
               qk_consumed := False, qk_consumed_at := None\<rparr>"
  let ?key = "\<lambda>x. (qk_device x, qk_prekey x)"
  from assms(2) have db': "db' = db\<lparr>pqs := upsert ?key ?f (new_pq d dbnow lr k) (pqs db)\<rparr>"
    and d: "d \<in> device_ids db" by (auto simp: upsert_pq_def device_exists_iff split: if_splits)
  have "unique_key ?key (upsert ?key ?f (new_pq d dbnow lr k) (pqs db))"
    using assms(1) by (intro unique_key_upsert) (auto simp: db_ok_def prekeys_ok_def)
  moreover have "qk_device ` set (upsert ?key ?f (new_pq d dbnow lr k) (pqs db)) \<subseteq> device_ids db"
    using d assms(1) by (intro upsert_refs) (auto simp: db_ok_def prekeys_ok_def new_pq_def)
  ultimately show ?thesis
    unfolding db' using assms(1) by (intro db_ok_pqs) (auto simp: db_ok_def prekeys_ok_def)
qed

lemma next_key_version_fresh:
  assumes "v \<in> set (key_versions db)" and "kv_device v = d" and "kv_type v = kind"
  shows "kv_version v < next_key_version d kind db"
proof -
  have "x \<le> foldr max xs 0" if "x \<in> set xs" for x :: int and xs
    using that by (induction xs) auto
  from this [of "kv_version v"] show ?thesis using assms by (simp add: next_key_version_def)
qed

lemma track_key_version_ok:
  assumes "track_key_version d fp db = Inr db'" and "db_ok db" and "device_exists d db"
  shows "db_ok db'"
proof -
  let ?v = "\<lparr>kv_device = d, kv_type = ''signed_prekey'', kv_version = next_key_version d ''signed_prekey'' db,
    kv_fingerprint = fp\<rparr>"
  from assms(1) have db': "db' = db\<lparr>key_versions := key_versions db @ [?v]\<rparr>"
    by (auto simp: track_key_version_def Let_def split: if_splits)
  have "unique_key (\<lambda>v. (kv_device v, kv_type v, kv_version v)) (key_versions db @ [?v])"
    using assms(2) next_key_version_fresh [of _ db d "''signed_prekey''"]
    by (intro unique_key_snoc) (force simp: db_ok_def prekeys_ok_def)+
  then show ?thesis
    unfolding db' using assms(2,3) by (intro db_ok_key_versions) (auto simp: db_ok_def prekeys_ok_def device_exists_iff)
qed

lemma upload_signed_ok:
  assumes "db_ok db"
  shows "db_ok (fst (upload_signed env fault dbnow d body db))"
proof (cases "signed_prekey_schema body")
  case (Some k)
  have "db_ok s'" if up: "upsert_signed d dbnow k db = Inr db1" and tr: "track_key_version d fp db1 = Inr s'" for db1 s' fp
  proof -
    have "device_exists d db1" using up by (auto simp: upsert_signed_def device_exists_def split: if_splits)
    with upsert_signed_ok [OF up assms] track_key_version_ok [OF tr] show ?thesis by simp
  qed
  then show ?thesis
    unfolding upload_signed_def Some option.case
    by (intro run_tx_invariant [where P = db_ok, OF assms]) (auto simp: try_then_Inr_iff)
qed (use assms in \<open>simp add: upload_signed_def\<close>)

lemma upload_one_time_ok:
  assumes "db_ok db"
  shows "db_ok (fst (upload_one_time fault dbnow d body db))"
proof (cases "required ''oneTimePrekeys'' (array_len 1 200 one_time_prekey_schema) body")
  case (Some ks)
  have "db_ok s'" if "try_fold (upsert_otp d dbnow) ks db = Inr s'" for s'
    using that assms by (rule try_fold_invariant) (rule upsert_otp_ok)
  then show ?thesis
    unfolding upload_one_time_def Some option.case
    by (intro run_tx_invariant [where P = db_ok, OF assms]) (auto simp: try_then_Inr_iff)
qed (use assms in \<open>simp add: upload_one_time_def\<close>)

lemma upload_pq_one_time_ok:
  assumes "db_ok db"
  shows "db_ok (fst (upload_pq_one_time fault dbnow d body db))"
proof (cases "pq_upload_schema body")
  case (Some u)
  obtain ks l where u: "u = (ks, l)" by (cases u)
  have "db_ok s'" if "try_fold (upsert_pq d dbnow False) ks db = Inr db1"
    "(case l of None \<Rightarrow> Inr db1 | Some k \<Rightarrow> upsert_pq d dbnow True k db1) = Inr s'" for db1 s'
  proof -
    have "db_ok db1" using that(1) assms by (rule try_fold_invariant) (rule upsert_pq_ok)
    with that(2) upsert_pq_ok show ?thesis by (auto split: option.splits)
  qed
  then show ?thesis
    unfolding upload_pq_one_time_def Some u option.case prod.case
    by (intro run_tx_invariant [where P = db_ok, OF assms]) (auto simp: try_then_Inr_iff)
qed (use assms in \<open>simp add: upload_pq_one_time_def\<close>)

lemma prekey_cleanup_ok:
  assumes "db_ok db"
  shows "db_ok (fst (prekey_cleanup env fault tie dbnow header db))"
proof -
  have "db_ok (db\<lparr>signed_prekeys := delete_where p (signed_prekeys db)\<rparr>)" for p
    using assms
    by (intro db_ok_signed_prekeys) (auto simp: db_ok_def prekeys_ok_def set_delete_where unique_key_delete_where)
  with assms show ?thesis by (simp add: prekey_cleanup_def split: sum.splits)
qed

section \<open>What a bundle consumes\<close>

lemma bundle_commit:
  assumes "bundle_tx ties dbnow req d n db = Inr (db', Commit r)"
  obtains t u1 u2 otp pq b tie2 tie3 where "r = Done 200 b" "bu_device b = t"
    "device_user req db = Some u1" "device_user (to_lower t) db = Some u2" "permitted db u1 u2"
    "active_device (to_lower t) db \<noteq> None"
    "otp = first_by ok_uploaded tie2 (otp_rows (to_lower t) db)"
    "pq = first_by qk_uploaded tie3 (pq_rows (to_lower t) (consume_otp dbnow otp db))"
    "bu_one_time b = map_option otp_out otp" "bu_pq_one_time b = map_option pq_out pq"
    "db' = consume_pq dbnow pq (consume_otp dbnow otp db)"
proof -
  obtain t1 t2 t3 t4 where ties: "ties = (t1, t2, t3, t4)" by (cases ties)
  from assms obtain t where b: "bundle_for ties dbnow req t db = Inr (db', Commit r)"
    by (auto simp: bundle_tx_def try_then_Inr_iff split: option.splits)
  then obtain u1 u2 dev usr sk lr where f: "device_user req db = Some u1" "device_user (to_lower t) db = Some u2"
    "permitted db u1 u2" "active_device (to_lower t) db = Some dev" "find_user (dv_user dev) db = Some usr"
    "first_by (\<lambda>k. - sk_uploaded k) t1 (filter (\<lambda>k. sk_device k = to_lower t) (signed_prekeys db)) = Some sk"
    "first_by (\<lambda>_. 0) t4 (filter (\<lambda>k. qk_device k = to_lower t \<and> qk_last_resort k) (pqs db')) = Some lr"
    unfolding bundle_for_def ties Let_def prod.case
    by (auto split: option.splits if_splits)
  let ?otp = "first_by ok_uploaded t2 (otp_rows (to_lower t) db)"
  let ?pq = "first_by qk_uploaded t3 (pq_rows (to_lower t) (consume_otp dbnow ?otp db))"
  from b f have "db' = consume_pq dbnow ?pq (consume_otp dbnow ?otp db)"
    and "\<exists>b. r = Done 200 b \<and> bu_device b = t \<and> bu_one_time b = map_option otp_out ?otp
      \<and> bu_pq_one_time b = map_option pq_out ?pq"
    unfolding bundle_for_def ties Let_def prod.case
    by (auto split: option.splits if_splits)
  with f show thesis by (elim exE conjE) (rule that, auto)
qed

lemma bundle_rollback:
  assumes "bundle_tx ties dbnow req d n db = Inr (db', Rollback r)"
  shows "\<exists>c e. r = Fail c e"
proof -
  obtain t1 t2 t3 t4 where ties: "ties = (t1, t2, t3, t4)" by (cases ties)
  from assms obtain target where "(case target of None \<Rightarrow> Inr (db, Rollback (Fail 404 ''user_not_found''))
      | Some t \<Rightarrow> bundle_for ties dbnow req t db) = Inr (db', Rollback r)"
    by (auto simp: bundle_tx_def try_then_Inr_iff)
  then show ?thesis
    unfolding bundle_for_def ties Let_def prod.case by (auto split: option.splits if_splits)
qed

lemma consume_otp_ok:
  assumes "db_ok db"
  shows "db_ok (consume_otp dbnow k db)"
proof (cases k)
  case (Some r)
  have "prekeys_ok (consume_otp dbnow k db)"
    using db_ok_parts(3) [OF assms]
    unfolding prekeys_ok_def Some consume_otp_def
    by (intro conjI) (simp_all add: unique_key_update_where update_where_refs)
  with assms Some show ?thesis by (simp add: consume_otp_def db_ok_otps)
qed (simp add: consume_otp_def assms)

lemma consume_pq_ok:
  assumes "db_ok db"
  shows "db_ok (consume_pq dbnow k db)"
proof (cases k)
  case (Some r)
  have "prekeys_ok (consume_pq dbnow k db)"
    using db_ok_parts(3) [OF assms]
    unfolding prekeys_ok_def Some consume_pq_def
    by (intro conjI) (simp_all add: unique_key_update_where update_where_refs)
  with assms Some show ?thesis by (simp add: consume_pq_def db_ok_pqs)
qed (simp add: consume_pq_def assms)

lemma fetch_bundle_ok:
  assumes "db_ok db"
  shows "db_ok (fst (fst (fetch_bundle env fault late ties dbnow req body (db, cs))))"
proof -
  have "db_ok db'" if "run_tx fault internal_error db (bundle_tx ties dbnow req d n db) = (db', r)"
    for d n db' and r :: "bundle_reply reply"
    using that
  proof (cases rule: run_tx_cases)
    case committed
    from committed(2) show ?thesis
      by (rule bundle_commit) (simp add: assms consume_otp_ok consume_pq_ok)
  qed (simp add: assms)
  with assms show ?thesis
    by (auto simp: fetch_bundle_def Let_def split: option.splits prod.splits reply.splits)
qed

section \<open>One-time prekeys are single-use\<close>

record bundle_request =
  br_fault :: bool
  br_late_fault :: bool
  br_ties :: "nat \<times> nat \<times> nat \<times> nat"
  br_now :: ms
  br_requester :: string
  br_body :: json

definition serve_bundle ::
  "relay_env \<Rightarrow> bundle_request \<Rightarrow> relay_db \<times> clients \<Rightarrow> (relay_db \<times> clients) \<times> bundle_reply reply" where
  "serve_bundle env q st =
     fetch_bundle env (br_fault q) (br_late_fault q) (br_ties q) (br_now q) (br_requester q) (br_body q) st"

text \<open>The prekeys that a bundle hands out, by the device that owns them and their id.\<close>

definition hand_otp ::
  "relay_env \<Rightarrow> bundle_request \<Rightarrow> relay_db \<times> clients \<Rightarrow> (relay_db \<times> clients) \<times> (string \<times> int) option" where
  "hand_otp env q st =
     (case serve_bundle env q st of
        (st', Done _ b) \<Rightarrow> (st', map_option (\<lambda>k. (to_lower (bu_device b), otp_id k)) (bu_one_time b))
      | (st', Fail _ _) \<Rightarrow> (st', None))"

definition hand_pq ::
  "relay_env \<Rightarrow> bundle_request \<Rightarrow> relay_db \<times> clients \<Rightarrow> (relay_db \<times> clients) \<times> (string \<times> int) option" where
  "hand_pq env q st =
     (case serve_bundle env q st of
        (st', Done _ b) \<Rightarrow> (st', map_option (\<lambda>k. (to_lower (bu_device b), sp_id k)) (bu_pq_one_time b))
      | (st', Fail _ _) \<Rightarrow> (st', None))"

definition fresh_otps :: "relay_db \<times> clients \<Rightarrow> (string \<times> int) set" where
  "fresh_otps st = {(ok_device k, ok_prekey k) |k. k \<in> set (otps (fst st)) \<and> \<not> ok_consumed k}"

definition fresh_pqs :: "relay_db \<times> clients \<Rightarrow> (string \<times> int) set" where
  "fresh_pqs st = {(qk_device k, qk_prekey k) |k. k \<in> set (pqs (fst st)) \<and> \<not> qk_consumed k}"

lemma serve_bundle_cases:
  assumes "serve_bundle env q (db, cs) = ((db', cs'), r)"
  obtains (idle) "db' = db" "\<not> is_done r"
    | (served) d n b where
        "bundle_tx (br_ties q) (br_now q) (br_requester q) d n db = Inr (db', Commit (Done 200 b))"
        "r = Done 200 b \<or> \<not> is_done r"
proof (cases "bundle_schema (uuid_ok env) (br_body q)")
  case None
  with assms show thesis by (intro idle) (auto simp: serve_bundle_def fetch_bundle_def)
next
  case (Some dn)
  obtain d n where dn: "dn = (d, n)" by (cases dn)
  show thesis
  proof (cases "d = None \<and> (n = None \<or> n = Some [])")
    case True
    with assms Some dn show thesis by (intro idle) (auto simp: serve_bundle_def fetch_bundle_def)
  next
    case False
    obtain db1 r1 where run: "run_tx (br_fault q) internal_error db
        (bundle_tx (br_ties q) (br_now q) (br_requester q) d n db) = (db1, r1)"
      by (metis surj_pair)
    have out: "db' = db1" "r = r1 \<or> \<not> is_done r" "is_done r1 \<or> r = r1"
      using assms Some dn False run
      by (auto simp: serve_bundle_def fetch_bundle_def Let_def split: reply.splits if_splits)
    from run show thesis
    proof (cases rule: run_tx_cases)
      case committed
      from committed(2) obtain b where "r1 = Done 200 b" by (rule bundle_commit)
      with committed out show thesis by (intro served) auto
    next
      case unchanged
      then have "\<not> is_done r1" by (elim disjE exE) (auto dest: bundle_rollback)
      with unchanged out show thesis by (intro idle) auto
    qed
  qed
qed

lemma not_fresh_otp:
  "\<forall>x \<in> set (otps db). (ok_device x, ok_prekey x) = (d, i) \<longrightarrow> ok_consumed x \<Longrightarrow> (d, i) \<notin> fresh_otps (db, cs)"
  by (auto simp: fresh_otps_def)

lemma not_fresh_pq:
  "\<forall>x \<in> set (pqs db). (qk_device x, qk_prekey x) = (d, i) \<longrightarrow> qk_consumed x \<Longrightarrow> (d, i) \<notin> fresh_pqs (db, cs)"
  by (auto simp: fresh_pqs_def)

lemma served_keys:
  assumes tx: "bundle_tx ties dbnow req d n db = Inr (db', Commit (Done 200 b))" and ok: "prekeys_ok db"
  shows "bu_one_time b = Some k \<Longrightarrow>
      (to_lower (bu_device b), otp_id k) \<in> fresh_otps (db, cs) - fresh_otps (db', cs')"
    and "bu_pq_one_time b = Some l \<Longrightarrow>
      (to_lower (bu_device b), sp_id l) \<in> fresh_pqs (db, cs) - fresh_pqs (db', cs')"
    and "fresh_otps (db', cs') \<subseteq> fresh_otps (db, cs)" and "fresh_pqs (db', cs') \<subseteq> fresh_pqs (db, cs)"
proof -
  from tx obtain t otp pq tie2 tie3 where s: "bu_device b = t"
    "otp = first_by ok_uploaded tie2 (otp_rows (to_lower t) db)"
    "pq = first_by qk_uploaded tie3 (pq_rows (to_lower t) (consume_otp dbnow otp db))"
    "bu_one_time b = map_option otp_out otp" "bu_pq_one_time b = map_option pq_out pq"
    "db' = consume_pq dbnow pq (consume_otp dbnow otp db)"
  proof (rule bundle_commit, goal_cases)
    case (1 t u1 u2 otp pq b' tie2 tie3)
    from 1(2) have b: "b' = b" by simp
    show ?case by (rule 1(1)) (use 1(3,8-12) b in \<open>simp_all only:\<close>)
  qed
  have o1: "otps db' = otps (consume_otp dbnow otp db)" and p1: "pqs (consume_otp dbnow otp db) = pqs db"
    by (simp_all add: s(6) consume_pq_def consume_otp_def split: option.splits)
  show "fresh_otps (db', cs') \<subseteq> fresh_otps (db, cs)"
    unfolding fresh_otps_def fst_conv o1 by (auto simp: consume_otp_def set_update_where split: option.splits)
  show "fresh_pqs (db', cs') \<subseteq> fresh_pqs (db, cs)"
    unfolding fresh_pqs_def fst_conv s(6)
    by (auto simp: consume_pq_def set_update_where p1 split: option.splits)
  show "(to_lower (bu_device b), otp_id k) \<in> fresh_otps (db, cs) - fresh_otps (db', cs')" if k: "bu_one_time b = Some k"
  proof -
    from k obtain row where row: "otp = Some row" "k = otp_out row" unfolding s(4) by (cases otp) auto
    have "row \<in> set (otp_rows (to_lower t) db)" 
      by (rule first_by_SomeD(1) [OF trans [OF s(2) [symmetric] row(1)]])
    then have r: "row \<in> set (otps db)" "ok_device row = to_lower t" "\<not> ok_consumed row"
      by (simp_all add: otp_rows_def)
    have eq: "otps db' = update_where (\<lambda>x. (ok_device x, ok_prekey x) = (ok_device row, ok_prekey row))
        (\<lambda>x. x\<lparr>ok_consumed := True, ok_consumed_at := Some dbnow\<rparr>) (otps db)"
      by (simp add: o1 row consume_otp_def)
    have "\<forall>x \<in> set (otps db'). (ok_device x, ok_prekey x) = (ok_device row, ok_prekey row) \<longrightarrow> ok_consumed x"
      unfolding eq by (rule update_where_all) auto
    then have "(ok_device row, ok_prekey row) \<notin> fresh_otps (db', cs')"
      by (rule not_fresh_otp)
    moreover have "(ok_device row, ok_prekey row) \<in> fresh_otps (db, cs)"
      using r(1,3) by (auto simp: fresh_otps_def)
    moreover have "(to_lower (bu_device b), otp_id k) = (ok_device row, ok_prekey row)"
      by (simp add: r(2) row(2) s(1) otp_out_def)
    ultimately show ?thesis by simp
  qed
  show "(to_lower (bu_device b), sp_id l) \<in> fresh_pqs (db, cs) - fresh_pqs (db', cs')" if l: "bu_pq_one_time b = Some l"
  proof -
    from l obtain row where row: "pq = Some row" "l = pq_out row" unfolding s(5) by (cases pq) auto
    have "row \<in> set (pq_rows (to_lower t) (consume_otp dbnow otp db))" 
      by (rule first_by_SomeD(1) [OF trans [OF s(3) [symmetric] row(1)]])
    then have r: "row \<in> set (pqs db)" "qk_device row = to_lower t" "\<not> qk_consumed row"
      by (simp_all add: pq_rows_def p1)
    have eq: "pqs db' = update_where (\<lambda>x. (qk_device x, qk_prekey x) = (qk_device row, qk_prekey row))
        (\<lambda>x. x\<lparr>qk_consumed := True, qk_consumed_at := Some dbnow\<rparr>) (pqs db)"
      by (simp add: s(6) row consume_pq_def p1)
    have "\<forall>x \<in> set (pqs db'). (qk_device x, qk_prekey x) = (qk_device row, qk_prekey row) \<longrightarrow> qk_consumed x"
      unfolding eq by (rule update_where_all) auto
    then have "(qk_device row, qk_prekey row) \<notin> fresh_pqs (db', cs')"
      by (rule not_fresh_pq)
    moreover have "(qk_device row, qk_prekey row) \<in> fresh_pqs (db, cs)"
      using r(1,3) by (auto simp: fresh_pqs_def)
    moreover have "(to_lower (bu_device b), sp_id l) = (qk_device row, qk_prekey row)"
      by (simp add: r(2) row(2) s(1) pq_out_def)
    ultimately show ?thesis by simp
  qed
qed

lemma serve_bundle_ok:
  assumes "db_ok (fst st)" and "serve_bundle env q st = (st', r)"
  shows "db_ok (fst st')"
proof -
  obtain db cs where "st = (db, cs)" by (cases st)
  with assms fetch_bundle_ok [of db env "br_fault q" "br_late_fault q" "br_ties q" "br_now q" "br_requester q" "br_body q" cs]
  show ?thesis by (simp add: serve_bundle_def)
qed

interpretation otp_store: single_use fresh_otps "hand_otp env" "\<lambda>st. db_ok (fst st)" for env
proof unfold_locales
  fix st st' :: "relay_db \<times> clients" and q k
  assume ok: "db_ok (fst st)" and h: "hand_otp env q st = (st', Some k)"
  obtain db cs db' cs' where st: "st = (db, cs)" "st' = (db', cs')" by (metis surj_pair)
  from h st obtain b c where s: "serve_bundle env q (db, cs) = ((db', cs'), Done c b)"
    "map_option (\<lambda>k. (to_lower (bu_device b), otp_id k)) (bu_one_time b) = Some k"
    by (auto simp: hand_otp_def split: prod.splits reply.splits)
  from s(1) show "k \<in> fresh_otps st \<and> k \<notin> fresh_otps st'"
  proof (cases rule: serve_bundle_cases)
    case (served d n b')
    with s served_keys(1) [OF served(1) db_ok_parts(3), of _ cs cs'] ok st show ?thesis by auto
  qed simp
next
  fix st st' :: "relay_db \<times> clients" and q and r :: "(string \<times> int) option"
  assume ok: "db_ok (fst st)" and h: "hand_otp env q st = (st', r)"
  obtain db cs db' cs' where st: "st = (db, cs)" "st' = (db', cs')" by (metis surj_pair)
  from h st obtain rr where s: "serve_bundle env q (db, cs) = ((db', cs'), rr)"
    by (auto simp: hand_otp_def split: prod.splits reply.splits)
  have "db_ok db'" using serve_bundle_ok [of "(db, cs)"] ok s st by fastforce
  moreover from s have "fresh_otps st' \<subseteq> fresh_otps st"
  proof (cases rule: serve_bundle_cases)
    case (served d n b')
    with served_keys(3) [OF served(1) db_ok_parts(3)] ok st show ?thesis by auto
  qed (simp add: st fresh_otps_def)
  ultimately show "fresh_otps st' \<subseteq> fresh_otps st \<and> db_ok (fst st')" by (simp add: st)
qed

interpretation pq_store: single_use fresh_pqs "hand_pq env" "\<lambda>st. db_ok (fst st)" for env
proof unfold_locales
  fix st st' :: "relay_db \<times> clients" and q k
  assume ok: "db_ok (fst st)" and h: "hand_pq env q st = (st', Some k)"
  obtain db cs db' cs' where st: "st = (db, cs)" "st' = (db', cs')" by (metis surj_pair)
  from h st obtain b c where s: "serve_bundle env q (db, cs) = ((db', cs'), Done c b)"
    "map_option (\<lambda>k. (to_lower (bu_device b), sp_id k)) (bu_pq_one_time b) = Some k"
    by (auto simp: hand_pq_def split: prod.splits reply.splits)
  from s(1) show "k \<in> fresh_pqs st \<and> k \<notin> fresh_pqs st'"
  proof (cases rule: serve_bundle_cases)
    case (served d n b')
    with s served_keys(2) [OF served(1) db_ok_parts(3), of _ cs cs'] ok st show ?thesis by auto
  qed simp
next
  fix st st' :: "relay_db \<times> clients" and q and r :: "(string \<times> int) option"
  assume ok: "db_ok (fst st)" and h: "hand_pq env q st = (st', r)"
  obtain db cs db' cs' where st: "st = (db, cs)" "st' = (db', cs')" by (metis surj_pair)
  from h st obtain rr where s: "serve_bundle env q (db, cs) = ((db', cs'), rr)"
    by (auto simp: hand_pq_def split: prod.splits reply.splits)
  have "db_ok db'" using serve_bundle_ok [of "(db, cs)"] ok s st by fastforce
  moreover from s have "fresh_pqs st' \<subseteq> fresh_pqs st"
  proof (cases rule: serve_bundle_cases)
    case (served d n b')
    with served_keys(4) [OF served(1) db_ok_parts(3)] ok st show ?thesis by auto
  qed (simp add: st fresh_pqs_def)
  ultimately show "fresh_pqs st' \<subseteq> fresh_pqs st \<and> db_ok (fst st')" by (simp add: st)
qed

end
