(* ===== verification/Relay_Conversations.thy ===== *)
theory Relay_Conversations
  imports Relay_Auth
begin

text \<open>
  \<open>apps/relay-server/src/conversations.ts\<close>: a user asks to talk to another one, the recipient
  lists the requests, accepts or rejects them. Only an acceptance writes a conversation
  permission, which the other routes look up without regard to the order of the two users.
\<close>

section \<open>Requests\<close>

definition current_user_id :: "string \<Rightarrow> relay_db \<Rightarrow> string option" where
  "current_user_id d db = map_option us_id (active_user d db)"

definition user_by_identifier :: "string \<Rightarrow> relay_db \<Rightarrow> user option" where
  "user_by_identifier n db =
     List.find (\<lambda>u. (us_name u = n \<or> us_uid u = Some n) \<and> us_revoked u = None) (users db)"

text \<open>\<open>INSERT .. ON CONFLICT (requester, recipient) DO UPDATE .. WHERE status = 'rejected'\<close>\<close>

definition request_contact ::
  "ms \<Rightarrow> string \<Rightarrow> string \<Rightarrow> string \<Rightarrow> relay_db \<Rightarrow> db_error + relay_db" where
  "request_contact dbnow rid a b db =
     (if has_row (\<lambda>r. cr_requester r = a \<and> cr_recipient r = b) (connection_requests db)
      then Inr (db\<lparr>connection_requests := update_where
             (\<lambda>r. cr_requester r = a \<and> cr_recipient r = b \<and> cr_status r = R_Rejected)
             (\<lambda>r. r\<lparr>cr_status := R_Pending, cr_expires := dbnow + 604800000, cr_created := dbnow,
                    cr_decided := None\<rparr>) (connection_requests db)\<rparr>)
      else if has_row (\<lambda>r. cr_id r = rid) (connection_requests db) then Inl Unique_Violation
      else Inr (db\<lparr>connection_requests := connection_requests db @
             [\<lparr>cr_id = rid, cr_requester = a, cr_recipient = b, cr_status = R_Pending,
               cr_created = dbnow, cr_expires = dbnow + 604800000, cr_decided = None\<rparr>]\<rparr>))"

definition create_request ::
  "bool \<Rightarrow> ms \<Rightarrow> string \<Rightarrow> string \<Rightarrow> json \<Rightarrow> relay_db \<Rightarrow> relay_db \<times> string reply" where
  "create_request fault dbnow rid d body db =
     (case required ''recipientUsername'' contact_identifier_schema body of
        None \<Rightarrow> (db, invalid_request)
      | Some n \<Rightarrow>
          if fault then (db, internal_error)
          else (case current_user_id d db of
            None \<Rightarrow> (db, Fail 401 ''device_not_active'')
          | Some a \<Rightarrow>
              (case user_by_identifier n db of
                None \<Rightarrow> (db, Done 202 ''received'')
              | Some u \<Rightarrow>
                  if us_id u = a then (db, Done 202 ''received'')
                  else (case request_contact dbnow rid a (us_id u) db of
                          Inl _ \<Rightarrow> (db, internal_error)
                        | Inr db' \<Rightarrow> (db', Done 202 ''received'')))))"

record listed_request =
  lr_request :: string
  lr_name :: string
  lr_uid :: "string option"
  lr_created :: ms
  lr_expires :: ms

definition list_request :: "relay_db \<Rightarrow> connection_request \<Rightarrow> listed_request option" where
  "list_request db r =
     map_option (\<lambda>u. \<lparr>lr_request = cr_id r, lr_name = us_name u, lr_uid = us_uid u,
                      lr_created = cr_created r, lr_expires = cr_expires r\<rparr>)
       (find_user (cr_requester r) db)"

definition list_requests :: "bool \<Rightarrow> ms \<Rightarrow> string \<Rightarrow> relay_db \<Rightarrow> listed_request list reply" where
  "list_requests fault dbnow d db =
     (if fault then internal_error
      else case current_user_id d db of
        None \<Rightarrow> Done 200 []
      | Some a \<Rightarrow>
          Done 200 (sort_key lr_created (List.map_filter (list_request db)
            (filter (\<lambda>r. cr_recipient r = a \<and> cr_status r = R_Pending \<and> dbnow < cr_expires r)
              (connection_requests db)))))"

section \<open>Decisions\<close>

text \<open>\<open>INSERT .. ON CONFLICT (user_one, user_two) DO UPDATE SET revoked_at = NULL\<close>\<close>

definition grant_permission :: "string \<Rightarrow> string \<Rightarrow> relay_db \<Rightarrow> db_error + relay_db" where
  "grant_permission a b db =
     (let (x, y) = ordered a b in
      if \<not> x < y then Inl Check_Violation
      else Inr (db\<lparr>permissions := upsert (\<lambda>p. (pm_one p, pm_two p)) (\<lambda>p. p\<lparr>pm_revoked := None\<rparr>)
             \<lparr>pm_one = x, pm_two = y, pm_revoked = None\<rparr> (permissions db)\<rparr>))"

definition accept_tx :: "ms \<Rightarrow> string \<Rightarrow> string \<Rightarrow> relay_db \<Rightarrow> db_error + relay_db \<times> string reply tx_end" where
  "accept_tx dbnow rid me db =
     (case List.find (\<lambda>r. cr_id r = rid \<and> cr_recipient r = me \<and> cr_status r = R_Pending \<and> dbnow < cr_expires r)
             (connection_requests db) of
        None \<Rightarrow> Inr (db, Rollback (Fail 404 ''pending_conversation_request_not_found''))
      | Some r \<Rightarrow>
          try_then (grant_permission (cr_requester r) (cr_recipient r)
            (db\<lparr>connection_requests := update_where (\<lambda>x. cr_id x = rid)
               (\<lambda>x. x\<lparr>cr_status := R_Accepted, cr_decided := Some dbnow\<rparr>) (connection_requests db)\<rparr>))
            (\<lambda>db'. Inr (db', Commit (Done 200 ''accepted''))))"

definition accept_request ::
  "relay_env \<Rightarrow> bool \<Rightarrow> ms \<Rightarrow> string \<Rightarrow> string \<Rightarrow> relay_db \<Rightarrow> relay_db \<times> string reply" where
  "accept_request env fault dbnow d rid db =
     (if \<not> uuid_ok env rid then (db, invalid_request)
      else if fault then (db, internal_error)
      else case current_user_id d db of
        None \<Rightarrow> (db, Fail 401 ''device_not_active'')
      | Some me \<Rightarrow> run_tx False internal_error db (accept_tx dbnow (to_lower rid) me db))"

definition reject_request ::
  "relay_env \<Rightarrow> bool \<Rightarrow> ms \<Rightarrow> string \<Rightarrow> string \<Rightarrow> relay_db \<Rightarrow> relay_db \<times> string reply" where
  "reject_request env fault dbnow d rid db =
     (if \<not> uuid_ok env rid then (db, invalid_request)
      else if fault then (db, internal_error)
      else let p = (\<lambda>r. cr_id r = to_lower rid \<and> Some (cr_recipient r) = current_user_id d db \<and> cr_status r = R_Pending)
           in if has_row p (connection_requests db)
              then (db\<lparr>connection_requests := update_where p
                      (\<lambda>x. x\<lparr>cr_status := R_Rejected, cr_decided := Some dbnow\<rparr>) (connection_requests db)\<rparr>,
                    Done 200 ''rejected'')
              else (db, Fail 404 ''pending_conversation_request_not_found''))"

section \<open>The interface of a grant store\<close>

text \<open>
  What the routes that deliver data rely on: the check does not depend on the order of the two
  users, a grant makes exactly that pair allowed and takes nothing away.
\<close>

locale grant_store =
  fixes allowed :: "'s \<Rightarrow> 'u \<Rightarrow> 'u \<Rightarrow> bool"
    and grant :: "'u \<Rightarrow> 'u \<Rightarrow> 's \<Rightarrow> 'e + 's"
  assumes allowed_sym: "allowed s a b = allowed s b a"
    and grant_allows: "grant a b s = Inr s' \<Longrightarrow> allowed s' c d \<longleftrightarrow> {c, d} = {a, b} \<or> allowed s c d"
begin

lemma granted: "grant a b s = Inr s' \<Longrightarrow> allowed s' a b \<and> allowed s' b a"
  using grant_allows [of a b s s'] by blast

lemma grant_keeps: "grant a b s = Inr s' \<Longrightarrow> allowed s c d \<Longrightarrow> allowed s' c d"
  by (simp add: grant_allows)

lemma only_the_pair: "grant a b s = Inr s' \<Longrightarrow> allowed s' c d \<Longrightarrow> \<not> allowed s c d \<Longrightarrow> {c, d} = {a, b}"
  by (simp add: grant_allows)

end

lemma upsert_row_exists:
  assumes "\<And>x. key (f x) = key x" and "\<And>x. good (f x)" and "good r"
  shows "(\<exists>p \<in> set (upsert key f r rs). key p = k \<and> good p) \<longleftrightarrow> k = key r \<or> (\<exists>p \<in> set rs. key p = k \<and> good p)"
proof (cases "\<exists>x \<in> set rs. key x = key r")
  case True
  then have eq: "set (upsert key f r rs) = {x \<in> set rs. key x \<noteq> key r} \<union> f ` {x \<in> set rs. key x = key r}"
    by (simp add: set_upsert)
  have "(\<exists>p \<in> f ` {x \<in> set rs. key x = key r}. key p = k \<and> good p) \<longleftrightarrow> k = key r"
    using True assms(1,2) by (simp add: bex_simps) metis
  then show ?thesis unfolding eq bex_Un by (cases "k = key r") (simp, metis (mono_tags, lifting) mem_Collect_eq)
next
  case False
  then have "set (upsert key f r rs) = insert r (set rs)" by (simp add: set_upsert)
  with assms(3) show ?thesis by (simp add: bex_simps) metis
qed

lemma ordered_eq_iff: "ordered c d = ordered a b \<longleftrightarrow> {c, d} = {a, b}"
  by (auto simp: ordered_def doubleton_eq_iff)

interpretation relay_grants: grant_store permitted grant_permission
proof unfold_locales
  show "permitted db a b = permitted db b a" for db a b by (rule permitted_commute)
next
  fix a b c d :: string and db db' :: relay_db
  assume g: "grant_permission a b db = Inr db'"
  obtain x y where xy: "ordered a b = (x, y)" by (rule prod.exhaust)
  let ?key = "\<lambda>p. (pm_one p, pm_two p)"
  let ?ps = "upsert ?key (\<lambda>p. p\<lparr>pm_revoked := None\<rparr>) \<lparr>pm_one = x, pm_two = y, pm_revoked = None\<rparr> (permissions db)"
  from g xy have db': "permissions db' = ?ps" by (auto simp: grant_permission_def split: if_splits)
  have "(\<exists>p \<in> set ?ps. ?key p = k \<and> pm_revoked p = None)
      \<longleftrightarrow> k = (x, y) \<or> (\<exists>p \<in> set (permissions db). ?key p = k \<and> pm_revoked p = None)" for k
    by (subst upsert_row_exists) simp_all
  then have "permitted db' c d \<longleftrightarrow> ordered c d = (x, y) \<or> permitted db c d"
    by (simp add: permitted_def has_row_iff db')
  then show "permitted db' c d \<longleftrightarrow> {c, d} = {a, b} \<or> permitted db c d"
    by (simp add: xy [symmetric] ordered_eq_iff)
qed

section \<open>Lemmas\<close>

lemma contacts_ok_update:
  assumes "contacts_ok db" and "\<And>x. cr_id (f x) = cr_id x"
    and "\<And>x. cr_requester (f x) = cr_requester x" and "\<And>x. cr_recipient (f x) = cr_recipient x"
  shows "contacts_ok (db\<lparr>connection_requests := update_where p f (connection_requests db)\<rparr>)"
proof -
  have "unique_key cr_id (update_where p f (connection_requests db))"
    "unique_key (\<lambda>r. (cr_requester r, cr_recipient r)) (update_where p f (connection_requests db))"
    using assms by (simp_all add: contacts_ok_def unique_key_update_where)
  moreover have "\<forall>r \<in> set (update_where p f (connection_requests db)).
      cr_requester r \<noteq> cr_recipient r \<and> {cr_requester r, cr_recipient r} \<subseteq> user_ids db"
    using assms by (intro update_where_all) (simp_all add: contacts_ok_def)
  ultimately show ?thesis using assms(1) by (simp add: contacts_ok_def)
qed

lemma request_contact_ok:
  assumes "request_contact dbnow rid a b db = Inr db'" and "db_ok db"
    and "a \<in> user_ids db" and "b \<in> user_ids db" and "a \<noteq> b"
  shows "db_ok db'"
proof (cases "has_row (\<lambda>r. cr_requester r = a \<and> cr_recipient r = b) (connection_requests db)")
  case True
  with assms(1) have "db' = db\<lparr>connection_requests := update_where
             (\<lambda>r. cr_requester r = a \<and> cr_recipient r = b \<and> cr_status r = R_Rejected)
             (\<lambda>r. r\<lparr>cr_status := R_Pending, cr_expires := dbnow + 604800000, cr_created := dbnow,
                    cr_decided := None\<rparr>) (connection_requests db)\<rparr>"
    by (simp add: request_contact_def)
  with db_ok_connection_requests [OF assms(2) contacts_ok_update] db_ok_parts(4) [OF assms(2)]
  show ?thesis by simp
next
  case False
  let ?r = "\<lparr>cr_id = rid, cr_requester = a, cr_recipient = b, cr_status = R_Pending,
               cr_created = dbnow, cr_expires = dbnow + 604800000, cr_decided = None\<rparr>"
  from False assms(1) have db': "db' = db\<lparr>connection_requests := connection_requests db @ [?r]\<rparr>"
    and new: "\<not> has_row (\<lambda>r. cr_id r = rid) (connection_requests db)"
    by (simp_all add: request_contact_def split: if_splits)
  have "unique_key cr_id (connection_requests db @ [?r])"
    "unique_key (\<lambda>r. (cr_requester r, cr_recipient r)) (connection_requests db @ [?r])"
    using db_ok_parts(4) [OF assms(2)] False new
    by (auto simp: contacts_ok_def has_row_iff intro!: unique_key_snoc)
  then have "contacts_ok db'"
    using db_ok_parts(4) [OF assms(2)] assms(3-5) by (simp add: contacts_ok_def db')
  with assms(2) show ?thesis unfolding db' by (rule db_ok_connection_requests)
qed

lemma active_user_id: "active_user d db = Some u \<Longrightarrow> us_id u \<in> user_ids db"
  using active_user_SomeD by blast

lemma create_request_ok:
  assumes "db_ok db"
  shows "db_ok (fst (create_request fault dbnow rid d body db))"
proof -
  have "db_ok db'" if "current_user_id d db = Some a" "user_by_identifier n db = Some u" "us_id u \<noteq> a"
    "request_contact dbnow rid a (us_id u) db = Inr db'" for a n u db'
  proof (rule request_contact_ok [OF that(4) assms])
    show "a \<in> user_ids db" using that(1) active_user_id by (auto simp: current_user_id_def)
    show "us_id u \<in> user_ids db" using that(2) by (auto simp: user_by_identifier_def dest: find_SomeD)
    show "a \<noteq> us_id u" using that(3) by simp
  qed
  with assms show ?thesis
    by (simp add: create_request_def split: option.splits sum.splits)
qed

lemma accept_tx_commit:
  assumes "accept_tx dbnow rid me db = Inr (db', Commit r)"
  obtains q where "q \<in> set (connection_requests db)" "cr_id q = rid" "cr_recipient q = me"
    "cr_status q = R_Pending" "dbnow < cr_expires q"
    "grant_permission (cr_requester q) me
       (db\<lparr>connection_requests := update_where (\<lambda>x. cr_id x = rid)
         (\<lambda>x. x\<lparr>cr_status := R_Accepted, cr_decided := Some dbnow\<rparr>) (connection_requests db)\<rparr>) = Inr db'"
proof (cases "List.find (\<lambda>r. cr_id r = rid \<and> cr_recipient r = me \<and> cr_status r = R_Pending \<and> dbnow < cr_expires r)
             (connection_requests db)")
  case None
  with assms show thesis by (simp add: accept_tx_def)
next
  case (Some q)
  with assms find_SomeD [OF Some] show thesis
    by (intro that [of q]) (simp_all add: accept_tx_def try_then_Inr_iff)
qed

lemma grant_permission_ok:
  assumes "grant_permission a b db = Inr db'" and "db_ok db" and "{a, b} \<subseteq> user_ids db"
  shows "db_ok db'"
proof -
  obtain x y where xy: "ordered a b = (x, y)" by (rule prod.exhaust)
  then have sub: "{x, y} \<subseteq> user_ids db" using assms(3) by (auto simp: ordered_def split: if_splits)
  let ?key = "\<lambda>p. (pm_one p, pm_two p)"
  let ?ps = "upsert ?key (\<lambda>p. p\<lparr>pm_revoked := None\<rparr>) \<lparr>pm_one = x, pm_two = y, pm_revoked = None\<rparr> (permissions db)"
  from assms(1) xy have db': "db' = db\<lparr>permissions := ?ps\<rparr>" and lt: "x < y"
    by (auto simp: grant_permission_def split: if_splits)
  note ok = db_ok_parts [OF assms(2)]
  have "unique_key ?key ?ps" using ok(4) by (intro unique_key_upsert) (simp_all add: contacts_ok_def)
  moreover have "\<forall>p \<in> set ?ps. pm_one p < pm_two p \<and> {pm_one p, pm_two p} \<subseteq> user_ids db"
    using ok(4) lt sub by (auto simp: set_upsert contacts_ok_def)
  ultimately have "contacts_ok db'" using ok(4) by (simp add: contacts_ok_def db')
  moreover have "mailbox_ok db'"
  proof -
    have up: "permitted db c d \<Longrightarrow> permitted db' c d" for c d
      by (rule relay_grants.grant_keeps [OF assms(1)])
    have same: "messages db' = messages db" "devices db' = devices db" by (simp_all add: db')
    show ?thesis using ok(5) up unfolding mailbox_ok_def same by meson
  qed
  ultimately show ?thesis
    using assms(2) by (simp add: db_ok_def) (simp add: db' accounts_ok_def access_ok_def prekeys_ok_def
        blobs_ok_def vaults_ok_def blind_ok_def appeals_ok_def)
qed

lemma accept_request_cases:
  assumes "accept_request env fault dbnow d rid db = (db', r)"
  obtains (refused) "db' = db" "\<not> is_done r"
    | (accepted) me q where "current_user_id d db = Some me" "q \<in> set (connection_requests db)"
        "cr_id q = to_lower rid" "cr_recipient q = me" "cr_status q = R_Pending" "dbnow < cr_expires q"
        "grant_permission (cr_requester q) me
           (db\<lparr>connection_requests := update_where (\<lambda>x. cr_id x = to_lower rid)
             (\<lambda>x. x\<lparr>cr_status := R_Accepted, cr_decided := Some dbnow\<rparr>) (connection_requests db)\<rparr>) = Inr db'"
proof (cases "\<not> uuid_ok env rid \<or> fault \<or> current_user_id d db = None")
  case True
  with assms show thesis by (intro refused) (auto simp: accept_request_def split: if_splits option.splits)
next
  case False
  then obtain me where me: "current_user_id d db = Some me" by auto
  with False assms have run: "run_tx False internal_error db (accept_tx dbnow (to_lower rid) me db) = (db', r)"
    by (simp add: accept_request_def)
  then show thesis
  proof (cases rule: run_tx_cases)
    case committed
    from committed(2) show thesis
      by (rule accept_tx_commit) (use me accepted in blast)
  next
    case unchanged
    have "\<exists>c e. r' = Fail c e" if "accept_tx dbnow (to_lower rid) me db = Inr (s', Rollback r')" for s' r'
      using that by (auto simp: accept_tx_def try_then_Inr_iff split: option.splits)
    with unchanged show thesis by (intro refused) auto
  qed
qed

lemma accept_request_ok:
  assumes "db_ok db"
  shows "db_ok (fst (accept_request env fault dbnow d rid db))"
proof -
  obtain db' r where a: "accept_request env fault dbnow d rid db = (db', r)" by (rule prod.exhaust)
  then have "db_ok db'"
  proof (cases rule: accept_request_cases)
    case (accepted me q)
    let ?db1 = "db\<lparr>connection_requests := update_where (\<lambda>x. cr_id x = to_lower rid)
             (\<lambda>x. x\<lparr>cr_status := R_Accepted, cr_decided := Some dbnow\<rparr>) (connection_requests db)\<rparr>"
    have "db_ok ?db1"
      by (rule db_ok_connection_requests [OF assms contacts_ok_update]) (simp_all add: db_ok_parts assms)
    moreover have "{cr_requester q, me} \<subseteq> user_ids ?db1"
      using db_ok_parts(4) [OF assms] accepted(2,4) by (auto simp: contacts_ok_def)
    ultimately show ?thesis using grant_permission_ok [OF accepted(7)] by blast
  qed (simp add: assms)
  with a show ?thesis by simp
qed

lemma reject_request_ok:
  assumes "db_ok db"
  shows "db_ok (fst (reject_request env fault dbnow d rid db))"
  using assms db_ok_connection_requests [OF assms contacts_ok_update [OF db_ok_parts(4) [OF assms]]]
  by (simp add: reject_request_def Let_def)

end
