(* ===== verification/Relay_Attachments.thy ===== *)
theory Relay_Attachments
  imports Relay_Auth
begin

text \<open>
  \<open>apps/relay-server/src/attachments.ts\<close>: the relay keeps encrypted attachment blobs in chunks.
  The owner announces a blob and uploads its chunks; any authenticated device that knows the
  blob id reads a chunk or deletes the blob.
\<close>

record blob_upload =
  nb_blob :: string
  nb_chunks :: int
  nb_size :: int

text \<open>\<open>Math.max(1, Math.ceil(total / 65536))\<close>\<close>

definition expected_chunks :: "int \<Rightarrow> int" where
  "expected_chunks n = max 1 ((n + 65535) div 65536)"

definition blob_upload_schema :: "(string \<Rightarrow> bool) \<Rightarrow> json \<Rightarrow> blob_upload option" where
  "blob_upload_schema ok j =
     do { b \<leftarrow> required ''blobId'' (string_where ok) j;
          n \<leftarrow> required ''chunkCount'' (int_range 1 400) j;
          s \<leftarrow> required ''totalSize'' (int_range 0 26214400) j;
          if n = expected_chunks s then Some \<lparr>nb_blob = b, nb_chunks = n, nb_size = s\<rparr> else None }"

definition announce_blob :: "relay_env \<Rightarrow> bool \<Rightarrow> string \<Rightarrow> json \<Rightarrow> relay_db \<Rightarrow> relay_db \<times> unit reply" where
  "announce_blob env fault d body db =
     (case blob_upload_schema (uuid_ok env) body of
        None \<Rightarrow> (db, invalid_request)
      | Some u \<Rightarrow>
          if fault \<or> \<not> device_exists d db then (db, internal_error)
          else (db\<lparr>blobs := insert_ignore bl_id
                  \<lparr>bl_id = to_lower (nb_blob u), bl_owner = d, bl_chunks = nb_chunks u, bl_size = nb_size u\<rparr>
                  (blobs db)\<rparr>, Done 200 ()))"

record chunk_upload =
  cu_index :: int
  cu_nonce :: string
  cu_ciphertext :: string

definition chunk_upload_schema :: "json \<Rightarrow> chunk_upload option" where
  "chunk_upload_schema j =
     do { i \<leftarrow> required ''chunkIndex'' nonneg_int j;
          n \<leftarrow> required ''nonce'' base64_schema j;
          c \<leftarrow> required ''ciphertext'' base64_schema j;
          Some \<lparr>cu_index = i, cu_nonce = n, cu_ciphertext = c\<rparr> }"

definition find_blob :: "string \<Rightarrow> relay_db \<Rightarrow> blob option" where
  "find_blob i db = List.find (\<lambda>b. bl_id b = i) (blobs db)"

definition store_chunk :: "string \<Rightarrow> int \<Rightarrow> bytes \<Rightarrow> bytes \<Rightarrow> relay_db \<Rightarrow> relay_db" where
  "store_chunk i k nonce ciphertext db =
     db\<lparr>chunks := upsert (\<lambda>c. (ch_blob c, ch_index c)) (\<lambda>c. c\<lparr>ch_nonce := nonce, ch_ciphertext := ciphertext\<rparr>)
          \<lparr>ch_blob = i, ch_index = k, ch_nonce = nonce, ch_ciphertext = ciphertext\<rparr> (chunks db)\<rparr>"

definition upload_chunk ::
  "relay_env \<Rightarrow> bool \<Rightarrow> string \<Rightarrow> string \<Rightarrow> json \<Rightarrow> relay_db \<Rightarrow> relay_db \<times> unit reply" where
  "upload_chunk env fault d blob_id body db =
     (if \<not> uuid_ok env blob_id then (db, invalid_request)
      else case chunk_upload_schema body of
        None \<Rightarrow> (db, invalid_request)
      | Some u \<Rightarrow>
          if fault then (db, internal_error)
          else (case find_blob (to_lower blob_id) db of
            None \<Rightarrow> (db, Fail 404 ''blob_not_found'')
          | Some b \<Rightarrow>
              let nonce = b64_decode (cu_nonce u); ct = b64_decode (cu_ciphertext u)
              in if bl_owner b \<noteq> d then (db, Fail 403 ''blob_upload_not_owner'')
                 else if length nonce \<noteq> 12 \<or> 65536 + 16 < length ct \<or> length ct < 16
                 then (db, Fail 400 ''invalid_attachment_chunk'')
                 else if bl_chunks b \<le> cu_index u then (db, Fail 400 ''chunk_index_out_of_bounds'')
                 else (store_chunk (to_lower blob_id) (cu_index u) nonce ct db, Done 200 ())))"

record chunk_out =
  co_index :: int
  co_nonce :: string
  co_ciphertext :: string

text \<open>
  The index of the path after \<open>z.coerce.number().int().nonnegative()\<close>; \<open>None\<close> where that fails.
  An index outside \<open>INTEGER\<close> makes the query fail.
\<close>

definition fetch_chunk ::
  "relay_env \<Rightarrow> bool \<Rightarrow> string \<Rightarrow> int option \<Rightarrow> relay_db \<Rightarrow> chunk_out reply" where
  "fetch_chunk env fault blob_id index db =
     (if \<not> uuid_ok env blob_id then invalid_request
      else case index of
        None \<Rightarrow> invalid_request
      | Some k \<Rightarrow>
          if k < 0 \<or> max_safe_integer < k then invalid_request
          else if fault \<or> \<not> int4_ok k then internal_error
          else (case List.find (\<lambda>c. ch_blob c = to_lower blob_id \<and> ch_index c = k) (chunks db) of
            None \<Rightarrow> Fail 404 ''chunk_not_found''
          | Some c \<Rightarrow> Done 200 \<lparr>co_index = k, co_nonce = b64_encode (ch_nonce c),
                                co_ciphertext = b64_encode (ch_ciphertext c)\<rparr>))"

text \<open>The chunks go with the blob (\<open>ON DELETE CASCADE\<close>).\<close>

definition delete_blob :: "relay_env \<Rightarrow> bool \<Rightarrow> string \<Rightarrow> relay_db \<Rightarrow> relay_db \<times> unit reply" where
  "delete_blob env fault blob_id db =
     (if \<not> uuid_ok env blob_id then (db, invalid_request)
      else if fault then (db, internal_error)
      else if find_blob (to_lower blob_id) db = None then (db, Fail 404 ''blob_not_found'')
      else (db\<lparr>chunks := delete_where (\<lambda>c. ch_blob c = to_lower blob_id) (chunks db),
               blobs := delete_where (\<lambda>b. bl_id b = to_lower blob_id) (blobs db)\<rparr>, Done 204 ()))"

section \<open>Lemmas\<close>

lemma blob_upload_schema_Some:
  assumes "blob_upload_schema ok j = Some u"
  shows "0 < nb_chunks u" "nb_chunks u \<le> 400" "0 \<le> nb_size u" "nb_size u \<le> 26214400"
    "nb_size u \<le> 65536 * nb_chunks u"
proof -
  from assms have r: "1 \<le> nb_chunks u" "nb_chunks u \<le> 400" "0 \<le> nb_size u" "nb_size u \<le> 26214400"
    and e: "nb_chunks u = expected_chunks (nb_size u)"
    by (auto simp: blob_upload_schema_def required_def int_range_def int_where_Some
        split: Option.bind_splits if_splits)
  from r show "0 < nb_chunks u" "nb_chunks u \<le> 400" "0 \<le> nb_size u" "nb_size u \<le> 26214400" by simp_all
  have "65536 * ((nb_size u + 65535) div 65536) + (nb_size u + 65535) mod 65536 = nb_size u + 65535"
    by (rule mult_div_mod_eq)
  moreover have "(nb_size u + 65535) mod 65536 < 65536" by (rule pos_mod_bound) simp
  ultimately have "nb_size u \<le> 65536 * ((nb_size u + 65535) div 65536)" by linarith
  also have "\<dots> \<le> 65536 * nb_chunks u" unfolding e expected_chunks_def by simp
  finally show "nb_size u \<le> 65536 * nb_chunks u" .
qed

lemma announce_blob_ok:
  assumes "db_ok db"
  shows "db_ok (fst (announce_blob env fault d body db))"
proof (cases "blob_upload_schema (uuid_ok env) body")
  case (Some u)
  let ?b = "\<lparr>bl_id = to_lower (nb_blob u), bl_owner = d, bl_chunks = nb_chunks u, bl_size = nb_size u\<rparr>"
  let ?bs = "insert_ignore bl_id ?b (blobs db)"
  note ok = db_ok_parts(6) [OF assms]
  have "db_ok (db\<lparr>blobs := ?bs\<rparr>)" if d: "device_exists d db"
  proof (rule db_ok_blobs [OF assms])
    have sub: "set (blobs db) \<subseteq> set ?bs" "set ?bs \<subseteq> insert ?b (set (blobs db))"
      by (auto simp: set_insert_ignore)
    have "unique_key bl_id ?bs" using ok by (simp add: blobs_ok_def unique_key_insert_ignore)
    moreover have "bl_owner ` set ?bs \<subseteq> device_ids db"
    proof -
      have "bl_owner ` set ?bs \<subseteq> insert d (bl_owner ` set (blobs db))"
        using image_mono [OF sub(2), of bl_owner] by simp
      moreover have "d \<in> device_ids db" "bl_owner ` set (blobs db) \<subseteq> device_ids db"
        using ok d by (simp_all add: blobs_ok_def device_exists_iff)
      ultimately show ?thesis by blast
    qed
    moreover have "\<forall>b \<in> set ?bs. 0 < bl_chunks b \<and> bl_chunks b \<le> 400 \<and> 0 \<le> bl_size b \<and>
        bl_size b \<le> 26214400 \<and> bl_size b \<le> 65536 * bl_chunks b"
    proof
      fix b assume "b \<in> set ?bs"
      then have "b = ?b \<or> b \<in> set (blobs db)" using sub(2) by blast
      then show "0 < bl_chunks b \<and> bl_chunks b \<le> 400 \<and> 0 \<le> bl_size b \<and>
          bl_size b \<le> 26214400 \<and> bl_size b \<le> 65536 * bl_chunks b"
        using ok blob_upload_schema_Some [OF Some] by (elim disjE) (simp_all add: blobs_ok_def)
    qed
    ultimately show "blobs_ok (db\<lparr>blobs := ?bs\<rparr>)"
      using ok sub(1) by (simp add: blobs_ok_def) (meson subsetD)
  qed
  with Some assms show ?thesis by (simp add: announce_blob_def)
qed (simp add: announce_blob_def assms)

text \<open>A chunk is stored only by the owner, within the announced number of chunks.\<close>

lemma upload_chunk_cases:
  assumes "upload_chunk env fault d blob_id body db = (db', r)"
  obtains (refused) "db' = db" "\<not> is_done r"
    | (stored) u b where "chunk_upload_schema body = Some u" "b \<in> set (blobs db)" "bl_id b = to_lower blob_id"
        "bl_owner b = d" "0 \<le> cu_index u" "cu_index u < bl_chunks b"
        "length (b64_decode (cu_nonce u)) = 12" "16 \<le> length (b64_decode (cu_ciphertext u))"
        "length (b64_decode (cu_ciphertext u)) \<le> 65552" "r = Done 200 ()"
        "db' = store_chunk (to_lower blob_id) (cu_index u) (b64_decode (cu_nonce u)) (b64_decode (cu_ciphertext u)) db"
proof (cases "uuid_ok env blob_id \<and> \<not> fault \<and> chunk_upload_schema body \<noteq> None \<and> find_blob (to_lower blob_id) db \<noteq> None")
  case True
  then obtain u b where u: "chunk_upload_schema body = Some u" and b: "find_blob (to_lower blob_id) db = Some b" by auto
  have idx: "0 \<le> cu_index u"
    using u by (auto simp: chunk_upload_schema_def required_def nonneg_int_def int_where_Some split: Option.bind_splits)
  have row: "b \<in> set (blobs db)" "bl_id b = to_lower blob_id"
    using b by (auto simp: find_blob_def dest: find_SomeD)
  show thesis
  proof (cases "is_done r")
    case True': True
    with assms True u b idx row show thesis
      by (intro stored [of u b]) (auto simp: upload_chunk_def Let_def split: if_splits)
  next
    case False
    with assms True u b show thesis
      by (intro refused) (auto simp: upload_chunk_def Let_def split: if_splits)
  qed
next
  case False
  with assms show thesis by (intro refused) (auto simp: upload_chunk_def split: if_splits option.splits)
qed

lemma upload_chunk_ok:
  assumes "db_ok db"
  shows "db_ok (fst (upload_chunk env fault d blob_id body db))"
proof -
  obtain db' r where up: "upload_chunk env fault d blob_id body db = (db', r)" by (rule prod.exhaust)
  then have "db_ok db'"
  proof (cases rule: upload_chunk_cases)
    case (stored u b)
    let ?key = "\<lambda>c. (ch_blob c, ch_index c)" and ?n = "b64_decode (cu_nonce u)" and ?c = "b64_decode (cu_ciphertext u)"
    let ?r = "\<lparr>ch_blob = to_lower blob_id, ch_index = cu_index u, ch_nonce = ?n, ch_ciphertext = ?c\<rparr>"
    let ?cs = "upsert ?key (\<lambda>c. c\<lparr>ch_nonce := ?n, ch_ciphertext := ?c\<rparr>) ?r (chunks db)"
    note ok = db_ok_parts(6) [OF assms]
    define good where "good c \<longleftrightarrow> (\<exists>b \<in> set (blobs db). bl_id b = ch_blob c \<and>
        0 \<le> ch_index c \<and> ch_index c < bl_chunks b \<and> length (ch_nonce c) = 12 \<and>
        16 \<le> length (ch_ciphertext c) \<and> length (ch_ciphertext c) \<le> 65552)" for c :: chunk
    have "good ?r" unfolding good_def using stored by (intro bexI [of _ b]) simp_all
    moreover have "good (c\<lparr>ch_nonce := ?n, ch_ciphertext := ?c\<rparr>)" if "good c" for c
      using that stored(7-9) unfolding good_def by (simp, blast)
    moreover have "\<forall>c \<in> set (chunks db). good c" using ok by (simp add: blobs_ok_def good_def)
    ultimately have "\<forall>c \<in> set ?cs. good c" by (auto simp: set_upsert)
    moreover have "unique_key ?key ?cs" using ok by (intro unique_key_upsert) (simp_all add: blobs_ok_def)
    ultimately have "blobs_ok (db\<lparr>chunks := ?cs\<rparr>)" using ok by (simp add: blobs_ok_def good_def)
    with db_ok_chunks [OF assms] stored(11) show ?thesis by (simp add: store_chunk_def)
  qed (simp add: assms)
  with up show ?thesis by simp
qed

lemma delete_blob_ok:
  assumes "db_ok db"
  shows "db_ok (fst (delete_blob env fault blob_id db))"
proof -
  let ?bs = "delete_where (\<lambda>b. bl_id b = to_lower blob_id) (blobs db)"
  let ?cs = "delete_where (\<lambda>c. ch_blob c = to_lower blob_id) (chunks db)"
  note ok = db_ok_parts(6) [OF assms]
  have sub: "set ?bs \<subseteq> set (blobs db)" "set ?cs \<subseteq> set (chunks db)" by (auto simp: set_delete_where)
  have owners: "bl_owner ` set ?bs \<subseteq> device_ids db"
    using image_mono [OF sub(1), of bl_owner] ok unfolding blobs_ok_def by (meson subset_trans)
  have uk: "unique_key bl_id ?bs" "unique_key (\<lambda>c. (ch_blob c, ch_index c)) ?cs"
    using ok by (simp_all add: blobs_ok_def unique_key_delete_where)
  have rows: "\<exists>b \<in> set ?bs. bl_id b = ch_blob c \<and> 0 \<le> ch_index c \<and> ch_index c < bl_chunks b \<and>
      length (ch_nonce c) = 12 \<and> 16 \<le> length (ch_ciphertext c) \<and> length (ch_ciphertext c) \<le> 65552"
    if "c \<in> set ?cs" for c
  proof -
    have c: "c \<in> set (chunks db)" "ch_blob c \<noteq> to_lower blob_id" using that by (simp_all add: set_delete_where)
    then obtain b where b: "b \<in> set (blobs db)" "bl_id b = ch_blob c \<and> 0 \<le> ch_index c \<and> ch_index c < bl_chunks b \<and>
        length (ch_nonce c) = 12 \<and> 16 \<le> length (ch_ciphertext c) \<and> length (ch_ciphertext c) \<le> 65552"
      using ok unfolding blobs_ok_def by meson
    with c(2) have "b \<in> set ?bs" by (simp add: set_delete_where)
    with b(2) show ?thesis by (intro bexI)
  qed
  have "db_ok (db\<lparr>chunks := ?cs\<rparr>)"
  proof (rule db_ok_chunks [OF assms])
    have "\<forall>c \<in> set ?cs. \<exists>b \<in> set (blobs db). bl_id b = ch_blob c \<and> 0 \<le> ch_index c \<and> ch_index c < bl_chunks b \<and>
        length (ch_nonce c) = 12 \<and> 16 \<le> length (ch_ciphertext c) \<and> length (ch_ciphertext c) \<le> 65552"
      using rows sub(1) by (meson subsetD)
    then show "blobs_ok (db\<lparr>chunks := ?cs\<rparr>)" using ok uk(2) by (simp add: blobs_ok_def)
  qed
  moreover have "blobs_ok (db\<lparr>chunks := ?cs, blobs := ?bs\<rparr>)"
  proof -
    have "\<forall>b \<in> set ?bs. 0 < bl_chunks b \<and> bl_chunks b \<le> 400 \<and> 0 \<le> bl_size b \<and>
        bl_size b \<le> 26214400 \<and> bl_size b \<le> 65536 * bl_chunks b"
      using ok sub(1) unfolding blobs_ok_def by (meson subsetD)
    with owners uk rows show ?thesis by (simp add: blobs_ok_def)
  qed
  ultimately have "db_ok (db\<lparr>chunks := ?cs, blobs := ?bs\<rparr>)" by (rule db_ok_blobs)
  then show ?thesis using assms by (simp add: delete_blob_def)
qed

end
