(* ===== verification/Relay_Backup.thy ===== *)
theory Relay_Backup
  imports Relay_Auth
begin

text \<open>
  \<open>apps/relay-server/src/vault-backup.ts\<close>: one signed, versioned vault backup per lookup token.
  The first writer's key is pinned, versions advance by one, an identical replay is accepted
  without a write, and a device proof binds the backup to one installation of the vault.
\<close>

section \<open>Writing\<close>

definition same_backup :: "relay_env \<Rightarrow> backup_put \<Rightarrow> backup \<Rightarrow> bool" where
  "same_backup env b old \<longleftrightarrow>
     (case bk_sha old of Some h \<Rightarrow> h | None \<Rightarrow> hex_encode (sha256 env (bk_ciphertext old)))
       = hex_encode (sha256 env (b64_decode (bp_ciphertext b))) \<and>
     bk_writer old = b64_decode (bp_writer b) \<and> bk_nonce old = b64_decode (bp_nonce b) \<and>
     bk_fragment old = b64_decode (bp_fragment b) \<and>
     bk_device old = bp_device b \<and> bk_instance old = bp_instance b \<and>
     bk_device_signature old = bp_device_signature b \<and> bk_claim old = bp_claim b"

definition device_proof_message :: "string \<Rightarrow> bytes" where
  "device_proof_message inst = utf8 (''cp-vault-instance-v1:'' @ inst)"

definition set_lock :: "string \<Rightarrow> string \<Rightarrow> relay_db \<Rightarrow> db_error + relay_db" where
  "set_lock d inst db =
     (if \<not> device_exists d db then Inl Foreign_Key_Violation
      else Inr (db\<lparr>vault_locks := upsert vl_device (\<lambda>l. l\<lparr>vl_instance := inst\<rparr>)
             \<lparr>vl_device = d, vl_instance = inst\<rparr> (vault_locks db)\<rparr>))"

definition moved_elsewhere :: "string \<Rightarrow> string \<Rightarrow> relay_db \<Rightarrow> bool" where
  "moved_elsewhere d inst db =
     (case find_lock d db of None \<Rightarrow> False | Some l \<Rightarrow> vl_instance l \<noteq> inst)"

definition take_over :: "string \<Rightarrow> string \<Rightarrow> bool \<Rightarrow> bool \<Rightarrow> relay_db \<Rightarrow> db_error + relay_db" where
  "take_over d inst claim identical db =
     try_then (if \<not> identical \<or> claim then set_lock d inst db else Inr db) (\<lambda>db1.
       Inr (if claim then db1\<lparr>sessions := delete_where (\<lambda>s. se_device s = d) (sessions db1)\<rparr> else db1))"

text \<open>
  The block under \<open>if(body.deviceId || ..)\<close>: an error, an early reply or the database with the
  lock taken over and the sessions of a claimed device removed.
\<close>

definition check_device_proof ::
  "relay_env \<Rightarrow> backup_put \<Rightarrow> bool \<Rightarrow> relay_db \<Rightarrow> db_error + (nat \<times> string) + relay_db" where
  "check_device_proof env b identical db =
     (case (bp_device b, bp_instance b, bp_device_signature b) of
        (None, None, None) \<Rightarrow> Inr (Inr db)
      | (Some d, Some inst, Some sig) \<Rightarrow>
          (case active_device (to_lower d) db of
             None \<Rightarrow> Inr (Inl (403, ''INVALID_DEVICE_PROOF''))
           | Some dev \<Rightarrow>
               if \<not> verify_challenge (verify env) (dv_auth dev) (device_proof_message inst) (b64_decode sig)
               then Inr (Inl (403, ''INVALID_DEVICE_PROOF''))
               else if moved_elsewhere (to_lower d) inst db \<and> \<not> bp_claim b
               then Inr (Inl (409, ''VAULT_MOVED_RESTORE_REQUIRED''))
               else try_then (take_over (to_lower d) inst (bp_claim b) identical db) (\<lambda>db1. Inr (Inr db1)))
      | _ \<Rightarrow> Inl (Raised ''invalid_device_proof''))"

definition backup_row :: "relay_env \<Rightarrow> backup_put \<Rightarrow> bytes \<Rightarrow> backup" where
  "backup_row env b writer =
     \<lparr>bk_token = bp_token b, bk_version = bp_version b, bk_nonce = b64_decode (bp_nonce b),
      bk_ciphertext = b64_decode (bp_ciphertext b), bk_fragment = b64_decode (bp_fragment b),
      bk_writer = writer, bk_signature = bp_signature b, bk_signed_at = bp_updated b,
      bk_device = map_option to_lower (bp_device b), bk_instance = bp_instance b,
      bk_device_signature = bp_device_signature b, bk_claim = bp_claim b,
      bk_sha = Some (hex_encode (sha256 env (b64_decode (bp_ciphertext b))))\<rparr>"

definition write_backup :: "relay_env \<Rightarrow> backup_put \<Rightarrow> relay_db \<Rightarrow> db_error + relay_db" where
  "write_backup env b db =
     (if length (b64_decode (bp_nonce b)) \<noteq> 12 \<or> 67108864 < length (b64_decode (bp_ciphertext b))
      then Inl Check_Violation
      else Inr (db\<lparr>backups := upsert bk_token (\<lambda>x. backup_row env b (bk_writer x))
             (backup_row env b (b64_decode (bp_writer b))) (backups db)\<rparr>))"

definition find_backup :: "string \<Rightarrow> relay_db \<Rightarrow> backup option" where
  "find_backup t db = List.find (\<lambda>x. bk_token x = t) (backups db)"

record put_reply =
  pr_version :: int
  pr_skipped :: bool

definition identical_backup :: "relay_env \<Rightarrow> backup_put \<Rightarrow> backup option \<Rightarrow> bool" where
  "identical_backup env b old = (case old of None \<Rightarrow> False | Some o1 \<Rightarrow> same_backup env b o1)"

definition old_version :: "backup option \<Rightarrow> int" where
  "old_version old = (case old of None \<Rightarrow> 0 | Some o1 \<Rightarrow> bk_version o1)"

definition backup_conflict :: "relay_env \<Rightarrow> backup_put \<Rightarrow> backup option \<Rightarrow> bool" where
  "backup_conflict env b old \<longleftrightarrow>
     (case old of None \<Rightarrow> False | Some o1 \<Rightarrow> bk_writer o1 \<noteq> b64_decode (bp_writer b)) \<or>
     (bp_version b \<noteq> old_version old + 1 \<and>
      \<not> (identical_backup env b old \<and> bp_version b = old_version old))"

definition put_tx :: "relay_env \<Rightarrow> backup_put \<Rightarrow> relay_db \<Rightarrow> db_error + relay_db \<times> put_reply reply tx_end" where
  "put_tx env b db =
     (let old = find_backup (bp_token b) db; identical = identical_backup env b old
      in if backup_conflict env b old then Inr (db, Rollback (Fail 409 ''BACKUP_CONFLICT''))
         else try_then (check_device_proof env b identical db) (\<lambda>res.
           case res of
             Inl (c, e) \<Rightarrow> Inr (db, Rollback (Fail c e))
           | Inr db1 \<Rightarrow>
               if identical \<and> \<not> bp_claim b
               then Inr (db1, Commit (Done 200 \<lparr>pr_version = old_version old, pr_skipped = True\<rparr>))
               else try_then (write_backup env b db1) (\<lambda>db2.
                 Inr (db2, Commit (Done 200 \<lparr>pr_version = bp_version b, pr_skipped = False\<rparr>)))))"

text \<open>
  The checks before the transaction. \<open>token\<close> is the path parameter of the \<open>PUT\<close> route
  (\<open>None\<close> on \<open>POST\<close>), \<open>digest\<close> the \<open>x-backup-sha256\<close> header.
\<close>

definition put_rejected ::
  "relay_env \<Rightarrow> string option \<Rightarrow> string option \<Rightarrow> backup_put \<Rightarrow> (nat \<times> string) option" where
  "put_rejected env token digest b =
     (let ct = b64_decode (bp_ciphertext b); key = b64_decode (bp_writer b) in
      if (case token of None \<Rightarrow> False | Some t \<Rightarrow> t \<noteq> [] \<and> t \<noteq> bp_token b) then Some (400, ''LOOKUP_MISMATCH'')
      else if length ct < 16 \<or> 64 * 1024 * 1024 < length ct then Some (413, ''BACKUP_TOO_LARGE'')
      else if length key \<noteq> 44 \<or>
        \<not> verify_challenge (verify env) key (backup_signing_payload b) (b64_decode (bp_signature b))
      then Some (403, ''INVALID_BACKUP_SIGNATURE'')
      else if (case digest of None \<Rightarrow> False | Some h \<Rightarrow> h \<noteq> hex_encode (sha256 env ct))
      then Some (400, ''BACKUP_DIGEST_MISMATCH'')
      else None)"

text \<open>A failure inside the transaction is rolled back and rethrown to the error handler.\<close>

definition put_backup ::
  "relay_env \<Rightarrow> bool \<Rightarrow> string option \<Rightarrow> string option \<Rightarrow> json \<Rightarrow> relay_db \<Rightarrow> relay_db \<times> put_reply reply" where
  "put_backup env fault token digest body db =
     (case backup_put_schema (uuid_ok env) (datetime_ok env) body of
        None \<Rightarrow> (db, invalid_request)
      | Some b \<Rightarrow>
          (case put_rejected env token digest b of
             Some (c, e) \<Rightarrow> (db, Fail c e)
           | None \<Rightarrow> run_tx fault internal_error db (put_tx env b db)))"

section \<open>Reading and deleting\<close>

record backup_out =
  bo_token :: string
  bo_version :: int
  bo_nonce :: string
  bo_ciphertext :: string
  bo_fragment :: string
  bo_writer :: string
  bo_signature :: string
  bo_updated :: string
  bo_device :: "string option"
  bo_instance :: "string option"
  bo_device_signature :: "string option"
  bo_claim :: bool

definition backup_reply :: "backup \<Rightarrow> backup_out" where
  "backup_reply r =
     \<lparr>bo_token = bk_token r, bo_version = bk_version r, bo_nonce = b64_encode (bk_nonce r),
      bo_ciphertext = b64_encode (bk_ciphertext r), bo_fragment = b64_encode (bk_fragment r),
      bo_writer = b64_encode (bk_writer r), bo_signature = bk_signature r, bo_updated = bk_signed_at r,
      bo_device = bk_device r, bo_instance = bk_instance r,
      bo_device_signature = bk_device_signature r, bo_claim = bk_claim r\<rparr>"

definition get_backup :: "bool \<Rightarrow> string \<Rightarrow> relay_db \<Rightarrow> backup_out reply" where
  "get_backup fault token db =
     (if \<not> is_lower_hex_of 64 token then invalid_request
      else if fault then internal_error
      else case find_backup token db of
        None \<Rightarrow> Fail 404 ''BACKUP_NOT_FOUND''
      | Some r \<Rightarrow> Done 200 (backup_reply r))"

definition delete_message :: "string \<Rightarrow> int \<Rightarrow> bytes" where
  "delete_message token v = utf8 (''cp-backup-delete-v1:'' @ token @ '':'' @ show_int v)"

definition delete_backup_schema :: "json \<Rightarrow> (int \<times> string) option" where
  "delete_backup_schema j =
     do { v \<leftarrow> required ''version'' positive_int j;
          s \<leftarrow> required ''signature'' (string_where (\<lambda>s. length s \<le> 128)) j;
          Some (v, s) }"

text \<open>A version outside \<open>INTEGER\<close> makes the \<open>DELETE\<close> fail.\<close>

definition delete_backup ::
  "relay_env \<Rightarrow> bool \<Rightarrow> string \<Rightarrow> json \<Rightarrow> relay_db \<Rightarrow> relay_db \<times> unit reply" where
  "delete_backup env fault token body db =
     (if \<not> is_lower_hex_of 64 token then (db, invalid_request)
      else case delete_backup_schema body of
        None \<Rightarrow> (db, invalid_request)
      | Some (v, s) \<Rightarrow>
          if fault then (db, internal_error)
          else if (case find_backup token db of
                     None \<Rightarrow> True
                   | Some r \<Rightarrow> \<not> verify_challenge (verify env) (bk_writer r) (delete_message token v) (b64_decode s))
          then (db, Fail 403 ''INVALID_BACKUP_SIGNATURE'')
          else if \<not> int4_ok v then (db, internal_error)
          else if has_row (\<lambda>r. bk_token r = token \<and> bk_version r = v) (backups db)
          then (db\<lparr>backups := delete_where (\<lambda>r. bk_token r = token \<and> bk_version r = v) (backups db)\<rparr>,
                Done 200 ())
          else (db, Fail 409 ''BACKUP_CONFLICT''))"

section \<open>Lemmas\<close>

text \<open>The device proof changes locks and sessions only.\<close>

lemma check_device_proof_cases:
  assumes "check_device_proof env b identical db = Inr (Inr db1)"
  obtains (none) "db1 = db"
    | (proved) d inst sig dev where "bp_device b = Some d" "bp_instance b = Some inst"
        "bp_device_signature b = Some sig" "active_device (to_lower d) db = Some dev"
        "verify env (dv_auth dev) (device_proof_message inst) (b64_decode sig) = Some True"
        "bp_claim b \<or> \<not> moved_elsewhere (to_lower d) inst db"
        "take_over (to_lower d) inst (bp_claim b) identical db = Inr db1"
proof (cases "bp_device b = None \<and> bp_instance b = None \<and> bp_device_signature b = None")
  case True
  with assms show thesis by (intro none) (simp add: check_device_proof_def)
next
  case False
  then obtain d inst sig where f: "bp_device b = Some d" "bp_instance b = Some inst" "bp_device_signature b = Some sig"
    using assms
    by (cases "bp_device b"; cases "bp_instance b"; cases "bp_device_signature b") (simp_all add: check_device_proof_def)
  from assms f obtain dev where dev: "active_device (to_lower d) db = Some dev"
    by (cases "active_device (to_lower d) db") (simp_all add: check_device_proof_def)
  have v: "verify_challenge (verify env) (dv_auth dev) (device_proof_message inst) (b64_decode sig)"
    using assms f dev
    by (cases "verify_challenge (verify env) (dv_auth dev) (device_proof_message inst) (b64_decode sig)")
      (simp_all add: check_device_proof_def)
  have l: "bp_claim b \<or> \<not> moved_elsewhere (to_lower d) inst db"
    using assms f dev v by (cases "moved_elsewhere (to_lower d) inst db \<and> \<not> bp_claim b") (auto simp: check_device_proof_def)
  have "take_over (to_lower d) inst (bp_claim b) identical db = Inr db1"
    using assms f dev v l by (auto simp: check_device_proof_def try_then_Inr_iff)
  with f dev v l show thesis by (intro proved) (simp_all add: verify_challenge_def)
qed

lemma set_lock_ok: "set_lock d inst db = Inr db' \<Longrightarrow> db_ok db \<Longrightarrow> db_ok db'"
proof -
  assume s: "set_lock d inst db = Inr db'" and ok: "db_ok db"
  let ?ls = "upsert vl_device (\<lambda>l. l\<lparr>vl_instance := inst\<rparr>) \<lparr>vl_device = d, vl_instance = inst\<rparr> (vault_locks db)"
  from s have db': "db' = db\<lparr>vault_locks := ?ls\<rparr>" and d: "d \<in> device_ids db"
    by (simp_all add: set_lock_def device_exists_iff split: if_splits)
  have "unique_key vl_device ?ls" "vl_device ` set ?ls \<subseteq> device_ids db"
    using db_ok_parts(7) [OF ok] d
    by (simp_all add: vaults_ok_def unique_key_upsert upsert_refs)
  then have "vaults_ok (db\<lparr>vault_locks := ?ls\<rparr>)"
    using db_ok_parts(7) [OF ok] by (simp add: vaults_ok_def)
  with ok show "db_ok db'" unfolding db' by (rule db_ok_vault_locks)
qed

lemma set_lock_frame: "set_lock d inst db = Inr db' \<Longrightarrow> backups db' = backups db \<and> sessions db' = sessions db"
  by (auto simp: set_lock_def split: if_splits)

lemma take_over_ok:
  assumes "take_over d inst claim identical db = Inr db1" and "db_ok db"
  shows "db_ok db1 \<and> backups db1 = backups db"
proof -
  from assms(1) obtain db0 where l: "(if \<not> identical \<or> claim then set_lock d inst db else Inr db) = Inr db0"
    and db1: "db1 = (if claim then db0\<lparr>sessions := delete_where (\<lambda>s. se_device s = d) (sessions db0)\<rparr> else db0)"
    by (auto simp: take_over_def try_then_Inr_iff)
  have "db_ok db0 \<and> backups db0 = backups db"
  proof (cases "\<not> identical \<or> claim")
    case True
    with l have "set_lock d inst db = Inr db0" by simp
    with set_lock_ok set_lock_frame assms(2) show ?thesis by blast
  qed (use l assms(2) in simp)
  then show ?thesis unfolding db1 by (cases claim) (simp_all add: db_ok_delete_sessions)
qed

lemma check_device_proof_ok:
  assumes "check_device_proof env b identical db = Inr (Inr db1)" and "db_ok db"
  shows "db_ok db1 \<and> backups db1 = backups db"
  using assms(1) by (cases rule: check_device_proof_cases) (use assms(2) take_over_ok in blast)+

lemma put_tx_commit:
  assumes "put_tx env b db = Inr (db', Commit r)"
  obtains db1 where "check_device_proof env b (identical_backup env b (find_backup (bp_token b) db)) db = Inr (Inr db1)"
    "\<not> backup_conflict env b (find_backup (bp_token b) db)"
    "identical_backup env b (find_backup (bp_token b) db) \<and> \<not> bp_claim b \<and> db' = db1 \<or>
     write_backup env b db1 = Inr db'"
proof -
  define old where "old = find_backup (bp_token b) db"
  have nc: "\<not> backup_conflict env b old"
    using assms by (cases "backup_conflict env b old") (simp_all add: put_tx_def Let_def old_def)
  with assms obtain res where res: "check_device_proof env b (identical_backup env b old) db = Inr res"
    by (cases "check_device_proof env b (identical_backup env b old) db") (simp_all add: put_tx_def Let_def old_def)
  show thesis
  proof (cases res)
    case (Inl ce)
    with assms nc res show thesis by (cases ce) (simp add: put_tx_def Let_def old_def)
  next
    case (Inr db1)
    have "identical_backup env b old \<and> \<not> bp_claim b \<and> db' = db1 \<or> write_backup env b db1 = Inr db'"
    proof (cases "identical_backup env b old \<and> \<not> bp_claim b")
      case True
      with assms nc res Inr show ?thesis by (simp add: put_tx_def Let_def old_def)
    next
      case False
      with assms nc res Inr show ?thesis by (auto simp: put_tx_def Let_def old_def try_then_Inr_iff)
    qed
    with nc res Inr show thesis by (intro that [of db1]) (simp_all add: old_def)
  qed
qed

lemma put_tx_rollback:
  assumes "put_tx env b db = Inr (db', Rollback r)"
  shows "\<exists>c e. r = Fail c e"
proof (cases "backup_conflict env b (find_backup (bp_token b) db)")
  case True
  with assms show ?thesis by (auto simp: put_tx_def)
next
  case False
  with assms obtain res where res: "check_device_proof env b (identical_backup env b (find_backup (bp_token b) db)) db = Inr res"
    by (cases "check_device_proof env b (identical_backup env b (find_backup (bp_token b) db)) db")
      (simp_all add: put_tx_def)
  show ?thesis
  proof (cases res)
    case (Inl ce)
    with assms False res show ?thesis by (cases ce) (auto simp: put_tx_def)
  next
    case (Inr db1)
    with assms False res show ?thesis
      by (cases "write_backup env b db1") (simp_all add: put_tx_def Let_def split: if_splits)
  qed
qed

lemma write_backup_ok:
  assumes "write_backup env b db = Inr db'" and "db_ok db" and "is_lower_hex_of 64 (bp_token b)"
    and "1 \<le> bp_version b" and "16 \<le> length (b64_decode (bp_ciphertext b))"
    and "length (b64_decode (bp_writer b)) = 44"
  shows "db_ok db'"
proof -
  let ?bs = "upsert bk_token (\<lambda>x. backup_row env b (bk_writer x)) (backup_row env b (b64_decode (bp_writer b))) (backups db)"
  from assms(1) have db': "db' = db\<lparr>backups := ?bs\<rparr>" and c: "length (b64_decode (bp_nonce b)) = 12"
    "length (b64_decode (bp_ciphertext b)) \<le> 67108864"
    by (simp_all add: write_backup_def split: if_splits)
  define good where "good x \<longleftrightarrow> is_lower_hex_of 64 (bk_token x) \<and> 1 \<le> bk_version x \<and>
        length (bk_nonce x) = 12 \<and> 16 \<le> length (bk_ciphertext x) \<and>
        length (bk_ciphertext x) \<le> 67108864 \<and> length (bk_writer x) = 44" for x :: backup
  note ok = db_ok_parts(7) [OF assms(2)]
  have g: "good (backup_row env b w)" if "length w = 44" for w
    using that c assms(3-5) by (simp add: good_def backup_row_def)
  have old: "\<forall>x \<in> set (backups db). good x" using ok by (simp add: vaults_ok_def good_def)
  have "good x" if x: "x \<in> set ?bs" for x
  proof (cases "\<exists>y \<in> set (backups db). bk_token y = bk_token (backup_row env b (b64_decode (bp_writer b)))")
    case True
    with x old g show ?thesis by (auto simp: set_upsert) (simp add: good_def)
  next
    case False
    with x old g assms(6) show ?thesis by (auto simp: set_upsert)
  qed
  moreover have "unique_key bk_token ?bs"
  proof (cases "has_row (\<lambda>x. bk_token x = bk_token (backup_row env b (b64_decode (bp_writer b)))) (backups db)")
    case True
    have "map bk_token ?bs = map bk_token (backups db)"
      using True by (auto simp: upsert_def update_where_def backup_row_def)
    with ok show ?thesis by (simp add: vaults_ok_def unique_key_def)
  next
    case False
    with ok show ?thesis by (auto simp: upsert_def vaults_ok_def has_row_iff intro!: unique_key_snoc)
  qed
  ultimately have "vaults_ok (db\<lparr>backups := ?bs\<rparr>)" using ok by (simp add: vaults_ok_def good_def)
  with assms(2) show ?thesis unfolding db' by (rule db_ok_backups)
qed

text \<open>Every way a \<open>put\<close> can end.\<close>

lemma put_backup_cases:
  assumes "put_backup env fault token digest body db = (db', r)"
  obtains (refused) "db' = db" "\<not> is_done r"
    | (written) b where "backup_put_schema (uuid_ok env) (datetime_ok env) body = Some b"
        "put_tx env b db = Inr (db', Commit r)" "16 \<le> length (b64_decode (bp_ciphertext b))"
        "length (b64_decode (bp_writer b)) = 44"
        "verify env (b64_decode (bp_writer b)) (backup_signing_payload b) (b64_decode (bp_signature b)) = Some True"
proof (cases "backup_put_schema (uuid_ok env) (datetime_ok env) body")
  case None
  with assms show thesis by (intro refused) (auto simp: put_backup_def)
next
  case (Some b)
  show thesis
  proof (cases "put_rejected env token digest b")
    case (Some ce)
    with assms \<open>backup_put_schema _ _ body = Some b\<close> show thesis
      by (intro refused; cases ce) (auto simp: put_backup_def)
  next
    case None
    with assms Some have run: "run_tx fault internal_error db (put_tx env b db) = (db', r)"
      by (simp add: put_backup_def)
    then show thesis
    proof (cases rule: run_tx_cases)
      case committed
      with None Some show thesis
        by (intro written [of b]) (simp_all add: put_rejected_def Let_def verify_challenge_def split: if_splits)
    next
      case unchanged
      then have "\<not> is_done r" by (elim disjE exE) (auto dest: put_tx_rollback)
      with unchanged show thesis by (intro refused)
    qed
  qed
qed

lemma backup_put_schema_Some:
  assumes "backup_put_schema ok dt j = Some b"
  shows "is_lower_hex_of 64 (bp_token b)" and "1 \<le> bp_version b"
  using assms
  by (auto simp: backup_put_schema_def required_def lookup_token_schema_def string_where_Some int_range_def
      int_where_Some bind_eq_Some_conv)

lemma put_backup_ok:
  assumes "db_ok db"
  shows "db_ok (fst (put_backup env fault token digest body db))"
proof -
  obtain db' r where p: "put_backup env fault token digest body db = (db', r)" by (rule prod.exhaust)
  then have "db_ok db'"
  proof (cases rule: put_backup_cases)
    case (written b)
    from written(2) show ?thesis
    proof (rule put_tx_commit)
      fix db1
      assume c: "check_device_proof env b (identical_backup env b (find_backup (bp_token b) db)) db = Inr (Inr db1)"
        and f: "identical_backup env b (find_backup (bp_token b) db) \<and> \<not> bp_claim b \<and> db' = db1 \<or>
          write_backup env b db1 = Inr db'"
      have "db_ok db1" using check_device_proof_ok [OF c assms] by blast
      with f write_backup_ok [OF _ _ backup_put_schema_Some [OF written(1)] written(3,4)] show ?thesis by blast
    qed
  qed (simp add: assms)
  with p show ?thesis by simp
qed

lemma delete_backup_ok:
  assumes "db_ok db"
  shows "db_ok (fst (delete_backup env fault token body db))"
proof -
  have "db_ok (db\<lparr>backups := delete_where p (backups db)\<rparr>)" for p
    using db_ok_parts(7) [OF assms]
    by (intro db_ok_backups [OF assms]) (simp add: vaults_ok_def set_delete_where unique_key_delete_where)
  with assms show ?thesis by (simp add: delete_backup_def split: option.splits)
qed

end
