(* ===== verification/Relay_Signaling.thy ===== *)
theory Relay_Signaling
  imports Relay_Ws
begin

text \<open>
  \<open>apps/relay-server/src/signaling.ts\<close> and the message event of \<open>ws-handler.ts\<close>: a WebRTC signal
  is forwarded at once to the socket of an approved peer, within a budget per pair of users,
  and never stored.
\<close>

section \<open>The budget\<close>

type_synonym budget = "(string, ms list) jsmap"

definition pair_key :: "string \<Rightarrow> string \<Rightarrow> string" where
  "pair_key a b = join_with (CHR '':'') (sort [a, b])"

definition stale :: "ms \<Rightarrow> ms list \<Rightarrow> bool" where
  "stale now ts \<longleftrightarrow> ts \<noteq> [] \<and> last ts \<le> now - 60000"

definition recent :: "ms \<Rightarrow> ms list \<Rightarrow> ms list" where
  "recent now ts = filter (\<lambda>t. now - 60000 < t) ts"

definition times_of :: "string \<Rightarrow> budget \<Rightarrow> ms list" where
  "times_of k b = (case map_get b k of None \<Rightarrow> [] | Some ts \<Rightarrow> ts)"

definition budget_take :: "string \<Rightarrow> string \<Rightarrow> ms \<Rightarrow> budget \<Rightarrow> budget \<times> bool" where
  "budget_take src dst now b =
     (let b1 = filter (\<lambda>e. \<not> stale now (snd e)) b;
          k = pair_key src dst;
          ts = recent now (times_of k b1)
      in if 30 \<le> length ts \<or> (map_get b1 k = None \<and> 10000 \<le> length b1) then (b1, False)
         else (map_set k (ts @ [now]) b1, True))"

section \<open>Forwarding\<close>

record signal_result =
  sg_delivered :: bool
  sg_reason :: "string option"

definition undelivered :: "string \<Rightarrow> signal_result" where
  "undelivered r = \<lparr>sg_delivered = False, sg_reason = Some r\<rparr>"

text \<open>The active device of an approved, unrevoked peer with this public UID.\<close>

definition signal_peer :: "string \<Rightarrow> string \<Rightarrow> relay_db \<Rightarrow> device option" where
  "signal_peer uid sender_user db =
     List.find (\<lambda>d. dv_revoked d = None \<and> permitted db (dv_user d) sender_user \<and>
       has_row (\<lambda>u. us_id u = dv_user d \<and> us_uid u = Some uid \<and> us_revoked u = None) (users db)) (devices db)"

datatype signal_error = Signal_Schema | Signal_Database

text \<open>
  \<open>auth1\<close> and \<open>auth2\<close> are the two answers of \<open>stillAuthorized\<close>; the clock is read on receipt, by
  the budget and before the delivery.
\<close>

definition forward_signal ::
  "relay_env \<Rightarrow> bool \<Rightarrow> bool \<Rightarrow> bool \<Rightarrow> ms \<Rightarrow> ms \<Rightarrow> ms \<Rightarrow> string \<Rightarrow> json \<Rightarrow> relay_db \<Rightarrow> budget \<times> clients \<Rightarrow>
     (budget \<times> clients) \<times> (signal_error + signal_result)" where
  "forward_signal env fault auth1 auth2 received now_b now_d d input db st =
     (let (b, cs) = st in
      case webrtc_signal_schema (uuid_ok env) input of
        None \<Rightarrow> (st, Inl Signal_Schema)
      | Some s \<Rightarrow>
          if \<not> auth1 then (st, Inr (undelivered ''UNAUTHORIZED''))
          else if fault then (st, Inl Signal_Database)
          else (case active_user d db of
            None \<Rightarrow> (st, Inr (undelivered ''SENDER_MISMATCH''))
          | Some u \<Rightarrow>
              if us_uid u \<noteq> Some (ws_from s) \<or> ws_from s = ws_to s
              then (st, Inr (undelivered ''SENDER_MISMATCH''))
              else let (b1, ok) = budget_take (ws_from s) (ws_to s) now_b b
                   in if \<not> ok then ((b1, cs), Inr (undelivered ''RATE_LIMITED''))
                      else (case signal_peer (ws_to s) (us_id u) db of
                        None \<Rightarrow> ((b1, cs), Inr (undelivered ''CONTACT_NOT_APPROVED''))
                      | Some p \<Rightarrow>
                          if \<not> auth2 then ((b1, cs), Inr (undelivered ''UNAUTHORIZED''))
                          else if ws_ttl s \<le> now_d - received then ((b1, cs), Inr (undelivered ''EXPIRED''))
                          else let (cs1, sent) = notify_client (dv_id p) (Signal_Frame s) (Some (256 * 1024)) cs
                               in ((b1, cs1), Inr (if sent then \<lparr>sg_delivered = True, sg_reason = None\<rparr>
                                    else undelivered ''PEER_OFFLINE'')))))"

text \<open>\<open>POST /api/signal\<close>\<close>

definition signal_code :: "signal_result \<Rightarrow> nat" where
  "signal_code r =
     (if sg_reason r = Some ''RATE_LIMITED'' then 429
      else if sg_reason r = Some ''SENDER_MISMATCH'' \<or> sg_reason r = Some ''CONTACT_NOT_APPROVED'' then 403
      else 200)"

definition post_signal ::
  "relay_env \<Rightarrow> bool \<Rightarrow> ms \<Rightarrow> ms \<Rightarrow> ms \<Rightarrow> string \<Rightarrow> json \<Rightarrow> relay_db \<Rightarrow> budget \<times> clients \<Rightarrow>
     (budget \<times> clients) \<times> signal_result reply" where
  "post_signal env fault received now_b now_d d input db st =
     (case forward_signal env fault True True received now_b now_d d input db st of
        (st', Inl Signal_Schema) \<Rightarrow> (st', invalid_request)
      | (st', Inl Signal_Database) \<Rightarrow> (st', internal_error)
      | (st', Inr r) \<Rightarrow> (st', Done (signal_code r) r))"

section \<open>The message event of a socket\<close>

datatype ws_action = Send_Frame frame | Close_Backlog | Start_Forward | No_Action

text \<open>
  \<open>None\<close> is a message that is not JSON. A value that is not an object has no \<open>type\<close>, and reading
  it from \<open>null\<close> throws. \<open>pending\<close> counts the signals of the socket under way.
\<close>

definition ws_message :: "nat \<Rightarrow> bool \<Rightarrow> json option \<Rightarrow> nat \<times> ws_action" where
  "ws_message pending is_open msg =
     (let invalid = (if is_open then Send_Frame (Signal_Result None False (Some ''INVALID_REQUEST'')) else No_Action)
      in case msg of
        None \<Rightarrow> (pending, invalid)
      | Some j \<Rightarrow>
          if j = JNull then (pending, invalid)
          else if field ''type'' j = Some (JStr ''ping'') then (pending, Send_Frame Pong)
          else if field ''type'' j = Some (JStr ''WEBRTC_SIGNAL'')
          then (if 4 \<le> pending then (pending, Close_Backlog) else (Suc pending, Start_Forward))
          else (pending, No_Action))"

text \<open>The end of a forward that \<open>ws_message\<close> started.\<close>

definition ws_forwarded :: "nat \<Rightarrow> bool \<Rightarrow> json \<Rightarrow> signal_error + signal_result \<Rightarrow> nat \<times> ws_action" where
  "ws_forwarded pending is_open j result =
     (pending - 1,
      if \<not> is_open then No_Action
      else Send_Frame (case result of
        Inl _ \<Rightarrow> Signal_Result None False (Some ''INVALID_REQUEST'')
      | Inr r \<Rightarrow> Signal_Result (Option.bind (field ''signalId'' j) as_string) (sg_delivered r) (sg_reason r)))"

section \<open>Lemmas on the budget\<close>

text \<open>The signals that were let through, by pair and time, when requests arrive in this order.\<close>

fun run_budget :: "(string \<times> string \<times> ms) list \<Rightarrow> budget \<Rightarrow> (string \<times> ms) list" where
  "run_budget [] b = []"
| "run_budget ((src, dst, now) # qs) b =
     (case budget_take src dst now b of
        (b', True) \<Rightarrow> (pair_key src dst, now) # run_budget qs b'
      | (b', False) \<Rightarrow> run_budget qs b')"

fun budget_after :: "(string \<times> string \<times> ms) list \<Rightarrow> budget \<Rightarrow> budget" where
  "budget_after [] b = b"
| "budget_after ((src, dst, now) # qs) b = budget_after qs (fst (budget_take src dst now b))"

definition pair_times :: "string \<Rightarrow> (string \<times> ms) list \<Rightarrow> ms list" where
  "pair_times k h = map snd (filter (\<lambda>e. fst e = k) h)"

definition in_window :: "ms \<Rightarrow> ms list \<Rightarrow> ms list" where
  "in_window n ts = filter (\<lambda>t. n - 60000 < t \<and> t \<le> n) ts"

definition budget_ok :: "budget \<Rightarrow> bool" where
  "budget_ok b \<longleftrightarrow> distinct (map fst b) \<and> length b \<le> 10000"

lemma map_get_filter:
  "distinct (map fst b) \<Longrightarrow> map_get (filter (\<lambda>e. P (snd e)) b) k =
    (case map_get b k of Some ts \<Rightarrow> if P ts then Some ts else None | None \<Rightarrow> None)"
proof (induction b)
  case (Cons e b)
  obtain k' ts where e: "e = (k', ts)" by (rule prod.exhaust)
  have "map_get b k' = None" if "k = k'" using Cons.prems by (auto simp: e map_get_def map_of_eq_None_iff)
  with Cons show ?case by (auto simp: e map_get_def split: option.splits)
qed (simp add: map_get_def)

lemma map_get_None_iff: "map_get b k = None \<longleftrightarrow> k \<notin> fst ` set b"
  by (simp add: map_get_def map_of_eq_None_iff)

lemma budget_take_ok:
  assumes "budget_ok b" and "budget_take src dst now b = (b', r)"
  shows "budget_ok b'"
proof -
  let ?b1 = "filter (\<lambda>e. \<not> stale now (snd e)) b"
  have b1: "distinct (map fst ?b1)" "length ?b1 \<le> 10000"
    using assms(1) order_trans [OF length_filter_le [of "\<lambda>e. \<not> stale now (snd e)" b]]
    by (simp_all add: budget_ok_def distinct_map_filter)
  show ?thesis
  proof (cases "30 \<le> length (recent now (times_of (pair_key src dst) ?b1)) \<or>
      (map_get ?b1 (pair_key src dst) = None \<and> 10000 \<le> length ?b1)")
    case True
    with assms(2) b1 show ?thesis by (simp add: budget_take_def Let_def budget_ok_def)
  next
    case False
    with assms(2) have "b' = map_set (pair_key src dst) (recent now (times_of (pair_key src dst) ?b1) @ [now]) ?b1"
      by (simp add: budget_take_def Let_def)
    with b1 False show ?thesis
      by (auto simp: budget_ok_def distinct_map_set length_map_set map_get_None_iff)
  qed
qed

lemma budget_after_ok: "budget_ok b \<Longrightarrow> budget_ok (budget_after qs b)"
proof (induction qs b rule: budget_after.induct)
  case (2 src dst now qs b)
  obtain b' r where t: "budget_take src dst now b = (b', r)" by (rule prod.exhaust)
  with budget_take_ok [OF 2(2) t] 2(1) show ?case by simp
qed simp

lemma recent_recent: "m \<le> n \<Longrightarrow> recent n (recent m ts) = recent n ts"
  by (induction ts) (auto simp: recent_def)

lemma recent_stale:
  assumes "sorted ts" and "stale now ts" and "now \<le> n"
  shows "recent n ts = []"
proof (cases ts rule: rev_cases)
  case (snoc xs x)
  with assms show ?thesis by (fastforce simp: stale_def recent_def sorted_append filter_empty_conv)
qed (use assms in \<open>simp add: stale_def\<close>)

lemma sorted_recent: "sorted ts \<Longrightarrow> sorted (recent n ts)"
  by (induction ts) (auto simp: recent_def)

text \<open>What the stored times of every pair have to do with the history of the accepted signals.\<close>

definition tracks :: "(string \<times> ms) list \<Rightarrow> budget \<Rightarrow> ms \<Rightarrow> bool" where
  "tracks h b n \<longleftrightarrow>
     distinct (map fst b) \<and> (\<forall>e \<in> set h. snd e \<le> n) \<and>
     (\<forall>k. sorted (times_of k b) \<and> (\<forall>t \<in> set (times_of k b). t \<le> n) \<and>
        recent n (times_of k b) = recent n (pair_times k h))"

lemma times_of_filter:
  assumes "distinct (map fst b)"
  shows "times_of k (filter (\<lambda>e. \<not> stale now (snd e)) b) = (if stale now (times_of k b) then [] else times_of k b)"
  using map_get_filter [OF assms, of "\<lambda>ts. \<not> stale now ts" k]
  by (simp add: times_of_def stale_def split: option.splits)

lemma tracks_cleanup:
  assumes "tracks h b n" and "n \<le> now"
  shows "tracks h (filter (\<lambda>e. \<not> stale now (snd e)) b) now"
  unfolding tracks_def
proof (intro conjI allI)
  have d: "distinct (map fst b)" using assms(1) by (simp add: tracks_def)
  then show "distinct (map fst (filter (\<lambda>e. \<not> stale now (snd e)) b))" by (simp add: distinct_map_filter)
  show "\<forall>e \<in> set h. snd e \<le> now" using assms by (auto simp: tracks_def)
  fix k
  note tf = times_of_filter [OF d, of k now]
  have k: "sorted (times_of k b)" "\<forall>t \<in> set (times_of k b). t \<le> n"
    "recent n (times_of k b) = recent n (pair_times k h)" using assms(1) by (simp_all add: tracks_def)
  show "sorted (times_of k (filter (\<lambda>e. \<not> stale now (snd e)) b))" using k(1) by (simp add: tf)
  show "\<forall>t \<in> set (times_of k (filter (\<lambda>e. \<not> stale now (snd e)) b)). t \<le> now" using k(2) assms(2) by (auto simp: tf)
  have "recent now (times_of k (filter (\<lambda>e. \<not> stale now (snd e)) b)) = recent now (times_of k b)"
    using recent_stale [OF k(1), of now now] by (simp add: tf) (simp add: recent_def)
  also have "\<dots> = recent now (pair_times k h)"
    using recent_recent [OF assms(2)] k(3) by metis
  finally show "recent now (times_of k (filter (\<lambda>e. \<not> stale now (snd e)) b)) = recent now (pair_times k h)" .
qed

lemma budget_take_tracks:
  assumes "tracks h b n" and "n \<le> now" and "budget_take src dst now b = (b', r)"
  shows "tracks (if r then h @ [(pair_key src dst, now)] else h) b' now"
    and "r \<Longrightarrow> length (recent now (pair_times (pair_key src dst) h)) < 30"
proof -
  let ?b1 = "filter (\<lambda>e. \<not> stale now (snd e)) b" and ?k = "pair_key src dst"
  have t1: "tracks h ?b1 now" using tracks_cleanup [OF assms(1,2)] .
  let ?ts = "recent now (times_of ?k ?b1)"
  have ts: "?ts = recent now (pair_times ?k h)" using t1 by (simp add: tracks_def)
  have res: "r \<and> length ?ts < 30 \<and> b' = map_set ?k (?ts @ [now]) ?b1 \<or> \<not> r \<and> b' = ?b1"
    using assms(3) by (auto simp: budget_take_def Let_def split: if_splits)
  show "r \<Longrightarrow> length (recent now (pair_times ?k h)) < 30" using res ts by auto
  show "tracks (if r then h @ [(?k, now)] else h) b' now"
  proof (cases r)
    case False
    with res t1 show ?thesis by simp
  next
    case True
    with res have b': "b' = map_set ?k (?ts @ [now]) ?b1" by simp
    have get: "times_of k b' = (if k = ?k then ?ts @ [now] else times_of k ?b1)" for k
      by (simp add: times_of_def b' map_get_set)
    have old: "sorted (times_of k ?b1)" "\<forall>t \<in> set (times_of k ?b1). t \<le> now"
      "recent now (times_of k ?b1) = recent now (pair_times k h)" for k
      using t1 by (simp_all add: tracks_def)
    have srt: "sorted (?ts @ [now])"
      using old(2) [of ?k] sorted_recent [OF old(1) [of ?k]] by (auto simp: sorted_append recent_def)
    have rec: "recent now (?ts @ [now]) = recent now (pair_times ?k h) @ [now]"
      using recent_recent [of now now] by (simp add: ts) (simp add: recent_def)
    have pt: "pair_times k (h @ [(?k, now)]) = (if k = ?k then pair_times k h @ [now] else pair_times k h)" for k
      by (simp add: pair_times_def)
    have le: "\<forall>t \<in> set (?ts @ [now]). t \<le> now" using old(2) [of ?k] by (auto simp: recent_def)
    have "sorted (times_of k b') \<and> (\<forall>t \<in> set (times_of k b'). t \<le> now) \<and>
        recent now (times_of k b') = recent now (pair_times k (h @ [(?k, now)]))" for k
    proof (cases "k = ?k")
      case True
      have "recent now (pair_times ?k h @ [now]) = recent now (pair_times ?k h) @ [now]" by (simp add: recent_def)
      with True srt le rec show ?thesis by (simp only: get pt if_True simp_thms)
    next
      case False
      with old [of k] show ?thesis by (simp only: get pt if_False simp_thms)
    qed
    moreover have "distinct (map fst b')" "\<forall>e \<in> set h. snd e \<le> now"
      using t1 by (simp_all add: b' tracks_def distinct_map_set)
    ultimately show ?thesis using True by (simp add: tracks_def)
  qed
qed

lemma window_append:
  assumes w: "\<forall>m. length (in_window m ts) \<le> 30" and le: "\<forall>t \<in> set ts. t \<le> now" and c: "length (recent now ts) < 30"
  shows "length (in_window m (ts @ [now])) \<le> 30"
proof (cases "m < now")
  case True
  with w show ?thesis by (simp add: in_window_def)
next
  case False
  have "in_window m ts = filter (\<lambda>t. m - 60000 < t \<and> t \<le> m) (recent now ts)"
    using False by (induction ts) (auto simp: in_window_def recent_def)
  then have "length (in_window m ts) \<le> length (recent now ts)" by simp
  with c show ?thesis by (simp add: in_window_def)
qed

lemma run_budget_window:
  assumes "tracks h b n" and "sorted (n # map (\<lambda>q. snd (snd q)) qs)"
    and "\<forall>k m. length (in_window m (pair_times k h)) \<le> 30"
  shows "length (in_window m (pair_times k (h @ run_budget qs b))) \<le> 30"
  using assms
proof (induction qs b arbitrary: h n rule: run_budget.induct)
  case (2 src dst now qs b)
  obtain b' r where t: "budget_take src dst now b = (b', r)" by (rule prod.exhaust)
  note IH = 2(1) [OF t [symmetric]] 2(2) [OF t [symmetric]]
  have n: "n \<le> now" and s: "sorted (now # map (\<lambda>q. snd (snd q)) qs)" using 2(4) by auto
  note tr = budget_take_tracks [OF 2(3) n t]
  show ?case
  proof (cases r)
    case True
    let ?h = "h @ [(pair_key src dst, now)]"
    have le: "\<forall>t \<in> set (pair_times (pair_key src dst) h). t \<le> now"
      using 2(3) n by (force simp: tracks_def pair_times_def)
    have "\<forall>k m. length (in_window m (pair_times k ?h)) \<le> 30"
      using 2(5) window_append [OF _ le tr(2) [OF True]] by (auto simp: pair_times_def)
    with IH(1) [OF _, of ?h now] t True tr(1) s show ?thesis by simp
  next
    case False
    with IH(2) [OF _, of h now] t tr(1) s 2(5) show ?thesis by simp
  qed
qed simp

end
