(* ===== verification/Relay_Queue.thy ===== *)
theory Relay_Queue
  imports Relay_Ws
begin

text \<open>
  \<open>apps/relay-server/src/queue.ts\<close> and the cleanup timer of \<open>server.ts\<close>: sending an envelope to
  a mailbox, reading the pending envelopes and acknowledging them. The messages table is a
  durable mailbox per recipient.
\<close>

section \<open>Envelope ids\<close>

definition hex_to_uuid :: "string \<Rightarrow> string" where
  "hex_to_uuid h =
     (if CHR ''-'' \<in> set h then h
      else to_lower (take 8 h @ ''-'' @ take 4 (drop 8 h) @ ''-'' @ take 4 (drop 12 h) @ ''-'' @
             take 4 (drop 16 h) @ ''-'' @ take 12 (drop 20 h)))"

definition uuid_to_hex :: "string \<Rightarrow> string" where
  "uuid_to_hex u = to_lower (filter (\<lambda>c. c \<noteq> CHR ''-'') u)"

lemma uuid_to_hex_to_uuid:
  assumes "length h = 32" and "list_all is_hex h"
  shows "uuid_to_hex (hex_to_uuid h) = to_lower h"
proof -
  have nd: "CHR ''-'' \<notin> set h"
    using assms(2) by (auto simp: list_all_iff is_hex_def is_hex_lower_def is_hex_upper_def is_digit_def)
  have low: "lower_char c \<noteq> CHR ''-''" if "is_hex c" for c
  proof
    assume "lower_char c = CHR ''-''"
    then have "code (lower_char c) = 45" by simp
    with that show False
      by (auto simp: lower_char_def is_hex_def is_hex_lower_def is_hex_upper_def is_digit_def is_upper_def code_char_of
          split: if_splits)
  qed
  have keep: "filter (\<lambda>c. c \<noteq> CHR ''-'') (to_lower s) = to_lower s" if "set s \<subseteq> set h" for s
    using that assms(2) low by (intro filter_True) (auto simp: to_lower_def list_all_iff)
  have dash: "to_lower ''-'' = ''-''" by (simp add: to_lower_def lower_char_def is_upper_def)
  have parts: "h = take 8 h @ take 4 (drop 8 h) @ take 4 (drop 12 h) @ take 4 (drop 16 h) @ take 12 (drop 20 h)"
    using assms(1) take_add [of 8 4 h] take_add [of 12 4 h] take_add [of 16 4 h] take_add [of 20 12 h]
    by simp
  have sub: "set (take n (drop m h)) \<subseteq> set h" "set (take n h) \<subseteq> set h" for m n
    using set_take_subset [of n "drop m h"] set_drop_subset [of m h] set_take_subset [of n h] by auto
  have "filter (\<lambda>c. c \<noteq> CHR ''-'') (hex_to_uuid h)
      = to_lower (take 8 h @ take 4 (drop 8 h) @ take 4 (drop 12 h) @ take 4 (drop 16 h) @ take 12 (drop 20 h))"
    unfolding hex_to_uuid_def using nd by (simp only: if_False to_lower_append filter_append keep sub dash) simp
  with parts show ?thesis by (simp add: uuid_to_hex_def)
qed

section \<open>The messages table as a mailbox\<close>

record letter =
  lt_sender :: string
  lt_payload :: bytes
  lt_timestamp :: ms
  lt_expires :: ms

definition letter_row :: "string \<Rightarrow> string \<Rightarrow> letter \<Rightarrow> message" where
  "letter_row d i l =
     \<lparr>mg_id = i, mg_sender = lt_sender l, mg_recipient = d, mg_payload = lt_payload l,
      mg_timestamp = lt_timestamp l, mg_delivered = False, mg_expires = lt_expires l\<rparr>"

definition mailbox_put :: "string \<Rightarrow> string \<Rightarrow> letter \<Rightarrow> message list \<Rightarrow> message list" where
  "mailbox_put d i l ms = insert_ignore mg_id (letter_row d i l) ms"

definition mailbox_ack :: "string \<Rightarrow> string set \<Rightarrow> message list \<Rightarrow> message list" where
  "mailbox_ack d ids ms = delete_where (\<lambda>m. mg_id m \<in> ids \<and> mg_recipient m = d) ms"

definition mailbox_known :: "message list \<Rightarrow> string set" where
  "mailbox_known ms = mg_id ` set ms"

definition message_letter :: "message \<Rightarrow> letter" where
  "message_letter m =
     \<lparr>lt_sender = mg_sender m, lt_payload = mg_payload m, lt_timestamp = mg_timestamp m, lt_expires = mg_expires m\<rparr>"

definition mailbox_pending :: "string \<Rightarrow> message list \<Rightarrow> (string \<times> letter) set" where
  "mailbox_pending d ms =
     (\<lambda>m. (mg_id m, message_letter m)) ` {m \<in> set ms. mg_recipient m = d \<and> \<not> mg_delivered m}"

lemma message_letter_row [simp]: "message_letter (letter_row d i l) = l"
  by (simp add: message_letter_def letter_row_def)

lemma mg_id_letter_row [simp]: "mg_id (letter_row d i l) = i"
  by (simp add: letter_row_def)

interpretation relay_mailbox: durable_mailbox mailbox_known "mailbox_pending d" "mailbox_put d" "mailbox_ack d" for d
proof unfold_locales
  fix k m s
  show "k \<notin> mailbox_known s \<Longrightarrow> mailbox_pending d (mailbox_put d k m s) = insert (k, m) (mailbox_pending d s)"
  proof -
    assume "k \<notin> mailbox_known s"
    then have put: "mailbox_put d k m s = s @ [letter_row d k m]"
      by (auto simp: mailbox_known_def mailbox_put_def insert_ignore_def has_row_iff letter_row_def)
    have "{x \<in> set (s @ [letter_row d k m]). mg_recipient x = d \<and> \<not> mg_delivered x}
        = insert (letter_row d k m) {x \<in> set s. mg_recipient x = d \<and> \<not> mg_delivered x}"
      by (auto simp: letter_row_def)
    then show ?thesis unfolding put mailbox_pending_def by (simp only: image_insert) simp
  qed
  show "k \<in> mailbox_known s \<Longrightarrow> mailbox_put d k m s = s"
    by (auto simp: mailbox_known_def mailbox_put_def insert_ignore_def has_row_iff letter_row_def)
  show "mailbox_known (mailbox_put d k m s) = insert k (mailbox_known s)"
    by (auto simp: mailbox_known_def mailbox_put_def insert_ignore_def has_row_iff letter_row_def)
next
  fix K s
  show "mailbox_pending d (mailbox_ack d K s) = {p \<in> mailbox_pending d s. fst p \<notin> K}"
    by (auto simp: mailbox_pending_def mailbox_ack_def set_delete_where)
qed

section \<open>Sending\<close>

definition default_ttl :: "string option \<Rightarrow> int" where
  "default_ttl kind = (if kind = Some ''TYPING'' then 5000 else 30 * 24 * 60 * 60 * 1000)"

definition envelope_lifetime :: "envelope \<Rightarrow> int" where
  "envelope_lifetime e = (case env_ttl e of Some t \<Rightarrow> t | None \<Rightarrow> default_ttl (env_type e))"

definition envelope_expiry :: "ms \<Rightarrow> ms \<Rightarrow> envelope \<Rightarrow> ms" where
  "envelope_expiry now now' e =
     min now (case env_created e of Some c \<Rightarrow> c | None \<Rightarrow> now') + envelope_lifetime e"

definition is_ephemeral :: "envelope \<Rightarrow> bool" where
  "is_ephemeral e \<longleftrightarrow> env_type e = Some ''TYPING'' \<or> envelope_lifetime e \<le> 10000"

text \<open>
  The transaction. The committed reply carries \<open>True\<close> for an ephemeral envelope, which is not
  stored. \<open>now''\<close> is the clock at the insert.
\<close>

definition send_tx ::
  "relay_env \<Rightarrow> ms \<Rightarrow> ms \<Rightarrow> ms \<Rightarrow> string \<Rightarrow> envelope \<Rightarrow> relay_db \<Rightarrow> db_error + relay_db \<times> bool reply tx_end" where
  "send_tx env now now' now'' sender e db =
     (case pg_uuid env (env_mailbox e) of
        None \<Rightarrow> Inl Invalid_Text
      | Some recipient \<Rightarrow>
          (case (device_user sender db, device_user recipient db) of
             (Some u1, Some u2) \<Rightarrow>
               if \<not> permitted db u1 u2 then Inr (db, Rollback (Fail 403 ''conversation_not_approved''))
               else if is_ephemeral e then Inr (db, Commit (Done 202 True))
               else Inr (db\<lparr>messages := mailbox_put recipient (to_lower (hex_to_uuid (env_id e)))
                       \<lparr>lt_sender = sender, lt_payload = b64_decode (env_ciphertext e),
                        lt_timestamp = now'', lt_expires = envelope_expiry now now' e\<rparr> (messages db)\<rparr>,
                     Commit (Done 202 False))
           | _ \<Rightarrow> Inr (db, Rollback (Fail 404 ''recipient_not_found''))))"

record send_reply =
  sr_envelope :: string
  sr_delivered :: "bool option"

definition envelope_frame :: "string \<Rightarrow> envelope \<Rightarrow> frame" where
  "envelope_frame sender e = Envelope_Frame (env_id e) sender (env_mailbox e) (env_ciphertext e)"

definition send_message ::
  "relay_env \<Rightarrow> bool \<Rightarrow> ms \<Rightarrow> ms \<Rightarrow> ms \<Rightarrow> string \<Rightarrow> json \<Rightarrow> relay_db \<times> clients \<Rightarrow>
     (relay_db \<times> clients) \<times> send_reply reply" where
  "send_message env fault now now' now'' sender body st =
     (let (db, cs) = st in
      case envelope_schema (uuid_ok env) body of
        None \<Rightarrow> (st, invalid_request)
      | Some e \<Rightarrow>
          (case run_tx fault internal_error db (send_tx env now now' now'' sender e db) of
             (db', Fail c m) \<Rightarrow> ((db', cs), Fail c m)
           | (db', Done _ ephemeral) \<Rightarrow>
               if ephemeral
               then let (cs', ok) = (if now'' < envelope_expiry now now' e
                      then notify_client (env_mailbox e) (envelope_frame sender e) (Some (256 * 1024)) cs
                      else (cs, False))
                    in ((db', cs'), Done 202 \<lparr>sr_envelope = env_id e, sr_delivered = Some ok\<rparr>)
               else let cs1 = fst (notify_client (env_mailbox e) (envelope_frame sender e) None cs);
                        cs2 = fst (notify_client (env_mailbox e) New_Envelope None cs1)
                    in ((db', cs2), Done 202 \<lparr>sr_envelope = env_id e, sr_delivered = None\<rparr>)))"

section \<open>Reading and acknowledging\<close>

record pending_envelope =
  pe_id :: string
  pe_sender :: string
  pe_mailbox :: string
  pe_ciphertext :: string

definition envelope_of_row :: "message \<Rightarrow> pending_envelope" where
  "envelope_of_row m =
     \<lparr>pe_id = uuid_to_hex (mg_id m), pe_sender = mg_sender m, pe_mailbox = mg_recipient m,
      pe_ciphertext = b64_encode (mg_payload m)\<rparr>"

text \<open>Rows with the same timestamp keep their order in the table.\<close>

definition pending_messages ::
  "bool \<Rightarrow> bool \<Rightarrow> ms \<Rightarrow> string \<Rightarrow> relay_db \<Rightarrow> relay_db \<times> pending_envelope list reply" where
  "pending_messages fault late_fault dbnow d db =
     (if fault then (db, internal_error)
      else let db' = db\<lparr>messages := delete_where (\<lambda>m. mg_expires m < dbnow) (messages db)\<rparr>
           in if late_fault then (db', internal_error)
              else (db', Done 200 (map envelope_of_row
                     (sort_key mg_timestamp
                       (filter (\<lambda>m. mg_recipient m = d \<and> \<not> mg_delivered m) (messages db'))))))"

definition ack_schema :: "(string \<Rightarrow> bool) \<Rightarrow> json \<Rightarrow> string list option" where
  "ack_schema ok j = required ''envelopeIds'' (array_of (string_where (envelope_id_ok ok))) j"

definition ack_messages ::
  "relay_env \<Rightarrow> bool \<Rightarrow> string \<Rightarrow> json \<Rightarrow> relay_db \<Rightarrow> relay_db \<times> unit reply" where
  "ack_messages env fault d body db =
     (case ack_schema (uuid_ok env) body of
        None \<Rightarrow> (db, invalid_request)
      | Some ids \<Rightarrow>
          if fault then (db, internal_error)
          else (db\<lparr>messages := mailbox_ack d (to_lower ` hex_to_uuid ` set ids) (messages db)\<rparr>, Done 204 ()))"

text \<open>The timer of \<open>server.ts\<close>; the second statement does not run when the first fails.\<close>

definition expiry_cleanup :: "bool \<Rightarrow> bool \<Rightarrow> ms \<Rightarrow> ms \<Rightarrow> relay_db \<Rightarrow> relay_db" where
  "expiry_cleanup fault fault' dbnow dbnow' db =
     (if fault then db
      else let db1 = db\<lparr>messages := delete_where (\<lambda>m. mg_expires m \<le> dbnow) (messages db)\<rparr>
           in if fault' then db1
              else db1\<lparr>blind_messages := delete_where (\<lambda>m. bm_expires m \<le> dbnow') (blind_messages db1)\<rparr>)"

section \<open>Lemmas\<close>

lemma mailbox_ok_subset:
  assumes "mailbox_ok db" and "set ms \<subseteq> set (messages db)" and "unique_key mg_id ms"
  shows "mailbox_ok (db\<lparr>messages := ms\<rparr>)"
  using assms by (auto simp: mailbox_ok_def permitted_def subset_iff)

lemma db_ok_delete_messages: "db_ok db \<Longrightarrow> db_ok (db\<lparr>messages := delete_where p (messages db)\<rparr>)"
  by (intro db_ok_messages mailbox_ok_subset)
    (auto simp: set_delete_where unique_key_delete_where db_ok_parts dest!: db_ok_parts(5) simp: mailbox_ok_def)

lemma send_tx_commit:
  assumes "send_tx env now now' now'' sender e db = Inr (db', Commit r)"
  obtains recipient u1 u2 where "pg_uuid env (env_mailbox e) = Some recipient"
    "device_user sender db = Some u1" "device_user recipient db = Some u2" "permitted db u1 u2"
    "r = Done 202 (is_ephemeral e)"
    "db' = (if is_ephemeral e then db
       else db\<lparr>messages := mailbox_put recipient (to_lower (hex_to_uuid (env_id e)))
                       \<lparr>lt_sender = sender, lt_payload = b64_decode (env_ciphertext e),
                        lt_timestamp = now'', lt_expires = envelope_expiry now now' e\<rparr> (messages db)\<rparr>)"
proof -
  from assms obtain recipient where pg: "pg_uuid env (env_mailbox e) = Some recipient"
    by (cases "pg_uuid env (env_mailbox e)") (simp_all add: send_tx_def)
  from assms pg obtain u1 u2 where u: "device_user sender db = Some u1" "device_user recipient db = Some u2"
    by (cases "device_user sender db"; cases "device_user recipient db") (simp_all add: send_tx_def)
  from assms pg u have p: "permitted db u1 u2"
    by (cases "permitted db u1 u2") (simp_all add: send_tx_def)
  show thesis
    by (rule that [OF pg u p]) (use assms pg u p in \<open>simp_all add: send_tx_def split: if_splits\<close>)
qed

lemma mailbox_put_ok:
  assumes "db_ok db" and "device_user (lt_sender l) db = Some u1" and "device_user recipient db = Some u2"
    and "permitted db u1 u2"
  shows "db_ok (db\<lparr>messages := mailbox_put recipient i l (messages db)\<rparr>)"
proof (rule db_ok_messages [OF assms(1)])
  note ok = db_ok_parts(5) [OF assms(1)]
  obtain x y where xy: "x \<in> set (devices db)" "dv_id x = lt_sender l" "dv_user x = u1"
    "y \<in> set (devices db)" "dv_id y = recipient" "dv_user y = u2"
    using device_user_SomeD [OF assms(2)] device_user_SomeD [OF assms(3)] by auto
  let ?r = "letter_row recipient i l"
  have sub: "set (mailbox_put recipient i l (messages db)) \<subseteq> insert ?r (set (messages db))"
    by (auto simp: mailbox_put_def set_insert_ignore)
  have uk: "unique_key mg_id (mailbox_put recipient i l (messages db))"
    using ok by (simp add: mailbox_put_def unique_key_insert_ignore mailbox_ok_def)
  have "\<exists>x \<in> set (devices db). \<exists>y \<in> set (devices db).
      dv_id x = mg_sender m \<and> dv_id y = mg_recipient m \<and> permitted db (dv_user x) (dv_user y)"
    if "m = ?r \<or> m \<in> set (messages db)" for m
    using that
  proof
    assume "m = ?r"
    with xy assms(4) show ?thesis by (intro bexI [of _ x] bexI [of _ y]) (simp_all add: letter_row_def)
  next
    assume "m \<in> set (messages db)"
    with ok show ?thesis by (simp add: mailbox_ok_def)
  qed
  then have "\<forall>m \<in> set (mailbox_put recipient i l (messages db)). \<exists>x \<in> set (devices db). \<exists>y \<in> set (devices db).
      dv_id x = mg_sender m \<and> dv_id y = mg_recipient m \<and> permitted db (dv_user x) (dv_user y)"
    using subsetD [OF sub] by (metis insertE)
  moreover have "permitted (db\<lparr>messages := ms\<rparr>) = permitted db" for ms by (rule permitted_cong) simp
  ultimately show "mailbox_ok (db\<lparr>messages := mailbox_put recipient i l (messages db)\<rparr>)"
    using uk by (simp add: mailbox_ok_def)
qed

lemma send_message_ok:
  assumes "db_ok db"
  shows "db_ok (fst (fst (send_message env fault now now' now'' sender body (db, cs))))"
proof (cases "envelope_schema (uuid_ok env) body")
  case (Some e)
  obtain db1 r1 where run: "run_tx fault internal_error db (send_tx env now now' now'' sender e db) = (db1, r1)"
    by (rule prod.exhaust)
  then have "db_ok db1"
  proof (cases rule: run_tx_cases)
    case committed
    from committed(2) show ?thesis
      by (rule send_tx_commit) (use assms mailbox_put_ok in auto)
  qed (simp add: assms)
  with Some run show ?thesis
    by (simp add: send_message_def Let_def split: reply.splits prod.splits)
qed (simp add: send_message_def assms)

lemma pending_messages_ok: "db_ok db \<Longrightarrow> db_ok (fst (pending_messages fault late dbnow d db))"
  by (simp add: pending_messages_def Let_def db_ok_delete_messages)

lemma ack_messages_ok: "db_ok db \<Longrightarrow> db_ok (fst (ack_messages env fault d body db))"
  by (simp add: ack_messages_def mailbox_ack_def db_ok_delete_messages split: option.splits)

lemma db_ok_delete_blind: "db_ok db \<Longrightarrow> db_ok (db\<lparr>blind_messages := delete_where p (blind_messages db)\<rparr>)"
  by (intro db_ok_blind_messages) (auto simp: db_ok_def blind_ok_def unique_key_delete_where)

lemma expiry_cleanup_ok: "db_ok db \<Longrightarrow> db_ok (expiry_cleanup fault fault' dbnow dbnow' db)"
  using db_ok_delete_messages [of db] db_ok_delete_blind [OF db_ok_delete_messages [of db]]
  by (simp add: expiry_cleanup_def Let_def)

end
