(* ===== verification/Relay_Blind.thy ===== *)
theory Relay_Blind
  imports Relay_Queue
begin

text \<open>
  \<open>apps/relay-server/src/blind-dropbox.ts\<close>: the acknowledgement of a contact exchange, which
  purges the accepted requests of two users once both have acknowledged, and the blind
  dropboxes, whose rows name neither the sender nor the recipient.
\<close>

section \<open>Acknowledging a contact exchange\<close>

text \<open>The two devices are found by exact comparison of the text, the rows by UUID.\<close>

definition exchange_user :: "string \<Rightarrow> string \<Rightarrow> string \<Rightarrow> relay_db \<Rightarrow> string option" where
  "exchange_user wanted d peer db =
     map_option dv_user (List.find (\<lambda>x. dv_id x = wanted)
       (filter (\<lambda>x. (dv_id x = d \<or> dv_id x = to_lower peer) \<and> dv_revoked x = None) (devices db)))"

definition purge_exchange :: "string \<Rightarrow> string \<Rightarrow> relay_db \<Rightarrow> relay_db" where
  "purge_exchange own peer db =
     db\<lparr>connection_requests := delete_where
          (\<lambda>r. cr_status r = R_Accepted \<and>
             (cr_requester r = own \<and> cr_recipient r = peer \<or> cr_requester r = peer \<and> cr_recipient r = own))
          (connection_requests db),
        exchange_acks := delete_where (\<lambda>a. a = (own, peer) \<or> a = (peer, own)) (exchange_acks db)\<rparr>"

text \<open>The committed reply says whether the exchange was purged.\<close>

definition exchange_tx :: "string \<Rightarrow> string \<Rightarrow> relay_db \<Rightarrow> db_error + relay_db \<times> bool reply tx_end" where
  "exchange_tx d peer_device db =
     (case (exchange_user d d peer_device db, exchange_user peer_device d peer_device db) of
        (Some own, Some peer) \<Rightarrow>
          if \<not> permitted db own peer then Inl (Raised ''CONTACT_NOT_APPROVED'')
          else let db1 = db\<lparr>exchange_acks := insert_ignore (\<lambda>a. a) (own, peer) (exchange_acks db)\<rparr>
               in if has_row (\<lambda>a. a = (peer, own)) (exchange_acks db1)
                  then Inr (purge_exchange own peer db1, Commit (Done 200 True))
                  else Inr (db1, Commit (Done 200 False))
      | _ \<Rightarrow> Inl (Raised ''CONTACT_NOT_FOUND''))"

definition exchange_ack :: "relay_env \<Rightarrow> bool \<Rightarrow> string \<Rightarrow> json \<Rightarrow> relay_db \<Rightarrow> relay_db \<times> bool reply" where
  "exchange_ack env fault d body db =
     (case required ''peerDeviceId'' (string_where (uuid_ok env)) body of
        None \<Rightarrow> (db, invalid_request)
      | Some peer \<Rightarrow> run_tx fault internal_error db (exchange_tx d peer db))"

section \<open>Dropboxes\<close>

text \<open>\<open>rnd\<close> is \<open>crypto.randomBytes(32)\<close>.\<close>

definition blind_row :: "relay_env \<Rightarrow> bytes \<Rightarrow> ms \<Rightarrow> string \<Rightarrow> blind_envelope \<Rightarrow> blind_message" where
  "blind_row env rnd dbnow d e =
     \<lparr>bm_id = to_lower (be_id e), bm_dropbox = be_dropbox e, bm_ciphertext = b64_decode (be_ciphertext e),
      bm_sender_hash = hex_encode (sha256 env (rnd @ utf8 d)),
      bm_created = dbnow, bm_expires = dbnow + 30 * 24 * 60 * 60 * 1000\<rparr>"

definition blind_send ::
  "relay_env \<Rightarrow> bool \<Rightarrow> bytes \<Rightarrow> ms \<Rightarrow> string \<Rightarrow> json \<Rightarrow> relay_db \<times> clients \<Rightarrow> (relay_db \<times> clients) \<times> string reply" where
  "blind_send env fault rnd dbnow d body st =
     (let (db, cs) = st in
      case blind_envelope_schema (uuid_ok env) body of
        None \<Rightarrow> (st, invalid_request)
      | Some e \<Rightarrow>
          if fault then (st, internal_error)
          else ((db\<lparr>blind_messages := insert_ignore bm_id (blind_row env rnd dbnow d e) (blind_messages db)\<rparr>,
                 notify_blind_activity cs), Done 202 (be_id e)))"

record blind_access =
  ba_dropboxes :: "string list"
  ba_envelopes :: "string list option"

definition blind_access_schema :: "(string \<Rightarrow> bool) \<Rightarrow> json \<Rightarrow> blind_access option" where
  "blind_access_schema ok j =
     do { ds \<leftarrow> required ''dropboxIds'' (array_len 1 2000 (string_where (is_lower_hex_of 64))) j;
          es \<leftarrow> optional ''envelopeIds'' (array_len 0 256 (string_where ok)) j;
          Some \<lparr>ba_dropboxes = ds, ba_envelopes = es\<rparr> }"

record blind_reply =
  br_id :: string
  br_dropbox :: string
  br_ciphertext :: string

definition blind_reply_of :: "blind_message \<Rightarrow> blind_reply" where
  "blind_reply_of m = \<lparr>br_id = bm_id m, br_dropbox = bm_dropbox m, br_ciphertext = b64_encode (bm_ciphertext m)\<rparr>"

definition blind_fetch :: "relay_env \<Rightarrow> bool \<Rightarrow> ms \<Rightarrow> json \<Rightarrow> relay_db \<Rightarrow> blind_reply list reply" where
  "blind_fetch env fault dbnow body db =
     (case blind_access_schema (uuid_ok env) body of
        None \<Rightarrow> invalid_request
      | Some a \<Rightarrow>
          if fault then internal_error
          else Done 200 (map blind_reply_of (List.take 256 (sort_key bm_created
                 (filter (\<lambda>m. bm_dropbox m \<in> set (ba_dropboxes a) \<and> dbnow < bm_expires m) (blind_messages db))))))"

definition blind_ack :: "relay_env \<Rightarrow> bool \<Rightarrow> json \<Rightarrow> relay_db \<Rightarrow> relay_db \<times> unit reply" where
  "blind_ack env fault body db =
     (case blind_access_schema (uuid_ok env) body of
        None \<Rightarrow> (db, invalid_request)
      | Some a \<Rightarrow>
          if fault then (db, internal_error)
          else let ids = map to_lower (case ba_envelopes a of None \<Rightarrow> [] | Some es \<Rightarrow> es)
               in (db\<lparr>blind_messages := delete_where
                     (\<lambda>m. bm_id m \<in> set ids \<and> bm_dropbox m \<in> set (ba_dropboxes a)) (blind_messages db)\<rparr>,
                   Done 200 ()))"

section \<open>Lemmas\<close>

lemma contacts_ok_delete:
  assumes "contacts_ok db"
  shows "contacts_ok (db\<lparr>connection_requests := delete_where p (connection_requests db)\<rparr>)"
  using assms by (simp add: contacts_ok_def unique_key_delete_where set_delete_where)

lemma blind_ok_acks: "db_ok db \<Longrightarrow> distinct acks \<Longrightarrow> db_ok (db\<lparr>exchange_acks := acks\<rparr>)"
  by (rule db_ok_exchange_acks) (simp_all add: db_ok_def blind_ok_def)

lemma distinct_delete_where: "distinct xs \<Longrightarrow> distinct (delete_where p xs)"
  by (simp add: delete_where_def)

lemma distinct_insert_ignore: "distinct xs \<Longrightarrow> distinct (insert_ignore (\<lambda>a. a) x xs)"
  by (auto simp: insert_ignore_def has_row_iff)

lemma db_ok_acks_distinct: "db_ok db \<Longrightarrow> distinct (exchange_acks db)"
  by (simp add: db_ok_def blind_ok_def)

lemma purge_exchange_ok:
  assumes "db_ok db"
  shows "db_ok (purge_exchange own peer db)"
proof -
  let ?p = "\<lambda>r. cr_status r = R_Accepted \<and>
     (cr_requester r = own \<and> cr_recipient r = peer \<or> cr_requester r = peer \<and> cr_recipient r = own)"
  have "db_ok (db\<lparr>connection_requests := delete_where ?p (connection_requests db)\<rparr>)"
    by (rule db_ok_connection_requests [OF assms contacts_ok_delete]) (rule db_ok_parts(4) [OF assms])
  from blind_ok_acks [OF this distinct_delete_where [OF db_ok_acks_distinct [OF assms]]]
  show ?thesis unfolding purge_exchange_def .
qed

lemma exchange_tx_commit:
  assumes "exchange_tx d p db = Inr (db', Commit r)"
  obtains own peer purged db1 where "exchange_user d d p db = Some own" "exchange_user p d p db = Some peer"
    "permitted db own peer" "r = Done 200 purged"
    "db1 = db\<lparr>exchange_acks := insert_ignore (\<lambda>a. a) (own, peer) (exchange_acks db)\<rparr>"
    "purged \<longleftrightarrow> (peer, own) \<in> set (exchange_acks db1)"
    "db' = (if purged then purge_exchange own peer db1 else db1)"
proof (cases "exchange_user d d p db")
  case None
  with assms show thesis by (simp add: exchange_tx_def)
next
  case (Some own)
  show thesis
  proof (cases "exchange_user p d p db")
    case None
    with assms Some show thesis by (simp add: exchange_tx_def)
  next
    case (Some peer)
    note u = \<open>exchange_user d d p db = Some own\<close> Some
    from assms u have perm: "permitted db own peer" by (cases "permitted db own peer") (simp_all add: exchange_tx_def)
    define db1 where "db1 = db\<lparr>exchange_acks := insert_ignore (\<lambda>a. a) (own, peer) (exchange_acks db)\<rparr>"
    define purged where "purged = has_row (\<lambda>a. a = (peer, own)) (exchange_acks db1)"
    from assms u perm have e: "r = Done 200 purged" "db' = (if purged then purge_exchange own peer db1 else db1)"
      by (simp_all add: exchange_tx_def Let_def db1_def purged_def split: if_splits)
    have "purged \<longleftrightarrow> (peer, own) \<in> set (exchange_acks db1)" by (simp add: purged_def has_row_iff)
    from that [OF u perm e(1) db1_def this e(2)] show thesis .
  qed
qed

lemma exchange_ack_ok:
  assumes "db_ok db"
  shows "db_ok (fst (exchange_ack env fault d body db))"
proof -
  have "db_ok (fst (run_tx fault internal_error db (exchange_tx d p db)))" for p
  proof (rule run_tx_invariant [where P = db_ok, OF assms])
    fix db' r assume "exchange_tx d p db = Inr (db', Commit r)"
    then show "db_ok db'"
    proof (rule exchange_tx_commit)
      fix own peer purged db1
      assume "db1 = db\<lparr>exchange_acks := insert_ignore (\<lambda>a. a) (own, peer) (exchange_acks db)\<rparr>"
        and db': "db' = (if purged then purge_exchange own peer db1 else db1)"
      then have "db_ok db1"
        using blind_ok_acks [OF assms distinct_insert_ignore [OF db_ok_acks_distinct [OF assms]]] by simp
      with purge_exchange_ok [OF this] show "db_ok db'" by (simp add: db')
    qed
  qed
  with assms show ?thesis by (simp add: exchange_ack_def split: option.splits)
qed

lemma blind_send_ok:
  assumes "db_ok db"
  shows "db_ok (fst (fst (blind_send env fault rnd dbnow d body (db, cs))))"
proof -
  have "db_ok (db\<lparr>blind_messages := insert_ignore bm_id m (blind_messages db)\<rparr>)" for m
    using db_ok_parts(8) [OF assms]
    by (intro db_ok_blind_messages [OF assms]) (simp add: blind_ok_def unique_key_insert_ignore)
  with assms show ?thesis by (simp add: blind_send_def split: option.splits)
qed

lemma blind_ack_ok: "db_ok db \<Longrightarrow> db_ok (fst (blind_ack env fault body db))"
  by (simp add: blind_ack_def Let_def db_ok_delete_blind split: option.splits)

end
