(* ===== verification/Relay_Admin.thy ===== *)
theory Relay_Admin
  imports Relay_Access
begin

text \<open>
  The operator's side of the relay: the admin sessions and routes of
  \<open>apps/relay-server/src/server.ts\<close> (cookies, CSRF tokens, connection appeals, the dashboard's
  rows) and the commands of \<open>apps/admin-cli/src/index.ts\<close>, which work on the same database.
\<close>

section \<open>Cookies and escaping\<close>

definition cookie_parts :: "string \<Rightarrow> string list list" where
  "cookie_parts h = map (\<lambda>v. split_on (CHR ''='') (trim v)) (split_on (CHR '';'') h)"

definition cookie :: "string option \<Rightarrow> string \<Rightarrow> string option" where
  "cookie header name =
     (case header of
        None \<Rightarrow> None
      | Some h \<Rightarrow> map_option (\<lambda>p. join_with (CHR ''='') (tl p))
                   (List.find (\<lambda>p. hd p = name) (cookie_parts h)))"

definition apostrophe :: char where "apostrophe = CHR 0x27"

definition escape_html_char :: "char \<Rightarrow> string" where
  "escape_html_char c =
     (if c = CHR ''&'' then ''&amp;''
      else if c = CHR ''<'' then ''&lt;''
      else if c = CHR ''>'' then ''&gt;''
      else if c = apostrophe then ''&#39;''
      else if c = quote_char then ''&quot;''
      else [c])"

definition escape_html :: "string \<Rightarrow> string" where
  "escape_html s = concat (map escape_html_char s)"

section \<open>Sessions\<close>

record admin_session =
  as_csrf :: string
  as_expires :: ms

type_synonym admin_sessions = "(string, admin_session) jsmap"

definition admin_cookie :: string where "admin_cookie = ''crypto_pigeon_admin''"

definition get_admin_session ::
  "ms \<Rightarrow> string option \<Rightarrow> admin_sessions \<Rightarrow> admin_sessions \<times> admin_session option" where
  "get_admin_session now header ss =
     (case cookie header admin_cookie of
        None \<Rightarrow> (ss, None)
      | Some token \<Rightarrow>
          if token = [] then (ss, None)
          else (case map_get ss token of
                  None \<Rightarrow> (map_delete token ss, None)
                | Some s \<Rightarrow> if as_expires s \<le> now then (map_delete token ss, None) else (ss, Some s)))"

text \<open>\<open>csrf_headers\<close> are the values of the \<open>x-csrf-token\<close> header.\<close>

definition require_admin ::
  "ms \<Rightarrow> string \<Rightarrow> string option \<Rightarrow> string list \<Rightarrow> admin_sessions \<Rightarrow> admin_sessions \<times> ((nat \<times> string) + unit)" where
  "require_admin now http_method header csrf_headers ss =
     (case get_admin_session now header ss of
        (ss', None) \<Rightarrow> (ss', Inl (401, ''admin_auth_required''))
      | (ss', Some s) \<Rightarrow>
          if http_method \<notin> set [''GET'', ''HEAD'', ''OPTIONS''] \<and>
             \<not> timing_safe_compare (case csrf_headers of [] \<Rightarrow> [] | h # _ \<Rightarrow> h) (as_csrf s)
          then (ss', Inl (403, ''admin_csrf_invalid''))
          else (ss', Inr ()))"

record login_reply =
  li_session :: string
  li_csrf :: string

definition admin_login ::
  "relay_env \<Rightarrow> ms \<Rightarrow> bytes \<Rightarrow> bytes \<Rightarrow> json \<Rightarrow> admin_sessions \<Rightarrow> admin_sessions \<times> login_reply reply" where
  "admin_login env now rnd1 rnd2 body ss =
     (case do { u \<leftarrow> required ''username'' as_string body; p \<leftarrow> required ''password'' as_string body; Some (u, p) } of
        None \<Rightarrow> (ss, invalid_request)
      | Some (u, p) \<Rightarrow>
          if \<not> (timing_safe_compare u (admin_username env) \<and> timing_safe_compare p (admin_token env))
          then (ss, Fail 401 ''invalid_admin_credentials'')
          else let token = b64url_encode rnd1; csrf = b64url_encode rnd2
               in (map_set token \<lparr>as_csrf = csrf, as_expires = now + 8 * 60 * 60 * 1000\<rparr> ss,
                   Done 200 \<lparr>li_session = token, li_csrf = csrf\<rparr>))"

text \<open>A route behind the guard: \<open>f\<close> runs only when the guard lets the request through.\<close>

definition guarded ::
  "ms \<Rightarrow> string \<Rightarrow> string option \<Rightarrow> string list \<Rightarrow> admin_sessions \<Rightarrow> 's \<Rightarrow> (admin_sessions \<Rightarrow> admin_sessions \<times> 's \<times> 'a reply) \<Rightarrow>
     admin_sessions \<times> 's \<times> 'a reply" where
  "guarded now http_method header csrf ss db f =
     (case require_admin now http_method header csrf ss of
        (ss', Inl (c, e)) \<Rightarrow> (ss', db, Fail c e)
      | (ss', Inr _) \<Rightarrow> f ss')"

definition admin_logout :: "ms \<Rightarrow> string option \<Rightarrow> string list \<Rightarrow> admin_sessions \<Rightarrow> 's \<Rightarrow> admin_sessions \<times> 's \<times> unit reply" where
  "admin_logout now header csrf ss db =
     guarded now ''POST'' header csrf ss db
       (\<lambda>ss'. (case cookie header admin_cookie of
                 Some token \<Rightarrow> if token = [] then ss' else map_delete token ss'
               | None \<Rightarrow> ss', db, Done 204 ()))"

section \<open>Appeals and connections\<close>

record listed_appeal =
  la_id :: string
  la_created :: ms
  la_requester :: string
  la_target :: string

definition list_appeal :: "relay_db \<Rightarrow> appeal \<Rightarrow> listed_appeal option" where
  "list_appeal db a =
     (case (find_user (ap_requester a) db, find_user (ap_target a) db) of
        (Some x, Some y) \<Rightarrow> Some \<lparr>la_id = ap_id a, la_created = ap_created a, la_requester = us_name x, la_target = us_name y\<rparr>
      | _ \<Rightarrow> None)"

definition pending_appeals :: "relay_db \<Rightarrow> listed_appeal list" where
  "pending_appeals db =
     sort_key la_created (List.map_filter (list_appeal db) (filter (\<lambda>a. ap_status a = P_Pending) (appeals db)))"

definition admin_appeals ::
  "bool \<Rightarrow> ms \<Rightarrow> string option \<Rightarrow> admin_sessions \<Rightarrow> relay_db \<Rightarrow> admin_sessions \<times> relay_db \<times> listed_appeal list reply" where
  "admin_appeals fault now header ss db =
     guarded now ''GET'' header [] ss db
       (\<lambda>ss'. (ss', db, if fault then internal_error else Done 200 (pending_appeals db)))"

text \<open>\<open>INSERT INTO approved_connections .. ON CONFLICT DO NOTHING\<close>, with its \<open>CHECK\<close>.\<close>

definition approve_connection :: "string \<Rightarrow> string \<Rightarrow> relay_db \<Rightarrow> db_error + relay_db" where
  "approve_connection u1 u2 db =
     (let (x, y) = (if u1 < u2 then (u1, u2) else (u2, u1)) in
      if \<not> x < y then Inl Check_Violation
      else Inr (db\<lparr>connections := insert_ignore (\<lambda>c. (cn_one c, cn_two c))
             \<lparr>cn_one = x, cn_two = y, cn_active = False, cn_activated = None, cn_cancelled = None\<rparr> (connections db)\<rparr>))"

text \<open>\<open>UPDATE connection_appeals SET status\<close>, with \<open>UNIQUE(requester, target, status)\<close>.\<close>

definition decide_appeal :: "appeal_status \<Rightarrow> ms \<Rightarrow> string \<Rightarrow> relay_db \<Rightarrow> db_error + relay_db" where
  "decide_appeal st dbnow aid db =
     (let aps = update_where (\<lambda>a. ap_id a = aid) (\<lambda>a. a\<lparr>ap_status := st, ap_decided := Some dbnow\<rparr>) (appeals db)
      in if unique_key (\<lambda>a. (ap_requester a, ap_target a, ap_status a)) aps
         then Inr (db\<lparr>appeals := aps\<rparr>) else Inl Unique_Violation)"

definition find_pending_appeal :: "string \<Rightarrow> relay_db \<Rightarrow> appeal option" where
  "find_pending_appeal aid db = List.find (\<lambda>a. ap_id a = aid \<and> ap_status a = P_Pending) (appeals db)"

definition approve_tx :: "ms \<Rightarrow> string \<Rightarrow> relay_db \<Rightarrow> db_error + relay_db \<times> unit reply tx_end" where
  "approve_tx dbnow aid db =
     (case find_pending_appeal aid db of
        None \<Rightarrow> Inr (db, Rollback (Fail 404 ''pending_appeal_not_found''))
      | Some a \<Rightarrow>
          try_then (approve_connection (ap_requester a) (ap_target a) db)
            (\<lambda>db1. try_then (decide_appeal P_Approved dbnow aid db1) (\<lambda>db2. Inr (db2, Commit (Done 200 ())))))"

definition approve_appeal ::
  "relay_env \<Rightarrow> bool \<Rightarrow> ms \<Rightarrow> ms \<Rightarrow> string option \<Rightarrow> string list \<Rightarrow> string \<Rightarrow> admin_sessions \<Rightarrow> relay_db \<Rightarrow>
     admin_sessions \<times> relay_db \<times> unit reply" where
  "approve_appeal env fault now dbnow header csrf aid ss db =
     guarded now ''POST'' header csrf ss db
       (\<lambda>ss'. if \<not> uuid_ok env aid then (ss', db, invalid_request)
              else (ss', run_tx fault internal_error db (approve_tx dbnow (to_lower aid) db)))"

definition reject_appeal ::
  "relay_env \<Rightarrow> bool \<Rightarrow> ms \<Rightarrow> ms \<Rightarrow> string option \<Rightarrow> string list \<Rightarrow> string \<Rightarrow> admin_sessions \<Rightarrow> relay_db \<Rightarrow>
     admin_sessions \<times> relay_db \<times> unit reply" where
  "reject_appeal env fault now dbnow header csrf aid ss db =
     guarded now ''POST'' header csrf ss db
       (\<lambda>ss'. if \<not> uuid_ok env aid then (ss', db, invalid_request)
              else if fault then (ss', db, internal_error)
              else (case find_pending_appeal (to_lower aid) db of
                      None \<Rightarrow> (ss', db, Fail 404 ''pending_appeal_not_found'')
                    | Some a \<Rightarrow>
                        (case decide_appeal P_Rejected dbnow (to_lower aid) db of
                           Inl _ \<Rightarrow> (ss', db, internal_error)
                         | Inr db' \<Rightarrow> (ss', db', Done 200 ()))))"

text \<open>The two ids are put in order as texts, before PostgreSQL reads them as UUIDs.\<close>

definition cancel_connection ::
  "relay_env \<Rightarrow> bool \<Rightarrow> ms \<Rightarrow> ms \<Rightarrow> string option \<Rightarrow> string list \<Rightarrow> string \<Rightarrow> string \<Rightarrow> admin_sessions \<Rightarrow> relay_db \<Rightarrow>
     admin_sessions \<times> relay_db \<times> unit reply" where
  "cancel_connection env fault now dbnow header csrf a b ss db =
     guarded now ''POST'' header csrf ss db
       (\<lambda>ss'. if \<not> (uuid_ok env a \<and> uuid_ok env b) then (ss', db, invalid_request)
              else if fault then (ss', db, internal_error)
              else let (x, y) = (if a < b then (a, b) else (b, a));
                       p = (\<lambda>c. cn_one c = to_lower x \<and> cn_two c = to_lower y \<and> cn_active c)
                   in if has_row p (connections db)
                      then (ss', db\<lparr>connections := update_where p
                              (\<lambda>c. c\<lparr>cn_active := False, cn_cancelled := Some dbnow\<rparr>) (connections db)\<rparr>, Done 200 ())
                      else (ss', db, Fail 404 ''active_connection_not_found''))"

section \<open>The dashboard\<close>

text \<open>\<open>show_time\<close> is \<open>toLocaleString\<close>.\<close>

definition call_button :: "string \<Rightarrow> string list \<Rightarrow> string" where
  "call_button f args =
     ''onclick='' @ [quote_char] @ f @ ''('' @
       join_with (CHR '','') (map (\<lambda>a. [apostrophe] @ a @ [apostrophe]) args) @ '')'' @ [quote_char] @ ''>''"

definition cancel_class :: string where
  "cancel_class = ''class='' @ [quote_char] @ ''cancel'' @ [quote_char]"

definition no_rows :: "string \<Rightarrow> string" where
  "no_rows t = ''<tr><td colspan='' @ [quote_char] @ ''4'' @ [quote_char] @ ''>'' @ t @ ''</td></tr>''"

definition appeal_row :: "(ms \<Rightarrow> string) \<Rightarrow> listed_appeal \<Rightarrow> string" where
  "appeal_row show_time a =
     ''<tr><td>'' @ escape_html (la_requester a) @ ''</td><td>'' @ escape_html (la_target a) @ ''</td><td>'' @
     show_time (la_created a) @ ''</td><td><button '' @ call_button ''decide'' [la_id a, ''approve''] @
     ''Approve</button> <button '' @ cancel_class @ '' '' @ call_button ''decide'' [la_id a, ''reject''] @
     ''Reject</button></td></tr>''"

definition appeal_rows :: "(ms \<Rightarrow> string) \<Rightarrow> relay_db \<Rightarrow> string" where
  "appeal_rows show_time db =
     (let s = concat (map (appeal_row show_time) (pending_appeals db))
      in if s = [] then no_rows ''No pending appeals.'' else s)"

record listed_connection =
  lc_one :: string
  lc_two :: string
  lc_one_name :: string
  lc_two_name :: string
  lc_activated :: "ms option"

definition list_connection :: "relay_db \<Rightarrow> connection \<Rightarrow> listed_connection option" where
  "list_connection db c =
     (case (find_user (cn_one c) db, find_user (cn_two c) db) of
        (Some x, Some y) \<Rightarrow> Some \<lparr>lc_one = cn_one c, lc_two = cn_two c, lc_one_name = us_name x, lc_two_name = us_name y,
                                  lc_activated = cn_activated c\<rparr>
      | _ \<Rightarrow> None)"

text \<open>\<open>ORDER BY activated_at DESC\<close> puts the rows without a time first.\<close>

definition active_connections :: "relay_db \<Rightarrow> listed_connection list" where
  "active_connections db =
     (let cs = List.map_filter (list_connection db)
                 (filter (\<lambda>c. cn_active c \<and> cn_cancelled c = None) (connections db))
      in filter (\<lambda>c. lc_activated c = None) cs @
         sort_key (\<lambda>c. - the (lc_activated c)) (filter (\<lambda>c. lc_activated c \<noteq> None) cs))"

text \<open>\<open>new Date(null)\<close> is the epoch.\<close>

definition connection_row :: "(ms \<Rightarrow> string) \<Rightarrow> listed_connection \<Rightarrow> string" where
  "connection_row show_time c =
     ''<tr><td>'' @ escape_html (lc_one_name c) @ ''</td><td>'' @ escape_html (lc_two_name c) @ ''</td><td>'' @
     show_time (case lc_activated c of None \<Rightarrow> 0 | Some t \<Rightarrow> t) @ ''</td><td><button '' @ cancel_class @ '' '' @
     call_button ''cancelConnection'' [lc_one c, lc_two c] @ ''Cancel connection</button></td></tr>''"

definition connection_rows :: "(ms \<Rightarrow> string) \<Rightarrow> relay_db \<Rightarrow> string" where
  "connection_rows show_time db =
     (let s = concat (map (connection_row show_time) (active_connections db))
      in if s = [] then no_rows ''No active connections.'' else s)"

section \<open>Health\<close>

text \<open>The error handler replies 500 to every error that is not of the schema.\<close>

definition readyz :: "bool \<Rightarrow> bool \<Rightarrow> unit reply" where
  "readyz fault ready =
     (if \<not> ready then Fail 503 ''initializing''
      else if fault then Fail 503 ''database_unavailable'' else Done 200 ())"

section \<open>The command line\<close>

datatype cli_command = Cli_Requests | Cli_Inspect string | Cli_Approve string | Cli_Reject string | Cli_Revoke string

datatype cli_start = Cli_Help | Cli_Usage | Cli_Invalid_Id | Cli_Run cli_command

definition validate_command :: "(string \<Rightarrow> bool) \<Rightarrow> string option \<Rightarrow> string option \<Rightarrow> cli_start" where
  "validate_command ok command argument =
     (let given = (case argument of None \<Rightarrow> False | Some a \<Rightarrow> a \<noteq> []);
          arg = (case argument of None \<Rightarrow> [] | Some a \<Rightarrow> a);
          with_id = (\<lambda>f. if \<not> given then Cli_Usage else if ok arg then Cli_Run (f arg) else Cli_Invalid_Id)
      in case command of
           None \<Rightarrow> Cli_Help
         | Some c \<Rightarrow>
             if c = [] \<or> c = ''--help'' \<or> c = ''-h'' then Cli_Help
             else if c = ''requests'' \<and> \<not> given then Cli_Run Cli_Requests
             else if c = ''inspect'' then with_id Cli_Inspect
             else if c = ''approve'' then with_id Cli_Approve
             else if c = ''reject'' then with_id Cli_Reject
             else if c = ''revoke'' then with_id Cli_Revoke
             else Cli_Usage)"

datatype cli_error = Cli_Not_Found | Cli_Not_Pending | Cli_User_Not_Found | Cli_Database

datatype cli_output = Cli_Rows "access_request list" | Cli_Row access_request
  | Cli_Approved string string ms string | Cli_Rejected string | Cli_Revoked string

definition pending_request :: "string \<Rightarrow> access_request \<Rightarrow> bool" where
  "pending_request rid r \<longleftrightarrow> ar_id r = rid \<and> ar_status r = A_Pending"

text \<open>\<open>rnd\<close> is \<open>crypto.randomBytes(16)\<close>, the activation code that is shown once.\<close>

definition cli_approve ::
  "relay_env \<Rightarrow> ms \<Rightarrow> bytes \<Rightarrow> string \<Rightarrow> relay_db \<Rightarrow> relay_db \<times> (cli_error + cli_output)" where
  "cli_approve env dbnow rnd rid db =
     (let c = b64url_encode rnd in
      case List.find (pending_request rid) (access_requests db) of
        None \<Rightarrow> (db, Inl Cli_Not_Pending)
      | Some r \<Rightarrow>
          (db\<lparr>access_requests := update_where (pending_request rid)
             (\<lambda>x. x\<lparr>ar_status := A_Approved, ar_code_hash := Some (compute_hmac env c),
                   ar_expires := Some (dbnow + 10 * 60 * 1000), ar_attempts := 0, ar_decided := Some dbnow\<rparr>)
             (access_requests db)\<rparr>,
           Inr (Cli_Approved (ar_id r) (ar_name r) (dbnow + 10 * 60 * 1000) c)))"

definition cli_reject :: "ms \<Rightarrow> string \<Rightarrow> relay_db \<Rightarrow> relay_db \<times> (cli_error + cli_output)" where
  "cli_reject dbnow rid db =
     (case List.find (pending_request rid) (access_requests db) of
        None \<Rightarrow> (db, Inl Cli_Not_Pending)
      | Some r \<Rightarrow>
          (db\<lparr>access_requests := update_where (pending_request rid)
             (\<lambda>x. x\<lparr>ar_status := A_Rejected, ar_decided := Some dbnow\<rparr>) (access_requests db)\<rparr>,
           Inr (Cli_Rejected (ar_id r))))"

definition cli_revoke :: "ms \<Rightarrow> string \<Rightarrow> relay_db \<Rightarrow> relay_db \<times> (cli_error + cli_output)" where
  "cli_revoke dbnow u db =
     (case List.find (\<lambda>x. us_id x = u \<and> us_revoked x = None) (users db) of
        None \<Rightarrow> (db, Inl Cli_User_Not_Found)
      | Some x \<Rightarrow>
          (db\<lparr>users := update_where (\<lambda>x. us_id x = u \<and> us_revoked x = None)
             (\<lambda>x. x\<lparr>us_revoked := Some dbnow\<rparr>) (users db)\<rparr>,
           Inr (Cli_Revoked (us_id x))))"

definition run_command ::
  "relay_env \<Rightarrow> bool \<Rightarrow> ms \<Rightarrow> bytes \<Rightarrow> cli_command \<Rightarrow> relay_db \<Rightarrow> relay_db \<times> (cli_error + cli_output)" where
  "run_command env fault dbnow rnd cmd db =
     (if fault then (db, Inl Cli_Database)
      else case cmd of
        Cli_Requests \<Rightarrow>
          (db, Inr (Cli_Rows (sort_key ar_created
                 (filter (\<lambda>r. ar_status r = A_Pending \<or> ar_status r = A_Approved) (access_requests db)))))
      | Cli_Inspect a \<Rightarrow>
          (db, case List.find (\<lambda>r. ar_id r = to_lower a) (access_requests db) of
                 None \<Rightarrow> Inl Cli_Not_Found | Some r \<Rightarrow> Inr (Cli_Row r))
      | Cli_Approve a \<Rightarrow> cli_approve env dbnow rnd (to_lower a) db
      | Cli_Reject a \<Rightarrow> cli_reject dbnow (to_lower a) db
      | Cli_Revoke a \<Rightarrow> cli_revoke dbnow (to_lower a) db)"

section \<open>Lemmas\<close>

lemma require_admin_Inr:
  assumes "require_admin now http_method header csrf ss = (ss', Inr ())"
  obtains token s where "cookie header admin_cookie = Some token" "token \<noteq> []" "map_get ss token = Some s"
    "now < as_expires s" "ss' = ss"
    "http_method \<in> set [''GET'', ''HEAD'', ''OPTIONS''] \<or> (case csrf of [] \<Rightarrow> [] | h # _ \<Rightarrow> h) = as_csrf s"
proof -
  from assms obtain s where g: "get_admin_session now header ss = (ss', Some s)"
    and c: "http_method \<in> set [''GET'', ''HEAD'', ''OPTIONS''] \<or> (case csrf of [] \<Rightarrow> [] | h # _ \<Rightarrow> h) = as_csrf s"
    by (auto simp: require_admin_def split: prod.splits option.splits if_splits)
  from g obtain token where "cookie header admin_cookie = Some token" "token \<noteq> []" "map_get ss token = Some s"
    "now < as_expires s" "ss' = ss"
    by (auto simp: get_admin_session_def split: option.splits if_splits)
  with c that show thesis by blast
qed

lemma guarded_db:
  assumes "P db" and "\<And>ss'. P (fst (snd (f ss')))"
  shows "P (fst (snd (guarded now http_method header csrf ss db f)))"
  using assms by (auto simp: guarded_def split: prod.splits sum.splits)

text \<open>A request that changes the database passed the guard.\<close>

lemma guarded_change:
  assumes "guarded now http_method header csrf ss db f = (ss', db', r)" and "db' \<noteq> db"
  shows "require_admin now http_method header csrf ss = (ss, Inr ())" and "f ss = (ss', db', r)"
proof -
  obtain ss1 g where g: "require_admin now http_method header csrf ss = (ss1, g)" by (rule prod.exhaust)
  with assms have gr: "g = Inr ()" by (auto simp: guarded_def split: sum.splits)
  with g have "ss1 = ss" using require_admin_Inr by metis
  with g gr assms show "require_admin now http_method header csrf ss = (ss, Inr ())" "f ss = (ss', db', r)"
    by (simp_all add: guarded_def)
qed

lemma approve_connection_ok:
  assumes "db_ok db" and "approve_connection a b db = Inr db'"
  shows "db_ok db'"
proof -
  obtain x y where xy: "(if a < b then (a, b) else (b, a)) = (x, y)" by (rule prod.exhaust)
  from assms(2) xy have lt: "x < y" and db': "db' = db\<lparr>connections := insert_ignore (\<lambda>c. (cn_one c, cn_two c))
       \<lparr>cn_one = x, cn_two = y, cn_active = False, cn_activated = None, cn_cancelled = None\<rparr> (connections db)\<rparr>"
    by (simp_all add: approve_connection_def split: if_splits)
  show ?thesis unfolding db'
    by (rule db_ok_connections [OF assms(1)])
      (use db_ok_parts(9) [OF assms(1)] lt in \<open>simp add: appeals_ok_def unique_key_insert_ignore set_insert_ignore\<close>)
qed

lemma decide_appeal_ok:
  assumes "db_ok db" and "decide_appeal st dbnow aid db = Inr db'"
  shows "db_ok db'"
proof -
  let ?aps = "update_where (\<lambda>a. ap_id a = aid) (\<lambda>a. a\<lparr>ap_status := st, ap_decided := Some dbnow\<rparr>) (appeals db)"
  from assms(2) have u: "unique_key (\<lambda>a. (ap_requester a, ap_target a, ap_status a)) ?aps"
    and db': "db' = db\<lparr>appeals := ?aps\<rparr>" by (simp_all add: decide_appeal_def Let_def split: if_splits)
  note ok = db_ok_parts(9) [OF assms(1)]
  have k: "unique_key ap_id ?aps" using ok by (simp add: appeals_ok_def unique_key_update_where)
  have "\<forall>a \<in> set ?aps. {ap_requester a, ap_target a} \<subseteq> user_ids db"
    using ok by (intro update_where_all) (simp_all add: appeals_ok_def)
  with ok u k show ?thesis unfolding db' by (intro db_ok_appeals [OF assms(1)]) (simp add: appeals_ok_def)
qed

lemma approve_tx_commit:
  assumes "approve_tx dbnow aid db = Inr (db', Commit r)"
  obtains a db1 where "find_pending_appeal aid db = Some a" "r = Done 200 ()"
    "approve_connection (ap_requester a) (ap_target a) db = Inr db1" "decide_appeal P_Approved dbnow aid db1 = Inr db'"
  using assms by (cases "find_pending_appeal aid db") (auto simp: approve_tx_def try_then_Inr_iff)

lemma approve_appeal_ok:
  assumes "db_ok db"
  shows "db_ok (fst (snd (approve_appeal env fault now dbnow header csrf aid ss db)))"
proof -
  have "db_ok (fst (run_tx fault internal_error db (approve_tx dbnow i db)))" for i
    by (rule run_tx_invariant [where P = db_ok, OF assms])
      (erule approve_tx_commit, metis assms approve_connection_ok decide_appeal_ok)
  then show ?thesis unfolding approve_appeal_def by (intro guarded_db [where P = db_ok] assms) (simp add: assms)
qed

lemma reject_appeal_ok:
  assumes "db_ok db"
  shows "db_ok (fst (snd (reject_appeal env fault now dbnow header csrf aid ss db)))"
  unfolding reject_appeal_def
  by (intro guarded_db [where P = db_ok] assms)
    (use assms decide_appeal_ok [OF assms] in \<open>simp split: option.split sum.split\<close>)

lemma cancel_connection_ok:
  assumes "db_ok db"
  shows "db_ok (fst (snd (cancel_connection env fault now dbnow header csrf a b ss db)))"
proof -
  have "db_ok (db\<lparr>connections := update_where p (\<lambda>c. c\<lparr>cn_active := False, cn_cancelled := Some dbnow\<rparr>) (connections db)\<rparr>)" for p
  proof (rule db_ok_connections [OF assms])
    have "\<forall>c \<in> set (update_where p (\<lambda>c. c\<lparr>cn_active := False, cn_cancelled := Some dbnow\<rparr>) (connections db)). cn_one c < cn_two c"
      using db_ok_parts(9) [OF assms] by (intro update_where_all) (simp_all add: appeals_ok_def)
    then show "appeals_ok (db\<lparr>connections := update_where p (\<lambda>c. c\<lparr>cn_active := False, cn_cancelled := Some dbnow\<rparr>) (connections db)\<rparr>)"
      using db_ok_parts(9) [OF assms] by (simp add: appeals_ok_def unique_key_update_where)
  qed
  with assms show ?thesis unfolding cancel_connection_def
    by (intro guarded_db [where P = db_ok] assms) (simp add: Let_def split: prod.split)
qed

lemma access_requests_update_ok:
  assumes "db_ok db" and "\<And>x. ar_id (f x) = ar_id x" and "\<And>x. ar_name (f x) = ar_name x"
    and "\<And>x. ar_attempts (f x) = 0 \<or> ar_attempts (f x) = ar_attempts x" and "\<And>x. ar_status (f x) \<noteq> A_Activated"
  shows "db_ok (db\<lparr>access_requests := update_where (pending_request rid) f (access_requests db)\<rparr>)"
proof (rule db_ok_access_requests [OF assms(1)])
  let ?rs = "update_where (pending_request rid) f (access_requests db)"
  note ok = db_ok_parts(2) [OF assms(1)]
  have "unique_key ar_id ?rs" "unique_key ar_name ?rs"
    using ok assms(2,3) by (simp_all add: access_ok_def unique_key_update_where)
  moreover have "\<forall>r \<in> set ?rs. 0 \<le> ar_attempts r \<and> ar_attempts r \<le> 5"
  proof (rule update_where_all)
    fix x assume "x \<in> set (access_requests db)"
    with ok have x: "0 \<le> ar_attempts x" "ar_attempts x \<le> 5" by (simp_all add: access_ok_def)
    then show "0 \<le> ar_attempts (f x) \<and> ar_attempts (f x) \<le> 5" using assms(4) [of x] by auto
    show "0 \<le> ar_attempts x \<and> ar_attempts x \<le> 5" using x by simp
  qed
  moreover have "{r \<in> set ?rs. ar_status r = A_Activated} = {r \<in> set (access_requests db). ar_status r = A_Activated}"
    using assms(5) by (auto simp: set_update_where pending_request_def)
  ultimately show "access_ok (db\<lparr>access_requests := ?rs\<rparr>)" using ok by (simp add: access_ok_def)
qed

lemma image_update_where:
  assumes "\<And>x. g (f x) = g x"
  shows "g ` set (update_where p f rs) = g ` set rs"
  by (induction rs) (simp_all add: update_where_def assms)

lemma users_revoke_ok:
  assumes "db_ok db"
  shows "db_ok (db\<lparr>users := update_where p (\<lambda>x. x\<lparr>us_revoked := Some t\<rparr>) (users db)\<rparr>)"
proof -
  let ?us = "update_where p (\<lambda>x. x\<lparr>us_revoked := Some t\<rparr>) (users db)"
  have ids: "us_id ` set ?us = us_id ` set (users db)" "us_name ` set ?us = us_name ` set (users db)"
    by (simp_all add: image_update_where)
  have keys: "unique_key us_id ?us" "unique_key us_name ?us"
    using db_ok_parts(1) [OF assms] by (simp_all add: accounts_ok_def unique_key_update_where)
  have src: "\<exists>x' \<in> set (users db). us_id x' = us_id x \<and> us_uid x' = us_uid x" if x: "x \<in> set ?us" for x
  proof -
    have "(us_id x, us_uid x) \<in> (\<lambda>x. (us_id x, us_uid x)) ` set ?us" using x by blast
    also have "\<dots> = (\<lambda>x. (us_id x, us_uid x)) ` set (users db)" by (rule image_update_where) simp
    finally show ?thesis by auto
  qed
  have uid: "x = y" if "x \<in> set ?us" "y \<in> set ?us" "us_uid x = us_uid y" "us_uid x \<noteq> None" for x y
  proof -
    from src [OF that(1)] src [OF that(2)] obtain x' y' where xy: "x' \<in> set (users db)" "us_id x' = us_id x"
      "us_uid x' = us_uid x" "y' \<in> set (users db)" "us_id y' = us_id y" "us_uid y' = us_uid y" by blast
    have "x' = y'" using db_ok_parts(1) [OF assms] xy that(3,4) unfolding accounts_ok_def by (metis (no_types))
    with xy(2,5) have "us_id x = us_id y" by simp
    with keys(1) that(1,2) show ?thesis by (rule unique_keyD)
  qed
  then have "accounts_ok (db\<lparr>users := ?us\<rparr>)"
    using db_ok_parts(1) [OF assms] keys unfolding accounts_ok_def by (simp add: ids)
  moreover have "access_ok (db\<lparr>users := ?us\<rparr>)" "contacts_ok (db\<lparr>users := ?us\<rparr>)" "appeals_ok (db\<lparr>users := ?us\<rparr>)"
    using db_ok_parts [OF assms] unfolding access_ok_def contacts_ok_def appeals_ok_def by (simp_all add: ids)
  moreover have "permitted (db\<lparr>users := ?us\<rparr>) = permitted db" by (rule permitted_cong) simp
  ultimately show ?thesis using assms
    by (simp add: db_ok_def prekeys_ok_def mailbox_ok_def blobs_ok_def vaults_ok_def blind_ok_def)
qed

lemma run_command_ok:
  assumes "db_ok db"
  shows "db_ok (fst (run_command env fault dbnow rnd cmd db))"
proof (cases cmd)
  case (Cli_Approve a)
  have "db_ok (fst (cli_approve env dbnow rnd i db))" for i
    using assms access_requests_update_ok [OF assms] by (simp add: cli_approve_def Let_def split: option.splits)
  with Cli_Approve assms show ?thesis by (simp add: run_command_def)
next
  case (Cli_Reject a)
  have "db_ok (fst (cli_reject dbnow i db))" for i
    using assms access_requests_update_ok [OF assms] by (simp add: cli_reject_def split: option.splits)
  with Cli_Reject assms show ?thesis by (simp add: run_command_def)
next
  case (Cli_Revoke a)
  have "db_ok (fst (cli_revoke dbnow i db))" for i
    using assms users_revoke_ok [OF assms] by (simp add: cli_revoke_def split: option.splits)
  with Cli_Revoke assms show ?thesis by (simp add: run_command_def)
qed (simp_all add: run_command_def assms)

text \<open>The escaped text has none of the characters that end a text node or an attribute.\<close>

lemma quote_char_eq: "quote_char = CHR 0x22"
  by code_simp

lemma escape_html_safe:
  "set (escape_html s) \<inter> {CHR ''<'', CHR ''>'', apostrophe, quote_char} = {}"
proof -
  have "set (escape_html_char c) \<inter> {CHR ''<'', CHR ''>'', apostrophe, quote_char} = {}" for c
    by (simp add: escape_html_char_def apostrophe_def quote_char_eq)
  then show ?thesis by (induction s) (auto simp: escape_html_def)
qed

end
