(* ===== verification/Relay_System.thy ===== *)
theory Relay_System
  imports Relay_Prekeys Relay_Conversations Relay_Attachments Relay_Backup Relay_Signaling Relay_Blind Relay_Admin
begin

text \<open>
  The relay as a whole: the routes that \<open>server.ts\<close> mounts, the authentication in front of
  them, the operator's commands on the same database, the socket events and the timer, as one
  function from an event and a state to the next state. The lemmas say which events can touch
  the queued messages and the conversation permissions.
\<close>

section \<open>State and events\<close>

record relay =
  rl_db :: relay_db
  rl_challenges :: challenges
  rl_clients :: clients
  rl_budget :: budget
  rl_admins :: admin_sessions

text \<open>Requests behind \<open>authMiddleware\<close> that change the state, with the values their handlers draw.\<close>

datatype device_request =
    Rq_Signed ms json
  | Rq_One_Time ms json
  | Rq_Pq_One_Time ms json
  | Rq_Bundle bool "nat \<times> nat \<times> nat \<times> nat" ms json
  | Rq_Send ms ms ms json
  | Rq_Pending bool ms
  | Rq_Ack json
  | Rq_Contact ms string json
  | Rq_Accept ms string
  | Rq_Reject ms string
  | Rq_Announce json
  | Rq_Chunk string json
  | Rq_Delete_Blob string
  | Rq_Exchange json
  | Rq_Blind_Send bytes ms json
  | Rq_Blind_Ack json
  | Rq_Signal ms ms ms json

type_synonym device_state = "relay_db \<times> clients \<times> budget"

definition run_request :: "relay_env \<Rightarrow> bool \<Rightarrow> string \<Rightarrow> device_request \<Rightarrow> device_state \<Rightarrow> device_state" where
  "run_request env fault d q s =
     (let (db, cs, b) = s in
      case q of
        Rq_Signed now body \<Rightarrow> (fst (upload_signed env fault now d body db), cs, b)
      | Rq_One_Time now body \<Rightarrow> (fst (upload_one_time fault now d body db), cs, b)
      | Rq_Pq_One_Time now body \<Rightarrow> (fst (upload_pq_one_time fault now d body db), cs, b)
      | Rq_Bundle late ties now body \<Rightarrow>
          (let (db', cs') = fst (fetch_bundle env fault late ties now d body (db, cs)) in (db', cs', b))
      | Rq_Send now now' now'' body \<Rightarrow>
          (let (db', cs') = fst (send_message env fault now now' now'' d body (db, cs)) in (db', cs', b))
      | Rq_Pending late now \<Rightarrow> (fst (pending_messages fault late now d db), cs, b)
      | Rq_Ack body \<Rightarrow> (fst (ack_messages env fault d body db), cs, b)
      | Rq_Contact now rid body \<Rightarrow> (fst (create_request fault now rid d body db), cs, b)
      | Rq_Accept now rid \<Rightarrow> (fst (accept_request env fault now d rid db), cs, b)
      | Rq_Reject now rid \<Rightarrow> (fst (reject_request env fault now d rid db), cs, b)
      | Rq_Announce body \<Rightarrow> (fst (announce_blob env fault d body db), cs, b)
      | Rq_Chunk blob body \<Rightarrow> (fst (upload_chunk env fault d blob body db), cs, b)
      | Rq_Delete_Blob blob \<Rightarrow> (fst (delete_blob env fault blob db), cs, b)
      | Rq_Exchange body \<Rightarrow> (fst (exchange_ack env fault d body db), cs, b)
      | Rq_Blind_Send rnd now body \<Rightarrow>
          (let (db', cs') = fst (blind_send env fault rnd now d body (db, cs)) in (db', cs', b))
      | Rq_Blind_Ack body \<Rightarrow> (fst (blind_ack env fault body db), cs, b)
      | Rq_Signal r1 r2 r3 body \<Rightarrow>
          (let (b', cs') = fst (post_signal env fault r1 r2 r3 d body db (b, cs)) in (db, cs', b')))"

datatype relay_event =
    Ev_Apply bool ms ms string bytes json
  | Ev_Activate bool ms ms ms string bytes json
  | Ev_Challenge bool ms bytes json
  | Ev_Respond bool ms ms bytes json
  | Ev_Device bool bool ms "string option" "string option" device_request
  | Ev_Put_Backup bool "string option" "string option" json
  | Ev_Delete_Backup bool string json
  | Ev_Prekey_Cleanup bool "string \<Rightarrow> nat" ms "string option"
  | Ev_Login ms bytes bytes json
  | Ev_Logout ms "string option" "string list"
  | Ev_Approve bool ms ms "string option" "string list" string
  | Ev_Reject_Appeal bool ms ms "string option" "string list" string
  | Ev_Cancel bool ms ms "string option" "string list" string string
  | Ev_Operator bool ms bytes cli_command
  | Ev_Expire bool bool ms ms
  | Ev_Connect bool ms string "string option" "string option" "string option" nat
  | Ev_Close string nat
  | Ev_Ws_Signal bool bool bool ms ms ms string json

text \<open>A fresh socket is open with an empty buffer.\<close>

definition new_socket :: "nat \<Rightarrow> socket" where
  "new_socket i = \<lparr>so_id = i, so_open = True, so_buffered = 0, so_fails = False, so_sent = []\<rparr>"

text \<open>An activation whose search for a public UID does not end leaves the state as it is.\<close>

definition relay_handle :: "relay_env \<Rightarrow> relay_event \<Rightarrow> relay \<Rightarrow> relay" where
  "relay_handle env ev s =
     (case ev of
        Ev_Apply fault now dbnow rid rnd body \<Rightarrow>
          s\<lparr>rl_db := fst (access_apply env fault now dbnow rid rnd body (rl_db s))\<rparr>
      | Ev_Activate fault now now' dbnow u rnd body \<Rightarrow>
          (case access_activate env fault now now' dbnow u rnd body (rl_db s) of
             None \<Rightarrow> s | Some (db, _) \<Rightarrow> s\<lparr>rl_db := db\<rparr>)
      | Ev_Challenge fault now rnd body \<Rightarrow>
          s\<lparr>rl_challenges := fst (request_challenge env fault now rnd body (rl_db s) (rl_challenges s))\<rparr>
      | Ev_Respond fault now now' rnd body \<Rightarrow>
          (let (db, cs) = fst (respond env fault now now' rnd body (rl_db s) (rl_challenges s))
           in s\<lparr>rl_db := db, rl_challenges := cs\<rparr>)
      | Ev_Device fault0 fault now header inst q \<Rightarrow>
          (case auth_middleware env fault0 now header inst (rl_db s) of
             Inl _ \<Rightarrow> s
           | Inr d \<Rightarrow>
               (let (db, cs, b) = run_request env fault d q (rl_db s, rl_clients s, rl_budget s)
                in s\<lparr>rl_db := db, rl_clients := cs, rl_budget := b\<rparr>))
      | Ev_Put_Backup fault token digest body \<Rightarrow>
          s\<lparr>rl_db := fst (put_backup env fault token digest body (rl_db s))\<rparr>
      | Ev_Delete_Backup fault token body \<Rightarrow>
          s\<lparr>rl_db := fst (delete_backup env fault token body (rl_db s))\<rparr>
      | Ev_Prekey_Cleanup fault tie dbnow header \<Rightarrow>
          s\<lparr>rl_db := fst (prekey_cleanup env fault tie dbnow header (rl_db s))\<rparr>
      | Ev_Login now rnd1 rnd2 body \<Rightarrow> s\<lparr>rl_admins := fst (admin_login env now rnd1 rnd2 body (rl_admins s))\<rparr>
      | Ev_Logout now header csrf \<Rightarrow> s\<lparr>rl_admins := fst (admin_logout now header csrf (rl_admins s) ())\<rparr>
      | Ev_Approve fault now dbnow header csrf aid \<Rightarrow>
          (let (ss, db, _) = approve_appeal env fault now dbnow header csrf aid (rl_admins s) (rl_db s)
           in s\<lparr>rl_db := db, rl_admins := ss\<rparr>)
      | Ev_Reject_Appeal fault now dbnow header csrf aid \<Rightarrow>
          (let (ss, db, _) = reject_appeal env fault now dbnow header csrf aid (rl_admins s) (rl_db s)
           in s\<lparr>rl_db := db, rl_admins := ss\<rparr>)
      | Ev_Cancel fault now dbnow header csrf a b \<Rightarrow>
          (let (ss, db, _) = cancel_connection env fault now dbnow header csrf a b (rl_admins s) (rl_db s)
           in s\<lparr>rl_db := db, rl_admins := ss\<rparr>)
      | Ev_Operator fault dbnow rnd cmd \<Rightarrow> s\<lparr>rl_db := fst (run_command env fault dbnow rnd cmd (rl_db s))\<rparr>
      | Ev_Expire fault fault' dbnow dbnow' \<Rightarrow> s\<lparr>rl_db := expiry_cleanup fault fault' dbnow dbnow' (rl_db s)\<rparr>
      | Ev_Connect fault now target header query inst i \<Rightarrow>
          (case upgrade_device env fault now target header query inst (rl_db s) of
             None \<Rightarrow> s
           | Some d \<Rightarrow> s\<lparr>rl_clients := fst (register_socket d (new_socket i) (rl_clients s))\<rparr>)
      | Ev_Close d i \<Rightarrow> s\<lparr>rl_clients := socket_closed d i (rl_clients s)\<rparr>
      | Ev_Ws_Signal fault a1 a2 r1 r2 r3 d body \<Rightarrow>
          (let (b, cs) = fst (forward_signal env fault a1 a2 r1 r2 r3 d body (rl_db s) (rl_budget s, rl_clients s))
           in s\<lparr>rl_clients := cs, rl_budget := b\<rparr>))"

definition relay_init :: "relay \<Rightarrow> bool" where
  "relay_init s \<longleftrightarrow> db_ok (rl_db s) \<and> rl_challenges s = [] \<and> rl_clients s = [] \<and> rl_budget s = [] \<and> rl_admins s = []"

inductive relay_reachable :: "relay_env \<Rightarrow> relay \<Rightarrow> bool" for env where
  reach_start: "relay_init s \<Longrightarrow> relay_reachable env s"
| reach_event: "relay_reachable env s \<Longrightarrow> relay_reachable env (relay_handle env ev s)"

definition relay_ok :: "relay \<Rightarrow> bool" where
  "relay_ok s \<longleftrightarrow> db_ok (rl_db s) \<and> budget_ok (rl_budget s) \<and> distinct (map fst (rl_clients s))"

section \<open>The invariant\<close>

lemma distinct_notify: "distinct (map fst cs) \<Longrightarrow> distinct (map fst (fst (notify_client d f m cs)))"
  by (auto simp: notify_client_def distinct_map_set split: option.splits)

lemma distinct_notify_all: "distinct (map fst cs) \<Longrightarrow> distinct (map fst (notify_blind_activity cs))"
proof -
  have "distinct (map fst cs) \<Longrightarrow>
      distinct (map fst (fold (\<lambda>d cs. fst (notify_client d f m cs)) ds cs))" for ds cs f m
    by (induction ds arbitrary: cs) (simp_all add: distinct_notify)
  then show "distinct (map fst cs) \<Longrightarrow> distinct (map fst (notify_blind_activity cs))"
    by (simp add: notify_blind_activity_def)
qed

lemma forward_signal_ok:
  assumes "budget_ok b" and "distinct (map fst cs)"
    and "forward_signal env fault a1 a2 r1 r2 r3 d body db (b, cs) = ((b', cs'), r)"
  shows "budget_ok b' \<and> distinct (map fst cs')"
proof -
  have bt: "budget_ok (fst (budget_take x y n b))" for x y n
    using budget_take_ok [OF assms(1)] by (metis prod.collapse)
  have "budget_ok (fst (fst (forward_signal env fault a1 a2 r1 r2 r3 d body db (b, cs)))) \<and>
      distinct (map fst (snd (fst (forward_signal env fault a1 a2 r1 r2 r3 d body db (b, cs)))))"
    using assms(1,2) bt
    by (simp add: forward_signal_def Let_def case_prod_beta distinct_notify split: option.split)
  with assms(3) show ?thesis by simp
qed

lemma post_signal_state:
  "fst (post_signal env fault r1 r2 r3 d body db st) = fst (forward_signal env fault True True r1 r2 r3 d body db st)"
  by (simp add: post_signal_def split: prod.split sum.split signal_error.split)

lemma send_clients: "distinct (map fst cs) \<Longrightarrow>
    distinct (map fst (snd (fst (send_message env fault n1 n2 n3 d body (db, cs)))))"
  by (simp add: send_message_def Let_def case_prod_beta distinct_notify split: option.split reply.split)

lemma bundle_clients: "distinct (map fst cs) \<Longrightarrow>
    distinct (map fst (snd (fst (fetch_bundle env fault late ties n d body (db, cs)))))"
  by (simp add: fetch_bundle_def Let_def case_prod_beta distinct_notify split: option.split reply.split)

lemma blind_clients: "distinct (map fst cs) \<Longrightarrow>
    distinct (map fst (snd (fst (blind_send env fault rnd n d body (db, cs)))))"
  by (simp add: blind_send_def distinct_notify_all split: option.split)

definition device_state_ok :: "device_state \<Rightarrow> bool" where
  "device_state_ok s = (case s of (db, cs, b) \<Rightarrow> db_ok db \<and> budget_ok b \<and> distinct (map fst cs))"

lemma run_request_ok:
  assumes "device_state_ok (db, cs, b)"
  shows "device_state_ok (run_request env fault d q (db, cs, b))"
proof -
  have ok: "db_ok db" "budget_ok b" "distinct (map fst cs)" using assms by (simp_all add: device_state_ok_def)
  note dbs = upload_signed_ok upload_one_time_ok upload_pq_one_time_ok pending_messages_ok ack_messages_ok
    create_request_ok accept_request_ok reject_request_ok announce_blob_ok upload_chunk_ok delete_blob_ok
    exchange_ack_ok blind_ack_ok
  show ?thesis
  proof (cases q)
    case (Rq_Bundle late ties now body)
    then show ?thesis using ok fetch_bundle_ok [OF ok(1)] bundle_clients [OF ok(3)]
      by (simp add: run_request_def device_state_ok_def case_prod_beta)
  next
    case (Rq_Send n1 n2 n3 body)
    then show ?thesis using ok send_message_ok [OF ok(1)] send_clients [OF ok(3)]
      by (simp add: run_request_def device_state_ok_def case_prod_beta)
  next
    case (Rq_Blind_Send rnd n body)
    then show ?thesis using ok blind_send_ok [OF ok(1)] blind_clients [OF ok(3)]
      by (simp add: run_request_def device_state_ok_def case_prod_beta)
  next
    case (Rq_Signal r1 r2 r3 body)
    obtain b' cs' r where f: "forward_signal env fault True True r1 r2 r3 d body db (b, cs) = ((b', cs'), r)"
      by (metis prod.collapse)
    with Rq_Signal ok(1) forward_signal_ok [OF ok(2,3) f] show ?thesis
      by (simp add: run_request_def device_state_ok_def post_signal_state)
  qed (simp_all add: run_request_def device_state_ok_def ok dbs)
qed

lemma relay_handle_ok:
  assumes "relay_ok s"
  shows "relay_ok (relay_handle env ev s)"
proof -
  have ok: "db_ok (rl_db s)" "budget_ok (rl_budget s)" "distinct (map fst (rl_clients s))"
    using assms by (simp_all add: relay_ok_def)
  have db: "relay_ok (s\<lparr>rl_db := x\<rparr>)" if "db_ok x" for x using ok that by (simp add: relay_ok_def)
  have dba: "relay_ok (s\<lparr>rl_db := x, rl_admins := y\<rparr>)" if "db_ok x" for x y using ok that by (simp add: relay_ok_def)
  show ?thesis
  proof (cases ev)
    case (Ev_Apply f n m rid rnd body)
    have "db_ok (fst (access_apply env f n m rid rnd body (rl_db s)))"
      by (rule access_apply_ok [OF ok(1)]) (rule prod.collapse [symmetric])
    with Ev_Apply show ?thesis by (simp add: relay_handle_def db)
  next
    case (Ev_Activate f n1 n2 n3 u rnd body)
    then show ?thesis
      using assms activate_ok [OF _ ok(1)] db by (simp add: relay_handle_def split: option.split prod.split)
  next
    case (Ev_Respond f n1 n2 rnd body)
    have "db_ok (fst (fst (respond env f n1 n2 rnd body (rl_db s) (rl_challenges s))))"
      using respond_ok [OF _ ok(1)] by (metis prod.collapse)
    with Ev_Respond ok show ?thesis by (simp add: relay_handle_def relay_ok_def case_prod_beta)
  next
    case (Ev_Device f0 f n h i q)
    have "device_state_ok (rl_db s, rl_clients s, rl_budget s)" using ok by (simp add: device_state_ok_def)
    from run_request_ok [OF this] Ev_Device assms show ?thesis
      by (simp add: relay_handle_def relay_ok_def device_state_ok_def case_prod_beta split: sum.split)
  next
    case (Ev_Approve f n m h c a)
    with approve_appeal_ok [OF ok(1)] show ?thesis by (simp add: relay_handle_def case_prod_beta dba)
  next
    case (Ev_Reject_Appeal f n m h c a)
    with reject_appeal_ok [OF ok(1)] show ?thesis by (simp add: relay_handle_def case_prod_beta dba)
  next
    case (Ev_Cancel f n m h c a b)
    with cancel_connection_ok [OF ok(1)] show ?thesis by (simp add: relay_handle_def case_prod_beta dba)
  next
    case (Ev_Connect f n t h q i j)
    with ok show ?thesis
      by (simp add: relay_handle_def relay_ok_def register_socket_def distinct_map_set split: option.split)
  next
    case (Ev_Close d i)
    with ok show ?thesis
      by (simp add: relay_handle_def relay_ok_def socket_closed_def map_delete_def distinct_map_filter split: option.split)
  next
    case (Ev_Ws_Signal f a1 a2 r1 r2 r3 d body)
    obtain b' cs' r where "forward_signal env f a1 a2 r1 r2 r3 d body (rl_db s) (rl_budget s, rl_clients s) = ((b', cs'), r)"
      by (metis prod.collapse)
    with Ev_Ws_Signal ok(1) forward_signal_ok [OF ok(2,3)] show ?thesis by (simp add: relay_handle_def relay_ok_def)
  qed (simp_all add: relay_handle_def db ok put_backup_ok delete_backup_ok prekey_cleanup_ok run_command_ok
      expiry_cleanup_ok, simp_all add: relay_ok_def ok)
qed

section \<open>Which events touch messages and permissions\<close>

definition talk :: "relay_db \<Rightarrow> message list \<times> permission list" where
  "talk db = (messages db, permissions db)"

named_theorems talk_frame \<open>routes that leave messages and permissions alone\<close>

lemma run_tx_talk:
  assumes "\<And>db' r. body = Inr (db', Commit r) \<Longrightarrow> talk db' = talk db"
  shows "talk (fst (run_tx fault err db body)) = talk db"
  using run_tx_invariant [of "\<lambda>x. talk x = talk db" db body fault err] assms by simp

lemma try_fold_talk:
  assumes "try_fold f xs db = Inr db'" and "\<And>x s s'. f x s = Inr s' \<Longrightarrow> talk s' = talk s"
  shows "talk db' = talk db"
  using try_fold_invariant [of f xs db db' "\<lambda>s. talk s = talk db"] assms by metis

lemma talk_upserts:
  "upsert_signed d n k db = Inr db' \<Longrightarrow> talk db' = talk db"
  "track_key_version d fp db = Inr db' \<Longrightarrow> talk db' = talk db"
  "upsert_otp d n k' db = Inr db' \<Longrightarrow> talk db' = talk db"
  "upsert_pq d n lr k db = Inr db' \<Longrightarrow> talk db' = talk db"
  by (auto simp: upsert_signed_def track_key_version_def upsert_otp_def upsert_pq_def talk_def Let_def split: if_splits)

lemma talk_upload_signed [talk_frame]: "talk (fst (upload_signed env fault n d body db)) = talk db"
  by (auto simp: upload_signed_def try_then_Inr_iff talk_upserts intro!: run_tx_talk split: option.split)

lemma talk_upload_one_time [talk_frame]: "talk (fst (upload_one_time fault n d body db)) = talk db"
  by (auto simp: upload_one_time_def try_then_Inr_iff intro!: run_tx_talk split: option.split)
    (erule try_fold_talk, erule talk_upserts)

lemma talk_upload_pq [talk_frame]: "talk (fst (upload_pq_one_time fault n d body db)) = talk db"
proof (cases "pq_upload_schema body")
  case (Some u)
  obtain ks l where u: "u = (ks, l)" by (rule prod.exhaust)
  have "talk db2 = talk db" if "try_fold (upsert_pq d n False) ks db = Inr db1"
    "(case l of None \<Rightarrow> Inr db1 | Some k \<Rightarrow> upsert_pq d n True k db1) = Inr db2" for db1 db2
  proof -
    have "talk db1 = talk db" by (rule try_fold_talk [OF that(1)]) (erule talk_upserts(4))
    moreover have "talk db2 = talk db1" using that(2) by (cases l) (simp, simp add: talk_upserts(4))
    ultimately show ?thesis by simp
  qed
  with Some u show ?thesis
    by (auto simp: upload_pq_one_time_def try_then_Inr_iff intro!: run_tx_talk)
qed (simp add: upload_pq_one_time_def)

lemma talk_consume: "talk (consume_otp n k db) = talk db" "talk (consume_pq n k' db) = talk db"
  by (simp_all add: consume_otp_def consume_pq_def talk_def split: option.split)

lemma talk_fetch_bundle [talk_frame]: "talk (fst (fst (fetch_bundle env fault late ties n req body (db, cs)))) = talk db"
proof -
  have tx: "talk (fst (run_tx fault internal_error db (bundle_tx ties n req d nm db))) = talk db" for d nm
    by (rule run_tx_talk, erule bundle_commit) (simp add: talk_consume)
  have "talk db' = talk db" if "run_tx fault internal_error db (bundle_tx ties n req d nm db) = (db', r)" for d nm db' r
    using tx [of d nm] that by simp
  then show ?thesis
    unfolding fetch_bundle_def prod.case Let_def
    by (auto split: option.split prod.split reply.split)
qed

lemma talk_create_request [talk_frame]: "talk (fst (create_request fault n rid d body db)) = talk db"
proof -
  have "talk db' = talk db" if "request_contact n rid a b db = Inr db'" for a b db'
    using that by (auto simp: request_contact_def talk_def split: if_splits)
  then show ?thesis by (simp add: create_request_def split: option.split sum.split)
qed

lemma talk_reject_request [talk_frame]: "talk (fst (reject_request env fault n d rid db)) = talk db"
  by (simp add: reject_request_def Let_def talk_def)

lemma talk_announce [talk_frame]: "talk (fst (announce_blob env fault d body db)) = talk db"
  by (simp add: announce_blob_def talk_def split: option.split)

lemma talk_upload_chunk [talk_frame]: "talk (fst (upload_chunk env fault d blob body db)) = talk db"
  by (simp add: upload_chunk_def store_chunk_def talk_def Let_def split: option.split)

lemma talk_delete_blob [talk_frame]: "talk (fst (delete_blob env fault blob db)) = talk db"
  by (simp add: delete_blob_def talk_def)

lemma talk_exchange [talk_frame]: "talk (fst (exchange_ack env fault d body db)) = talk db"
proof -
  have "talk (fst (run_tx fault internal_error db (exchange_tx d p db))) = talk db" for p
    by (rule run_tx_talk) (erule exchange_tx_commit, simp add: talk_def purge_exchange_def)
  then show ?thesis by (simp add: exchange_ack_def split: option.split)
qed

lemma talk_blind [talk_frame]:
  "talk (fst (fst (blind_send env fault rnd n d body (db, cs)))) = talk db"
  "talk (fst (blind_ack env fault body db)) = talk db"
  by (simp_all add: blind_send_def blind_ack_def talk_def Let_def split: option.split)

lemma talk_apply [talk_frame]: "talk (fst (access_apply env fault n m rid rnd body db)) = talk db"
proof -
  have "talk db' = talk db" if "claim_username m rid name h e db = Inr (k, db')" for name h e k db'
    using that by (cases rule: claim_username_cases) (simp_all add: talk_def)
  then show ?thesis by (simp add: access_apply_def Let_def split: option.split sum.split prod.split)
qed

lemma talk_activate [talk_frame]:
  assumes "access_activate env fault n1 n2 n3 u rnd body db = Some (db', r)" and "db_ok db"
  shows "talk db' = talk db"
  using assms(1)
proof (cases rule: activate_cases)
  case (again p r u d)
  then show ?thesis by (auto simp: insert_session_Inr talk_def)
next
  case (created p r uid)
  have "core_ok (count_attempt (ar_id r) db)" using assms(2) by (simp add: db_ok_core)
  from create_account_effect [OF created(9) this] show ?thesis by (simp add: talk_def)
qed (simp_all add: talk_def)

lemma talk_respond [talk_frame]: "talk (fst (fst (respond env fault n1 n2 rnd body db cs))) = talk db"
proof -
  obtain db' cs' r where r: "respond env fault n1 n2 rnd body db cs = ((db', cs'), r)" by (metis prod.collapse)
  from respond_db [OF r] have "talk db' = talk db" by (auto simp: insert_session_Inr talk_def)
  with r show ?thesis by simp
qed

lemma talk_put_backup [talk_frame]: "talk (fst (put_backup env fault token digest body db)) = talk db"
proof -
  have lock: "talk db' = talk db" if "set_lock d i db = Inr db'" for d i db db'
    using that by (auto simp: set_lock_def talk_def split: if_splits)
  have over: "talk db' = talk db" if "take_over d i c same db = Inr db'" for d i c same db db'
    using that lock [of d i db] by (auto simp: take_over_def try_then_Inr_iff talk_def split: if_splits)
  have proof_: "talk db1 = talk db" if "check_device_proof env b same db = Inr (Inr db1)" for b same db1
    using that by (cases rule: check_device_proof_cases) (simp, erule over)
  have wr: "talk db' = talk db" if "write_backup env b db = Inr db'" for b db db'
    using that by (auto simp: write_backup_def talk_def split: if_splits)
  have tx: "talk (fst (run_tx fault internal_error db (put_tx env b db))) = talk db" for b
    by (rule run_tx_talk, erule put_tx_commit) (metis proof_ wr)
  then show ?thesis by (simp add: put_backup_def split: option.split prod.split)
qed

lemma talk_delete_backup [talk_frame]: "talk (fst (delete_backup env fault token body db)) = talk db"
  by (simp add: delete_backup_def talk_def split: option.split prod.split)

lemma talk_prekey_cleanup [talk_frame]: "talk (fst (prekey_cleanup env fault tie n header db)) = talk db"
  by (simp add: prekey_cleanup_def talk_def split: sum.split prod.split)

lemma talk_admin [talk_frame]:
  "talk (fst (snd (approve_appeal env fault n m header csrf aid ss db))) = talk db"
  "talk (fst (snd (reject_appeal env fault n m header csrf aid ss db))) = talk db"
  "talk (fst (snd (cancel_connection env fault n m header csrf a b ss db))) = talk db"
proof -
  have con: "talk db' = talk db" if "approve_connection a b db = Inr db'" for a b db db'
    using that by (auto simp: approve_connection_def talk_def Let_def split: if_splits)
  have dec: "talk db' = talk db" if "decide_appeal st m aid db = Inr db'" for st aid db db'
    using that by (auto simp: decide_appeal_def talk_def Let_def split: if_splits)
  have "talk (fst (run_tx fault internal_error db (approve_tx m i db))) = talk db" for i
    by (rule run_tx_talk, erule approve_tx_commit) (metis con dec)
  then show "talk (fst (snd (approve_appeal env fault n m header csrf aid ss db))) = talk db"
    unfolding approve_appeal_def by (intro guarded_db [where P = "\<lambda>x. talk x = talk db"]) simp_all
  show "talk (fst (snd (reject_appeal env fault n m header csrf aid ss db))) = talk db"
    unfolding reject_appeal_def
    by (intro guarded_db [where P = "\<lambda>x. talk x = talk db"]) (simp_all add: dec split: option.split sum.split)
  show "talk (fst (snd (cancel_connection env fault n m header csrf a b ss db))) = talk db"
    unfolding cancel_connection_def
    by (intro guarded_db [where P = "\<lambda>x. talk x = talk db"]) (simp_all add: talk_def Let_def split: prod.split)
qed

lemma talk_command [talk_frame]: "talk (fst (run_command env fault n rnd cmd db)) = talk db"
  by (simp add: run_command_def cli_approve_def cli_reject_def cli_revoke_def talk_def Let_def
      split: cli_command.split option.split)

lemma talk_ack_accept:
  "permissions (fst (ack_messages env fault d body db)) = permissions db"
  "permissions (fst (pending_messages fault late n d db)) = permissions db"
  by (simp_all add: ack_messages_def pending_messages_def Let_def split: option.split)

lemma talk_send: "permissions (fst (fst (send_message env fault n1 n2 n3 d body (db, cs)))) = permissions db"
proof -
  have "permissions (fst (run_tx fault internal_error db (send_tx env n1 n2 n3 d e db))) = permissions db" for e
    by (rule run_tx_invariant [where P = "\<lambda>x. permissions x = permissions db"])
      (simp, erule send_tx_commit, simp)
  then have "permissions db' = permissions db"
    if "run_tx fault internal_error db (send_tx env n1 n2 n3 d e db) = (db', r)" for e db' r
    using that by (metis fst_conv)
  then show ?thesis
    unfolding send_message_def prod.case Let_def by (auto split: option.split prod.split reply.split)
qed

lemma talk_accept: "messages (fst (accept_request env fault n d rid db)) = messages db"
proof -
  obtain db' r where a: "accept_request env fault n d rid db = (db', r)" by (rule prod.exhaust)
  then have "messages db' = messages db"
    by (cases rule: accept_request_cases) (auto simp: grant_permission_def Let_def split: prod.splits if_splits)
  with a show ?thesis by simp
qed

text \<open>The requests of a device that do touch them.\<close>

fun talking :: "device_request \<Rightarrow> bool" where
  "talking (Rq_Send _ _ _ _) = True"
| "talking (Rq_Pending _ _) = True"
| "talking (Rq_Ack _) = True"
| "talking (Rq_Accept _ _) = True"
| "talking _ = False"

lemma run_request_talk: "\<not> talking q \<Longrightarrow> talk (fst (run_request env fault d q (db, cs, b))) = talk db"
  by (cases q) (simp_all add: run_request_def talk_frame case_prod_beta)

lemma relay_talk_cases:
  assumes "db_ok (rl_db s)"
  obtains (same) "talk (rl_db (relay_handle env ev s)) = talk (rl_db s)"
    | (expire) f f' n n' where "ev = Ev_Expire f f' n n'"
    | (device) f0 f n h i q d where "ev = Ev_Device f0 f n h i q" "talking q"
        "auth_middleware env f0 n h i (rl_db s) = Inr d"
        "rl_db (relay_handle env ev s) = fst (run_request env f d q (rl_db s, rl_clients s, rl_budget s))"
proof (cases ev)
  case (Ev_Device f0 f n h i q)
  show thesis
  proof (cases "auth_middleware env f0 n h i (rl_db s)")
    case (Inl e)
    with Ev_Device show thesis by (intro same) (simp add: relay_handle_def)
  next
    case (Inr d)
    with Ev_Device have "rl_db (relay_handle env ev s) = fst (run_request env f d q (rl_db s, rl_clients s, rl_budget s))"
      by (simp add: relay_handle_def case_prod_beta)
    with Ev_Device Inr run_request_talk [of q env f d "rl_db s"] show thesis
      by (cases "talking q") (auto intro: same device)
  qed
next
  case (Ev_Activate f n1 n2 n3 u rnd body)
  with assms talk_activate show thesis
    by (intro same) (auto simp: relay_handle_def split: option.split prod.split)
next
  case (Ev_Expire f f' n n')
  then show thesis by (rule expire)
next
  case (Ev_Connect f n t h q i j)
  then show thesis by (intro same) (simp add: relay_handle_def split: option.split)
qed (rule same, simp add: relay_handle_def talk_frame case_prod_beta)+

lemma expire_talk: "permissions (expiry_cleanup f f' n n' db) = permissions db"
  by (simp add: expiry_cleanup_def Let_def)

lemma expire_messages: "m \<in> set (messages db) \<Longrightarrow> m \<notin> set (messages (expiry_cleanup f f' n n' db)) \<Longrightarrow> mg_expires m \<le> n"
  by (auto simp: expiry_cleanup_def Let_def set_delete_where split: if_splits)

lemma expire_no_new: "m \<in> set (messages (expiry_cleanup f f' n n' db)) \<Longrightarrow> m \<in> set (messages db)"
  by (auto simp: expiry_cleanup_def Let_def set_delete_where split: if_splits)

lemma pending_messages_set:
  "m \<in> set (messages (fst (pending_messages f late n d db))) \<Longrightarrow> m \<in> set (messages db)"
  "m \<in> set (messages db) \<Longrightarrow> m \<notin> set (messages (fst (pending_messages f late n d db))) \<Longrightarrow> mg_expires m < n"
  by (auto simp: pending_messages_def Let_def set_delete_where split: if_splits)

lemma ack_messages_set:
  "m \<in> set (messages (fst (ack_messages env f d body db))) \<Longrightarrow> m \<in> set (messages db)"
  "m \<in> set (messages db) \<Longrightarrow> m \<notin> set (messages (fst (ack_messages env f d body db))) \<Longrightarrow>
     \<exists>ids. ack_schema (uuid_ok env) body = Some ids \<and> mg_recipient m = d \<and> mg_id m \<in> to_lower ` hex_to_uuid ` set ids"
  by (auto simp: ack_messages_def mailbox_ack_def set_delete_where split: option.splits if_splits)

lemma send_message_db:
  assumes "db' = fst (fst (send_message env fault n1 n2 n3 d body (db, cs)))"
  shows "db' = db \<or> (\<exists>e r. envelope_schema (uuid_ok env) body = Some e \<and>
    send_tx env n1 n2 n3 d e db = Inr (db', Commit r))"
proof (cases "envelope_schema (uuid_ok env) body")
  case (Some e)
  obtain db1 r1 where run: "run_tx fault internal_error db (send_tx env n1 n2 n3 d e db) = (db1, r1)"
    by (rule prod.exhaust)
  with Some assms have "db' = db1"
    by (simp add: send_message_def Let_def split: reply.splits prod.splits)
  from run show ?thesis
    by (cases rule: run_tx_cases) (use Some \<open>db' = db1\<close> in auto)
qed (use assms in \<open>simp add: send_message_def\<close>)

lemma mailbox_put_set:
  "m \<in> set (mailbox_put d i l ms) \<Longrightarrow> m \<notin> set ms \<Longrightarrow> m = letter_row d i l"
  "m \<in> set ms \<Longrightarrow> m \<in> set (mailbox_put d i l ms)"
  by (auto simp: mailbox_put_def set_insert_ignore split: if_splits)

lemma send_message_set:
  assumes "m \<in> set (messages (fst (fst (send_message env fault n1 n2 n3 d body (db, cs)))))"
    and "m \<notin> set (messages db)"
  shows "mg_sender m = d \<and> (\<exists>u1 u2. device_user d db = Some u1 \<and> device_user (mg_recipient m) db = Some u2 \<and>
    permitted db u1 u2) \<and> \<not> mg_delivered m"
proof -
  define db' where "db' = fst (fst (send_message env fault n1 n2 n3 d body (db, cs)))"
  from send_message_db [OF db'_def] assms obtain e r where tx: "send_tx env n1 n2 n3 d e db = Inr (db', Commit r)"
    by (auto simp: db'_def)
  then show ?thesis
  proof (rule send_tx_commit)
    fix recipient u1 u2
    assume u: "device_user d db = Some u1" "device_user recipient db = Some u2" "permitted db u1 u2"
      and db': "db' = (if is_ephemeral e then db
       else db\<lparr>messages := mailbox_put recipient (to_lower (hex_to_uuid (env_id e)))
                       \<lparr>lt_sender = d, lt_payload = b64_decode (env_ciphertext e),
                        lt_timestamp = n3, lt_expires = envelope_expiry n1 n2 e\<rparr> (messages db)\<rparr>)"
    have "m \<in> set (messages db')" using assms(1) by (simp add: db'_def)
    with db' assms(2) have "m = letter_row recipient (to_lower (hex_to_uuid (env_id e)))
        \<lparr>lt_sender = d, lt_payload = b64_decode (env_ciphertext e), lt_timestamp = n3, lt_expires = envelope_expiry n1 n2 e\<rparr>"
      by (auto split: if_splits dest: mailbox_put_set)
    with u show ?thesis by (auto simp: letter_row_def)
  qed
qed

lemma send_message_keeps: "m \<in> set (messages db) \<Longrightarrow>
    m \<in> set (messages (fst (fst (send_message env fault n1 n2 n3 d body (db, cs)))))"
proof -
  assume m: "m \<in> set (messages db)"
  define db' where "db' = fst (fst (send_message env fault n1 n2 n3 d body (db, cs)))"
  from send_message_db [OF db'_def] show ?thesis
  proof (elim disjE exE conjE)
    fix e r assume "send_tx env n1 n2 n3 d e db = Inr (db', Commit r)"
    then have "m \<in> set (messages db')" by (rule send_tx_commit) (use m mailbox_put_set(2) in auto)
    then show ?thesis by (simp add: db'_def)
  qed (use m in \<open>simp add: db'_def\<close>)
qed

lemma reachable_ok: "relay_reachable env s \<Longrightarrow> relay_ok s"
  by (induction rule: relay_reachable.induct)
    (simp_all add: relay_handle_ok, simp add: relay_init_def relay_ok_def budget_ok_def)

lemma reachable_db_ok: "relay_reachable env s \<Longrightarrow> db_ok (rl_db s)"
  using reachable_ok by (simp add: relay_ok_def)

end
