(* ===== verification/Invite.thy ===== *)
theory Invite
  imports Protocol
begin

text \<open>
  \<open>packages/protocol/src/serverless-invite.ts\<close>: the contact invite that two daemons exchange
  without a relay (a link or a QR code), its schema, the bytes it is signed over, and the
  functions that write and read it. Compression, the URL parser, \<open>JSON.parse\<close> and Ed25519 are
  parameters, gathered in a record.
\<close>

record invite =
  iv_uid :: string
  iv_username :: string
  iv_onion :: string
  iv_user :: string
  iv_device :: string
  iv_signal_device :: int
  iv_registration :: int
  iv_auth_key :: string
  iv_identity :: string
  iv_signed :: signed_prekey
  iv_last_resort :: signed_prekey

text \<open>\<open>b64(length)\<close>: exactly the canonical base64 text of that many bytes.\<close>

definition b64_of :: "nat \<Rightarrow> string \<Rightarrow> bool" where
  "b64_of n s \<longleftrightarrow>
     length s \<le> (n + 2) div 3 * 4 \<and> length (b64_decode s) = n \<and> b64_encode (b64_decode s) = s"

definition invite_prekey_ok :: "nat \<Rightarrow> signed_prekey \<Rightarrow> bool" where
  "invite_prekey_ok n k \<longleftrightarrow>
     0 \<le> sp_id k \<and> sp_id k \<le> 2147483647 \<and> b64_of n (sp_public k) \<and> b64_of 64 (sp_signature k)"

text \<open>\<open>/^[a-z2-7]{56}\.onion$/\<close>\<close>

definition onion_ok :: "string \<Rightarrow> bool" where
  "onion_ok s \<longleftrightarrow>
     length s = 62 \<and> list_all (\<lambda>c. is_lower c \<or> 50 \<le> code c \<and> code c \<le> 55) (take 56 s) \<and>
     drop 56 s = ''.onion''"

definition invite_ok :: "(string \<Rightarrow> bool) \<Rightarrow> invite \<Rightarrow> bool" where
  "invite_ok uuid_ok v \<longleftrightarrow>
     public_uid_ok (iv_uid v) \<and> username_ok (iv_username v) \<and> onion_ok (iv_onion v) \<and>
     uuid_ok (iv_user v) \<and> uuid_ok (iv_device v) \<and>
     1 \<le> iv_signal_device v \<and> iv_signal_device v \<le> 127 \<and>
     1 \<le> iv_registration v \<and> iv_registration v \<le> 1073741823 \<and>
     b64_of 44 (iv_auth_key v) \<and> b64_of 33 (iv_identity v) \<and>
     invite_prekey_ok 33 (iv_signed v) \<and> invite_prekey_ok 1569 (iv_last_resort v)"

definition invite_scalars :: "invite \<Rightarrow> scalar list" where
  "invite_scalars v =
     [SStr ''cp-invite-v2'', SStr (iv_uid v), SStr (iv_username v), SStr (iv_onion v),
      SStr (iv_user v), SStr (iv_device v), SInt (iv_signal_device v), SInt (iv_registration v),
      SStr (iv_auth_key v), SStr (iv_identity v),
      SInt (sp_id (iv_signed v)), SStr (sp_public (iv_signed v)), SStr (sp_signature (iv_signed v)),
      SInt (sp_id (iv_last_resort v)), SStr (sp_public (iv_last_resort v)),
      SStr (sp_signature (iv_last_resort v))]"

definition invite_signing_bytes :: "(string \<Rightarrow> bool) \<Rightarrow> invite \<Rightarrow> bytes option" where
  "invite_signing_bytes uuid_ok v =
     (if invite_ok uuid_ok v then Some (utf8 (json_array (invite_scalars v))) else None)"

text \<open>The library functions that the invite uses.\<close>

record invite_env =
  e_uuid_ok :: "string \<Rightarrow> bool"
  e_sign :: "bytes \<Rightarrow> bytes \<Rightarrow> bytes"
  e_verify :: verifier
  e_is_ed25519 :: "bytes \<Rightarrow> bool"
  e_deflate :: "bytes \<Rightarrow> bytes"
  e_inflate :: "bytes \<Rightarrow> nat \<Rightarrow> bytes option"
  e_parse_url :: "string \<Rightarrow> url option"
  e_parse_json :: "bytes \<Rightarrow> json option"

definition invite_uri :: "bytes \<Rightarrow> bytes \<Rightarrow> string" where
  "invite_uri d s = ''pigeon://invite?v=2&data='' @ b64url_encode d @ ''&sig='' @ b64url_encode s"

datatype invite_error = Invite_Too_Large | Invalid_Invite | Invalid_Invite_Signature | Invite_Schema
  | Invite_Library

definition create_invite :: "invite_env \<Rightarrow> invite \<Rightarrow> bytes \<Rightarrow> invite_error + string" where
  "create_invite e v key =
     (case invite_signing_bytes (e_uuid_ok e) v of
        None \<Rightarrow> Inl Invite_Schema
      | Some bs \<Rightarrow>
          let uri = invite_uri (e_deflate e bs) (e_sign e key bs)
          in if 2953 < length (utf8 uri) then Inl Invite_Too_Large else Inr uri)"

text \<open>\<open>serverlessInviteSchema.parse\<close> on the sixteen elements of the array.\<close>

definition as_int :: "json \<Rightarrow> int option" where
  "as_int j = (case j of JInt n \<Rightarrow> Some n | _ \<Rightarrow> None)"

definition read_invite_key :: "json \<Rightarrow> json \<Rightarrow> json \<Rightarrow> signed_prekey option" where
  "read_invite_key i p s =
     do { i \<leftarrow> as_int i; p \<leftarrow> as_string p; s \<leftarrow> as_string s;
          Some \<lparr>sp_id = i, sp_public = p, sp_signature = s\<rparr> }"

definition read_invite :: "(string \<Rightarrow> bool) \<Rightarrow> json list \<Rightarrow> invite option" where
  "read_invite uuid_ok a =
     do { u \<leftarrow> as_string (a ! 1); n \<leftarrow> as_string (a ! 2); oni \<leftarrow> as_string (a ! 3);
          us \<leftarrow> as_string (a ! 4); d \<leftarrow> as_string (a ! 5); sd \<leftarrow> as_int (a ! 6);
          rg \<leftarrow> as_int (a ! 7); ak \<leftarrow> as_string (a ! 8); ik \<leftarrow> as_string (a ! 9);
          sp \<leftarrow> read_invite_key (a ! 10) (a ! 11) (a ! 12);
          lr \<leftarrow> read_invite_key (a ! 13) (a ! 14) (a ! 15);
          v \<leftarrow> Some \<lparr>iv_uid = u, iv_username = n, iv_onion = oni, iv_user = us, iv_device = d,
            iv_signal_device = sd, iv_registration = rg, iv_auth_key = ak, iv_identity = ik,
            iv_signed = sp, iv_last_resort = lr\<rparr>;
          if invite_ok uuid_ok v then Some v else None }"

definition invite_url_ok :: "url \<Rightarrow> bool" where
  "invite_url_ok u \<longleftrightarrow>
     u_protocol u = ''pigeon:'' \<and> u_hostname u = ''invite'' \<and> u_pathname u = [] \<and> u_hash u = [] \<and>
     u_username u = [] \<and> u_password u = [] \<and> u_port u = [] \<and>
     map_of (u_params u) ''v'' = Some ''2'' \<and>
     join_with (CHR '','') (sort (map fst (u_params u))) = ''data,sig,v''"

definition parse_invite :: "invite_env \<Rightarrow> string \<Rightarrow> invite_error + invite" where
  "parse_invite e uri =
     (if 4096 < length uri then Inl Invalid_Invite
      else case e_parse_url e uri of
        None \<Rightarrow> Inl Invite_Library
      | Some u \<Rightarrow>
          if \<not> invite_url_ok u then Inl Invalid_Invite
          else case (map_of (u_params u) ''data'', map_of (u_params u) ''sig'') of
            (Some d, Some s) \<Rightarrow>
              if \<not> is_b64url d \<or> \<not> (is_b64url s \<and> length s = 86) then Inl Invalid_Invite
              else (case e_inflate e (b64_decode d) 8192 of
                None \<Rightarrow> Inl Invite_Library
              | Some raw \<Rightarrow>
                  (case e_parse_json e raw of
                    None \<Rightarrow> Inl Invite_Library
                  | Some (JArr a) \<Rightarrow>
                      if length a \<noteq> 16 \<or> a ! 0 \<noteq> JStr ''cp-invite-v2'' then Inl Invalid_Invite
                      else (case read_invite (e_uuid_ok e) a of
                        None \<Rightarrow> Inl Invite_Schema
                      | Some v \<Rightarrow>
                          let key = b64_decode (iv_auth_key v)
                          in if \<not> e_is_ed25519 e key then Inl Invalid_Invite_Signature
                             else (case e_verify e key (utf8 (json_array (invite_scalars v))) (b64_decode s) of
                               None \<Rightarrow> Inl Invite_Library
                             | Some ok \<Rightarrow> if ok then Inr v else Inl Invalid_Invite_Signature))
                  | Some _ \<Rightarrow> Inl Invalid_Invite))
          | _ \<Rightarrow> Inl Invalid_Invite)"


section \<open>What the bytes bind\<close>

lemma invite_scalars_inject: "invite_scalars v = invite_scalars w \<longleftrightarrow> v = w"
  by (auto simp: invite_scalars_def intro!: invite.equality signed_prekey.equality)

text \<open>What \<open>JSON.parse\<close> gives back for an array of scalars.\<close>

fun scalar_json :: "scalar \<Rightarrow> json" where
  "scalar_json SNull = JNull"
| "scalar_json (SBool b) = JBool b"
| "scalar_json (SInt i) = JInt i"
| "scalar_json (SStr s) = JStr s"

lemma signed_prekey_eta [simp]:
  "\<lparr>sp_id = sp_id k, sp_public = sp_public k, sp_signature = sp_signature k\<rparr> = k"
  by simp

lemma invite_eta:
  "\<lparr>iv_uid = iv_uid v, iv_username = iv_username v, iv_onion = iv_onion v, iv_user = iv_user v,
     iv_device = iv_device v, iv_signal_device = iv_signal_device v,
     iv_registration = iv_registration v, iv_auth_key = iv_auth_key v,
     iv_identity = iv_identity v, iv_signed = iv_signed v, iv_last_resort = iv_last_resort v\<rparr> = v"
  by simp

lemma read_invite_scalars:
  "invite_ok uuid_ok v \<Longrightarrow> read_invite uuid_ok (map scalar_json (invite_scalars v)) = Some v"
  by (simp add: read_invite_def read_invite_key_def invite_scalars_def as_string_def as_int_def
      signed_prekey_eta invite_eta)

lemma read_invite_ok: "read_invite uuid_ok a = Some v \<Longrightarrow> invite_ok uuid_ok v"
  by (auto simp: read_invite_def split: Option.bind_splits if_splits)

section \<open>The size of the signed bytes\<close>

text \<open>A printable ASCII character that JSON does not escape.\<close>

definition plain_char :: "char \<Rightarrow> bool" where
  "plain_char c \<longleftrightarrow> 32 \<le> code c \<and> code c < 128 \<and> code c \<noteq> 34 \<and> code c \<noteq> 92"

lemma length_utf8_plain_string:
  "list_all plain_char s \<Longrightarrow> length (utf8 (json_string s)) = length s + 2"
proof -
  assume a: "list_all plain_char s"
  then have "concat (map escape_char s) = s"
    by (induction s) (auto simp: plain_char_def escape_char_plain [THEN iffD2])
  moreover have "length (utf8 s) = length s"
    using a by (induction s) (auto simp: plain_char_def utf8_Cons utf8_char_def)
  ultimately show ?thesis
    by (simp add: json_string_def utf8_Cons utf8_char_def)
qed

lemma length_le_utf8: "length s \<le> length (utf8 s)"
  by (induction s) (auto simp: utf8_Cons utf8_char_def)

lemma plain_letters: "b64_letters s \<Longrightarrow> list_all plain_char s"
proof -
  have eq: "code CHR ''='' = 61" by (simp add: code_def)
  have "plain_char c" if "is_b64_letter c \<or> c = CHR ''=''" for c
    using that by (auto simp: is_b64_letter_def plain_char_def is_upper_def is_lower_def is_digit_def eq)
  then show "b64_letters s \<Longrightarrow> list_all plain_char s"
    by (auto simp: b64_letters_def list_all_iff)
qed

lemma b64_of_size: "b64_of n s \<Longrightarrow> length (utf8 (json_string s)) \<le> (n + 2) div 3 * 4 + 2"
proof -
  assume b: "b64_of n s"
  then have "b64_letters s" using b64_encode_letters [of "b64_decode s"] by (simp add: b64_of_def)
  with b show ?thesis by (simp add: length_utf8_plain_string plain_letters b64_of_def)
qed

lemma show_nat_size: "n < 10 ^ k \<Longrightarrow> 0 < k \<Longrightarrow> length (show_nat n) \<le> k"
proof (induction n arbitrary: k rule: show_nat.induct)
  case (1 n)
  show ?case
  proof (cases "n < 10")
    case True
    with 1(3) show ?thesis by (simp add: show_nat.simps [of n])
  next
    case False
    then have "k \<noteq> 1" using 1(2) by auto
    with 1(3) have k: "1 < k" by simp
    then have "n div 10 < 10 ^ (k - 1)"
      using 1(2) by (simp add: less_mult_imp_div_less power_eq_if split: if_splits)
    with 1(1) [OF False this] False k show ?thesis by (simp add: show_nat.simps [of n])
  qed
qed

lemma utf8_digits: "list_all is_digit s \<Longrightarrow> length (utf8 s) = length s"
  by (induction s) (auto simp: utf8_Cons utf8_char_def is_digit_def)

lemma int_size: "0 \<le> i \<Longrightarrow> i \<le> 2147483647 \<Longrightarrow> length (utf8 (show_int i)) \<le> 10"
  using show_nat_size [of "nat i" 10] by (simp add: show_int_def utf8_digits show_nat_digits)


lemma json_array_size:
  "length (utf8 (json_array vs)) \<le> 2 + sum_list (map (\<lambda>v. length (utf8 (show_scalar v)) + 1) vs)"
proof -
  have lit: "length (utf8_char c) = 1" if "code c < 128" for c
    using that by (simp add: utf8_char_def)
  have br: "code CHR ''['' = 91" by (simp add: code_def)
  have "length (utf8 (show_elems vs)) \<le> 1 + sum_list (map (\<lambda>v. length (utf8 (show_scalar v)) + 1) vs)"
    by (induction vs rule: show_elems.induct) (simp_all add: utf8_Cons lit)
  then show ?thesis by (simp add: json_array_def utf8_Cons lit br)
qed

text \<open>What \<open>z.string().uuid()\<close> guarantees: the 36 characters of the text form.\<close>

definition uuid_text :: "(string \<Rightarrow> bool) \<Rightarrow> bool" where
  "uuid_text uuid_ok \<longleftrightarrow>
     (\<forall>s. uuid_ok s \<longrightarrow> length s = 36 \<and> list_all (\<lambda>c. is_hex c \<or> c = CHR ''-'') s)"

lemma plain_dash [simp]: "plain_char CHR ''-''" "plain_char CHR ''.''" "plain_char CHR ''_''"
  by (simp_all add: plain_char_def code_def)

lemma plain_digit: "is_digit c \<Longrightarrow> plain_char c"
  and plain_lower: "is_lower c \<Longrightarrow> plain_char c"
  and plain_upper: "is_upper c \<Longrightarrow> plain_char c"
  and plain_hex: "is_hex c \<Longrightarrow> plain_char c"
  by (auto simp: plain_char_def is_digit_def is_lower_def is_upper_def is_hex_def is_hex_lower_def
      is_hex_upper_def)

lemma uuid_size: "uuid_text uuid_ok \<Longrightarrow> uuid_ok s \<Longrightarrow> length (utf8 (json_string s)) = 38"
proof -
  assume "uuid_text uuid_ok" "uuid_ok s"
  then have "length s = 36" "\<forall>c \<in> set s. is_hex c \<or> c = CHR ''-''"
    by (auto simp: uuid_text_def list_all_iff)
  moreover from this have "list_all plain_char s" unfolding list_all_iff using plain_hex plain_dash(1) by metis
  ultimately show ?thesis by (simp add: length_utf8_plain_string)
qed

lemma username_size: "username_ok s \<Longrightarrow> length (utf8 (json_string s)) \<le> 34"
proof -
  assume u: "username_ok s"
  then have "list_all plain_char s"
    by (auto simp: username_ok_def list_all_iff dest: plain_lower plain_digit)
  with u show ?thesis by (simp add: length_utf8_plain_string username_ok_def)
qed

lemma public_uid_chars: "public_uid_ok s \<Longrightarrow> list_all plain_char s \<and> length s = 12"
proof -
  assume u: "public_uid_ok s"
  have split: "s = take 3 s @ take 4 (drop 3 s) @ [s ! 7] @ drop 8 s"
    using id_take_nth_drop [of 7 s] take_add [of 3 4 s] u by (simp add: public_uid_ok_def)
  have up: "plain_char c" if "is_hex_upper c" for c
    using that plain_hex by (auto simp: is_hex_def)
  have cp: "list_all plain_char ''CP-''" by (simp add: plain_char_def code_def)
  have "list_all plain_char (take 3 s @ take 4 (drop 3 s) @ [s ! 7] @ drop 8 s)"
    using u up cp by (auto simp: public_uid_ok_def list_all_iff)
  then have "list_all plain_char s" by (simp only: split [symmetric])
  with u show ?thesis by (simp add: public_uid_ok_def)
qed

lemma onion_chars: "onion_ok s \<Longrightarrow> list_all plain_char s \<and> length s = 62"
proof -
  assume o: "onion_ok s"
  have "list_all plain_char ''.onion''" by (simp add: plain_char_def code_def)
  moreover have "plain_char c" if "is_lower c \<or> 50 \<le> code c \<and> code c \<le> 55" for c
    using that plain_lower by (auto simp: plain_char_def)
  ultimately have "list_all plain_char (take 56 s @ drop 56 s)"
    using o unfolding list_all_append by (simp only: onion_ok_def list_all_iff) blast
  then have "list_all plain_char s" by (simp only: append_take_drop_id)
  with o show ?thesis by (simp add: onion_ok_def)
qed

lemma invite_bytes_size:
  assumes "uuid_text uuid_ok" and "invite_ok uuid_ok v"
  shows "length (utf8 (json_array (invite_scalars v))) \<le> 8192"
proof -
  have tag: "length (utf8 (json_string ''cp-invite-v2'')) = 14"
    by (simp add: length_utf8_plain_string plain_char_def code_def)
  note b = assms(2) [unfolded invite_ok_def invite_prekey_ok_def]
  have "length (utf8 (json_string (iv_uid v))) = 14" "length (utf8 (json_string (iv_onion v))) = 64"
    using public_uid_chars [of "iv_uid v"] onion_chars [of "iv_onion v"] b
    by (simp_all add: length_utf8_plain_string)
  moreover have "length (utf8 (json_string (iv_username v))) \<le> 34" using username_size b by blast
  moreover have "length (utf8 (json_string (iv_user v))) = 38" "length (utf8 (json_string (iv_device v))) = 38"
    using uuid_size assms(1) b by blast+
  moreover have "length (utf8 (show_int (iv_signal_device v))) \<le> 10"
    "length (utf8 (show_int (iv_registration v))) \<le> 10"
    "length (utf8 (show_int (sp_id (iv_signed v)))) \<le> 10"
    "length (utf8 (show_int (sp_id (iv_last_resort v)))) \<le> 10"
    using b by (auto intro!: int_size)
  moreover have "length (utf8 (json_string (iv_auth_key v))) \<le> 62"
    "length (utf8 (json_string (iv_identity v))) \<le> 46"
    "length (utf8 (json_string (sp_public (iv_signed v)))) \<le> 46"
    "length (utf8 (json_string (sp_signature (iv_signed v)))) \<le> 90"
    "length (utf8 (json_string (sp_public (iv_last_resort v)))) \<le> 2094"
    "length (utf8 (json_string (sp_signature (iv_last_resort v)))) \<le> 90"
    using b64_of_size b by force+
  ultimately show ?thesis
    using json_array_size [of "invite_scalars v"] tag by (simp add: invite_scalars_def)
qed


section \<open>Writing and reading\<close>

text \<open>What \<open>new URL\<close> gives for an invite link of URL-safe letters.\<close>

definition invite_url :: "string \<Rightarrow> string \<Rightarrow> url" where
  "invite_url d s =
     \<lparr>u_protocol = ''pigeon:'', u_hostname = ''invite'', u_port = [], u_username = [],
      u_password = [], u_pathname = [], u_search = ''?v=2&data='' @ d @ ''&sig='' @ s, u_hash = [],
      u_origin = ''null'', u_params = [(''v'', ''2''), (''data'', d), (''sig'', s)]\<rparr>"

text \<open>
  The documented behaviour of the library functions on the values that an invite \<open>v\<close> passes to
  them: inflate inverts deflate within its output limit, a link of URL-safe letters parses to
  its parts, \<open>JSON.parse\<close> inverts \<open>JSON.stringify\<close>, an Ed25519 signature has 64 bytes and
  verifies under the public key of its private key.
\<close>

definition invite_env_ok :: "invite_env \<Rightarrow> bytes \<Rightarrow> invite \<Rightarrow> bool" where
  "invite_env_ok e key v \<longleftrightarrow>
     (let pub = b64_decode (iv_auth_key v); b = utf8 (json_array (invite_scalars v)) in
     uuid_text (e_uuid_ok e) \<and> e_is_ed25519 e pub \<and>
     e_deflate e b \<noteq> [] \<and> (\<forall>n. length b \<le> n \<longrightarrow> e_inflate e (e_deflate e b) n = Some b) \<and>
     length (e_sign e key b) = 64 \<and> e_verify e pub b (e_sign e key b) = Some True \<and>
     (\<forall>d s. is_b64url d \<and> is_b64url s \<longrightarrow>
        e_parse_url e (''pigeon://invite?v=2&data='' @ d @ ''&sig='' @ s) = Some (invite_url d s)) \<and>
     e_parse_json e b = Some (JArr (map scalar_json (invite_scalars v))))"

lemma invite_url_good [simp]: "invite_url_ok (invite_url d s)"
  by (simp add: invite_url_ok_def invite_url_def)

lemma invite_roundtrip:
  assumes env: "invite_env_ok e key v" and c: "create_invite e v key = Inr uri"
  shows "parse_invite e uri = Inr v"
proof -
  let ?b = "utf8 (json_array (invite_scalars v))"
  let ?d = "e_deflate e ?b" and ?s = "e_sign e key ?b"
  from c have ok: "invite_ok (e_uuid_ok e) v" and uri: "uri = invite_uri ?d ?s" and "length (utf8 uri) \<le> 2953"
    by (auto simp: create_invite_def invite_signing_bytes_def Let_def split: if_splits)
  then have len: "length uri \<le> 4096" using length_le_utf8 [of uri] by simp
  have size: "length ?b \<le> 8192" using invite_bytes_size ok env by (auto simp: invite_env_ok_def Let_def)
  have s64: "length ?s = 64" using env by (simp add: invite_env_ok_def Let_def)
  then have "is_b64url (b64url_encode ?s)" by (intro is_b64url_encode) auto
  moreover have "is_b64url (b64url_encode ?d)"
    using env size by (intro is_b64url_encode) (auto simp: invite_env_ok_def Let_def)
  ultimately have letters: "is_b64url (b64url_encode ?d)" "is_b64url (b64url_encode ?s)" by blast+
  then have url: "e_parse_url e uri = Some (invite_url (b64url_encode ?d) (b64url_encode ?s))"
    using env unfolding invite_env_ok_def Let_def uri invite_uri_def by blast
  have arr: "length (map scalar_json (invite_scalars v)) = 16"
    "map scalar_json (invite_scalars v) ! 0 = JStr ''cp-invite-v2''" by (simp_all add: invite_scalars_def)
  have lib: "e_inflate e ?d 8192 = Some ?b" "e_parse_json e ?b = Some (JArr (map scalar_json (invite_scalars v)))"
    "e_is_ed25519 e (b64_decode (iv_auth_key v))"
    "e_verify e (b64_decode (iv_auth_key v)) ?b ?s = Some True"
    using env size by (auto simp: invite_env_ok_def Let_def)
  have params: "map_of (u_params (invite_url d s)) ''data'' = Some d"
    "map_of (u_params (invite_url d s)) ''sig'' = Some s" for d s by (simp_all add: invite_url_def)
  show ?thesis
    unfolding parse_invite_def url
    using len letters s64 arr lib by (simp add: params b64_decode_url read_invite_scalars [OF ok] Let_def)
qed

lemma parse_invite_verified:
  assumes "parse_invite e uri = Inr v"
  shows "invite_ok (e_uuid_ok e) v"
    and "\<exists>s. e_verify e (b64_decode (iv_auth_key v)) (utf8 (json_array (invite_scalars v))) s = Some True"
  using assms
  by (auto simp: parse_invite_def Let_def dest: read_invite_ok
      split: if_splits option.splits json.splits)

lemma invite_bytes_inject:
  "utf8 (json_array (invite_scalars v)) = utf8 (json_array (invite_scalars w)) \<longleftrightarrow> v = w"
  by (simp add: json_array_inject invite_scalars_inject)


section \<open>A concrete invite\<close>

definition demo_key :: "nat \<Rightarrow> nat \<Rightarrow> signed_prekey" where
  "demo_key i n =
     \<lparr>sp_id = int i, sp_public = b64_encode (replicate n 7), sp_signature = b64_encode (replicate 64 9)\<rparr>"

definition demo_uuid :: string where
  "demo_uuid = ''00000000-0000-4000-8000-000000000001''"

definition demo_invite :: invite where
  "demo_invite =
     \<lparr>iv_uid = ''CP-12AB-34CD'', iv_username = ''alice'', iv_onion = replicate 56 (CHR ''a'') @ ''.onion'',
      iv_user = demo_uuid, iv_device = demo_uuid, iv_signal_device = 1, iv_registration = 42,
      iv_auth_key = b64_encode (replicate 44 1), iv_identity = b64_encode (replicate 33 2),
      iv_signed = demo_key 1 33, iv_last_resort = demo_key 2 1569\<rparr>"

definition demo_parse_url :: "string \<Rightarrow> url option" where
  "demo_parse_url uri =
     (let r = drop 25 uri; d = takeWhile (\<lambda>c. c \<noteq> CHR ''&'') r
      in Some (invite_url d (drop (length d + 5) r)))"

definition demo_env :: invite_env where
  "demo_env =
     \<lparr>e_uuid_ok = (\<lambda>s. s = demo_uuid), e_sign = (\<lambda>k b. replicate 64 5),
      e_verify = (\<lambda>k b s. Some True), e_is_ed25519 = (\<lambda>k. True), e_deflate = (\<lambda>b. [3]),
      e_inflate = (\<lambda>b n. Some (utf8 (json_array (invite_scalars demo_invite)))),
      e_parse_url = demo_parse_url,
      e_parse_json = (\<lambda>b. Some (JArr (map scalar_json (invite_scalars demo_invite))))\<rparr>"

lemma b64_of_encode: "b64_of n (b64_encode bs) \<longleftrightarrow> length bs = n"
  by (auto simp: b64_of_def b64_decode_encode length_b64_encode)

lemma demo_onion: "list_all p (replicate 56 (CHR ''a'')) \<longleftrightarrow> p (CHR ''a'')"
  by (simp add: list_all_iff)

lemma demo_invite_ok: "invite_ok (e_uuid_ok demo_env) demo_invite"
  by (simp add: invite_ok_def demo_invite_def demo_env_def invite_prekey_ok_def demo_key_def b64_of_encode
      public_uid_ok_def username_ok_def onion_ok_def demo_onion is_hex_upper_def is_digit_def is_lower_def code_def)

lemma demo_parse_url: "is_b64url d \<Longrightarrow> demo_parse_url (''pigeon://invite?v=2&data='' @ d @ ''&sig='' @ s) = Some (invite_url d s)"
proof -
  assume "is_b64url d"
  then have "\<forall>c \<in> set d. c \<noteq> CHR ''&''"
    by (auto simp: is_b64url_def list_all_iff is_upper_def is_lower_def is_digit_def code_def)
  then have "takeWhile (\<lambda>c. c \<noteq> CHR ''&'') (d @ CHR ''&'' # r) = d" for r
    by (simp add: takeWhile_append)
  then show ?thesis by (simp add: demo_parse_url_def Let_def)
qed

lemma demo_env_ok: "invite_env_ok demo_env key demo_invite"
proof -
  have "uuid_text (e_uuid_ok demo_env)"
    by (auto simp: uuid_text_def demo_env_def demo_uuid_def is_hex_def is_hex_lower_def is_digit_def code_def)
  then show ?thesis
    by (auto simp: invite_env_ok_def Let_def demo_env_def demo_parse_url simp del: append_Cons)
qed

lemma demo_create: "\<exists>uri. create_invite demo_env demo_invite key = Inr uri"
proof -
  have "length (utf8 (invite_uri [3] (replicate 64 5))) \<le> 2953"
  proof -
    have u: "length (utf8 s) \<le> 2 * length s" for s
      by (induction s) (auto simp: utf8_Cons utf8_char_def)
    have "length (invite_uri [3] (replicate 64 5)) \<le> 200" by (simp add: invite_uri_def)
    with u [of "invite_uri [3] (replicate 64 5)"] show ?thesis by linarith
  qed
  then show ?thesis
    using demo_invite_ok by (simp add: create_invite_def invite_signing_bytes_def demo_env_def Let_def)
qed

end
