(* ===== verification/Relay_Properties.thy ===== *)
theory Relay_Properties
  imports Relay_System Invite
begin

text \<open>
  What the relay promises, stated over its routes and over the system of \<open>Relay_System\<close>, with a
  witness on a concrete relay of two users for every property that has a hypothesis. The witnesses
  instantiate the library functions of the environment by small concrete functions.
\<close>

section \<open>A concrete relay\<close>

definition demo_relay_env :: relay_env where
  "demo_relay_env =
     \<lparr>hostname = ''relay'', aliases = ''onion, lan'', pepper = ''pepper'', admin_username = ''admin'',
      admin_token = ''secret'', uuid_ok = (\<lambda>s. s \<noteq> []), datetime_ok = (\<lambda>s. s \<noteq> []), pg_uuid = Some,
      sha256 = take 4, hmac = (\<lambda>k m. take 1 m), verify = (\<lambda>k m s. Some (k = s))\<rparr>"

definition demo_user :: "string \<Rightarrow> string \<Rightarrow> string \<Rightarrow> user" where
  "demo_user i n u = \<lparr>us_id = i, us_name = n, us_uid = Some u, us_revoked = None\<rparr>"

definition demo_request :: "string \<Rightarrow> string \<Rightarrow> access_request" where
  "demo_request i n =
     \<lparr>ar_id = i, ar_name = n, ar_status = A_Activated, ar_code_hash = None, ar_attempts = 1,
      ar_expires = None, ar_used = None, ar_created = 0, ar_decided = None\<rparr>"

definition demo_device :: "string \<Rightarrow> string \<Rightarrow> device" where
  "demo_device i u =
     \<lparr>dv_id = i, dv_user = u, dv_identity = [1], dv_auth = [2], dv_registration = 1, dv_signal_device = 1,
      dv_revoked = None\<rparr>"

definition demo_message :: message where
  "demo_message =
     \<lparr>mg_id = ''m1'', mg_sender = ''d2'', mg_recipient = ''d1'', mg_payload = [7], mg_timestamp = 5,
      mg_delivered = False, mg_expires = 50\<rparr>"

definition demo_otp :: "int \<Rightarrow> otp_row" where
  "demo_otp i =
     \<lparr>ok_device = ''d2'', ok_prekey = i, ok_public = [1], ok_consumed = False, ok_consumed_at = None, ok_uploaded = i\<rparr>"

definition demo_pq :: "int \<Rightarrow> bool \<Rightarrow> pq_row" where
  "demo_pq i lr =
     \<lparr>qk_device = ''d2'', qk_prekey = i, qk_public = [1], qk_signature = [2], qk_last_resort = lr,
      qk_consumed = False, qk_consumed_at = None, qk_uploaded = i\<rparr>"

definition demo_db :: relay_db where
  "demo_db = empty_db
     \<lparr>users := [demo_user ''u1'' ''alice'' ''CP-1'', demo_user ''u2'' ''bob'' ''CP-2'', demo_user ''u3'' ''eve'' ''CP-3''],
      access_requests := [demo_request ''r1'' ''alice'', demo_request ''r2'' ''bob'', demo_request ''r3'' ''eve''],
      connection_requests := [\<lparr>cr_id = ''c1'', cr_requester = ''u3'', cr_recipient = ''u1'', cr_status = R_Pending,
        cr_created = 0, cr_expires = 100, cr_decided = None\<rparr>],
      permissions := [\<lparr>pm_one = ''u1'', pm_two = ''u2'', pm_revoked = None\<rparr>],
      devices := [demo_device ''d1'' ''u1'', demo_device ''d2'' ''u2'', demo_device ''d3'' ''u3''],
      signed_prekeys := [\<lparr>sk_device = ''d2'', sk_prekey = 1, sk_public = [1], sk_signature = [2], sk_uploaded = 0\<rparr>],
      otps := [demo_otp 1, demo_otp 2], pqs := [demo_pq 1 False, demo_pq 2 False, demo_pq 3 True],
      messages := [demo_message],
      sessions := [\<lparr>se_token = ''t1'', se_device = ''d1'', se_expires = 100\<rparr>,
        \<lparr>se_token = ''t2'', se_device = ''d2'', se_expires = 100\<rparr>]\<rparr>"

lemmas demo_defs = demo_db_def demo_user_def demo_request_def demo_device_def demo_message_def demo_otp_def
  demo_pq_def empty_db_def

lemma demo_db_ok: "db_ok demo_db"
proof -
  have "accounts_ok demo_db" by (simp add: accounts_ok_def demo_defs unique_key_def)
  moreover have "access_ok demo_db"
  proof -
    have "{r \<in> set (access_requests demo_db). ar_status r = A_Activated} = set (access_requests demo_db)"
      by (auto simp: demo_defs)
    then show ?thesis unfolding access_ok_def by (simp add: demo_defs unique_key_def)
  qed
  moreover have "prekeys_ok demo_db" by (simp add: prekeys_ok_def demo_defs unique_key_def)
  moreover have "contacts_ok demo_db" by (simp add: contacts_ok_def demo_defs unique_key_def)
  moreover have "mailbox_ok demo_db"
    by (simp add: mailbox_ok_def demo_defs unique_key_def permitted_def ordered_def)
  moreover have "blobs_ok demo_db" "vaults_ok demo_db" "blind_ok demo_db" "appeals_ok demo_db"
    by (simp_all add: blobs_ok_def vaults_ok_def blind_ok_def appeals_ok_def demo_defs)
  ultimately show ?thesis by (simp add: db_ok_def)
qed

definition demo_relay :: relay where
  "demo_relay = \<lparr>rl_db = demo_db, rl_challenges = [], rl_clients = [], rl_budget = [], rl_admins = []\<rparr>"

lemma demo_reachable: "relay_reachable env demo_relay"
  by (rule reach_start) (simp add: relay_init_def demo_relay_def demo_db_ok)

section \<open>The whole relay\<close>

text \<open>
  C1. Every state that the relay can reach from a well-formed database, through any interleaving
  of its routes, the operator's commands, socket events and the cleanup timer, is well-formed:
  keys are unique, references lead to rows, at most one device of a user is active, an account
  exists exactly for an activated request, queued messages are between users with a permission,
  attachments, backups and budgets are within their bounds.
\<close>

theorem relay_invariant:
  assumes "relay_reachable env s"
  shows "relay_ok s"
  using assms by (rule reachable_ok)

theorem relay_invariant_witness:
  "relay_ok (relay_handle demo_relay_env (Ev_Operator False 9 [] (Cli_Revoke ''u2'')) demo_relay) \<and>
   us_revoked (users (rl_db (relay_handle demo_relay_env (Ev_Operator False 9 [] (Cli_Revoke ''u2'')) demo_relay)) ! 1) = Some 9"
  using relay_invariant [OF reach_event [OF demo_reachable, of demo_relay_env "Ev_Operator False 9 [] (Cli_Revoke ''u2'')"]]
  by (simp add: relay_handle_def run_command_def cli_revoke_def demo_relay_def demo_defs to_lower_def
      lower_char_def is_upper_def code_def update_where_def)

text \<open>
  C2. A message enters a mailbox only through an authenticated send of the device that it names as
  its sender, and only if the users of the two devices have a permission at that moment.
\<close>

theorem message_from_permitted_sender:
  assumes "relay_reachable env s" and "m \<in> set (messages (rl_db (relay_handle env ev s)))"
    and "m \<notin> set (messages (rl_db s))"
  shows "\<exists>f0 f n h i n1 n2 n3 body u1 u2. ev = Ev_Device f0 f n h i (Rq_Send n1 n2 n3 body) \<and>
    auth_middleware env f0 n h i (rl_db s) = Inr (mg_sender m) \<and> \<not> mg_delivered m \<and>
    device_user (mg_sender m) (rl_db s) = Some u1 \<and> device_user (mg_recipient m) (rl_db s) = Some u2 \<and>
    permitted (rl_db s) u1 u2"
proof (rule relay_talk_cases [OF reachable_db_ok [OF assms(1)], where ev = ev and env = env], goal_cases same expire device)
  case same
  with assms(2,3) show ?thesis by (simp add: talk_def)
next
  case (expire f f' n n')
  with assms(2,3) expire_no_new show ?thesis by (auto simp: relay_handle_def)
next
  case (device f0 f n h i q d)
  have new: "m \<in> set (messages (fst (run_request env f d q (rl_db s, rl_clients s, rl_budget s))))"
    using assms(2) device by simp
  from device(2) show ?thesis
  proof (cases q rule: talking.cases)
    case (1 n1 n2 n3 body)
    with new send_message_set [OF _ assms(3)] device(1,3) show ?thesis
      by (simp add: run_request_def case_prod_beta)
  next
    case (2 late n1)
    with new assms(3) pending_messages_set(1) show ?thesis by (simp add: run_request_def)
  next
    case (3 body)
    with new assms(3) ack_messages_set(1) show ?thesis by (simp add: run_request_def)
  next
    case (4 n1 rid)
    with new assms(3) show ?thesis by (simp add: run_request_def talk_accept)
  qed simp_all
qed

definition demo_send :: relay_event where
  "demo_send = Ev_Device False False 10 (Some ''Bearer t1'') None (Rq_Send 10 10 10
     (JObj [(''version'', JInt 1), (''envelopeId'', JStr ''e1''), (''mailboxId'', JStr ''d2''), (''ciphertext'', JStr ''QUJD'')]))"

definition demo_sent :: message where
  "demo_sent =
     \<lparr>mg_id = ''e1----'', mg_sender = ''d1'', mg_recipient = ''d2'', mg_payload = [65, 66, 67], mg_timestamp = 10,
      mg_delivered = False, mg_expires = 2592000010\<rparr>"

lemma demo_sent_new:
  "demo_sent \<in> set (messages (rl_db (relay_handle demo_relay_env demo_send demo_relay)))"
  "demo_sent \<notin> set (messages (rl_db demo_relay))"
  by code_simp+

theorem message_from_permitted_sender_witness:
  "\<exists>u1 u2. demo_sent \<in> set (messages (rl_db (relay_handle demo_relay_env demo_send demo_relay))) \<and>
     device_user (mg_sender demo_sent) (rl_db demo_relay) = Some u1 \<and>
     device_user (mg_recipient demo_sent) (rl_db demo_relay) = Some u2 \<and> permitted (rl_db demo_relay) u1 u2"
  using message_from_permitted_sender [OF demo_reachable demo_sent_new] demo_sent_new(1) by blast

text \<open>
  C3. A queued message leaves its mailbox only when the device that it is addressed to acknowledges
  its id, or when it has expired: no other route and no other device can remove it.
\<close>

theorem message_kept_until_ack:
  assumes "relay_reachable env s" and "m \<in> set (messages (rl_db s))"
    and "m \<notin> set (messages (rl_db (relay_handle env ev s)))"
  shows "(\<exists>f0 f n h i body ids. ev = Ev_Device f0 f n h i (Rq_Ack body) \<and>
      auth_middleware env f0 n h i (rl_db s) = Inr (mg_recipient m) \<and>
      ack_schema (uuid_ok env) body = Some ids \<and> mg_id m \<in> to_lower ` hex_to_uuid ` set ids) \<or>
    (\<exists>f0 f n h i late dbnow. ev = Ev_Device f0 f n h i (Rq_Pending late dbnow) \<and> mg_expires m < dbnow) \<or>
    (\<exists>f f' dbnow n'. ev = Ev_Expire f f' dbnow n' \<and> mg_expires m \<le> dbnow)"
proof (rule relay_talk_cases [OF reachable_db_ok [OF assms(1)], where ev = ev and env = env], goal_cases same expire device)
  case same
  with assms(2,3) show ?thesis by (simp add: talk_def)
next
  case (expire f f' n n')
  then have "mg_expires m \<le> n" using expire_messages [OF assms(2)] assms(3) by (simp add: relay_handle_def)
  with expire show ?thesis by (intro disjI2 exI conjI)
next
  case (device f0 f n h i q d)
  have gone: "m \<notin> set (messages (fst (run_request env f d q (rl_db s, rl_clients s, rl_budget s))))"
    using assms(3) device by simp
  from device(2) show ?thesis
  proof (cases q rule: talking.cases)
    case (1 n1 n2 n3 body)
    with gone send_message_keeps [OF assms(2)] show ?thesis by (simp add: run_request_def case_prod_beta)
  next
    case (2 late n1)
    with gone have "mg_expires m < n1" using pending_messages_set(2) [OF assms(2)] by (simp add: run_request_def)
    with 2 device(1) show ?thesis by (intro disjI2 disjI1 exI conjI) auto
  next
    case (3 body)
    with gone have gone': "m \<notin> set (messages (fst (ack_messages env f d body (rl_db s))))" by (simp add: run_request_def)
    obtain ids where "ack_schema (uuid_ok env) body = Some ids" "mg_recipient m = d"
      "mg_id m \<in> to_lower ` hex_to_uuid ` set ids"
      using ack_messages_set(2) [OF assms(2) gone'] by blast
    with 3 device(1,3) show ?thesis by (intro disjI1 exI conjI) auto
  next
    case (4 n1 rid)
    with gone assms(2) show ?thesis by (simp add: run_request_def talk_accept)
  qed simp_all
qed

definition demo_ack :: relay_event where
  "demo_ack = Ev_Device False False 10 (Some ''Bearer t1'') None (Rq_Ack (JObj [(''envelopeIds'', JArr [JStr ''m1-''])]))"

definition demo_kept :: relay where
  "demo_kept = demo_relay\<lparr>rl_db := demo_db\<lparr>messages := [demo_message\<lparr>mg_id := ''m1-''\<rparr>]\<rparr>\<rparr>"

lemma demo_kept_reachable: "relay_reachable env demo_kept"
proof -
  have "mailbox_ok (demo_db\<lparr>messages := [demo_message\<lparr>mg_id := ''m1-''\<rparr>]\<rparr>)"
    by (simp add: mailbox_ok_def demo_defs unique_key_def permitted_def ordered_def)
  then have "db_ok (demo_db\<lparr>messages := [demo_message\<lparr>mg_id := ''m1-''\<rparr>]\<rparr>)"
    by (rule db_ok_messages [OF demo_db_ok])
  then show ?thesis by (intro reach_start) (simp add: relay_init_def demo_kept_def demo_relay_def)
qed

lemma demo_ack_gone:
  "demo_message\<lparr>mg_id := ''m1-''\<rparr> \<in> set (messages (rl_db demo_kept))"
  "demo_message\<lparr>mg_id := ''m1-''\<rparr> \<notin> set (messages (rl_db (relay_handle demo_relay_env demo_ack demo_kept)))"
  by code_simp+

theorem message_kept_until_ack_witness:
  "\<exists>f0 f n h i body. demo_ack = Ev_Device f0 f n h i (Rq_Ack body) \<and>
     auth_middleware demo_relay_env f0 n h i (rl_db demo_kept) = Inr ''d1''"
proof -
  have "mg_recipient (demo_message\<lparr>mg_id := ''m1-''\<rparr>) = ''d1''" by (simp add: demo_message_def)
  with message_kept_until_ack [OF demo_kept_reachable demo_ack_gone] show ?thesis
    by (auto simp: demo_ack_def)
qed

text \<open>
  C4. Two users who may not talk to each other can do so after an event only if that event is the
  authenticated acceptance, by the recipient, of an unexpired pending request between exactly these
  two users. The operator, the requester and third parties cannot open a conversation.
\<close>

theorem permission_by_recipient:
  assumes "relay_reachable env s" and "permitted (rl_db (relay_handle env ev s)) a b"
    and "\<not> permitted (rl_db s) a b"
  shows "\<exists>f0 f n h i dbnow rid d me q. ev = Ev_Device f0 f n h i (Rq_Accept dbnow rid) \<and>
    auth_middleware env f0 n h i (rl_db s) = Inr d \<and> current_user_id d (rl_db s) = Some me \<and>
    q \<in> set (connection_requests (rl_db s)) \<and> cr_id q = to_lower rid \<and> cr_recipient q = me \<and>
    cr_status q = R_Pending \<and> dbnow < cr_expires q \<and> {a, b} = {cr_requester q, me}"
proof (rule relay_talk_cases [OF reachable_db_ok [OF assms(1)], where ev = ev and env = env], goal_cases same expire device)
  case same
  then have "permissions (rl_db (relay_handle env ev s)) = permissions (rl_db s)" by (simp add: talk_def)
  with assms(2,3) permitted_cong show ?thesis by metis
next
  case (expire f f' n n')
  then have "permissions (rl_db (relay_handle env ev s)) = permissions (rl_db s)"
    by (simp add: relay_handle_def expire_talk)
  with assms(2,3) permitted_cong show ?thesis by metis
next
  case (device f0 f n h i q d)
  define db' where "db' = fst (run_request env f d q (rl_db s, rl_clients s, rl_budget s))"
  have perm: "permitted db' a b" using assms(2) device by (simp add: db'_def)
  have same: "permissions db' \<noteq> permissions (rl_db s)" using perm assms(3) permitted_cong by metis
  from device(2) show ?thesis
  proof (cases q rule: talking.cases)
    case (4 dbnow rid)
    obtain db1 r where acc: "accept_request env f dbnow d rid (rl_db s) = (db1, r)" by (rule prod.exhaust)
    with 4 have db1: "db' = db1" by (simp add: db'_def run_request_def)
    from acc show ?thesis
    proof (cases rule: accept_request_cases)
      case refused
      with db1 same show ?thesis by simp
    next
      case (accepted me p)
      let ?db2 = "(rl_db s)\<lparr>connection_requests := update_where (\<lambda>x. cr_id x = to_lower rid)
             (\<lambda>x. x\<lparr>cr_status := R_Accepted, cr_decided := Some dbnow\<rparr>) (connection_requests (rl_db s))\<rparr>"
      have "permitted ?db2 = permitted (rl_db s)" by (rule permitted_cong) simp
      then have "{a, b} = {cr_requester p, me}"
        using relay_grants.only_the_pair [OF accepted(7)] perm db1 assms(3) by simp
      with accepted 4 device(1,3) show ?thesis by auto
    qed
  qed (use same in \<open>simp_all add: db'_def run_request_def case_prod_beta talk_send talk_ack_accept\<close>)
qed

definition demo_accept :: relay_event where
  "demo_accept = Ev_Device False False 10 (Some ''Bearer t1'') None (Rq_Accept 10 ''c1'')"

lemma demo_accepted:
  "permitted (rl_db (relay_handle demo_relay_env demo_accept demo_relay)) ''u3'' ''u1''"
  "\<not> permitted (rl_db demo_relay) ''u3'' ''u1''"
  by code_simp+

theorem permission_by_recipient_witness:
  "\<exists>q \<in> set (connection_requests (rl_db demo_relay)). {''u3'', ''u1''} = {cr_requester q, cr_recipient q} \<and>
     permitted (rl_db (relay_handle demo_relay_env demo_accept demo_relay)) ''u3'' ''u1''"
  using permission_by_recipient [OF demo_reachable demo_accepted] demo_accepted(1) by blast

section \<open>Sessions and accounts\<close>


definition demo_verify_env :: relay_env where
  "demo_verify_env = demo_relay_env\<lparr>verify := (\<lambda>k m s. Some (s = replicate 64 0))\<rparr>"

definition demo_answer :: json where
  "demo_answer = JObj [(''deviceId'', JStr ''d1''), (''challenge'', JStr (replicate 64 (CHR ''a''))),
     (''signature'', JStr (replicate 128 (CHR ''0''))), (''relayHostname'', JStr ''relay'')]"

definition demo_challenges :: challenges where
  "demo_challenges = [(''d1'', \<lparr>cl_text = replicate 64 (CHR ''a''), cl_expires = 60\<rparr>)]"

definition demo_respond :: "(relay_db \<times> challenges) \<times> (string \<times> ms) reply" where
  "demo_respond = respond demo_verify_env False 10 10 [1, 2, 3] demo_answer demo_db demo_challenges"

lemma demo_respond_eval:
  "snd demo_respond = Done 200 (''AQID'', 86400010)" "snd (fst demo_respond) = []"
  by code_simp+

lemma demo_respond_eq:
  "respond demo_verify_env False 10 10 [1, 2, 3] demo_answer demo_db demo_challenges
     = ((fst (fst demo_respond), []), Done 200 (''AQID'', 86400010))"
  using demo_respond_eval by (metis demo_respond_def prod.collapse)


text \<open>
  C37. A challenge answers at most one request: whatever the first answer was, a second answer for the
  same device finds no challenge and changes nothing, until the relay issues a new one.
\<close>

theorem challenge_single_use:
  assumes "challenge_verify_schema (uuid_ok env) body = Some b"
    and "challenge_verify_schema (uuid_ok env) body' = Some b'" and "cv_device b' = cv_device b"
    and "respond env fault now now' rnd body db cs = ((db1, cs1), r)"
  shows "respond env fault' m m' rnd' body' db1 cs1 = ((db1, cs1), Fail 401 ''challenge_not_found'')"
  using respond_consumes [OF assms(4,1)] assms(2,3) by (simp add: respond_def)

lemma demo_answer_parsed:
  "challenge_verify_schema (uuid_ok demo_verify_env) demo_answer =
     Some \<lparr>cv_device = ''d1'', cv_challenge = replicate 64 (CHR ''a''), cv_signature = replicate 128 (CHR ''0''),
           cv_hostname = ''relay''\<rparr>"
  by code_simp

theorem challenge_single_use_witness:
  "respond demo_verify_env False 11 11 [4] demo_answer (fst (fst demo_respond)) []
     = ((fst (fst demo_respond), []), Fail 401 ''challenge_not_found'')"
  by (rule challenge_single_use [OF demo_answer_parsed demo_answer_parsed refl demo_respond_eq])

text \<open>
  C6. A device-authenticated route runs only for a bearer token of an unexpired session whose device
  and user are not revoked, and, once a vault was claimed by an installation, only for requests that
  name this installation.
\<close>

theorem auth_needs_live_session:
  assumes "auth_middleware env fault now header inst db = Inr d"
  shows "\<exists>t s u. header = Some t \<and> starts_with ''Bearer '' t \<and> s \<in> set (sessions db) \<and>
    se_token s = drop 7 t \<and> se_device s = d \<and> now < se_expires s \<and>
    active_user d db = Some u \<and> us_revoked u = None \<and>
    (\<forall>l. find_lock d db = Some l \<longrightarrow> (\<exists>i. inst = Some i \<and> vl_instance l = hex_encode (sha256 env (utf8 i))))"
  using assms
proof (rule auth_middleware_Inr)
  fix t s
  assume h: "header = Some t" "starts_with ''Bearer '' t" "s \<in> set (sessions db)" "se_token s = drop 7 t"
    "se_device s = d" "now < se_expires s" "active_user d db \<noteq> None" "instance_allowed env db d inst"
  then obtain u where u: "active_user d db = Some u" by auto
  have "\<forall>l. find_lock d db = Some l \<longrightarrow> (\<exists>i. inst = Some i \<and> vl_instance l = hex_encode (sha256 env (utf8 i)))"
    using h(8) by (auto simp: instance_allowed_def split: option.splits)
  with h u active_user_SomeD [OF u] show ?thesis by blast
qed

theorem auth_needs_live_session_witness:
  "\<exists>s u. s \<in> set (sessions demo_db) \<and> se_device s = ''d1'' \<and> active_user ''d1'' demo_db = Some u \<and> us_revoked u = None"
proof -
  have "auth_middleware demo_relay_env False 10 (Some ''Bearer t1'') None demo_db = Inr ''d1''" by code_simp
  from auth_needs_live_session [OF this] show ?thesis by blast
qed

text \<open>
  C7. An account is created only for an approved, unexpired access request whose activation code was
  presented, whose code was guessed wrongly fewer than five times and whose name has no account; the
  creation adds exactly one user with a public UID that nobody had, one device with the presented
  keys and one session for it, and marks the request as activated.
\<close>

theorem activation_creates_one_account:
  assumes "access_activate env fault now now' dbnow user_id rnd body db = Some (db', Done 201 v)" and "db_ok db"
  shows "\<exists>p r. activation_schema (uuid_ok env) body = Some p \<and> r \<in> set (access_requests db) \<and>
    ar_id r = to_lower (ac_request p) \<and> ar_status r = A_Approved \<and> ar_attempts r < 5 \<and>
    (\<exists>e. ar_expires r = Some e \<and> now \<le> e) \<and> ar_code_hash r = Some (compute_hmac env (ac_code p)) \<and>
    (\<forall>u \<in> set (users db). us_name u \<noteq> ar_name r) \<and>
    (\<exists>uid. users db' = users db @ [new_user r user_id uid] \<and> (\<forall>u \<in> set (users db). us_uid u \<noteq> Some uid)) \<and>
    devices db' = devices db @ [new_device p user_id] \<and>
    (\<exists>s. sessions db' = sessions db @ [s] \<and> se_device s = to_lower (ac_device p)) \<and>
    access_requests db' = access_requests (mark_activated (ar_id r) dbnow (count_attempt (ar_id r) db))"
  using assms(1)
proof (cases rule: activate_cases)
  case (created p r uid)
  have core: "core_ok (count_attempt (ar_id r) db)" using assms(2) by (simp add: db_ok_core)
  note eff = create_account_effect [OF created(9) core]
  have "\<not> uid_taken (count_attempt (ar_id r) db) uid"
    using created(8) by (auto simp: choose_uid_def dest: free_uid_not_taken)
  then have fresh: "\<forall>u \<in> set (users db). us_uid u \<noteq> Some uid" by (simp add: uid_taken_def has_row_iff)
  show ?thesis
    using created(1-5,7) code_matchesD [OF created(6)] eff(2-6) fresh
    by (intro exI [of _ p] exI [of _ r] conjI) (simp_all, blast)
qed auto

definition demo_code :: string where
  "demo_code = replicate 20 (CHR ''c'')"

definition demo_signed_json :: "int \<Rightarrow> json" where
  "demo_signed_json i = JObj [(''id'', JInt i), (''publicKey'', JStr ''QUJD''), (''signature'', JStr ''QUJD'')]"

definition demo_activation :: json where
  "demo_activation = JObj
     [(''requestId'', JStr ''r4''), (''activationCode'', JStr demo_code), (''deviceId'', JStr ''d4''),
      (''deviceAuthPublicKey'', JStr ''QUJD''), (''signalIdentityPublicKey'', JStr ''QUJD''),
      (''registrationId'', JInt 7), (''signalDeviceId'', JInt 1), (''signedPrekey'', demo_signed_json 1),
      (''oneTimePrekeys'', JArr (map demo_signed_json [1..20])),
      (''pqOneTimePrekeys'', JArr (map demo_signed_json [1..20])), (''pqLastResortPrekey'', demo_signed_json 21)]"

definition demo_open_db :: relay_db where
  "demo_open_db = demo_db\<lparr>access_requests := access_requests demo_db @
     [\<lparr>ar_id = ''r4'', ar_name = ''dave'', ar_status = A_Approved,
       ar_code_hash = Some ''63'', ar_attempts = 2, ar_expires = Some 20,
       ar_used = None, ar_created = 0, ar_decided = None\<rparr>]\<rparr>"

lemma demo_open_ok: "db_ok demo_open_db"
proof -
  have "filter (\<lambda>r. ar_status r = A_Activated) (access_requests demo_open_db) = access_requests demo_db"
    by (simp add: demo_open_db_def demo_defs)
  then have "{r \<in> set (access_requests demo_open_db). ar_status r = A_Activated} = set (access_requests demo_db)"
    by (metis set_filter)
  then have "access_ok demo_open_db"
    unfolding access_ok_def by (simp add: demo_open_db_def demo_defs unique_key_def)
  then show ?thesis unfolding demo_open_db_def by (rule db_ok_access_requests [OF demo_db_ok])
qed

definition demo_activated :: "(relay_db \<times> activated reply) option" where
  "demo_activated = access_activate demo_relay_env False 10 10 10 ''u4'' [1, 2, 3] demo_activation demo_open_db"

lemma demo_activated_eval:
  "map_option snd demo_activated = Some (Done 201 \<lparr>av_token = ''AQID'', av_expires = 86400010, av_user = ''u4'',
     av_device = ''d4'', av_name = ''dave'', av_uid = Some ''CP-6370-2D70''\<rparr>)"
  by code_simp

lemma demo_activated_eq:
  "access_activate demo_relay_env False 10 10 10 ''u4'' [1, 2, 3] demo_activation demo_open_db =
     Some (fst (the demo_activated), Done 201 \<lparr>av_token = ''AQID'', av_expires = 86400010, av_user = ''u4'',
       av_device = ''d4'', av_name = ''dave'', av_uid = Some ''CP-6370-2D70''\<rparr>)"
  using demo_activated_eval by (cases demo_activated) (auto simp: demo_activated_def)

theorem activation_creates_one_account_witness:
  "\<exists>r uid. users (fst (the demo_activated)) = users demo_open_db @ [new_user r ''u4'' uid]"
  using activation_creates_one_account [OF demo_activated_eq demo_open_ok] by blast

end
