(* ===== verification/Relay_Data_Properties.thy ===== *)
theory Relay_Data_Properties
  imports Relay_Properties
begin

text \<open>
  The properties of the routes that keep data for the devices: mailboxes, prekeys, backups,
  attachments, blind dropboxes, the signal budget, the operator's routes and the contact invites.
\<close>

section \<open>Access\<close>

text \<open>
  After five counted attempts an approved access request accepts no code any more, the right one
  included: whatever is presented, no account is created and the database stays as it is.
\<close>

theorem activation_locked:
  assumes "db_ok db" and "activation_schema (uuid_ok env) body = Some p"
    and "r \<in> set (access_requests db)" and "ar_id r = to_lower (ac_request p)"
    and "ar_status r = A_Approved" and "5 \<le> ar_attempts r"
    and "access_activate env fault now now' dbnow user_id rnd body db = Some (db', rep)"
  shows "db' = db \<and> (\<exists>c e. rep = Fail c e)"
  using assms(7)
proof (cases rule: activate_cases)
  case unchanged
  then show ?thesis by (cases rep) auto
next
  case (guess p' r')
  with assms(2-6) have "r' = r" using db_ok_parts(2) [OF assms(1)] by (auto simp: access_ok_def dest: unique_keyD)
  with guess assms(6) show ?thesis by simp
next
  case (again p' r' u d)
  with assms(2-5) have "r' = r" using db_ok_parts(2) [OF assms(1)] by (auto simp: access_ok_def dest: unique_keyD)
  with again assms(5) show ?thesis by simp
next
  case (created p' r' uid)
  with assms(2-6) have "r' = r" using db_ok_parts(2) [OF assms(1)] by (auto simp: access_ok_def dest: unique_keyD)
  with created assms(6) show ?thesis by simp
qed

definition demo_locked_request :: access_request where
  "demo_locked_request =
     \<lparr>ar_id = ''r4'', ar_name = ''dave'', ar_status = A_Approved, ar_code_hash = Some ''63'', ar_attempts = 5,
      ar_expires = Some 20, ar_used = None, ar_created = 0, ar_decided = None\<rparr>"

definition demo_locked_db :: relay_db where
  "demo_locked_db = demo_db\<lparr>access_requests := access_requests demo_db @ [demo_locked_request]\<rparr>"

lemma demo_locked_ok: "db_ok demo_locked_db"
proof -
  have "filter (\<lambda>r. ar_status r = A_Activated) (access_requests demo_locked_db) = access_requests demo_db"
    by (simp add: demo_locked_db_def demo_locked_request_def demo_defs)
  then have "{r \<in> set (access_requests demo_locked_db). ar_status r = A_Activated} = set (access_requests demo_db)"
    by (metis set_filter)
  then have "access_ok demo_locked_db"
    unfolding access_ok_def by (simp add: demo_locked_db_def demo_locked_request_def demo_defs unique_key_def)
  then show ?thesis unfolding demo_locked_db_def by (rule db_ok_access_requests [OF demo_db_ok])
qed

theorem activation_locked_witness:
  "access_activate demo_relay_env False 10 10 10 ''u4'' [1, 2, 3] demo_activation demo_locked_db
     = Some (demo_locked_db, Fail 429 ''ACTIVATION_ATTEMPTS_EXCEEDED'')"
proof -
  have "map_option snd (access_activate demo_relay_env False 10 10 10 ''u4'' [1, 2, 3] demo_activation demo_locked_db)
      = Some (Fail 429 ''ACTIVATION_ATTEMPTS_EXCEEDED'')" by code_simp
  then obtain db' where a: "access_activate demo_relay_env False 10 10 10 ''u4'' [1, 2, 3] demo_activation demo_locked_db
      = Some (db', Fail 429 ''ACTIVATION_ATTEMPTS_EXCEEDED'')" by auto
  obtain p where p: "activation_schema (uuid_ok demo_relay_env) demo_activation = Some p"
    and "to_lower (ac_request p) = ''r4''"
  proof -
    have "map_option (\<lambda>p. to_lower (ac_request p)) (activation_schema (uuid_ok demo_relay_env) demo_activation) = Some ''r4''"
      by code_simp
    then show thesis using that by auto
  qed
  then have "ar_id demo_locked_request = to_lower (ac_request p)" by (simp add: demo_locked_request_def)
  moreover have "demo_locked_request \<in> set (access_requests demo_locked_db)" by (simp add: demo_locked_db_def)
  moreover have "ar_status demo_locked_request = A_Approved" "5 \<le> ar_attempts demo_locked_request"
    by (simp_all add: demo_locked_request_def)
  ultimately have "db' = demo_locked_db" using activation_locked [OF demo_locked_ok p _ _ _ _ a] by blast
  with a show ?thesis by simp
qed

text \<open>
  C38. The search for a public UID, a loop without a bound in the code, returns as soon as one of its
  candidates is free, and what it returns is then held by no user.
\<close>

theorem public_uid_found:
  assumes "\<not> uid_taken db (uid_candidate (format_public_uid (sha256 env)) user_id k)"
  shows "\<exists>u. choose_uid env user_id db = Some u \<and> \<not> uid_taken db u"
  using free_uid_returns [of "uid_taken db" "format_public_uid (sha256 env)" user_id 0 k] assms free_uid_not_taken
  unfolding choose_uid_def by (metis add_0)

theorem public_uid_found_witness:
  "\<exists>u. choose_uid demo_relay_env ''u4'' demo_db = Some u \<and> \<not> uid_taken demo_db u"
proof (rule public_uid_found [where k = 0])
  show "\<not> uid_taken demo_db (uid_candidate (format_public_uid (sha256 demo_relay_env)) ''u4'' 0)" by code_simp
qed

section \<open>Mailboxes and prekeys\<close>




text \<open>
  C9. Over any sequence of bundle requests, whoever sends them, no one-time prekey of a device is
  handed out twice (an upload of the same key id makes it available again).
\<close>

theorem one_time_prekeys_once:
  assumes "db_ok (fst st)"
  shows "distinct (run_takes (hand_otp env) qs st)"
  using assms by (rule otp_store.takes_distinct)

definition demo_bundle_request :: bundle_request where
  "demo_bundle_request =
     \<lparr>br_fault = False, br_late_fault = False, br_ties = (0, 0, 0, 0), br_now = 10, br_requester = ''d1'',
      br_body = JObj [(''recipientDeviceId'', JStr ''d2'')]\<rparr>"

theorem one_time_prekeys_once_witness:
  "distinct (run_takes (hand_otp demo_relay_env) [demo_bundle_request, demo_bundle_request, demo_bundle_request] (demo_db, []))
   \<and> run_takes (hand_otp demo_relay_env) [demo_bundle_request, demo_bundle_request, demo_bundle_request] (demo_db, [])
     = [(''d2'', 1), (''d2'', 2)]"
proof
  show "distinct (run_takes (hand_otp demo_relay_env) [demo_bundle_request, demo_bundle_request, demo_bundle_request] (demo_db, []))"
    by (rule one_time_prekeys_once) (simp add: demo_db_ok)
qed code_simp

text \<open>
  The same for the post-quantum one-time prekeys; the last-resort key is not one of them.
\<close>

theorem pq_prekeys_once:
  assumes "db_ok (fst st)"
  shows "distinct (run_takes (hand_pq env) qs st)"
  using assms by (rule pq_store.takes_distinct)

theorem pq_prekeys_once_witness:
  "distinct (run_takes (hand_pq demo_relay_env) [demo_bundle_request, demo_bundle_request] (demo_db, []))
   \<and> run_takes (hand_pq demo_relay_env) [demo_bundle_request, demo_bundle_request] (demo_db, []) = [(''d2'', 1), (''d2'', 2)]"
proof
  show "distinct (run_takes (hand_pq demo_relay_env) [demo_bundle_request, demo_bundle_request] (demo_db, []))"
    by (rule pq_prekeys_once) (simp add: demo_db_ok)
qed code_simp

text \<open>
  The id of a stored envelope goes out as it came in: 32 hexadecimal digits become a UUID for the
  database and the same digits, in lower case, for the recipient.
\<close>

theorem envelope_id_roundtrip:
  assumes "length h = 32" and "list_all is_hex h"
  shows "uuid_to_hex (hex_to_uuid h) = to_lower h"
  by (rule uuid_to_hex_to_uuid [OF assms])

theorem envelope_id_roundtrip_witness:
  "uuid_to_hex (hex_to_uuid ''00112233445566778899AABBCCDDEEFF'') = to_lower ''00112233445566778899AABBCCDDEEFF''"
  by (rule envelope_id_roundtrip) code_simp+

section \<open>Backups\<close>

text \<open>What a successful \<open>put\<close> stores.\<close>

lemma write_backup_find:
  assumes "write_backup env b db = Inr db'"
  shows "find_backup t db' = (if t = bp_token b
     then Some (backup_row env b (case find_backup t db of None \<Rightarrow> b64_decode (bp_writer b) | Some x \<Rightarrow> bk_writer x))
     else find_backup t db)"
proof -
  from assms have db': "db' = db\<lparr>backups := upsert bk_token (\<lambda>x. backup_row env b (bk_writer x))
             (backup_row env b (b64_decode (bp_writer b))) (backups db)\<rparr>"
    by (simp add: write_backup_def split: if_splits)
  have tok: "bk_token (backup_row env b w) = bp_token b" for w by (simp add: backup_row_def)
  show ?thesis
  proof (cases "has_row (\<lambda>x. bk_token x = bp_token b) (backups db)")
    case True
    have "List.find (\<lambda>x. bk_token x = t) (update_where (\<lambda>x. bk_token x = bp_token b) (\<lambda>x. backup_row env b (bk_writer x)) rs)
      = (if t = bp_token b then map_option (\<lambda>x. backup_row env b (bk_writer x)) (List.find (\<lambda>x. bk_token x = t) rs)
         else List.find (\<lambda>x. bk_token x = t) rs)" for rs
      by (induction rs) (auto simp: update_where_def tok)
    moreover have "List.find (\<lambda>x. bk_token x = bp_token b) (backups db) \<noteq> None"
      using True by (simp add: find_None_not_has_row)
    ultimately show ?thesis using True by (auto simp: db' find_backup_def upsert_def tok)
  next
    case False
    then have "List.find (\<lambda>x. bk_token x = bp_token b) (backups db) = None" by (simp add: find_None_not_has_row)
    with False show ?thesis
      by (auto simp: db' find_backup_def upsert_def tok find_append split: option.splits)
  qed
qed

text \<open>
  C10. A vault backup is replaced only by its own writer and only by the next version: a successful
  write was signed by the presented key; a first write has version 1; a later one has the pinned key of
  the first and advances the version by one, or is a replay of the stored backup that leaves its version
  and writer; the backups under other tokens stay.
\<close>

theorem backup_versions_advance:
  assumes "put_backup env fault token digest body db = (db', Done k r)"
  shows "\<exists>b. backup_put_schema (uuid_ok env) (datetime_ok env) body = Some b \<and>
    verify env (b64_decode (bp_writer b)) (backup_signing_payload b) (b64_decode (bp_signature b)) = Some True \<and>
    (case find_backup (bp_token b) db of
       None \<Rightarrow> bp_version b = 1
     | Some o1 \<Rightarrow> bk_writer o1 = b64_decode (bp_writer b) \<and>
         (bp_version b = bk_version o1 + 1 \<or> bp_version b = bk_version o1 \<and> same_backup env b o1)) \<and>
    (\<exists>n. find_backup (bp_token b) db' = Some n \<and> bk_writer n = b64_decode (bp_writer b) \<and>
      (bk_version n = bp_version b \<or> find_backup (bp_token b) db = Some n \<and> same_backup env b n)) \<and>
    (\<forall>t. t \<noteq> bp_token b \<longrightarrow> find_backup t db' = find_backup t db)"
  using assms
proof (cases rule: put_backup_cases)
  case (written b)
  from written(2) show ?thesis
  proof (rule put_tx_commit)
    fix db1
    let ?old = "find_backup (bp_token b) db"
    assume c: "check_device_proof env b (identical_backup env b ?old) db = Inr (Inr db1)"
      and nc: "\<not> backup_conflict env b ?old"
      and f: "identical_backup env b ?old \<and> \<not> bp_claim b \<and> db' = db1 \<or> write_backup env b db1 = Inr db'"
    have same: "backups db1 = backups db"
      using c
    proof (cases rule: check_device_proof_cases)
      case (proved d inst sig dev)
      have lock: "backups x = backups db" if "set_lock (to_lower d) inst db = Inr x" for x
        using set_lock_frame [OF that] by simp
      from proved(7) lock show ?thesis by (auto simp: take_over_def try_then_Inr_iff split: if_splits)
    qed simp
    have fb: "find_backup t db1 = find_backup t db" for t by (simp add: find_backup_def same)
    have old: "case ?old of None \<Rightarrow> bp_version b = 1
     | Some o1 \<Rightarrow> bk_writer o1 = b64_decode (bp_writer b) \<and>
         (bp_version b = bk_version o1 + 1 \<or> bp_version b = bk_version o1 \<and> same_backup env b o1)"
      using nc by (cases ?old) (auto simp: backup_conflict_def identical_backup_def old_version_def)
    have stored: "(\<exists>n. find_backup (bp_token b) db' = Some n \<and> bk_writer n = b64_decode (bp_writer b) \<and>
      (bk_version n = bp_version b \<or> ?old = Some n \<and> same_backup env b n)) \<and>
      (\<forall>t. t \<noteq> bp_token b \<longrightarrow> find_backup t db' = find_backup t db)"
      using f
    proof
      assume i: "identical_backup env b ?old \<and> \<not> bp_claim b \<and> db' = db1"
      then obtain n where "?old = Some n" "same_backup env b n" by (auto simp: identical_backup_def split: option.splits)
      with i fb show ?thesis by (simp add: same_backup_def)
    next
      assume w: "write_backup env b db1 = Inr db'"
      have "bk_version (backup_row env b x) = bp_version b" "bk_writer (backup_row env b x) = x" for x
        by (simp_all add: backup_row_def)
      with write_backup_find [OF w] fb old show ?thesis by (auto split: option.splits)
    qed
    from written(1,5) old conjunct1 [OF stored] conjunct2 [OF stored] show ?thesis
      by (intro exI [of _ b] conjI)
  qed
qed simp

text \<open>
  C39. The bytes that a backup is signed over determine every field of the request but the signature:
  a signature cannot be moved to another token, version, ciphertext, device or claim.
\<close>

theorem backup_payload_binds:
  assumes "backup_signing_payload a = backup_signing_payload b"
  shows "b = a\<lparr>bp_signature := bp_signature b\<rparr>"
  by (rule backup_payload_fields [OF assms])

definition demo_put :: "string \<Rightarrow> int \<Rightarrow> backup_put" where
  "demo_put sig v =
     \<lparr>bp_token = replicate 64 (CHR ''0''), bp_version = v, bp_nonce = b64_encode (replicate 12 0),
      bp_ciphertext = b64_encode (replicate 16 0), bp_updated = ''now'', bp_fragment = ''QUJD'',
      bp_writer = b64_encode (replicate 44 0), bp_signature = sig, bp_device = None, bp_instance = None,
      bp_device_signature = None, bp_claim = False\<rparr>"

theorem backup_payload_binds_witness:
  "demo_put ''B'' 1 = (demo_put ''A'' 1)\<lparr>bp_signature := bp_signature (demo_put ''B'' 1)\<rparr>"
  by (rule backup_payload_binds) (simp add: backup_signing_payload_def demo_put_def)

definition demo_backup_env :: relay_env where
  "demo_backup_env = demo_relay_env\<lparr>verify := (\<lambda>k m s. Some True)\<rparr>"

definition demo_put_body :: json where
  "demo_put_body = JObj
     [(''lookupToken'', JStr (replicate 64 (CHR ''0''))), (''version'', JInt 1),
      (''nonce'', JStr (b64_encode (replicate 12 0))), (''ciphertext'', JStr (b64_encode (replicate 16 0))),
      (''updatedAt'', JStr ''now''), (''fragment7Shard'', JStr ''QUJD''),
      (''writerPublicKey'', JStr (b64_encode (replicate 44 0))), (''signature'', JStr ''QUJD'')]"

lemma demo_base64:
  "is_base64 (b64_encode (replicate 12 0))" "is_base64 (b64_encode (replicate 16 0))"
  "is_base64 (b64_encode (replicate 44 0))" "is_base64 ''QUJD''"
  by code_simp+

lemma demo_put_schema:
  "backup_put_schema (uuid_ok demo_backup_env) (datetime_ok demo_backup_env) demo_put_body = Some (demo_put ''QUJD'' 1)"
  by (simp add: backup_put_schema_def required_def optional_def is_obj_def field_def demo_put_body_def demo_put_def
      base64_max_def base64_length_def string_where_def lookup_token_schema_def int_range_def int_where_def
      max_safe_integer_def demo_base64 length_b64_encode is_lower_hex_of_def list_all_iff is_hex_lower_def
      is_digit_def code_def demo_backup_env_def demo_relay_env_def)

lemma demo_put_done:
  "put_backup demo_backup_env False None None demo_put_body demo_db =
     (fst (put_backup demo_backup_env False None None demo_put_body demo_db), Done 200 \<lparr>pr_version = 1, pr_skipped = False\<rparr>)"
proof -
  have "find_backup t demo_db = None" for t by (simp add: find_backup_def demo_defs)
  then have "snd (put_backup demo_backup_env False None None demo_put_body demo_db) = Done 200 \<lparr>pr_version = 1, pr_skipped = False\<rparr>"
    unfolding put_backup_def demo_put_schema
    by (simp add: put_rejected_def demo_put_def b64_decode_encode verify_challenge_def demo_backup_env_def Let_def
        put_tx_def backup_conflict_def identical_backup_def old_version_def check_device_proof_def write_backup_def)
  then show ?thesis by (metis prod.collapse)
qed

theorem backup_versions_advance_witness:
  "\<exists>(b :: backup_put) n. bp_version b = 1 \<and> find_backup (bp_token b) (fst (put_backup demo_backup_env False None None demo_put_body demo_db)) = Some n"
proof -
  have none: "find_backup t demo_db = None" for t by (simp add: find_backup_def demo_defs)
  from backup_versions_advance [OF demo_put_done] none show ?thesis by auto
qed

section \<open>Attachments\<close>

text \<open>
  A chunk is stored only for the device that announced the blob, at an index below the announced
  number of chunks, with a nonce of 12 bytes and a ciphertext of at most 64 KiB and a tag, and it
  replaces no other chunk.
\<close>

theorem chunk_upload_guarded:
  assumes "upload_chunk env fault d blob_id body db = (db', Done k r)"
  shows "\<exists>u b. chunk_upload_schema body = Some u \<and> find_blob (to_lower blob_id) db = Some b \<and> bl_owner b = d \<and>
    0 \<le> cu_index u \<and> cu_index u < bl_chunks b \<and> length (b64_decode (cu_nonce u)) = 12 \<and>
    16 \<le> length (b64_decode (cu_ciphertext u)) \<and> length (b64_decode (cu_ciphertext u)) \<le> 65552 \<and>
    db' = store_chunk (to_lower blob_id) (cu_index u) (b64_decode (cu_nonce u)) (b64_decode (cu_ciphertext u)) db \<and>
    (\<forall>i j. (i, j) \<noteq> (to_lower blob_id, cu_index u) \<longrightarrow>
       List.find (\<lambda>c. (ch_blob c, ch_index c) = (i, j)) (chunks db') =
       List.find (\<lambda>c. (ch_blob c, ch_index c) = (i, j)) (chunks db))"
proof -
  from assms obtain u b where s: "chunk_upload_schema body = Some u" "find_blob (to_lower blob_id) db = Some b"
    "bl_owner b = d" "cu_index u < bl_chunks b" "length (b64_decode (cu_nonce u)) = 12"
    "16 \<le> length (b64_decode (cu_ciphertext u))" "length (b64_decode (cu_ciphertext u)) \<le> 65552"
    "db' = store_chunk (to_lower blob_id) (cu_index u) (b64_decode (cu_nonce u)) (b64_decode (cu_ciphertext u)) db"
    by (auto simp: upload_chunk_def Let_def split: if_splits option.splits)
  moreover have "0 \<le> cu_index u"
    using s(1) by (auto simp: chunk_upload_schema_def required_def nonneg_int_def int_where_Some bind_eq_Some_conv)
  moreover have "List.find (\<lambda>c. (ch_blob c, ch_index c) = (i, j)) (chunks db') =
       List.find (\<lambda>c. (ch_blob c, ch_index c) = (i, j)) (chunks db)"
    if "(i, j) \<noteq> (to_lower blob_id, cu_index u)" for i j
  proof -
    let ?f = "\<lambda>c. c\<lparr>ch_nonce := b64_decode (cu_nonce u), ch_ciphertext := b64_decode (cu_ciphertext u)\<rparr>"
    let ?r = "\<lparr>ch_blob = to_lower blob_id, ch_index = cu_index u, ch_nonce = b64_decode (cu_nonce u),
      ch_ciphertext = b64_decode (cu_ciphertext u)\<rparr>"
    have e: "chunks db' = upsert (\<lambda>c. (ch_blob c, ch_index c)) ?f ?r (chunks db)" by (simp add: s(8) store_chunk_def)
    show ?thesis unfolding e by (rule trans [OF find_upsert]) (use that in auto)
  qed
  ultimately show ?thesis by blast
qed

definition demo_chunk :: json where
  "demo_chunk = JObj [(''chunkIndex'', JInt 0), (''nonce'', JStr (b64_encode (replicate 12 0))),
     (''ciphertext'', JStr (b64_encode (replicate 16 0)))]"

definition demo_blob_db :: relay_db where
  "demo_blob_db = demo_db\<lparr>blobs := [\<lparr>bl_id = ''b1'', bl_owner = ''d1'', bl_chunks = 1, bl_size = 0\<rparr>]\<rparr>"

lemma demo_chunk_done:
  "upload_chunk demo_relay_env False ''d1'' ''b1'' demo_chunk demo_blob_db =
     (store_chunk ''b1'' 0 (replicate 12 0) (replicate 16 0) demo_blob_db, Done 200 ())"
proof -
  have low: "to_lower ''b1'' = ''b1''" by code_simp
  show ?thesis
    by (simp add: upload_chunk_def demo_chunk_def chunk_upload_schema_def required_def field_def nonneg_int_def
        int_where_def max_safe_integer_def base64_schema_def string_where_def demo_base64 find_blob_def low
        b64_decode_encode demo_blob_db_def demo_relay_env_def)
qed

theorem chunk_upload_guarded_witness:
  "\<exists>b. find_blob (to_lower ''b1'') demo_blob_db = Some b \<and> bl_owner b = ''d1'' \<and> 0 < bl_chunks b"
  using chunk_upload_guarded [OF demo_chunk_done] by fastforce

section \<open>WebRTC signals\<close>

text \<open>
  Whatever order requests of all pairs arrive in, as long as the clock does not run backwards, at
  most 30 signals of one pair of users are let through in any window of a minute, both directions
  together; the clean-up of stale pairs loses no signal that still counts.
\<close>

theorem signal_budget_window:
  assumes "sorted (map (\<lambda>q. snd (snd q)) qs)"
  shows "length (in_window m (pair_times k (run_budget qs []))) \<le> 30"
proof (cases qs)
  case Nil
  then show ?thesis by (simp add: in_window_def pair_times_def)
next
  case (Cons q qs')
  have "tracks [] [] (snd (snd q))" by (simp add: tracks_def times_of_def pair_times_def recent_def)
  from run_budget_window [OF this, where qs = qs and k = k] assms Cons show ?thesis
    by (simp add: pair_times_def in_window_def)
qed

theorem signal_budget_window_witness:
  "length (in_window 70000 (pair_times ''a:b'' (run_budget [(''a'', ''b'', 1), (''b'', ''a'', 2), (''a'', ''c'', 3), (''a'', ''b'', 60002)] []))) \<le> 30"
  by (rule signal_budget_window) simp

text \<open>
  The budget never holds more than 10,000 pairs, whatever is requested.
\<close>

theorem signal_budget_bounded: "length (budget_after qs []) \<le> 10000"
  using budget_after_ok [of "[]" qs] by (simp add: budget_ok_def)

text \<open>
  A signal is delivered only from the public UID of the sending device's own active user, to the
  socket of an active device whose active user has the named UID and a permission with the sender,
  while the sender was still authorized and within the signal's time to live; nothing but this one
  socket and the budget changes, and the database does not take part at all.
\<close>

theorem signal_delivery_guarded:
  assumes "forward_signal env fault a1 a2 received now_b now_d d input db (b, cs) = ((b', cs'), Inr r)"
    and "sg_delivered r"
  shows "\<exists>s u p. webrtc_signal_schema (uuid_ok env) input = Some s \<and> a1 \<and> a2 \<and> active_user d db = Some u \<and>
    us_uid u = Some (ws_from s) \<and> ws_from s \<noteq> ws_to s \<and> p \<in> set (devices db) \<and> dv_revoked p = None \<and>
    permitted db (dv_user p) (us_id u) \<and>
    (\<exists>w \<in> set (users db). us_id w = dv_user p \<and> us_uid w = Some (ws_to s) \<and> us_revoked w = None) \<and>
    now_d - received < ws_ttl s \<and> sent_to (dv_id p) cs' = sent_to (dv_id p) cs @ [Signal_Frame s] \<and>
    (\<forall>e. e \<noteq> dv_id p \<longrightarrow> map_get cs' e = map_get cs e)"
proof -
  from assms obtain s u p b1 where s: "webrtc_signal_schema (uuid_ok env) input = Some s" "a1" "a2"
    "active_user d db = Some u" "us_uid u = Some (ws_from s)" "ws_from s \<noteq> ws_to s"
    "signal_peer (ws_to s) (us_id u) db = Some p" "now_d - received < ws_ttl s"
    "notify_client (dv_id p) (Signal_Frame s) (Some (256 * 1024)) cs = (cs', True)"
    by (auto simp: forward_signal_def Let_def undelivered_def not_le
        split: option.splits if_splits prod.splits)
  from find_SomeD [OF s(7) [unfolded signal_peer_def]]
  have p: "p \<in> set (devices db)" "dv_revoked p = None" "permitted db (dv_user p) (us_id u)"
    "\<exists>w \<in> set (users db). us_id w = dv_user p \<and> us_uid w = Some (ws_to s) \<and> us_revoked w = None"
    by (auto simp: has_row_iff)
  have "sent_to (dv_id p) cs' = sent_to (dv_id p) cs @ [Signal_Frame s]"
    using notify_client_sent(1) [OF s(9)] by simp
  moreover have "map_get cs' e = map_get cs e" if "e \<noteq> dv_id p" for e
    using notify_client_only [OF that, of "Signal_Frame s" "Some (256 * 1024)" cs] s(9) by simp
  ultimately show ?thesis using s(1-6,8) p by blast
qed

definition demo_signal :: json where
  "demo_signal = JObj
     [(''type'', JStr ''WEBRTC_SIGNAL''), (''signalId'', JStr ''s''), (''fromUid'', JStr ''CP-1111-1111''),
      (''toUid'', JStr ''CP-2222-2222''), (''sessionId'', JStr ''x''), (''signalType'', JStr ''OFFER''),
      (''encryptedSignalPayload'', JStr ''QUJD'')]"

definition demo_signal_value :: webrtc_signal where
  "demo_signal_value =
     \<lparr>ws_signal = ''s'', ws_from = ''CP-1111-1111'', ws_to = ''CP-2222-2222'', ws_session = ''x'', ws_kind = ''OFFER'',
      ws_payload = ''QUJD'', ws_ttl = 30000, ws_capabilities = None\<rparr>"

lemma demo_public_uid:
  "public_uid_schema (JStr ''CP-1111-1111'') = Some ''CP-1111-1111''"
  "public_uid_schema (JStr ''CP-2222-2222'') = Some ''CP-2222-2222''"
  by code_simp+

lemma demo_signal_schema: "webrtc_signal_schema (uuid_ok demo_relay_env) demo_signal = Some demo_signal_value"
  by (simp add: webrtc_signal_schema_def demo_signal_def only_keys_def required_def optional_def is_obj_def field_def
      enum_of_def string_where_def demo_public_uid demo_base64 signal_kinds_def demo_relay_env_def demo_signal_value_def)

definition demo_signal_db :: relay_db where
  "demo_signal_db = demo_db\<lparr>users := [demo_user ''u1'' ''alice'' ''CP-1111-1111'', demo_user ''u2'' ''bob'' ''CP-2222-2222'']\<rparr>"

definition demo_forward :: "(budget \<times> clients) \<times> (signal_error + signal_result)" where
  "demo_forward = forward_signal demo_relay_env False True True 10 11 12 ''d1'' demo_signal demo_signal_db ([], [(''d2'', new_socket 1)])"

lemma demo_forward_eq:
  "forward_signal demo_relay_env False True True 10 11 12 ''d1'' demo_signal demo_signal_db ([], [(''d2'', new_socket 1)])
     = ((fst (fst demo_forward), snd (fst demo_forward)), Inr \<lparr>sg_delivered = True, sg_reason = None\<rparr>)"
proof -
  have u: "active_user ''d1'' demo_signal_db = Some (demo_user ''u1'' ''alice'' ''CP-1111-1111'')"
    and p: "signal_peer ''CP-2222-2222'' ''u1'' demo_signal_db = Some (demo_device ''d2'' ''u2'')"
    by code_simp+
  have b: "snd (budget_take ''CP-1111-1111'' ''CP-2222-2222'' 11 [])"
    by (simp add: budget_take_def Let_def times_of_def recent_def)
  then obtain b1 where b1: "budget_take ''CP-1111-1111'' ''CP-2222-2222'' 11 [] = (b1, True)" by (metis prod.collapse)
  have "snd demo_forward = Inr \<lparr>sg_delivered = True, sg_reason = None\<rparr>"
    unfolding demo_forward_def forward_signal_def demo_signal_schema
    by (simp add: u p b1 demo_signal_value_def demo_user_def demo_device_def notify_client_def map_get_def
        accepts_def new_socket_def)
  then show ?thesis by (metis demo_forward_def prod.collapse)
qed

theorem signal_delivery_guarded_witness:
  "\<exists>(s :: webrtc_signal) u p. us_uid u = Some (ws_from s) \<and> p \<in> set (devices demo_signal_db) \<and> permitted demo_signal_db (dv_user p) (us_id (u :: user))"
  using signal_delivery_guarded [OF demo_forward_eq] by auto

section \<open>The operator\<close>

text \<open>
  The database changes through the admin routes only for a request that carries the cookie of an
  unexpired admin session together with that session's CSRF token.
\<close>

theorem admin_change_guarded:
  assumes "ev = Ev_Approve f now dbnow header csrf aid \<or> ev = Ev_Reject_Appeal f now dbnow header csrf aid \<or>
    ev = Ev_Cancel f now dbnow header csrf aid other"
    and "rl_db (relay_handle env ev s) \<noteq> rl_db s"
  shows "\<exists>token a. cookie header admin_cookie = Some token \<and> token \<noteq> [] \<and> map_get (rl_admins s) token = Some a \<and>
    now < as_expires a \<and> (case csrf of [] \<Rightarrow> [] | h # _ \<Rightarrow> h) = as_csrf a"
proof -
  have "require_admin now ''POST'' header csrf (rl_admins s) = (rl_admins s, Inr ())"
    using assms(1)
  proof (elim disjE)
    assume e: "ev = Ev_Approve f now dbnow header csrf aid"
    obtain ss db r where g: "approve_appeal env f now dbnow header csrf aid (rl_admins s) (rl_db s) = (ss, db, r)"
      by (metis prod.collapse)
    with e assms(2) have "db \<noteq> rl_db s" by (simp add: relay_handle_def)
    with guarded_change(1) [OF g [unfolded approve_appeal_def]] show ?thesis .
  next
    assume e: "ev = Ev_Reject_Appeal f now dbnow header csrf aid"
    obtain ss db r where g: "reject_appeal env f now dbnow header csrf aid (rl_admins s) (rl_db s) = (ss, db, r)"
      by (metis prod.collapse)
    with e assms(2) have "db \<noteq> rl_db s" by (simp add: relay_handle_def)
    with guarded_change(1) [OF g [unfolded reject_appeal_def]] show ?thesis .
  next
    assume e: "ev = Ev_Cancel f now dbnow header csrf aid other"
    obtain ss db r where g: "cancel_connection env f now dbnow header csrf aid other (rl_admins s) (rl_db s) = (ss, db, r)"
      by (metis prod.collapse)
    with e assms(2) have "db \<noteq> rl_db s" by (simp add: relay_handle_def)
    with guarded_change(1) [OF g [unfolded cancel_connection_def]] show ?thesis .
  qed
  then show ?thesis by (rule require_admin_Inr) auto
qed

definition demo_admin :: relay where
  "demo_admin = demo_relay\<lparr>rl_db := demo_db\<lparr>appeals := [\<lparr>ap_id = ''a1'', ap_requester = ''u1'', ap_target = ''u2'',
       ap_status = P_Pending, ap_created = 0, ap_decided = None\<rparr>]\<rparr>,
     rl_admins := [(''tok'', \<lparr>as_csrf = ''csrf'', as_expires = 20\<rparr>)]\<rparr>"

definition demo_approve :: relay_event where
  "demo_approve = Ev_Approve False 10 10 (Some ''x=1; crypto_pigeon_admin=tok'') [''csrf''] ''a1''"

theorem admin_change_guarded_witness:
  "\<exists>a. map_get (rl_admins demo_admin) ''tok'' = Some a \<and> as_csrf a = ''csrf'' \<and>
     connections (rl_db (relay_handle demo_relay_env demo_approve demo_admin)) \<noteq> []"
proof -
  have n: "connections (rl_db (relay_handle demo_relay_env demo_approve demo_admin)) \<noteq> []" by code_simp
  have "connections (rl_db demo_admin) = []" by (simp add: demo_admin_def demo_relay_def demo_defs)
  with n have "rl_db (relay_handle demo_relay_env demo_approve demo_admin) \<noteq> rl_db demo_admin" by metis
  from admin_change_guarded [where ev = demo_approve and other = "''a2''", OF disjI1 [OF demo_approve_def] this]
  obtain token a where "map_get (rl_admins demo_admin) token = Some a" "as_csrf a = ''csrf''" by auto
  moreover have "token = ''tok''" if "map_get (rl_admins demo_admin) token = Some a" for token a
    using that by (auto simp: demo_admin_def map_get_def split: if_splits)
  ultimately show ?thesis using n by metis
qed

text \<open>
  A name that a user chose cannot break out of the dashboard's markup: its escaped form has no
  angle bracket, apostrophe or quotation mark.
\<close>

theorem dashboard_escaping: "set (escape_html s) \<inter> {CHR ''<'', CHR ''>'', apostrophe, quote_char} = {}"
  by (rule escape_html_safe)

section \<open>Contact exchange and blind dropboxes\<close>

text \<open>
  An acknowledged contact exchange is purged exactly when the peer had acknowledged it too; then
  no acknowledgement of the two and no accepted request between them is left; otherwise only the
  sender's acknowledgement is added and every request stays.
\<close>

theorem exchange_purged_iff_both:
  assumes "exchange_ack env fault d body db = (db', Done k purged)" and "db_ok db"
  shows "\<exists>own peer p. required ''peerDeviceId'' (string_where (uuid_ok env)) body = Some p \<and>
    exchange_user d d p db = Some own \<and> exchange_user p d p db = Some peer \<and> permitted db own peer \<and>
    (purged \<longleftrightarrow> (peer, own) \<in> set (exchange_acks db)) \<and>
    (if purged then (own, peer) \<notin> set (exchange_acks db') \<and> (peer, own) \<notin> set (exchange_acks db') \<and>
       (\<forall>r \<in> set (connection_requests db'). cr_status r = R_Accepted \<longrightarrow> {cr_requester r, cr_recipient r} \<noteq> {own, peer})
     else (own, peer) \<in> set (exchange_acks db') \<and> connection_requests db' = connection_requests db)"
proof -
  from assms(1) obtain p where p: "required ''peerDeviceId'' (string_where (uuid_ok env)) body = Some p"
    and run: "run_tx fault internal_error db (exchange_tx d p db) = (db', Done k purged)"
    by (auto simp: exchange_ack_def split: option.splits)
  from run have "exchange_tx d p db = Inr (db', Commit (Done k purged))"
  proof (cases rule: run_tx_cases)
    case unchanged
    have "\<not> (\<exists>s'. exchange_tx d p db = Inr (s', Rollback (Done k purged)))"
      by (auto simp: exchange_tx_def Let_def split: option.splits if_splits)
    with unchanged show ?thesis by auto
  qed
  then show ?thesis
  proof (rule exchange_tx_commit)
    fix own peer pg db1
    assume u: "exchange_user d d p db = Some own" "exchange_user p d p db = Some peer" "permitted db own peer"
      and r: "Done k purged = Done 200 pg"
      and db1: "db1 = db\<lparr>exchange_acks := insert_ignore (\<lambda>a. a) (own, peer) (exchange_acks db)\<rparr>"
      and pg: "pg \<longleftrightarrow> (peer, own) \<in> set (exchange_acks db1)"
      and db': "db' = (if pg then purge_exchange own peer db1 else db1)"
    have ne: "own \<noteq> peer"
      using u(3) db_ok_parts(4) [OF assms(2)] by (auto simp: permitted_def ordered_def has_row_iff contacts_ok_def)
    have pgd: "purged = pg" using r by simp
    have acks: "set (exchange_acks db1) = insert (own, peer) (set (exchange_acks db))"
      by (auto simp: db1 set_insert_ignore)
    have iff: "purged \<longleftrightarrow> (peer, own) \<in> set (exchange_acks db)" using pg ne by (simp add: pgd acks)
    have rest: "if purged then (own, peer) \<notin> set (exchange_acks db') \<and> (peer, own) \<notin> set (exchange_acks db') \<and>
       (\<forall>r \<in> set (connection_requests db'). cr_status r = R_Accepted \<longrightarrow> {cr_requester r, cr_recipient r} \<noteq> {own, peer})
     else (own, peer) \<in> set (exchange_acks db') \<and> connection_requests db' = connection_requests db"
    proof (cases purged)
      case True
      with db' pgd have "db' = purge_exchange own peer db1" by simp
      with True show ?thesis by (simp add: purge_exchange_def set_delete_where doubleton_eq_iff)
    next
      case False
      with db' pgd have "db' = db1" by simp
      with False acks show ?thesis by (simp add: db1)
    qed
    from p u iff rest show ?thesis by blast
  qed
qed

definition demo_exchange_body :: json where
  "demo_exchange_body = JObj [(''peerDeviceId'', JStr ''d2'')]"

definition demo_exchange_db :: relay_db where
  "demo_exchange_db = demo_db\<lparr>exchange_acks := [(''u2'', ''u1'')]\<rparr>"

theorem exchange_purged_iff_both_witness:
  "exchange_acks (fst (exchange_ack demo_relay_env False ''d1'' demo_exchange_body demo_exchange_db)) = [] \<and>
   (\<exists>own peer. permitted demo_exchange_db own peer \<and> (peer, own) \<in> set (exchange_acks demo_exchange_db))"
proof -
  have ok: "db_ok demo_exchange_db"
    unfolding demo_exchange_db_def by (rule blind_ok_acks [OF demo_db_ok]) simp
  have "snd (exchange_ack demo_relay_env False ''d1'' demo_exchange_body demo_exchange_db) = Done 200 True" by code_simp
  then have e: "exchange_ack demo_relay_env False ''d1'' demo_exchange_body demo_exchange_db =
      (fst (exchange_ack demo_relay_env False ''d1'' demo_exchange_body demo_exchange_db), Done 200 True)"
    by (metis prod.collapse)
  have "exchange_acks (fst (exchange_ack demo_relay_env False ''d1'' demo_exchange_body demo_exchange_db)) = []" by code_simp
  with exchange_purged_iff_both [OF e ok] show ?thesis by auto
qed

text \<open>
  A fetch from the blind dropboxes returns at most 256 envelopes, each of them stored, unexpired and
  in a dropbox whose 256-bit id the request names: without the id of a dropbox nothing in it is seen.
\<close>

theorem blind_fetch_bounded:
  assumes "blind_fetch env fault dbnow body db = Done k es"
  shows "\<exists>a. blind_access_schema (uuid_ok env) body = Some a \<and> length es \<le> 256 \<and>
    (\<forall>e \<in> set es. \<exists>m \<in> set (blind_messages db). e = blind_reply_of m \<and> bm_dropbox m \<in> set (ba_dropboxes a) \<and> dbnow < bm_expires m)"
proof -
  from assms obtain a where a: "blind_access_schema (uuid_ok env) body = Some a"
    and es: "es = map blind_reply_of (List.take 256 (sort_key bm_created
                 (filter (\<lambda>m. bm_dropbox m \<in> set (ba_dropboxes a) \<and> dbnow < bm_expires m) (blind_messages db))))"
    by (auto simp: blind_fetch_def split: option.splits if_splits)
  have "\<exists>m \<in> set (blind_messages db). e = blind_reply_of m \<and> bm_dropbox m \<in> set (ba_dropboxes a) \<and> dbnow < bm_expires m"
    if "e \<in> set es" for e
    using that unfolding es by (auto dest!: in_set_takeD)
  moreover have "length es \<le> 256" by (simp add: es)
  ultimately show ?thesis using a by blast
qed

definition demo_blind_db :: relay_db where
  "demo_blind_db = demo_db\<lparr>blind_messages := [\<lparr>bm_id = ''e1'', bm_dropbox = replicate 64 (CHR ''a''),
     bm_ciphertext = [1], bm_sender_hash = ''h'', bm_created = 1, bm_expires = 50\<rparr>]\<rparr>"

definition demo_fetch_body :: json where
  "demo_fetch_body = JObj [(''dropboxIds'', JArr [JStr (replicate 64 (CHR ''a''))])]"

theorem blind_fetch_bounded_witness:
  "\<exists>es. blind_fetch demo_relay_env False 10 demo_fetch_body demo_blind_db = Done 200 es \<and> length es \<le> 256 \<and> es \<noteq> []"
proof -
  have s: "blind_access_schema (uuid_ok demo_relay_env) demo_fetch_body =
      Some \<lparr>ba_dropboxes = [replicate 64 (CHR ''a'')], ba_envelopes = None\<rparr>"
    by (simp add: blind_access_schema_def demo_fetch_body_def required_def optional_def is_obj_def field_def array_len_def
        array_of_def string_where_def is_lower_hex_of_def list_all_iff is_hex_lower_def is_digit_def code_def)
  have f: "blind_fetch demo_relay_env False 10 demo_fetch_body demo_blind_db =
      Done 200 [\<lparr>br_id = ''e1'', br_dropbox = replicate 64 (CHR ''a''), br_ciphertext = b64_encode [1]\<rparr>]"
    unfolding blind_fetch_def s by (simp add: demo_blind_db_def demo_defs blind_reply_of_def)
  from blind_fetch_bounded [OF f] f show ?thesis by auto
qed

section \<open>Contact invites\<close>

text \<open>
  C40. An invite that was created is read back as the same invite, for every library that inflates what
  it deflated, parses what was printed and verifies what was signed.
\<close>

theorem invite_roundtrips:
  assumes "invite_env_ok e key v" and "create_invite e v key = Inr uri"
  shows "parse_invite e uri = Inr v"
  using assms by (rule invite_roundtrip)

theorem invite_roundtrips_witness:
  "\<exists>uri. create_invite demo_env demo_invite [1] = Inr uri \<and> parse_invite demo_env uri = Inr demo_invite"
  using demo_create [of "[1]"] invite_roundtrips [OF demo_env_ok] by blast

text \<open>
  An invite is accepted only if it is well-formed and its signature verifies, under the device key
  that it names itself, over bytes that determine all its fields.
\<close>

theorem invite_verified:
  assumes "parse_invite e uri = Inr v"
  shows "invite_ok (e_uuid_ok e) v \<and>
    (\<exists>s. e_verify e (b64_decode (iv_auth_key v)) (utf8 (json_array (invite_scalars v))) s = Some True) \<and>
    (\<forall>w. utf8 (json_array (invite_scalars w)) = utf8 (json_array (invite_scalars v)) \<longrightarrow> w = v)"
  using parse_invite_verified [OF assms] invite_bytes_inject by blast

theorem invite_verified_witness: "invite_ok (e_uuid_ok demo_env) demo_invite"
proof -
  obtain uri where "create_invite demo_env demo_invite [1] = Inr uri" using demo_create by blast
  then have "parse_invite demo_env uri = Inr demo_invite" by (rule invite_roundtrip [OF demo_env_ok])
  from invite_verified [OF this] show ?thesis by blast
qed

section \<open>Sockets\<close>

text \<open>
  The close event of a socket that was replaced by a newer connection of the same device leaves the
  newer socket registered.
\<close>

theorem late_close_keeps_successor:
  assumes "so_id w \<noteq> i"
  shows "map_get (socket_closed d i (fst (register_socket d w cs))) d = Some w"
  using late_close_harmless [OF assms] by (simp add: register_socket_def jsmap.lookup_put)

theorem late_close_keeps_successor_witness:
  "map_get (socket_closed ''d1'' 1 (fst (register_socket ''d1'' (new_socket 2) [(''d1'', new_socket 1)]))) ''d1'' = Some (new_socket 2)"
  by (rule late_close_keeps_successor) (simp add: new_socket_def)

end
