(* ===== verification/Daemon_Db.thy ===== *)
theory Daemon_Db
  imports Protocol
begin

text \<open>
  The state of the local daemon: the tables of the encrypted SQLite database that \<open>vault.ts\<close> and
  \<open>tor-transport.ts\<close> create, as lists of rows in \<open>rowid\<close> order, and the libraries the daemon calls.
  Foreign keys are enforced and deletions cascade, as the schema says and \<open>disappearing.ts\<close> relies on.
  Tables that no code reads or writes (\<open>identity_keys\<close>) and columns that are never used are left out.
\<close>

section \<open>Rows\<close>

record contact =
  ct_id :: string
  ct_name :: string
  ct_uid :: "string option"
  ct_identity :: bytes
  ct_verified :: bool
  ct_safety :: "string option"
  ct_changed :: bool
  ct_created :: ms

record conversation =
  co_id :: string
  co_contact :: string
  co_timer :: "int option"
  co_created :: ms

datatype direction = Sent | Received

record local_message =
  lm_id :: string
  lm_conversation :: string
  lm_direction :: direction
  lm_text :: string
  lm_sent :: "ms option"
  lm_received :: "ms option"
  lm_disappear :: "ms option"
  lm_remote :: "string option"
  lm_status :: string

record ratchet =
  ra_contact :: string
  ra_state :: bytes
  ra_updated :: ms

record outgoing =
  og_envelope :: string
  og_message :: string
  og_mailbox :: string
  og_ciphertext :: string
  og_created :: ms

record control =
  cb_envelope :: string
  cb_contact :: string
  cb_mailbox :: string
  cb_ciphertext :: string
  cb_created :: ms
  cb_expires :: "ms option"

record local_attachment =
  at_id :: string
  at_message :: string
  at_path :: "string option"
  at_name :: bytes
  at_size :: int
  at_hash :: bytes
  at_key :: bytes

record download =
  dl_attachment :: string
  dl_manifest :: string

record account =
  sa_identity :: bytes
  sa_registration :: int
  sa_user :: "string option"
  sa_device :: string
  sa_created :: ms

datatype activation_status = Act_Pending | Act_Activated

record activation_state =
  an_request :: string
  an_name :: string
  an_status :: activation_status
  an_expires :: "string option"
  an_updated :: ms

record remote_contact =
  rm_contact :: string
  rm_user :: string
  rm_device :: string
  rm_signal :: int

record access_claim =
  am_request :: string
  am_name :: string
  am_token :: string

record peer_profile =
  pp_contact :: string
  pp_name :: string
  pp_status :: string

record peer_onion =
  po_device :: string
  po_contact :: string
  po_onion :: string
  po_auth :: string
  po_invite :: string

record tor_blob =
  tb_id :: string
  tb_chunks :: int
  tb_size :: int
  tb_created :: ms

record tor_chunk =
  tc_blob :: string
  tc_index :: int
  tc_nonce :: string
  tc_ciphertext :: string

section \<open>The database\<close>

text \<open>Tables with \<open>singleton INTEGER PRIMARY KEY CHECK(singleton=1)\<close> hold at most one row.\<close>

record local_db =
  l_contacts :: "contact list"
  l_conversations :: "conversation list"
  l_messages :: "local_message list"
  l_ratchets :: "ratchet list"
  l_outbox :: "outgoing list"
  l_controls :: "control list"
  l_attachments :: "local_attachment list"
  l_downloads :: "download list"
  l_account :: "account option"
  l_auth_key :: "(bytes \<times> bytes) option"
  l_prekeys :: "(int \<times> bytes) list"
  l_signed_prekeys :: "(int \<times> bytes) list"
  l_kyber_prekeys :: "(int \<times> bytes) list"
  l_relay_token :: "string option"
  l_activation :: "activation_state option"
  l_remotes :: "remote_contact list"
  l_seen :: "(string \<times> ms) list"
  l_profile :: "(string \<times> string) option"
  l_peer_profiles :: "peer_profile list"
  l_links :: "(string \<times> string) list"
  l_pin :: "(bytes \<times> bytes) option"
  l_claim :: "access_claim option"
  l_instance :: "string option"
  l_public_uid :: "string option"
  l_tor_mode :: "string option"
  l_tor_identity :: "(string \<times> string) option"
  l_peer_onions :: "peer_onion list"
  l_tor_inbox :: "(string \<times> json) list"
  l_tor_links :: "(string \<times> string) list"
  l_tor_downloads :: "tor_chunk list"
  l_tor_blobs :: "tor_blob list"
  l_tor_chunks :: "tor_chunk list"

definition empty_local :: local_db where
  "empty_local =
     \<lparr>l_contacts = [], l_conversations = [], l_messages = [], l_ratchets = [], l_outbox = [],
      l_controls = [], l_attachments = [], l_downloads = [], l_account = None, l_auth_key = None,
      l_prekeys = [], l_signed_prekeys = [], l_kyber_prekeys = [], l_relay_token = None,
      l_activation = None, l_remotes = [], l_seen = [], l_profile = None, l_peer_profiles = [],
      l_links = [], l_pin = None, l_claim = None, l_instance = None, l_public_uid = None,
      l_tor_mode = None, l_tor_identity = None, l_peer_onions = [], l_tor_inbox = [], l_tor_links = [],
      l_tor_downloads = [], l_tor_blobs = [], l_tor_chunks = []\<rparr>"

section \<open>Libraries\<close>

text \<open>
  The functions of libsignal, which work on the sessions, identities and prekeys of the store that
  they are given (\<open>None\<close> or an \<open>Inl\<close> with the message is an exception), and of \<open>node:crypto\<close> and the
  JavaScript runtime. GCM ciphertexts carry their tag of 16 bytes at the end, as the code joins them.
\<close>

text \<open>\<open>ProtocolAddress.new(name, deviceId)\<close>.\<close>

type_synonym address = "string \<times> int"

text \<open>The arguments of \<open>PreKeyBundle.new\<close>.\<close>

record key_bundle =
  kb_registration :: int
  kb_device :: int
  kb_one_time :: "(int \<times> bytes) option"
  kb_signed :: "int \<times> bytes \<times> bytes"
  kb_identity :: bytes
  kb_kyber :: "int \<times> bytes \<times> bytes"

record daemon_env =
  address_text :: "address \<Rightarrow> string"
  sig_process :: "address \<Rightarrow> address \<Rightarrow> key_bundle \<Rightarrow> local_db \<Rightarrow> local_db \<times> (string + unit)"
  sig_encrypt :: "address \<Rightarrow> address \<Rightarrow> bytes \<Rightarrow> local_db \<Rightarrow> local_db \<times> (string + 8 word \<times> bytes)"
  sig_decrypt_prekey :: "address \<Rightarrow> address \<Rightarrow> bytes \<Rightarrow> local_db \<Rightarrow> local_db \<times> (string + bytes)"
  sig_decrypt :: "address \<Rightarrow> address \<Rightarrow> bytes \<Rightarrow> local_db \<Rightarrow> local_db \<times> (string + bytes)"
  sig_fingerprint :: "string \<Rightarrow> bytes \<Rightarrow> string \<Rightarrow> bytes \<Rightarrow> string"
  key_verify :: "bytes \<Rightarrow> (bytes \<Rightarrow> bytes \<Rightarrow> bool) option"
  identity_public :: "bytes \<Rightarrow> bytes"
  prekey_public :: "bytes \<Rightarrow> bytes"
  signed_parts :: "bytes \<Rightarrow> int \<times> bytes \<times> bytes"
  type_prekey :: "8 word"
  type_whisper :: "8 word"
  gcm_encrypt :: "bytes \<Rightarrow> bytes \<Rightarrow> bytes \<Rightarrow> bytes \<Rightarrow> bytes"
  gcm_decrypt :: "bytes \<Rightarrow> bytes \<Rightarrow> bytes \<Rightarrow> bytes \<Rightarrow> bytes option"
  cbc_encrypt :: "bytes \<Rightarrow> bytes \<Rightarrow> bytes \<Rightarrow> bytes"
  cbc_decrypt :: "bytes \<Rightarrow> bytes \<Rightarrow> bytes \<Rightarrow> bytes option"
  argon2id :: "string \<Rightarrow> bytes \<Rightarrow> int \<Rightarrow> int \<Rightarrow> int \<Rightarrow> bytes"
  hkdf :: "bytes \<Rightarrow> bytes \<Rightarrow> string \<Rightarrow> bytes"
  dg_sha256 :: "bytes \<Rightarrow> bytes"
  dg_verify :: verifier
  json_parse :: "string \<Rightarrow> json option"
  json_text :: "json \<Rightarrow> string"
  utf8_text :: "bytes \<Rightarrow> string"
  is_uuid :: "string \<Rightarrow> bool"

section \<open>Operations and transactions\<close>

text \<open>
  The asynchronous functions of the daemon run one at a time (\<open>serialized\<close> of \<open>server.ts\<close>). An operation
  takes the database, with whatever else it changes in memory, and returns them with its value or the
  message of the exception that it throws. What was written before an exception stays written, except
  within \<open>in_tx\<close> (\<open>BEGIN IMMEDIATE\<close>, \<open>COMMIT\<close>, and \<open>ROLLBACK\<close> in the \<open>catch\<close>).
\<close>

type_synonym ('x, 'a) daemon_op = "local_db \<times> 'x \<Rightarrow> (local_db \<times> 'x) \<times> (string + 'a)"

definition ret :: "'a \<Rightarrow> ('x, 'a) daemon_op" where
  "ret a s = (s, Inr a)"

definition throw :: "string \<Rightarrow> ('x, 'a) daemon_op" where
  "throw e s = (s, Inl e)"

definition bind_op :: "('x, 'a) daemon_op \<Rightarrow> ('a \<Rightarrow> ('x, 'b) daemon_op) \<Rightarrow> ('x, 'b) daemon_op" where
  "bind_op m f s = (case m s of (s', Inl e) \<Rightarrow> (s', Inl e) | (s', Inr a) \<Rightarrow> f a s')"

abbreviation then_op :: "('x, unit) daemon_op \<Rightarrow> ('x, 'b) daemon_op \<Rightarrow> ('x, 'b) daemon_op" where
  "then_op m k \<equiv> bind_op m (\<lambda>_. k)"

definition look :: "(local_db \<Rightarrow> 'a) \<Rightarrow> ('x, 'a) daemon_op" where
  "look f s = (s, Inr (f (fst s)))"

definition change :: "(local_db \<Rightarrow> local_db) \<Rightarrow> ('x, unit) daemon_op" where
  "change f s = ((f (fst s), snd s), Inr ())"

definition attempt :: "(local_db \<Rightarrow> string + local_db) \<Rightarrow> ('x, unit) daemon_op" where
  "attempt f s = (case f (fst s) of Inl e \<Rightarrow> (s, Inl e) | Inr db \<Rightarrow> ((db, snd s), Inr ()))"

definition value_of :: "(string + 'a) \<Rightarrow> ('x, 'a) daemon_op" where
  "value_of r s = (s, r)"

definition on_db :: "(local_db \<Rightarrow> local_db \<times> (string + 'a)) \<Rightarrow> ('x, 'a) daemon_op" where
  "on_db f s = (case f (fst s) of (db, r) \<Rightarrow> ((db, snd s), r))"

definition memory :: "('x \<Rightarrow> 'x) \<Rightarrow> ('x, unit) daemon_op" where
  "memory f s = ((fst s, f (snd s)), Inr ())"

definition in_tx :: "('x, 'a) daemon_op \<Rightarrow> ('x, 'a) daemon_op" where
  "in_tx m s = (case m s of ((_, x), Inl e) \<Rightarrow> ((fst s, x), Inl e) | (s', Inr a) \<Rightarrow> (s', Inr a))"

lemmas op_defs = ret_def throw_def look_def change_def attempt_def value_of_def on_db_def memory_def

text \<open>An operation keeps a property of the database, whatever it returns.\<close>

definition keeps :: "(local_db \<Rightarrow> bool) \<Rightarrow> ('x, 'a) daemon_op \<Rightarrow> bool" where
  "keeps P m \<longleftrightarrow> (\<forall>s. P (fst s) \<longrightarrow> P (fst (fst (m s))))"

named_theorems keeping \<open>operations that keep a property of the database\<close>

lemma keepsI: "(\<And>db x. P db \<Longrightarrow> P (fst (fst (m (db, x))))) \<Longrightarrow> keeps P m"
  by (auto simp: keeps_def)

lemma keepsD: "keeps P m \<Longrightarrow> m (db, x) = ((db', x'), r) \<Longrightarrow> P db \<Longrightarrow> P db'"
  unfolding keeps_def by (drule spec [of _ "(db, x)"]) simp

lemma keeps_simple [keeping]:
  "keeps P (ret a)" "keeps P (throw e)" "keeps P (look f)" "keeps P (value_of r)" "keeps P (memory g)"
  by (simp_all add: keeps_def op_defs)

lemma keeps_bind [keeping]: "keeps P m \<Longrightarrow> (\<And>a. keeps P (f a)) \<Longrightarrow> keeps P (bind_op m f)"
proof (rule keepsI)
  fix db x assume m: "keeps P m" "P db" and f: "\<And>a. keeps P (f a)"
  obtain db1 x1 r where r: "m (db, x) = ((db1, x1), r)" by (metis surj_pair)
  with m have P: "P db1" by (blast dest: keepsD)
  obtain db2 x2 q where q: "f (projr r) (db1, x1) = ((db2, x2), q)" by (metis surj_pair)
  have "P db2" using keepsD [OF f q P] .
  with r P q show "P (fst (fst (bind_op m f (db, x))))" by (cases r) (auto simp: bind_op_def)
qed

lemma keeps_in_tx [keeping]: "keeps P m \<Longrightarrow> keeps P (in_tx m)"
proof (rule keepsI)
  fix db x assume m: "keeps P m" "P db"
  obtain db1 x1 r where r: "m (db, x) = ((db1, x1), r)" by (metis surj_pair)
  with m have "P db1" by (blast dest: keepsD)
  with r m show "P (fst (fst (in_tx m (db, x))))" by (cases r) (auto simp: in_tx_def)
qed

lemma keeps_change: "(\<And>db. P db \<Longrightarrow> P (f db)) \<Longrightarrow> keeps P (change f)"
  by (simp add: keeps_def op_defs)

lemma keeps_attempt: "(\<And>db db'. P db \<Longrightarrow> f db = Inr db' \<Longrightarrow> P db') \<Longrightarrow> keeps P (attempt f)"
  by (auto simp: keeps_def op_defs split: sum.splits)

lemma keeps_on_db: "(\<And>db. P db \<Longrightarrow> P (fst (f db))) \<Longrightarrow> keeps P (on_db f)"
  by (auto simp: keeps_def op_defs split: prod.splits) (metis fst_conv)

lemma bind_op_Inr:
  "bind_op m f s = (t, Inr b) \<longleftrightarrow> (\<exists>s1 a. m s = (s1, Inr a) \<and> f a s1 = (t, Inr b))"
  by (auto simp: bind_op_def split: prod.splits sum.splits)

lemma in_tx_Inr: "in_tx m s = (t, Inr a) \<longleftrightarrow> m s = (t, Inr a)"
  by (auto simp: in_tx_def split: prod.splits sum.splits)

lemma step_Inr:
  "look f s = (t, Inr a) \<longleftrightarrow> t = s \<and> a = f (fst s)"
  "value_of r s = (t, Inr a) \<longleftrightarrow> t = s \<and> r = Inr a"
  "ret b s = (t, Inr a) \<longleftrightarrow> t = s \<and> a = b"
  "throw e s \<noteq> (t, Inr a)"
  "on_db g s = (t, Inr a) \<longleftrightarrow> g (fst s) = (fst t, Inr a) \<and> snd t = snd s"
  by (cases t; cases s; auto simp: op_defs split: prod.splits)+

lemma write_Inr:
  "change h s = (t, Inr u) \<longleftrightarrow> t = (h (fst s), snd s)"
  "attempt k s = (t, Inr u) \<longleftrightarrow> (\<exists>db. k (fst s) = Inr db \<and> t = (db, snd s))"
  by (auto simp: op_defs split: sum.splits)

lemmas op_Inr = bind_op_Inr step_Inr write_Inr in_tx_Inr

lemma in_tx_Inl: "in_tx m s = (t, Inl e) \<Longrightarrow> fst t = fst s"
  by (auto simp: in_tx_def split: prod.splits sum.splits)

text \<open>What holds after an operation that returned, of its value and the database.\<close>

definition after :: "(local_db \<Rightarrow> bool) \<Rightarrow> ('x, 'a) daemon_op \<Rightarrow> ('a \<Rightarrow> local_db \<Rightarrow> bool) \<Rightarrow> bool" where
  "after P m Q \<longleftrightarrow> (\<forall>db x db' x' a. P db \<longrightarrow> m (db, x) = ((db', x'), Inr a) \<longrightarrow> Q a db')"

named_theorems after_rules \<open>what holds after an operation\<close>

lemma afterD: "after P m Q \<Longrightarrow> m (db, x) = ((db', x'), Inr a) \<Longrightarrow> P db \<Longrightarrow> Q a db'"
  unfolding after_def by blast

lemma after_bind: "after P m R \<Longrightarrow> (\<And>a. after (R a) (f a) Q) \<Longrightarrow> after P (bind_op m f) Q"
  unfolding after_def bind_op_def by (auto split: prod.splits sum.splits) blast

lemma after_keeps: "keeps P m \<Longrightarrow> after P m (\<lambda>_. P)"
  unfolding after_def by (blast dest: keepsD)

lemma after_conseq: "after P' m Q' \<Longrightarrow> (\<And>db. P db \<Longrightarrow> P' db) \<Longrightarrow> (\<And>a db. Q' a db \<Longrightarrow> Q a db) \<Longrightarrow> after P m Q"
  unfolding after_def by blast

lemma after_in_tx: "after P m Q \<Longrightarrow> after P (in_tx m) Q"
  unfolding after_def by (auto simp: in_tx_Inr)

lemma after_value [after_rules]:
  "(\<And>db. P db \<Longrightarrow> Q a db) \<Longrightarrow> after P (ret a) Q"
  "after P (throw e) Q"
  "(\<And>db. P db \<Longrightarrow> Q (f db) db) \<Longrightarrow> after P (look f) Q"
  "(\<And>db v. P db \<Longrightarrow> r = Inr v \<Longrightarrow> Q v db) \<Longrightarrow> after P (value_of r) Q"
  by (auto simp: after_def op_defs)

lemma after_simple [after_rules]:
  "(\<And>db. P db \<Longrightarrow> Q () db) \<Longrightarrow> after P (memory g) Q"
  "(\<And>db. P db \<Longrightarrow> Q () (h db)) \<Longrightarrow> after P (change h) Q"
  "(\<And>db db'. P db \<Longrightarrow> k db = Inr db' \<Longrightarrow> Q () db') \<Longrightarrow> after P (attempt k) Q"
  by (auto simp: after_def op_defs split: sum.splits)

text \<open>A transaction that fails leaves the database; one that succeeds is its body.\<close>

lemma keeps_tx:
  assumes "after P m (\<lambda>_. P)"
  shows "keeps P (in_tx m)"
proof (rule keepsI)
  fix db x assume P: "P db"
  obtain db1 x1 r where r: "m (db, x) = ((db1, x1), r)" by (metis surj_pair)
  with P afterD [OF assms] show "P (fst (fst (in_tx m (db, x))))" by (cases r) (auto simp: in_tx_def)
qed

section \<open>Statements with a foreign key\<close>

definition has_contact :: "string \<Rightarrow> local_db \<Rightarrow> bool" where
  "has_contact c db = has_row (\<lambda>x. ct_id x = c) (l_contacts db)"

definition has_message :: "string \<Rightarrow> local_db \<Rightarrow> bool" where
  "has_message m db = has_row (\<lambda>x. lm_id x = m) (l_messages db)"

text \<open>\<open>INSERT INTO conversations\<close>\<close>

definition insert_conversation :: "conversation \<Rightarrow> local_db \<Rightarrow> string + local_db" where
  "insert_conversation c db =
     (if \<not> has_contact (co_contact c) db then Inl ''FOREIGN KEY''
      else if has_row (\<lambda>x. co_id x = co_id c) (l_conversations db) then Inl ''UNIQUE''
      else Inr (db\<lparr>l_conversations := l_conversations db @ [c]\<rparr>))"

text \<open>\<open>INSERT INTO messages\<close>\<close>

definition insert_message :: "local_message \<Rightarrow> local_db \<Rightarrow> string + local_db" where
  "insert_message m db =
     (if \<not> has_row (\<lambda>c. co_id c = lm_conversation m) (l_conversations db) then Inl ''FOREIGN KEY''
      else if has_message (lm_id m) db then Inl ''UNIQUE''
      else Inr (db\<lparr>l_messages := l_messages db @ [m]\<rparr>))"

text \<open>\<open>INSERT INTO message_outbox\<close>: the envelope and the message are unique.\<close>

definition insert_outgoing :: "outgoing \<Rightarrow> local_db \<Rightarrow> string + local_db" where
  "insert_outgoing o1 db =
     (if \<not> has_message (og_message o1) db then Inl ''FOREIGN KEY''
      else if has_row (\<lambda>x. og_envelope x = og_envelope o1 \<or> og_message x = og_message o1) (l_outbox db)
      then Inl ''UNIQUE''
      else Inr (db\<lparr>l_outbox := l_outbox db @ [o1]\<rparr>))"

text \<open>\<open>INSERT INTO attachments\<close>\<close>

definition insert_attachment :: "local_attachment \<Rightarrow> local_db \<Rightarrow> string + local_db" where
  "insert_attachment a db =
     (if \<not> has_message (at_message a) db then Inl ''FOREIGN KEY''
      else if has_row (\<lambda>x. at_id x = at_id a) (l_attachments db) then Inl ''UNIQUE''
      else Inr (db\<lparr>l_attachments := l_attachments db @ [a]\<rparr>))"

text \<open>\<open>INSERT INTO attachment_downloads\<close>\<close>

definition insert_download :: "download \<Rightarrow> local_db \<Rightarrow> string + local_db" where
  "insert_download d db =
     (if \<not> has_row (\<lambda>a. at_id a = dl_attachment d) (l_attachments db) then Inl ''FOREIGN KEY''
      else if has_row (\<lambda>x. dl_attachment x = dl_attachment d) (l_downloads db) then Inl ''UNIQUE''
      else Inr (db\<lparr>l_downloads := l_downloads db @ [d]\<rparr>))"

text \<open>\<open>INSERT INTO message_links\<close>\<close>

definition insert_link :: "string \<Rightarrow> string \<Rightarrow> local_db \<Rightarrow> string + local_db" where
  "insert_link m r db =
     (if \<not> has_message m db then Inl ''FOREIGN KEY''
      else if has_row (\<lambda>x. fst x = m) (l_links db) then Inl ''UNIQUE''
      else Inr (db\<lparr>l_links := l_links db @ [(m, r)]\<rparr>))"

text \<open>\<open>INSERT INTO seen_envelope_ids\<close>, without and with \<open>ON CONFLICT DO NOTHING\<close>.\<close>

definition insert_seen :: "string \<Rightarrow> ms \<Rightarrow> local_db \<Rightarrow> string + local_db" where
  "insert_seen i now db =
     (if has_row (\<lambda>x. fst x = i) (l_seen db) then Inl ''UNIQUE''
      else Inr (db\<lparr>l_seen := l_seen db @ [(i, now)]\<rparr>))"

definition remember_seen :: "string \<Rightarrow> ms \<Rightarrow> local_db \<Rightarrow> local_db" where
  "remember_seen i now db = db\<lparr>l_seen := insert_ignore fst (i, now) (l_seen db)\<rparr>"

text \<open>\<open>INSERT INTO remote_contacts .. ON CONFLICT(contact_id) DO UPDATE\<close>\<close>

definition upsert_remote :: "remote_contact \<Rightarrow> local_db \<Rightarrow> string + local_db" where
  "upsert_remote r db =
     (if \<not> has_contact (rm_contact r) db then Inl ''FOREIGN KEY''
      else Inr (db\<lparr>l_remotes := upsert rm_contact (\<lambda>_. r) r (l_remotes db)\<rparr>))"

text \<open>\<open>DELETE FROM messages WHERE message_id = m\<close>, with what refers to the message.\<close>

definition delete_message_row :: "string \<Rightarrow> local_db \<Rightarrow> local_db" where
  "delete_message_row m db =
     (let gone = map at_id (filter (\<lambda>a. at_message a = m) (l_attachments db))
      in db\<lparr>l_messages := delete_where (\<lambda>x. lm_id x = m) (l_messages db),
            l_outbox := delete_where (\<lambda>x. og_message x = m) (l_outbox db),
            l_links := delete_where (\<lambda>x. fst x = m) (l_links db),
            l_attachments := delete_where (\<lambda>x. at_message x = m) (l_attachments db),
            l_downloads := delete_where (\<lambda>x. dl_attachment x \<in> set gone) (l_downloads db)\<rparr>)"

section \<open>Well-formedness\<close>

text \<open>The keys and references that the schema declares, on the tables that messages live in.\<close>

definition local_ok :: "local_db \<Rightarrow> bool" where
  "local_ok db \<longleftrightarrow>
     unique_key ct_id (l_contacts db) \<and>
     unique_key co_id (l_conversations db) \<and>
     (\<forall>c \<in> set (l_conversations db). has_contact (co_contact c) db) \<and>
     unique_key lm_id (l_messages db) \<and>
     (\<forall>m \<in> set (l_messages db). \<exists>c \<in> set (l_conversations db). co_id c = lm_conversation m) \<and>
     unique_key og_envelope (l_outbox db) \<and> unique_key og_message (l_outbox db) \<and>
     (\<forall>o1 \<in> set (l_outbox db). has_message (og_message o1) db) \<and>
     unique_key at_id (l_attachments db) \<and>
     (\<forall>a \<in> set (l_attachments db). has_message (at_message a) db) \<and>
     (\<forall>d \<in> set (l_downloads db). \<exists>a \<in> set (l_attachments db). at_id a = dl_attachment d) \<and>
     unique_key fst (l_seen db) \<and>
     unique_key rm_contact (l_remotes db) \<and>
     (\<forall>r \<in> set (l_remotes db). has_contact (rm_contact r) db)"

lemma has_contact_set: "has_contact c db \<longleftrightarrow> c \<in> ct_id ` set (l_contacts db)"
  by (auto simp: has_contact_def has_row_iff)

lemma has_message_set: "has_message m db \<longleftrightarrow> m \<in> lm_id ` set (l_messages db)"
  by (auto simp: has_message_def has_row_iff)

lemma unique_key_append: "unique_key k rs \<Longrightarrow> k r \<notin> k ` set rs \<Longrightarrow> unique_key k (rs @ [r])"
  by (simp add: unique_key_def)

lemma unique_key_replace: "unique_key k rs \<Longrightarrow> unique_key k (upsert k (\<lambda>_. r) r rs)"
proof (cases "has_row (\<lambda>x. k x = k r) rs")
  case True
  have "map k (update_where (\<lambda>x. k x = k r) (\<lambda>_. r) rs) = map k rs" by (induction rs) (auto simp: update_where_def)
  with True show "unique_key k rs \<Longrightarrow> ?thesis" by (simp add: upsert_def unique_key_def)
next
  case False
  then show "unique_key k rs \<Longrightarrow> ?thesis" by (auto simp: upsert_def unique_key_def has_row_iff)
qed

text \<open>Each conjunct of \<open>local_ok\<close> mentions few tables, so a write is checked against these only.\<close>

named_theorems local_step \<open>writes that keep \<open>local_ok\<close>\<close>

lemma local_ok_insert_conversation [local_step]: "insert_conversation c db = Inr db' \<Longrightarrow> local_ok db \<Longrightarrow> local_ok db'"
  by (auto simp: insert_conversation_def local_ok_def has_contact_set has_message_set has_row_iff
      intro!: unique_key_append split: if_splits) blast+

lemma local_ok_insert_message [local_step]: "insert_message m db = Inr db' \<Longrightarrow> local_ok db \<Longrightarrow> local_ok db'"
  by (auto simp: insert_message_def local_ok_def has_contact_set has_message_set has_row_iff
      intro!: unique_key_append split: if_splits)

lemma local_ok_insert_outgoing [local_step]: "insert_outgoing o1 db = Inr db' \<Longrightarrow> local_ok db \<Longrightarrow> local_ok db'"
  by (auto simp: insert_outgoing_def local_ok_def has_contact_set has_message_set has_row_iff
      intro!: unique_key_append split: if_splits) blast+

lemma local_ok_insert_attachment [local_step]: "insert_attachment a db = Inr db' \<Longrightarrow> local_ok db \<Longrightarrow> local_ok db'"
  by (auto simp: insert_attachment_def local_ok_def has_contact_set has_message_set has_row_iff
      intro!: unique_key_append split: if_splits) blast+

lemma local_ok_insert_download [local_step]: "insert_download d db = Inr db' \<Longrightarrow> local_ok db \<Longrightarrow> local_ok db'"
  by (auto simp: insert_download_def local_ok_def has_contact_set has_message_set has_row_iff split: if_splits)

lemma local_ok_insert_link [local_step]: "insert_link m r db = Inr db' \<Longrightarrow> local_ok db \<Longrightarrow> local_ok db'"
  by (auto simp: insert_link_def local_ok_def has_contact_set has_message_set split: if_splits)

lemma local_ok_insert_seen [local_step]: "insert_seen i now db = Inr db' \<Longrightarrow> local_ok db \<Longrightarrow> local_ok db'"
  by (auto simp: insert_seen_def local_ok_def has_contact_set has_message_set has_row_iff
      intro!: unique_key_append split: if_splits) force

lemma local_ok_remember_seen [local_step]: "local_ok db \<Longrightarrow> local_ok (remember_seen i now db)"
  by (simp add: remember_seen_def local_ok_def has_contact_def has_message_def unique_key_insert_ignore)

lemma local_ok_upsert_remote [local_step]: "upsert_remote r db = Inr db' \<Longrightarrow> local_ok db \<Longrightarrow> local_ok db'"
  by (auto simp: upsert_remote_def local_ok_def has_contact_set has_message_set set_upsert
      intro!: unique_key_replace split: if_splits)

lemma local_ok_delete_message [local_step]: "local_ok db \<Longrightarrow> local_ok (delete_message_row m db)"
  unfolding local_ok_def delete_message_row_def Let_def has_contact_set has_message_set
  by (auto simp: set_delete_where intro!: unique_key_delete_where) (metis (mono_tags, lifting) imageI mem_Collect_eq)

end
