(* ===== verification/Daemon_Store.thy ===== *)
theory Daemon_Store
  imports Daemon_Db
begin

text \<open>
  \<open>signal-store.ts\<close> and \<open>signal-adapter.ts\<close>: the store that libsignal keeps its keys, sessions and
  pinned identities in, the account of the device and its registration, and the three calls that set
  up a session, encrypt and decrypt. An exception is an \<open>Inl\<close> with its message.
\<close>

section \<open>The account\<close>

definition store_account :: "local_db \<Rightarrow> string + account" where
  "store_account db = (case l_account db of None \<Rightarrow> Inl ''signal_identity_missing'' | Some a \<Rightarrow> Inr a)"

text \<open>What \<open>ensureIdentity\<close> generates: records are in their serialized form.\<close>

record fresh_identity =
  fi_identity :: bytes
  fi_registration :: int
  fi_device :: string
  fi_auth_private :: bytes
  fi_auth_public :: bytes
  fi_signed :: bytes
  fi_one_time :: "int \<Rightarrow> bytes"
  fi_kyber :: "int \<Rightarrow> bytes"

definition create_identity :: "fresh_identity \<Rightarrow> ms \<Rightarrow> local_db \<Rightarrow> string + local_db" where
  "create_identity f now db =
     (if l_auth_key db \<noteq> None \<or> l_signed_prekeys db \<noteq> [] \<or> l_prekeys db \<noteq> [] \<or> l_kyber_prekeys db \<noteq> []
      then Inl ''UNIQUE''
      else Inr (db\<lparr>l_account := Some \<lparr>sa_identity = fi_identity f, sa_registration = fi_registration f,
                     sa_user = None, sa_device = fi_device f, sa_created = now\<rparr>,
             l_auth_key := Some (fi_auth_private f, fi_auth_public f),
             l_signed_prekeys := [(1, fi_signed f)],
             l_prekeys := map (\<lambda>i. (i, fi_one_time f i)) [1..100],
             l_kyber_prekeys := (1, fi_kyber f 1) # map (\<lambda>i. (i, fi_kyber f i)) [2..101]\<rparr>))"

definition save_key :: "int \<Rightarrow> bytes \<Rightarrow> (int \<times> bytes) list \<Rightarrow> (int \<times> bytes) list" where
  "save_key i r ks = upsert fst (\<lambda>_. (i, r)) (i, r) ks"

definition get_key :: "string \<Rightarrow> int \<Rightarrow> (int \<times> bytes) list \<Rightarrow> string + bytes" where
  "get_key err i ks = (case map_of ks i of None \<Rightarrow> Inl err | Some r \<Rightarrow> Inr r)"

definition save_prekey :: "int \<Rightarrow> bytes \<Rightarrow> local_db \<Rightarrow> local_db" where
  "save_prekey i r db = db\<lparr>l_prekeys := save_key i r (l_prekeys db)\<rparr>"

definition get_prekey :: "int \<Rightarrow> local_db \<Rightarrow> string + bytes" where
  "get_prekey i db = get_key ''prekey_not_found'' i (l_prekeys db)"

definition remove_prekey :: "int \<Rightarrow> local_db \<Rightarrow> local_db" where
  "remove_prekey i db = db\<lparr>l_prekeys := delete_where (\<lambda>k. fst k = i) (l_prekeys db)\<rparr>"

definition save_signed_prekey :: "int \<Rightarrow> bytes \<Rightarrow> local_db \<Rightarrow> local_db" where
  "save_signed_prekey i r db = db\<lparr>l_signed_prekeys := save_key i r (l_signed_prekeys db)\<rparr>"

definition get_signed_prekey :: "int \<Rightarrow> local_db \<Rightarrow> string + bytes" where
  "get_signed_prekey i db = get_key ''signed_prekey_not_found'' i (l_signed_prekeys db)"

definition save_kyber_prekey :: "int \<Rightarrow> bytes \<Rightarrow> local_db \<Rightarrow> local_db" where
  "save_kyber_prekey i r db = db\<lparr>l_kyber_prekeys := save_key i r (l_kyber_prekeys db)\<rparr>"

definition get_kyber_prekey :: "int \<Rightarrow> local_db \<Rightarrow> string + bytes" where
  "get_kyber_prekey i db = get_key ''kyber_prekey_not_found'' i (l_kyber_prekeys db)"

text \<open>Retained until scheduled rotation.\<close>

definition mark_kyber_used :: "int \<Rightarrow> local_db \<Rightarrow> local_db" where
  "mark_kyber_used i db = db"

section \<open>The published bundle\<close>

record published_bundle =
  pb_device :: string
  pb_signal_device :: int
  pb_registration :: int
  pb_identity :: string
  pb_auth_key :: string
  pb_signed :: "int \<times> string \<times> string"
  pb_one_time :: "(int \<times> string) list"
  pb_pq_one_time :: "(int \<times> string \<times> string) list"
  pb_pq_last :: "int \<times> string \<times> string"

definition b64_parts :: "int \<times> bytes \<times> bytes \<Rightarrow> int \<times> string \<times> string" where
  "b64_parts p = (case p of (i, k, s) \<Rightarrow> (i, b64_encode k, b64_encode s))"

text \<open>\<open>SELECT .. ORDER BY prekey_id LIMIT 100\<close>\<close>

definition first_keys :: "(int \<times> bytes) list \<Rightarrow> (int \<times> bytes) list" where
  "first_keys ks = take 100 (sort_key fst ks)"

definition published :: "daemon_env \<Rightarrow> local_db \<Rightarrow> string + published_bundle" where
  "published env db =
     try_then (store_account db) (\<lambda>a.
     (case l_auth_key db of
        None \<Rightarrow> Inl ''device_auth_key_missing''
      | Some (_, auth) \<Rightarrow>
          try_then (get_signed_prekey 1 db) (\<lambda>signed.
          try_then (get_kyber_prekey 1 db) (\<lambda>last_resort.
          Inr \<lparr>pb_device = sa_device a, pb_signal_device = 1, pb_registration = sa_registration a,
               pb_identity = b64_encode (identity_public env (sa_identity a)),
               pb_auth_key = b64_encode auth,
               pb_signed = b64_parts (signed_parts env signed),
               pb_one_time = map (\<lambda>(i, r). (i, b64_encode (prekey_public env r))) (first_keys (l_prekeys db)),
               pb_pq_one_time = map (\<lambda>(i, r). (i, snd (b64_parts (signed_parts env r))))
                 (first_keys (filter (\<lambda>k. 2 \<le> fst k) (l_kyber_prekeys db))),
               pb_pq_last = b64_parts (signed_parts env last_resort)\<rparr>))))"

definition ensure_identity :: "daemon_env \<Rightarrow> fresh_identity \<Rightarrow> ms \<Rightarrow> local_db \<Rightarrow> string + local_db \<times> published_bundle" where
  "ensure_identity env f now db =
     try_then (if l_account db = None then create_identity f now db else Inr db) (\<lambda>db1.
     try_then (published env db1) (\<lambda>b. Inr (db1, b)))"

definition auth_key_pair :: "local_db \<Rightarrow> string + bytes \<times> bytes" where
  "auth_key_pair db = (case l_auth_key db of None \<Rightarrow> Inl ''device_auth_key_missing'' | Some k \<Rightarrow> Inr k)"

section \<open>Registration\<close>

definition set_account :: "string \<Rightarrow> local_db \<Rightarrow> local_db" where
  "set_account u db = db\<lparr>l_account := map_option (\<lambda>a. a\<lparr>sa_user := Some u\<rparr>) (l_account db)\<rparr>"

text \<open>\<open>!!row\<close>: the row itself, not its value, is tested.\<close>

definition is_registered :: "local_db \<Rightarrow> bool" where
  "is_registered db \<longleftrightarrow> (\<exists>a. l_account db = Some a \<and> sa_user a \<noteq> None)"

lemma is_registered_code [code]:
  "is_registered db \<longleftrightarrow> (case l_account db of None \<Rightarrow> False | Some a \<Rightarrow> sa_user a \<noteq> None)"
  by (simp add: is_registered_def split: option.splits)

record registration =
  rg_user :: string
  rg_device :: string
  rg_name :: string
  rg_token :: string
  rg_uid :: "string option"

definition complete_registration :: "ms \<Rightarrow> registration \<Rightarrow> local_db \<Rightarrow> string + local_db" where
  "complete_registration now r db =
     try_then (store_account db) (\<lambda>a.
     if sa_device a \<noteq> rg_device r then Inl ''local_device_id_mismatch''
     else let db1 = (set_account (rg_user r) db)\<lparr>l_relay_token := Some (rg_token r),
            l_activation := map_option (\<lambda>s. s\<lparr>an_status := Act_Activated, an_name := rg_name r,
              an_updated := now\<rparr>) (l_activation db)\<rparr>
          in Inr (case rg_uid r of
                Some u \<Rightarrow> if u = [] then db1 else db1\<lparr>l_public_uid := Some u, l_claim := None\<rparr>
              | None \<Rightarrow> db1))"

definition local_address :: "local_db \<Rightarrow> string + address" where
  "local_address db =
     try_then (store_account db) (\<lambda>a.
     case sa_user a of
       None \<Rightarrow> Inl ''remote_account_not_registered''
     | Some u \<Rightarrow> if u = [] then Inl ''remote_account_not_registered'' else Inr (u, 1))"

section \<open>Sessions and identities\<close>

definition save_session :: "daemon_env \<Rightarrow> address \<Rightarrow> bytes \<Rightarrow> ms \<Rightarrow> local_db \<Rightarrow> string + local_db" where
  "save_session env a r now db =
     (let c = address_text env a
      in if \<not> has_contact c db then Inl ''FOREIGN KEY''
         else Inr (db\<lparr>l_ratchets := upsert ra_contact (\<lambda>x. x\<lparr>ra_state := r, ra_updated := now\<rparr>)
                \<lparr>ra_contact = c, ra_state = r, ra_updated = now\<rparr> (l_ratchets db)\<rparr>))"

definition get_session :: "daemon_env \<Rightarrow> address \<Rightarrow> local_db \<Rightarrow> bytes option" where
  "get_session env a db = map_option ra_state (List.find (\<lambda>x. ra_contact x = address_text env a) (l_ratchets db))"

definition existing_sessions :: "daemon_env \<Rightarrow> address list \<Rightarrow> local_db \<Rightarrow> bytes list" where
  "existing_sessions env addrs db = List.map_filter (\<lambda>a. get_session env a db) addrs"

definition find_contact :: "string \<Rightarrow> local_db \<Rightarrow> contact option" where
  "find_contact c db = List.find (\<lambda>x. ct_id x = c) (l_contacts db)"

definition get_identity :: "daemon_env \<Rightarrow> address \<Rightarrow> local_db \<Rightarrow> bytes option" where
  "get_identity env a db = map_option ct_identity (find_contact (address_text env a) db)"

text \<open>\<open>saveIdentity\<close>: the result says whether an existing identity was replaced.\<close>

definition save_identity :: "daemon_env \<Rightarrow> address \<Rightarrow> bytes \<Rightarrow> ms \<Rightarrow> local_db \<Rightarrow> local_db \<times> bool" where
  "save_identity env a key now db =
     (let c = address_text env a
      in case find_contact c db of
           None \<Rightarrow> (db\<lparr>l_contacts := l_contacts db @ [\<lparr>ct_id = c, ct_name = fst a, ct_uid = None,
                     ct_identity = key, ct_verified = False, ct_safety = None, ct_changed = False,
                     ct_created = now\<rparr>]\<rparr>, False)
         | Some old \<Rightarrow>
             let changed = (ct_identity old \<noteq> key)
             in (db\<lparr>l_contacts := update_where (\<lambda>x. ct_id x = c)
                   (\<lambda>x. x\<lparr>ct_identity := key, ct_verified := (if changed then False else ct_verified x),
                           ct_changed := (if changed then True else ct_changed x)\<rparr>) (l_contacts db)\<rparr>, changed))"

definition is_trusted_identity :: "daemon_env \<Rightarrow> address \<Rightarrow> bytes \<Rightarrow> local_db \<Rightarrow> bool" where
  "is_trusted_identity env a key db \<longleftrightarrow>
     (case get_identity env a db of None \<Rightarrow> True | Some k \<Rightarrow> k = key)"

definition identity_key_pair :: "local_db \<Rightarrow> string + bytes" where
  "identity_key_pair db = try_then (store_account db) (\<lambda>a. Inr (sa_identity a))"

definition local_registration_id :: "local_db \<Rightarrow> string + int" where
  "local_registration_id db = try_then (store_account db) (\<lambda>a. Inr (sa_registration a))"

section \<open>The adapter\<close>

text \<open>A bundle as the relay replies it, with the fields that the daemon reads.\<close>

record fetched_bundle =
  fb_user :: string
  fb_device :: string
  fb_signal :: int
  fb_registration :: int
  fb_name :: "string option"
  fb_uid :: "string option"
  fb_identity :: string
  fb_signed :: "int \<times> string \<times> string"
  fb_one_time :: "(int \<times> string) option"
  fb_pq_one_time :: "(int \<times> string \<times> string) option"
  fb_pq_last :: "int \<times> string \<times> string"

definition parts_b64 :: "int \<times> string \<times> string \<Rightarrow> int \<times> bytes \<times> bytes" where
  "parts_b64 p = (case p of (i, k, s) \<Rightarrow> (i, b64_decode k, b64_decode s))"

definition key_bundle_of :: "fetched_bundle \<Rightarrow> key_bundle" where
  "key_bundle_of b =
     \<lparr>kb_registration = fb_registration b, kb_device = fb_signal b,
      kb_one_time = map_option (\<lambda>(i, k). (i, b64_decode k)) (fb_one_time b),
      kb_signed = parts_b64 (fb_signed b), kb_identity = b64_decode (fb_identity b),
      kb_kyber = parts_b64 (case fb_pq_one_time b of Some k \<Rightarrow> k | None \<Rightarrow> fb_pq_last b)\<rparr>"

definition establish_session :: "daemon_env \<Rightarrow> address \<Rightarrow> fetched_bundle \<Rightarrow> ms \<Rightarrow> ('x, unit) daemon_op" where
  "establish_session env a b now =
     bind_op (look local_address) (\<lambda>r.
     bind_op (value_of r) (\<lambda>me.
     then_op (on_db (sig_process env a me (key_bundle_of b)))
     (change (\<lambda>db. fst (save_identity env a (b64_decode (fb_identity b)) now db)))))"

definition encrypt_payload :: "daemon_env \<Rightarrow> address \<Rightarrow> string \<Rightarrow> ('x, 8 word \<times> string) daemon_op" where
  "encrypt_payload env a text =
     bind_op (look local_address) (\<lambda>r.
     bind_op (value_of r) (\<lambda>me.
     bind_op (on_db (sig_encrypt env a me (utf8 text))) (\<lambda>(t, c).
     ret (t, b64_encode c))))"

definition decrypt_payload :: "daemon_env \<Rightarrow> address \<Rightarrow> string \<Rightarrow> 8 word option \<Rightarrow> ('x, string) daemon_op" where
  "decrypt_payload env a ciphertext t =
     (let c = b64_decode ciphertext
      in if t = Some (type_prekey env)
         then bind_op (look local_address) (\<lambda>r. bind_op (value_of r) (\<lambda>me.
              bind_op (on_db (sig_decrypt_prekey env a me c)) (\<lambda>p. ret (utf8_text env p))))
         else if t = Some (type_whisper env)
         then bind_op (look local_address) (\<lambda>r. bind_op (value_of r) (\<lambda>me.
              bind_op (on_db (sig_decrypt env a me c)) (\<lambda>p. ret (utf8_text env p))))
         else throw ''unsupported_ciphertext_type'')"

text \<open>\<open>fingerprint.ts\<close>\<close>

definition safety_number :: "daemon_env \<Rightarrow> address \<Rightarrow> local_db \<Rightarrow> string + string" where
  "safety_number env a db =
     try_then (identity_key_pair db) (\<lambda>pair.
     case get_identity env a db of
       None \<Rightarrow> Inl ''remote_identity_key_missing_for_safety_number''
     | Some k \<Rightarrow> try_then (local_address db) (\<lambda>me.
         Inr (sig_fingerprint env (fst me) (identity_public env pair) (fst a) k)))"

section \<open>What libsignal does to the store\<close>

text \<open>
  libsignal sees the database only through the store interface, so whatever a call does to it is a
  sequence of that interface's writes. \<open>libsignal_ok\<close> states it of the library's functions.
\<close>

inductive store_calls :: "daemon_env \<Rightarrow> local_db \<Rightarrow> local_db \<Rightarrow> bool" for env where
  calls_refl: "store_calls env db db"
| calls_session: "store_calls env db db1 \<Longrightarrow> save_session env a r now db1 = Inr db2 \<Longrightarrow> store_calls env db db2"
| calls_identity: "store_calls env db db1 \<Longrightarrow> store_calls env db (fst (save_identity env a key now db1))"
| calls_prekey: "store_calls env db db1 \<Longrightarrow> store_calls env db (save_prekey i r db1)"
| calls_remove: "store_calls env db db1 \<Longrightarrow> store_calls env db (remove_prekey i db1)"
| calls_signed: "store_calls env db db1 \<Longrightarrow> store_calls env db (save_signed_prekey i r db1)"
| calls_kyber: "store_calls env db db1 \<Longrightarrow> store_calls env db (save_kyber_prekey i r db1)"
| calls_used: "store_calls env db db1 \<Longrightarrow> store_calls env db (mark_kyber_used i db1)"

definition libsignal_ok :: "daemon_env \<Rightarrow> bool" where
  "libsignal_ok env \<longleftrightarrow>
     (\<forall>a me b db. store_calls env db (fst (sig_process env a me b db))) \<and>
     (\<forall>a me p db. store_calls env db (fst (sig_encrypt env a me p db))) \<and>
     (\<forall>a me c db. store_calls env db (fst (sig_decrypt_prekey env a me c db))) \<and>
     (\<forall>a me c db. store_calls env db (fst (sig_decrypt env a me c db)))"

lemma find_contact_Some: "find_contact c db = Some x \<Longrightarrow> x \<in> set (l_contacts db) \<and> ct_id x = c"
  by (auto simp: find_contact_def dest: find_SomeD)

lemma find_contact_None: "find_contact c db = None \<longleftrightarrow> \<not> has_contact c db"
  by (simp add: find_contact_def has_contact_def find_None_not_has_row)

text \<open>Only sessions, contacts and prekeys are written.\<close>

definition outside_signal :: "local_db \<Rightarrow> local_db" where
  "outside_signal db = db\<lparr>l_contacts := [], l_ratchets := [], l_prekeys := [], l_signed_prekeys := [], l_kyber_prekeys := []\<rparr>"

definition signal_frame :: "local_db \<Rightarrow> local_db \<Rightarrow> bool" where
  "signal_frame db db' \<longleftrightarrow> outside_signal db' = outside_signal db"

lemma signal_frame_refl: "signal_frame db db" by (simp add: signal_frame_def)

lemma signal_frame_trans: "signal_frame a b \<Longrightarrow> signal_frame b c \<Longrightarrow> signal_frame a c"
  by (simp add: signal_frame_def)

lemma signal_frame_fields:
  assumes "signal_frame db db'"
  shows "l_messages db' = l_messages db" and "l_outbox db' = l_outbox db" and "l_seen db' = l_seen db"
    and "l_conversations db' = l_conversations db" and "l_attachments db' = l_attachments db"
    and "l_downloads db' = l_downloads db" and "l_links db' = l_links db" and "l_controls db' = l_controls db"
    and "l_remotes db' = l_remotes db" and "l_account db' = l_account db"
proof -
  note eq = assms [unfolded signal_frame_def, THEN arg_cong]
  show "l_messages db' = l_messages db" using eq [of l_messages] by (simp add: outside_signal_def)
  show "l_outbox db' = l_outbox db" using eq [of l_outbox] by (simp add: outside_signal_def)
  show "l_seen db' = l_seen db" using eq [of l_seen] by (simp add: outside_signal_def)
  show "l_conversations db' = l_conversations db" using eq [of l_conversations] by (simp add: outside_signal_def)
  show "l_attachments db' = l_attachments db" using eq [of l_attachments] by (simp add: outside_signal_def)
  show "l_downloads db' = l_downloads db" using eq [of l_downloads] by (simp add: outside_signal_def)
  show "l_links db' = l_links db" using eq [of l_links] by (simp add: outside_signal_def)
  show "l_controls db' = l_controls db" using eq [of l_controls] by (simp add: outside_signal_def)
  show "l_remotes db' = l_remotes db" using eq [of l_remotes] by (simp add: outside_signal_def)
  show "l_account db' = l_account db" using eq [of l_account] by (simp add: outside_signal_def)
qed

lemma save_identity_frame: "signal_frame db (fst (save_identity env a key now db))"
  by (simp add: save_identity_def signal_frame_def outside_signal_def Let_def split: option.splits)

lemma save_session_frame: "save_session env a r now db = Inr db' \<Longrightarrow> signal_frame db db'"
  by (auto simp: save_session_def signal_frame_def outside_signal_def Let_def split: if_splits)

lemma store_calls_frame: "store_calls env db db' \<Longrightarrow> signal_frame db db'"
proof (induction rule: store_calls.induct)
  case (calls_session db db1 a r now db2)
  then show ?case using save_session_frame signal_frame_trans by blast
next
  case (calls_identity db db1 a key now)
  then show ?case using save_identity_frame signal_frame_trans by blast
qed (simp_all add: signal_frame_def outside_signal_def save_prekey_def remove_prekey_def
  save_signed_prekey_def save_kyber_prekey_def mark_kyber_used_def)

text \<open>A pinned contact stays, its warning too, and the trusted key can only change with a warning.\<close>

lemma save_identity_contacts:
  assumes "find_contact c db = Some x"
  shows "\<exists>y. find_contact c (fst (save_identity env a key now db)) = Some y \<and> ct_created y = ct_created x \<and>
    (ct_changed x \<longrightarrow> ct_changed y) \<and> (ct_identity y \<noteq> ct_identity x \<longrightarrow> ct_changed y \<and> \<not> ct_verified y) \<and>
    (ct_verified y \<longrightarrow> ct_verified x)"
proof (cases "find_contact (address_text env a) db")
  case None
  with assms show ?thesis by (auto simp: save_identity_def find_contact_def find_append)
next
  case (Some old)
  have upd: "List.find (\<lambda>x. ct_id x = c) (update_where (\<lambda>x. ct_id x = d) f cs) =
      (if d = c then map_option f (List.find (\<lambda>x. ct_id x = c) cs) else List.find (\<lambda>x. ct_id x = c) cs)"
    if "\<And>x. ct_id (f x) = ct_id x" for f d cs
    using that by (induction cs) (auto simp: update_where_def)
  from Some assms show ?thesis
    by (auto simp: save_identity_def find_contact_def Let_def upd)
qed

lemma store_calls_pin:
  assumes "store_calls env db db'" and "find_contact c db = Some x"
  shows "\<exists>y. find_contact c db' = Some y \<and> (ct_changed x \<longrightarrow> ct_changed y) \<and>
    (ct_identity y \<noteq> ct_identity x \<longrightarrow> ct_changed y)"
  using assms
proof (induction rule: store_calls.induct)
  case (calls_identity db db1 a key now)
  then obtain y where "find_contact c db1 = Some y" and y: "ct_changed x \<longrightarrow> ct_changed y"
    "ct_identity y \<noteq> ct_identity x \<longrightarrow> ct_changed y" by blast
  from save_identity_contacts [OF this(1), of env a key now] obtain z where
    "find_contact c (fst (save_identity env a key now db1)) = Some z" "ct_changed y \<longrightarrow> ct_changed z"
    "ct_identity z \<noteq> ct_identity y \<longrightarrow> ct_changed z" by blast
  with y show ?case by (intro exI [of _ z]) auto
next
  case (calls_session db db1 a r now db2)
  then have "l_contacts db2 = l_contacts db1" by (auto simp: save_session_def Let_def split: if_splits)
  with calls_session show ?case by (simp add: find_contact_def)
qed (simp_all add: find_contact_def save_prekey_def remove_prekey_def save_signed_prekey_def
  save_kyber_prekey_def mark_kyber_used_def)

lemma map_update_where: "(\<And>x. k (f x) = k x) \<Longrightarrow> map k (update_where p f rs) = map k rs"
  by (induction rs) (auto simp: update_where_def)

lemma has_contact_iff: "has_contact c db \<longleftrightarrow> c \<in> set (map ct_id (l_contacts db))"
  by (auto simp: has_contact_def has_row_iff)

lemma save_identity_ids:
  "(unique_key ct_id (l_contacts db) \<longrightarrow> unique_key ct_id (l_contacts (fst (save_identity env a key now db)))) \<and>
   (\<forall>c. has_contact c db \<longrightarrow> has_contact c (fst (save_identity env a key now db)))"
proof (cases "find_contact (address_text env a) db")
  case None
  then have "address_text env a \<notin> ct_id ` set (l_contacts db)"
    by (auto simp: find_contact_None has_contact_def has_row_iff)
  with None show ?thesis by (auto simp: save_identity_def unique_key_def has_contact_def has_row_iff)
next
  case (Some old)
  then have "map ct_id (l_contacts (fst (save_identity env a key now db))) = map ct_id (l_contacts db)"
    by (simp add: save_identity_def Let_def map_update_where)
  then show ?thesis by (simp only: has_contact_iff unique_key_def) simp
qed

lemma store_calls_ids:
  assumes "store_calls env db db'"
  shows "(unique_key ct_id (l_contacts db) \<longrightarrow> unique_key ct_id (l_contacts db')) \<and>
    (\<forall>c. has_contact c db \<longrightarrow> has_contact c db')"
  using assms
proof (induction rule: store_calls.induct)
  case (calls_identity db db1 a key now)
  with save_identity_ids [of db1 env a key now] show ?case by blast
next
  case (calls_session db db1 a r now db2)
  then have "l_contacts db2 = l_contacts db1" by (auto simp: save_session_def Let_def split: if_splits)
  with calls_session show ?case by (simp add: has_contact_def)
qed (simp_all add: has_contact_def save_prekey_def remove_prekey_def save_signed_prekey_def
  save_kyber_prekey_def mark_kyber_used_def)

lemma local_ok_signal:
  assumes "local_ok db" and "signal_frame db db'"
    and "unique_key ct_id (l_contacts db')" and "\<And>c. has_contact c db \<Longrightarrow> has_contact c db'"
  shows "local_ok db'"
proof -
  note eq = signal_frame_fields [OF assms(2)]
  show ?thesis using assms(1,3,4) unfolding local_ok_def has_message_def eq by blast
qed

lemma local_ok_calls:
  assumes "store_calls env db db'" and "local_ok db"
  shows "local_ok db'"
proof -
  have u: "unique_key ct_id (l_contacts db)" using assms(2) unfolding local_ok_def by blast
  show ?thesis
    by (rule local_ok_signal [OF assms(2) store_calls_frame [OF assms(1)]])
      (use store_calls_ids [OF assms(1)] u in blast)+
qed

lemma local_ok_save_identity: "local_ok db \<Longrightarrow> local_ok (fst (save_identity env a key now db))"
  using local_ok_calls calls_identity [OF calls_refl] by blast

lemma keeps_adapter [keeping]:
  assumes "libsignal_ok env"
  shows "keeps local_ok (establish_session env a b now)" and "keeps local_ok (encrypt_payload env a text)"
    and "keeps local_ok (decrypt_payload env a c t)"
proof -
  have lib: "keeps local_ok (on_db (sig_process env a me kb))" "keeps local_ok (on_db (sig_encrypt env a me p))"
    "keeps local_ok (on_db (sig_decrypt_prekey env a me p))" "keeps local_ok (on_db (sig_decrypt env a me p))"
    for me kb p
    using assms unfolding libsignal_ok_def by (blast intro!: keeps_on_db intro: local_ok_calls)+
  show "keeps local_ok (establish_session env a b now)"
    unfolding establish_session_def by (intro keeping lib keeps_change local_ok_save_identity)
  show "keeps local_ok (encrypt_payload env a text)"
    unfolding encrypt_payload_def by (auto intro!: keeping lib split: prod.splits)
  show "keeps local_ok (decrypt_payload env a c t)"
    unfolding decrypt_payload_def Let_def by (auto intro!: keeping lib)
qed

end
