(* ===== verification/Daemon_Attachments.thy ===== *)
theory Daemon_Attachments
  imports Daemon_Store
begin

text \<open>
  \<open>attachments.ts\<close> of the daemon: manifests, splitting a file into encrypted chunks, the upload, the
  download with its integrity checks, the encrypted cache on disk and the queue of downloads. Files are
  a map from paths to contents; what the relay answers to each request is an argument.
\<close>

type_synonym files = "(string, bytes) jsmap"

section \<open>Manifests\<close>

record manifest =
  mf_id :: string
  mf_blob :: string
  mf_name :: string
  mf_mime :: string
  mf_size :: int
  mf_count :: int
  mf_nonces :: "string list"
  mf_digest :: string
  mf_key :: string

definition chunk_size :: nat where
  "chunk_size = 65536"

definition b64_bytes :: "nat \<Rightarrow> string \<Rightarrow> bool" where
  "b64_bytes n s \<longleftrightarrow> length (b64_decode s) = n"

definition chunk_total :: "int \<Rightarrow> int" where
  "chunk_total n = max 1 ((n + 65535) div 65536)"

definition manifest_schema :: "(string \<Rightarrow> bool) \<Rightarrow> json \<Rightarrow> manifest option" where
  "manifest_schema uuid j = do {
     i \<leftarrow> required ''attachmentId'' (string_where (is_lower_hex_of 32)) j;
     b \<leftarrow> required ''blobId'' (string_where uuid) j;
     n \<leftarrow> required ''originalFilename'' (string_len 1 255) j;
     t \<leftarrow> required ''claimedMimeType'' (string_len 0 255) j;
     s \<leftarrow> required ''totalPlaintextSize'' (int_range 0 (25 * 1024 * 1024)) j;
     c \<leftarrow> required ''chunkCount'' (int_range 1 400) j;
     z \<leftarrow> required ''chunkSize'' (int_where (\<lambda>x. x = 65536)) j;
     ns \<leftarrow> required ''chunkNonces'' (array_len 0 400 (string_where (b64_bytes 12))) j;
     d \<leftarrow> required ''fullFileDigest'' (string_where (is_lower_hex_of 64)) j;
     k \<leftarrow> required ''attachmentKey'' (string_where (b64_bytes 32)) j;
     v \<leftarrow> required ''encryptionVersion'' (int_where (\<lambda>x. x = 1)) j;
     must (c = chunk_total s \<and> int (length ns) = c);
     Some \<lparr>mf_id = i, mf_blob = b, mf_name = n, mf_mime = t, mf_size = s, mf_count = c,
           mf_nonces = ns, mf_digest = d, mf_key = k\<rparr>}"

definition manifest_json :: "manifest \<Rightarrow> json" where
  "manifest_json m = JObj
     [(''attachmentId'', JStr (mf_id m)), (''blobId'', JStr (mf_blob m)),
      (''originalFilename'', JStr (mf_name m)), (''claimedMimeType'', JStr (mf_mime m)),
      (''totalPlaintextSize'', JInt (mf_size m)), (''chunkCount'', JInt (mf_count m)),
      (''chunkSize'', JInt 65536), (''chunkNonces'', JArr (map JStr (mf_nonces m))),
      (''fullFileDigest'', JStr (mf_digest m)), (''attachmentKey'', JStr (mf_key m)),
      (''encryptionVersion'', JInt 1)]"

section \<open>Chunks\<close>

text \<open>\<open>writeUInt32BE\<close>\<close>

definition be32 :: "nat \<Rightarrow> bytes" where
  "be32 n = map (\<lambda>k. of_nat (n div 256 ^ k)) [3, 2, 1, 0]"

definition make_aad :: "bytes \<Rightarrow> nat \<Rightarrow> nat \<Rightarrow> bytes" where
  "make_aad aid i n = take 16 (aid @ replicate 16 0) @ be32 i @ be32 n @ be32 1"

definition chunk_count :: "bytes \<Rightarrow> nat" where
  "chunk_count p = max 1 ((length p + chunk_size - 1) div chunk_size)"

definition plain_chunk :: "bytes \<Rightarrow> nat \<Rightarrow> bytes" where
  "plain_chunk p i = take chunk_size (drop (i * chunk_size) p)"

definition sanitize_char :: "char \<Rightarrow> string" where
  "sanitize_char c =
     (if code c < 32 \<or> code c = 127 then []
      else if c \<in> {backslash, CHR ''/'', CHR '':'', CHR ''*'', CHR ''?'', quote_char, CHR ''<'', CHR ''>'', CHR ''|''}
      then ''_'' else [c])"

definition sanitize_filename :: "string \<Rightarrow> string" where
  "sanitize_filename s = take 255 (concat (map sanitize_char s))"

section \<open>The cache on disk\<close>

text \<open>\<open>Vault.attachmentPath\<close>; \<open>root\<close> is the directory of the vault.\<close>

definition attachment_path :: "string \<Rightarrow> string \<Rightarrow> string + string" where
  "attachment_path root i =
     (if is_lower_hex_of 32 i then Inr (root @ ''/attachments/'' @ i) else Inl ''invalid_attachment_id'')"

definition cache_aad :: "string \<Rightarrow> bytes" where
  "cache_aad i = utf8 (''cp-local-attachment-v1:'' @ i)"

definition cache_header :: bytes where
  "cache_header = utf8 ''CPAGCM1:''"

definition cache_record :: "bytes \<Rightarrow> bytes \<Rightarrow> json" where
  "cache_record nonce sealed = JObj
     [(''version'', JInt 1), (''nonce'', JStr (b64_encode nonce)),
      (''tag'', JStr (b64_encode (drop (length sealed - 16) sealed))),
      (''ciphertext'', JStr (b64_encode (take (length sealed - 16) sealed)))]"

definition cache_attachment ::
  "daemon_env \<Rightarrow> string \<Rightarrow> bytes \<Rightarrow> bytes \<Rightarrow> string \<Rightarrow> bytes \<Rightarrow> files \<Rightarrow> string + files" where
  "cache_attachment env root key nonce i p fs =
     try_then (attachment_path root i) (\<lambda>path.
     Inr (map_set path (cache_header @ utf8 (json_text env
       (cache_record nonce (gcm_encrypt env key nonce (cache_aad i) p)))) fs))"

text \<open>What \<open>readDecryptedAttachment\<close> decrypts: the current format or the older CBC one.\<close>

definition read_cache :: "daemon_env \<Rightarrow> bytes \<Rightarrow> string \<Rightarrow> bytes \<Rightarrow> string + bytes" where
  "read_cache env key i raw =
     (if take 8 raw = cache_header
      then (case json_parse env (utf8_text env (drop 8 raw)) of
              None \<Rightarrow> Inl ''SyntaxError''
            | Some j \<Rightarrow>
                if field ''version'' j \<noteq> Some (JInt 1) then Inl ''invalid_local_attachment_version''
                else (case (required ''nonce'' as_string j, required ''tag'' as_string j, required ''ciphertext'' as_string j) of
                        (Some n, Some t, Some c) \<Rightarrow>
                          (case gcm_decrypt env key (b64_decode n) (cache_aad i) (b64_decode c @ b64_decode t) of
                             None \<Rightarrow> Inl ''unable to authenticate data''
                           | Some p \<Rightarrow> Inr p)
                      | _ \<Rightarrow> Inl ''TypeError''))
      else (case cbc_decrypt env key (take 16 raw) (drop 16 raw) of
              None \<Rightarrow> Inl ''bad decrypt'' | Some p \<Rightarrow> Inr p))"

definition find_attachment :: "string \<Rightarrow> local_db \<Rightarrow> local_attachment option" where
  "find_attachment i db = List.find (\<lambda>a. at_id a = i) (l_attachments db)"

definition read_attachment ::
  "daemon_env \<Rightarrow> bytes \<Rightarrow> string \<Rightarrow> files \<Rightarrow> local_db \<Rightarrow> string + string \<times> bytes" where
  "read_attachment env key i fs db =
     (case find_attachment i db of
        None \<Rightarrow> Inl ''attachment_not_found''
      | Some a \<Rightarrow>
          (case at_path a of
             None \<Rightarrow> Inl ''attachment_pending''
           | Some path \<Rightarrow>
               (case (if path = [] then None else map_get fs path) of
                  None \<Rightarrow> Inl (if path = [] then ''attachment_pending'' else ''ENOENT'')
                | Some raw \<Rightarrow>
                    try_then (read_cache env key i raw) (\<lambda>p.
                    if int (length p) \<noteq> at_size a then Inl ''attachment_integrity_failed''
                    else if length (at_hash a) \<noteq> length (dg_sha256 env p)
                    then Inl ''ERR_CRYPTO_TIMING_SAFE_EQUAL_LENGTH''
                    else if dg_sha256 env p \<noteq> at_hash a then Inl ''attachment_integrity_failed''
                    else (case cbc_decrypt env key (take 16 (at_name a)) (drop 16 (at_name a)) of
                            None \<Rightarrow> Inl ''bad decrypt''
                          | Some n \<Rightarrow> Inr (utf8_text env n, p))))))"

section \<open>Upload\<close>

datatype upload_request = Up_Meta string nat nat | Up_Chunk string nat string string

text \<open>The random values of an upload: the id, key and blob id, a nonce per chunk and one for the cache.\<close>

record upload_draw =
  ud_id :: bytes
  ud_key :: bytes
  ud_blob :: string
  ud_nonce :: "nat \<Rightarrow> bytes"
  ud_cache :: bytes

definition encrypt_chunk :: "daemon_env \<Rightarrow> bytes \<Rightarrow> upload_draw \<Rightarrow> nat \<Rightarrow> bytes" where
  "encrypt_chunk env p d i =
     gcm_encrypt env (ud_key d) (ud_nonce d i) (make_aad (ud_id d) i (chunk_count p)) (plain_chunk p i)"

definition upload_requests :: "daemon_env \<Rightarrow> bytes \<Rightarrow> upload_draw \<Rightarrow> upload_request list" where
  "upload_requests env p d =
     Up_Meta (ud_blob d) (chunk_count p) (length p) #
     map (\<lambda>i. Up_Chunk (ud_blob d) i (b64_encode (ud_nonce d i)) (b64_encode (encrypt_chunk env p d i)))
       [0..<chunk_count p]"

definition upload_manifest :: "daemon_env \<Rightarrow> bytes \<Rightarrow> string \<Rightarrow> string \<Rightarrow> upload_draw \<Rightarrow> manifest" where
  "upload_manifest env p name mime d =
     \<lparr>mf_id = hex_encode (ud_id d), mf_blob = ud_blob d, mf_name = sanitize_filename name, mf_mime = mime,
      mf_size = int (length p), mf_count = int (chunk_count p),
      mf_nonces = map (\<lambda>i. b64_encode (ud_nonce d i)) [0..<chunk_count p],
      mf_digest = hex_encode (dg_sha256 env p), mf_key = b64_encode (ud_key d)\<rparr>"

text \<open>
  The requests go out in order and stop at the first that is not answered with success. The result has
  the requests that were sent.
\<close>

definition sent_requests :: "(upload_request \<Rightarrow> bool) \<Rightarrow> upload_request list \<Rightarrow> upload_request list" where
  "sent_requests ok rs = takeWhile ok rs @ take 1 (dropWhile ok rs)"

definition encrypt_and_upload ::
  "daemon_env \<Rightarrow> string \<Rightarrow> bytes \<Rightarrow> upload_draw \<Rightarrow> (upload_request \<Rightarrow> bool) \<Rightarrow> bytes \<Rightarrow> string \<Rightarrow> string \<Rightarrow> files \<Rightarrow>
     upload_request list \<times> (string + files \<times> manifest)" where
  "encrypt_and_upload env root key d ok p name mime fs =
     (let rs = upload_requests env p d
      in (sent_requests ok rs,
          case dropWhile ok rs of
            Up_Meta _ _ _ # _ \<Rightarrow> Inl ''Failed to upload attachment metadata''
          | Up_Chunk _ _ _ _ # _ \<Rightarrow> Inl ''Failed to upload attachment chunk''
          | [] \<Rightarrow> try_then (cache_attachment env root key (ud_cache d) (hex_encode (ud_id d)) p fs) (\<lambda>fs'.
              Inr (fs', upload_manifest env p name mime d))))"

section \<open>Download\<close>

definition fetch_plain ::
  "daemon_env \<Rightarrow> manifest \<Rightarrow> (nat \<Rightarrow> (string \<times> string) option) \<Rightarrow> nat \<Rightarrow> string + bytes" where
  "fetch_plain env m answer i =
     (case answer i of
        None \<Rightarrow> Inl ''Failed to download attachment chunk''
      | Some (nonce, ciphertext) \<Rightarrow>
          if mf_nonces m ! i \<noteq> nonce then Inl ''Security Alert: Nonce mismatch''
          else (case gcm_decrypt env (b64_decode (mf_key m)) (b64_decode nonce)
                  (make_aad (hex_decode (mf_id m)) i (nat (mf_count m))) (b64_decode ciphertext) of
                  None \<Rightarrow> Inl ''unable to authenticate data''
                | Some p \<Rightarrow> Inr p))"

definition fetch_all ::
  "daemon_env \<Rightarrow> manifest \<Rightarrow> (nat \<Rightarrow> (string \<times> string) option) \<Rightarrow> string + bytes" where
  "fetch_all env m answer =
     try_fold (\<lambda>i acc. try_then (fetch_plain env m answer i) (\<lambda>p. Inr (acc @ p))) [0..<nat (mf_count m)] []"

text \<open>The digest is compared as bytes; an odd or shorter hex string has another length.\<close>

definition check_file :: "daemon_env \<Rightarrow> manifest \<Rightarrow> bytes \<Rightarrow> string + bytes" where
  "check_file env m p =
     (if hex_decode (mf_digest m) \<noteq> hex_decode (hex_encode (dg_sha256 env p))
      then Inl ''Security Alert: Integrity verification failed. Attachment digest mismatch.''
      else if int (length p) \<noteq> mf_size m then Inl ''attachment_size_mismatch'' else Inr p)"

definition attachment_stored :: "string \<Rightarrow> string \<Rightarrow> string \<Rightarrow> local_db \<Rightarrow> string + local_db" where
  "attachment_stored path i msg db =
     (if \<not> has_row (\<lambda>a. at_id a = i \<and> at_message a = msg) (l_attachments db) then Inl ''attachment_record_missing''
      else Inr (db\<lparr>l_attachments := update_where (\<lambda>a. at_id a = i \<and> at_message a = msg)
               (\<lambda>a. a\<lparr>at_path := Some path\<rparr>) (l_attachments db),
             l_downloads := delete_where (\<lambda>x. dl_attachment x = i) (l_downloads db)\<rparr>))"

text \<open>The manifest is parsed again before; the request that deletes the blob may fail without effect.\<close>

definition download_and_decrypt ::
  "daemon_env \<Rightarrow> string \<Rightarrow> bytes \<Rightarrow> bytes \<Rightarrow> (nat \<Rightarrow> (string \<times> string) option) \<Rightarrow> manifest \<Rightarrow> string \<Rightarrow>
     files \<times> local_db \<Rightarrow> (files \<times> local_db) \<times> (string + bytes)" where
  "download_and_decrypt env root key nonce answer m msg st =
     (let (fs, db) = st
      in case manifest_schema (is_uuid env) (manifest_json m) of
           None \<Rightarrow> (st, Inl ''ZodError'')
         | Some m1 \<Rightarrow>
             (case try_then (fetch_all env m1 answer) (check_file env m1) of
                Inl e \<Rightarrow> (st, Inl e)
              | Inr p \<Rightarrow>
                  (case try_then (attachment_path root (mf_id m1)) (\<lambda>path.
                          try_then (cache_attachment env root key nonce (mf_id m1) p fs) (\<lambda>fs'. Inr (path, fs'))) of
                     Inl e \<Rightarrow> (st, Inl e)
                   | Inr (path, fs') \<Rightarrow>
                       (case attachment_stored path (mf_id m1) msg db of
                          Inl e \<Rightarrow> ((fs', db), Inl e)
                        | Inr db' \<Rightarrow> ((fs', db'), Inr p)))))"

text \<open>
  \<open>retryAttachmentDownloads\<close>: at most eight queued downloads of messages that have not expired, each
  on its own; a failure leaves its row for the next time.
\<close>

definition due_downloads :: "ms \<Rightarrow> local_db \<Rightarrow> download list" where
  "due_downloads now db = take 8 (filter (\<lambda>d.
     has_row (\<lambda>a. at_id a = dl_attachment d \<and>
       has_row (\<lambda>m. lm_id m = at_message a \<and> (case lm_disappear m of None \<Rightarrow> True | Some t \<Rightarrow> now < t))
         (l_messages db)) (l_attachments db)) (l_downloads db))"

definition retry_download ::
  "daemon_env \<Rightarrow> string \<Rightarrow> bytes \<Rightarrow> (string \<Rightarrow> bytes) \<Rightarrow> (string \<Rightarrow> nat \<Rightarrow> (string \<times> string) option) \<Rightarrow> download \<Rightarrow>
     (files \<times> local_db) \<times> nat \<Rightarrow> (files \<times> local_db) \<times> nat" where
  "retry_download env root key nonce answer d acc =
     (let ((fs, db), n) = acc
      in case find_attachment (dl_attachment d) db of
           None \<Rightarrow> acc
         | Some a \<Rightarrow>
             (case Option.bind (json_parse env (dl_manifest d)) (manifest_schema (is_uuid env)) of
                None \<Rightarrow> acc
              | Some m \<Rightarrow>
                  (case download_and_decrypt env root key (nonce (mf_id m)) (answer (mf_blob m)) m (at_message a) (fs, db) of
                     (st', Inl _) \<Rightarrow> (st', n)
                   | (st', Inr _) \<Rightarrow> (st', Suc n))))"

definition retry_downloads ::
  "daemon_env \<Rightarrow> string \<Rightarrow> bytes \<Rightarrow> (string \<Rightarrow> bytes) \<Rightarrow> (string \<Rightarrow> nat \<Rightarrow> (string \<times> string) option) \<Rightarrow> ms \<Rightarrow>
     files \<times> local_db \<Rightarrow> (files \<times> local_db) \<times> nat" where
  "retry_downloads env root key nonce answer now st =
     fold (retry_download env root key nonce answer) (due_downloads now (snd st)) (st, 0)"

section \<open>Splitting and joining\<close>

lemma chunk_size_pos [simp]: "0 < chunk_size" by (simp add: chunk_size_def)

lemma plain_chunks_take:
  "concat (map (plain_chunk p) [0..<n]) = take (n * chunk_size) p"
proof (induction n)
  case (Suc n)
  have "Suc n * chunk_size = n * chunk_size + chunk_size" by simp
  with Suc show ?case by (simp add: plain_chunk_def take_add del: mult_Suc)
qed simp

lemma chunk_count_covers: "length p \<le> chunk_count p * chunk_size"
proof -
  let ?q = "(length p + chunk_size - 1) div chunk_size"
  have "length p + chunk_size - 1 < chunk_size + ?q * chunk_size"
    by (rule dividend_less_div_times) simp
  then have "length p \<le> ?q * chunk_size" using chunk_size_pos by linarith
  also have "\<dots> \<le> chunk_count p * chunk_size" unfolding chunk_count_def by (intro mult_right_mono) simp_all
  finally show ?thesis .
qed

theorem plain_chunks_concat: "concat (map (plain_chunk p) [0..<chunk_count p]) = p"
  by (simp only: plain_chunks_take) (rule take_all [OF chunk_count_covers])

lemma chunk_total_count: "chunk_total (int (length p)) = int (chunk_count p)"
  by (simp add: chunk_total_def chunk_count_def chunk_size_def zdiv_int of_nat_max)

lemma length_plain_chunk: "length (plain_chunk p i) \<le> 65536"
  by (simp add: plain_chunk_def chunk_size_def)

lemma chunk_count_bound: "length p \<le> 26214400 \<Longrightarrow> chunk_count p \<le> 400"
  by (simp add: chunk_count_def chunk_size_def)

section \<open>Round trips\<close>

definition gcm_ok :: "daemon_env \<Rightarrow> bool" where
  "gcm_ok env \<longleftrightarrow> (\<forall>k n a p. gcm_decrypt env k n a (gcm_encrypt env k n a p) = Some p \<and>
     length (gcm_encrypt env k n a p) = length p + 16)"

definition json_ok :: "daemon_env \<Rightarrow> bool" where
  "json_ok env \<longleftrightarrow> (\<forall>j. json_parse env (json_text env j) = Some j) \<and> (\<forall>j. json_text env j \<noteq> []) \<and>
     (\<forall>s. utf8_text env (utf8 s) = s)"

lemma try_fold_append:
  assumes "\<And>i. i \<in> set xs \<Longrightarrow> f i = Inr (g i)"
  shows "try_fold (\<lambda>i acc. try_then (f i) (\<lambda>p. Inr (acc @ p))) xs acc = Inr (acc @ concat (map g xs))"
  using assms by (induction xs arbitrary: acc) auto

lemma length_cache_header [simp]: "length cache_header = 8"
  by code_simp

lemma cache_roundtrip:
  assumes "gcm_ok env" and "json_ok env"
    and "cache_attachment env root key nonce i p fs = Inr fs'"
  shows "\<exists>raw. map_get fs' (root @ ''/attachments/'' @ i) = Some raw \<and> read_cache env key i raw = Inr p"
proof -
  let ?c = "gcm_encrypt env key nonce (cache_aad i) p"
  let ?raw = "cache_header @ utf8 (json_text env (cache_record nonce ?c))"
  from assms(3) have fs': "fs' = map_set (root @ ''/attachments/'' @ i) ?raw fs"
    by (auto simp: cache_attachment_def attachment_path_def split: if_splits)
  have "read_cache env key i ?raw = Inr p"
    using assms(1,2)
    by (simp add: read_cache_def json_ok_def cache_record_def required_def field_def as_string_def
        b64_decode_encode gcm_ok_def)
  with fs' show ?thesis by (simp add: map_get_set)
qed

text \<open>The relay's answer to a request for a chunk that the upload stored.\<close>

definition uploaded_chunk :: "upload_request list \<Rightarrow> nat \<Rightarrow> (string \<times> string) option" where
  "uploaded_chunk rs i =
     (case List.find (\<lambda>r. case r of Up_Chunk _ j _ _ \<Rightarrow> j = i | _ \<Rightarrow> False) rs of
        Some (Up_Chunk _ _ n c) \<Rightarrow> Some (n, c) | _ \<Rightarrow> None)"

lemma uploaded_chunk_requests:
  assumes "i < chunk_count p"
  shows "uploaded_chunk (upload_requests env p d) i =
    Some (b64_encode (ud_nonce d i), b64_encode (encrypt_chunk env p d i))"
proof -
  let ?P = "\<lambda>r. case r of Up_Chunk _ j _ _ \<Rightarrow> j = i | _ \<Rightarrow> False"
  have "List.find ?P (map (\<lambda>j. Up_Chunk (ud_blob d) j (f j) (g j)) [0..<n]) = Some (Up_Chunk (ud_blob d) i (f i) (g i))"
    if "i < n" for n f g
    using that
  proof (induction n)
    case (Suc n)
    have "List.find ?P (map (\<lambda>j. Up_Chunk (ud_blob d) j (f j) (g j)) [0..<i]) = None"
      by (auto simp: find_None_iff)
    with Suc show ?case by (cases "i < n") (simp_all add: find_append less_Suc_eq)
  qed simp
  from this [OF assms] show ?thesis by (simp add: uploaded_chunk_def upload_requests_def)
qed

definition manifest_ok :: "(string \<Rightarrow> bool) \<Rightarrow> manifest \<Rightarrow> bool" where
  "manifest_ok uuid m \<longleftrightarrow>
     is_lower_hex_of 32 (mf_id m) \<and> uuid (mf_blob m) \<and>
     1 \<le> length (mf_name m) \<and> length (mf_name m) \<le> 255 \<and> length (mf_mime m) \<le> 255 \<and>
     0 \<le> mf_size m \<and> mf_size m \<le> 26214400 \<and> mf_count m = chunk_total (mf_size m) \<and> mf_count m \<le> 400 \<and>
     int (length (mf_nonces m)) = mf_count m \<and> list_all (b64_bytes 12) (mf_nonces m) \<and>
     is_lower_hex_of 64 (mf_digest m) \<and> b64_bytes 32 (mf_key m)"

lemma array_of_strings: "list_all q xs \<Longrightarrow> array_of (string_where q) (JArr (map JStr xs)) = Some xs"
  by (induction xs) (auto simp: array_of_def string_where_def)

lemma chunk_total_pos: "1 \<le> chunk_total n" by (simp add: chunk_total_def)

lemma manifest_schema_json:
  assumes "manifest_ok uuid m"
  shows "manifest_schema uuid (manifest_json m) = Some m"
proof -
  note m = assms [unfolded manifest_ok_def]
  have a: "array_len 0 400 (string_where (b64_bytes 12)) (JArr (map JStr (mf_nonces m))) = Some (mf_nonces m)"
    using m by (simp add: array_len_def array_of_strings)
  show ?thesis
    unfolding manifest_schema_def manifest_json_def required_def field_def
    using m a chunk_total_pos [of "mf_size m"]
    by (simp add: string_where_def string_len_def int_range_def int_where_def max_safe_integer_def)
qed

lemma array_of_strings_all:
  assumes "array_of (string_where q) j = Some xs"
  shows "list_all q xs"
proof -
  from assms obtain ys where j: "j = JArr ys" and "those (map (string_where q) ys) = Some xs"
    by (auto simp: array_of_def split: json.splits)
  from this(2) show ?thesis
    by (induction ys arbitrary: xs) (auto simp: string_where_def split: option.splits json.splits if_splits)
qed

lemma manifest_schema_ok: "manifest_schema uuid j = Some m \<Longrightarrow> manifest_ok uuid m"
  by (auto simp: manifest_schema_def manifest_ok_def required_def string_where_Some string_len_def int_range_def
      int_where_Some array_len_def bind_eq_Some_conv split: if_splits
      dest!: array_of_strings_all)

lemma fetch_uploaded:
  assumes "gcm_ok env" and "length (ud_id d) = 16" and "i < chunk_count p"
  shows "fetch_plain env (upload_manifest env p name mime d) (uploaded_chunk (upload_requests env p d)) i =
    Inr (plain_chunk p i)"
  using assms
  by (simp add: fetch_plain_def uploaded_chunk_requests upload_manifest_def b64_decode_encode hex_decode_encode
      encrypt_chunk_def gcm_ok_def)

lemma fetch_all_uploaded:
  assumes "gcm_ok env" and "length (ud_id d) = 16"
  shows "fetch_all env (upload_manifest env p name mime d) (uploaded_chunk (upload_requests env p d)) = Inr p"
proof -
  have "nat (mf_count (upload_manifest env p name mime d)) = chunk_count p" by (simp add: upload_manifest_def)
  with try_fold_append [where f = "fetch_plain env (upload_manifest env p name mime d) (uploaded_chunk (upload_requests env p d))"
      and g = "plain_chunk p" and xs = "[0..<chunk_count p]" and acc = "[]"] fetch_uploaded [OF assms]
  show ?thesis by (simp add: fetch_all_def plain_chunks_concat)
qed

lemma upload_manifest_ok:
  assumes "length (ud_id d) = 16" and "length (ud_key d) = 32" and "\<forall>i. length (ud_nonce d i) = 12"
    and "is_uuid env (ud_blob d)" and "length p \<le> 26214400" and "sanitize_filename name \<noteq> []"
    and "length mime \<le> 255" and "\<forall>bs. length (dg_sha256 env bs) = 32"
  shows "manifest_ok (is_uuid env) (upload_manifest env p name mime d)"
  using assms chunk_count_bound [OF assms(5)]
  by (auto simp: manifest_ok_def upload_manifest_def chunk_total_count b64_bytes_def b64_decode_encode
      list_all_iff Suc_le_eq sanitize_filename_def)

text \<open>A download that returns a file has checked it against the manifest, stored it and its row.\<close>

lemma download_checked:
  assumes "download_and_decrypt env root key nonce answer m msg (fs, db) = ((fs', db'), Inr p)"
  obtains m1 path where "manifest_schema (is_uuid env) (manifest_json m) = Some m1"
    and "hex_decode (mf_digest m1) = dg_sha256 env p" and "int (length p) = mf_size m1"
    and "fetch_all env m1 answer = Inr p"
    and "path = root @ ''/attachments/'' @ mf_id m1" and "is_lower_hex_of 32 (mf_id m1)"
    and "cache_attachment env root key nonce (mf_id m1) p fs = Inr fs'"
    and "attachment_stored path (mf_id m1) msg db = Inr db'"
  using assms
  by (auto simp: download_and_decrypt_def check_file_def hex_decode_encode attachment_path_def try_then_Inr_iff
      split: option.splits sum.splits if_splits prod.splits)

lemma download_unchanged:
  assumes "download_and_decrypt env root key nonce answer m msg (fs, db) = ((fs', db'), Inl e)"
  shows "db' = db"
  using assms
  by (auto simp: download_and_decrypt_def split: option.splits sum.splits if_splits prod.splits)

end
