(* ===== verification/Daemon_Messages.thy ===== *)
theory Daemon_Messages
  imports Daemon_Attachments
begin

text \<open>
  \<open>consumer.ts\<close> and \<open>messages.ts\<close>: profiles and control messages, contacts, sending with the durable
  outbox, its flushing, and the processing of received envelopes. Network answers are arguments; so are
  random values and clock readings, in the order in which they are drawn. The time until which a peer
  counts as typing (\<open>typingUntil\<close>) is the part of the memory that the operations change.
\<close>

type_synonym typing = "(string, ms) jsmap"

section \<open>Control messages\<close>

definition profile_json :: "local_db \<Rightarrow> json" where
  "profile_json db =
     (let (n, s) = (case l_profile db of None \<Rightarrow> ([], []) | Some p \<Rightarrow> p)
      in JObj [(''displayName'', JStr n), (''statusLine'', JStr s)])"

text \<open>The join of \<open>conversations\<close>, \<open>remote_contacts\<close> and \<open>contacts\<close>.\<close>

definition conversation_peer :: "string \<Rightarrow> local_db \<Rightarrow> (conversation \<times> remote_contact \<times> contact) option" where
  "conversation_peer i db = do {
     v \<leftarrow> List.find (\<lambda>v. co_id v = i) (l_conversations db);
     r \<leftarrow> List.find (\<lambda>r. rm_contact r = co_contact v) (l_remotes db);
     c \<leftarrow> find_contact (co_contact v) db;
     Some (v, r, c)}"

definition control_expiry :: "(string \<times> json) list \<Rightarrow> ms option" where
  "control_expiry kvs =
     (case (map_of kvs ''type'', map_of kvs ''expiresAt'') of
        (Some (JStr t), Some (JInt n)) \<Rightarrow> if t = ''typing'' then Some n else None
      | _ \<Rightarrow> None)"

definition insert_control :: "control \<Rightarrow> local_db \<Rightarrow> string + local_db" where
  "insert_control c db =
     (if has_row (\<lambda>x. cb_envelope x = cb_envelope c) (l_controls db) then Inl ''UNIQUE''
      else Inr (db\<lparr>l_controls := l_controls db @ [c]\<rparr>))"

definition combined :: "8 word \<Rightarrow> string \<Rightarrow> string" where
  "combined t c = b64_encode (t # b64_decode c)"

definition queue_control ::
  "daemon_env \<Rightarrow> bytes \<Rightarrow> ms \<Rightarrow> string \<Rightarrow> (string \<times> json) list \<Rightarrow> ('x, unit) daemon_op" where
  "queue_control env envelope now conv kvs =
     bind_op (look (conversation_peer conv)) (\<lambda>p. case p of
       None \<Rightarrow> throw ''IDENTITY_NOT_READY''
     | Some (v, r, c) \<Rightarrow>
         if ct_changed c then throw ''IDENTITY_NOT_READY''
         else bind_op (look profile_json) (\<lambda>prof.
              bind_op (encrypt_payload env (rm_user r, rm_signal r)
                (json_text env (JObj (kvs @ [(''profile'', prof)])))) (\<lambda>(t, ciphertext).
              attempt (insert_control \<lparr>cb_envelope = hex_encode envelope, cb_contact = rm_contact r,
                cb_mailbox = rm_device r, cb_ciphertext = combined t ciphertext, cb_created = now,
                cb_expires = control_expiry kvs\<rparr>))))"

definition queued_controls :: "local_db \<Rightarrow> control list" where
  "queued_controls db = sort_key cb_created
     (filter (\<lambda>o1. has_row (\<lambda>c. ct_id c = cb_contact o1 \<and> \<not> ct_changed c) (l_contacts db)) (l_controls db))"

definition drop_control :: "string \<Rightarrow> local_db \<Rightarrow> local_db" where
  "drop_control e db = db\<lparr>l_controls := delete_where (\<lambda>x. cb_envelope x = e) (l_controls db)\<rparr>"

text \<open>The lifetime that an ephemeral message is posted with.\<close>

definition control_ttl :: "control \<Rightarrow> int option" where
  "control_ttl c = map_option (\<lambda>e. max 1 (min 10000 (e - cb_created c))) (cb_expires c)"

fun flush_control_rows ::
  "(string \<Rightarrow> bool) \<Rightarrow> (string \<Rightarrow> ms) \<Rightarrow> control list \<Rightarrow> local_db \<Rightarrow> local_db \<times> (string \<times> int option) list" where
  "flush_control_rows post clock [] db = (db, [])"
| "flush_control_rows post clock (c # cs) db =
     (if (case cb_expires c of Some e \<Rightarrow> e \<le> clock (cb_envelope c) | None \<Rightarrow> False)
      then flush_control_rows post clock cs (drop_control (cb_envelope c) db)
      else if post (cb_envelope c)
      then (let (db', ps) = flush_control_rows post clock cs (drop_control (cb_envelope c) db)
            in (db', (cb_envelope c, control_ttl c) # ps))
      else (db, [(cb_envelope c, control_ttl c)]))"

definition flush_controls ::
  "(string \<Rightarrow> bool) \<Rightarrow> (string \<Rightarrow> ms) \<Rightarrow> local_db \<Rightarrow> local_db \<times> (string \<times> int option) list" where
  "flush_controls post clock db = flush_control_rows post clock (queued_controls db) db"

section \<open>Contacts\<close>

definition find_or_create_conversation :: "string \<Rightarrow> ms \<Rightarrow> string \<Rightarrow> ('x, string) daemon_op" where
  "find_or_create_conversation new now contact =
     bind_op (look (\<lambda>db. List.find (\<lambda>v. co_contact v = contact) (l_conversations db))) (\<lambda>v. case v of
       Some v \<Rightarrow> ret (co_id v)
     | None \<Rightarrow> then_op (attempt (insert_conversation
         \<lparr>co_id = new, co_contact = contact, co_timer = None, co_created = now\<rparr>)) (ret new))"

text \<open>
  What both \<open>addContactAndSession\<close> and \<open>syncMessages\<close> do with a fetched bundle: set up the session, pin
  the identity, store the remote contact and compute the safety number.
\<close>

definition adopt_bundle :: "daemon_env \<Rightarrow> ms \<Rightarrow> fetched_bundle \<Rightarrow> ('x, string \<times> string) daemon_op" where
  "adopt_bundle env now b =
     (let a = (fb_user b, fb_signal b); c = address_text env a
      in then_op (establish_session env a b now)
         (then_op (attempt (upsert_remote \<lparr>rm_contact = c, rm_user = fb_user b, rm_device = fb_device b,
            rm_signal = fb_signal b\<rparr>))
         (bind_op (look (safety_number env a)) (\<lambda>r. bind_op (value_of r) (\<lambda>n. ret (c, n))))))"

definition update_contact :: "string \<Rightarrow> (contact \<Rightarrow> contact) \<Rightarrow> local_db \<Rightarrow> local_db" where
  "update_contact c f db = db\<lparr>l_contacts := update_where (\<lambda>x. ct_id x = c) f (l_contacts db)\<rparr>"

definition add_contact ::
  "daemon_env \<Rightarrow> string \<Rightarrow> (nat \<Rightarrow> ms) \<Rightarrow> fetched_bundle option \<Rightarrow> string \<Rightarrow> ('x, string \<times> string) daemon_op" where
  "add_contact env new clock answer username =
     (case answer of
        None \<Rightarrow> throw ''Failed to fetch bundle''
      | Some b \<Rightarrow>
          bind_op (adopt_bundle env (clock 0) b) (\<lambda>(c, n).
          then_op (change (update_contact c (\<lambda>x. x\<lparr>ct_name := (case fb_name b of Some m \<Rightarrow> m | None \<Rightarrow> username),
            ct_uid := fb_uid b, ct_safety := Some n, ct_changed := False\<rparr>)))
          (bind_op (find_or_create_conversation new (clock 1) c) (\<lambda>v. ret (v, n)))))"

section \<open>Sending\<close>

record send_draw =
  sd_message :: string
  sd_envelope :: bytes
  sd_iv :: bytes
  sd_clock :: "nat \<Rightarrow> ms"

definition payload_json :: "local_db \<Rightarrow> string \<Rightarrow> string \<Rightarrow> conversation \<Rightarrow> manifest option \<Rightarrow> json" where
  "payload_json db msg text v mf = JObj
     ([(''type'', JStr ''text''), (''messageId'', JStr msg), (''profile'', profile_json db), (''text'', JStr text),
       (''disappearingSeconds'', JInt (case co_timer v of None \<Rightarrow> 0 | Some s \<Rightarrow> s))] @
      (case mf of None \<Rightarrow> [] | Some m \<Rightarrow> [(''attachment'', manifest_json m)]))"

text \<open>\<open>disappearing_seconds ? now + seconds * 1000 : null\<close>\<close>

definition disappear_at :: "ms \<Rightarrow> int option \<Rightarrow> ms option" where
  "disappear_at now timer = (case timer of None \<Rightarrow> None | Some s \<Rightarrow> if s = 0 then None else Some (now + s * 1000))"

definition attachment_row :: "daemon_env \<Rightarrow> bytes \<Rightarrow> bytes \<Rightarrow> string \<Rightarrow> string option \<Rightarrow> manifest \<Rightarrow> local_attachment" where
  "attachment_row env key iv msg path m =
     \<lparr>at_id = mf_id m, at_message = msg, at_path = path, at_name = iv @ cbc_encrypt env key iv (utf8 (mf_name m)),
      at_size = mf_size m, at_hash = hex_decode (mf_digest m), at_key = b64_decode (mf_key m)\<rparr>"

definition store_sent ::
  "daemon_env \<Rightarrow> string \<Rightarrow> bytes \<Rightarrow> send_draw \<Rightarrow> conversation \<times> remote_contact \<times> contact \<Rightarrow> string \<Rightarrow> string \<Rightarrow>
     manifest option \<Rightarrow> ('x, unit) daemon_op" where
  "store_sent env root key d peer payload text mf =
     (let (v, r, c) = peer
      in bind_op (encrypt_payload env (rm_user r, rm_signal r) payload) (\<lambda>(t, ciphertext).
         then_op (attempt (insert_message \<lparr>lm_id = sd_message d, lm_conversation = co_id v, lm_direction = Sent,
           lm_text = text, lm_sent = Some (sd_clock d 0), lm_received = None,
           lm_disappear = disappear_at (sd_clock d 1) (co_timer v), lm_remote = None, lm_status = ''queued''\<rparr>))
         (then_op (attempt (insert_outgoing \<lparr>og_envelope = hex_encode (sd_envelope d), og_message = sd_message d,
           og_mailbox = rm_device r, og_ciphertext = combined t ciphertext, og_created = sd_clock d 2\<rparr>))
         (case mf of
            None \<Rightarrow> ret ()
          | Some m \<Rightarrow> bind_op (value_of (attachment_path root (mf_id m))) (\<lambda>path.
              attempt (insert_attachment (attachment_row env key (sd_iv d) (sd_message d) (Some path) m)))))))"

definition link_blob :: "manifest \<Rightarrow> local_db \<Rightarrow> local_db" where
  "link_blob m db = db\<lparr>l_tor_links := delete_where (\<lambda>l. fst l = mf_id m) (l_tor_links db) @ [(mf_id m, mf_blob m)]\<rparr>"

definition queued_outgoing :: "ms \<Rightarrow> local_db \<Rightarrow> outgoing list" where
  "queued_outgoing now db = sort_key og_created (filter (\<lambda>o1.
     has_row (\<lambda>m. lm_id m = og_message o1 \<and> (case lm_disappear m of None \<Rightarrow> True | Some t \<Rightarrow> now < t) \<and>
       has_row (\<lambda>v. co_id v = lm_conversation m \<and>
         has_row (\<lambda>c. ct_id c = co_contact v \<and> \<not> ct_changed c) (l_contacts db)) (l_conversations db))
     (l_messages db)) (l_outbox db))"

definition mark_sent :: "outgoing \<Rightarrow> local_db \<Rightarrow> local_db" where
  "mark_sent o1 db = db\<lparr>
     l_messages := update_where (\<lambda>m. lm_id m = og_message o1) (\<lambda>m. m\<lparr>lm_status := ''sent''\<rparr>) (l_messages db),
     l_outbox := delete_where (\<lambda>x. og_envelope x = og_envelope o1) (l_outbox db)\<rparr>"

text \<open>\<open>post\<close> says whether the relay accepts the envelope now; the first failure ends the loop.\<close>

fun flush_rows :: "(outgoing \<Rightarrow> bool) \<Rightarrow> outgoing list \<Rightarrow> local_db \<Rightarrow> local_db \<times> outgoing list \<times> nat" where
  "flush_rows post [] db = (db, [], 0)"
| "flush_rows post (o1 # os) db =
     (if post o1
      then (let (db', posted, n) = flush_rows post os (mark_sent o1 db) in (db', o1 # posted, Suc n))
      else (db, [o1], 0))"

definition flush_outbox :: "(outgoing \<Rightarrow> bool) \<Rightarrow> ms \<Rightarrow> local_db \<Rightarrow> local_db \<times> outgoing list \<times> nat" where
  "flush_outbox post now db = flush_rows post (queued_outgoing now db) db"

definition message_status :: "string \<Rightarrow> local_db \<Rightarrow> string" where
  "message_status m db =
     (case List.find (\<lambda>x. lm_id x = m) (l_messages db) of None \<Rightarrow> ''queued'' | Some x \<Rightarrow> lm_status x)"

definition send_message_local ::
  "daemon_env \<Rightarrow> string \<Rightarrow> bytes \<Rightarrow> send_draw \<Rightarrow> (outgoing \<Rightarrow> bool) \<Rightarrow> bool \<Rightarrow> string \<Rightarrow> string \<Rightarrow> json option \<Rightarrow>
     ('x, string \<times> string) daemon_op" where
  "send_message_local env root key d post routing conv text attachment =
     bind_op (value_of (case attachment of
       None \<Rightarrow> Inr None
     | Some j \<Rightarrow> (case manifest_schema (is_uuid env) j of None \<Rightarrow> Inl ''ZodError'' | Some m \<Rightarrow> Inr (Some m)))) (\<lambda>mf.
     bind_op (look (conversation_peer conv)) (\<lambda>p. case p of
       None \<Rightarrow> throw ''conversation_not_found''
     | Some (v, r, c) \<Rightarrow>
         if ct_changed c then throw ''identity_changed_blocked''
         else bind_op (look (\<lambda>db. json_text env (payload_json db (sd_message d) text v mf))) (\<lambda>payload.
              then_op (case mf of Some m \<Rightarrow> if routing then change (link_blob m) else ret () | None \<Rightarrow> ret ())
              (then_op (in_tx (store_sent env root key d (v, r, c) payload text mf))
              (then_op (change (\<lambda>db. fst (flush_outbox post (sd_clock d 3) db)))
              (bind_op (look (message_status (sd_message d))) (\<lambda>st. ret (sd_message d, st))))))))"

section \<open>Receiving\<close>

record incoming =
  ic_id :: string
  ic_sender :: string
  ic_ciphertext :: string

text \<open>Envelopes come from the relay or the onion inbox, which write ids and ciphertexts as strings.\<close>

definition incoming_of :: "json \<Rightarrow> incoming option" where
  "incoming_of j = do {
     must (field ''version'' j = Some (JInt 1));
     i \<leftarrow> required ''envelopeId'' nonempty_string j;
     c \<leftarrow> required ''ciphertext'' nonempty_string j;
     s \<leftarrow> required ''senderId'' as_string j;
     Some \<lparr>ic_id = i, ic_sender = s, ic_ciphertext = c\<rparr>}"

record sync_draw =
  sy_conversation :: string
  sy_message :: string
  sy_control :: bytes
  sy_iv :: bytes
  sy_clock :: "nat \<Rightarrow> ms"

definition truthy :: "json \<Rightarrow> bool" where
  "truthy j = (case j of JNull \<Rightarrow> False | JBool b \<Rightarrow> b | JInt n \<Rightarrow> n \<noteq> 0 | JStr s \<Rightarrow> s \<noteq> [] | _ \<Rightarrow> True)"

definition seen :: "string \<Rightarrow> local_db \<Rightarrow> bool" where
  "seen i db = has_row (\<lambda>x. fst x = i) (l_seen db)"

text \<open>The contact of the sending device; for an unknown device its bundle is fetched first.\<close>

definition resolve_sender ::
  "daemon_env \<Rightarrow> (string \<Rightarrow> fetched_bundle option) \<Rightarrow> ms \<Rightarrow> string \<Rightarrow> ('x, (string \<times> address) option) daemon_op" where
  "resolve_sender env answer now dev =
     bind_op (look (\<lambda>db. List.find (\<lambda>r. rm_device r = dev) (l_remotes db))) (\<lambda>known. case known of
       Some r \<Rightarrow> ret (Some (rm_contact r, (rm_user r, rm_signal r)))
     | None \<Rightarrow> (case answer dev of
         None \<Rightarrow> ret None
       | Some b \<Rightarrow> bind_op (adopt_bundle env now b) (\<lambda>(c, n).
           then_op (change (update_contact c (\<lambda>x. x\<lparr>ct_name := (case fb_name b of Some m \<Rightarrow> m | None \<Rightarrow> []),
             ct_uid := fb_uid b, ct_safety := Some n\<rparr>)))
           (ret (Some (c, (fb_user b, fb_signal b)))))))"

definition peer_profile_of :: "string \<Rightarrow> json \<Rightarrow> peer_profile option" where
  "peer_profile_of c j = do {
     m \<leftarrow> field ''profile'' j;
     n \<leftarrow> required ''displayName'' (string_len 0 64) m;
     s \<leftarrow> required ''statusLine'' (string_len 0 140) m;
     Some \<lparr>pp_contact = c, pp_name = n, pp_status = s\<rparr>}"

definition save_profile :: "peer_profile option \<Rightarrow> local_db \<Rightarrow> local_db" where
  "save_profile p db = (case p of None \<Rightarrow> db | Some q \<Rightarrow>
     db\<lparr>l_peer_profiles := delete_where (\<lambda>x. pp_contact x = pp_contact q) (l_peer_profiles db) @ [q]\<rparr>)"

definition own_message :: "string \<Rightarrow> string \<Rightarrow> local_message \<Rightarrow> bool" where
  "own_message i conv m \<longleftrightarrow> lm_id m = i \<and> lm_conversation m = conv \<and> lm_direction m = Sent"

definition mark_delivered :: "string \<Rightarrow> string \<Rightarrow> local_db \<Rightarrow> local_db" where
  "mark_delivered i conv db = db\<lparr>l_messages := update_where
     (\<lambda>m. own_message i conv m \<and> lm_status m \<in> {''queued'', ''sent''})
     (\<lambda>m. m\<lparr>lm_status := ''delivered''\<rparr>) (l_messages db)\<rparr>"

text \<open>\<open>rowid <= (SELECT rowid ..)\<close>: the sent messages of the conversation up to the named one.\<close>

definition mark_read :: "string \<Rightarrow> string \<Rightarrow> local_db \<Rightarrow> local_db" where
  "mark_read i conv db =
     (let later = dropWhile (\<lambda>m. \<not> own_message i conv m) (l_messages db);
          upto = length (l_messages db) - length later + 1
      in if later = [] then db
         else db\<lparr>l_messages := update_where (\<lambda>m. lm_conversation m = conv \<and> lm_direction m = Sent)
                (\<lambda>m. m\<lparr>lm_status := ''read''\<rparr>) (take upto (l_messages db)) @ drop upto (l_messages db)\<rparr>)"

definition receive_control :: "sync_draw \<Rightarrow> string \<Rightarrow> string \<Rightarrow> json \<Rightarrow> (typing, unit) daemon_op" where
  "receive_control d eid conv j =
     (let i = (case field ''upToMessageId'' j of Some (JStr s) \<Rightarrow> s | _ \<Rightarrow> []);
          t = field ''type'' j
      in then_op
        (if t = Some (JStr ''typing'') \<and>
            (case field ''expiresAt'' j of Some (JInt n) \<Rightarrow> sy_clock d 1 < n \<and> n < sy_clock d 2 + 10000 | _ \<Rightarrow> False)
         then memory (map_set conv (sy_clock d 3 + 5000))
         else if t = Some (JStr ''delivered'') then change (mark_delivered i conv)
         else if t = Some (JStr ''read_receipt'') then change (mark_read i conv)
         else ret ())
        (attempt (insert_seen eid (sy_clock d 4))))"

definition received_text :: "json \<Rightarrow> string + string" where
  "received_text j =
     (case field ''text'' j of
        None \<Rightarrow> Inr []
      | Some v \<Rightarrow> if \<not> truthy v then Inr []
          else (case v of JStr s \<Rightarrow> Inr s | JInt n \<Rightarrow> Inr (show_int n) | JFloat f \<Rightarrow> Inr f | _ \<Rightarrow> Inl ''TypeError''))"

definition received_timer :: "ms \<Rightarrow> json \<Rightarrow> ms option" where
  "received_timer now j =
     (case field ''disappearingSeconds'' j of
        Some (JInt n) \<Rightarrow> if n \<in> {3600, 86400, 604800} then Some (now + n * 1000) else None
      | _ \<Rightarrow> None)"

definition message_id_ok :: "string \<Rightarrow> bool" where
  "message_id_ok s \<longleftrightarrow> length s = 36 \<and> list_all (\<lambda>c. is_hex_lower c \<or> c = CHR ''-'') s"

definition receive_text :: "daemon_env \<Rightarrow> bytes \<Rightarrow> sync_draw \<Rightarrow> string \<Rightarrow> string \<Rightarrow> json \<Rightarrow> (typing, unit) daemon_op" where
  "receive_text env key d eid conv j =
     bind_op (value_of (case field ''attachment'' j of
       Some a \<Rightarrow> if truthy a then (case manifest_schema (is_uuid env) a of None \<Rightarrow> Inl ''ZodError'' | Some m \<Rightarrow> Inr (Some m))
         else Inr None
     | None \<Rightarrow> Inr None)) (\<lambda>mf.
     bind_op (value_of (received_text j)) (\<lambda>text.
     then_op (attempt (insert_message \<lparr>lm_id = sy_message d, lm_conversation = conv, lm_direction = Received,
       lm_text = text, lm_sent = None, lm_received = Some (sy_clock d 1),
       lm_disappear = received_timer (sy_clock d 2) j, lm_remote = Some eid, lm_status = ''received''\<rparr>))
     (then_op (case field ''messageId'' j of
        Some (JStr r) \<Rightarrow> if message_id_ok r
          then then_op (attempt (insert_link (sy_message d) r))
                 (queue_control env (sy_control d) (sy_clock d 3) conv
                   [(''type'', JStr ''delivered''), (''upToMessageId'', JStr r)])
          else ret ()
      | _ \<Rightarrow> ret ())
     (then_op (memory (map_delete conv))
     (then_op (case mf of
        None \<Rightarrow> ret ()
      | Some m \<Rightarrow> then_op (attempt (insert_attachment (attachment_row env key (sy_iv d) (sy_message d) None m)))
          (attempt (insert_download \<lparr>dl_attachment = mf_id m, dl_manifest = json_text env (manifest_json m)\<rparr>)))
     (change (remember_seen eid (sy_clock d 4))))))))"

definition receive_payload ::
  "daemon_env \<Rightarrow> bytes \<Rightarrow> sync_draw \<Rightarrow> incoming \<Rightarrow> string \<Rightarrow> address \<Rightarrow> (typing, unit) daemon_op" where
  "receive_payload env key d e c a =
     (let raw = b64_decode (ic_ciphertext e)
      in bind_op (decrypt_payload env a (b64_encode (drop 1 raw)) (case raw of [] \<Rightarrow> None | t # _ \<Rightarrow> Some t)) (\<lambda>text.
         bind_op (value_of (case json_parse env text of None \<Rightarrow> Inl ''SyntaxError'' | Some j \<Rightarrow> Inr j)) (\<lambda>j.
         bind_op (find_or_create_conversation (sy_conversation d) (sy_clock d 0) c) (\<lambda>conv.
         if j = JNull then throw ''TypeError''
         else then_op (change (save_profile (peer_profile_of c j)))
           (if field ''type'' j \<noteq> Some (JStr ''text'') then receive_control d (ic_id e) conv j
            else receive_text env key d (ic_id e) conv j)))))"

text \<open>
  One envelope: \<open>Some True\<close> was received and is acknowledged, \<open>Some False\<close> was seen before and is
  acknowledged, \<open>None\<close> stays at the relay. An exception of the transaction is caught and logged; an
  exception of \<open>resolve_sender\<close> ends the whole synchronisation.
\<close>

definition contact_changed :: "string \<Rightarrow> local_db \<Rightarrow> bool" where
  "contact_changed c db = (case find_contact c db of Some x \<Rightarrow> ct_changed x | None \<Rightarrow> False)"

definition catch_op :: "('x, 'a) daemon_op \<Rightarrow> 'a \<Rightarrow> ('x, 'a) daemon_op" where
  "catch_op m a s = (case m s of (s', Inl _) \<Rightarrow> (s', Inr a) | r \<Rightarrow> r)"

definition sync_envelope ::
  "daemon_env \<Rightarrow> bytes \<Rightarrow> (string \<Rightarrow> fetched_bundle option) \<Rightarrow> sync_draw \<Rightarrow> incoming \<Rightarrow> (typing, bool option) daemon_op" where
  "sync_envelope env key answer d e =
     bind_op (look (seen (ic_id e))) (\<lambda>again.
     if again then ret (Some False)
     else bind_op (resolve_sender env answer (sy_clock d 5) (ic_sender e)) (\<lambda>p. case p of
       None \<Rightarrow> ret None
     | Some (c, a) \<Rightarrow>
         bind_op (look (contact_changed c)) (\<lambda>blocked.
         if blocked then ret None
         else catch_op (then_op (in_tx (receive_payload env key d e c a)) (ret (Some True))) None)))"

fun sync_list ::
  "daemon_env \<Rightarrow> bytes \<Rightarrow> (string \<Rightarrow> fetched_bundle option) \<Rightarrow> (nat \<Rightarrow> sync_draw) \<Rightarrow> nat \<Rightarrow> json list \<Rightarrow>
     (typing, string list \<times> nat) daemon_op" where
  "sync_list env key answer draws k [] = ret ([], 0)"
| "sync_list env key answer draws k (j # js) =
     (case incoming_of j of
        None \<Rightarrow> sync_list env key answer draws (Suc k) js
      | Some e \<Rightarrow>
          bind_op (sync_envelope env key answer (draws k) e) (\<lambda>r.
          bind_op (sync_list env key answer draws (Suc k) js) (\<lambda>(acks, n).
          ret (case r of None \<Rightarrow> (acks, n) | Some new \<Rightarrow> (ic_id e # acks, if new then Suc n else n)))))"

text \<open>
  \<open>pushed\<close> are the envelopes that arrived over the socket, \<open>pending\<close> the relay's reply that is asked for
  without them. The result has the acknowledged ids and the number of received messages.
\<close>

definition sync_messages ::
  "daemon_env \<Rightarrow> bytes \<Rightarrow> (string \<Rightarrow> fetched_bundle option) \<Rightarrow> (nat \<Rightarrow> sync_draw) \<Rightarrow> json list \<Rightarrow> json list option \<Rightarrow>
     (typing, string list \<times> nat) daemon_op" where
  "sync_messages env key answer draws pushed pending =
     bind_op (value_of (if pushed \<noteq> [] then Inr pushed
       else (case pending of None \<Rightarrow> Inl ''RELAY_SYNC_UNAVAILABLE'' | Some js \<Rightarrow> Inr js))) (\<lambda>js.
     sync_list env key answer draws 0 js)"

section \<open>Every operation keeps the database well-formed\<close>

lemma local_ok_insert_control [local_step]: "insert_control c db = Inr db' \<Longrightarrow> local_ok db \<Longrightarrow> local_ok db'"
  by (auto simp: insert_control_def local_ok_def has_contact_def has_message_def split: if_splits)

lemma local_ok_drop_control [local_step]: "local_ok db \<Longrightarrow> local_ok (drop_control e db)"
  by (simp add: drop_control_def local_ok_def has_contact_def has_message_def)

lemma local_ok_update_contact [local_step]:
  "local_ok db \<Longrightarrow> (\<And>x. ct_id (f x) = ct_id x) \<Longrightarrow> local_ok (update_contact c f db)"
proof -
  assume ok: "local_ok db" and f: "\<And>x. ct_id (f x) = ct_id x"
  have ids: "map ct_id (l_contacts (update_contact c f db)) = map ct_id (l_contacts db)"
    by (simp add: update_contact_def map_update_where f)
  then have "has_contact d (update_contact c f db) = has_contact d db" for d by (simp only: has_contact_iff)
  with ok ids show ?thesis by (simp add: local_ok_def unique_key_def has_message_def update_contact_def)
qed

lemma local_ok_link_blob [local_step]: "local_ok db \<Longrightarrow> local_ok (link_blob m db)"
  by (simp add: link_blob_def local_ok_def has_contact_def has_message_def)

lemma local_ok_save_profile [local_step]: "local_ok db \<Longrightarrow> local_ok (save_profile q db)"
  by (simp add: save_profile_def local_ok_def has_contact_def has_message_def split: option.splits)

text \<open>Updates of messages that keep their ids and conversations.\<close>

lemma local_ok_messages:
  assumes "local_ok db" and "map (\<lambda>m. (lm_id m, lm_conversation m)) ms = map (\<lambda>m. (lm_id m, lm_conversation m)) (l_messages db)"
  shows "local_ok (db\<lparr>l_messages := ms\<rparr>)"
proof -
  have ids: "map lm_id ms = map lm_id (l_messages db)" using arg_cong [OF assms(2), of "map fst"] by (simp add: comp_def)
  have "map lm_conversation ms = map lm_conversation (l_messages db)"
    using arg_cong [OF assms(2), of "map snd"] by (simp add: comp_def)
  then have "lm_conversation ` set ms = lm_conversation ` set (l_messages db)" by (metis set_map)
  moreover have "lm_conversation ` set (l_messages db) \<subseteq> co_id ` set (l_conversations db)"
    using assms(1) unfolding local_ok_def by (auto simp: image_iff) metis
  ultimately have sub: "lm_conversation ` set ms \<subseteq> co_id ` set (l_conversations db)" by simp
  have conv: "\<forall>m \<in> set ms. \<exists>c \<in> set (l_conversations db). co_id c = lm_conversation m"
  proof
    fix m assume "m \<in> set ms"
    with sub have "lm_conversation m \<in> co_id ` set (l_conversations db)" by blast
    then show "\<exists>c \<in> set (l_conversations db). co_id c = lm_conversation m" by (auto simp: image_iff)
  qed
  have "has_message m (db\<lparr>l_messages := ms\<rparr>) = has_message m db" for m
    using arg_cong [OF ids, of set] by (simp add: has_message_set)
  with assms(1) ids conv show ?thesis by (simp add: local_ok_def unique_key_def has_contact_def)
qed

lemma local_ok_mark_delivered [local_step]: "local_ok db \<Longrightarrow> local_ok (mark_delivered i conv db)"
  unfolding mark_delivered_def by (rule local_ok_messages) (simp_all add: map_update_where)

lemma map_update_take:
  assumes "\<And>x. k (f x) = k x"
  shows "map k (update_where p f (take n ms) @ drop n ms) = map k ms"
proof -
  have "map k (update_where p f (take n ms) @ drop n ms) = map k (take n ms) @ map k (drop n ms)"
    by (simp add: map_update_where assms)
  then show ?thesis by (simp flip: map_append)
qed

lemma local_ok_mark_read [local_step]: "local_ok db \<Longrightarrow> local_ok (mark_read i conv db)"
  unfolding mark_read_def Let_def by (auto simp del: map_append intro!: local_ok_messages map_update_take)

lemma local_ok_mark_sent [local_step]: "local_ok db \<Longrightarrow> local_ok (mark_sent o1 db)"
proof -
  assume ok: "local_ok db"
  let ?ms = "update_where (\<lambda>m. lm_id m = og_message o1) (\<lambda>m. m\<lparr>lm_status := ''sent''\<rparr>) (l_messages db)"
  have "local_ok (db\<lparr>l_messages := ?ms\<rparr>)" by (rule local_ok_messages [OF ok]) (simp add: map_update_where)
  then have "local_ok ((db\<lparr>l_messages := ?ms\<rparr>)\<lparr>l_outbox := delete_where P (l_outbox db)\<rparr>)" for P
    by (auto simp: local_ok_def has_contact_def has_message_def set_delete_where unique_key_delete_where)
  then show ?thesis by (simp add: mark_sent_def)
qed

lemma local_ok_flush_rows: "local_ok db \<Longrightarrow> local_ok (fst (flush_rows post os db))"
  by (induction os arbitrary: db) (simp_all add: local_ok_mark_sent case_prod_beta Let_def)

lemma local_ok_flush_outbox [local_step]: "local_ok db \<Longrightarrow> local_ok (fst (flush_outbox post now db))"
  by (simp add: flush_outbox_def local_ok_flush_rows)

lemma local_ok_flush_controls [local_step]: "local_ok db \<Longrightarrow> local_ok (fst (flush_controls post clock db))"
proof -
  have "local_ok db \<Longrightarrow> local_ok (fst (flush_control_rows post clock cs db))" for cs
    by (induction cs arbitrary: db) (simp_all add: local_ok_drop_control case_prod_beta Let_def)
  then show "local_ok db \<Longrightarrow> ?thesis" by (simp add: flush_controls_def)
qed

lemma keeps_catch [keeping]: "keeps P m \<Longrightarrow> keeps P (catch_op m a)"
proof (rule keepsI)
  fix db x assume m: "keeps P m" "P db"
  obtain db1 x1 r where r: "m (db, x) = ((db1, x1), r)" by (metis surj_pair)
  with m have "P db1" by (blast dest: keepsD)
  with r show "P (fst (fst (catch_op m a (db, x))))" by (cases r) (auto simp: catch_op_def)
qed

lemma keeps_find_or_create [keeping]: "keeps local_ok (find_or_create_conversation new now c)"
  unfolding find_or_create_conversation_def
  by (auto intro!: keeping keeps_attempt intro: local_ok_insert_conversation split: option.split)

lemma keeps_queue_control [keeping]: "libsignal_ok env \<Longrightarrow> keeps local_ok (queue_control env e now conv kvs)"
  unfolding queue_control_def
  by (auto intro!: keeping keeps_attempt intro: local_ok_insert_control split: option.split prod.splits)

lemma keeps_adopt_bundle [keeping]: "libsignal_ok env \<Longrightarrow> keeps local_ok (adopt_bundle env now b)"
  unfolding adopt_bundle_def Let_def
  by (auto intro!: keeping keeps_attempt intro: local_ok_upsert_remote)

lemma keeps_add_contact [keeping]: "libsignal_ok env \<Longrightarrow> keeps local_ok (add_contact env new clock answer n)"
  unfolding add_contact_def
  by (auto intro!: keeping keeps_change local_ok_update_contact split: option.split prod.splits)

lemma keeps_store_sent [keeping]: "libsignal_ok env \<Longrightarrow> keeps local_ok (store_sent env root key d peer payload text mf)"
  unfolding store_sent_def
  by (auto intro!: keeping keeps_attempt intro: local_ok_insert_message local_ok_insert_outgoing
      local_ok_insert_attachment simp: Let_def split: option.split prod.splits)

lemma keeps_send [keeping]:
  "libsignal_ok env \<Longrightarrow> keeps local_ok (send_message_local env root key d post routing conv text j)"
  unfolding send_message_local_def
  by (auto intro!: keeping keeps_change local_ok_flush_outbox local_ok_link_blob split: option.split prod.splits)

lemma keeps_resolve_sender [keeping]: "libsignal_ok env \<Longrightarrow> keeps local_ok (resolve_sender env answer now dev)"
  unfolding resolve_sender_def
  by (auto intro!: keeping keeps_change local_ok_update_contact split: option.split prod.splits)

lemma keeps_receive [keeping]:
  assumes "libsignal_ok env"
  shows "keeps local_ok (receive_control d eid conv j)" and "keeps local_ok (receive_text env key d eid conv j)"
    and "keeps local_ok (receive_payload env key d e c a)"
proof -
  show c: "keeps local_ok (receive_control d eid conv j)" for eid conv j
    unfolding receive_control_def Let_def
    by (auto intro!: keeping keeps_change keeps_attempt local_ok_mark_delivered local_ok_mark_read
        intro: local_ok_insert_seen)
  show t: "keeps local_ok (receive_text env key d eid conv j)" for eid conv j
    unfolding receive_text_def
    by (intro keeping keeps_change keeps_attempt local_ok_remember_seen)
      (auto intro!: keeping keeps_attempt assms intro: local_ok_insert_message local_ok_insert_link
        local_ok_insert_attachment local_ok_insert_download split: option.split json.split)
  show "keeps local_ok (receive_payload env key d e c a)"
    unfolding receive_payload_def Let_def
    by (auto intro!: keeping keeps_change local_ok_save_profile assms c t)
qed

lemma keeps_sync_envelope [keeping]: "libsignal_ok env \<Longrightarrow> keeps local_ok (sync_envelope env key answer d e)"
  unfolding sync_envelope_def by (auto intro!: keeping split: option.split prod.splits)

lemma keeps_sync_list [keeping]: "libsignal_ok env \<Longrightarrow> keeps local_ok (sync_list env key answer draws k js)"
  by (induction js arbitrary: k) (auto intro!: keeping split: option.split prod.splits)

lemma keeps_sync_messages [keeping]: "libsignal_ok env \<Longrightarrow> keeps local_ok (sync_messages env key answer draws pushed pending)"
  unfolding sync_messages_def by (intro keeping)

end
