(* ===== verification/Daemon_Delivery.thy ===== *)
theory Daemon_Delivery
  imports Daemon_Messages
begin

text \<open>
  What the daemon's message handling guarantees: an envelope yields at most one message however often
  it is delivered, it is acknowledged only when this is recorded, a message that was accepted for
  sending is in the outbox until the relay has it, and the outbox is flushed in order.
\<close>

section \<open>Received envelopes\<close>

text \<open>Where the messages come from and which envelopes were seen.\<close>

definition inbox :: "local_db \<Rightarrow> string option list \<times> (string \<times> ms) list" where
  "inbox db = (map lm_remote (l_messages db), l_seen db)"

definition inbox_ok :: "string option list \<times> (string \<times> ms) list \<Rightarrow> bool" where
  "inbox_ok v \<longleftrightarrow> (\<forall>i. count_list (fst v) (Some i) \<le> 1) \<and> (\<forall>i. Some i \<in> set (fst v) \<longrightarrow> i \<in> fst ` set (snd v))"

abbreviation inbox_is :: "string option list \<times> (string \<times> ms) list \<Rightarrow> local_db \<Rightarrow> bool" where
  "inbox_is v \<equiv> \<lambda>db. inbox db = v"

lemma inbox_signal: "signal_frame db db' \<Longrightarrow> inbox db' = inbox db"
  by (simp add: inbox_def signal_frame_fields)

lemma inbox_calls: "store_calls env db db' \<Longrightarrow> inbox db' = inbox db"
  by (rule inbox_signal [OF store_calls_frame])

named_theorems inbox_frame \<open>writes that leave the inbox alone\<close>

lemma inbox_writes [inbox_frame]:
  "inbox (update_contact c f db) = inbox db" "inbox (save_profile p db) = inbox db"
  "inbox (link_blob m db) = inbox db" "inbox (fst (save_identity env a k now db)) = inbox db"
  "inbox (mark_delivered i conv db) = inbox db" "inbox (mark_read i conv db) = inbox db"
  "inbox (mark_sent o1 db) = inbox db"
proof -
  show "inbox (update_contact c f db) = inbox db" by (simp add: inbox_def update_contact_def)
  show "inbox (save_profile p db) = inbox db" by (simp add: inbox_def save_profile_def split: option.split)
  show "inbox (link_blob m db) = inbox db" by (simp add: inbox_def link_blob_def)
  show "inbox (fst (save_identity env a k now db)) = inbox db" by (rule inbox_signal [OF save_identity_frame])
  show "inbox (mark_delivered i conv db) = inbox db" by (simp add: inbox_def mark_delivered_def map_update_where)
  show "inbox (mark_sent o1 db) = inbox db" by (simp add: inbox_def mark_sent_def map_update_where)
  show "inbox (mark_read i conv db) = inbox db"
    unfolding mark_read_def Let_def inbox_def by (auto simp del: map_append intro!: map_update_take)
qed

lemma inbox_inserts [inbox_frame]:
  "insert_conversation c db = Inr db' \<Longrightarrow> inbox db' = inbox db"
  "insert_control q db = Inr db' \<Longrightarrow> inbox db' = inbox db"
  "insert_outgoing o1 db = Inr db' \<Longrightarrow> inbox db' = inbox db"
  "insert_link m r db = Inr db' \<Longrightarrow> inbox db' = inbox db"
  "insert_attachment a db = Inr db' \<Longrightarrow> inbox db' = inbox db"
  "insert_download dl db = Inr db' \<Longrightarrow> inbox db' = inbox db"
  "upsert_remote rm db = Inr db' \<Longrightarrow> inbox db' = inbox db"
  by (auto simp: inbox_def insert_conversation_def insert_control_def insert_outgoing_def insert_link_def
      insert_attachment_def insert_download_def upsert_remote_def split: if_splits)

lemma inbox_insert_message:
  "insert_message m db = Inr db' \<Longrightarrow> inbox db' = (fst (inbox db) @ [lm_remote m], snd (inbox db))"
  by (auto simp: inbox_def insert_message_def split: if_splits)

lemma inbox_insert_seen:
  "insert_seen i now db = Inr db' \<Longrightarrow> inbox db' = (fst (inbox db), snd (inbox db) @ [(i, now)])"
  by (auto simp: inbox_def insert_seen_def split: if_splits)

lemma inbox_remember_seen:
  "inbox (remember_seen i now db) = (fst (inbox db), insert_ignore fst (i, now) (snd (inbox db)))"
  by (simp add: inbox_def remember_seen_def)

lemma keeps_inbox_adapter [keeping]:
  assumes "libsignal_ok env"
  shows "keeps (inbox_is v) (establish_session env a b now)" and "keeps (inbox_is v) (encrypt_payload env a text)"
    and "keeps (inbox_is v) (decrypt_payload env a c t)"
proof -
  have lib: "keeps (inbox_is v) (on_db (sig_process env a me kb))" "keeps (inbox_is v) (on_db (sig_encrypt env a me p))"
    "keeps (inbox_is v) (on_db (sig_decrypt_prekey env a me p))" "keeps (inbox_is v) (on_db (sig_decrypt env a me p))"
    for me kb p
    using assms unfolding libsignal_ok_def by (blast intro!: keeps_on_db intro: trans [OF inbox_calls])+
  show "keeps (inbox_is v) (establish_session env a b now)"
    unfolding establish_session_def by (intro keeping lib keeps_change) (simp add: inbox_frame)
  show "keeps (inbox_is v) (encrypt_payload env a text)"
    unfolding encrypt_payload_def by (auto intro!: keeping lib split: prod.splits)
  show "keeps (inbox_is v) (decrypt_payload env a c t)"
    unfolding decrypt_payload_def Let_def by (auto intro!: keeping lib)
qed

lemma keeps_inbox_ops [keeping]:
  assumes "libsignal_ok env"
  shows "keeps (inbox_is v) (find_or_create_conversation new now c)"
    and "keeps (inbox_is v) (queue_control env e now conv kvs)"
    and "keeps (inbox_is v) (adopt_bundle env now b)"
    and "keeps (inbox_is v) (resolve_sender env answer now dev)"
proof -
  show "keeps (inbox_is v) (find_or_create_conversation new now c)"
    unfolding find_or_create_conversation_def
    by (auto intro!: keeping keeps_attempt simp: inbox_frame split: option.split)
  show "keeps (inbox_is v) (queue_control env e now conv kvs)"
    unfolding queue_control_def
    by (auto intro!: keeping keeps_attempt assms simp: inbox_frame split: option.split prod.splits)
  show a: "keeps (inbox_is v) (adopt_bundle env now b)" for b
    unfolding adopt_bundle_def Let_def
    by (auto intro!: keeping keeps_attempt assms simp: inbox_frame)
  show "keeps (inbox_is v) (resolve_sender env answer now dev)"
    unfolding resolve_sender_def
    by (auto intro!: keeping keeps_change a simp: inbox_frame split: option.split prod.splits)
qed

lemma after_receive_control:
  "after (inbox_is (rs, ss)) (receive_control d eid conv j) (\<lambda>_. inbox_is (rs, ss @ [(eid, sy_clock d 4)]))"
  unfolding receive_control_def Let_def
  by (intro after_bind [where R = "\<lambda>_. inbox_is (rs, ss)"])
    (auto intro!: after_keeps keeping keeps_change after_rules simp: inbox_frame inbox_insert_seen)

lemma after_receive_text:
  assumes "libsignal_ok env"
  shows "after (inbox_is (rs, ss)) (receive_text env key d eid conv j)
    (\<lambda>_. inbox_is (rs @ [Some eid], insert_ignore fst (eid, sy_clock d 4) ss))"
  unfolding receive_text_def
  apply (rule after_bind [where R = "\<lambda>_. inbox_is (rs, ss)"])
   apply (auto intro!: after_rules)[1]
  apply (rule after_bind [where R = "\<lambda>_. inbox_is (rs, ss)"])
   apply (auto intro!: after_rules)[1]
  apply (rule after_bind [where R = "\<lambda>_. inbox_is (rs @ [Some eid], ss)"])
   apply (auto intro!: after_rules simp: inbox_insert_message)[1]
  apply (rule after_bind [where R = "\<lambda>_. inbox_is (rs @ [Some eid], ss)"])
   apply (auto intro!: after_keeps keeping keeps_attempt assms simp: inbox_frame split: option.split json.split)[1]
  apply (rule after_bind [where R = "\<lambda>_. inbox_is (rs @ [Some eid], ss)"])
   apply (auto intro!: after_rules)[1]
  apply (rule after_bind [where R = "\<lambda>_. inbox_is (rs @ [Some eid], ss)"])
   apply (auto intro!: after_keeps keeping keeps_attempt simp: inbox_frame split: option.split)[1]
  apply (auto intro!: after_rules simp: inbox_remember_seen)
  done

text \<open>A processed envelope is recorded, and it adds at most one message.\<close>

definition received_once :: "string \<Rightarrow> string option list \<times> (string \<times> ms) list \<Rightarrow> local_db \<Rightarrow> bool" where
  "received_once i v db \<longleftrightarrow>
     (\<exists>now. inbox db = (fst v, snd v @ [(i, now)]) \<or> inbox db = (fst v @ [Some i], insert_ignore fst (i, now) (snd v)))"

lemma after_receive_payload:
  assumes "libsignal_ok env"
  shows "after (inbox_is v) (receive_payload env key d e c a) (\<lambda>_. received_once (ic_id e) v)"
proof -
  have plain: "after (inbox_is v) (receive_text env key d (ic_id e) conv j) (\<lambda>_. received_once (ic_id e) v)" for conv j
    by (rule after_conseq [OF after_receive_text [OF assms, of "fst v" "snd v"]]) (auto simp: received_once_def)
  have ctrl: "after (inbox_is v) (receive_control d (ic_id e) conv j) (\<lambda>_. received_once (ic_id e) v)" for conv j
    by (rule after_conseq [OF after_receive_control [of "fst v" "snd v"]]) (auto simp: received_once_def)
  note frame = after_bind [where R = "\<lambda>_. inbox_is v"]
  show ?thesis
    unfolding receive_payload_def Let_def
    apply (rule frame, rule after_keeps, rule keeps_inbox_adapter(3) [OF assms])
    apply (rule frame, rule after_keeps, rule keeps_simple)
    apply (rule frame, rule after_keeps, rule keeps_inbox_ops(1) [OF assms])
    apply (auto intro!: after_rules frame plain ctrl simp: inbox_frame)
    done
qed

lemma count_list_snoc: "count_list (xs @ [x]) y = count_list xs y + (if x = y then 1 else 0)"
  by (induction xs) auto

lemma received_once_ok:
  assumes "inbox_ok v" and "i \<notin> fst ` set (snd v)" and "received_once i v db"
  shows "inbox_ok (inbox db) \<and> i \<in> fst ` set (snd (inbox db)) \<and> set (snd v) \<subseteq> set (snd (inbox db))"
proof -
  have none: "Some i \<notin> set (fst v)" using assms(1,2) by (auto simp: inbox_ok_def)
  then have zero: "count_list (fst v) (Some i) = 0" by (simp add: count_list_0_iff)
  have fresh: "insert_ignore fst (i, now) (snd v) = snd v @ [(i, now)]" for now
    using assms(2) by (auto simp: insert_ignore_def has_row_iff)
  from assms(3) obtain now where "inbox db = (fst v, snd v @ [(i, now)]) \<or> inbox db = (fst v @ [Some i], snd v @ [(i, now)])"
    unfolding received_once_def fresh by blast
  then show ?thesis using assms(1) zero by (auto simp: inbox_ok_def count_list_snoc)
qed

text \<open>One envelope of a synchronisation.\<close>

definition grows :: "local_db \<Rightarrow> local_db \<Rightarrow> bool" where
  "grows db db' \<longleftrightarrow> set (l_seen db) \<subseteq> set (l_seen db')"

lemma seen_set: "seen i db \<longleftrightarrow> i \<in> fst ` set (l_seen db)"
  by (auto simp: seen_def has_row_iff)

lemma sync_envelope_once:
  assumes "libsignal_ok env" and "inbox_ok (inbox db)"
    and "sync_envelope env key answer d e (db, x) = ((db', x'), r)"
  shows "inbox_ok (inbox db') \<and> grows db db' \<and> (\<forall>b. r = Inr (Some b) \<longrightarrow> seen (ic_id e) db') \<and>
    (seen (ic_id e) db \<longrightarrow> db' = db)"
proof (cases "seen (ic_id e) db")
  case True
  with assms show ?thesis by (auto simp: sync_envelope_def bind_op_def op_defs grows_def)
next
  case new: False
  obtain db1 x1 p where p: "resolve_sender env answer (sy_clock d 5) (ic_sender e) (db, x) = ((db1, x1), p)"
    by (metis surj_pair)
  have same: "inbox db1 = inbox db" using keepsD [OF keeps_inbox_ops(4) [OF assms(1)] p] by blast
  then have g: "inbox_ok (inbox db1)" "grows db db1" using assms(2) by (auto simp: grows_def inbox_def)
  have stop: ?thesis if "db' = db1" and "\<forall>b. r \<noteq> Inr (Some b)" using that g new by auto
  show ?thesis
  proof (cases p)
    case (Inl err)
    with p assms(3) new have "db' = db1 \<and> r = Inl err" by (auto simp: sync_envelope_def bind_op_def op_defs)
    with stop show ?thesis by blast
  next
    case (Inr q)
    show ?thesis
    proof (cases "q = None \<or> (\<exists>c a. q = Some (c, a) \<and> contact_changed c db1)")
      case True
      with p Inr assms(3) new have "db' = db1 \<and> r = Inr None" by (auto simp: sync_envelope_def bind_op_def op_defs)
      with stop show ?thesis by blast
    next
      case False
      then obtain c a where q: "q = Some (c, a)" "\<not> contact_changed c db1" by auto
      obtain db2 x2 u where u: "receive_payload env key d e c a (db1, x1) = ((db2, x2), u)" by (metis surj_pair)
      show ?thesis
      proof (cases u)
        case (Inl err)
        with p Inr q u assms(3) new have "db' = db1 \<and> r = Inr None"
          by (auto simp: sync_envelope_def bind_op_def op_defs catch_op_def in_tx_def)
        with stop show ?thesis by blast
      next
        case (Inr unit)
        have "received_once (ic_id e) (inbox db1) db2"
          using afterD [OF after_receive_payload [OF assms(1)] u [unfolded Inr]] by blast
        moreover have "ic_id e \<notin> fst ` set (snd (inbox db1))" using new same by (simp add: seen_set inbox_def)
        ultimately have ok: "inbox_ok (inbox db2)" "ic_id e \<in> fst ` set (l_seen db2)" "set (l_seen db1) \<subseteq> set (l_seen db2)"
          using received_once_ok [OF g(1)] by (auto simp: inbox_def)
        from p q u Inr \<open>p = Inr q\<close> assms(3) new have "db' = db2"
          by (auto simp: sync_envelope_def bind_op_def op_defs catch_op_def in_tx_def)
        with ok g new show ?thesis by (auto simp: grows_def seen_set)
      qed
    qed
  qed
qed

text \<open>A whole synchronisation: what it acknowledges is recorded.\<close>

lemma seen_grows: "grows db db' \<Longrightarrow> seen i db \<Longrightarrow> seen i db'"
  by (auto simp: grows_def seen_set)

lemma grows_trans: "grows a b \<Longrightarrow> grows b c \<Longrightarrow> grows a c"
  by (auto simp: grows_def)

lemma sync_list_once:
  assumes "libsignal_ok env" and "inbox_ok (inbox db)"
    and "sync_list env key answer draws k js (db, x) = ((db', x'), r)"
  shows "inbox_ok (inbox db') \<and> grows db db' \<and> (\<forall>acks n. r = Inr (acks, n) \<longrightarrow> (\<forall>i \<in> set acks. seen i db'))"
  using assms(2,3)
proof (induction js arbitrary: k db x db' x' r)
  case Nil
  then show ?case by (auto simp: op_defs grows_def)
next
  case (Cons j js)
  show ?case
  proof (cases "incoming_of j")
    case None
    with Cons.prems Cons.IH [of db _ x] show ?thesis by simp
  next
    case (Some e)
    obtain db1 x1 q where q: "sync_envelope env key answer (draws k) e (db, x) = ((db1, x1), q)" by (metis surj_pair)
    note one = sync_envelope_once [OF assms(1) Cons.prems(1) q]
    show ?thesis
    proof (cases q)
      case (Inl err)
      with Some q one Cons.prems(2) show ?thesis by (auto simp: bind_op_def)
    next
      case (Inr b)
      obtain db2 x2 s where s: "sync_list env key answer draws (Suc k) js (db1, x1) = ((db2, x2), s)" by (metis surj_pair)
      from one have ok1: "inbox_ok (inbox db1)" by blast
      note rest = Cons.IH [OF ok1 s]
      from one rest have "grows db db2" by (blast intro: grows_trans)
      moreover from one rest Inr have "b \<noteq> None \<longrightarrow> seen (ic_id e) db2" by (auto intro: seen_grows)
      moreover from Some q s Inr Cons.prems(2)
      have "db' = db2 \<and> (\<forall>acks n. r = Inr (acks, n) \<longrightarrow> (\<exists>a m. s = Inr (a, m) \<and>
          acks = (if b = None then a else ic_id e # a)))"
        by (auto simp: bind_op_def ret_def split: sum.splits prod.splits option.splits)
      ultimately show ?thesis using rest by (auto split: if_splits)
    qed
  qed
qed

section \<open>The outbox\<close>

text \<open>A flush in terms of the rows that the relay accepts before the first failure.\<close>

definition accepted :: "(outgoing \<Rightarrow> bool) \<Rightarrow> ms \<Rightarrow> local_db \<Rightarrow> outgoing list" where
  "accepted post now db = takeWhile post (queued_outgoing now db)"

definition settle :: "outgoing list \<Rightarrow> local_db \<Rightarrow> local_db" where
  "settle os db = db\<lparr>
     l_messages := map (\<lambda>m. if lm_id m \<in> og_message ` set os then m\<lparr>lm_status := ''sent''\<rparr> else m) (l_messages db),
     l_outbox := filter (\<lambda>x. og_envelope x \<notin> og_envelope ` set os) (l_outbox db)\<rparr>"

lemma settle_simps: "settle [] db = db" "settle (o1 # os) db = settle os (mark_sent o1 db)"
  by (auto simp: settle_def mark_sent_def update_where_def delete_where_def intro!: filter_cong)

lemma flush_rows_settle:
  "flush_rows post os db =
     (settle (takeWhile post os) db, takeWhile post os @ take 1 (dropWhile post os), length (takeWhile post os))"
  by (induction os arbitrary: db) (simp_all add: settle_simps)

lemma flush_settles:
  "flush_outbox post now db =
     (settle (accepted post now db) db,
      accepted post now db @ take 1 (dropWhile post (queued_outgoing now db)), length (accepted post now db))"
  unfolding flush_outbox_def accepted_def by (rule flush_rows_settle)

lemma queued_in_outbox: "set (queued_outgoing now db) \<subseteq> set (l_outbox db)"
  by (auto simp: queued_outgoing_def)

lemma accepted_in_outbox: "set (accepted post now db) \<subseteq> set (l_outbox db)"
  using queued_in_outbox unfolding accepted_def by (metis set_takeWhileD subset_code(1))

section \<open>Sending\<close>

definition stored_message :: "string \<Rightarrow> string \<Rightarrow> string \<Rightarrow> local_db \<Rightarrow> bool" where
  "stored_message i conv txt db \<longleftrightarrow>
     (\<exists>m \<in> set (l_messages db). lm_id m = i \<and> lm_conversation m = conv \<and> lm_direction m = Sent \<and> lm_text m = txt)"

definition in_outbox :: "string \<Rightarrow> local_db \<Rightarrow> bool" where
  "in_outbox i db \<longleftrightarrow> (\<exists>o1 \<in> set (l_outbox db). og_message o1 = i)"

lemma after_store_sent:
  "after (\<lambda>_. True) (store_sent env root key d (v, r, c) payload txt mf)
     (\<lambda>_ db. stored_message (sd_message d) (co_id v) txt db \<and> in_outbox (sd_message d) db)"
proof -
  let ?S = "stored_message (sd_message d) (co_id v) txt"
  have m: "insert_message m db = Inr db' \<Longrightarrow> lm_id m = sd_message d \<Longrightarrow> lm_conversation m = co_id v \<Longrightarrow>
      lm_direction m = Sent \<Longrightarrow> lm_text m = txt \<Longrightarrow> ?S db'" for m db db'
    by (auto simp: insert_message_def stored_message_def split: if_splits)
  have o1: "insert_outgoing o1 db = Inr db' \<Longrightarrow> og_message o1 = sd_message d \<Longrightarrow> ?S db \<Longrightarrow>
      ?S db' \<and> in_outbox (sd_message d) db'" for o1 db db'
    by (auto simp: insert_outgoing_def stored_message_def in_outbox_def split: if_splits)
  have a: "insert_attachment x db = Inr db' \<Longrightarrow> ?S db \<and> in_outbox i db \<Longrightarrow> ?S db' \<and> in_outbox i db'" for x i db db'
    by (auto simp: insert_attachment_def stored_message_def in_outbox_def split: if_splits)
  show ?thesis
    unfolding store_sent_def Let_def prod.case
    apply (rule after_bind [where R = "\<lambda>_ _. True"])
     apply (simp add: after_def)
    apply (simp only: split: prod.split)
    apply (intro allI impI)
    apply (rule after_bind [where R = "\<lambda>_. ?S"])
     apply (rule after_simple)
     apply (erule m; simp)
    apply (rule after_bind [where R = "\<lambda>_ db. ?S db \<and> in_outbox (sd_message d) db"])
     apply (rule after_simple)
     apply (erule o1; simp)
    apply (cases mf)
     apply (auto intro!: after_rules after_bind [where R = "\<lambda>_ db. ?S db \<and> in_outbox (sd_message d) db"] dest: a)
    done
qed

lemma stored_settle: "stored_message i conv txt (settle os db) = stored_message i conv txt db"
proof -
  let ?f = "\<lambda>m. if lm_id m \<in> og_message ` set os then m\<lparr>lm_status := ''sent''\<rparr> else m"
  have "lm_id (?f m) = lm_id m \<and> lm_conversation (?f m) = lm_conversation m \<and>
      lm_direction (?f m) = lm_direction m \<and> lm_text (?f m) = lm_text m" for m by simp
  then show ?thesis by (simp add: stored_message_def settle_def del: if_image_distrib)
qed

lemma settled_or_queued:
  assumes ok: "local_ok db" and os: "set os \<subseteq> set (l_outbox db)"
    and o1: "in_outbox i db" and m: "m \<in> set (l_messages (settle os db))" "lm_id m = i"
  shows "in_outbox i (settle os db) \<or> lm_status m = ''sent''"
proof (cases "i \<in> og_message ` set os")
  case True
  with m show ?thesis by (auto simp: settle_def)
next
  case False
  obtain q where q: "q \<in> set (l_outbox db)" "og_message q = i" using o1 by (auto simp: in_outbox_def)
  have "og_envelope q \<notin> og_envelope ` set os"
  proof
    assume "og_envelope q \<in> og_envelope ` set os"
    then obtain p where p: "p \<in> set os" "og_envelope p = og_envelope q" by auto
    have "inj_on og_envelope (set (l_outbox db))" using ok by (simp add: local_ok_def unique_key_def distinct_map)
    with p q os have "p = q" by (meson inj_onD subsetD)
    with p q False show False by auto
  qed
  with q show ?thesis by (auto simp: settle_def in_outbox_def)
qed

lemma message_status_of:
  assumes "local_ok db" and "m \<in> set (l_messages db)"
  shows "message_status (lm_id m) db = lm_status m"
  using assms find_unique [of lm_id "l_messages db" m] by (simp add: message_status_def local_ok_def)

lemma conversation_peer_id: "conversation_peer i db = Some (v, r, c) \<Longrightarrow> co_id v = i"
  by (auto simp: conversation_peer_def find_Some_iff split: bind_splits)

definition send_finished :: "send_draw \<Rightarrow> (outgoing \<Rightarrow> bool) \<Rightarrow> local_db \<Rightarrow> local_db \<times> string \<times> string" where
  "send_finished d post db =
     (let db' = fst (flush_outbox post (sd_clock d 3) db) in (db', sd_message d, message_status (sd_message d) db'))"

lemma send_cases:
  assumes "send_message_local env root key d post routing conv txt j (db, x) = ((db', x'), r)"
  shows "(\<exists>e. r = Inl e \<and> db'\<lparr>l_tor_links := l_tor_links db\<rparr> = db) \<or>
    (\<exists>v p c payload mf db1 db2 x2. co_id v = conv \<and> db1\<lparr>l_tor_links := l_tor_links db\<rparr> = db \<and>
      (db1 = db \<or> (\<exists>m. db1 = link_blob m db)) \<and>
      store_sent env root key d (v, p, c) payload txt mf (db1, x) = ((db2, x2), Inr ()) \<and>
      send_finished d post db2 = (db', projr r) \<and> r = Inr (projr r))"
proof -
  have self: "(db\<lparr>l_tor_links := l_tor_links db\<rparr>) = db" by simp
  have linked: "(link_blob m db)\<lparr>l_tor_links := l_tor_links db\<rparr> = db" for m by (simp add: link_blob_def)
  let ?mf = "case j of None \<Rightarrow> Inr None
    | Some j \<Rightarrow> (case manifest_schema (is_uuid env) j of None \<Rightarrow> Inl ''ZodError'' | Some m \<Rightarrow> Inr (Some m))"
  note unf = send_message_local_def bind_op_def op_defs
  show ?thesis
  proof (cases ?mf)
    case (Inl e)
    with assms self show ?thesis by (auto simp: unf)
  next
    case (Inr mf)
    show ?thesis
    proof (cases "conversation_peer conv db")
      case None
      with Inr assms self show ?thesis by (auto simp: unf)
    next
      case (Some vpc)
      obtain v p c where vpc: "vpc = (v, p, c)" by (cases vpc)
      show ?thesis
      proof (cases "ct_changed c")
        case True
        with Inr Some vpc assms self show ?thesis by (auto simp: unf)
      next
        case False
        define db1 where "db1 = (case mf of Some m \<Rightarrow> if routing then link_blob m db else db | None \<Rightarrow> db)"
        have db1: "db1\<lparr>l_tor_links := l_tor_links db\<rparr> = db" "db1 = db \<or> (\<exists>m. db1 = link_blob m db)"
          using self linked by (auto simp: db1_def split: option.split)
        let ?payload = "json_text env (payload_json db (sd_message d) txt v mf)"
        obtain db2 x2 s where s: "in_tx (store_sent env root key d (v, p, c) ?payload txt mf) (db1, x) = ((db2, x2), s)"
          by (metis surj_pair)
        have run: "((db', x'), r) = (case s of Inl e \<Rightarrow> ((db2, x2), Inl e)
            | Inr _ \<Rightarrow> ((fst (send_finished d post db2), x2), Inr (snd (send_finished d post db2))))"
          using assms Inr Some vpc False s
          by (auto simp: unf db1_def send_finished_def Let_def split: option.splits sum.splits if_splits)
        show ?thesis
        proof (cases s)
          case (Inl e)
          with s run db1 show ?thesis by (auto dest: in_tx_Inl)
        next
          case (Inr u)
          with s have "store_sent env root key d (v, p, c) ?payload txt mf (db1, x) = ((db2, x2), Inr ())"
            by (simp add: in_tx_Inr)
          with run Inr db1 conversation_peer_id [OF Some [unfolded vpc]] show ?thesis by fastforce
        qed
      qed
    qed
  qed
qed

lemma settle_ok: "local_ok db \<Longrightarrow> set os \<subseteq> set (l_outbox db) \<Longrightarrow> local_ok (settle os db)"
proof (induction os arbitrary: db)
  case (Cons o1 os)
  have "settle (o1 # os) db = settle os (mark_sent o1 db)" by (rule settle_simps)
  moreover have "local_ok (settle os (mark_sent o1 db))" if "local_ok db" for db
    using that local_ok_flush_rows [OF local_ok_mark_sent [OF that], of "\<lambda>_. True" os o1] flush_rows_settle [of "\<lambda>_. True" os]
    by (simp add: takeWhile_eq_all_conv [THEN iffD2])
  ultimately show ?case using Cons.prems by simp
qed (simp add: settle_simps)

lemma send_stores:
  assumes lib: "libsignal_ok env" and ok: "local_ok db"
    and run: "send_message_local env root key d post routing conv txt j (db, x) = ((db', x'), Inr (i, st))"
  shows "i = sd_message d \<and>
    (\<exists>m \<in> set (l_messages db'). lm_id m = i \<and> lm_conversation m = conv \<and> lm_direction m = Sent \<and> lm_text m = txt \<and>
       lm_status m = st) \<and>
    (in_outbox i db' \<or> st = ''sent'')"
proof -
  obtain v p c payload mf db1 db2 x2 where
    v: "co_id v = conv" and db1: "db1 = db \<or> (\<exists>m. db1 = link_blob m db)" and
    s: "store_sent env root key d (v, p, c) payload txt mf (db1, x) = ((db2, x2), Inr ())" and
    fin: "send_finished d post db2 = (db', i, st)"
    using send_cases [OF run] by (simp only: sum.simps simp_thms ex_simps projr_def sum.case) blast
  have ok1: "local_ok db1" using ok db1 by (auto intro: local_ok_link_blob)
  have ok2: "local_ok db2" by (rule keepsD [OF keeps_store_sent [OF lib] s ok1])
  have st2: "stored_message (sd_message d) conv txt db2 \<and> in_outbox (sd_message d) db2"
    using afterD [OF after_store_sent s] v by simp
  let ?os = "accepted post (sd_clock d 3) db2"
  have db': "db' = settle ?os db2" and i: "i = sd_message d" and st: "st = message_status i db'"
    using fin by (auto simp: send_finished_def flush_settles Let_def)
  have ok': "local_ok db'" unfolding db' by (rule settle_ok [OF ok2 accepted_in_outbox])
  have "stored_message i conv txt db'" using st2 by (simp add: db' i stored_settle)
  then obtain m where m: "m \<in> set (l_messages db')" "lm_id m = i" "lm_conversation m = conv" "lm_direction m = Sent"
      "lm_text m = txt" by (auto simp: stored_message_def)
  have "lm_status m = st" using message_status_of [OF ok' m(1)] m(2) st by simp
  moreover have "in_outbox i db' \<or> lm_status m = ''sent''"
    using settled_or_queued [OF ok2 accepted_in_outbox, of i m post "sd_clock d 3"] st2 m(1,2) by (auto simp: db' i)
  ultimately show ?thesis using m i by auto
qed

end
