(* ===== verification/Daemon_Session.thy ===== *)
theory Daemon_Session
  imports Daemon_Db
begin

text \<open>
  \<open>auth.ts\<close> and the lock of \<open>server.ts\<close>: the one local session with its bootstrap secret, the check that
  every request passes (host, origin, cookie, CSRF token, unlocked vault), and the quick lock with its
  PIN. Random tokens and clock readings are arguments.
\<close>

section \<open>The local session\<close>

record session_state =
  ss_cookie :: string
  ss_csrf :: string
  ss_generation :: int
  ss_expires :: ms

text \<open>The module's variables.\<close>

record session_memory =
  sm_active :: "session_state option"
  sm_bootstrap :: "string option"
  sm_port :: nat

definition session_start :: session_memory where
  "session_start = \<lparr>sm_active = None, sm_bootstrap = None, sm_port = 3100\<rparr>"

definition safe_equal :: "string \<Rightarrow> string \<Rightarrow> bool" where
  "safe_equal l r \<longleftrightarrow> length (utf8 l) = length (utf8 r) \<and> utf8 l = utf8 r"

definition generate_bootstrap :: "nat \<Rightarrow> bytes \<Rightarrow> session_memory \<Rightarrow> session_memory" where
  "generate_bootstrap port random m = m\<lparr>sm_port := port, sm_bootstrap := Some (hex_encode random)\<rparr>"

definition invalidate_session :: "session_memory \<Rightarrow> session_memory" where
  "invalidate_session m = m\<lparr>sm_active := None\<rparr>"

definition next_bootstrap :: "bytes \<Rightarrow> session_memory \<Rightarrow> session_memory" where
  "next_bootstrap random m = generate_bootstrap (sm_port m) random (invalidate_session m)"

definition session_generation :: "session_memory \<Rightarrow> int" where
  "session_generation m = (case sm_active m of None \<Rightarrow> 0 | Some s \<Rightarrow> ss_generation s)"

record local_request =
  lr_host :: "string option"
  lr_origin :: "string option"
  lr_url :: string
  lr_cookie :: "string option"
  lr_method :: string
  lr_csrf :: "string option"

definition or_empty :: "string option \<Rightarrow> string" where
  "or_empty h = (case h of None \<Rightarrow> [] | Some s \<Rightarrow> s)"

text \<open>\<open>.split(';').map(c => c.trim().split('=')).find(([name]) => ..)?.[1]\<close>\<close>

definition session_cookie :: "string \<Rightarrow> string option" where
  "session_cookie h =
     (case List.find (\<lambda>p. hd p = ''crypto_pigeon_session'')
             (map (\<lambda>c. split_on (CHR ''='') (trim c)) (split_on (CHR '';'') h)) of
        Some (_ # v # _) \<Rightarrow> Some v
      | _ \<Rightarrow> None)"

definition url_path :: "string \<Rightarrow> string" where
  "url_path u = hd (split_on (CHR ''?'') u)"

definition live_session :: "ms \<Rightarrow> local_request \<Rightarrow> session_memory \<Rightarrow> session_state option" where
  "live_session now r m =
     (case (session_cookie (or_empty (lr_cookie r)), sm_active m) of
        (Some c, Some s) \<Rightarrow> if c = [] \<or> ss_expires s \<le> now \<or> c \<noteq> ss_cookie s then None else Some s
      | _ \<Rightarrow> None)"

definition open_urls :: "string list" where
  "open_urls = [''/api/bootstrap'', ''/api/session'', ''/api/vault/status'']"

definition locked_urls :: "string list" where
  "locked_urls = [''/api/relay/config'', ''/api/vault/create'', ''/api/vault/open'', ''/api/vault/restore'',
     ''/api/vault/horcrux-status'', ''/api/vault/storage'', ''/api/vault/storage/import'']"

text \<open>\<open>None\<close> lets the request through.\<close>

definition verify_local_session :: "bool \<Rightarrow> ms \<Rightarrow> local_request \<Rightarrow> session_memory \<Rightarrow> (nat \<times> string) option" where
  "verify_local_session locked now r m =
     (let authority = ''127.0.0.1:'' @ show_nat (sm_port m); origin = or_empty (lr_origin r)
      in if or_empty (lr_host r) \<noteq> authority then Some (403, ''invalid_host_header'')
         else if origin \<noteq> [] \<and> origin \<noteq> ''http://'' @ authority then Some (403, ''invalid_origin_header'')
         else if \<not> starts_with ''/api/'' (lr_url r) then None
         else if lr_url r \<in> set open_urls then None
         else (case live_session now r m of
                 None \<Rightarrow> Some (401, ''unauthorized_local_session'')
               | Some s \<Rightarrow>
                   if lr_method r \<in> {''POST'', ''PUT'', ''DELETE''} \<and>
                      (or_empty (lr_csrf r) = [] \<or> or_empty (lr_csrf r) \<noteq> ss_csrf s)
                   then Some (403, ''invalid_csrf_token'')
                   else if url_path (lr_url r) \<in> set locked_urls then None
                   else if locked then Some (400, ''vault_locked'') else None))"

definition vault_state :: "bool \<Rightarrow> bool \<Rightarrow> bool \<Rightarrow> string" where
  "vault_state exist locked quick =
     (if exist then (if locked then ''locked'' else if quick then ''quick_locked'' else ''unlocked'')
      else ''unconfigured'')"

text \<open>\<open>POST /api/bootstrap\<close>: the secret is dropped and a session issued; the value is the CSRF token.\<close>

definition bootstrap ::
  "string option \<Rightarrow> ms \<Rightarrow> bytes \<times> bytes \<Rightarrow> session_memory \<Rightarrow> session_memory \<times> ((nat \<times> string) + string)" where
  "bootstrap secret now random m =
     (case (sm_bootstrap m, secret) of
        (Some b, Some s) \<Rightarrow>
          if b = [] \<or> s = [] \<or> \<not> safe_equal s b then (m, Inl (401, ''invalid_bootstrap_secret''))
          else (m\<lparr>sm_bootstrap := None,
                  sm_active := Some \<lparr>ss_cookie = hex_encode (fst random), ss_csrf = hex_encode (snd random),
                    ss_generation = session_generation m + 1, ss_expires = now + 86400000\<rparr>\<rparr>,
                Inr (hex_encode (snd random)))
      | _ \<Rightarrow> (m, Inl (401, ''invalid_bootstrap_secret'')))"

text \<open>\<open>GET /api/session\<close>\<close>

definition session_query :: "ms \<Rightarrow> local_request \<Rightarrow> session_memory \<Rightarrow> (nat \<times> string) + string" where
  "session_query now r m =
     (case live_session now r m of None \<Rightarrow> Inl (401, ''unauthorized'') | Some s \<Rightarrow> Inr (ss_csrf s))"

section \<open>The quick lock\<close>

text \<open>The variables \<open>quickLocked\<close>, \<open>pinFailures\<close> and \<open>pinRetryAt\<close> of \<open>server.ts\<close>.\<close>

record pin_memory =
  pm_quick :: bool
  pm_failures :: nat
  pm_retry :: ms

definition pin_start :: pin_memory where
  "pin_start = \<lparr>pm_quick = False, pm_failures = 0, pm_retry = 0\<rparr>"

definition pin_urls :: "string list" where
  "pin_urls = [''/api/bootstrap'', ''/api/session'', ''/api/vault/status'', ''/api/session/unlock'', ''/api/vault/lock'']"

text \<open>The hook before every handler.\<close>

definition admit :: "bool \<Rightarrow> ms \<Rightarrow> local_request \<Rightarrow> session_memory \<Rightarrow> pin_memory \<Rightarrow> (nat \<times> string) option" where
  "admit locked now r m p =
     (case verify_local_session locked now r m of
        Some e \<Rightarrow> Some e
      | None \<Rightarrow>
          if pm_quick p \<and> starts_with ''/api/'' (lr_url r) \<and> url_path (lr_url r) \<notin> set pin_urls
          then Some (423, ''SESSION_PIN_REQUIRED'') else None)"

definition pin_digest :: "daemon_env \<Rightarrow> bytes \<Rightarrow> string \<Rightarrow> bytes" where
  "pin_digest env salt pin = dg_sha256 env (salt @ utf8 pin)"

definition set_pin :: "daemon_env \<Rightarrow> bytes \<Rightarrow> string \<Rightarrow> local_db \<Rightarrow> string + local_db" where
  "set_pin env salt pin db =
     (if length pin = 4 \<and> list_all is_digit pin then Inr (db\<lparr>l_pin := Some (salt, pin_digest env salt pin)\<rparr>)
      else Inl ''ZodError'')"

definition pin_lock :: "local_db \<Rightarrow> pin_memory \<Rightarrow> pin_memory \<times> nat" where
  "pin_lock db p = (if l_pin db = None then (p, 409) else (p\<lparr>pm_quick := True\<rparr>, 200))"

definition right_pin :: "daemon_env \<Rightarrow> local_db \<Rightarrow> string \<Rightarrow> bool" where
  "right_pin env db pin = (case l_pin db of None \<Rightarrow> False | Some (salt, digest) \<Rightarrow> digest = pin_digest env salt pin)"

definition pin_unlock :: "daemon_env \<Rightarrow> local_db \<Rightarrow> ms \<Rightarrow> string \<Rightarrow> pin_memory \<Rightarrow> pin_memory \<times> nat" where
  "pin_unlock env db now pin p =
     (if now < pm_retry p then (p, 429)
      else if right_pin env db pin then (p\<lparr>pm_quick := False, pm_failures := 0\<rparr>, 200)
      else if 5 \<le> pm_failures p + 1 then (p\<lparr>pm_failures := 0, pm_retry := now + 30000\<rparr>, 401)
      else (p\<lparr>pm_failures := pm_failures p + 1\<rparr>, 401))"

section \<open>Where an accepted cookie comes from\<close>

text \<open>What happened to the session, the latest event first.\<close>

datatype session_event =
  Generated string
| Issued string string string ms
| Invalidated

inductive session_reach :: "session_memory \<Rightarrow> session_event list \<Rightarrow> bool" where
  start: "session_reach session_start []"
| generate: "session_reach m l \<Longrightarrow> session_reach (generate_bootstrap port b m) (Generated (hex_encode b) # l)"
| invalidate: "session_reach m l \<Longrightarrow> session_reach (invalidate_session m) (Invalidated # l)"
| refused: "session_reach m l \<Longrightarrow> bootstrap secret now random m = (m', Inl e) \<Longrightarrow> session_reach m' l"
| issue: "session_reach m l \<Longrightarrow> bootstrap (Some s) now (a, b) m = (m', Inr c) \<Longrightarrow>
    session_reach m' (Issued s (hex_encode a) c now # l)"

definition is_generated :: "session_event \<Rightarrow> bool" where
  "is_generated e \<longleftrightarrow> (\<exists>s. e = Generated s)"

definition issued_from :: "session_event list \<Rightarrow> session_state option" where
  "issued_from l =
     (case dropWhile is_generated l of
        Issued s a c t # _ \<Rightarrow> Some \<lparr>ss_cookie = a, ss_csrf = c, ss_generation = 0, ss_expires = t + 86400000\<rparr>
      | _ \<Rightarrow> None)"

text \<open>The secret that a session was issued for was generated before, and no session was issued since.\<close>

definition open_secret :: "session_event list \<Rightarrow> string \<Rightarrow> bool" where
  "open_secret l s \<longleftrightarrow> (\<exists>k < length l. l ! k = Generated s \<and> (\<forall>i < k. l ! i = Invalidated))"

fun well_issued :: "session_event list \<Rightarrow> bool" where
  "well_issued [] = True"
| "well_issued (Issued s a c t # l) = (open_secret l s \<and> well_issued l)"
| "well_issued (_ # l) = well_issued l"

lemma safe_equal [simp]: "safe_equal s t \<longleftrightarrow> s = t"
  by (auto simp: safe_equal_def)

lemma bootstrap_ok:
  "bootstrap (Some s) now (a, b) m = (m', Inr c) \<longleftrightarrow>
     sm_bootstrap m = Some s \<and> s \<noteq> [] \<and> c = hex_encode b \<and>
     m' = m\<lparr>sm_bootstrap := None, sm_active := Some \<lparr>ss_cookie = hex_encode a, ss_csrf = c,
       ss_generation = session_generation m + 1, ss_expires = now + 86400000\<rparr>\<rparr>"
  by (auto simp: bootstrap_def split: option.splits if_splits)

lemma bootstrap_refused: "bootstrap secret now random m = (m', Inl e) \<Longrightarrow> m' = m"
  by (auto simp: bootstrap_def split: option.splits if_splits)

definition session_inv :: "session_memory \<Rightarrow> session_event list \<Rightarrow> bool" where
  "session_inv m l \<longleftrightarrow>
     map_option (\<lambda>s. s\<lparr>ss_generation := 0\<rparr>) (sm_active m) = issued_from l \<and>
     (\<forall>s. sm_bootstrap m = Some s \<longrightarrow> open_secret l s) \<and> well_issued l"

lemma issued_from_simps [simp]:
  "issued_from [] = None"
  "issued_from (Generated s # l) = issued_from l"
  "issued_from (Invalidated # l) = None"
  "issued_from (Issued s a c t # l) = Some \<lparr>ss_cookie = a, ss_csrf = c, ss_generation = 0, ss_expires = t + 86400000\<rparr>"
  by (simp_all add: issued_from_def is_generated_def)

lemma open_secret_simps [simp]: "open_secret (Generated s # l) s"
  and open_secret_later [simp]: "open_secret (Invalidated # l) s = open_secret l s"
proof -
  show "open_secret (Generated s # l) s" by (force simp: open_secret_def)
  show "open_secret (Invalidated # l) s = open_secret l s"
  proof
    assume "open_secret (Invalidated # l) s"
    then obtain k where k: "k < length (Invalidated # l)" "(Invalidated # l) ! k = Generated s"
      "\<forall>i < k. (Invalidated # l) ! i = Invalidated" unfolding open_secret_def by blast
    then obtain n where n: "k = Suc n" by (cases k) auto
    with k have "\<forall>i < n. l ! i = Invalidated" by fastforce
    with k n show "open_secret l s" by (auto simp: open_secret_def)
  next
    assume "open_secret l s"
    then obtain k where k: "k < length l" "l ! k = Generated s" "\<forall>i < k. l ! i = Invalidated"
      unfolding open_secret_def by blast
    then have "\<forall>i < Suc k. (Invalidated # l) ! i = Invalidated" by (auto simp: less_Suc_eq_0_disj)
    with k show "open_secret (Invalidated # l) s" unfolding open_secret_def by (intro exI [of _ "Suc k"]) simp
  qed
qed

lemma session_reach_inv: "session_reach m l \<Longrightarrow> session_inv m l"
proof (induction rule: session_reach.induct)
  case start
  then show ?case by (simp add: session_inv_def session_start_def)
next
  case (generate m l port b)
  then show ?case by (simp add: session_inv_def generate_bootstrap_def)
next
  case (invalidate m l)
  then show ?case by (simp add: session_inv_def invalidate_session_def)
next
  case (refused m l secret now random m' e)
  then show ?case using bootstrap_refused by blast
next
  case (issue m l s now a b m' c)
  then show ?case by (auto simp: session_inv_def bootstrap_ok)
qed

lemma issued_fromD:
  "issued_from l = Some v \<Longrightarrow> \<exists>pre s rest. l = pre @ Issued s (ss_cookie v) (ss_csrf v) (ss_expires v - 86400000) # rest \<and>
     (\<forall>e \<in> set pre. is_generated e)"
proof (induction l)
  case (Cons e l)
  show ?case
  proof (cases e)
    case (Generated g)
    with Cons obtain pre s rest where "l = pre @ Issued s (ss_cookie v) (ss_csrf v) (ss_expires v - 86400000) # rest"
      "\<forall>e \<in> set pre. is_generated e" by auto
    with Generated show ?thesis by (intro exI [of _ "e # pre"]) (auto simp: is_generated_def)
  next
    case (Issued s a c t)
    with Cons.prems show ?thesis by (intro exI [of _ "[]"] exI [of _ s] exI [of _ l]) auto
  qed (use Cons.prems in simp)
qed simp

lemma well_issued_app: "well_issued (pre @ Issued s a c t # rest) \<Longrightarrow> open_secret rest s"
  by (induction pre rule: well_issued.induct) auto

lemma accepted_cookie:
  assumes reach: "session_reach m l" and ok: "verify_local_session locked now r m = None"
    and url: "starts_with ''/api/'' (lr_url r)" "lr_url r \<notin> set open_urls"
  shows "\<exists>pre s a c t rest. l = pre @ Issued s a c t # rest \<and> (\<forall>e \<in> set pre. is_generated e) \<and> open_secret rest s \<and>
    session_cookie (or_empty (lr_cookie r)) = Some a \<and> now < t + 86400000 \<and>
    (lr_method r \<in> {''POST'', ''PUT'', ''DELETE''} \<longrightarrow> lr_csrf r = Some c)"
proof -
  from ok url obtain v where v: "live_session now r m = Some v"
    and csrf: "lr_method r \<in> {''POST'', ''PUT'', ''DELETE''} \<longrightarrow> or_empty (lr_csrf r) \<noteq> [] \<and> or_empty (lr_csrf r) = ss_csrf v"
    by (auto simp: verify_local_session_def Let_def split: if_splits option.splits)
  from v have live: "sm_active m = Some v" "session_cookie (or_empty (lr_cookie r)) = Some (ss_cookie v)" "now < ss_expires v"
    by (auto simp: live_session_def split: option.splits if_splits)
  have inv: "session_inv m l" by (rule session_reach_inv [OF reach])
  with live have "issued_from l = Some (v\<lparr>ss_generation := 0\<rparr>)" by (simp add: session_inv_def)
  from issued_fromD [OF this] obtain pre s rest where
    l: "l = pre @ Issued s (ss_cookie v) (ss_csrf v) (ss_expires v - 86400000) # rest" "\<forall>e \<in> set pre. is_generated e"
    by auto
  have "open_secret rest s" using inv l well_issued_app by (auto simp: session_inv_def)
  moreover have "lr_method r \<in> {''POST'', ''PUT'', ''DELETE''} \<longrightarrow> lr_csrf r = Some (ss_csrf v)"
    using csrf by (auto simp: or_empty_def split: option.splits)
  ultimately show ?thesis using l live by fastforce
qed

section \<open>Guessing the PIN\<close>

text \<open>The answers to a run of attempts, each with its time.\<close>

fun pin_run :: "daemon_env \<Rightarrow> local_db \<Rightarrow> (ms \<times> string) list \<Rightarrow> pin_memory \<Rightarrow> nat list" where
  "pin_run env db [] p = []"
| "pin_run env db ((now, pin) # as) p = (let (p', c) = pin_unlock env db now pin p in c # pin_run env db as p')"

definition tries_left :: "ms \<Rightarrow> ms \<Rightarrow> pin_memory \<Rightarrow> int" where
  "tries_left t0 t1 p =
     (let t = max t0 (pm_retry p)
      in if t1 < t then 0 else 5 - int (pm_failures p) + 5 * ((t1 - t) div 30000))"

lemma pin_run_tries:
  assumes "\<forall>(t, pin) \<in> set as. \<not> right_pin env db pin" and "sorted (map fst as)"
    and "\<forall>(t, pin) \<in> set as. t0 \<le> t \<and> t \<le> t1" and "pm_failures p \<le> 4"
  shows "int (count_list (pin_run env db as p) 401) \<le> tries_left t0 t1 p"
  using assms
proof (induction as arbitrary: p t0)
  case Nil
  have "0 \<le> (t1 - max t0 (pm_retry p)) div 30000" if "max t0 (pm_retry p) \<le> t1"
    using that by (simp add: pos_imp_zdiv_nonneg_iff)
  with Nil(4) show ?case by (auto simp: tries_left_def Let_def not_less simp del: max.bounded_iff intro!: add_nonneg_nonneg)
next
  case (Cons a as)
  obtain t pin where a: "a = (t, pin)" by (cases a)
  have wrong: "\<not> right_pin env db pin" and t: "t0 \<le> t" "t \<le> t1" using Cons.prems a by auto
  have rest: "\<forall>(t, pin) \<in> set as. \<not> right_pin env db pin" "sorted (map fst as)"
    "\<forall>(u, pin) \<in> set as. t \<le> u \<and> u \<le> t1" using Cons.prems a by auto
  note IH = Cons.IH [OF rest]
  show ?case
  proof (cases "t < pm_retry p")
    case True
    then have "tries_left t t1 p = tries_left t0 t1 p" using t by (simp add: tries_left_def max_def)
    with True IH [of p] Cons.prems(4) a show ?thesis by (simp add: pin_unlock_def)
  next
    case False
    then have later: "(t1 - t) div 30000 \<le> (t1 - max t0 (pm_retry p)) div 30000" and le: "max t0 (pm_retry p) \<le> t1"
      using t by (auto intro!: zdiv_mono1)
    then have bound: "tries_left t0 t1 p = 5 - int (pm_failures p) + 5 * ((t1 - max t0 (pm_retry p)) div 30000)"
      unfolding tries_left_def Let_def not_less [symmetric] by (simp only: if_False)
    show ?thesis
    proof (cases "5 \<le> pm_failures p + 1")
      case True
      let ?p = "p\<lparr>pm_failures := 0, pm_retry := t + 30000\<rparr>"
      have "(t1 - (t + 30000)) div 30000 = (t1 - t) div 30000 - 1"
        using div_add_self2 [of 30000 "t1 - t - 30000"] by simp
      moreover have "0 \<le> (t1 - t) div 30000" using t by (simp add: pos_imp_zdiv_nonneg_iff)
      ultimately have "tries_left t t1 ?p \<le> 5 * ((t1 - t) div 30000)" by (auto simp: tries_left_def Let_def max_def)
      with IH [of ?p] have "int (count_list (pin_run env db as ?p) 401) \<le> 5 * ((t1 - t) div 30000)" by simp
      with False True wrong a later Cons.prems(4) show ?thesis unfolding bound by (simp add: pin_unlock_def)
    next
      case more: False
      let ?p = "p\<lparr>pm_failures := pm_failures p + 1\<rparr>"
      have "tries_left t t1 ?p = 4 - int (pm_failures p) + 5 * ((t1 - t) div 30000)"
        using False t by (simp add: tries_left_def Let_def max_def)
      with IH [of ?p] more have "int (count_list (pin_run env db as ?p) 401) \<le> 4 - int (pm_failures p) + 5 * ((t1 - t) div 30000)"
        by simp
      with False more wrong a later show ?thesis unfolding bound by (simp add: pin_unlock_def)
    qed
  qed
qed

end
