(* ===== verification/Daemon_System.thy ===== *)
theory Daemon_System
  imports Daemon_Delivery Daemon_Session "HOL-Library.Option_ord"
begin

text \<open>
  \<open>disappearing.ts\<close> and the routes of \<open>server.ts\<close> that work on the database, and the daemon as a whole:
  the database that any sequence of its operations reaches.
\<close>

section \<open>Contacts and conversations\<close>

definition verify_contact :: "string \<Rightarrow> string \<Rightarrow> local_db \<Rightarrow> string + local_db" where
  "verify_contact c n db =
     (if length n \<noteq> 60 \<or> \<not> list_all is_digit n then Inl ''INVALID_REQUEST''
      else if has_row (\<lambda>x. ct_id x = c \<and> ct_safety x = Some n \<and> \<not> ct_changed x) (l_contacts db)
      then Inr (db\<lparr>l_contacts := update_where (\<lambda>x. ct_id x = c \<and> ct_safety x = Some n \<and> \<not> ct_changed x)
             (\<lambda>x. x\<lparr>ct_verified := True\<rparr>) (l_contacts db)\<rparr>)
      else Inl ''SAFETY_NUMBER_CHANGED'')"

definition set_timer :: "daemon_env \<Rightarrow> string \<Rightarrow> int \<Rightarrow> local_db \<Rightarrow> string + local_db" where
  "set_timer env i seconds db =
     (if \<not> is_uuid env i \<or> seconds \<notin> {0, 3600, 86400, 604800} then Inl ''INVALID_REQUEST''
      else Inr (db\<lparr>l_conversations := update_where (\<lambda>v. co_id v = i)
             (\<lambda>v. v\<lparr>co_timer := if seconds = 0 then None else Some seconds\<rparr>) (l_conversations db)\<rparr>))"

definition visible :: "ms \<Rightarrow> local_message \<Rightarrow> bool" where
  "visible now m = (case lm_disappear m of None \<Rightarrow> True | Some t \<Rightarrow> now < t)"

definition message_time :: "local_message \<Rightarrow> ms option" where
  "message_time m = (case lm_sent m of None \<Rightarrow> lm_received m | t \<Rightarrow> t)"

text \<open>Each message with each of its attachments, or with none.\<close>

definition with_attachments :: "local_db \<Rightarrow> local_message \<Rightarrow> (local_message \<times> local_attachment option) list" where
  "with_attachments db m =
     (case filter (\<lambda>a. at_message a = lm_id m) (l_attachments db) of
        [] \<Rightarrow> [(m, None)]
      | as \<Rightarrow> map (\<lambda>a. (m, Some a)) as)"

definition conversation_messages :: "string \<Rightarrow> ms \<Rightarrow> local_db \<Rightarrow> (local_message \<times> local_attachment option) list" where
  "conversation_messages i now db =
     sort_key (message_time \<circ> fst)
       (concat (map (with_attachments db) (filter (\<lambda>m. lm_conversation m = i \<and> visible now m) (l_messages db))))"

section \<open>Profile and control messages\<close>

text \<open>The loop of \<open>POST /api/profile\<close>: each conversation with its envelope id and clock reading.\<close>

fun queue_profiles :: "daemon_env \<Rightarrow> (string \<Rightarrow> bytes \<times> ms) \<Rightarrow> string list \<Rightarrow> ('x, unit) daemon_op" where
  "queue_profiles env draw [] = ret ()"
| "queue_profiles env draw (v # vs) =
     then_op (queue_control env (fst (draw v)) (snd (draw v)) v [(''type'', JStr ''profile'')]) (queue_profiles env draw vs)"

definition post_profile ::
  "daemon_env \<Rightarrow> (string \<Rightarrow> bytes \<times> ms) \<Rightarrow> (string \<Rightarrow> bool) \<Rightarrow> (string \<Rightarrow> ms) \<Rightarrow> string \<Rightarrow> string \<Rightarrow>
     ('x, string \<times> string) daemon_op" where
  "post_profile env draw post clock name status =
     (let n = trim name; s = trim status
      in if 64 < length n \<or> 140 < length s then throw ''INVALID_REQUEST''
         else then_op (change (\<lambda>db. db\<lparr>l_profile := Some (n, s)\<rparr>))
           (bind_op (look (\<lambda>db. map co_id (l_conversations db))) (\<lambda>vs.
            then_op (in_tx (queue_profiles env draw vs))
            (then_op (change (\<lambda>db. fst (flush_controls post clock db))) (ret (n, s))))))"

definition last_received :: "string \<Rightarrow> local_db \<Rightarrow> string option" where
  "last_received conv db =
     (case concat (map (\<lambda>m. filter (\<lambda>l. fst l = lm_id m) (l_links db))
         (rev (filter (\<lambda>m. lm_conversation m = conv \<and> lm_direction m = Received) (l_messages db)))) of
        [] \<Rightarrow> None
      | l # _ \<Rightarrow> Some (snd l))"

datatype control_kind = Typing | Read_Receipt

definition post_control ::
  "daemon_env \<Rightarrow> bytes \<Rightarrow> (nat \<Rightarrow> ms) \<Rightarrow> (string \<Rightarrow> bool) \<Rightarrow> (string \<Rightarrow> ms) \<Rightarrow> string \<Rightarrow> control_kind \<Rightarrow>
     ('x, unit) daemon_op" where
  "post_control env envelope now post clock conv kind =
     (if \<not> is_uuid env conv then throw ''INVALID_REQUEST''
      else bind_op (look (last_received conv)) (\<lambda>link.
        case (kind, link) of
          (Read_Receipt, None) \<Rightarrow> ret ()
        | _ \<Rightarrow>
            then_op (in_tx (queue_control env envelope (now 1) conv
              (case kind of
                 Typing \<Rightarrow> [(''type'', JStr ''typing''), (''expiresAt'', JInt (now 0 + 5000))]
               | Read_Receipt \<Rightarrow> [(''type'', JStr ''read_receipt''), (''upToMessageId'', JStr (the link))])))
            (change (\<lambda>db. fst (flush_controls post clock db)))))"

section \<open>Disappearing messages\<close>

definition expired :: "ms \<Rightarrow> local_db \<Rightarrow> local_message list" where
  "expired now db = filter (\<lambda>m. \<not> visible now m) (l_messages db)"

text \<open>The files of a message's attachments are unlinked, then the message is deleted.\<close>

definition drop_message :: "local_message \<Rightarrow> files \<times> local_db \<Rightarrow> files \<times> local_db" where
  "drop_message m st =
     (case st of (fs, db) \<Rightarrow>
       (fold (\<lambda>a fs. case at_path a of None \<Rightarrow> fs | Some p \<Rightarrow> if p = [] then fs else map_delete p fs)
          (filter (\<lambda>a. at_message a = lm_id m) (l_attachments db)) fs,
        delete_message_row (lm_id m) db))"

definition disappearing_tick :: "ms \<Rightarrow> files \<times> local_db \<Rightarrow> files \<times> local_db" where
  "disappearing_tick now st = fold drop_message (expired now (snd st)) st"

section \<open>What a tick leaves\<close>

lemma drop_message_db: "snd (drop_message m st) = delete_message_row (lm_id m) (snd st)"
  by (simp add: drop_message_def split: prod.split)

lemma drop_messages_db: "snd (fold drop_message ms st) = fold (\<lambda>m. delete_message_row (lm_id m)) ms (snd st)"
  by (induction ms arbitrary: st) (simp_all add: drop_message_db)

lemma deleted_rows:
  "l_messages (fold (\<lambda>m. delete_message_row (lm_id m)) ms db) =
     filter (\<lambda>x. lm_id x \<notin> lm_id ` set ms) (l_messages db)"
  "l_attachments (fold (\<lambda>m. delete_message_row (lm_id m)) ms db) =
     filter (\<lambda>x. at_message x \<notin> lm_id ` set ms) (l_attachments db)"
  "l_outbox (fold (\<lambda>m. delete_message_row (lm_id m)) ms db) =
     filter (\<lambda>x. og_message x \<notin> lm_id ` set ms) (l_outbox db)"
  by (induction ms arbitrary: db) (auto simp: delete_message_row_def delete_where_def Let_def intro!: filter_cong)

lemma local_ok_drops: "local_ok db \<Longrightarrow> local_ok (fold (\<lambda>m. delete_message_row (lm_id m)) ms db)"
  by (induction ms arbitrary: db) (simp_all add: local_ok_delete_message)

lemma local_ok_tick: "local_ok (snd st) \<Longrightarrow> local_ok (snd (disappearing_tick now st))"
  by (simp add: disappearing_tick_def drop_messages_db local_ok_drops)

lemma expired_ids:
  assumes "unique_key lm_id (l_messages db)" and "m \<in> set (l_messages db)"
  shows "lm_id m \<in> lm_id ` set (expired now db) \<longleftrightarrow> \<not> visible now m"
proof -
  have "inj_on lm_id (set (l_messages db))" using assms(1) by (simp add: unique_key_def distinct_map)
  then show ?thesis using assms(2) by (auto simp: expired_def inj_on_def)
qed

lemma tick_messages:
  assumes "local_ok (snd st)"
  shows "l_messages (snd (disappearing_tick now st)) = filter (visible now) (l_messages (snd st))"
proof -
  have u: "unique_key lm_id (l_messages (snd st))" using assms by (simp add: local_ok_def)
  show ?thesis
    unfolding disappearing_tick_def drop_messages_db deleted_rows
    by (rule filter_cong) (simp_all add: expired_ids [OF u])
qed

lemma tick_outbox:
  assumes "o1 \<in> set (l_outbox (snd (disappearing_tick now st)))" and "local_ok (snd st)"
  shows "\<exists>m \<in> set (l_messages (snd st)). lm_id m = og_message o1 \<and> visible now m"
proof -
  have ok: "local_ok (snd (disappearing_tick now st))" using assms(2) by (rule local_ok_tick)
  then have "has_message (og_message o1) (snd (disappearing_tick now st))" using assms(1) by (simp add: local_ok_def)
  then show ?thesis using tick_messages [OF assms(2)] by (auto simp: has_message_set)
qed

text \<open>The files of the attachments of expired messages are gone.\<close>

definition unlink :: "local_attachment \<Rightarrow> files \<Rightarrow> files" where
  "unlink a fs = (case at_path a of None \<Rightarrow> fs | Some p \<Rightarrow> if p = [] then fs else map_delete p fs)"

lemma drop_message_files:
  "fst (drop_message m st) = fold unlink (filter (\<lambda>a. at_message a = lm_id m) (l_attachments (snd st))) (fst st)"
  by (simp add: drop_message_def unlink_def [abs_def] split: prod.split)

lemma unlink_gone: "map_get fs q = None \<Longrightarrow> map_get (fold unlink as fs) q = None"
  by (induction as arbitrary: fs) (simp_all add: unlink_def map_get_delete split: option.split)

lemma unlink_files: "a \<in> set as \<Longrightarrow> at_path a = Some q \<Longrightarrow> q \<noteq> [] \<Longrightarrow> map_get (fold unlink as fs) q = None"
proof (induction as arbitrary: fs)
  case (Cons b as)
  show ?case
  proof (cases "b = a")
    case True
    then have "map_get (unlink b fs) q = None" using Cons.prems by (simp add: unlink_def map_get_delete)
    then show ?thesis by (simp add: unlink_gone)
  qed (use Cons in simp)
qed simp

lemma drops_gone: "map_get (fst st) q = None \<Longrightarrow> map_get (fst (fold drop_message ms st)) q = None"
  by (induction ms arbitrary: st) (simp_all add: drop_message_files unlink_gone)

lemma drops_files:
  "m \<in> set ms \<Longrightarrow> a \<in> set (l_attachments (snd st)) \<Longrightarrow> at_message a = lm_id m \<Longrightarrow> at_path a = Some q \<Longrightarrow> q \<noteq> [] \<Longrightarrow>
     map_get (fst (fold drop_message ms st)) q = None"
proof (induction ms arbitrary: st)
  case (Cons x ms)
  show ?case
  proof (cases "lm_id x = lm_id m")
    case True
    then have "map_get (fst (drop_message x st)) q = None"
      using Cons.prems by (simp add: drop_message_files unlink_files [of a])
    then show ?thesis by (simp add: drops_gone)
  next
    case False
    then have "a \<in> set (l_attachments (snd (drop_message x st)))"
      using Cons.prems by (simp add: drop_message_db delete_message_row_def set_delete_where Let_def)
    then show ?thesis using Cons.IH [of "drop_message x st"] Cons.prems False by (cases "m = x") simp_all
  qed
qed simp

lemma tick_files:
  assumes "local_ok (snd st)" and "a \<in> set (l_attachments (snd st))" and "at_path a = Some q" and "q \<noteq> []"
    and "m \<in> set (l_messages (snd st))" and "lm_id m = at_message a" and "\<not> visible now m"
  shows "map_get (fst (disappearing_tick now st)) q = None"
  using assms by (auto simp: disappearing_tick_def expired_def intro!: drops_files [of m])

section \<open>The reachable databases\<close>

lemma keeps_queue_profiles [keeping]: "libsignal_ok env \<Longrightarrow> keeps local_ok (queue_profiles env draw vs)"
  by (induction vs) (auto intro!: keeping)

lemma local_ok_profile: "local_ok db \<Longrightarrow> local_ok (db\<lparr>l_profile := p\<rparr>)"
  by (simp add: local_ok_def has_contact_def has_message_def)

lemma keeps_post_profile [keeping]: "libsignal_ok env \<Longrightarrow> keeps local_ok (post_profile env draw post clock n s)"
  unfolding post_profile_def Let_def
  by (auto intro!: keeping keeps_change local_ok_profile local_ok_flush_controls)

lemma keeps_post_control [keeping]: "libsignal_ok env \<Longrightarrow> keeps local_ok (post_control env e now post clock conv kind)"
  unfolding post_control_def
  by (auto intro!: keeping keeps_change local_ok_flush_controls split: control_kind.split option.split)

lemma local_ok_contacts:
  assumes "local_ok db" and f: "\<And>x. ct_id (f x) = ct_id x"
  shows "local_ok (db\<lparr>l_contacts := update_where p f (l_contacts db)\<rparr>)"
proof -
  let ?db = "db\<lparr>l_contacts := update_where p f (l_contacts db)\<rparr>"
  have ids: "map ct_id (l_contacts ?db) = map ct_id (l_contacts db)" by (simp add: f map_update_where)
  then have "has_contact d ?db = has_contact d db" for d by (simp only: has_contact_iff)
  with assms(1) ids show ?thesis by (simp add: local_ok_def unique_key_def has_message_def)
qed

lemma local_ok_conversations:
  assumes ok: "local_ok db" and f: "\<And>x. co_id (f x) = co_id x" "\<And>x. co_contact (f x) = co_contact x"
  shows "local_ok (db\<lparr>l_conversations := update_where p f (l_conversations db)\<rparr>)"
proof -
  let ?db = "db\<lparr>l_conversations := update_where p f (l_conversations db)\<rparr>"
  have ids: "map co_id (l_conversations ?db) = map co_id (l_conversations db)" by (simp add: f map_update_where)
  have "\<forall>c \<in> set (l_conversations ?db). has_contact (co_contact c) ?db"
    using ok by (auto simp: f set_update_where local_ok_def has_contact_def)
  moreover have "\<forall>m \<in> set (l_messages db). \<exists>c \<in> set (l_conversations ?db). co_id c = lm_conversation m"
  proof
    fix m assume "m \<in> set (l_messages db)"
    then have "lm_conversation m \<in> set (map co_id (l_conversations db))" using ok by (force simp: local_ok_def)
    then have "lm_conversation m \<in> set (map co_id (l_conversations ?db))" by (simp only: ids)
    then show "\<exists>c \<in> set (l_conversations ?db). co_id c = lm_conversation m" by force
  qed
  ultimately show ?thesis using ok ids by (simp add: local_ok_def unique_key_def has_message_def has_contact_def)
qed

lemma local_ok_verify: "verify_contact c n db = Inr db' \<Longrightarrow> local_ok db \<Longrightarrow> local_ok db'"
  by (auto simp: verify_contact_def intro!: local_ok_contacts split: if_splits)

lemma local_ok_timer: "set_timer env i s db = Inr db' \<Longrightarrow> local_ok db \<Longrightarrow> local_ok db'"
  by (auto simp: set_timer_def intro!: local_ok_conversations split: if_splits)

lemma local_ok_attachment_stored: "attachment_stored path i m db = Inr db' \<Longrightarrow> local_ok db \<Longrightarrow> local_ok db'"
proof -
  assume s: "attachment_stored path i m db = Inr db'" and ok: "local_ok db"
  let ?as = "update_where (\<lambda>a. at_id a = i \<and> at_message a = m) (\<lambda>a. a\<lparr>at_path := Some path\<rparr>) (l_attachments db)"
  have db': "db' = db\<lparr>l_attachments := ?as, l_downloads := delete_where (\<lambda>x. dl_attachment x = i) (l_downloads db)\<rparr>"
    using s by (auto simp: attachment_stored_def split: if_splits)
  have ids: "map at_id ?as = map at_id (l_attachments db)" by (simp add: map_update_where)
  have refs: "\<forall>d \<in> set (l_downloads db'). \<exists>a \<in> set ?as. at_id a = dl_attachment d"
  proof
    fix d assume "d \<in> set (l_downloads db')"
    then have "dl_attachment d \<in> set (map at_id (l_attachments db))" using ok by (force simp: local_ok_def db' set_delete_where)
    then have "dl_attachment d \<in> set (map at_id ?as)" by (simp only: ids)
    then show "\<exists>a \<in> set ?as. at_id a = dl_attachment d" by force
  qed
  have "\<forall>a \<in> set ?as. has_message (at_message a) db" using ok by (auto simp: set_update_where local_ok_def)
  with ok ids refs show ?thesis by (simp add: local_ok_def unique_key_def has_message_def has_contact_def db')
qed

lemma download_effect:
  "snd (fst (download_and_decrypt env root key n ans m msg (fs, db))) = db \<or>
     (\<exists>path. attachment_stored path (mf_id (the (manifest_schema (is_uuid env) (manifest_json m)))) msg db =
        Inr (snd (fst (download_and_decrypt env root key n ans m msg (fs, db)))))"
  by (auto simp: download_and_decrypt_def split: option.split sum.split prod.split)

lemma local_ok_download:
  "local_ok db \<Longrightarrow> local_ok (snd (fst (download_and_decrypt env root key n ans m msg (fs, db))))"
  using download_effect [of env root key n ans m msg fs db] local_ok_attachment_stored by metis

lemma local_ok_retry_download: "local_ok (snd (fst acc)) \<Longrightarrow> local_ok (snd (fst (retry_download env root key n ans d acc)))"
proof -
  obtain fs db k where acc: "acc = ((fs, db), k)" by (metis surj_pair)
  have "local_ok (snd st')" if "local_ok db"
    "download_and_decrypt env root key (n (mf_id m)) (ans (mf_blob m)) m msg (fs, db) = (st', r)" for m msg st' r
    using local_ok_download [OF that(1), of env root key "n (mf_id m)" "ans (mf_blob m)" m msg fs] that(2) by simp
  then show "local_ok (snd (fst acc)) \<Longrightarrow> ?thesis"
    by (auto simp: retry_download_def acc split: option.split prod.split sum.split)
qed

lemma local_ok_retry_downloads:
  "local_ok (snd st) \<Longrightarrow> local_ok (snd (fst (retry_downloads env root key n ans now st)))"
proof -
  have "local_ok (snd (fst acc)) \<Longrightarrow> local_ok (snd (fst (fold (retry_download env root key n ans) ds acc)))" for ds acc
    by (induction ds arbitrary: acc) (simp_all add: local_ok_retry_download)
  then show "local_ok (snd st) \<Longrightarrow> ?thesis" by (simp add: retry_downloads_def)
qed

text \<open>
  The steps of the daemon while its vault is open: the handlers, the timers and the background work,
  each with any arguments, network answers, clock readings and random values.
\<close>

definition ends :: "(typing, 'a) daemon_op \<Rightarrow> local_db \<Rightarrow> local_db \<Rightarrow> bool" where
  "ends m db db' \<longleftrightarrow> (\<exists>x x' r. m (db, x) = ((db', x'), r))"

inductive quiet_step :: "daemon_env \<Rightarrow> local_db \<Rightarrow> local_db \<Rightarrow> bool" for env where
  send: "ends (send_message_local env root key d post routing conv txt j) db db' \<Longrightarrow> quiet_step env db db'"
| sync: "ends (sync_messages env key answer draws pushed pending) db db' \<Longrightarrow> quiet_step env db db'"
| flush: "quiet_step env db (fst (flush_outbox post now db))"
| controls: "quiet_step env db (fst (flush_controls post clock db))"
| profile: "ends (post_profile env draw post clock n s) db db' \<Longrightarrow> quiet_step env db db'"
| control: "ends (post_control env e reading post clock conv kind) db db' \<Longrightarrow> quiet_step env db db'"
| verify: "verify_contact c n db = Inr db' \<Longrightarrow> quiet_step env db db'"
| timer: "set_timer env i secs db = Inr db' \<Longrightarrow> quiet_step env db db'"
| expire: "quiet_step env db (snd (disappearing_tick now (fs, db)))"
| retry: "quiet_step env db (snd (fst (retry_downloads env root key nonces answers now (fs, db))))"
| identity: "ensure_identity env f now db = Inr (db', b) \<Longrightarrow> quiet_step env db db'"
| registration: "complete_registration now rg db = Inr db' \<Longrightarrow> quiet_step env db db'"
| pin: "set_pin env salt p db = Inr db' \<Longrightarrow> quiet_step env db db'"

text \<open>Only \<open>POST /api/contacts/add\<close> lifts the mark of a changed identity.\<close>

inductive daemon_step :: "daemon_env \<Rightarrow> local_db \<Rightarrow> local_db \<Rightarrow> bool" for env where
  add: "ends (add_contact env new clock answer n) db db' \<Longrightarrow> daemon_step env db db'"
| quiet: "quiet_step env db db' \<Longrightarrow> daemon_step env db db'"

inductive daemon_reach :: "daemon_env \<Rightarrow> local_db \<Rightarrow> bool" for env where
  empty: "daemon_reach env empty_local"
| step: "daemon_reach env db \<Longrightarrow> daemon_step env db db' \<Longrightarrow> daemon_reach env db'"

lemma ends_keeps: "ends m db db' \<Longrightarrow> keeps P m \<Longrightarrow> P db \<Longrightarrow> P db'"
  unfolding ends_def by (blast dest: keepsD)

text \<open>Steps outside the tables that messages live in.\<close>

definition tables :: "local_db \<Rightarrow> local_db" where
  "tables db = empty_local\<lparr>l_contacts := l_contacts db, l_conversations := l_conversations db,
     l_messages := l_messages db, l_outbox := l_outbox db, l_attachments := l_attachments db,
     l_downloads := l_downloads db, l_seen := l_seen db, l_remotes := l_remotes db\<rparr>"

lemma local_ok_tables: "local_ok (tables db) = local_ok db"
  by (simp add: local_ok_def tables_def has_contact_def has_message_def)

lemma inbox_tables: "inbox (tables db) = inbox db"
  by (simp add: inbox_def tables_def)

lemma tables_identity: "ensure_identity env f now db = Inr (db', b) \<Longrightarrow> tables db' = tables db"
  by (auto simp: ensure_identity_def try_then_Inr_iff create_identity_def tables_def split: if_splits)

lemma tables_registration: "complete_registration now rg db = Inr db' \<Longrightarrow> tables db' = tables db"
  by (auto simp: complete_registration_def try_then_Inr_iff Let_def set_account_def tables_def split: if_splits option.splits)

lemma tables_pin: "set_pin env salt p db = Inr db' \<Longrightarrow> tables db' = tables db"
  by (auto simp: set_pin_def tables_def split: if_splits)

lemma local_ok_empty: "local_ok empty_local"
  by (simp add: local_ok_def empty_local_def unique_key_def)

lemma local_ok_quiet: "quiet_step env db db' \<Longrightarrow> libsignal_ok env \<Longrightarrow> local_ok db \<Longrightarrow> local_ok db'"
proof (induction rule: quiet_step.induct)
  case (expire db now fs)
  then show ?case using local_ok_tick [of "(fs, db)"] by simp
next
  case (retry db root key nonces answers now fs)
  then show ?case using local_ok_retry_downloads [of "(fs, db)"] by simp
next
  case (identity f now db db' b)
  then show ?case by (metis tables_identity local_ok_tables)
next
  case (registration now rg db db')
  then show ?case by (metis tables_registration local_ok_tables)
next
  case (pin salt p db db')
  then show ?case by (metis tables_pin local_ok_tables)
qed (auto intro: local_ok_flush_outbox local_ok_flush_controls local_ok_verify local_ok_timer
    elim!: ends_keeps intro!: keeps_send keeps_sync_messages keeps_post_profile keeps_post_control)

lemma local_ok_step: "daemon_step env db db' \<Longrightarrow> libsignal_ok env \<Longrightarrow> local_ok db \<Longrightarrow> local_ok db'"
  by (induction rule: daemon_step.induct) (auto intro: local_ok_quiet elim!: ends_keeps intro!: keeps_add_contact)

section \<open>Envelopes are received once in every reachable database\<close>

abbreviation inbox_well :: "local_db \<Rightarrow> bool" where
  "inbox_well db \<equiv> inbox_ok (inbox db)"

lemma keeps_inbox_well: "(\<And>v. keeps (inbox_is v) m) \<Longrightarrow> keeps inbox_well m"
  unfolding keeps_def by metis

lemma keeps_inbox_well_ops [keeping]:
  assumes "libsignal_ok env"
  shows "keeps inbox_well (encrypt_payload env a txt)" and "keeps inbox_well (adopt_bundle env now b)"
    and "keeps inbox_well (find_or_create_conversation new now c)" and "keeps inbox_well (queue_control env e now conv kvs)"
  by (rule keeps_inbox_well, (rule keeps_inbox_adapter keeps_inbox_ops)+, rule assms)+

lemma inbox_ok_sent: "inbox_ok (rs, ss) \<Longrightarrow> inbox_ok (rs @ [None], ss)"
  by (simp add: inbox_ok_def)

lemma inbox_well_insert: "insert_message m db = Inr db' \<Longrightarrow> lm_remote m = None \<Longrightarrow> inbox_well db \<Longrightarrow> inbox_well db'"
  using inbox_ok_sent [of "fst (inbox db)" "snd (inbox db)"] by (simp add: inbox_insert_message)

lemma keeps_inbox_store_sent: "libsignal_ok env \<Longrightarrow> keeps inbox_well (store_sent env root key d peer payload txt mf)"
  unfolding store_sent_def
  by (auto intro!: keeping keeps_attempt simp: inbox_inserts Let_def elim!: inbox_well_insert split: option.split prod.splits)

lemma inbox_settle: "inbox (settle os db) = inbox db"
  by (simp add: inbox_def settle_def comp_def if_distrib cong: if_cong)

lemma inbox_flush: "inbox (fst (flush_outbox post now db)) = inbox db"
  by (simp add: flush_settles inbox_settle)

lemma inbox_flush_controls: "inbox (fst (flush_controls post clock db)) = inbox db"
proof -
  have "inbox (fst (flush_control_rows post clock cs db)) = inbox db" for cs
    by (induction cs arbitrary: db) (simp_all add: case_prod_beta Let_def drop_control_def inbox_def)
  then show ?thesis by (simp add: flush_controls_def)
qed

lemma keeps_inbox_send: "libsignal_ok env \<Longrightarrow> keeps inbox_well (send_message_local env root key d post routing conv txt j)"
  unfolding send_message_local_def
  by (auto intro!: keeping keeps_change keeps_inbox_store_sent simp: inbox_flush inbox_frame split: option.split prod.splits)

lemma keeps_inbox_add: "libsignal_ok env \<Longrightarrow> keeps inbox_well (add_contact env new clock answer n)"
  unfolding add_contact_def
  by (auto intro!: keeping keeps_change simp: inbox_frame split: option.split prod.splits)

lemma keeps_inbox_profiles: "libsignal_ok env \<Longrightarrow> keeps inbox_well (queue_profiles env draw vs)"
  by (induction vs) (auto intro!: keeping)

lemma keeps_inbox_routes:
  assumes "libsignal_ok env"
  shows "keeps inbox_well (post_profile env draw post clock n s)"
    and "keeps inbox_well (post_control env e reading post clock conv kind)"
proof -
  have p: "inbox (db\<lparr>l_profile := q\<rparr>) = inbox db" for db q by (simp add: inbox_def)
  show "keeps inbox_well (post_profile env draw post clock n s)"
    unfolding post_profile_def Let_def
    by (auto intro!: keeping keeps_change keeps_inbox_profiles assms simp: p inbox_flush_controls)
  show "keeps inbox_well (post_control env e reading post clock conv kind)"
    unfolding post_control_def
    by (auto intro!: keeping keeps_change assms simp: inbox_flush_controls split: control_kind.split option.split)
qed

lemma inbox_well_filter:
  assumes "inbox_well db" and "l_messages db' = filter p (l_messages db)" and "l_seen db' = l_seen db"
  shows "inbox_well db'"
proof -
  have "count_list (map lm_remote (filter p ms)) (Some i) \<le> count_list (map lm_remote ms) (Some i)" for ms i
    by (induction ms) auto
  then show ?thesis using assms by (fastforce simp: inbox_ok_def inbox_def intro: order_trans)
qed

lemma inbox_well_tick:
  assumes "inbox_well db"
  shows "inbox_well (snd (disappearing_tick now (fs, db)))"
proof -
  have seen: "l_seen (fold (\<lambda>m. delete_message_row (lm_id m)) ms db) = l_seen db" for ms :: "local_message list"
    by (induction ms arbitrary: db) (simp_all add: delete_message_row_def Let_def)
  show ?thesis
    unfolding disappearing_tick_def drop_messages_db snd_conv
    by (rule inbox_well_filter [OF assms deleted_rows(1) seen])
qed

text \<open>What a download leaves alone, the retries of downloads do.\<close>

lemma retry_downloads_frame:
  assumes "\<And>path i m db db'. attachment_stored path i m db = Inr db' \<Longrightarrow> v db' = v db"
  shows "v (snd (fst (retry_downloads env root key n ans now st))) = v (snd st)"
proof -
  have dl: "v (snd (fst (download_and_decrypt env root key k a m msg (fs, db)))) = v db" for k a m msg fs db
    using download_effect [of env root key k a m msg fs db] assms by metis
  have one: "v (snd (fst (retry_download env root key n ans d acc))) = v (snd (fst acc))" for d acc
  proof -
    obtain fs db k where acc: "acc = ((fs, db), k)" by (metis surj_pair)
    have "v (snd st') = v db"
      if "download_and_decrypt env root key (n (mf_id m)) (ans (mf_blob m)) m msg (fs, db) = (st', r)" for m msg st' r
      using dl [of "n (mf_id m)" "ans (mf_blob m)" m msg fs db] that by simp
    then show ?thesis by (auto simp: retry_download_def acc split: option.split prod.split sum.split)
  qed
  have "v (snd (fst (fold (retry_download env root key n ans) ds acc))) = v (snd (fst acc))" for ds acc
    by (induction ds arbitrary: acc) (simp_all add: one)
  then show ?thesis by (simp add: retry_downloads_def)
qed

lemma inbox_retry: "inbox (snd (fst (retry_downloads env root key n ans now st))) = inbox (snd st)"
  by (rule retry_downloads_frame) (auto simp: attachment_stored_def inbox_def split: if_splits)

lemma inbox_well_quiet: "quiet_step env db db' \<Longrightarrow> libsignal_ok env \<Longrightarrow> inbox_well db \<Longrightarrow> inbox_well db'"
proof (induction rule: quiet_step.induct)
  case (sync key answer draws pushed pending db db')
  then obtain x x' r where "sync_messages env key answer draws pushed pending (db, x) = ((db', x'), r)"
    by (auto simp: ends_def)
  with sync.prems show ?case
    by (auto simp: sync_messages_def bind_op_def value_of_def split: sum.splits dest: sync_list_once [rotated 2])
next
  case (verify c n db db')
  then have "inbox db' = inbox db" by (auto simp: verify_contact_def inbox_def split: if_splits)
  with verify show ?case by simp
next
  case (timer i secs db db')
  then have "inbox db' = inbox db" by (auto simp: set_timer_def inbox_def split: if_splits)
  with timer show ?case by simp
next
  case (identity f now db db' b)
  then show ?case by (metis tables_identity inbox_tables)
next
  case (registration now rg db db')
  then show ?case by (metis tables_registration inbox_tables)
next
  case (pin salt p db db')
  then show ?case by (metis tables_pin inbox_tables)
qed (auto simp: inbox_flush inbox_flush_controls inbox_well_tick inbox_retry
    elim!: ends_keeps intro!: keeps_inbox_send keeps_inbox_routes)

lemma inbox_well_step: "daemon_step env db db' \<Longrightarrow> libsignal_ok env \<Longrightarrow> inbox_well db \<Longrightarrow> inbox_well db'"
  by (induction rule: daemon_step.induct) (auto intro: inbox_well_quiet elim!: ends_keeps intro!: keeps_inbox_add)

lemma daemon_reach_ok: "daemon_reach env db \<Longrightarrow> libsignal_ok env \<Longrightarrow> local_ok db \<and> inbox_well db"
proof (induction rule: daemon_reach.induct)
  case empty
  show ?case by (simp add: local_ok_empty) (simp add: inbox_def inbox_ok_def empty_local_def)
next
  case (step db db')
  then show ?case by (blast intro: local_ok_step inbox_well_step)
qed

section \<open>Pinned identities\<close>

text \<open>The contact has the key \<open>k\<close> or is marked as changed, and it is marked if \<open>f\<close> says so.\<close>

definition pinned :: "string \<Rightarrow> bytes \<Rightarrow> bool \<Rightarrow> local_db \<Rightarrow> bool" where
  "pinned c k f db \<longleftrightarrow>
     (case find_contact c db of None \<Rightarrow> False | Some y \<Rightarrow> (ct_identity y = k \<or> ct_changed y) \<and> (f \<longrightarrow> ct_changed y))"

lemma pinned_contacts: "l_contacts db' = l_contacts db \<Longrightarrow> pinned c k f db' = pinned c k f db"
  by (simp add: pinned_def find_contact_def)

lemma pinned_calls: "store_calls env db db' \<Longrightarrow> pinned c k f db \<Longrightarrow> pinned c k f db'"
  using store_calls_pin [of env db db' c] by (auto simp: pinned_def split: option.splits)

lemma pinned_save_identity: "pinned c k f db \<Longrightarrow> pinned c k f (fst (save_identity env a key now db))"
  using pinned_calls [OF calls_identity [OF calls_refl]] by blast

lemma pinned_update:
  assumes "pinned c k f db" and "\<And>x. ct_id (g x) = ct_id x" and "\<And>x. ct_identity (g x) = ct_identity x"
    and "\<And>x. ct_changed (g x) = ct_changed x"
  shows "pinned c k f (db\<lparr>l_contacts := update_where p g (l_contacts db)\<rparr>)"
proof -
  have "List.find (\<lambda>x. ct_id x = c) (update_where p g cs) =
      map_option (\<lambda>x. if p x then g x else x) (List.find (\<lambda>x. ct_id x = c) cs)" for cs
    by (induction cs) (auto simp: update_where_def assms(2))
  then show ?thesis using assms by (auto simp: pinned_def find_contact_def split: option.splits)
qed

named_theorems pinned_frame \<open>writes that leave the contacts alone\<close>

lemma pinned_writes [pinned_frame]:
  "pinned c k f (save_profile q db) = pinned c k f db" "pinned c k f (link_blob m db) = pinned c k f db"
  "pinned c k f (mark_delivered i conv db) = pinned c k f db" "pinned c k f (mark_read i conv db) = pinned c k f db"
  "pinned c k f (mark_sent o1 db) = pinned c k f db" "pinned c k f (drop_control i db) = pinned c k f db"
  "pinned c k f (settle os db) = pinned c k f db" "pinned c k f (remember_seen i now db) = pinned c k f db"
  "pinned c k f (delete_message_row i db) = pinned c k f db" "pinned c k f (db\<lparr>l_profile := pr\<rparr>) = pinned c k f db"
  by (auto intro!: pinned_contacts simp: save_profile_def link_blob_def mark_delivered_def mark_read_def mark_sent_def
      drop_control_def settle_def remember_seen_def delete_message_row_def Let_def split: option.split)

lemma pinned_inserts [pinned_frame]:
  "insert_conversation v db = Inr db' \<Longrightarrow> pinned c k f db' = pinned c k f db"
  "insert_control q db = Inr db' \<Longrightarrow> pinned c k f db' = pinned c k f db"
  "insert_message lm db = Inr db' \<Longrightarrow> pinned c k f db' = pinned c k f db"
  "insert_outgoing o1 db = Inr db' \<Longrightarrow> pinned c k f db' = pinned c k f db"
  "insert_link m r db = Inr db' \<Longrightarrow> pinned c k f db' = pinned c k f db"
  "insert_attachment a db = Inr db' \<Longrightarrow> pinned c k f db' = pinned c k f db"
  "insert_download dl db = Inr db' \<Longrightarrow> pinned c k f db' = pinned c k f db"
  "insert_seen i now db = Inr db' \<Longrightarrow> pinned c k f db' = pinned c k f db"
  "upsert_remote rm db = Inr db' \<Longrightarrow> pinned c k f db' = pinned c k f db"
  "attachment_stored path i m db = Inr db' \<Longrightarrow> pinned c k f db' = pinned c k f db"
  by (auto intro!: pinned_contacts simp: insert_conversation_def insert_control_def insert_message_def insert_outgoing_def
      insert_link_def insert_attachment_def insert_download_def insert_seen_def upsert_remote_def attachment_stored_def
      split: if_splits)

lemma pinned_flush [pinned_frame]: "pinned c k f (fst (flush_outbox post now db)) = pinned c k f db"
  by (simp add: flush_settles pinned_frame)

lemma pinned_flush_controls [pinned_frame]: "pinned c k f (fst (flush_controls post clock db)) = pinned c k f db"
proof -
  have "pinned c k f (fst (flush_control_rows post clock cs db)) = pinned c k f db" for cs
    by (induction cs arbitrary: db) (simp_all add: case_prod_beta Let_def pinned_frame)
  then show ?thesis by (simp add: flush_controls_def)
qed

lemma keeps_pinned_adapter [keeping]:
  assumes "libsignal_ok env"
  shows "keeps (pinned c k f) (establish_session env a b now)" and "keeps (pinned c k f) (encrypt_payload env a txt)"
    and "keeps (pinned c k f) (decrypt_payload env a ct tag)"
proof -
  have lib: "keeps (pinned c k f) (on_db (sig_process env a me kb))" "keeps (pinned c k f) (on_db (sig_encrypt env a me p))"
    "keeps (pinned c k f) (on_db (sig_decrypt_prekey env a me p))" "keeps (pinned c k f) (on_db (sig_decrypt env a me p))"
    for me kb p
    using assms unfolding libsignal_ok_def by (blast intro!: keeps_on_db intro: pinned_calls)+
  show "keeps (pinned c k f) (establish_session env a b now)"
    unfolding establish_session_def by (intro keeping lib keeps_change pinned_save_identity)
  show "keeps (pinned c k f) (encrypt_payload env a txt)"
    unfolding encrypt_payload_def by (auto intro!: keeping lib split: prod.splits)
  show "keeps (pinned c k f) (decrypt_payload env a ct tag)"
    unfolding decrypt_payload_def Let_def by (auto intro!: keeping lib)
qed

lemma keeps_pinned_ops [keeping]:
  assumes "libsignal_ok env"
  shows "keeps (pinned c k f) (find_or_create_conversation new now d)"
    and "keeps (pinned c k f) (queue_control env e now conv kvs)"
    and "keeps (pinned c k f) (adopt_bundle env now b)"
    and "keeps (pinned c k f) (resolve_sender env answer now dev)"
proof -
  show "keeps (pinned c k f) (find_or_create_conversation new now d)"
    unfolding find_or_create_conversation_def
    by (auto intro!: keeping keeps_attempt simp: pinned_frame split: option.split)
  show "keeps (pinned c k f) (queue_control env e now conv kvs)"
    unfolding queue_control_def
    by (auto intro!: keeping keeps_attempt assms simp: pinned_frame split: option.split prod.splits)
  show a: "keeps (pinned c k f) (adopt_bundle env now b)" for b
    unfolding adopt_bundle_def Let_def by (auto intro!: keeping keeps_attempt assms simp: pinned_frame)
  show "keeps (pinned c k f) (resolve_sender env answer now dev)"
    unfolding resolve_sender_def update_contact_def
    by (auto intro!: keeping keeps_change a pinned_update split: option.split prod.splits)
qed

lemma keeps_pinned_receive:
  assumes "libsignal_ok env"
  shows "keeps (pinned c k f) (receive_control d eid conv j)" and "keeps (pinned c k f) (receive_text env key d eid conv j)"
    and "keeps (pinned c k f) (receive_payload env key d e contact a)"
proof -
  show ct: "keeps (pinned c k f) (receive_control d eid conv j)" for eid conv j
    unfolding receive_control_def Let_def by (auto intro!: keeping keeps_change keeps_attempt simp: pinned_frame)
  show tx: "keeps (pinned c k f) (receive_text env key d eid conv j)" for eid conv j
    unfolding receive_text_def
    by (auto intro!: keeping keeps_change keeps_attempt assms simp: pinned_frame split: option.split json.split)
  show "keeps (pinned c k f) (receive_payload env key d e contact a)"
    unfolding receive_payload_def Let_def
    by (auto intro!: keeping keeps_change assms ct tx simp: pinned_frame)
qed

lemma keeps_pinned_sync: "libsignal_ok env \<Longrightarrow> keeps (pinned c k f) (sync_messages env key answer draws pushed pending)"
proof -
  assume lib: "libsignal_ok env"
  have one: "keeps (pinned c k f) (sync_envelope env key answer d e)" for d e
    unfolding sync_envelope_def
    by (auto intro!: keeping keeps_pinned_receive lib split: option.split prod.splits)
  have "keeps (pinned c k f) (sync_list env key answer draws n js)" for n js
    by (induction js arbitrary: n) (auto intro!: keeping one split: option.split prod.splits)
  then show ?thesis unfolding sync_messages_def by (intro keeping)
qed

lemma keeps_pinned_send:
  assumes "libsignal_ok env"
  shows "keeps (pinned c k f) (send_message_local env root key d post routing conv txt j)"
proof -
  have "keeps (pinned c k f) (store_sent env root key d peer payload txt mf)" for peer payload mf
    unfolding store_sent_def
    by (auto intro!: keeping keeps_attempt assms simp: pinned_frame Let_def split: option.split prod.splits)
  then show ?thesis
    unfolding send_message_local_def
    by (auto intro!: keeping keeps_change simp: pinned_frame split: option.split prod.splits)
qed

lemma keeps_pinned_routes:
  assumes "libsignal_ok env"
  shows "keeps (pinned c k f) (post_profile env draw post clock n s)"
    and "keeps (pinned c k f) (post_control env e reading post clock conv kind)"
proof -
  have "keeps (pinned c k f) (queue_profiles env draw vs)" for vs
    by (induction vs) (auto intro!: keeping assms)
  then show "keeps (pinned c k f) (post_profile env draw post clock n s)"
    unfolding post_profile_def Let_def by (auto intro!: keeping keeps_change simp: pinned_frame)
  show "keeps (pinned c k f) (post_control env e reading post clock conv kind)"
    unfolding post_control_def
    by (auto intro!: keeping keeps_change assms simp: pinned_frame split: control_kind.split option.split)
qed

lemma pinned_tick: "pinned c k f db \<Longrightarrow> pinned c k f (snd (disappearing_tick now (fs, db)))"
proof -
  have "pinned c k f (fold (\<lambda>m. delete_message_row (lm_id m)) ms db) = pinned c k f db" for ms :: "local_message list"
    by (induction ms arbitrary: db) (simp_all add: pinned_frame)
  then show "pinned c k f db \<Longrightarrow> ?thesis" by (simp add: disappearing_tick_def drop_messages_db)
qed

lemma pinned_tables: "pinned c k f (tables db) = pinned c k f db"
  by (rule pinned_contacts) (simp add: tables_def)

lemma pinned_quiet: "quiet_step env db db' \<Longrightarrow> libsignal_ok env \<Longrightarrow> pinned c k f db \<Longrightarrow> pinned c k f db'"
proof (induction rule: quiet_step.induct)
  case (verify d n db db')
  then show ?case by (auto simp: verify_contact_def intro!: pinned_update split: if_splits)
next
  case (timer i secs db db')
  then have "l_contacts db' = l_contacts db" by (auto simp: set_timer_def split: if_splits)
  from pinned_contacts [OF this, of c k f] timer.prems(2) show ?case by blast
next
  case (retry db root key nonces answers now fs)
  then show ?case using retry_downloads_frame [of "pinned c k f", OF pinned_inserts(10)] by simp
next
  case (identity fr now db db' b)
  then show ?case by (metis tables_identity pinned_tables)
next
  case (registration now rg db db')
  then show ?case by (metis tables_registration pinned_tables)
next
  case (pin salt p db db')
  then show ?case by (metis tables_pin pinned_tables)
qed (auto simp: pinned_frame pinned_tick elim!: ends_keeps [where P = "pinned c k f"]
    intro!: keeps_pinned_send keeps_pinned_sync keeps_pinned_routes)

end
