(* ===== verification/Daemon_Vault.thy ===== *)
theory Daemon_Vault
  imports Daemon_Attachments
begin

text \<open>
  \<open>vault-keys.ts\<close> and the class \<open>Vault\<close> of \<open>vault.ts\<close>: the password wraps a random master key (VMK),
  the VMK opens the SQLCipher database and gives the subkeys that are in memory while it is open.
\<close>

section \<open>Keys\<close>

record kdf_params =
  kp_memory :: int
  kp_time :: int
  kp_parallelism :: int
  kp_salt :: string

record wrapped_config =
  wc_kdf :: kdf_params
  wc_wrapped :: string
  wc_nonce :: string
  wc_salt :: string
  wc_created :: string

definition common_passwords :: "string list" where
  "common_passwords = [''password'', ''password123'', ''123456789'', ''12345678'', ''qwertyuiop'',
     ''adminadmin'', ''letmein123'', ''iloveyou'', ''p@ssword'', ''changeit'']"

definition validate_password :: "string \<Rightarrow> string option" where
  "validate_password p =
     (if length p < 12 then Some ''Password must be at least 12 characters long.''
      else if to_lower p \<in> set common_passwords then Some ''Password is too common/weak.''
      else if \<not> list_ex is_upper p \<or> \<not> list_ex is_lower p \<or> \<not> list_ex is_digit p
      then Some ''Password should contain uppercase, lowercase, and numbers.''
      else None)"

definition derive_kek :: "daemon_env \<Rightarrow> string \<Rightarrow> kdf_params \<Rightarrow> bytes" where
  "derive_kek env p k = argon2id env p (b64_decode (kp_salt k)) (kp_memory k) (kp_time k) (kp_parallelism k)"

definition wrap_aad :: bytes where
  "wrap_aad = utf8 ''vmk-wrap-v1''"

definition wrap_vmk :: "daemon_env \<Rightarrow> bytes \<Rightarrow> bytes \<Rightarrow> string \<Rightarrow> kdf_params \<Rightarrow> bytes \<times> bytes" where
  "wrap_vmk env nonce vmk p k = (gcm_encrypt env (derive_kek env p k) nonce wrap_aad vmk, nonce)"

definition unwrap_vmk :: "daemon_env \<Rightarrow> bytes \<Rightarrow> string \<Rightarrow> kdf_params \<Rightarrow> bytes \<Rightarrow> bytes option" where
  "unwrap_vmk env wrapped p k nonce = gcm_decrypt env (derive_kek env p k) nonce wrap_aad wrapped"

definition derive_subkey :: "daemon_env \<Rightarrow> bytes \<Rightarrow> bytes \<Rightarrow> string \<Rightarrow> bytes" where
  "derive_subkey env vmk salt context = hkdf env vmk salt context"

section \<open>The vault\<close>

text \<open>
  The fields of the object, and its directory: the configuration file and the database file with the key
  that it was created with. \<open>cipher_opens k k'\<close> tells whether SQLCipher can read a file that was created
  with \<open>k'\<close> when it is given \<open>k\<close>.
\<close>

record vault =
  vt_config :: "wrapped_config option"
  vt_open :: bool
  vt_field :: "bytes option"
  vt_attach :: "bytes option"
  vt_token :: "bytes option"
  dk_config :: "wrapped_config option"
  dk_key :: "bytes option"
  dk_db :: local_db

type_synonym cipher = "bytes \<Rightarrow> bytes \<Rightarrow> bool"

definition fresh_vault :: vault where
  "fresh_vault = \<lparr>vt_config = None, vt_open = False, vt_field = None, vt_attach = None, vt_token = None,
     dk_config = None, dk_key = None, dk_db = empty_local\<rparr>"

text \<open>A new process reads the configuration file.\<close>

definition vault_initialize :: "vault \<Rightarrow> vault" where
  "vault_initialize w = w\<lparr>vt_config := dk_config w, vt_open := False, vt_field := None, vt_attach := None, vt_token := None\<rparr>"

definition vault_exists :: "vault \<Rightarrow> bool" where
  "vault_exists w \<longleftrightarrow> vt_config w \<noteq> None"

definition is_locked :: "vault \<Rightarrow> bool" where
  "is_locked w \<longleftrightarrow> \<not> vt_open w"

definition unless_locked :: "'a option \<Rightarrow> string + 'a" where
  "unless_locked k = (case k of None \<Rightarrow> Inl ''vault_locked'' | Some b \<Rightarrow> Inr b)"

definition field_key :: "vault \<Rightarrow> string + bytes" where
  "field_key w = unless_locked (vt_field w)"

definition attachment_key :: "vault \<Rightarrow> string + bytes" where
  "attachment_key w = unless_locked (vt_attach w)"

definition local_token_key :: "vault \<Rightarrow> string + bytes" where
  "local_token_key w = unless_locked (vt_token w)"

definition vault_database :: "vault \<Rightarrow> string + local_db" where
  "vault_database w = unless_locked (if vt_open w then Some (dk_db w) else None)"

definition open_db :: "daemon_env \<Rightarrow> cipher \<Rightarrow> bytes \<Rightarrow> bytes \<Rightarrow> vault \<Rightarrow> vault \<times> (string + unit)" where
  "open_db env opens vmk salt w =
     (let k = derive_subkey env vmk salt ''sqlcipher-key-v1''
      in if (case dk_key w of None \<Rightarrow> True | Some k' \<Rightarrow> opens k k')
         then (w\<lparr>vt_open := True,
                 vt_field := Some (derive_subkey env vmk salt ''field-aead-v1''),
                 vt_attach := Some (derive_subkey env vmk salt ''attachment-meta-v1''),
                 vt_token := Some (derive_subkey env vmk salt ''local-token-v1''),
                 dk_key := Some (case dk_key w of None \<Rightarrow> k | Some k' \<Rightarrow> k')\<rparr>, Inr ())
         else (w\<lparr>vt_field := None, vt_attach := None, vt_token := None\<rparr>, Inl ''invalid_vault_password''))"

record create_draw =
  cd_argon :: bytes
  cd_hkdf :: bytes
  cd_vmk :: bytes
  cd_nonce :: bytes
  cd_now :: string

definition new_kdf :: "bytes \<Rightarrow> kdf_params" where
  "new_kdf salt = \<lparr>kp_memory = 65536, kp_time = 3, kp_parallelism = 1, kp_salt = b64_encode salt\<rparr>"

definition vault_create ::
  "daemon_env \<Rightarrow> cipher \<Rightarrow> create_draw \<Rightarrow> string \<Rightarrow> vault \<Rightarrow> vault \<times> (string + unit)" where
  "vault_create env opens d p w =
     (if vt_config w \<noteq> None then (w, Inl ''vault_already_exists'')
      else (case validate_password p of
              Some e \<Rightarrow> (w, Inl e)
            | None \<Rightarrow>
                let k = new_kdf (cd_argon d); (wrapped, nonce) = wrap_vmk env (cd_nonce d) (cd_vmk d) p k;
                    c = \<lparr>wc_kdf = k, wc_wrapped = b64_encode wrapped, wc_nonce = b64_encode nonce,
                         wc_salt = b64_encode (cd_hkdf d), wc_created = cd_now d\<rparr>
                in open_db env opens (cd_vmk d) (cd_hkdf d) (w\<lparr>vt_config := Some c, dk_config := Some c\<rparr>)))"

definition unlock :: "daemon_env \<Rightarrow> cipher \<Rightarrow> string \<Rightarrow> vault \<Rightarrow> vault \<times> (string + unit)" where
  "unlock env opens p w =
     (if vt_open w then (w, Inr ())
      else (case vt_config w of
              None \<Rightarrow> (w, Inl ''vault_not_configured'')
            | Some c \<Rightarrow>
                (case unwrap_vmk env (b64_decode (wc_wrapped c)) p (wc_kdf c) (b64_decode (wc_nonce c)) of
                   None \<Rightarrow> (w, Inl ''invalid_vault_password'')
                 | Some vmk \<Rightarrow> open_db env opens vmk (b64_decode (wc_salt c)) w)))"

definition change_password ::
  "daemon_env \<Rightarrow> bytes \<Rightarrow> bytes \<Rightarrow> string \<Rightarrow> string \<Rightarrow> vault \<Rightarrow> vault \<times> (string + unit)" where
  "change_password env salt nonce old p w =
     (case vt_config w of
        None \<Rightarrow> (w, Inl ''vault_not_configured'')
      | Some c \<Rightarrow>
          (case validate_password p of
             Some e \<Rightarrow> (w, Inl e)
           | None \<Rightarrow>
               (case unwrap_vmk env (b64_decode (wc_wrapped c)) old (wc_kdf c) (b64_decode (wc_nonce c)) of
                  None \<Rightarrow> (w, Inl ''decrypt'')
                | Some vmk \<Rightarrow>
                    let k = new_kdf salt; (wrapped, n) = wrap_vmk env nonce vmk p k;
                        c' = c\<lparr>wc_kdf := k, wc_wrapped := b64_encode wrapped, wc_nonce := b64_encode n\<rparr>
                    in (w\<lparr>vt_config := Some c', dk_config := Some c'\<rparr>, Inr ()))))"

definition lock_vault :: "vault \<Rightarrow> vault" where
  "lock_vault w = w\<lparr>vt_open := False, vt_field := None, vt_attach := None, vt_token := None\<rparr>"

section \<open>Runs of a vault\<close>

text \<open>
  A run from an empty directory, with the password and the VMK and salt that it is about. Every call is
  possible at any time with any password; what a wrong password must not do is decrypt the wrapped VMK.
\<close>

type_synonym vault_secret = "string \<times> bytes \<times> bytes"

inductive vault_run :: "daemon_env \<Rightarrow> cipher \<Rightarrow> vault \<Rightarrow> vault_secret option \<Rightarrow> bool" for env opens where
  fresh: "vault_run env opens fresh_vault None"
| create: "vault_run env opens w None \<Longrightarrow> vault_create env opens d p w = (w', Inr ()) \<Longrightarrow>
    vault_run env opens w' (Some (p, cd_vmk d, cd_hkdf d))"
| create_fails: "vault_run env opens w s \<Longrightarrow> vault_create env opens d p w = (w', Inl e) \<Longrightarrow> vault_run env opens w' s"
| unlock: "vault_run env opens w (Some (p, v)) \<Longrightarrow> unlock env opens p w = (w', r) \<Longrightarrow> vault_run env opens w' (Some (p, v))"
| unlock_open: "vault_run env opens w s \<Longrightarrow> vt_open w \<Longrightarrow> unlock env opens q w = (w', r) \<Longrightarrow> vault_run env opens w' s"
| unlock_fails: "vault_run env opens w s \<Longrightarrow> unlock env opens q w = (w', Inl e) \<Longrightarrow> vault_run env opens w' s"
| change: "vault_run env opens w (Some (p, v)) \<Longrightarrow> change_password env salt nonce p q w = (w', Inr ()) \<Longrightarrow>
    vault_run env opens w' (Some (q, v))"
| change_fails: "vault_run env opens w s \<Longrightarrow> change_password env salt nonce p q w = (w', Inl e) \<Longrightarrow>
    vault_run env opens w' s"
| lock: "vault_run env opens w s \<Longrightarrow> vault_run env opens (lock_vault w) s"
| restart: "vault_run env opens w s \<Longrightarrow> vault_run env opens (vault_initialize w) s"
| write_db: "vault_run env opens w s \<Longrightarrow> vt_open w \<Longrightarrow> vault_run env opens (w\<lparr>dk_db := db\<rparr>) s"

text \<open>What SQLCipher documents: a file can be read with the key that it was created with.\<close>

definition cipher_ok :: "cipher \<Rightarrow> bool" where
  "cipher_ok opens \<longleftrightarrow> (\<forall>k. opens k k)"

definition keys_of :: "vault \<Rightarrow> bytes option \<times> bytes option \<times> bytes option" where
  "keys_of w = (vt_field w, vt_attach w, vt_token w)"

definition subkeys :: "daemon_env \<Rightarrow> bytes \<Rightarrow> bytes \<Rightarrow> bytes option \<times> bytes option \<times> bytes option" where
  "subkeys env vmk salt = (Some (derive_subkey env vmk salt ''field-aead-v1''),
     Some (derive_subkey env vmk salt ''attachment-meta-v1''), Some (derive_subkey env vmk salt ''local-token-v1''))"

definition config_for :: "daemon_env \<Rightarrow> wrapped_config option \<Rightarrow> string \<Rightarrow> bytes \<Rightarrow> bytes \<Rightarrow> bool" where
  "config_for env cfg p vmk salt \<longleftrightarrow>
     (\<exists>c. cfg = Some c \<and> b64_decode (wc_salt c) = salt \<and>
        unwrap_vmk env (b64_decode (wc_wrapped c)) p (wc_kdf c) (b64_decode (wc_nonce c)) = Some vmk)"

definition vault_inv :: "daemon_env \<Rightarrow> vault \<Rightarrow> vault_secret option \<Rightarrow> bool" where
  "vault_inv env w s \<longleftrightarrow>
     dk_config w = vt_config w \<and>
     (case s of
        None \<Rightarrow> w = fresh_vault
      | Some (p, vmk, salt) \<Rightarrow>
          config_for env (vt_config w) p vmk salt \<and>
          dk_key w = Some (derive_subkey env vmk salt ''sqlcipher-key-v1'') \<and>
          keys_of w = (if vt_open w then subkeys env vmk salt else (None, None, None)))"

lemma unwrap_wrap:
  assumes "gcm_ok env"
  shows "unwrap_vmk env (fst (wrap_vmk env n vmk p k)) p k (snd (wrap_vmk env n vmk p k)) = Some vmk"
  using assms by (simp add: unwrap_vmk_def wrap_vmk_def gcm_ok_def)

lemma open_db_keys:
  "open_db env opens vmk salt w = (w', Inr ()) \<Longrightarrow>
     vt_open w' \<and> keys_of w' = subkeys env vmk salt \<and> vt_config w' = vt_config w \<and> dk_config w' = dk_config w \<and>
     dk_db w' = dk_db w \<and> dk_key w' = Some (case dk_key w of None \<Rightarrow> derive_subkey env vmk salt ''sqlcipher-key-v1'' | Some k \<Rightarrow> k)"
  by (auto simp: open_db_def keys_of_def subkeys_def Let_def split: if_splits)

lemma open_db_fails:
  "open_db env opens vmk salt w = (w', Inl e) \<Longrightarrow> w' = w\<lparr>vt_field := None, vt_attach := None, vt_token := None\<rparr>"
  by (auto simp: open_db_def Let_def split: if_splits)

lemma locked_keys: "keys_of w = (None, None, None) \<Longrightarrow> w\<lparr>vt_field := None, vt_attach := None, vt_token := None\<rparr> = w"
  by (cases w) (simp add: keys_of_def)

lemma fresh_simps [simp]:
  "vt_config fresh_vault = None" "vt_open fresh_vault = False" "dk_config fresh_vault = None"
  "dk_key fresh_vault = None" "keys_of fresh_vault = (None, None, None)"
  by (simp_all add: fresh_vault_def keys_of_def)

lemma lock_fresh [simp]: "lock_vault fresh_vault = fresh_vault" "vault_initialize fresh_vault = fresh_vault"
  by (simp_all add: fresh_vault_def lock_vault_def vault_initialize_def)

lemma create_inv:
  assumes "gcm_ok env" and "vault_create env opens d p fresh_vault = (w', Inr ())"
  shows "vault_inv env w' (Some (p, cd_vmk d, cd_hkdf d))"
proof -
  let ?k = "new_kdf (cd_argon d)"
  let ?wn = "wrap_vmk env (cd_nonce d) (cd_vmk d) p ?k"
  let ?c = "\<lparr>wc_kdf = ?k, wc_wrapped = b64_encode (fst ?wn), wc_nonce = b64_encode (snd ?wn),
    wc_salt = b64_encode (cd_hkdf d), wc_created = cd_now d\<rparr>"
  from assms(2) have "open_db env opens (cd_vmk d) (cd_hkdf d) (fresh_vault\<lparr>vt_config := Some ?c, dk_config := Some ?c\<rparr>) = (w', Inr ())"
    by (simp add: vault_create_def Let_def case_prod_beta split: option.splits)
  from open_db_keys [OF this] show ?thesis
    using unwrap_wrap [OF assms(1)] by (simp add: vault_inv_def b64_decode_encode config_for_def)
qed

lemma create_refused: "vault_create env opens d p w = (w', Inl e) \<Longrightarrow> vault_inv env w s \<Longrightarrow> w' = w"
  by (auto simp: vault_create_def open_db_def vault_inv_def config_for_def Let_def case_prod_beta split: option.splits if_splits)

lemma unlock_some:
  assumes inv: "vault_inv env w (Some (p, vmk, salt))" and "cipher_ok opens"
  shows "unlock env opens p w = (fst (unlock env opens p w), Inr ()) \<and> vault_inv env (fst (unlock env opens p w)) (Some (p, vmk, salt)) \<and>
    vt_open (fst (unlock env opens p w)) \<and> dk_db (fst (unlock env opens p w)) = dk_db w"
proof (cases "vt_open w")
  case True
  then show ?thesis using inv by (simp add: unlock_def)
next
  case False
  from inv obtain c where c: "vt_config w = Some c" "b64_decode (wc_salt c) = salt"
    "unwrap_vmk env (b64_decode (wc_wrapped c)) p (wc_kdf c) (b64_decode (wc_nonce c)) = Some vmk"
    and key: "dk_key w = Some (derive_subkey env vmk salt ''sqlcipher-key-v1'')" and cfg: "dk_config w = vt_config w"
    unfolding vault_inv_def config_for_def option.case prod.case by blast
  have run: "unlock env opens p w = open_db env opens vmk salt w" using False c by (simp add: unlock_def)
  have ok: "snd (open_db env opens vmk salt w) = Inr ()"
    using assms(2) key by (simp add: open_db_def cipher_ok_def Let_def)
  then have "open_db env opens vmk salt w = (fst (open_db env opens vmk salt w), Inr ())" by (metis prod.collapse)
  from this open_db_keys [OF this] show ?thesis using c key cfg by (simp add: run vault_inv_def config_for_def)
qed

lemma change_inv:
  assumes "gcm_ok env" and "vault_inv env w (Some (p, v))" and "change_password env salt nonce p q w = (w', Inr ())"
  shows "vault_inv env w' (Some (q, v))"
proof -
  obtain vmk hs where v: "v = (vmk, hs)" by (cases v)
  have rest: "dk_key w = Some (derive_subkey env vmk hs ''sqlcipher-key-v1'')"
      "keys_of w = (if vt_open w then subkeys env vmk hs else (None, None, None))"
    using assms(2) by (simp_all add: vault_inv_def v)
  have "config_for env (vt_config w) p vmk hs" using assms(2) by (simp add: vault_inv_def v)
  then obtain c where c: "vt_config w = Some c" "b64_decode (wc_salt c) = hs"
    "unwrap_vmk env (b64_decode (wc_wrapped c)) p (wc_kdf c) (b64_decode (wc_nonce c)) = Some vmk"
    unfolding config_for_def by blast
  let ?wn = "wrap_vmk env nonce vmk q (new_kdf salt)"
  let ?c = "c\<lparr>wc_kdf := new_kdf salt, wc_wrapped := b64_encode (fst ?wn), wc_nonce := b64_encode (snd ?wn)\<rparr>"
  from assms(3) c have w': "w' = w\<lparr>vt_config := Some ?c, dk_config := Some ?c\<rparr>"
    by (auto simp: change_password_def Let_def case_prod_beta split: option.splits)
  have "keys_of w' = keys_of w" by (simp add: w' keys_of_def)
  with rest c(2) unwrap_wrap [OF assms(1)] show ?thesis by (simp add: vault_inv_def v w' b64_decode_encode config_for_def)
qed

lemma change_refused: "change_password env salt nonce p q w = (w', Inl e) \<Longrightarrow> w' = w"
  by (auto simp: change_password_def Let_def case_prod_beta split: option.splits)

lemma unlock_refused:
  assumes "unlock env opens q w = (w', Inl e)" and "vault_inv env w s"
  shows "w' = w"
proof (cases "vt_config w")
  case (Some c)
  from assms have "\<not> vt_open w" by (auto simp: unlock_def)
  then have keys: "keys_of w = (None, None, None)" using assms(2) by (auto simp: vault_inv_def split: option.splits)
  show ?thesis
    using assms(1) Some \<open>\<not> vt_open w\<close> locked_keys [OF keys] open_db_fails
    by (fastforce simp: unlock_def split: option.splits)
qed (use assms in \<open>auto simp: unlock_def split: if_splits\<close>)

lemma closed_inv:
  assumes "vault_inv env w s"
  shows "vault_inv env (lock_vault w) s" and "vault_inv env (vault_initialize w) s"
proof -
  have "lock_vault w = w" "vault_initialize w = w" if "w = fresh_vault" using that by simp_all
  with assms show "vault_inv env (lock_vault w) s" "vault_inv env (vault_initialize w) s"
    unfolding vault_inv_def
    by (simp_all add: lock_vault_def vault_initialize_def keys_of_def split: option.splits prod.splits)
qed

lemma vault_run_inv: "vault_run env opens w s \<Longrightarrow> gcm_ok env \<Longrightarrow> cipher_ok opens \<Longrightarrow> vault_inv env w s"
proof (induction rule: vault_run.induct)
  case fresh
  then show ?case by (simp add: vault_inv_def)
next
  case (create w d p w')
  then show ?case by (auto simp: vault_inv_def [of _ _ None] intro: create_inv)
next
  case (create_fails w s d p w' e)
  then show ?case using create_refused by blast
next
  case (unlock w p v w' r)
  then show ?case using unlock_some by (metis fst_conv prod.collapse)
next
  case (unlock_open w s q w' r)
  then show ?case by (simp add: unlock_def)
next
  case (unlock_fails w s q w' e)
  then show ?case using unlock_refused by blast
next
  case (change w p v salt nonce q w')
  then show ?case by (blast intro: change_inv)
next
  case (change_fails w s salt nonce p q w' e)
  then show ?case using change_refused by blast
next
  case (lock w s)
  then show ?case by (simp add: closed_inv)
next
  case (restart w s)
  then show ?case by (simp add: closed_inv)
next
  case (write_db w s db)
  then show ?case by (simp add: vault_inv_def keys_of_def split: option.splits prod.splits)
qed

end
