(* ===== verification/Daemon_Shards.thy ===== *)
theory Daemon_Shards
  imports Daemon_Vault
begin

text \<open>
  \<open>vault-dual-key.ts\<close>, \<open>horcrux.ts\<close> and \<open>sovereign-files.ts\<close>: the keys that a vault id and a password
  give, sealed values, the wrapped VMK split into seven shards of which all are needed, where the shards
  are kept, and the two files that a user can carry the vault in.
\<close>

section \<open>Keys and sealed values\<close>

record vault_keys =
  vk_kek :: bytes
  vk_lookup :: bytes
  vk_backup :: bytes
  vk_mask :: bytes
  vk_writer :: bytes

definition derive_vault_keys :: "daemon_env \<Rightarrow> string \<Rightarrow> string \<Rightarrow> vault_keys" where
  "derive_vault_keys env i p =
     (let salt = dg_sha256 env (utf8 ''cp-vault-root-v1'' @ [0] @ utf8 i);
          root = argon2id env p salt 65536 3 1;
          key = derive_subkey env root salt
      in \<lparr>vk_kek = key ''cp-vault-kek-v1'', vk_lookup = key ''cp-vault-lookup-v1'',
          vk_backup = key ''cp-vault-backup-cipher-v1'', vk_mask = key ''cp-horcrux-share6-mask-v1'',
          vk_writer = key ''cp-vault-backup-writer-v1''\<rparr>)"

record sealed =
  se_nonce :: string
  se_ciphertext :: string

definition seal :: "daemon_env \<Rightarrow> bytes \<Rightarrow> bytes \<Rightarrow> bytes \<Rightarrow> string \<Rightarrow> sealed" where
  "seal env nonce data key aad =
     \<lparr>se_nonce = b64_encode nonce, se_ciphertext = b64_encode (gcm_encrypt env key nonce (utf8 aad) data)\<rparr>"

definition unseal :: "daemon_env \<Rightarrow> sealed \<Rightarrow> bytes \<Rightarrow> string \<Rightarrow> bytes option" where
  "unseal env v key aad =
     (let nonce = b64_decode (se_nonce v); c = b64_decode (se_ciphertext v)
      in if length nonce \<noteq> 12 \<or> length c < 16 then None else gcm_decrypt env key nonce (utf8 aad) c)"

definition sealed_json :: "sealed \<Rightarrow> json" where
  "sealed_json v = JObj [(''nonce'', JStr (se_nonce v)), (''ciphertext'', JStr (se_ciphertext v))]"

definition sealed_of :: "json \<Rightarrow> sealed option" where
  "sealed_of j = do {
     n \<leftarrow> required ''nonce'' as_string j;
     c \<leftarrow> required ''ciphertext'' as_string j;
     Some \<lparr>se_nonce = n, se_ciphertext = c\<rparr>}"

text \<open>\<open>unseal(JSON.parse(text), key, aad)\<close>, \<open>None\<close> for every exception.\<close>

definition unseal_text :: "daemon_env \<Rightarrow> string \<Rightarrow> bytes \<Rightarrow> string \<Rightarrow> bytes option" where
  "unseal_text env txt key aad = do {
     j \<leftarrow> json_parse env txt;
     v \<leftarrow> sealed_of j;
     unseal env v key aad}"

definition max_backup_bytes :: nat where
  "max_backup_bytes = 64 * 1024 * 1024"

definition encrypt_backup :: "daemon_env \<Rightarrow> (bytes \<Rightarrow> bytes) \<Rightarrow> bytes \<Rightarrow> bytes \<Rightarrow> bytes \<Rightarrow> string + sealed" where
  "encrypt_backup env gzip nonce snapshot key =
     (let z = gzip snapshot
      in if max_backup_bytes < length z + 16 then Inl ''backup_too_large''
         else Inr (seal env nonce z key ''vault-backup-v1''))"

definition decrypt_backup :: "daemon_env \<Rightarrow> (nat \<Rightarrow> bytes \<Rightarrow> bytes option) \<Rightarrow> sealed \<Rightarrow> bytes \<Rightarrow> bytes option" where
  "decrypt_backup env gunzip v key =
     Option.bind (unseal env v key ''vault-backup-v1'') (gunzip (256 * 1024 * 1024))"

section \<open>Seven shards\<close>

definition xor_bytes :: "bytes \<Rightarrow> bytes \<Rightarrow> bytes" where
  "xor_bytes a b = map2 xor a b"

text \<open>The random shares are an argument; each has the length of the secret.\<close>

definition split_seven :: "bytes list \<Rightarrow> bytes \<Rightarrow> string + bytes list" where
  "split_seven rs secret =
     (if length secret \<noteq> 48 then Inl ''invalid_wrapped_vmk''
      else Inr (rs @ [fold (\<lambda>share acc. xor_bytes acc share) rs secret]))"

definition reconstruct_seven :: "bytes option list \<Rightarrow> string + bytes" where
  "reconstruct_seven ss =
     (if length ss \<noteq> 7 \<or> list_ex (\<lambda>s. case s of None \<Rightarrow> True | Some b \<Rightarrow> length b \<noteq> 48) ss
      then Inl ''HORCRUX_INCOMPLETE_RESTORE_REQUIRED''
      else Inr (fold (\<lambda>share acc. xor_bytes acc share) (map the ss) (replicate 48 0)))"

definition shard_digest :: "daemon_env \<Rightarrow> bytes \<Rightarrow> string" where
  "shard_digest env s = hex_encode (dg_sha256 env s)"

section \<open>Where the shards are\<close>

text \<open>
  The files under the root and the share of the running session. The database of the second shard has
  the key that it was created with, \<open>None\<close> for the unencrypted databases of older versions, and its row.
\<close>

record shards =
  hx_f1 :: "bytes option"
  hx_meta :: "(bytes option \<times> bytes option) option"
  hx_f3 :: "string option"
  hx_f4 :: "bytes option"
  hx_f6 :: "string option"
  hx_session :: "bytes option"

definition no_shards :: shards where
  "no_shards = \<lparr>hx_f1 = None, hx_meta = None, hx_f3 = None, hx_f4 = None, hx_f6 = None, hx_session = None\<rparr>"

definition meta_key :: "daemon_env \<Rightarrow> bytes \<Rightarrow> bytes" where
  "meta_key env backup = derive_subkey env backup (replicate 32 0) ''cp-shard2-db-v1''"

text \<open>Opening creates a missing database; \<open>None\<close> is the exception for a wrong key.\<close>

definition metadata :: "daemon_env \<Rightarrow> cipher \<Rightarrow> bytes \<Rightarrow> shards \<Rightarrow> (bytes option \<times> bytes option) option" where
  "metadata env opens backup h =
     (case hx_meta h of
        None \<Rightarrow> Some (Some (meta_key env backup), None)
      | Some (None, row) \<Rightarrow> Some (None, row)
      | Some (Some k, row) \<Rightarrow> if opens (meta_key env backup) k then Some (Some k, row) else None)"

record scatter_draw =
  sc_shares :: "bytes list"
  sc_nonce3 :: bytes
  sc_nonce6 :: bytes
  sc_nonce7 :: bytes

text \<open>An external seventh share replaces the last one; the sixth makes up for it.\<close>

definition place_external :: "bytes option \<Rightarrow> bytes list \<Rightarrow> string + bytes list" where
  "place_external ext ss =
     (case ext of
        None \<Rightarrow> Inr ss
      | Some e \<Rightarrow> if length e \<noteq> 48 then Inl ''INVALID_SHARD7_FILE''
          else Inr (ss[5 := xor_bytes (ss ! 5) (xor_bytes (ss ! 6) e), 6 := e]))"

record scattered =
  st_client :: string
  st_fragment7 :: string
  st_hashes :: "string list"

definition scatter ::
  "daemon_env \<Rightarrow> scatter_draw \<Rightarrow> bytes \<Rightarrow> bytes \<Rightarrow> bytes \<Rightarrow> bytes option \<Rightarrow> shards \<Rightarrow> shards \<times> (string + scattered)" where
  "scatter env d secret maskkey backup ext h =
     (case try_then (split_seven (sc_shares d) secret) (place_external ext) of
        Inl e \<Rightarrow> (h, Inl e)
      | Inr ss \<Rightarrow>
          (h\<lparr>hx_f1 := Some (ss ! 0), hx_meta := Some (Some (meta_key env backup), Some (ss ! 1)),
             hx_f3 := Some (json_text env (sealed_json (seal env (sc_nonce3 d) (ss ! 2) backup ''cp-shard3-v1''))),
             hx_f4 := Some (ss ! 3),
             hx_f6 := Some (json_text env (sealed_json (seal env (sc_nonce6 d) (ss ! 5) maskkey ''cp-shard6-v1''))),
             hx_session := Some (ss ! 5)\<rparr>,
           Inr \<lparr>st_client = b64_encode (ss ! 4),
             st_fragment7 = json_text env (sealed_json (seal env (sc_nonce7 d) (ss ! 6) backup ''cp-shard7-v1'')),
             st_hashes = map (shard_digest env) ss\<rparr>))"

text \<open>The seven shares as far as they can be read.\<close>

definition read_shares ::
  "daemon_env \<Rightarrow> cipher \<Rightarrow> string option \<Rightarrow> string option \<Rightarrow> bytes \<Rightarrow> bytes \<Rightarrow> shards \<Rightarrow> bytes option list" where
  "read_shares env opens client fragment7 maskkey backup h =
     [hx_f1 h,
      map_option (\<lambda>(k, row). case row of None \<Rightarrow> [] | Some b \<Rightarrow> b) (metadata env opens backup h),
      Option.bind (hx_f3 h) (\<lambda>s. unseal_text env s backup ''cp-shard3-v1''),
      hx_f4 h,
      (case client of None \<Rightarrow> None | Some s \<Rightarrow> if s = [] then None else Some (b64_decode s)),
      Option.bind (hx_f6 h) (\<lambda>s. unseal_text env s maskkey ''cp-shard6-v1''),
      unseal_text env (case fragment7 of None \<Rightarrow> [] | Some s \<Rightarrow> s) backup ''cp-shard7-v1'']"

definition share_ok :: "daemon_env \<Rightarrow> string list \<Rightarrow> nat \<Rightarrow> bytes option \<Rightarrow> bool" where
  "share_ok env hashes i s =
     (case s of None \<Rightarrow> False
      | Some b \<Rightarrow> length b = 48 \<and> i < length hashes \<and> shard_digest env b = hashes ! i)"

definition collect ::
  "daemon_env \<Rightarrow> cipher \<Rightarrow> string option \<Rightarrow> string option \<Rightarrow> bytes \<Rightarrow> bytes \<Rightarrow> string list \<Rightarrow> shards \<Rightarrow>
     shards \<times> (string + bytes)" where
  "collect env opens client fragment7 maskkey backup hashes h =
     (let ss = read_shares env opens client fragment7 maskkey backup h;
          h1 = (case metadata env opens backup h of None \<Rightarrow> h | Some m \<Rightarrow> h\<lparr>hx_meta := Some m\<rparr>)
      in if \<not> (\<forall>i < 7. share_ok env hashes i (ss ! i)) then (h1, Inl ''HORCRUX_INCOMPLETE_RESTORE_REQUIRED'')
         else (h1\<lparr>hx_session := ss ! 5\<rparr>, reconstruct_seven ss))"

text \<open>Which locations hold a share, and whether all do.\<close>

definition shard_status :: "bool \<Rightarrow> bool \<Rightarrow> string list \<Rightarrow> shards \<Rightarrow> bool list \<times> nat \<times> bool" where
  "shard_status client relay hashes h =
     (let present = map (\<lambda>b. b \<and> length hashes = 7)
        [hx_f1 h \<noteq> None, hx_meta h \<noteq> None, hx_f3 h \<noteq> None, hx_f4 h \<noteq> None, client, hx_session h \<noteq> None, relay];
          n = length (filter (\<lambda>b. b) present)
      in (present, n, n = 7))"

definition shards_lock :: "shards \<Rightarrow> shards" where
  "shards_lock h = h\<lparr>hx_session := None\<rparr>"

section \<open>The files of a sovereign vault\<close>

definition shard_header :: bytes where
  "shard_header = utf8 ''CPSHR701'' @ [10]"

definition storage_header :: bytes where
  "storage_header = utf8 ''CPVAULT1'' @ [10]"

definition file_envelope :: "bytes \<Rightarrow> bytes \<Rightarrow> nat \<Rightarrow> string + bytes" where
  "file_envelope file header limit =
     (if length file \<le> length header \<or> limit < length file \<or> take (length header) file \<noteq> header
      then Inl ''INVALID_SOVEREIGN_FILE'' else Inr (drop (length header) file))"

definition canonical :: "string \<Rightarrow> bool" where
  "canonical s \<longleftrightarrow> b64_encode (b64_decode s) = s"

definition sealed_file :: "daemon_env \<Rightarrow> bytes \<Rightarrow> bytes \<Rightarrow> nat \<Rightarrow> string + sealed" where
  "sealed_file env file header limit =
     try_then (file_envelope file header limit) (\<lambda>b.
     case json_parse env (utf8_text env b) of
       None \<Rightarrow> Inl ''SyntaxError''
     | Some j \<Rightarrow>
         (case sealed_of j of
            None \<Rightarrow> Inl ''INVALID_SOVEREIGN_FILE''
          | Some v \<Rightarrow>
              if length (b64_decode (se_nonce v)) \<noteq> 12 \<or> \<not> canonical (se_nonce v) \<or>
                 length (b64_decode (se_ciphertext v)) < 16 \<or> \<not> canonical (se_ciphertext v)
              then Inl ''INVALID_SOVEREIGN_FILE'' else Inr v))"

definition open_sealed :: "daemon_env \<Rightarrow> sealed \<Rightarrow> bytes \<Rightarrow> string \<Rightarrow> string + bytes" where
  "open_sealed env v key aad =
     (case unseal env v key aad of None \<Rightarrow> Inl ''decrypt'' | Some b \<Rightarrow> Inr b)"

definition seventh :: "daemon_env \<Rightarrow> bytes \<Rightarrow> vault_keys \<Rightarrow> string + bytes" where
  "seventh env capsule keys =
     try_then (sealed_file env capsule shard_header 2048) (\<lambda>v.
     try_then (open_sealed env v (vk_backup keys) ''cp-shard7-v1'') (\<lambda>share.
     if length share \<noteq> 48 then Inl ''INVALID_SHARD7_FILE'' else Inr share))"

definition storage_key :: "daemon_env \<Rightarrow> bytes \<Rightarrow> vault_keys \<Rightarrow> string + bytes" where
  "storage_key env capsule keys =
     try_then (seventh env capsule keys) (\<lambda>share.
     Inr (derive_subkey env (vk_backup keys) (dg_sha256 env share) ''cp-app-storage-v1''))"

definition encode_storage :: "daemon_env \<Rightarrow> bytes \<Rightarrow> bytes \<Rightarrow> bytes \<Rightarrow> vault_keys \<Rightarrow> string + bytes" where
  "encode_storage env nonce snapshot capsule keys =
     try_then (storage_key env capsule keys) (\<lambda>key.
     Inr (storage_header @ utf8 (json_text env (sealed_json (seal env nonce snapshot key ''cp-app-storage-v1'')))))"

definition decode_storage :: "daemon_env \<Rightarrow> bytes \<Rightarrow> bytes \<Rightarrow> vault_keys \<Rightarrow> string + bytes" where
  "decode_storage env file capsule keys =
     try_then (storage_key env capsule keys) (\<lambda>key.
     try_then (sealed_file env file storage_header (64 * 1024 * 1024)) (\<lambda>v.
     open_sealed env v key ''cp-app-storage-v1''))"

section \<open>Exclusive or of shares\<close>

abbreviation "is_share b \<equiv> length b = 48"

lemma length_xor [simp]: "length (xor_bytes a b) = min (length a) (length b)"
  by (simp add: xor_bytes_def)

lemma nth_xor [simp]: "i < length a \<Longrightarrow> i < length b \<Longrightarrow> xor_bytes a b ! i = xor (a ! i) (b ! i)"
  by (simp add: xor_bytes_def)

lemma xor_eqI: "length a = length b \<Longrightarrow> (\<And>i. i < length a \<Longrightarrow> a ! i = b ! i) \<Longrightarrow> a = (b :: bytes)"
  by (rule nth_equalityI)

lemma xor_assoc: "xor_bytes (xor_bytes a b) c = xor_bytes a (xor_bytes b c)"
  by (rule xor_eqI) (simp_all add: xor.assoc)

lemma xor_comm: "xor_bytes a b = xor_bytes b a"
  by (rule xor_eqI) (simp_all add: xor.commute)

lemma xor_left_comm: "xor_bytes a (xor_bytes b c) = xor_bytes b (xor_bytes a c)"
  by (rule xor_eqI) (simp_all add: xor.left_commute)

lemmas xor_ac = xor_assoc xor_comm xor_left_comm

lemma xor_cancel: "length a = length b \<Longrightarrow> xor_bytes a (xor_bytes a b) = b"
  by (rule xor_eqI) (simp_all flip: xor.assoc)

definition total_xor :: "bytes list \<Rightarrow> bytes" where
  "total_xor ss = fold (\<lambda>share acc. xor_bytes acc share) ss (replicate 48 0)"

lemma xor_zero [simp]: "is_share a \<Longrightarrow> xor_bytes (replicate 48 0) a = a" "is_share a \<Longrightarrow> xor_bytes a (replicate 48 0) = a"
  by (auto intro!: xor_eqI)

lemma length_fold_xor: "\<forall>s \<in> set ss. is_share s \<Longrightarrow> is_share a \<Longrightarrow> is_share (fold (\<lambda>s acc. xor_bytes acc s) ss a)"
  by (induction ss arbitrary: a) auto

lemma is_share_total: "\<forall>s \<in> set ss. is_share s \<Longrightarrow> is_share (total_xor ss)"
  by (simp add: total_xor_def length_fold_xor)

lemma fold_xor:
  "\<forall>s \<in> set ss. is_share s \<Longrightarrow> is_share a \<Longrightarrow> fold (\<lambda>s acc. xor_bytes acc s) ss a = xor_bytes a (total_xor ss)"
proof (induction ss arbitrary: a)
  case (Cons s ss)
  then have s: "is_share s" "\<forall>s \<in> set ss. is_share s" by auto
  have "fold (\<lambda>s acc. xor_bytes acc s) (s # ss) b = xor_bytes (xor_bytes b s) (total_xor ss)" if "is_share b" for b
    using Cons.IH [of "xor_bytes b s"] s that by simp
  from this [OF Cons.prems(2)] this [of "replicate 48 0"] s(1) show ?case
    by (simp add: total_xor_def xor_assoc)
qed (simp add: total_xor_def)

lemma total_append:
  "\<forall>s \<in> set as \<union> set bs. is_share s \<Longrightarrow> total_xor (as @ bs) = xor_bytes (total_xor as) (total_xor bs)"
  using fold_xor [of bs "total_xor as"] is_share_total [of as] by (simp add: total_xor_def)

lemma total_single [simp]: "is_share s \<Longrightarrow> total_xor [s] = s"
  by (simp add: total_xor_def)

section \<open>Splitting and reconstructing\<close>

definition shares_of :: "bytes list \<Rightarrow> bytes \<Rightarrow> bytes list" where
  "shares_of rs secret = rs @ [fold (\<lambda>share acc. xor_bytes acc share) rs secret]"

definition randoms :: "bytes list \<Rightarrow> bool" where
  "randoms rs \<longleftrightarrow> length rs = 6 \<and> (\<forall>r \<in> set rs. is_share r)"

lemma split_shares: "is_share secret \<Longrightarrow> split_seven rs secret = Inr (shares_of rs secret)"
  by (simp add: split_seven_def shares_of_def)

lemma shares_ok: "randoms rs \<Longrightarrow> is_share s \<Longrightarrow> length (shares_of rs s) = 7 \<and> (\<forall>x \<in> set (shares_of rs s). is_share x)"
  by (auto simp: shares_of_def randoms_def length_fold_xor)

lemma total_shares: "randoms rs \<Longrightarrow> is_share s \<Longrightarrow> total_xor (shares_of rs s) = s"
proof -
  assume rs: "randoms rs" "is_share s"
  then have r: "\<forall>r \<in> set rs. is_share r" by (simp add: randoms_def)
  have l: "fold (\<lambda>share acc. xor_bytes acc share) rs s = xor_bytes s (total_xor rs)" by (rule fold_xor [OF r rs(2)])
  have "is_share (xor_bytes s (total_xor rs))" using is_share_total [OF r] rs by simp
  then have "total_xor (shares_of rs s) = xor_bytes (total_xor rs) (xor_bytes s (total_xor rs))"
    using r by (simp add: shares_of_def l total_append)
  also have "\<dots> = s" using xor_cancel [of "total_xor rs" s] is_share_total [OF r] rs by (simp add: xor_comm)
  finally show ?thesis .
qed

lemma shares_unique:
  assumes "length ss = 7" and "\<forall>x \<in> set ss. is_share x" and "total_xor ss = s"
  shows "shares_of (take 6 ss) s = ss" and "randoms (take 6 ss)"
proof -
  have ss: "ss = take 6 ss @ [ss ! 6]" using assms(1) take_Suc_conv_app_nth [of 6 ss] by simp
  have r: "\<forall>x \<in> set (take 6 ss). is_share x" using assms(2) by (meson in_set_takeD)
  have x: "is_share (ss ! 6)" using assms by simp
  then show rs: "randoms (take 6 ss)" using r assms(1) by (simp add: randoms_def)
  have s: "s = xor_bytes (total_xor (take 6 ss)) (ss ! 6)"
    using total_append [of "take 6 ss" "[ss ! 6]"] r x ss assms(3) by simp
  have t: "is_share (total_xor (take 6 ss))" by (rule is_share_total [OF r])
  have "fold (\<lambda>share acc. xor_bytes acc share) (take 6 ss) s = xor_bytes s (total_xor (take 6 ss))"
    using s t x by (intro fold_xor [OF r]) simp
  also have "\<dots> = ss ! 6" using xor_cancel [of "total_xor (take 6 ss)" "ss ! 6"] t x by (simp add: s xor_comm)
  finally show "shares_of (take 6 ss) s = ss" using ss by (simp add: shares_of_def)
qed

lemma total_update:
  assumes "i < length ss" and "\<forall>x \<in> set ss. is_share x" and "is_share y"
  shows "xor_bytes (total_xor (ss[i := y])) y = xor_bytes (total_xor ss) (ss ! i)"
proof -
  let ?a = "take i ss" and ?b = "drop (Suc i) ss"
  have ab: "\<forall>x \<in> set ?a. is_share x" "\<forall>x \<in> set ?b. is_share x" "is_share (ss ! i)"
    using assms by (auto dest: in_set_takeD in_set_dropD)
  have tot: "total_xor (?a @ z # ?b) = xor_bytes (total_xor ?a) (xor_bytes z (total_xor ?b))" if "is_share z" for z
  proof -
    have m: "\<forall>s \<in> set ?a \<union> set ([z] @ ?b). is_share s" "\<forall>s \<in> set [z] \<union> set ?b. is_share s"
      using ab that by auto
    show ?thesis using total_append [OF m(1)] total_append [OF m(2)] that by simp
  qed
  have eq: "xor_bytes (total_xor (?a @ z # ?b)) z = xor_bytes (total_xor ?a) (total_xor ?b)" if "is_share z" for z
  proof -
    have "xor_bytes (xor_bytes A (xor_bytes z B)) z = xor_bytes z (xor_bytes z (xor_bytes A B))" for A B
      by (simp only: xor_ac)
    then show ?thesis using tot [OF that] that is_share_total [OF ab(1)] is_share_total [OF ab(2)]
      by (simp add: xor_cancel)
  qed
  show ?thesis using eq [OF assms(3)] eq [OF ab(3)] assms(1)
    by (simp add: upd_conv_take_nth_drop id_take_nth_drop [symmetric])
qed

text \<open>Whatever the secret is, there is exactly one choice of the random shares that leaves six shares as they are.\<close>

lemma six_shares_fit:
  assumes "randoms rs" and "is_share s" and "is_share s'" and "i < 7"
  shows "\<exists>!rs'. randoms rs' \<and> (\<forall>j < 7. j \<noteq> i \<longrightarrow> shares_of rs' s' ! j = shares_of rs s ! j)"
proof -
  let ?L = "shares_of rs s"
  have L: "length ?L = 7" "\<forall>x \<in> set ?L. is_share x" "total_xor ?L = s"
    using shares_ok [OF assms(1,2)] total_shares [OF assms(1,2)] by blast+
  define y where "y = xor_bytes (?L ! i) (xor_bytes s s')"
  have Li: "is_share (?L ! i)" using L assms(4) by simp
  then have y: "is_share y" using assms by (simp add: y_def)
  let ?M = "?L[i := y]"
  have M: "length ?M = 7" "\<forall>x \<in> set ?M. is_share x"
  proof -
    show "length ?M = 7" by (simp add: L(1))
    show "\<forall>x \<in> set ?M. is_share x" using L(2) y set_update_subset_insert [of ?L i y] by blast
  qed
  have tot: "total_xor ?M = s'"
  proof -
    have tM: "is_share (total_xor ?M)" by (rule is_share_total [OF M(2)])
    have "xor_bytes (total_xor ?M) y = xor_bytes s (?L ! i)" using total_update [of i ?L y] L y assms(4) by simp
    then have "xor_bytes y (xor_bytes y (total_xor ?M)) = xor_bytes y (xor_bytes s (?L ! i))" by (simp add: xor_comm)
    then have "total_xor ?M = xor_bytes y (xor_bytes s (?L ! i))" using tM y by (simp add: xor_cancel)
    also have "\<dots> = xor_bytes (?L ! i) (xor_bytes (?L ! i) (xor_bytes s (xor_bytes s s')))"
      unfolding y_def by (simp only: xor_ac)
    also have "\<dots> = s'" using Li assms by (simp add: xor_cancel)
    finally show ?thesis .
  qed
  show ?thesis
  proof (rule ex1I [of _ "take 6 ?M"])
    show "randoms (take 6 ?M) \<and> (\<forall>j < 7. j \<noteq> i \<longrightarrow> shares_of (take 6 ?M) s' ! j = ?L ! j)"
      unfolding shares_unique(1) [OF M tot] using shares_unique(2) [OF M tot] by (blast intro: nth_list_update_neq)
  next
    fix rs' assume rs': "randoms rs' \<and> (\<forall>j < 7. j \<noteq> i \<longrightarrow> shares_of rs' s' ! j = ?L ! j)"
    let ?N = "shares_of rs' s'"
    have N: "length ?N = 7" "\<forall>x \<in> set ?N. is_share x" "total_xor ?N = s'"
      using shares_ok [OF conjunct1 [OF rs'] assms(3)] total_shares [OF conjunct1 [OF rs'] assms(3)] by blast+
    have NM: "?N = ?M[i := ?N ! i]"
    proof (rule nth_equalityI)
      show "length ?N = length (?M[i := ?N ! i])" using N(1) L(1) by simp
      fix j assume "j < length ?N"
      then have j: "j < 7" using N(1) by simp
      show "?N ! j = ?M[i := ?N ! i] ! j" using rs' j L(1) by (cases "j = i") simp_all
    qed
    have Ni: "is_share (?N ! i)" using N assms(4) by simp
    have "total_xor (?M[i := ?N ! i]) = s'" using arg_cong [OF NM, of total_xor] N(3) by (rule trans [OF sym])
    then have "xor_bytes s' (?N ! i) = xor_bytes s' (?M ! i)"
      using total_update [of i ?M "?N ! i"] M Ni tot assms(4) by simp
    then have "xor_bytes s' (xor_bytes s' (?N ! i)) = xor_bytes s' (xor_bytes s' (?M ! i))" by (rule arg_cong)
    then have same: "?N ! i = ?M ! i" using Ni y L assms by (simp add: xor_cancel)
    have "?M[i := ?N ! i] = ?M" unfolding same by (rule list_update_id)
    with NM have "?N = ?M" by (rule trans)
    then have "take 6 ?N = take 6 ?M" by simp
    then show "rs' = take 6 ?M" using rs' by (simp add: shares_of_def randoms_def)
  qed
qed

section \<open>Scattering and collecting\<close>

lemma unseal_seal: "gcm_ok env \<Longrightarrow> length n = 12 \<Longrightarrow> unseal env (seal env n p key aad) key aad = Some p"
  by (simp add: unseal_def seal_def b64_decode_encode gcm_ok_def Let_def)

lemma sealed_of_json: "sealed_of (sealed_json v) = Some v"
  by (simp add: sealed_of_def sealed_json_def required_def field_def as_string_def)

lemma unseal_text_seal:
  "gcm_ok env \<Longrightarrow> json_ok env \<Longrightarrow> length n = 12 \<Longrightarrow>
     unseal_text env (json_text env (sealed_json (seal env n p key aad))) key aad = Some p"
  by (simp add: unseal_text_def json_ok_def sealed_of_json unseal_seal)

definition placed :: "bytes option \<Rightarrow> bytes list \<Rightarrow> bytes list" where
  "placed ext ss = (case ext of None \<Rightarrow> ss | Some e \<Rightarrow> ss[5 := xor_bytes (ss ! 5) (xor_bytes (ss ! 6) e), 6 := e])"

lemma place_external_placed: "(\<forall>e. ext = Some e \<longrightarrow> is_share e) \<Longrightarrow> place_external ext ss = Inr (placed ext ss)"
  by (cases ext) (simp_all add: place_external_def placed_def)

lemma placed_ok:
  assumes "length ss = 7" and "\<forall>x \<in> set ss. is_share x" and "\<forall>e. ext = Some e \<longrightarrow> is_share e"
  shows "length (placed ext ss) = 7 \<and> (\<forall>x \<in> set (placed ext ss). is_share x) \<and> total_xor (placed ext ss) = total_xor ss"
proof (cases ext)
  case None
  with assms show ?thesis by (simp add: placed_def)
next
  case (Some e)
  have e: "is_share e" and s5: "is_share (ss ! 5)" and s6: "is_share (ss ! 6)" using assms Some by auto
  let ?f = "xor_bytes (ss ! 5) (xor_bytes (ss ! 6) e)"
  let ?A = "ss[5 := ?f]"
  have A: "length ?A = 7" "?A ! 6 = ss ! 6" using assms(1) by simp_all
  have f: "is_share ?f" using e s5 s6 by simp
  have Ash: "\<forall>x \<in> set ?A. is_share x" using assms(2) f set_update_subset_insert [of ss 5 ?f] by blast
  have B: "\<forall>x \<in> set (?A[6 := e]). is_share x" using Ash e set_update_subset_insert [of ?A 6 e] by blast
  let ?t = "total_xor (?A[6 := e])"
  have t: "is_share ?t" "is_share (total_xor ss)" "is_share (total_xor ?A)"
    by (rule is_share_total, rule B, rule is_share_total, rule assms(2), rule is_share_total, rule Ash)
  have 1: "xor_bytes ?t e = xor_bytes (total_xor ?A) (ss ! 6)" using total_update [of 6 ?A e] A Ash e by simp
  have 2: "xor_bytes (total_xor ?A) ?f = xor_bytes (total_xor ss) (ss ! 5)"
    using total_update [of 5 ss ?f] assms f by simp
  have fold_back: "xor_bytes (xor_bytes x y) y = x" if "is_share x" "is_share y" for x y
    using xor_cancel [of y x] that by (simp only: xor_comm)
  have "total_xor ?A = xor_bytes (xor_bytes (total_xor ss) (ss ! 5)) ?f" using fold_back [OF t(3) f] 2 by simp
  then have "xor_bytes (total_xor ?A) (ss ! 6) =
      xor_bytes (ss ! 5) (xor_bytes (ss ! 5) (xor_bytes (ss ! 6) (xor_bytes (ss ! 6) (xor_bytes (total_xor ss) e))))"
    by (simp only: xor_ac)
  then have "xor_bytes ?t e = xor_bytes (total_xor ss) e" using 1 s5 s6 t(2) e by (simp add: xor_cancel)
  then have "xor_bytes (xor_bytes ?t e) e = xor_bytes (xor_bytes (total_xor ss) e) e" by (rule arg_cong)
  then have "?t = total_xor ss" using fold_back [OF t(1) e] fold_back [OF t(2) e] by simp
  with B A show ?thesis by (simp add: placed_def Some)
qed

definition scatter_ok :: "scatter_draw \<Rightarrow> bytes \<Rightarrow> bytes option \<Rightarrow> bool" where
  "scatter_ok d secret ext \<longleftrightarrow> randoms (sc_shares d) \<and> length (sc_nonce3 d) = 12 \<and> length (sc_nonce6 d) = 12 \<and>
     length (sc_nonce7 d) = 12 \<and> is_share secret \<and> (case ext of None \<Rightarrow> True | Some e \<Rightarrow> is_share e)"

lemma seven_nths: "length ss = 7 \<Longrightarrow> ss = [ss ! 0, ss ! 1, ss ! 2, ss ! 3, ss ! 4, ss ! 5, ss ! 6]"
  by (rule nth_equalityI) (auto simp: less_Suc_eq numeral_eq_Suc)

lemma read_scattered:
  assumes "gcm_ok env" and "json_ok env" and "cipher_ok opens" and "scatter_ok d secret ext"
    and ss: "length ss = 7" "\<forall>x \<in> set ss. is_share x"
    and placing: "try_then (split_seven (sc_shares d) secret) (place_external ext) = Inr ss"
    and run: "scatter env d secret m backup ext h = (h', Inr r)"
  shows "read_shares env opens (Some (st_client r)) (Some (st_fragment7 r)) m backup h' = map Some ss"
    and "st_hashes r = map (shard_digest env) ss"
proof -
  have h': "h' = h\<lparr>hx_f1 := Some (ss ! 0), hx_meta := Some (Some (meta_key env backup), Some (ss ! 1)),
             hx_f3 := Some (json_text env (sealed_json (seal env (sc_nonce3 d) (ss ! 2) backup ''cp-shard3-v1''))),
             hx_f4 := Some (ss ! 3),
             hx_f6 := Some (json_text env (sealed_json (seal env (sc_nonce6 d) (ss ! 5) m ''cp-shard6-v1''))),
             hx_session := Some (ss ! 5)\<rparr>"
    and r: "r = \<lparr>st_client = b64_encode (ss ! 4),
             st_fragment7 = json_text env (sealed_json (seal env (sc_nonce7 d) (ss ! 6) backup ''cp-shard7-v1'')),
             st_hashes = map (shard_digest env) ss\<rparr>"
    using run placing by (simp_all add: scatter_def)
  show "st_hashes r = map (shard_digest env) ss" by (simp add: r)
  have "ss ! 4 \<in> set ss" using ss by simp
  then have "ss ! 4 \<noteq> []" using ss(2) by force
  then have client: "b64_encode (ss ! 4) \<noteq> []" using b64_decode_encode [of "ss ! 4"] by (auto simp: b64_decode_def)
  have "opens (meta_key env backup) (meta_key env backup)" using assms(3) by (simp add: cipher_ok_def)
  then have meta: "metadata env opens backup h' = Some (Some (meta_key env backup), Some (ss ! 1))"
    by (simp add: metadata_def h')
  have nonces: "length (sc_nonce3 d) = 12" "length (sc_nonce6 d) = 12" "length (sc_nonce7 d) = 12"
    using assms(4) by (simp_all add: scatter_ok_def)
  have "read_shares env opens (Some (st_client r)) (Some (st_fragment7 r)) m backup h' =
      map Some [ss ! 0, ss ! 1, ss ! 2, ss ! 3, ss ! 4, ss ! 5, ss ! 6]"
    unfolding read_shares_def meta
    using client nonces assms(1,2) by (simp add: h' r unseal_text_seal b64_decode_encode)
  with seven_nths [OF ss(1)] show "read_shares env opens (Some (st_client r)) (Some (st_fragment7 r)) m backup h' = map Some ss"
    by simp
qed

lemma collect_scattered:
  assumes "gcm_ok env" and "json_ok env" and "cipher_ok opens" and "scatter_ok d secret ext"
    and "scatter env d secret m backup ext h = (h', Inr r)"
  shows "snd (collect env opens (Some (st_client r)) (Some (st_fragment7 r)) m backup (st_hashes r) h') = Inr secret"
proof -
  have ok: "randoms (sc_shares d)" "is_share secret" "\<forall>e. ext = Some e \<longrightarrow> is_share e"
    using assms(4) by (auto simp: scatter_ok_def split: option.splits)
  let ?ss = "placed ext (shares_of (sc_shares d) secret)"
  note s7 = shares_ok [OF ok(1,2)]
  note p7 = placed_ok [OF conjunct1 [OF s7] conjunct2 [OF s7] ok(3)]
  have split: "try_then (split_seven (sc_shares d) secret) (place_external ext) = Inr ?ss"
    using place_external_placed [OF ok(3)] by (simp add: split_shares ok(2))
  have ss: "length ?ss = 7" "\<forall>x \<in> set ?ss. is_share x" "total_xor ?ss = secret"
    using p7 total_shares [OF ok(1,2)] by simp_all
  note rd = read_scattered [OF assms(1-4) ss(1,2) split assms(5)]
  have "\<forall>i < 7. share_ok env (st_hashes r) i (map Some ?ss ! i)"
    using ss(1,2) by (simp add: share_ok_def rd(2))
  moreover have "\<not> list_ex (\<lambda>s. case s of None \<Rightarrow> True | Some b \<Rightarrow> length b \<noteq> 48) (map Some ?ss)"
    using ss(2) by (simp add: list_ex_iff)
  then have "reconstruct_seven (map Some ?ss) = Inr secret"
    using ss(1,3) by (simp add: reconstruct_seven_def total_xor_def comp_def)
  ultimately show ?thesis unfolding collect_def Let_def rd(1) by simp
qed

section \<open>Files\<close>

lemma sealed_file_seal:
  assumes "gcm_ok env" and "json_ok env" and "length n = 12"
    and "file = header @ utf8 (json_text env (sealed_json (seal env n p key aad)))" and "length file \<le> limit"
  shows "sealed_file env file header limit = Inr (seal env n p key aad)"
proof -
  let ?v = "seal env n p key aad"
  have ne: "json_text env (sealed_json ?v) \<noteq> []" using assms(2) by (simp add: json_ok_def)
  then have long: "length header < length file" by (cases "json_text env (sealed_json ?v)") (auto simp: assms(4) utf8_Cons)
  have v: "length (b64_decode (se_nonce ?v)) = 12" "canonical (se_nonce ?v)" "16 \<le> length (b64_decode (se_ciphertext ?v))"
    "canonical (se_ciphertext ?v)"
    using assms(1,3) by (simp_all add: seal_def b64_decode_encode canonical_def gcm_ok_def)
  have "file_envelope file header limit = Inr (utf8 (json_text env (sealed_json ?v)))"
    using long assms(5) by (simp add: file_envelope_def assms(4))
  then show ?thesis
    using v assms(2) by (simp add: sealed_file_def json_ok_def sealed_of_json)
qed

lemma storage_decodes:
  assumes "gcm_ok env" and "json_ok env" and "length n = 12"
    and "encode_storage env n p capsule keys = Inr file" and "length file \<le> 64 * 1024 * 1024"
  shows "decode_storage env file capsule keys = Inr p"
proof -
  from assms(4) obtain key where key: "storage_key env capsule keys = Inr key"
    and enc: "file = storage_header @ utf8 (json_text env (sealed_json (seal env n p key ''cp-app-storage-v1'')))"
    by (auto simp: encode_storage_def try_then_Inr_iff)
  show ?thesis
    unfolding decode_storage_def key
    by (simp only: try_then_simps sealed_file_seal [OF assms(1,2,3) enc assms(5)])
      (simp add: open_sealed_def unseal_seal assms)
qed

lemma capsule_opens:
  assumes "gcm_ok env" and "json_ok env" and "length n = 12" and "is_share share"
    and "capsule = shard_header @ utf8 (json_text env (sealed_json (seal env n share (vk_backup keys) ''cp-shard7-v1'')))"
    and "length capsule \<le> 2048"
  shows "seventh env capsule keys = Inr share"
  unfolding seventh_def sealed_file_seal [OF assms(1,2,3,5,6)]
  by (simp add: open_sealed_def unseal_seal assms(1,3,4))

lemma backup_decrypts:
  assumes "gcm_ok env" and "length n = 12" and "encrypt_backup env gzip n p key = Inr v"
    and "gunzip (256 * 1024 * 1024) (gzip p) = Some p"
  shows "decrypt_backup env gunzip v key = Some p"
  using assms by (auto simp: encrypt_backup_def decrypt_backup_def unseal_seal Let_def split: if_splits)

end
