(* ===== verification/Daemon_Demo.thy ===== *)
theory Daemon_Demo
  imports Daemon_System Daemon_Shards
begin

text \<open>
  A concrete instance of the library functions that the daemon's model takes as parameters. It satisfies
  the hypotheses of the properties: libsignal writes through its store, AES-GCM decrypts what it
  encrypted, SQLCipher opens a file with its own key, and JSON and UTF-8 texts are read back.
\<close>

section \<open>A text form of JSON values\<close>

fun quote :: "string \<Rightarrow> string" where
  "quote [] = ''.''"
| "quote (c # s) = (if c = CHR ''.'' \<or> c = CHR ''-'' then CHR ''-'' # c # quote s else c # quote s)"

fun unquote :: "string \<Rightarrow> string \<times> string" where
  "unquote [] = ([], [])"
| "unquote [c] = ([], [])"
| "unquote (c # d # s) =
     (if c = CHR ''.'' then ([], d # s)
      else if c = CHR ''-'' then (let (w, r) = unquote s in (d # w, r))
      else (let (w, r) = unquote (d # s) in (c # w, r)))"

lemma unquote_dot [simp]: "unquote (CHR ''.'' # r) = ([], r)"
  by (cases r) auto

lemma unquote_plain: "c \<noteq> CHR ''.'' \<Longrightarrow> c \<noteq> CHR ''-'' \<Longrightarrow> s \<noteq> [] \<Longrightarrow>
    unquote (c # s) = (c # fst (unquote s), snd (unquote s))"
  by (cases s) (auto split: prod.splits)

lemma quote_nonempty [simp]: "quote s \<noteq> []"
  by (cases s) auto

lemma unquote_quote [simp]: "unquote (quote s @ r) = (s, r)"
proof (induction s)
  case (Cons c s)
  show ?case
  proof (cases "c = CHR ''.'' \<or> c = CHR ''-''")
    case False
    then show ?thesis using Cons unquote_plain [of c "quote s @ r"] by simp
  qed (use Cons in auto)
qed simp

definition put_int :: "int \<Rightarrow> string" where
  "put_int n = (if n < 0 then ''-'' else ''+'') @ replicate (nat \<bar>n\<bar>) (CHR ''1'') @ '';''"

fun count_ones :: "string \<Rightarrow> nat \<times> string" where
  "count_ones [] = (0, [])"
| "count_ones (c # s) = (if c = CHR ''1'' then (let (n, r) = count_ones s in (Suc n, r)) else (0, s))"

lemma count_ones_replicate [simp]: "count_ones (replicate n (CHR ''1'') @ CHR '';'' # r) = (n, r)"
  by (induction n) auto

definition get_int :: "string \<Rightarrow> int \<times> string" where
  "get_int s = (case s of [] \<Rightarrow> (0, []) | c # t \<Rightarrow>
     (let (n, r) = count_ones t in (if c = CHR ''-'' then - int n else int n, r)))"

lemma get_put_int [simp]: "get_int (put_int n @ r) = (n, r)"
  by (auto simp: get_int_def put_int_def)

fun put :: "json \<Rightarrow> string" where
  "put JNull = ''n''"
| "put (JBool b) = (if b then ''t'' else ''f'')"
| "put (JInt n) = CHR ''i'' # put_int n"
| "put (JFloat s) = CHR ''x'' # quote s"
| "put (JStr s) = CHR ''s'' # quote s"
| "put (JArr js) = CHR ''['' # concat (map (\<lambda>j. CHR '','' # put j) js) @ '']''"
| "put (JObj kvs) = CHR ''{'' # concat (map (\<lambda>(k, j). CHR '','' # quote k @ put j) kvs) @ ''}''"

fun get :: "nat \<Rightarrow> string \<Rightarrow> (json \<times> string) option"
  and get_elems :: "nat \<Rightarrow> string \<Rightarrow> (json list \<times> string) option"
  and get_fields :: "nat \<Rightarrow> string \<Rightarrow> ((string \<times> json) list \<times> string) option" where
  "get 0 s = None"
| "get (Suc n) [] = None"
| "get (Suc n) (c # s) =
     (if c = CHR ''n'' then Some (JNull, s)
      else if c = CHR ''t'' then Some (JBool True, s)
      else if c = CHR ''f'' then Some (JBool False, s)
      else if c = CHR ''i'' then (let (i, r) = get_int s in Some (JInt i, r))
      else if c = CHR ''x'' then (let (w, r) = unquote s in Some (JFloat w, r))
      else if c = CHR ''s'' then (let (w, r) = unquote s in Some (JStr w, r))
      else if c = CHR ''['' then map_option (\<lambda>(js, r). (JArr js, r)) (get_elems n s)
      else map_option (\<lambda>(kvs, r). (JObj kvs, r)) (get_fields n s))"
| "get_elems 0 s = None"
| "get_elems (Suc n) [] = None"
| "get_elems (Suc n) (c # s) =
     (if c \<noteq> CHR '','' then Some ([], s)
      else Option.bind (get n s) (\<lambda>(j, r). map_option (\<lambda>(js, q). (j # js, q)) (get_elems n r)))"
| "get_fields 0 s = None"
| "get_fields (Suc n) [] = None"
| "get_fields (Suc n) (c # s) =
     (if c \<noteq> CHR '','' then Some ([], s)
      else (let (k, q) = unquote s in
        Option.bind (get n q) (\<lambda>(j, r). map_option (\<lambda>(kvs, q). ((k, j) # kvs, q)) (get_fields n r))))"

text \<open>Enough fuel for a value is the length of its text.\<close>

lemma get_put:
  shows "length (put j) \<le> n \<Longrightarrow> get n (put j @ r) = Some (j, r)"
proof (induction j arbitrary: n r)
  case (JArr js)
  have "length (concat (map (\<lambda>j. CHR '','' # put j) xs)) < n \<Longrightarrow> set xs \<subseteq> set js \<Longrightarrow>
      get_elems n (concat (map (\<lambda>j. CHR '','' # put j) xs) @ CHR '']'' # r) = Some (xs, r)" for xs n
  proof (induction xs arbitrary: n)
    case Nil
    then show ?case by (cases n) auto
  next
    case (Cons x xs)
    obtain k where n: "n = Suc k" using Cons.prems by (cases n) auto
    with Cons JArr.IH [of x k] show ?case by simp
  qed
  from this [of js] JArr.prems show ?case by (cases n) auto
next
  case (JObj kvs)
  have "length (concat (map (\<lambda>(k, j). CHR '','' # quote k @ put j) xs)) < n \<Longrightarrow> set xs \<subseteq> set kvs \<Longrightarrow>
      get_fields n (concat (map (\<lambda>(k, j). CHR '','' # quote k @ put j) xs) @ CHR ''}'' # r) = Some (xs, r)" for xs n
  proof (induction xs arbitrary: n)
    case Nil
    then show ?case by (cases n) auto
  next
    case (Cons x xs)
    obtain k where n: "n = Suc k" using Cons.prems by (cases n) auto
    obtain key j where x: "x = (key, j)" by (cases x)
    with Cons n JObj.IH [of x j k] show ?case by simp
  qed
  from this [of kvs] JObj.prems show ?case by (cases n) auto
next
  case (JBool b)
  then show ?case by (cases n; cases b) auto
next
  case JNull
  then show ?case by (cases n) auto
next
  case (JInt x)
  then show ?case by (cases n) auto
next
  case (JFloat x)
  then show ?case by (cases n) auto
next
  case (JStr x)
  then show ?case by (cases n) auto
qed

definition parse_text :: "string \<Rightarrow> json option" where
  "parse_text s = (case get (length s) s of Some (j, []) \<Rightarrow> Some j | _ \<Rightarrow> None)"

lemma parse_put: "parse_text (put j) = Some j"
  using get_put [of j "length (put j)" "[]"] by (simp add: parse_text_def)

section \<open>UTF-8\<close>

fun decode_utf8 :: "bytes \<Rightarrow> string" where
  "decode_utf8 [] = []"
| "decode_utf8 [b] = [char_of (unat b)]"
| "decode_utf8 (b # c # bs) =
     (if b < 128 then char_of (unat b) # decode_utf8 (c # bs)
      else char_of ((unat b - 192) * 64 + (unat c - 128)) # decode_utf8 bs)"

lemma decode_char: "decode_utf8 (utf8_char c @ bs) = c # decode_utf8 bs"
proof -
  have c: "code c < 256" "char_of (code c) = c" by (simp_all add: code_def)
  have u: "unat (word_of_nat n :: 8 word) = n" if "n < 256" for n
    using that by (simp add: unsigned_of_nat take_bit_nat_eq_self)
  show ?thesis
  proof (cases "code c < 128")
    case True
    then have "(word_of_nat (code c) :: 8 word) < 128" by (simp add: word_less_nat_alt u)
    with True c u [of "code c"] show ?thesis by (cases bs) (simp_all add: utf8_char_def)
  next
    case False
    let ?h = "192 + code c div 64" and ?l = "128 + code c mod 64"
    have "code c div 64 < 64" "code c mod 64 < 64" using c(1) by linarith+
    then have "?h < 256" "?l < 256" by linarith+
    note b = u [OF this(1)] u [OF this(2)]
    have "\<not> (word_of_nat ?h :: 8 word) < 128" by (simp only: word_less_nat_alt b) simp
    moreover have "(?h - 192) * 64 + (?l - 128) = code c" by simp
    ultimately show ?thesis using False b c(2) by (simp add: utf8_char_def del: of_nat_add)
  qed
qed

lemma decode_utf8: "decode_utf8 (utf8 s) = s"
  by (induction s) (simp_all add: utf8_Cons decode_char)

section \<open>The libraries\<close>

definition demo_daemon :: daemon_env where
  "demo_daemon =
     \<lparr>address_text = fst,
      sig_process = (\<lambda>a me b db. (db, Inr ())),
      sig_encrypt = (\<lambda>a me p db. (db, Inr (2, p))),
      sig_decrypt_prekey = (\<lambda>a me c db. (db, Inr c)),
      sig_decrypt = (\<lambda>a me c db. (db, Inr c)),
      sig_fingerprint = (\<lambda>i k j l. replicate 60 (CHR ''0'')),
      key_verify = (\<lambda>k. Some (\<lambda>m s. True)),
      identity_public = (\<lambda>k. k), prekey_public = (\<lambda>k. k), signed_parts = (\<lambda>r. (1, r, r)),
      type_prekey = 3, type_whisper = 2,
      gcm_encrypt = (\<lambda>k n a p. p @ replicate 16 0),
      gcm_decrypt = (\<lambda>k n a c. if length c < 16 then None else Some (take (length c - 16) c)),
      cbc_encrypt = (\<lambda>k i p. p), cbc_decrypt = (\<lambda>k i p. Some p),
      argon2id = (\<lambda>p s m t q. utf8 p @ s), hkdf = (\<lambda>k s c. take 32 (utf8 c @ k @ s @ replicate 32 0)),
      dg_sha256 = (\<lambda>b. take 32 (b @ replicate 32 0)), dg_verify = (\<lambda>k m s. Some True),
      json_parse = parse_text, json_text = put, utf8_text = decode_utf8, is_uuid = (\<lambda>s. s \<noteq> [])\<rparr>"

definition demo_cipher :: cipher where
  "demo_cipher k k' \<longleftrightarrow> k = k'"

lemma demo_libsignal: "libsignal_ok demo_daemon"
  by (simp add: libsignal_ok_def demo_daemon_def calls_refl)

lemma demo_gcm: "gcm_ok demo_daemon"
  by (simp add: gcm_ok_def demo_daemon_def)

lemma demo_json: "json_ok demo_daemon"
proof -
  have "put j \<noteq> []" for j by (cases j) (auto split: if_splits)
  then show ?thesis by (simp add: json_ok_def demo_daemon_def parse_put decode_utf8)
qed

lemma demo_cipher_ok: "cipher_ok demo_cipher"
  by (simp add: cipher_ok_def demo_cipher_def)

end
