(* ===== verification/Daemon_Properties.thy ===== *)
theory Daemon_Properties
  imports Daemon_Demo
begin

text \<open>
  The properties of the local daemon, each with a concrete instance of its hypotheses.
\<close>

section \<open>Messages\<close>

definition demo_contact :: contact where
  "demo_contact = \<lparr>ct_id = ''u'', ct_name = ''ann'', ct_uid = None, ct_identity = [1], ct_verified = False,
     ct_safety = None, ct_changed = False, ct_created = 1\<rparr>"

definition demo_local :: local_db where
  "demo_local = empty_local\<lparr>l_contacts := [demo_contact],
     l_remotes := [\<lparr>rm_contact = ''u'', rm_user = ''u'', rm_device = ''d'', rm_signal = 1\<rparr>],
     l_conversations := [\<lparr>co_id = ''v'', co_contact = ''u'', co_timer = None, co_created = 1\<rparr>],
     l_account := Some \<lparr>sa_identity = [9], sa_registration = 1, sa_user = Some ''me'', sa_device = ''e'', sa_created = 1\<rparr>\<rparr>"


definition demo_send :: send_draw where
  "demo_send = \<lparr>sd_message = ''m'', sd_envelope = [7], sd_iv = [], sd_clock = (\<lambda>_. 5)\<rparr>"





text \<open>
  A flush offers the queued messages to the relay in the order of their creation and stops at the
  first that it does not accept. Exactly the accepted ones leave the outbox, and exactly their messages
  get the status \<open>sent\<close>; everything else stays as it is.
\<close>

theorem flush_in_order:
  "flush_outbox post now db =
     (let queue = queued_outgoing now db; taken = takeWhile post queue
      in (db\<lparr>l_messages := map (\<lambda>m. if lm_id m \<in> og_message ` set taken then m\<lparr>lm_status := ''sent''\<rparr> else m) (l_messages db),
             l_outbox := filter (\<lambda>x. og_envelope x \<notin> og_envelope ` set taken) (l_outbox db)\<rparr>,
          taken @ take 1 (dropWhile post queue), length taken)) \<and>
   sorted (map og_created (queued_outgoing now db))"
  unfolding flush_settles accepted_def settle_def Let_def by (simp add: queued_outgoing_def)



definition demo_bundle :: fetched_bundle where
  "demo_bundle = \<lparr>fb_user = ''u'', fb_device = ''d'', fb_signal = 1, fb_registration = 1, fb_name = Some ''ann'',
     fb_uid = None, fb_identity = [], fb_signed = (1, [], []), fb_one_time = None, fb_pq_one_time = None,
     fb_pq_last = (1, [], [])\<rparr>"

definition demo_identity :: fresh_identity where
  "demo_identity = \<lparr>fi_identity = [9], fi_registration = 1, fi_device = ''e'', fi_auth_private = [], fi_auth_public = [],
     fi_signed = [3], fi_one_time = (\<lambda>_. [4]), fi_kyber = (\<lambda>_. [5])\<rparr>"

definition demo_created :: local_db where
  "demo_created = empty_local\<lparr>
     l_account := Some \<lparr>sa_identity = [9], sa_registration = 1, sa_user = None, sa_device = ''e'', sa_created = 1\<rparr>,
     l_auth_key := Some ([], []), l_signed_prekeys := [(1, [3])], l_prekeys := map (\<lambda>i. (i, [4])) [1..100],
     l_kyber_prekeys := (1, [5]) # map (\<lambda>i. (i, [5])) [2..101]\<rparr>"

definition demo_registration :: registration where
  "demo_registration = \<lparr>rg_user = ''me'', rg_device = ''e'', rg_name = ''bob'', rg_token = ''t'', rg_uid = None\<rparr>"

definition demo_registered :: local_db where
  "demo_registered = projr (complete_registration 2 demo_registration demo_created)"

definition demo_added :: local_db where
  "demo_added = fst (fst (add_contact demo_daemon ''v'' (\<lambda>_. 3) (Some demo_bundle) ''ann'' (demo_registered, [] :: typing)))"

lemma ends_run: "ends m db (fst (fst (m (db, x))))"
  unfolding ends_def by (metis surj_pair fst_conv)

lemma demo_created_ok: "\<exists>b. ensure_identity demo_daemon demo_identity 1 empty_local = Inr (demo_created, b)"
  unfolding ensure_identity_def create_identity_def published_def demo_created_def
  by (simp add: empty_local_def demo_identity_def store_account_def get_signed_prekey_def get_kyber_prekey_def get_key_def
      del: upto_rec_numeral)

lemma demo_registered_ok: "complete_registration 2 demo_registration demo_created = Inr demo_registered"
  by (simp add: demo_registered_def complete_registration_def store_account_def demo_created_def demo_registration_def
      Let_def set_account_def empty_local_def del: upto_rec_numeral)

lemma demo_added_reach: "daemon_reach demo_daemon demo_added"
proof -
  have "daemon_reach demo_daemon demo_created"
    using demo_created_ok by (blast intro: daemon_reach.step [OF daemon_reach.empty] daemon_step.quiet quiet_step.identity)
  then have "daemon_reach demo_daemon demo_registered"
    by (rule daemon_reach.step) (rule daemon_step.quiet [OF quiet_step.registration [OF demo_registered_ok]])
  then show ?thesis
    unfolding demo_added_def by (rule daemon_reach.step) (rule daemon_step.add [OF ends_run])
qed

definition demo_payload :: json where
  "demo_payload = JObj [(''type'', JStr ''text''), (''text'', JStr ''yo'')]"

definition demo_envelope :: json where
  "demo_envelope = JObj [(''version'', JInt 1), (''envelopeId'', JStr ''i''), (''senderId'', JStr ''d''),
     (''ciphertext'', JStr (b64_encode (2 # utf8 (put demo_payload))))]"

definition demo_draw :: sync_draw where
  "demo_draw = \<lparr>sy_conversation = ''v'', sy_message = ''n'', sy_control = [8], sy_iv = [], sy_clock = (\<lambda>_. 6)\<rparr>"

definition demo_synced :: "(local_db \<times> typing) \<times> (string + string list \<times> nat)" where
  "demo_synced = sync_messages demo_daemon [] (\<lambda>_. None) (\<lambda>_. demo_draw) [demo_envelope, demo_envelope] None (demo_added, [])"


text \<open>
  A synchronisation acknowledges to the relay only envelopes that are recorded as seen in the
  database, and it forgets none that was seen before.
\<close>

theorem acks_recorded:
  assumes "libsignal_ok env" and "daemon_reach env db"
    and "sync_messages env key answer draws pushed pending (db, x) = ((db', x'), Inr (acks, n))"
  shows "(\<forall>i \<in> set acks. seen i db') \<and> (\<forall>i. seen i db \<longrightarrow> seen i db')"
proof -
  have ok: "inbox_ok (inbox db)" using daemon_reach_ok [OF assms(2,1)] by blast
  obtain js where "sync_list env key answer draws 0 js (db, x) = ((db', x'), Inr (acks, n))"
    using assms(3) by (auto simp: sync_messages_def bind_op_def value_of_def split: sum.splits)
  from sync_list_once [OF assms(1) ok this] show ?thesis by (auto intro: seen_grows)
qed

definition demo_known :: local_db where
  "demo_known = demo_created\<lparr>
     l_account := Some \<lparr>sa_identity = [9], sa_registration = 1, sa_user = Some ''me'', sa_device = ''e'', sa_created = 1\<rparr>,
     l_relay_token := Some ''t'',
     l_contacts := [\<lparr>ct_id = ''u'', ct_name = ''ann'', ct_uid = None, ct_identity = [], ct_verified = False,
       ct_safety = Some (replicate 60 (CHR ''0'')), ct_changed = False, ct_created = 3\<rparr>],
     l_remotes := [\<lparr>rm_contact = ''u'', rm_user = ''u'', rm_device = ''d'', rm_signal = 1\<rparr>],
     l_conversations := [\<lparr>co_id = ''v'', co_contact = ''u'', co_timer = None, co_created = 3\<rparr>]\<rparr>"

lemma demo_registered_eq: "demo_registered = demo_created\<lparr>
     l_account := Some \<lparr>sa_identity = [9], sa_registration = 1, sa_user = Some ''me'', sa_device = ''e'', sa_created = 1\<rparr>,
     l_relay_token := Some ''t''\<rparr>"
  by (simp add: demo_registered_def complete_registration_def store_account_def demo_registration_def
      Let_def set_account_def demo_created_def empty_local_def del: upto_rec_numeral)

lemma demo_created_fields [simp]:
  "l_contacts demo_created = []" "l_remotes demo_created = []" "l_conversations demo_created = []"
  "l_messages demo_created = []" "l_seen demo_created = []" "l_ratchets demo_created = []"
  "l_peer_profiles demo_created = []" "l_links demo_created = []"
  by (simp_all add: demo_created_def empty_local_def)

lemma demo_added_eq: "demo_added = demo_known"
  by (simp add: demo_added_def add_contact_def adopt_bundle_def establish_session_def bind_op_def op_defs
      demo_registered_eq demo_bundle_def demo_daemon_def local_address_def store_account_def save_identity_def
      key_bundle_of_def parts_b64_def b64_decode_def upsert_remote_def upsert_def safety_number_def
      find_contact_def has_contact_def has_row_def insert_conversation_def find_or_create_conversation_def
      update_contact_def update_where_def identity_key_pair_def get_identity_def demo_known_def Let_def)

definition demo_text :: string where
  "demo_text = put demo_payload"

lemma demo_text_parsed: "parse_text (decode_utf8 (utf8 demo_text)) = Some demo_payload"
  by (simp add: demo_text_def parse_put decode_utf8)

lemma demo_envelope_parsed:
  "incoming_of demo_envelope = Some \<lparr>ic_id = ''i'', ic_sender = ''d'', ic_ciphertext = b64_encode (2 # utf8 demo_text)\<rparr>"
proof -
  have "b64_encode (2 # utf8 demo_text) \<noteq> []" using b64_decode_encode [of "2 # utf8 demo_text"] by (auto simp: b64_decode_def)
  then show ?thesis
    by (simp add: incoming_of_def demo_envelope_def field_def required_def as_string_def nonempty_string_def string_where_def
        must_def flip: demo_text_def)
qed

lemma demo_synced_result: "snd demo_synced = Inr ([''i'', ''i''], 1)"
  by (simp add: demo_synced_def sync_messages_def bind_op_def op_defs demo_envelope_parsed sync_envelope_def seen_def
      resolve_sender_def contact_changed_def catch_op_def in_tx_def receive_payload_def decrypt_payload_def
      demo_added_eq demo_known_def has_row_def b64_decode_encode demo_daemon_def demo_text_parsed demo_payload_def Let_def
      local_address_def store_account_def find_or_create_conversation_def find_contact_def field_def
      save_profile_def peer_profile_of_def receive_text_def received_text_def truthy_def
      insert_message_def has_message_def remember_seen_def insert_ignore_def demo_draw_def required_def)

theorem acks_recorded_witness: "seen ''i'' (fst (fst demo_synced))"
proof -
  have "sync_messages demo_daemon [] (\<lambda>_. None) (\<lambda>_. demo_draw) [demo_envelope, demo_envelope] None (demo_added, []) =
      ((fst (fst demo_synced), snd (fst demo_synced)), Inr ([''i'', ''i''], 1))"
    unfolding demo_synced_result [symmetric] by (simp add: demo_synced_def)
  from acks_recorded [OF demo_libsignal demo_added_reach this] show ?thesis by simp
qed

text \<open>
  C22. A contact's identity key is pinned on first use: over any run of the daemon in which no contact is
  added by hand, whatever libsignal does, the contact keeps its key or is marked as changed, and a mark
  stays. A message to a marked contact is refused, and the refusal changes nothing.
\<close>

theorem identity_pinned:
  assumes "libsignal_ok env" and "(quiet_step env)\<^sup>*\<^sup>* db db'" and "find_contact c db = Some x"
  shows "\<exists>y. find_contact c db' = Some y \<and> (ct_identity y = ct_identity x \<or> ct_changed y) \<and>
    (ct_changed x \<longrightarrow> ct_changed y) \<and>
    (\<forall>conv v rm. ct_changed y \<and> conversation_peer conv db' = Some (v, rm, y) \<longrightarrow>
      (\<exists>e. send_message_local env root key d post routing conv body j (db', m) = ((db', m), Inl e)))"
proof -
  have "pinned c (ct_identity x) (ct_changed x) db" using assms(3) by (simp add: pinned_def)
  with assms(2) have "pinned c (ct_identity x) (ct_changed x) db'"
    by (induction rule: rtranclp_induct) (auto intro: pinned_quiet [OF _ assms(1)])
  moreover have "\<exists>e. send_message_local env root key d post routing conv body j (db', m) = ((db', m), Inl e)"
    if "ct_changed y" "conversation_peer conv db' = Some (v, rm, y)" for conv v rm y
    using that by (auto simp: send_message_local_def bind_op_def op_defs split: option.split sum.split)
  ultimately show ?thesis by (auto simp: pinned_def split: option.splits)
qed

theorem identity_pinned_witness:
  "\<exists>y. find_contact ''u'' (fst (fst demo_synced)) = Some y \<and> (ct_identity y = [] \<or> ct_changed y)"
proof -
  have one: "(quiet_step demo_daemon)\<^sup>*\<^sup>* demo_added (fst (fst demo_synced))"
    unfolding demo_synced_def by (rule r_into_rtranclp) (rule quiet_step.sync [OF ends_run])
  obtain x where x: "find_contact ''u'' demo_added = Some x" "ct_identity x = []"
    by (simp add: demo_added_eq demo_known_def find_contact_def)
  from identity_pinned [OF demo_libsignal one x(1), where root = "[]" and key = "[]" and d = demo_send
      and post = "\<lambda>_. False" and routing = False and body = "[]" and j = None and m = "[] :: typing"]
  show ?thesis unfolding x(2) by blast
qed

section \<open>Attachments\<close>

lemma download_uploaded:
  assumes "gcm_ok env" and "json_ok env"
    and "length (ud_id d) = 16" and "length (ud_key d) = 32" and "\<forall>i. length (ud_nonce d i) = 12"
    and "is_uuid env (ud_blob d)" and "\<forall>bs. length (dg_sha256 env bs) = 32"
    and "length p \<le> 26214400" and "sanitize_filename name \<noteq> []" and "length mime \<le> 255"
    and "has_row (\<lambda>a. at_id a = hex_encode (ud_id d) \<and> at_message a = msg) (l_attachments db)"
  shows "let m = upload_manifest env p name mime d; path = root @ ''/attachments/'' @ mf_id m;
      r = download_and_decrypt env root key nonce (uploaded_chunk (upload_requests env p d)) m msg (fs, db)
    in snd r = Inr p \<and> attachment_stored path (mf_id m) msg db = Inr (snd (fst r)) \<and>
      (\<exists>raw. map_get (fst (fst r)) path = Some raw \<and> read_cache env key (mf_id m) raw = Inr p)"
proof -
  let ?m = "upload_manifest env p name mime d"
  define path where "path = root @ ''/attachments/'' @ mf_id ?m"
  have ok: "manifest_ok (is_uuid env) ?m" using upload_manifest_ok assms by blast
  then have parse: "manifest_schema (is_uuid env) (manifest_json ?m) = Some ?m" by (rule manifest_schema_json)
  have path: "attachment_path root (mf_id ?m) = Inr path"
    using ok by (simp add: attachment_path_def manifest_ok_def path_def)
  have got: "try_then (fetch_all env ?m (uploaded_chunk (upload_requests env p d))) (check_file env ?m) = Inr p"
    using fetch_all_uploaded [OF assms(1,3), of p name mime]
    by (simp add: check_file_def upload_manifest_def)
  obtain fs' where cached: "cache_attachment env root key nonce (mf_id ?m) p fs = Inr fs'"
    by (simp add: cache_attachment_def path)
  obtain db' where stored: "attachment_stored path (mf_id ?m) msg db = Inr db'"
    using assms(11) by (simp add: attachment_stored_def upload_manifest_def)
  have run: "download_and_decrypt env root key nonce (uploaded_chunk (upload_requests env p d)) ?m msg (fs, db) = ((fs', db'), Inr p)"
    by (simp add: download_and_decrypt_def parse got path cached stored)
  show ?thesis
    unfolding Let_def run path_def [symmetric]
    using stored cache_roundtrip [OF assms(1,2) cached] by (simp add: path_def)
qed

definition demo_upload :: upload_draw where
  "demo_upload = \<lparr>ud_id = replicate 16 0, ud_key = replicate 32 1, ud_blob = ''b'', ud_nonce = (\<lambda>_. replicate 12 2), ud_cache = []\<rparr>"

definition demo_file_row :: local_attachment where
  "demo_file_row = \<lparr>at_id = hex_encode (replicate 16 0), at_message = ''n'', at_path = None, at_name = [], at_size = 3,
     at_hash = [], at_key = []\<rparr>"

lemma demo_upload_ok:
  "length (ud_id demo_upload) = 16" "length (ud_key demo_upload) = 32"
  "\<forall>i. length (ud_nonce demo_upload i) = 12" "is_uuid demo_daemon (ud_blob demo_upload)"
  "\<forall>bs. length (dg_sha256 demo_daemon bs) = 32" "length [1, 2, 3 :: 8 word] \<le> 26214400"
  "sanitize_filename ''f'' \<noteq> []" "length ''t'' \<le> 255"
  "has_row (\<lambda>a. at_id a = hex_encode (ud_id demo_upload) \<and> at_message a = ''n'')
    (l_attachments (demo_known\<lparr>l_attachments := [demo_file_row]\<rparr>))"
  by (simp_all add: demo_upload_def demo_daemon_def min_def sanitize_filename_def sanitize_char_def has_row_def demo_file_row_def)

abbreviation demo_download :: "(files \<times> local_db) \<times> (string + bytes)" where
  "demo_download \<equiv> download_and_decrypt demo_daemon ''r'' [] [] (uploaded_chunk (upload_requests demo_daemon [1, 2, 3] demo_upload))
      (upload_manifest demo_daemon [1, 2, 3] ''f'' ''t'' demo_upload) ''n'' ([], demo_known\<lparr>l_attachments := [demo_file_row]\<rparr>)"

text \<open>
  C13. A file that one daemon encrypts and uploads in chunks is what another daemon downloads with the
  manifest: if the relay answers each chunk request with what was uploaded, the download succeeds with
  the original bytes, its row is ready and the encrypted cache file reads back as the same bytes.
\<close>

theorem attachment_roundtrip:
  assumes "gcm_ok env" and "json_ok env"
    and "length (ud_id d) = 16" and "length (ud_key d) = 32" and "\<forall>i. length (ud_nonce d i) = 12"
    and "is_uuid env (ud_blob d)" and "\<forall>bs. length (dg_sha256 env bs) = 32"
    and "length p \<le> 26214400" and "sanitize_filename name \<noteq> []" and "length mime \<le> 255"
    and "has_row (\<lambda>a. at_id a = hex_encode (ud_id d) \<and> at_message a = msg) (l_attachments db)"
  shows "let m = upload_manifest env p name mime d; path = root @ ''/attachments/'' @ mf_id m;
      r = download_and_decrypt env root key nonce (uploaded_chunk (upload_requests env p d)) m msg (fs, db)
    in snd r = Inr p \<and> attachment_stored path (mf_id m) msg db = Inr (snd (fst r)) \<and>
      (\<exists>raw. map_get (fst (fst r)) path = Some raw \<and> read_cache env key (mf_id m) raw = Inr p)"
  using assms by (rule download_uploaded)

theorem attachment_roundtrip_witness: "snd demo_download = Inr [1, 2, 3]"
  using attachment_roundtrip [OF demo_gcm demo_json demo_upload_ok] by (simp add: Let_def)

lemma manifest_schema_same:
  assumes "manifest_schema uuid (manifest_json m) = Some m1"
  shows "m1 = m"
proof -
  have nonces: "ns = xs" if "those (map (string_where q \<circ> JStr) xs) = Some ns" for q xs ns
    using that by (induction xs arbitrary: ns) (auto simp: string_where_def split: if_splits)
  show ?thesis
    using assms unfolding manifest_schema_def manifest_json_def required_def field_def
    by (cases m) (auto simp: bind_eq_Some_conv string_where_def string_len_def int_range_def int_where_def array_len_def
        array_of_def split: if_splits dest!: nonces)
qed

text \<open>
  A download that yields a file has checked it: the bytes have the digest and the size of the
  manifest, whatever the relay answered; one that fails leaves the database as it was.
\<close>

theorem download_integrity:
  assumes "download_and_decrypt env root key nonce answer m msg (fs, db) = ((fs', db'), r)"
  shows "case r of
      Inl e \<Rightarrow> db' = db
    | Inr p \<Rightarrow> hex_decode (mf_digest m) = dg_sha256 env p \<and> int (length p) = mf_size m \<and> is_lower_hex_of 32 (mf_id m)"
proof (cases r)
  case (Inl e)
  with download_unchanged assms show ?thesis by simp
next
  case (Inr p)
  from assms [unfolded Inr] show ?thesis
    unfolding Inr by (rule download_checked) (auto dest!: manifest_schema_same)
qed

theorem download_integrity_witness:
  "hex_decode (mf_digest (upload_manifest demo_daemon [1, 2, 3] ''f'' ''t'' demo_upload)) = dg_sha256 demo_daemon [1, 2, 3]"
proof -
  have "snd demo_download = Inr [1, 2, 3]"
    using download_uploaded [OF demo_gcm demo_json demo_upload_ok] by (simp add: Let_def)
  then have "demo_download = ((fst (fst demo_download), snd (fst demo_download)), Inr [1, 2, 3])" by (metis prod.collapse)
  from download_integrity [OF this] show ?thesis by simp
qed

section \<open>Disappearing messages\<close>

text \<open>
  C35. A tick of the disappearing-message job deletes exactly the messages whose time has come, with the
  files of their attachments; what is left in the outbox belongs to a message that is still shown.
\<close>

theorem disappearing_exact:
  assumes "local_ok db" and "disappearing_tick now (fs, db) = (fs', db')"
  shows "l_messages db' = filter (visible now) (l_messages db) \<and>
    (\<forall>m a q. m \<in> set (l_messages db) \<and> \<not> visible now m \<and> a \<in> set (l_attachments db) \<and> at_message a = lm_id m \<and>
       at_path a = Some q \<and> q \<noteq> [] \<longrightarrow> map_get fs' q = None) \<and>
    (\<forall>o1 \<in> set (l_outbox db'). \<exists>m \<in> set (l_messages db). lm_id m = og_message o1 \<and> visible now m)"
proof -
  have ok: "local_ok (snd (fs, db))" using assms(1) by simp
  have run: "fst (disappearing_tick now (fs, db)) = fs'" "snd (disappearing_tick now (fs, db)) = db'" using assms(2) by simp_all
  have "l_messages db' = filter (visible now) (l_messages db)" using tick_messages [OF ok, of now] run by simp
  moreover have "map_get fs' q = None"
    if "m \<in> set (l_messages db)" "\<not> visible now m" "a \<in> set (l_attachments db)" "at_message a = lm_id m"
      "at_path a = Some q" "q \<noteq> []" for m a q
    using tick_files [OF ok _ that(5,6), of m now] that run by simp
  moreover have "\<exists>m \<in> set (l_messages db). lm_id m = og_message o1 \<and> visible now m" if "o1 \<in> set (l_outbox db')" for o1
    using tick_outbox [OF _ ok, of o1 now] that run by simp
  ultimately show ?thesis by blast
qed

definition demo_timed :: local_db where
  "demo_timed = demo_local\<lparr>l_messages :=
     [\<lparr>lm_id = ''m'', lm_conversation = ''v'', lm_direction = Received, lm_text = ''a'', lm_sent = None, lm_received = Some 1,
        lm_disappear = Some 10, lm_remote = Some ''i'', lm_status = ''received''\<rparr>,
      \<lparr>lm_id = ''n'', lm_conversation = ''v'', lm_direction = Received, lm_text = ''b'', lm_sent = None, lm_received = Some 2,
        lm_disappear = None, lm_remote = Some ''j'', lm_status = ''received''\<rparr>]\<rparr>"

lemma demo_timed_ok: "local_ok demo_timed"
  by (simp add: local_ok_def demo_timed_def demo_local_def demo_contact_def empty_local_def unique_key_def has_contact_def
      has_row_def)

theorem disappearing_exact_witness:
  "map lm_id (l_messages (snd (disappearing_tick 10 ([], demo_timed)))) = [''n'']"
proof -
  have "disappearing_tick 10 ([], demo_timed) = (fst (disappearing_tick 10 ([], demo_timed)), snd (disappearing_tick 10 ([], demo_timed)))"
    by simp
  from disappearing_exact [OF demo_timed_ok this] show ?thesis by (simp add: demo_timed_def visible_def)
qed

section \<open>The vault\<close>

text \<open>
  In every run of a vault the current password opens it: unlocking succeeds, with the subkeys of the
  master key that was drawn when the vault was created, however often the password was changed, and with
  the database as it was left.
\<close>

theorem password_opens_vault:
  assumes "gcm_ok env" and "cipher_ok opens" and "vault_run env opens w (Some (p, vmk, salt))"
  shows "\<exists>w'. unlock env opens p w = (w', Inr ()) \<and> vt_open w' \<and> keys_of w' = subkeys env vmk salt \<and> dk_db w' = dk_db w"
proof -
  have inv: "vault_inv env w (Some (p, vmk, salt))" by (rule vault_run_inv [OF assms(3,1,2)])
  let ?w = "fst (unlock env opens p w)"
  from unlock_some [OF inv assms(2)] have "unlock env opens p w = (?w, Inr ())" "vault_inv env ?w (Some (p, vmk, salt))"
    "vt_open ?w" "dk_db ?w = dk_db w" by blast+
  then show ?thesis by (intro exI [of _ ?w]) (simp add: vault_inv_def)
qed

definition demo_vault_draw :: create_draw where
  "demo_vault_draw = \<lparr>cd_argon = [1], cd_hkdf = [2], cd_vmk = [3], cd_nonce = replicate 12 0, cd_now = ''now''\<rparr>"

definition demo_vault :: vault where
  "demo_vault = fst (vault_create demo_daemon demo_cipher demo_vault_draw ''Correct-Horse-1'' fresh_vault)"

lemma demo_vault_run: "vault_run demo_daemon demo_cipher demo_vault (Some (''Correct-Horse-1'', [3], [2]))"
proof -
  have "snd (vault_create demo_daemon demo_cipher demo_vault_draw ''Correct-Horse-1'' fresh_vault) = Inr ()"
    by (simp add: vault_create_def open_db_def fresh_vault_def Let_def case_prod_beta) code_simp
  then have "vault_create demo_daemon demo_cipher demo_vault_draw ''Correct-Horse-1'' fresh_vault = (demo_vault, Inr ())"
    unfolding demo_vault_def by (metis prod.collapse)
  from vault_run.create [OF vault_run.fresh this] show ?thesis by (simp add: demo_vault_draw_def)
qed

theorem password_opens_vault_witness:
  "\<exists>w'. unlock demo_daemon demo_cipher ''Correct-Horse-1'' (lock_vault demo_vault) = (w', Inr ()) \<and> vt_open w'"
  using password_opens_vault [OF demo_gcm demo_cipher_ok vault_run.lock [OF demo_vault_run]] by blast

text \<open>
  The keys of a vault are in memory exactly while it is open: locking it, starting anew and every
  failed attempt to open it leave none of them.
\<close>

theorem keys_only_while_open:
  assumes "gcm_ok env" and "cipher_ok opens" and "vault_run env opens w s"
  shows "(\<not> vt_open w \<longrightarrow> field_key w = Inl ''vault_locked'' \<and> attachment_key w = Inl ''vault_locked'' \<and>
      local_token_key w = Inl ''vault_locked'' \<and> vault_database w = Inl ''vault_locked'') \<and>
    (vt_open w \<longrightarrow> (\<exists>p vmk salt. s = Some (p, vmk, salt) \<and> keys_of w = subkeys env vmk salt))"
proof -
  have "vault_inv env w s" by (rule vault_run_inv [OF assms(3,1,2)])
  then have "keys_of w = (if vt_open w then subkeys env (fst (snd (the s))) (snd (snd (the s))) else (None, None, None)) \<and>
      (vt_open w \<longrightarrow> s \<noteq> None)"
    by (cases s) (auto simp: vault_inv_def)
  then show ?thesis
    by (auto simp: keys_of_def field_key_def attachment_key_def local_token_key_def vault_database_def unless_locked_def)
qed

theorem keys_only_while_open_witness: "attachment_key (lock_vault demo_vault) = Inl ''vault_locked''"
proof -
  have "\<not> vt_open (lock_vault demo_vault)" by (simp add: lock_vault_def)
  with keys_only_while_open [OF demo_gcm demo_cipher_ok vault_run.lock [OF demo_vault_run]] show ?thesis by blast
qed

section \<open>Shards\<close>

text \<open>
  The wrapped master key that was scattered is what collecting gives back, from the files, the shard
  of the browser and the shard of the relay or of the external file, when nothing was changed.
\<close>

theorem shards_roundtrip:
  assumes "gcm_ok env" and "json_ok env" and "cipher_ok opens" and "scatter_ok d secret ext"
    and "scatter env d secret m backup ext h = (h', Inr r)"
  shows "snd (collect env opens (Some (st_client r)) (Some (st_fragment7 r)) m backup (st_hashes r) h') = Inr secret"
  using assms by (rule collect_scattered)

definition demo_scatter :: scatter_draw where
  "demo_scatter = \<lparr>sc_shares = map (\<lambda>i. replicate 48 i) [1, 2, 3, 4, 5, 6], sc_nonce3 = replicate 12 0,
     sc_nonce6 = replicate 12 1, sc_nonce7 = replicate 12 2\<rparr>"

definition demo_scattered :: "shards \<times> (string + scattered)" where
  "demo_scattered = scatter demo_daemon demo_scatter (replicate 48 7) [1] [2] (Some (replicate 48 9)) no_shards"

theorem shards_roundtrip_witness:
  "snd (collect demo_daemon demo_cipher (Some (st_client (projr (snd demo_scattered))))
     (Some (st_fragment7 (projr (snd demo_scattered)))) [1] [2] (st_hashes (projr (snd demo_scattered)))
     (fst demo_scattered)) = Inr (replicate 48 7)"
proof (rule shards_roundtrip [OF demo_gcm demo_json demo_cipher_ok])
  show "scatter_ok demo_scatter (replicate 48 7) (Some (replicate 48 9))"
    by (simp add: scatter_ok_def randoms_def demo_scatter_def)
  show "scatter demo_daemon demo_scatter (replicate 48 7) [1] [2] (Some (replicate 48 9)) no_shards =
      (fst demo_scattered, Inr (projr (snd demo_scattered)))"
    by (simp add: demo_scattered_def scatter_def split_seven_def place_external_def)
qed

text \<open>
  C23. Six shards say nothing about the wrapped key: whichever shard is missing and whatever other secret
  one assumes, there is exactly one choice of the random shares with which the same six shards belong to
  that secret.
\<close>

theorem six_shards_reveal_nothing:
  assumes "randoms rs" and "length s = 48" and "length s' = 48" and "i < 7"
    and "split_seven rs s = Inr ss"
  shows "\<exists>!rs'. randoms rs' \<and>
    (\<exists>ss'. split_seven rs' s' = Inr ss' \<and> length ss' = 7 \<and> (\<forall>j < 7. j \<noteq> i \<longrightarrow> ss' ! j = ss ! j))"
proof -
  have ss: "ss = shares_of rs s" using assms(2,5) by (simp add: split_shares)
  have "(randoms rs' \<and> (\<exists>ss'. split_seven rs' s' = Inr ss' \<and> length ss' = 7 \<and> (\<forall>j < 7. j \<noteq> i \<longrightarrow> ss' ! j = ss ! j))) =
      (randoms rs' \<and> (\<forall>j < 7. j \<noteq> i \<longrightarrow> shares_of rs' s' ! j = shares_of rs s ! j))" for rs'
    using shares_ok [of rs' s'] assms(3) by (auto simp: split_shares ss)
  then show ?thesis using six_shares_fit [OF assms(1-4)] by presburger
qed

theorem six_shards_reveal_nothing_witness:
  "\<exists>!rs'. randoms rs' \<and> (\<exists>ss'. split_seven rs' (replicate 48 200) = Inr ss' \<and> length ss' = 7 \<and>
     (\<forall>j < 7. j \<noteq> 2 \<longrightarrow> ss' ! j = shares_of (sc_shares demo_scatter) (replicate 48 7) ! j))"
proof -
  have rs: "randoms (sc_shares demo_scatter)" by (simp add: randoms_def demo_scatter_def)
  have split: "split_seven (sc_shares demo_scatter) (replicate 48 7) =
      Inr (shares_of (sc_shares demo_scatter) (replicate 48 7))"
    by (rule split_shares) simp
  show ?thesis by (rule six_shards_reveal_nothing [OF rs _ _ _ split]) simp_all
qed

text \<open>
  A storage file that was encoded with a shard-7 capsule is decoded with the same capsule and keys to
  the snapshot that was put in.
\<close>

theorem storage_roundtrip:
  assumes "gcm_ok env" and "json_ok env" and "length n = 12"
    and "encode_storage env n p capsule keys = Inr file" and "length file \<le> 64 * 1024 * 1024"
  shows "decode_storage env file capsule keys = Inr p"
  using assms by (rule storage_decodes)

definition demo_keys :: vault_keys where
  "demo_keys = \<lparr>vk_kek = [], vk_lookup = [], vk_backup = [], vk_mask = [], vk_writer = []\<rparr>"

definition demo_capsule :: bytes where
  "demo_capsule = shard_header @
     utf8 (json_text demo_daemon (sealed_json (seal demo_daemon (replicate 12 0) (replicate 48 1) [] ''cp-shard7-v1'')))"

definition demo_file :: "string + bytes" where
  "demo_file = encode_storage demo_daemon (replicate 12 0) [1, 2] demo_capsule demo_keys"

lemma demo_seventh: "seventh demo_daemon demo_capsule demo_keys = Inr (replicate 48 1)"
proof (rule capsule_opens [OF demo_gcm demo_json, of "replicate 12 0"])
  show "length demo_capsule \<le> 2048" unfolding demo_capsule_def by code_simp
qed (simp_all add: demo_capsule_def demo_keys_def)

lemma demo_file_ok: "demo_file = Inr (projr demo_file)" "length (projr demo_file) \<le> 64 * 1024 * 1024"
proof -
  show "demo_file = Inr (projr demo_file)"
    by (simp add: demo_file_def encode_storage_def storage_key_def demo_seventh)
  have backup: "vk_backup demo_keys = []" by (simp add: demo_keys_def)
  have header: "length storage_header = 9" by code_simp
  have "length (projr demo_file) = 9 + length (utf8 (json_text demo_daemon (sealed_json (seal demo_daemon (replicate 12 0) [1, 2]
      (derive_subkey demo_daemon [] (dg_sha256 demo_daemon (replicate 48 1)) ''cp-app-storage-v1'') ''cp-app-storage-v1''))))"
    by (simp add: demo_file_def encode_storage_def storage_key_def demo_seventh header backup)
  also have "\<dots> \<le> 1000" by code_simp
  finally show "length (projr demo_file) \<le> 64 * 1024 * 1024" by simp
qed

theorem storage_roundtrip_witness: "decode_storage demo_daemon (projr demo_file) demo_capsule demo_keys = Inr [1, 2]"
  by (rule storage_roundtrip [OF demo_gcm demo_json _ demo_file_ok(1) [unfolded demo_file_def] demo_file_ok(2) [unfolded demo_file_def], folded demo_file_def])
    simp

section \<open>The local session\<close>

text \<open>
  C34. A request that the session check lets through to a protected route carries the cookie of the one
  session that was issued last, for a bootstrap secret that was generated before and had issued no
  session since; the session is younger than a day and was not invalidated, and a writing request
  carries its CSRF token.
\<close>

theorem cookie_was_issued:
  assumes "session_reach m l" and "verify_local_session locked now r m = None"
    and "starts_with ''/api/'' (lr_url r)" and "lr_url r \<notin> set open_urls"
  shows "\<exists>pre s a c t rest. l = pre @ Issued s a c t # rest \<and> (\<forall>e \<in> set pre. is_generated e) \<and> open_secret rest s \<and>
    session_cookie (or_empty (lr_cookie r)) = Some a \<and> now < t + 86400000 \<and>
    (lr_method r \<in> {''POST'', ''PUT'', ''DELETE''} \<longrightarrow> lr_csrf r = Some c)"
  using assms by (rule accepted_cookie)

definition demo_session :: session_memory where
  "demo_session = fst (bootstrap (Some ''0a'') 5 ([1], [2]) (generate_bootstrap 80 [10] session_start))"

definition demo_request :: local_request where
  "demo_request = \<lparr>lr_host = Some ''127.0.0.1:80'', lr_origin = None, lr_url = ''/api/send'',
     lr_cookie = Some ''a=b; crypto_pigeon_session=01'', lr_method = ''POST'', lr_csrf = Some ''02''\<rparr>"

lemma demo_session_reach: "session_reach demo_session [Issued ''0a'' ''01'' ''02'' 5, Generated ''0a'']"
proof -
  have hex: "hex_encode [1] = ''01''" "hex_encode [2] = ''02''" "hex_encode [10] = ''0a''" by code_simp+
  have g: "session_reach (generate_bootstrap 80 [10] session_start) [Generated ''0a'']"
    using session_reach.generate [OF session_reach.start, of 80 "[10]"] by (simp add: hex)
  have "bootstrap (Some ''0a'') 5 ([1], [2]) (generate_bootstrap 80 [10] session_start) = (demo_session, Inr ''02'')"
    by (simp add: demo_session_def bootstrap_def generate_bootstrap_def hex)
  from session_reach.issue [OF g this] show ?thesis by (simp add: hex)
qed

theorem cookie_was_issued_witness:
  "\<exists>pre s a c t rest. [Issued ''0a'' ''01'' ''02'' 5, Generated ''0a''] = pre @ Issued s a c t # rest \<and>
     open_secret rest s \<and> lr_csrf demo_request = Some c"
proof -
  have "verify_local_session False 6 demo_request demo_session = None"
    "starts_with ''/api/'' (lr_url demo_request)" "lr_url demo_request \<notin> set open_urls"
    by code_simp+
  from cookie_was_issued [OF demo_session_reach this] show ?thesis
    by (simp add: demo_request_def) blast
qed

text \<open>
  C36. Guessing the PIN of the quick lock is slow: of any wrong attempts between two times, whatever their
  number, at most five in each started period of 30 seconds are compared with the PIN; all others are
  refused unread.
\<close>

theorem pin_guesses_bounded:
  assumes "\<forall>(t, p) \<in> set as. \<not> right_pin env db p" and "sorted (map fst as)"
    and "\<forall>(t, p) \<in> set as. t0 \<le> t \<and> t \<le> t1" and "pm_failures m \<le> 4" and "t0 \<le> t1"
  shows "int (count_list (pin_run env db as m) 401) \<le> 5 * ((t1 - t0) div 30000 + 1)"
proof -
  have "tries_left t0 t1 m \<le> 5 + 5 * ((t1 - t0) div 30000)"
  proof (cases "t1 < max t0 (pm_retry m)")
    case True
    then show ?thesis using assms(5) by (simp add: tries_left_def Let_def pos_imp_zdiv_nonneg_iff add_nonneg_nonneg)
  next
    case False
    have "(t1 - max t0 (pm_retry m)) div 30000 \<le> (t1 - t0) div 30000" by (rule zdiv_mono1) auto
    with False show ?thesis unfolding tries_left_def Let_def by simp
  qed
  with pin_run_tries [OF assms(1-4)] show ?thesis by simp
qed

definition demo_pin_db :: local_db where
  "demo_pin_db = empty_local\<lparr>l_pin := Some ([1], pin_digest demo_daemon [1] ''1234'')\<rparr>"

theorem pin_guesses_bounded_witness:
  "int (count_list (pin_run demo_daemon demo_pin_db (map (\<lambda>t. (int t, ''0000'')) [0..<20]) pin_start) 401) \<le> 5"
proof -
  have wrong: "\<not> right_pin demo_daemon demo_pin_db ''0000''"
    by (simp add: right_pin_def demo_pin_db_def) code_simp
  have "int (count_list (pin_run demo_daemon demo_pin_db (map (\<lambda>t. (int t, ''0000'')) [0..<20]) pin_start) 401) \<le>
      5 * ((19 - 0) div 30000 + 1)"
    by (rule pin_guesses_bounded) (auto simp: wrong pin_start_def comp_def sorted_map)
  then show ?thesis by simp
qed

end
