(* ===== verification/Tor_Control.thy ===== *)
theory Tor_Control
  imports Daemon_Delivery Invite
begin

text \<open>
  The first half of \<open>tor-transport.ts\<close>: the connection to the control port of the Tor process that the
  daemon starts (its line buffer, the replies to commands and the asynchronous \<open>650\<close> events between
  them), the registration of the onion service, the shutdown, and the SOCKS handshake with which a
  connection to a peer begins. The process, the sockets and the timers are outside of the model: what
  arrives on them is an argument.
\<close>

section \<open>Error codes\<close>

text \<open>\<open>/^[A-Z0-9_]{1,64}$/\<close>\<close>

definition error_word :: "string \<Rightarrow> bool" where
  "error_word s \<longleftrightarrow> s \<noteq> [] \<and> length s \<le> 64 \<and> list_all (\<lambda>c. is_upper c \<or> is_digit c \<or> c = CHR ''_'') s"

text \<open>An exception has the \<open>code\<close> and, when it is an \<open>Error\<close>, the \<open>message\<close>.\<close>

record failure =
  fl_code :: "string option"
  fl_message :: "string option"

definition an_error :: "string \<Rightarrow> failure" where
  "an_error m = \<lparr>fl_code = None, fl_message = Some m\<rparr>"

definition tor_error_code :: "failure \<Rightarrow> string" where
  "tor_error_code e =
     (case fl_code e of
        Some c \<Rightarrow> if error_word c then c
          else (case fl_message e of Some m \<Rightarrow> if error_word m then m else ''TOR_REQUEST_FAILED'' | None \<Rightarrow> ''TOR_REQUEST_FAILED'')
      | None \<Rightarrow> (case fl_message e of Some m \<Rightarrow> if error_word m then m else ''TOR_REQUEST_FAILED'' | None \<Rightarrow> ''TOR_REQUEST_FAILED''))"

section \<open>The state of the transport\<close>

text \<open>
  A command that waits for its reply is \<open>tt_waiter\<close>; the promise it settles is in the events that
  \<open>on_data\<close> returns. \<open>tt_published\<close> is a set of the names of onion services, in the order they came.
\<close>

record transport =
  tt_stopped :: bool
  tt_boot :: nat
  tt_failure :: string
  tt_onion :: string
  tt_device :: string
  tt_published :: "string list"
  tt_circuit :: bool
  tt_lines :: string
  tt_replies :: "string list"
  tt_waiter :: bool
  tt_envelopes :: nat
  tt_chunks :: nat
  tt_peer_error :: string

definition new_transport :: transport where
  "new_transport =
     \<lparr>tt_stopped = False, tt_boot = 0, tt_failure = [], tt_onion = [], tt_device = [], tt_published = [],
      tt_circuit = False, tt_lines = [], tt_replies = [], tt_waiter = False, tt_envelopes = 0,
      tt_chunks = 0, tt_peer_error = []\<rparr>"

text \<open>What a chunk of control data brings about: the settled reply of a command, or a wake-up.\<close>

datatype control_event = Wake | Resolved "string list" | Rejected string

record transport_status =
  st_serverless :: bool
  st_bootstrap :: nat
  st_descriptor :: bool
  st_failure :: "string option"
  st_envelopes :: nat
  st_chunks :: nat
  st_peer_error :: "string option"

definition nonempty :: "string \<Rightarrow> string option" where
  "nonempty s = (if s = [] then None else Some s)"

text \<open>\<open>onion.replace(/\\.onion$/, '')\<close>\<close>

definition service_name :: "string \<Rightarrow> string" where
  "service_name o1 = (if 6 \<le> length o1 \<and> drop (length o1 - 6) o1 = ''.onion'' then take (length o1 - 6) o1 else o1)"

definition tor_status :: "transport \<Rightarrow> transport_status" where
  "tor_status t =
     \<lparr>st_serverless = (tt_boot t = 100 \<and> tt_onion t \<noteq> []), st_bootstrap = tt_boot t,
      st_descriptor = (service_name (tt_onion t) \<in> set (tt_published t)), st_failure = nonempty (tt_failure t),
      st_envelopes = tt_envelopes t, st_chunks = tt_chunks t, st_peer_error = nonempty (tt_peer_error t)\<rparr>"

definition tor_address :: "transport \<Rightarrow> string + string" where
  "tor_address t = (if tt_onion t = [] then Inl ''TOR_NOT_READY'' else Inr (tt_onion t))"

section \<open>Lines\<close>

text \<open>The position of the first \<open>\\r\\n\<close>, and the lines before the rest that has none.\<close>

fun crlf_at :: "string \<Rightarrow> nat option" where
  "crlf_at (c # d # s) = (if code c = 13 \<and> code d = 10 then Some 0 else map_option Suc (crlf_at (d # s)))"
| "crlf_at _ = None"

lemma crlf_at_bound: "crlf_at s = Some n \<Longrightarrow> n + 2 \<le> length s"
  by (induction s arbitrary: n rule: crlf_at.induct) (auto split: if_splits)

function take_lines :: "string \<Rightarrow> string list \<times> string" where
  "take_lines s =
     (case crlf_at s of
        None \<Rightarrow> ([], s)
      | Some n \<Rightarrow> (case take_lines (drop (n + 2) s) of (ls, rest) \<Rightarrow> (take n s # ls, rest)))"
  by pat_completeness auto
termination
  by (relation "measure length") (auto dest!: crlf_at_bound)

declare take_lines.simps [simp del]

text \<open>\<open>line.match(/PROGRESS=(\\d+)/)\<close> with \<open>Math.min(100, Number(..))\<close>.\<close>

definition digits_after :: "string \<Rightarrow> string \<Rightarrow> string" where
  "digits_after p s = (if starts_with p s then takeWhile is_digit (drop (length p) s) else [])"

fun progress_in :: "string \<Rightarrow> nat option" where
  "progress_in [] = None"
| "progress_in (c # s) =
     (let ds = digits_after ''PROGRESS='' (c # s)
      in if ds \<noteq> [] then Some (min 100 (read_nat ds)) else progress_in s)"

text \<open>\<open>line.includes(w)\<close>\<close>

fun has_part :: "string \<Rightarrow> string \<Rightarrow> bool" where
  "has_part w [] = (w = [])"
| "has_part w (c # s) = (starts_with w (c # s) \<or> has_part w s)"

text \<open>\<open>/^650[ -]HS_DESC UPLOADED ([a-z2-7]{56})(?:\\.onion)?(?: |$)/\<close>\<close>

definition event_line :: "string \<Rightarrow> string option" where
  "event_line s =
     (if starts_with ''650'' s \<and> drop 3 s \<noteq> [] \<and> (hd (drop 3 s) = CHR '' '' \<or> hd (drop 3 s) = CHR ''-'')
      then Some (drop 4 s) else None)"

definition base32_letter :: "char \<Rightarrow> bool" where
  "base32_letter c \<longleftrightarrow> is_lower c \<or> 50 \<le> code c \<and> code c \<le> 55"

definition uploaded_service :: "string \<Rightarrow> string option" where
  "uploaded_service s =
     (case event_line s of
        None \<Rightarrow> None
      | Some e \<Rightarrow>
          if \<not> starts_with ''HS_DESC UPLOADED '' e then None
          else let r = drop 17 e; n = take 56 r; q = drop 56 r; ends = (\<lambda>z. z = [] \<or> hd z = CHR '' '')
               in if length n = 56 \<and> list_all base32_letter n \<and>
                     (ends q \<or> starts_with ''.onion'' q \<and> ends (drop 6 q))
                  then Some n else None)"

definition liveness_down :: "string \<Rightarrow> bool" where
  "liveness_down s \<longleftrightarrow> (case event_line s of None \<Rightarrow> False | Some e \<Rightarrow> starts_with ''NETWORK_LIVENESS DOWN'' e)"

text \<open>\<open>/^650[ -](?:CIRC \\d+ BUILT|NETWORK_LIVENESS UP)/\<close>\<close>

definition circuit_up :: "string \<Rightarrow> bool" where
  "circuit_up s \<longleftrightarrow>
     (case event_line s of
        None \<Rightarrow> False
      | Some e \<Rightarrow> starts_with ''NETWORK_LIVENESS UP'' e \<or>
          (let ds = digits_after ''CIRC '' e
           in ds \<noteq> [] \<and> starts_with '' BUILT'' (drop (5 + length ds) e)))"

section \<open>Control data\<close>

text \<open>A \<open>650\<close> line: what it does to the state, and whether it wakes the queues.\<close>

definition note_event :: "string \<Rightarrow> transport \<Rightarrow> transport \<times> bool" where
  "note_event line t =
     (let w1 = (case uploaded_service line of None \<Rightarrow> False | Some n \<Rightarrow> n \<notin> set (tt_published t));
          t1 = (case uploaded_service line of None \<Rightarrow> t | Some n \<Rightarrow> t\<lparr>tt_published := List.insert n (tt_published t)\<rparr>);
          t2 = (if liveness_down line then t1\<lparr>tt_circuit := False, tt_published := []\<rparr> else t1);
          up = (circuit_up line \<and> \<not> tt_circuit t2);
          t3 = (if up then t2\<lparr>tt_circuit := True\<rparr> else t2);
          w3 = (w1 \<or> up)
      in case (if has_part ''BOOTSTRAP'' line then progress_in line else None) of
           None \<Rightarrow> (t3, w3)
         | Some next_boot \<Rightarrow> (t3\<lparr>tt_boot := next_boot\<rparr>, w3 \<or> tt_boot t3 \<noteq> 100 \<and> next_boot = 100))"

text \<open>\<open>/^\\d{3} /\<close>\<close>

definition final_line :: "string \<Rightarrow> bool" where
  "final_line s \<longleftrightarrow> 4 \<le> length s \<and> list_all is_digit (take 3 s) \<and> s ! 3 = CHR '' ''"

definition on_line :: "string \<Rightarrow> transport \<Rightarrow> transport \<times> control_event list" where
  "on_line line t =
     (if starts_with ''650'' line
      then (let (t', w) = note_event line t in (t', if w \<and> \<not> tt_stopped t' then [Wake] else []))
      else let rs = tt_replies t @ [line]
           in if final_line line
              then (t\<lparr>tt_waiter := False, tt_replies := []\<rparr>,
                    if \<not> tt_waiter t then []
                    else if starts_with ''250 '' line then [Resolved rs]
                    else [Rejected (''TOR_CONTROL_'' @ take 3 line)])
              else (t\<lparr>tt_replies := rs\<rparr>, []))"

fun on_lines :: "string list \<Rightarrow> transport \<Rightarrow> transport \<times> control_event list" where
  "on_lines [] t = (t, [])"
| "on_lines (l # ls) t =
     (case on_line l t of (t1, e1) \<Rightarrow> (case on_lines ls t1 of (t2, e2) \<Rightarrow> (t2, e1 @ e2)))"

definition on_data :: "string \<Rightarrow> transport \<Rightarrow> transport \<times> control_event list" where
  "on_data chunk t =
     (case take_lines (tt_lines t @ chunk) of (ls, rest) \<Rightarrow> on_lines ls (t\<lparr>tt_lines := rest\<rparr>))"

text \<open>\<open>command\<close>: refused while another waits; the reply times out after 30 seconds.\<close>

definition send_command :: "transport \<Rightarrow> string + transport" where
  "send_command t =
     (if tt_waiter t \<or> tt_stopped t then Inl ''TOR_CONTROL_UNAVAILABLE'' else Inr (t\<lparr>tt_waiter := True\<rparr>))"

text \<open>\<open>close\<close>: what the sockets, the server and the process do then is outside.\<close>

definition close_transport :: "transport \<Rightarrow> transport \<times> control_event list" where
  "close_transport t =
     (if tt_stopped t then (t, [])
      else (t\<lparr>tt_stopped := True, tt_boot := 0, tt_onion := [], tt_waiter := False\<rparr>,
            if tt_waiter t then [Rejected ''TOR_CLOSED''] else []))"

definition command_timeout :: "transport \<Rightarrow> transport \<times> control_event list" where
  "command_timeout t =
     (case close_transport (t\<lparr>tt_failure := ''TOR_CONTROL_TIMEOUT'', tt_waiter := False\<rparr>) of
        (t', es) \<Rightarrow> (t', Rejected ''TOR_CONTROL_TIMEOUT'' # es))"

text \<open>\<open>poll\<close> with the reply to \<open>GETINFO status/bootstrap-phase\<close>.\<close>

definition join_space :: "string list \<Rightarrow> string" where
  "join_space = join_with CHR '' ''"

definition poll :: "string + string list \<Rightarrow> transport \<Rightarrow> transport" where
  "poll reply t =
     (case reply of
        Inr ls \<Rightarrow> t\<lparr>tt_boot := (case progress_in (join_space ls) of None \<Rightarrow> 0 | Some n \<Rightarrow> n)\<rparr>
      | Inl _ \<Rightarrow> fst (close_transport (if tt_stopped t then t else t\<lparr>tt_failure := ''TOR_CONTROL_POLL_FAILED''\<rparr>)))"

section \<open>The onion service\<close>

text \<open>
  The end of \<open>start\<close>: the answer to \<open>ADD_ONION\<close>, with the key and address of the table \<open>tor_identity\<close>
  when the service was created before. The address is kept only when it is an onion address and, for a
  service created before, the same one.
\<close>

definition add_onion_command :: "(string \<times> string) option \<Rightarrow> nat \<Rightarrow> string" where
  "add_onion_command saved port =
     ''ADD_ONION '' @ (case saved of Some (k, _) \<Rightarrow> k | None \<Rightarrow> ''NEW:ED25519-V3'') @ '' Port=80,127.0.0.1:'' @ show_nat port"

definition line_value :: "string \<Rightarrow> string list \<Rightarrow> string option" where
  "line_value p ls = map_option (drop (length p)) (List.find (starts_with p) ls)"

definition register_service ::
  "string list \<Rightarrow> local_db \<times> transport \<Rightarrow> (local_db \<times> transport) \<times> (string + unit)" where
  "register_service answer s =
     (let (db, t) = s;
          onion = (case line_value ''250-ServiceID='' answer of Some n \<Rightarrow> n | None \<Rightarrow> ''undefined'') @ ''.onion''
      in if \<not> onion_ok onion then (s, Inl ''TOR_INVALID_SERVICE'')
         else case l_tor_identity db of
           Some (_, old) \<Rightarrow> if onion \<noteq> old then (s, Inl ''TOR_IDENTITY_MISMATCH'')
             else ((db, t\<lparr>tt_onion := onion\<rparr>), Inr ())
         | None \<Rightarrow>
             (case line_value ''250-PrivateKey='' answer of
                None \<Rightarrow> (s, Inl ''TOR_INVALID_SERVICE'')
              | Some key \<Rightarrow>
                  if \<not> starts_with ''ED25519-V3:'' key then (s, Inl ''TOR_INVALID_SERVICE'')
                  else if tt_stopped t then (s, Inl ''TOR_CLOSED'')
                  else ((db\<lparr>l_tor_identity := Some (key, onion)\<rparr>, t\<lparr>tt_onion := onion\<rparr>), Inr ())))"

section \<open>SOCKS\<close>

definition socks_greeting :: bytes where
  "socks_greeting = [5, 1, 0]"

definition socks_connect_bytes :: "string \<Rightarrow> nat \<Rightarrow> bytes" where
  "socks_connect_bytes host port =
     [5, 1, 0, 3, of_nat (length (utf8 host))] @ utf8 host @ [of_nat (port div 256), of_nat (port mod 256)]"

text \<open>
  What the bytes that have arrived mean to \<open>socksConnect\<close>. \<open>read(n)\<close> waits for \<open>n\<close> bytes; the request is
  written after the two bytes of the answer to the greeting. On success the remaining bytes are put back.
\<close>

datatype socks = Waiting | Asked | Refused string | Connected bytes

definition socks_reply :: "bytes \<Rightarrow> socks" where
  "socks_reply b =
     (if length b < 4 then Asked
      else if b ! 0 \<noteq> 5 \<or> b ! 1 \<noteq> 0 then Refused ''TOR_PEER_OFFLINE''
      else if b ! 3 = 1 then (if length b < 10 then Asked else Connected (drop 10 b))
      else if b ! 3 = 4 then (if length b < 22 then Asked else Connected (drop 22 b))
      else if b ! 3 = 3 then
        (if length b < 5 then Asked
         else let n = unat (b ! 4) in if length b < 5 + n + 2 then Asked else Connected (drop (5 + n + 2) b))
      else Refused ''SOCKS_INVALID'')"

definition socks_state :: "bytes \<Rightarrow> socks" where
  "socks_state b =
     (if length b < 2 then Waiting
      else if b ! 0 \<noteq> 5 \<or> b ! 1 \<noteq> 0 then Refused ''SOCKS_AUTH_FAILED''
      else socks_reply (drop 2 b))"

text \<open>The bytes written by the time that \<open>b\<close> has arrived; nothing is sent for a host that is not an onion.\<close>

definition socks_sent :: "string \<Rightarrow> nat \<Rightarrow> bytes \<Rightarrow> string + bytes" where
  "socks_sent host port b =
     (if \<not> onion_ok host then Inl ''ONION_REQUIRED''
      else Inr (case socks_state b of
             Waiting \<Rightarrow> socks_greeting
           | Refused e \<Rightarrow> if e = ''SOCKS_AUTH_FAILED'' then socks_greeting
               else socks_greeting @ socks_connect_bytes host port
           | _ \<Rightarrow> socks_greeting @ socks_connect_bytes host port))"

section \<open>Lemmas\<close>

lemma crlf_at_append: "crlf_at s = Some n \<Longrightarrow> crlf_at (s @ t) = Some n"
  by (induction s arbitrary: n rule: crlf_at.induct) (auto split: if_splits)

text \<open>The lines of the whole are those of the first part, then those of its rest with the second.\<close>

lemma take_lines_append:
  "take_lines (s @ t) =
     (case take_lines s of (ls, rest) \<Rightarrow> (case take_lines (rest @ t) of (ms, rest') \<Rightarrow> (ls @ ms, rest')))"
proof (induction s rule: take_lines.induct)
  case (1 s)
  show ?case
  proof (cases "crlf_at s")
    case None
    then show ?thesis by (simp add: take_lines.simps [of s] split: prod.splits)
  next
    case (Some n)
    have n: "n + 2 \<le> length s" by (rule crlf_at_bound [OF Some])
    have "take_lines (drop (n + 2) (s @ t)) = take_lines (drop (n + 2) s @ t)" using n by simp
    with 1 [OF Some] crlf_at_append [OF Some, of t] Some n show ?thesis
      by (simp add: take_lines.simps [of s] take_lines.simps [of "s @ t"] split: prod.splits)
  qed
qed

lemma on_lines_append:
  "on_lines (ls @ ms) t =
     (case on_lines ls t of (t1, e1) \<Rightarrow> (case on_lines ms t1 of (t2, e2) \<Rightarrow> (t2, e1 @ e2)))"
  by (induction ls arbitrary: t) (auto split: prod.splits)

lemma note_event_lines: "note_event l (t\<lparr>tt_lines := r\<rparr>) = (case note_event l t of (t', w) \<Rightarrow> (t'\<lparr>tt_lines := r\<rparr>, w))"
  by (cases t; cases "uploaded_service l"; cases "progress_in l"; simp add: note_event_def Let_def)

lemma on_line_lines: "on_line l (t\<lparr>tt_lines := r\<rparr>) = (case on_line l t of (t', es) \<Rightarrow> (t'\<lparr>tt_lines := r\<rparr>, es))"
  by (simp add: on_line_def note_event_lines Let_def split: prod.splits)

text \<open>The lines do not read the buffer, so it can be set after them.\<close>

lemma on_lines_lines: "on_lines ls (t\<lparr>tt_lines := r\<rparr>) = (case on_lines ls t of (t', es) \<Rightarrow> (t'\<lparr>tt_lines := r\<rparr>, es))"
  by (induction ls arbitrary: t) (simp_all add: on_line_lines split: prod.splits)

lemma on_data_split: "on_data (c @ d) t =
    (case on_data c t of (t1, e1) \<Rightarrow> (case on_data d t1 of (t2, e2) \<Rightarrow> (t2, e1 @ e2)))"
proof -
  obtain ls rest where c: "take_lines (tt_lines t @ c) = (ls, rest)" by (metis surj_pair)
  obtain ms rest' where d: "take_lines (rest @ d) = (ms, rest')" by (metis surj_pair)
  obtain t1 e1 where t1: "on_lines ls t = (t1, e1)" by (metis surj_pair)
  have "take_lines (tt_lines t @ c @ d) = (ls @ ms, rest')"
    using take_lines_append [of "tt_lines t @ c" d] c d by simp
  then show ?thesis
    using c d t1 by (simp add: on_data_def on_lines_append on_lines_lines split: prod.splits)
qed

text \<open>Events do not touch what belongs to commands, and replies only that.\<close>

definition commands_of :: "transport \<Rightarrow> bool \<times> string list" where
  "commands_of t = (tt_waiter t, tt_replies t)"

definition is_settled :: "control_event \<Rightarrow> bool" where
  "is_settled e \<longleftrightarrow> e \<noteq> Wake"

lemma note_event_keeps:
  "tt_stopped (fst (note_event l t)) = tt_stopped t" "commands_of (fst (note_event l t)) = commands_of t"
  by (simp_all add: note_event_def commands_of_def Let_def split: option.splits)

lemma on_line_event: "starts_with ''650'' l \<Longrightarrow>
    filter is_settled (snd (on_line l t)) = [] \<and> commands_of (fst (on_line l t)) = commands_of t"
  using note_event_keeps [of l t] by (auto simp: on_line_def is_settled_def split: prod.splits)

lemma on_line_reply: "\<not> starts_with ''650'' l \<Longrightarrow> commands_of t = commands_of u \<Longrightarrow>
    snd (on_line l t) = snd (on_line l u) \<and> commands_of (fst (on_line l t)) = commands_of (fst (on_line l u))"
  by (auto simp: on_line_def commands_of_def Let_def)

lemma on_lines_settled:
  "commands_of t = commands_of u \<Longrightarrow>
     filter is_settled (snd (on_lines ls t)) =
     filter is_settled (snd (on_lines (filter (\<lambda>l. \<not> starts_with ''650'' l) ls) u))"
proof (induction ls arbitrary: t u)
  case (Cons l ls)
  show ?case
  proof (cases "starts_with ''650'' l")
    case True
    obtain t1 e1 where t1: "on_line l t = (t1, e1)" by (metis surj_pair)
    with on_line_event [OF True, of t] Cons.prems have e: "filter is_settled e1 = []" and c: "commands_of t1 = commands_of u"
      by simp_all
    from e t1 True Cons.IH [OF c] show ?thesis by (simp add: case_prod_beta)
  next
    case False
    obtain t1 e1 where t1: "on_line l t = (t1, e1)" by (metis surj_pair)
    obtain u1 e2 where u1: "on_line l u = (u1, e2)" by (metis surj_pair)
    have e: "e1 = e2" and c: "commands_of t1 = commands_of u1"
      using on_line_reply [OF False Cons.prems] t1 u1 by simp_all
    from e t1 u1 False Cons.IH [OF c] show ?thesis by (simp add: case_prod_beta)
  qed
qed simp

lemma on_line_stopped: "tt_stopped t \<Longrightarrow> Wake \<notin> set (snd (on_line l t)) \<and> tt_stopped (fst (on_line l t))"
  using note_event_keeps(1) [of l t] by (auto simp: on_line_def Let_def split: prod.splits)

lemma on_lines_stopped: "tt_stopped t \<Longrightarrow> Wake \<notin> set (snd (on_lines ls t))"
proof (induction ls arbitrary: t)
  case (Cons l ls)
  obtain t1 e1 where t1: "on_line l t = (t1, e1)" by (metis surj_pair)
  with on_line_stopped [OF Cons.prems, of l] Cons.IH [of t1] show ?case by (simp add: case_prod_beta)
qed simp

text \<open>The reading of a stream in chunks.\<close>

fun on_chunks :: "string list \<Rightarrow> transport \<Rightarrow> transport \<times> control_event list" where
  "on_chunks [] t = (t, [])"
| "on_chunks (c # cs) t =
     (case on_data c t of (t1, e1) \<Rightarrow> (case on_chunks cs t1 of (t2, e2) \<Rightarrow> (t2, e1 @ e2)))"

lemma on_chunks_joined: "on_chunks (c # cs) t = on_data (concat (c # cs)) t"
proof (induction cs arbitrary: c t)
  case Nil
  show ?case by (simp split: prod.splits)
next
  case (Cons d cs)
  have "on_chunks (c # d # cs) t = (case on_data c t of (t1, e1) \<Rightarrow>
      (case on_chunks (d # cs) t1 of (t2, e2) \<Rightarrow> (t2, e1 @ e2)))" by simp
  then show ?case unfolding Cons.IH by (simp add: on_data_split)
qed

section \<open>What the service and the handshake promise\<close>

text \<open>\<open>tor_identity\<close> never changes once it is written, and it is an onion address.\<close>

lemma register_service_ok:
  assumes "register_service answer (db, t) = ((db', t'), Inr ())"
  shows "\<exists>k. l_tor_identity db' = Some (k, tt_onion t')" and "onion_ok (tt_onion t')"
    and "l_tor_identity db \<noteq> None \<Longrightarrow> db' = db"
  using assms by (auto simp: register_service_def Let_def split: if_splits option.splits)

lemma register_service_fails:
  "register_service answer s = (s', Inl e) \<Longrightarrow> s' = s"
  by (cases s) (auto simp: register_service_def Let_def split: if_splits option.splits)

text \<open>The handshake asks for a name, never an address, and only for an onion.\<close>

lemma onion_text: "onion_ok h \<Longrightarrow> length h = 62"
  by (simp add: onion_ok_def)

lemma socks_sent_onion:
  assumes "socks_sent host port b = Inr bs"
  shows "onion_ok host" "bs = socks_greeting \<or> bs = socks_greeting @ socks_connect_bytes host port"
  using assms by (auto simp: socks_sent_def split: if_splits socks.splits)
end
