(* ===== verification/Tor_Peer.thy ===== *)
theory Tor_Peer
  imports Tor_Control
begin

text \<open>
  The second half of \<open>tor-transport.ts\<close>: the requests that peers send to the onion service (\<open>receive\<close>),
  the signed requests that the daemon sends to peers (\<open>request\<close>), and the cleaning of the spool of
  encrypted blobs. The HTTP server, the clock and the random nonce are arguments.
\<close>

section \<open>Signed requests\<close>

definition p2p_signing_bytes :: "string \<Rightarrow> int \<Rightarrow> string \<Rightarrow> string \<Rightarrow> string \<Rightarrow> string \<Rightarrow> bytes" where
  "p2p_signing_bytes sender time nonce meth path body =
     utf8 (json_array [SStr ''cp-onion-request-v1'', SStr sender, SInt time, SStr nonce, SStr meth, SStr path, SStr body])"

text \<open>
  A request as the HTTP server hands it over; \<open>pr_time\<close> is \<open>Number(headers['x-pigeon-time'])\<close> when that is
  a safe integer, and headers that are absent are empty.
\<close>

record peer_request =
  pr_method :: string
  pr_path :: string
  pr_sender :: string
  pr_time :: "int option"
  pr_nonce :: string
  pr_signature :: string
  pr_body :: "bytes list"

text \<open>The body is read in chunks; the loop throws at the first chunk past 768 KiB.\<close>

definition max_peer_body :: nat where
  "max_peer_body = 768 * 1024"

fun read_body :: "nat \<Rightarrow> bytes list \<Rightarrow> string + bytes" where
  "read_body got [] = Inr []"
| "read_body got (c # cs) =
     (if max_peer_body < got + length c then Inl ''BODY_TOO_LARGE''
      else try_then (read_body (got + length c) cs) (\<lambda>b. Inr (c @ b)))"

text \<open>The signature covers the body as bytes: \<open>Buffer.from(body).toString('base64')\<close> of the decoded text.\<close>

definition signed_request :: "daemon_env \<Rightarrow> peer_request \<Rightarrow> int \<Rightarrow> string \<Rightarrow> bytes" where
  "signed_request env q time body =
     p2p_signing_bytes (pr_sender q) time (pr_nonce q) (pr_method q) (pr_path q) (b64_encode (utf8 body))"

definition find_peer :: "string \<Rightarrow> local_db \<Rightarrow> peer_onion option" where
  "find_peer d db = List.find (\<lambda>p. po_device p = d) (l_peer_onions db)"

definition identity_changed :: "string \<Rightarrow> local_db \<Rightarrow> bool" where
  "identity_changed c db \<longleftrightarrow> has_row (\<lambda>x. ct_id x = c \<and> ct_changed x) (l_contacts db)"

definition authenticate_peer :: "daemon_env \<Rightarrow> ms \<Rightarrow> peer_request \<Rightarrow> string \<Rightarrow> local_db \<Rightarrow> string + peer_onion" where
  "authenticate_peer env arrived q body db =
     (case pr_time q of
        None \<Rightarrow> Inl ''UNAUTHORIZED''
      | Some time \<Rightarrow>
          if \<bar>arrived - time\<bar> > 120000 \<or> \<not> is_lower_hex_of 32 (pr_nonce q) then Inl ''UNAUTHORIZED''
          else (case find_peer (pr_sender q) db of
             None \<Rightarrow> Inl ''UNAUTHORIZED''
           | Some p \<Rightarrow>
               if \<not> verify_challenge (dg_verify env) (b64_decode (po_auth p)) (signed_request env q time body)
                     (b64_decode (pr_signature q))
               then Inl ''UNAUTHORIZED''
               else if identity_changed (po_contact p) db then Inl ''IDENTITY_CHANGED''
               else Inr p))"

section \<open>The two requests of peers\<close>

text \<open>\<open>{...envelope, senderId: sender}\<close> after \<open>envelopeSchema.parse\<close>, which drops other keys.\<close>

definition opt_field :: "string \<Rightarrow> ('a \<Rightarrow> json) \<Rightarrow> 'a option \<Rightarrow> (string \<times> json) list" where
  "opt_field k f v = (case v of None \<Rightarrow> [] | Some x \<Rightarrow> [(k, f x)])"

definition capabilities_json :: "capabilities \<Rightarrow> json" where
  "capabilities_json c =
     JObj (opt_field ''supportsWebRtcP2p'' JBool (cap_p2p c) @ [(''protocolVersion'', JInt (cap_version c))])"

definition inbox_json :: "envelope \<Rightarrow> string \<Rightarrow> json" where
  "inbox_json e sender = JObj
     ([(''version'', JInt 1), (''envelopeId'', JStr (env_id e)), (''mailboxId'', JStr (env_mailbox e)),
       (''ciphertext'', JStr (env_ciphertext e))] @
      opt_field ''clientCapabilities'' capabilities_json (env_capabilities e) @
      opt_field ''envelopeType'' JStr (env_type e) @
      opt_field ''ttlMs'' JInt (env_ttl e) @ opt_field ''createdAtMs'' JInt (env_created e) @
      [(''senderId'', JStr sender)])"

definition accept_envelope :: "daemon_env \<Rightarrow> string \<Rightarrow> string \<Rightarrow> string \<Rightarrow> local_db \<Rightarrow> string + local_db" where
  "accept_envelope env device sender body db =
     (case json_parse env body of
        None \<Rightarrow> Inl ''SyntaxError''
      | Some j \<Rightarrow>
          (case envelope_schema (is_uuid env) j of
             None \<Rightarrow> Inl ''ZodError''
           | Some e \<Rightarrow>
               if env_mailbox e \<noteq> device \<or> 512 * 1024 < length (b64_decode (env_ciphertext e))
               then Inl ''INVALID_ENVELOPE''
               else Inr (db\<lparr>l_tor_inbox := insert_ignore fst (env_id e, inbox_json e sender) (l_tor_inbox db)\<rparr>)))"

text \<open>\<open>/^[a-f0-9-]{36}$/\<close> and \<open>/^\\/p2p\\/v1\\/attachments\\/([a-f0-9-]{36})\\/chunks\\/(\\d{1,3})$/\<close>\<close>

definition blob_name :: "string \<Rightarrow> bool" where
  "blob_name s \<longleftrightarrow> length s = 36 \<and> list_all (\<lambda>c. is_hex_lower c \<or> c = CHR ''-'') s"

definition chunk_path :: "string \<Rightarrow> nat option \<Rightarrow> string \<Rightarrow> (string \<times> int) option" where
  "chunk_path prefix most s =
     (let r = drop (length prefix) s; b = take 36 r; ds = drop 44 r
      in if starts_with prefix s \<and> blob_name b \<and> starts_with ''/chunks/'' (drop 36 r) \<and> ds \<noteq> [] \<and>
            list_all is_digit ds \<and> (case most of None \<Rightarrow> True | Some n \<Rightarrow> length ds \<le> n)
         then Some (b, int (read_nat ds)) else None)"

definition peer_chunk_path :: "string \<Rightarrow> (string \<times> int) option" where
  "peer_chunk_path = chunk_path ''/p2p/v1/attachments/'' (Some 3)"

text \<open>The blob belongs to an attachment of a message that was sent to this contact and has not expired.\<close>

definition may_fetch :: "string \<Rightarrow> ms \<Rightarrow> string \<Rightarrow> local_db \<Rightarrow> bool" where
  "may_fetch contact now blob db \<longleftrightarrow>
     has_row (\<lambda>a. has_row (\<lambda>l. fst l = at_id a \<and> snd l = blob) (l_tor_links db) \<and>
       has_row (\<lambda>m. lm_id m = at_message a \<and> lm_direction m = Sent \<and>
           (case lm_disappear m of None \<Rightarrow> True | Some d \<Rightarrow> now < d) \<and>
           has_row (\<lambda>c. co_id c = lm_conversation m \<and> co_contact c = contact) (l_conversations db))
         (l_messages db)) (l_attachments db)"

definition find_chunk :: "string \<Rightarrow> int \<Rightarrow> tor_chunk list \<Rightarrow> tor_chunk option" where
  "find_chunk b i cs = List.find (\<lambda>c. tc_blob c = b \<and> tc_index c = i) cs"

definition chunk_json :: "tor_chunk \<Rightarrow> json" where
  "chunk_json c = JObj [(''nonce'', JStr (tc_nonce c)), (''ciphertext'', JStr (tc_ciphertext c))]"

section \<open>Receiving\<close>

text \<open>What runs serialized, after the body was read; \<open>now\<close> is the clock at the query.\<close>

definition accepted_json :: json where
  "accepted_json = JObj [(''accepted'', JBool True)]"

definition serve_peer ::
  "daemon_env \<Rightarrow> ms \<Rightarrow> ms \<Rightarrow> peer_request \<Rightarrow> string \<Rightarrow> local_db \<times> transport \<Rightarrow> (local_db \<times> transport) \<times> (string + json)" where
  "serve_peer env arrived now q body s =
     (let (db, t) = s
      in if tt_stopped t then (s, Inl ''UNAUTHORIZED'')
         else case authenticate_peer env arrived q body db of
           Inl e \<Rightarrow> (s, Inl e)
         | Inr p \<Rightarrow>
             if pr_method q = ''POST'' \<and> pr_path q = ''/p2p/v1/envelopes''
             then (let t1 = t\<lparr>tt_envelopes := tt_envelopes t + 1\<rparr>
                   in case accept_envelope env (tt_device t) (pr_sender q) body db of
                        Inl e \<Rightarrow> ((db, t1), Inl e) | Inr db' \<Rightarrow> ((db', t1), Inr accepted_json))
             else (case (if pr_method q = ''GET'' then peer_chunk_path (pr_path q) else None) of
                None \<Rightarrow> (s, Inl ''NOT_FOUND'')
              | Some (b, i) \<Rightarrow>
                  (let t1 = t\<lparr>tt_chunks := tt_chunks t + 1\<rparr>
                   in if \<not> may_fetch (po_contact p) now b db then ((db, t1), Inl ''UNAUTHORIZED'')
                      else case find_chunk b i (l_tor_chunks db) of
                             None \<Rightarrow> ((db, t1), Inl ''CHUNK_MISSING'')
                           | Some c \<Rightarrow> ((db, t1), Inr (chunk_json c)))))"

text \<open>The reply is 200 with the result, or an empty 403 after the error is noted.\<close>

definition receive ::
  "daemon_env \<Rightarrow> ms \<Rightarrow> ms \<Rightarrow> peer_request \<Rightarrow> local_db \<times> transport \<Rightarrow> (local_db \<times> transport) \<times> json option" where
  "receive env arrived now q s =
     (let (s', r) = (case read_body 0 (pr_body q) of
            Inl e \<Rightarrow> (s, Inl e) | Inr b \<Rightarrow> serve_peer env arrived now q (utf8_text env b) s)
      in case r of
           Inr j \<Rightarrow> (s', Some j)
         | Inl e \<Rightarrow> ((fst s', (snd s')\<lparr>tt_peer_error := tor_error_code (an_error e)\<rparr>), None))"

section \<open>Sending\<close>

text \<open>
  The request that \<open>request\<close> writes on the connection: its headers are the sender, time, nonce and
  signature. A response past 192 KiB is an error.
\<close>

definition peer_ready :: "string \<Rightarrow> string \<Rightarrow> transport \<Rightarrow> bool" where
  "peer_ready onion path t \<longleftrightarrow> onion_ok onion \<and> starts_with ''/p2p/v1/'' path \<and> \<not> tt_stopped t \<and> tt_boot t = 100"

definition make_request ::
  "(bytes \<Rightarrow> bytes \<Rightarrow> bytes) \<Rightarrow> bytes \<Rightarrow> string \<Rightarrow> ms \<Rightarrow> bytes \<Rightarrow> string \<Rightarrow> string \<Rightarrow> string \<Rightarrow> string \<Rightarrow> transport \<Rightarrow>
     string + peer_request" where
  "make_request sign key device now nonce onion path meth body t =
     (if \<not> peer_ready onion path t then Inl ''TOR_NOT_READY''
      else Inr \<lparr>pr_method = meth, pr_path = path, pr_sender = device, pr_time = Some now,
             pr_nonce = hex_encode nonce,
             pr_signature = b64_encode (sign key (p2p_signing_bytes device now (hex_encode nonce) meth path
               (b64_encode (utf8 body)))),
             pr_body = [utf8 body]\<rparr>)"

fun read_response :: "nat \<Rightarrow> bytes list \<Rightarrow> string + bytes" where
  "read_response got [] = Inr []"
| "read_response got (c # cs) =
     (if 192 * 1024 < got + length c then Inl ''BODY_TOO_LARGE''
      else try_then (read_response (got + length c) cs) (\<lambda>b. Inr (c @ b)))"

section \<open>The spool\<close>

text \<open>
  \<open>json_extract(manifest, '$.blobId')\<close> of a download: \<open>Inl\<close> when the text is not JSON, which makes the
  statement fail, \<open>None\<close> when there is no such key. \<open>x NOT IN (..)\<close> is not true once a value is NULL.
\<close>

definition blob_of_manifest :: "daemon_env \<Rightarrow> string \<Rightarrow> string + json option" where
  "blob_of_manifest env s =
     (case json_parse env s of None \<Rightarrow> Inl ''malformed JSON'' | Some j \<Rightarrow> Inr (case field ''blobId'' j of Some JNull \<Rightarrow> None | v \<Rightarrow> v))"

definition wanted_blobs :: "daemon_env \<Rightarrow> local_db \<Rightarrow> string + json option list" where
  "wanted_blobs env db = try_fold (\<lambda>d acc. try_then (blob_of_manifest env (dl_manifest d)) (\<lambda>b. Inr (acc @ [b]))) (l_downloads db) []"

definition drop_blobs :: "(tor_blob \<Rightarrow> bool) \<Rightarrow> local_db \<Rightarrow> local_db" where
  "drop_blobs p db =
     (let gone = map tb_id (filter p (l_tor_blobs db))
      in db\<lparr>l_tor_blobs := delete_where p (l_tor_blobs db),
            l_tor_chunks := delete_where (\<lambda>c. tc_blob c \<in> set gone) (l_tor_chunks db)\<rparr>)"

definition attachment_exists :: "local_db \<Rightarrow> string \<Rightarrow> bool" where
  "attachment_exists db i \<longleftrightarrow> has_row (\<lambda>a. at_id a = i) (l_attachments db)"

definition cleanup_spool :: "daemon_env \<Rightarrow> ms \<Rightarrow> local_db \<Rightarrow> local_db \<times> (string + unit)" where
  "cleanup_spool env now db =
     (let orphaned = map snd (filter (\<lambda>l. \<not> attachment_exists db (fst l)) (l_tor_links db));
          linked = map snd (l_tor_links db);
          db1 = drop_blobs (\<lambda>b. tb_id b \<in> set orphaned \<or> tb_created b < now - 86400000 \<and> tb_id b \<notin> set linked) db;
          db2 = db1\<lparr>l_tor_links := delete_where (\<lambda>l. \<not> attachment_exists db1 (fst l)) (l_tor_links db1)\<rparr>
      in case wanted_blobs env db2 of
           Inl e \<Rightarrow> (db2, Inl e)
         | Inr bs \<Rightarrow>
             (db2\<lparr>l_tor_downloads := delete_where (\<lambda>c. None \<notin> set bs \<and> Some (JStr (tc_blob c)) \<notin> set bs)
                (l_tor_downloads db2)\<rparr>, Inr ()))"

section \<open>Lemmas\<close>

lemma read_body_ok: "read_body n cs = Inr b \<longleftrightarrow> b = concat cs \<and> (cs \<noteq> [] \<longrightarrow> n + length (concat cs) \<le> max_peer_body)"
proof (induction cs arbitrary: n b)
  case (Cons c cs)
  then show ?case by (cases cs) (auto simp: try_then_Inr_iff)
qed auto

lemma find_peer_Some: "find_peer d db = Some p \<Longrightarrow> p \<in> set (l_peer_onions db) \<and> po_device p = d"
  by (auto simp: find_peer_def dest: find_SomeD)

lemma authenticate_peer_Inr:
  "authenticate_peer env arrived q body db = Inr p \<longleftrightarrow>
     (\<exists>time. pr_time q = Some time \<and> \<bar>arrived - time\<bar> \<le> 120000 \<and> is_lower_hex_of 32 (pr_nonce q) \<and>
        find_peer (pr_sender q) db = Some p \<and>
        verify_challenge (dg_verify env) (b64_decode (po_auth p)) (signed_request env q time body) (b64_decode (pr_signature q)) \<and>
        \<not> identity_changed (po_contact p) db)"
  by (auto simp: authenticate_peer_def split: option.splits)

lemma accept_envelope_Inr:
  "accept_envelope env device sender body db = Inr db' \<longleftrightarrow>
     (\<exists>j e. json_parse env body = Some j \<and> envelope_schema (is_uuid env) j = Some e \<and> env_mailbox e = device \<and>
        length (b64_decode (env_ciphertext e)) \<le> 512 * 1024 \<and>
        db' = db\<lparr>l_tor_inbox := insert_ignore fst (env_id e, inbox_json e sender) (l_tor_inbox db)\<rparr>)"
  by (auto simp: accept_envelope_def split: option.splits)

text \<open>A request sent again within the two minutes finds its envelope stored.\<close>

lemma accept_envelope_twice:
  assumes "accept_envelope env device sender body db = Inr db'"
  shows "accept_envelope env device sender body db' = Inr db'"
proof -
  from assms obtain j e where a: "json_parse env body = Some j" "envelope_schema (is_uuid env) j = Some e"
      "env_mailbox e = device" "length (b64_decode (env_ciphertext e)) \<le> 512 * 1024"
      "db' = db\<lparr>l_tor_inbox := insert_ignore fst (env_id e, inbox_json e sender) (l_tor_inbox db)\<rparr>"
    unfolding accept_envelope_Inr by blast
  have "insert_ignore fst (env_id e, inbox_json e sender) (l_tor_inbox db') = l_tor_inbox db'"
    by (simp add: a(5) insert_ignore_def has_row_def)
  with a(1-4) show ?thesis unfolding accept_envelope_Inr by simp
qed

lemma inbox_json_id: "field ''envelopeId'' (inbox_json e s) = Some (JStr (env_id e))"
  and inbox_json_sender: "field ''senderId'' (inbox_json e s) = Some (JStr s)"
  by (simp_all add: inbox_json_def field_def opt_field_def split: option.splits)

text \<open>What a peer was served.\<close>

lemma serve_peer_Inr:
  assumes "serve_peer env arrived now q body (db, t) = ((db', t'), Inr j)"
  obtains (envelope) p where "authenticate_peer env arrived q body db = Inr p" "j = accepted_json"
      "pr_path q = ''/p2p/v1/envelopes''" "accept_envelope env (tt_device t) (pr_sender q) body db = Inr db'"
    | (chunk) p b i c where "authenticate_peer env arrived q body db = Inr p" "db' = db"
      "peer_chunk_path (pr_path q) = Some (b, i)" "may_fetch (po_contact p) now b db"
      "find_chunk b i (l_tor_chunks db) = Some c" "j = chunk_json c"
  using assms
  by (auto simp: serve_peer_def Let_def split: if_splits sum.splits option.splits)

lemma serve_peer_Inl: "serve_peer env arrived now q body (db, t) = ((db', t'), Inl e) \<Longrightarrow> db' = db"
  by (auto simp: serve_peer_def Let_def split: if_splits sum.splits option.splits)

lemma receive_Some:
  "receive env arrived now q s = (s', Some j) \<Longrightarrow>
     serve_peer env arrived now q (utf8_text env (concat (pr_body q))) s = (s', Inr j) \<and>
     length (concat (pr_body q)) \<le> max_peer_body"
  by (auto simp: receive_def Let_def read_body_ok split: sum.splits prod.splits)

lemma receive_None: "receive env arrived now q (db, t) = (s', None) \<Longrightarrow> fst s' = db"
  by (auto simp: receive_def Let_def split: sum.splits prod.splits dest: serve_peer_Inl)

text \<open>What the cleaning leaves.\<close>

lemma drop_blobs_fields:
  "l_tor_blobs (drop_blobs p db) = delete_where p (l_tor_blobs db)"
  "l_tor_links (drop_blobs p db) = l_tor_links db" "l_attachments (drop_blobs p db) = l_attachments db"
  "l_downloads (drop_blobs p db) = l_downloads db" "l_tor_downloads (drop_blobs p db) = l_tor_downloads db"
  by (simp_all add: drop_blobs_def Let_def)
end
