(* ===== verification/Tor_Routing.thy ===== *)
theory Tor_Routing
  imports Tor_Peer
begin

text \<open>
  \<open>tor-routing.ts\<close>, the two preparing functions of \<open>server.ts\<close> that it calls, and \<open>tor-recovery.ts\<close>: which
  requests of the daemon are served from the local spool, which go to a peer in the background, and which
  fall through to the relay. The background jobs are split where they await something outside, each part
  being what runs serialized; the answers of the peer and of the relay are arguments.
\<close>

section \<open>State\<close>

datatype tor_mode = Direct_Tor | Hybrid_Tor | Relay_Only

text \<open>
  \<open>rt_session\<close> stands for the identity of the transport object and of the open database: a job that began
  in another session does nothing more. The two preparing functions are set by \<open>server.ts\<close>
  (\<open>rt_prepares\<close>); a job is named by its envelope id, or by \<open>blob:\<close> and the id of the blob.
  The last four are \<open>server.ts\<close>'s: whether the mode of the open database was read (\<open>torDatabase\<close>),
  \<open>torStarting\<close>, \<open>torRetryAt\<close> and \<open>torGeneration\<close>.
\<close>

record routing =
  rt_mode :: tor_mode
  rt_transport :: "transport option"
  rt_session :: nat
  rt_prepares :: bool
  rt_jobs :: "string list"
  rt_error :: string
  rt_loaded :: bool
  rt_starting :: bool
  rt_retry :: ms
  rt_generation :: nat

definition new_routing :: routing where
  "new_routing =
     \<lparr>rt_mode = Direct_Tor, rt_transport = None, rt_session = 0, rt_prepares = True, rt_jobs = [], rt_error = [],
      rt_loaded = False, rt_starting = False, rt_retry = 0, rt_generation = 0\<rparr>"

definition serverless :: "routing \<Rightarrow> bool" where
  "serverless r \<longleftrightarrow> (case rt_transport r of None \<Rightarrow> False | Some t \<Rightarrow> st_serverless (tor_status t))"

definition mode_of :: "string option \<Rightarrow> tor_mode" where
  "mode_of s = (if s = Some ''HYBRID_TOR_RELAY'' then Hybrid_Tor else if s = Some ''RELAY_ONLY'' then Relay_Only else Direct_Tor)"

section \<open>Routing a request\<close>

text \<open>
  A request that the relay has to answer is \<open>To_Relay\<close> with the body it then has; otherwise the answer
  is made here. \<open>Inl\<close> is an exception.
\<close>

datatype routed = To_Relay json | Answer nat json

text \<open>Acknowledged ids that were not received over Tor are left for the relay.\<close>

definition ack_inbox :: "string list \<Rightarrow> local_db \<Rightarrow> local_db \<times> string list" where
  "ack_inbox ids db =
     fold (\<lambda>i (d, rest). if has_row (\<lambda>x. fst x = i) (l_tor_inbox d)
            then (d\<lparr>l_tor_inbox := delete_where (\<lambda>x. fst x = i) (l_tor_inbox d)\<rparr>, rest) else (d, rest @ [i]))
       ids (db, [])"

definition ids_json :: "string list \<Rightarrow> json" where
  "ids_json ids = JObj [(''envelopeIds'', JArr (map JStr ids))]"

definition blob_ok :: "json \<Rightarrow> (string \<times> int \<times> int) option" where
  "blob_ok body = do {
     b \<leftarrow> required ''blobId'' (string_where blob_name) body;
     n \<leftarrow> required ''chunkCount'' (\<lambda>j. case j of JInt n \<Rightarrow> if 1 \<le> n \<and> n \<le> 400 then Some n else None | _ \<Rightarrow> None) body;
     s \<leftarrow> required ''totalSize'' (\<lambda>j. case j of JInt n \<Rightarrow> if 0 \<le> n \<and> n \<le> 25 * 1024 * 1024 then Some n else None | _ \<Rightarrow> None) body;
     if n = max 1 ((s + 65535) div 65536) then Some (b, n, s) else None }"

definition spool_blob :: "ms \<Rightarrow> json \<Rightarrow> local_db \<Rightarrow> string + local_db" where
  "spool_blob now body db =
     (case blob_ok body of
        None \<Rightarrow> Inl ''INVALID_BLOB''
      | Some (b, n, s) \<Rightarrow>
          if has_row (\<lambda>x. tb_id x = b) (l_tor_blobs db) then Inl ''UNIQUE''
          else Inr (db\<lparr>l_tor_blobs := l_tor_blobs db @ [\<lparr>tb_id = b, tb_chunks = n, tb_size = s, tb_created = now\<rparr>]\<rparr>))"

definition chunk_ok :: "int \<Rightarrow> json \<Rightarrow> (int \<times> string \<times> string) option" where
  "chunk_ok count body = do {
     i \<leftarrow> required ''chunkIndex'' (\<lambda>j. case j of JInt n \<Rightarrow> if 0 \<le> n \<and> n < count then Some n else None | _ \<Rightarrow> None) body;
     n \<leftarrow> required ''nonce'' (string_where (\<lambda>s. length (b64_decode s) = 12)) body;
     c \<leftarrow> required ''ciphertext'' (string_where (\<lambda>s. 16 \<le> length (b64_decode s) \<and> length (b64_decode s) \<le> 65552)) body;
     Some (i, n, c) }"

definition spool_chunk :: "string \<Rightarrow> json \<Rightarrow> local_db \<Rightarrow> string + local_db" where
  "spool_chunk b body db =
     (case List.find (\<lambda>x. tb_id x = b) (l_tor_blobs db) of
        None \<Rightarrow> Inl ''INVALID_CHUNK''
      | Some m \<Rightarrow>
          (case chunk_ok (tb_chunks m) body of
             None \<Rightarrow> Inl ''INVALID_CHUNK''
           | Some (i, n, c) \<Rightarrow>
               if find_chunk b i (l_tor_chunks db) \<noteq> None then Inl ''UNIQUE''
               else Inr (db\<lparr>l_tor_chunks := l_tor_chunks db @ [\<lparr>tc_blob = b, tc_index = i, tc_nonce = n, tc_ciphertext = c\<rparr>]\<rparr>)))"

text \<open>\<open>/^\\/api\\/attachments\\/([a-f0-9-]{36})\\/chunks$/\<close>, \<open>.../chunks/(\\d+)$\<close> and the blob itself.\<close>

definition attachments_url :: string where
  "attachments_url = ''/api/attachments/''"

definition chunks_path :: "string \<Rightarrow> string option" where
  "chunks_path s =
     (let r = drop 17 s in if starts_with attachments_url s \<and> blob_name (take 36 r) \<and> drop 36 r = ''/chunks''
      then Some (take 36 r) else None)"

definition relay_chunk_path :: "string \<Rightarrow> (string \<times> int) option" where
  "relay_chunk_path = chunk_path attachments_url None"

definition blob_path :: "string \<Rightarrow> string option" where
  "blob_path s = (if starts_with attachments_url s \<and> blob_name (drop 17 s) then Some (drop 17 s) else None)"

text \<open>The downloads with the device that the attachment came from.\<close>

definition download_sources :: "local_db \<Rightarrow> (string \<times> string) list" where
  "download_sources db =
     [(dl_manifest d, rm_device r).
        d \<leftarrow> l_downloads db, a \<leftarrow> l_attachments db, at_id a = dl_attachment d,
        m \<leftarrow> l_messages db, lm_id m = at_message a,
        c \<leftarrow> l_conversations db, co_id c = lm_conversation m,
        r \<leftarrow> l_remotes db, rm_contact r = co_contact c]"

fun find_source :: "daemon_env \<Rightarrow> string \<Rightarrow> (string \<times> string) list \<Rightarrow> string + (string \<times> string) option" where
  "find_source env b [] = Inr None"
| "find_source env b (s # ss) =
     (case json_parse env (fst s) of
        None \<Rightarrow> Inl ''SyntaxError''
      | Some j \<Rightarrow> if field ''blobId'' j = Some (JStr b) then Inr (Some s) else find_source env b ss)"

definition start_job :: "string \<Rightarrow> routing \<Rightarrow> routing" where
  "start_job k r = r\<lparr>rt_jobs := List.insert k (rt_jobs r)\<rparr>"

definition route_send :: "json \<Rightarrow> local_db \<times> routing \<Rightarrow> (local_db \<times> routing) \<times> (string + routed)" where
  "route_send body s =
     (let (db, r) = s
      in case (required ''mailboxId'' as_string body, required ''envelopeId'' as_string body) of
           (Some m, Some e) \<Rightarrow>
             if find_peer m db \<noteq> None \<and> serverless r \<or> rt_mode r = Hybrid_Tor \<and> rt_prepares r
             then ((db, start_job e r), Inr (Answer 503 JNull))
             else if rt_mode r = Hybrid_Tor then (s, Inr (To_Relay body)) else (s, Inr (Answer 503 JNull))
         | _ \<Rightarrow> (s, Inl ''TypeError''))"

definition route_download ::
  "daemon_env \<Rightarrow> string \<Rightarrow> int \<Rightarrow> json \<Rightarrow> local_db \<times> routing \<Rightarrow> (local_db \<times> routing) \<times> (string + routed)" where
  "route_download env b i body s =
     (let (db, r) = s
      in case find_chunk b i (l_tor_downloads db) of
           Some c \<Rightarrow> (s, Inr (Answer 200 (chunk_json c)))
         | None \<Rightarrow>
             (case find_source env b (download_sources db) of
                Inl e \<Rightarrow> (s, Inl e)
              | Inr src \<Rightarrow>
                  if (case src of None \<Rightarrow> False | Some (_, d) \<Rightarrow> find_peer d db \<noteq> None) \<and> serverless r
                  then ((db, start_job (''blob:'' @ b) r), Inr (Answer 503 JNull))
                  else if rt_mode r = Hybrid_Tor then (s, Inr (To_Relay body)) else (s, Inl ''PEER_ONION_MISSING'')))"

definition on_spool :: "(local_db \<Rightarrow> string + local_db) \<Rightarrow> local_db \<times> routing \<Rightarrow> (local_db \<times> routing) \<times> (string + routed)" where
  "on_spool f s =
     (case f (fst s) of Inl e \<Rightarrow> (s, Inl e)
      | Inr db \<Rightarrow> ((db, snd s), Inr (Answer 200 (JObj [(''ok'', JBool True)]))))"

definition route ::
  "daemon_env \<Rightarrow> ms \<Rightarrow> string \<Rightarrow> string \<Rightarrow> json \<Rightarrow> local_db \<times> routing \<Rightarrow> (local_db \<times> routing) \<times> (string + routed)" where
  "route env now path meth body s =
     (let (db, r) = s
      in if rt_mode r = Relay_Only then (s, Inr (To_Relay body))
         else if path = ''/api/messages/pending'' then
           (let incoming = take 256 (map snd (l_tor_inbox db))
            in (s, Inr (if incoming \<noteq> [] \<or> rt_mode r = Direct_Tor then Answer 200 (JArr incoming) else To_Relay body)))
         else if path = ''/api/messages/ack'' then
           (case required ''envelopeIds'' (array_of as_string) body of
              None \<Rightarrow> (s, Inl ''TypeError'')
            | Some ids \<Rightarrow>
                (let (db', rest) = ack_inbox ids db
                 in ((db', r), Inr (if rt_mode r = Hybrid_Tor \<and> rest \<noteq> [] then To_Relay (ids_json rest) else Answer 204 JNull))))
         else if path = ''/api/messages/send'' then route_send body s
         else if path = ''/api/attachments/upload'' \<and> meth = ''POST'' then on_spool (spool_blob now body) s
         else if chunks_path path \<noteq> None \<and> meth = ''POST'' then on_spool (spool_chunk (the (chunks_path path)) body) s
         else if relay_chunk_path path \<noteq> None \<and> meth = ''GET'' then
           (case the (relay_chunk_path path) of (b, i) \<Rightarrow> route_download env b i body s)
         else if blob_path path \<noteq> None \<and> meth = ''DELETE'' then
           ((db\<lparr>l_tor_downloads := delete_where (\<lambda>c. tc_blob c = the (blob_path path)) (l_tor_downloads db)\<rparr>, r),
            Inr (Answer 204 JNull))
         else if rt_mode r = Direct_Tor then (s, Inl ''RELAY_DISABLED_IN_DIRECT_MODE'')
         else (s, Inr (To_Relay body)))"

section \<open>Starting and stopping\<close>

definition close_option :: "transport option \<Rightarrow> transport option" where
  "close_option = map_option (\<lambda>t. fst (close_transport t))"

definition without_transport :: "routing \<Rightarrow> routing" where
  "without_transport r = r\<lparr>rt_transport := None, rt_session := Suc (rt_session r)\<rparr>"

definition stop_tor :: "routing \<Rightarrow> routing" where
  "stop_tor r = (without_transport r)\<lparr>rt_generation := Suc (rt_generation r), rt_loaded := False, rt_retry := 0\<rparr>"

text \<open>\<open>awake\<close>: the vault is open, not quick-locked, and no decoy.\<close>

definition load_mode :: "local_db \<Rightarrow> routing \<Rightarrow> routing" where
  "load_mode db r = (if rt_loaded r then r else r\<lparr>rt_mode := mode_of (l_tor_mode db), rt_loaded := True\<rparr>)"

definition forget_stopped :: "routing \<Rightarrow> routing" where
  "forget_stopped r =
     (case rt_transport r of None \<Rightarrow> r | Some t \<Rightarrow> if tt_stopped t then without_transport r else r)"

definition ensure_tor :: "bool \<Rightarrow> ms \<Rightarrow> string \<Rightarrow> local_db \<Rightarrow> routing \<Rightarrow> routing" where
  "ensure_tor awake now device db r =
     (if \<not> awake then r
      else let r1 = forget_stopped (load_mode db r)
           in if rt_mode r1 = Relay_Only \<or> rt_transport r1 \<noteq> None \<or> rt_starting r1 \<or> now < rt_retry r1 then r1
              else r1\<lparr>rt_starting := True, rt_transport := Some (new_transport\<lparr>tt_device := device\<rparr>),
                      rt_session := Suc (rt_session r1)\<rparr>)"

text \<open>The start that began in \<open>generation\<close>, with \<open>session\<close> naming its transport, ends.\<close>

definition tor_started :: "nat \<Rightarrow> nat \<Rightarrow> bool \<Rightarrow> ms \<Rightarrow> routing \<Rightarrow> routing" where
  "tor_started generation session fine now r =
     (let r1 = r\<lparr>rt_starting := False\<rparr>
      in if fine then r1
         else (if rt_session r = session then without_transport r1 else r1)\<lparr>rt_retry := now + 30000\<rparr>)"

definition set_mode :: "tor_mode \<Rightarrow> bool \<Rightarrow> ms \<Rightarrow> string \<Rightarrow> local_db \<times> routing \<Rightarrow> local_db \<times> routing" where
  "set_mode m awake now device s =
     (let db = (fst s)\<lparr>l_tor_mode := Some (case m of Direct_Tor \<Rightarrow> ''DIRECT_TOR_P2P'' | Hybrid_Tor \<Rightarrow> ''HYBRID_TOR_RELAY''
              | Relay_Only \<Rightarrow> ''RELAY_ONLY'')\<rparr>
      in (db, ensure_tor awake now device db (stop_tor (snd s))))"

section \<open>The job that sends an envelope\<close>

text \<open>The job goes on only while its transport is still the one in use, not stopped, on the same database.\<close>

definition same_session :: "nat \<Rightarrow> routing \<Rightarrow> bool" where
  "same_session session r \<longleftrightarrow>
     rt_session r = session \<and> (case rt_transport r of None \<Rightarrow> True | Some t \<Rightarrow> \<not> tt_stopped t)"

text \<open>
  \<open>prepareRelay\<close>: what goes to the relay for an envelope: the blobs of its attachments with all their
  chunks, then the envelope. Nothing is prepared for a locked vault or in another mode.
\<close>

type_synonym relay_post = "string \<times> json"

definition outgoing_blobs :: "string \<Rightarrow> local_db \<Rightarrow> tor_blob list" where
  "outgoing_blobs e db =
     [b. b \<leftarrow> l_tor_blobs db, l \<leftarrow> l_tor_links db, snd l = tb_id b,
         a \<leftarrow> l_attachments db, at_id a = fst l, q \<leftarrow> l_outbox db, og_message q = at_message a, og_envelope q = e]"

definition blob_posts :: "local_db \<Rightarrow> tor_blob \<Rightarrow> string + relay_post list" where
  "blob_posts db b =
     (let parts = sort_key tc_index (filter (\<lambda>c. tc_blob c = tb_id b) (l_tor_chunks db))
      in if int (length parts) \<noteq> tb_chunks b then Inl ''CHUNKS_INCOMPLETE''
         else Inr ((attachments_url @ ''upload'',
                    JObj [(''blobId'', JStr (tb_id b)), (''chunkCount'', JInt (tb_chunks b)), (''totalSize'', JInt (tb_size b))]) #
                map (\<lambda>c. (attachments_url @ tb_id b @ ''/chunks'',
                    JObj [(''chunkIndex'', JInt (tc_index c)), (''nonce'', JStr (tc_nonce c)), (''ciphertext'', JStr (tc_ciphertext c))]))
                  parts))"

definition relay_posts :: "string \<Rightarrow> json \<Rightarrow> local_db \<Rightarrow> string + relay_post list" where
  "relay_posts e body db =
     try_then (try_fold (\<lambda>b acc. try_then (blob_posts db b) (\<lambda>ps. Inr (acc @ ps))) (outgoing_blobs e db) []) (\<lambda>ps.
     Inr (ps @ [(''/api/messages/send'', body)]))"

definition prepare_relay :: "nat \<Rightarrow> bool \<Rightarrow> string \<Rightarrow> json \<Rightarrow> local_db \<times> routing \<Rightarrow> string + relay_post list option" where
  "prepare_relay session unlocked e body s =
     (let (db, r) = s
      in if \<not> rt_prepares r \<or> \<not> same_session session r \<or> \<not> unlocked \<or> rt_mode r \<noteq> Hybrid_Tor then Inr None
         else try_then (relay_posts e body db) (\<lambda>ps. Inr (Some ps)))"

text \<open>The prepared posts go out in order, each while the generation is the same, up to the first refusal.\<close>

fun run_posts :: "(relay_post \<Rightarrow> bool) \<Rightarrow> (relay_post \<Rightarrow> bool) \<Rightarrow> relay_post list \<Rightarrow> relay_post list \<times> bool" where
  "run_posts same answer [] = ([], False)"
| "run_posts same answer (p # ps) =
     (if \<not> same p then ([], False)
      else if \<not> answer p then ([p], False)
      else if ps = [] then ([p], True)
      else (case run_posts same answer ps of (qs, done1) \<Rightarrow> (p # qs, done1)))"

definition settle_envelope :: "string \<Rightarrow> local_db \<Rightarrow> local_db" where
  "settle_envelope e db =
     (let ms = map og_message (filter (\<lambda>q. og_envelope q = e) (l_outbox db))
      in db\<lparr>l_messages := update_where (\<lambda>m. lm_id m \<in> set ms \<and> lm_status m = ''queued'') (\<lambda>m. m\<lparr>lm_status := ''sent''\<rparr>) (l_messages db),
            l_outbox := delete_where (\<lambda>q. og_envelope q = e) (l_outbox db),
            l_controls := delete_where (\<lambda>q. cb_envelope q = e) (l_controls db)\<rparr>)"

text \<open>The end of a job: settled when the peer or the relay accepted, and no longer running.\<close>

definition finish_send :: "nat \<Rightarrow> string \<Rightarrow> bool \<Rightarrow> local_db \<times> routing \<Rightarrow> local_db \<times> routing" where
  "finish_send session e granted s =
     (if granted \<and> same_session session (snd s) then settle_envelope e (fst s) else fst s,
      (snd s)\<lparr>rt_jobs := removeAll e (rt_jobs (snd s))\<rparr>)"

section \<open>The job that fetches a blob\<close>

text \<open>
  What came back for a chunk: an exception with its code, or a status with the body. A chunk that the peer
  does not give may be asked of the relay, in the hybrid mode only.
\<close>

datatype chunk_answer = Lost string | Got nat json

definition is_ok :: "chunk_answer \<Rightarrow> bool" where
  "is_ok a \<longleftrightarrow> (case a of Lost _ \<Rightarrow> False | Got n _ \<Rightarrow> 200 \<le> n \<and> n < 300)"

definition asks_relay :: "nat \<Rightarrow> bool \<Rightarrow> chunk_answer \<Rightarrow> routing \<Rightarrow> bool" where
  "asks_relay session unlocked peer r \<longleftrightarrow>
     \<not> is_ok peer \<and> rt_mode r = Hybrid_Tor \<and> rt_prepares r \<and> same_session session r \<and> unlocked"

definition read_chunk :: "manifest \<Rightarrow> int \<Rightarrow> chunk_answer \<Rightarrow> string \<Rightarrow> string + tor_chunk" where
  "read_chunk m i a last_error =
     (case a of
        Lost e \<Rightarrow> Inl (if last_error \<noteq> [] then last_error else ''CHUNK_UNAVAILABLE'')
      | Got n j \<Rightarrow>
          if \<not> is_ok a then Inl (''CHUNK_HTTP_'' @ show_nat n)
          else (case (field ''nonce'' j, field ''ciphertext'' j) of
                  (Some (JStr nonce), Some (JStr c)) \<Rightarrow>
                    if nonce \<noteq> mf_nonces m ! nat i \<or> 65552 < length (b64_decode c) then Inl ''INVALID_CHUNK''
                    else Inr \<lparr>tc_blob = mf_blob m, tc_index = i, tc_nonce = nonce, tc_ciphertext = c\<rparr>
                | _ \<Rightarrow> Inl ''INVALID_CHUNK''))"

definition keep_chunk :: "nat \<Rightarrow> tor_chunk \<Rightarrow> local_db \<times> routing \<Rightarrow> string + local_db" where
  "keep_chunk session c s =
     (if \<not> same_session session (snd s) then Inl ''VAULT_SESSION_CHANGED''
      else Inr ((fst s)\<lparr>l_tor_downloads :=
             delete_where (\<lambda>x. tc_blob x = tc_blob c \<and> tc_index x = tc_index c) (l_tor_downloads (fst s)) @ [c]\<rparr>))"

text \<open>\<open>lastTransferError\<close> after a job: none, or a short code.\<close>

definition transfer_error :: "string option \<Rightarrow> string" where
  "transfer_error e =
     (case e of None \<Rightarrow> [] | Some m \<Rightarrow>
        if m \<noteq> [] \<and> length m \<le> 64 \<and> list_all (\<lambda>c. is_upper c \<or> is_digit c \<or> c = CHR ''_'') m then m
        else ''TOR_CHUNK_PERSIST_FAILED'')"

definition fetch_part ::
  "nat \<Rightarrow> bool \<Rightarrow> manifest \<Rightarrow> int \<Rightarrow> chunk_answer \<Rightarrow> chunk_answer \<Rightarrow> local_db \<times> routing \<Rightarrow> (local_db \<times> routing) \<times> (string + unit)" where
  "fetch_part session unlocked m i peer relay s =
     (let (db, r) = s;
          r1 = (case peer of Lost e \<Rightarrow> r\<lparr>rt_error := e\<rparr> | _ \<Rightarrow> r);
          a = (if asks_relay session unlocked peer r then relay else peer)
      in case try_then (if asks_relay session unlocked peer r then (case relay of Lost e \<Rightarrow> Inl e | _ \<Rightarrow> Inr ()) else Inr ())
             (\<lambda>_. try_then (read_chunk m i a (rt_error r1)) (\<lambda>c. keep_chunk session c s)) of
           Inl e \<Rightarrow> ((db, r1), Inl e)
         | Inr db' \<Rightarrow> ((db', r1), Inr ()))"

fun fetch_blob ::
  "nat \<Rightarrow> bool \<Rightarrow> manifest \<Rightarrow> (int \<Rightarrow> chunk_answer) \<Rightarrow> (int \<Rightarrow> chunk_answer) \<Rightarrow> int list \<Rightarrow> local_db \<times> routing \<Rightarrow> local_db \<times> routing" where
  "fetch_blob session unlocked m peer relay [] s =
     (fst s, (snd s)\<lparr>rt_error := [], rt_jobs := removeAll (''blob:'' @ mf_blob m) (rt_jobs (snd s))\<rparr>)"
| "fetch_blob session unlocked m peer relay (i # is) s =
     (case fetch_part session unlocked m i (peer i) (relay i) s of
        (s', Inr ()) \<Rightarrow> fetch_blob session unlocked m peer relay is s'
      | (s', Inl e) \<Rightarrow>
          (fst s', (snd s')\<lparr>rt_error := transfer_error (Some e), rt_jobs := removeAll (''blob:'' @ mf_blob m) (rt_jobs (snd s'))\<rparr>))"

section \<open>Waking the queues\<close>

text \<open>\<open>tor-recovery.ts\<close>: \<open>wu_running\<close> counts the retries that have begun and not ended.\<close>

record wakeup =
  wu_pending :: bool
  wu_closed :: bool
  wu_scheduled :: nat
  wu_running :: nat

definition new_wakeup :: wakeup where
  "new_wakeup = \<lparr>wu_pending = False, wu_closed = False, wu_scheduled = 0, wu_running = 0\<rparr>"

definition wake_up :: "wakeup \<Rightarrow> wakeup" where
  "wake_up w = (if wu_closed w \<or> wu_pending w then w else w\<lparr>wu_pending := True, wu_scheduled := Suc (wu_scheduled w)\<rparr>)"

definition wakeup_fires :: "wakeup \<Rightarrow> wakeup" where
  "wakeup_fires w =
     (if wu_scheduled w = 0 then w
      else if wu_closed w then w\<lparr>wu_scheduled := wu_scheduled w - 1, wu_pending := False\<rparr>
      else w\<lparr>wu_scheduled := wu_scheduled w - 1, wu_running := Suc (wu_running w)\<rparr>)"

definition retry_ends :: "wakeup \<Rightarrow> wakeup" where
  "retry_ends w = (if wu_running w = 0 then w else w\<lparr>wu_running := wu_running w - 1, wu_pending := False\<rparr>)"

definition wakeup_close :: "wakeup \<Rightarrow> wakeup" where
  "wakeup_close w = w\<lparr>wu_closed := True\<rparr>"

section \<open>Lemmas\<close>

text \<open>Nothing is left to the relay in the direct mode; everything is in the relay mode.\<close>

definition stays_local :: "(local_db \<times> routing) \<times> (string + routed) \<Rightarrow> bool" where
  "stays_local x \<longleftrightarrow> (case snd x of Inr (To_Relay _) \<Rightarrow> False | _ \<Rightarrow> True)"

lemma stays_local_if: "(c \<Longrightarrow> stays_local a) \<Longrightarrow> (\<not> c \<Longrightarrow> stays_local b) \<Longrightarrow> stays_local (if c then a else b)"
  by simp

lemma stays_local_value: "stays_local (s, Inl e)" "stays_local (s, Inr (Answer n j))"
  by (simp_all add: stays_local_def)

lemma stays_local_spool: "stays_local (on_spool f s)"
  by (simp add: on_spool_def stays_local_def split: sum.split)

lemma stays_local_send: "rt_mode r = Direct_Tor \<Longrightarrow> stays_local (route_send body (db, r))"
  by (simp add: route_send_def stays_local_def split: option.split)

lemma stays_local_download: "rt_mode r = Direct_Tor \<Longrightarrow> stays_local (route_download env n i body (db, r))"
  by (simp add: route_download_def stays_local_def split: option.split sum.split)

lemmas stays_local_rules = stays_local_if stays_local_value stays_local_spool stays_local_send stays_local_download

lemma route_direct:
  assumes r: "rt_mode r = Direct_Tor"
  shows "stays_local (route env now path meth body (db, r))"
proof -
  have pending: "stays_local ((db, r), Inr (if c \<or> rt_mode r = Direct_Tor then Answer 200 j else To_Relay body))" for c j
    using r by (simp add: stays_local_def)
  have ack: "stays_local ((d, r), Inr (if rt_mode r = Hybrid_Tor \<and> c then To_Relay j else Answer 204 JNull))" for d c j
    using r by (simp add: stays_local_def)
  have acks: "stays_local (case x of None \<Rightarrow> (s, Inl e) | Some ids \<Rightarrow> (case ack_inbox ids db of (d, rest) \<Rightarrow>
      ((d, r), Inr (if rt_mode r = Hybrid_Tor \<and> rest \<noteq> [] then To_Relay (ids_json rest) else Answer 204 JNull))))" for x s e
    using ack by (simp add: stays_local_value split: option.split prod.split)
  have fetch: "stays_local (case x of (n, i) \<Rightarrow> route_download env n i body (db, r))" for x
    using stays_local_download [OF r] by (simp split: prod.split)
  show ?thesis
    unfolding route_def Let_def prod.case
    by (intro stays_local_if pending acks fetch stays_local_value stays_local_spool stays_local_send r)
      (use r in simp_all)
qed

lemma route_relay_only: "rt_mode (snd s) = Relay_Only \<Longrightarrow> route env now path meth body s = (s, Inr (To_Relay body))"
  by (cases s) (simp only: route_def Let_def prod.case snd_conv if_True simp_thms)

lemma prepare_relay_mode: "prepare_relay session unlocked e body s = Inr (Some ps) \<Longrightarrow>
    rt_mode (snd s) = Hybrid_Tor \<and> same_session session (snd s) \<and> relay_posts e body (fst s) = Inr ps"
  by (auto simp: prepare_relay_def try_then_Inr_iff split: prod.splits if_splits)

lemma asks_relay_mode: "asks_relay session unlocked a r \<Longrightarrow> rt_mode r = Hybrid_Tor"
  by (simp add: asks_relay_def)

text \<open>Acknowledging: the named rows go, the ids without a row are handed on.\<close>

definition without_inbox :: "string set \<Rightarrow> local_db \<Rightarrow> local_db" where
  "without_inbox is db = db\<lparr>l_tor_inbox := delete_where (\<lambda>x. fst x \<in> is) (l_tor_inbox db)\<rparr>"

lemma without_inbox_twice: "without_inbox A (without_inbox B db) = without_inbox (A \<union> B) db"
proof -
  have "delete_where (\<lambda>x. fst x \<in> A) (delete_where (\<lambda>x. fst x \<in> B) rs) = delete_where (\<lambda>x. fst x \<in> A \<union> B) rs"
    for rs :: "(string \<times> json) list"
    by (induction rs) (simp_all add: delete_where_def)
  then show ?thesis by (simp add: without_inbox_def)
qed

lemma without_inbox_absent: "i \<notin> fst ` set (l_tor_inbox db) \<Longrightarrow> without_inbox {i} db = db"
proof -
  have "i \<notin> fst ` set rs \<Longrightarrow> delete_where (\<lambda>x. fst x \<in> {i}) rs = rs" for rs :: "(string \<times> json) list"
    by (induction rs) (auto simp: delete_where_def)
  then show "i \<notin> fst ` set (l_tor_inbox db) \<Longrightarrow> ?thesis" by (simp add: without_inbox_def)
qed

definition ack_one :: "string \<Rightarrow> local_db \<times> string list \<Rightarrow> local_db \<times> string list" where
  "ack_one i s = (if has_row (\<lambda>x. fst x = i) (l_tor_inbox (fst s)) then (without_inbox {i} (fst s), snd s) else (fst s, snd s @ [i]))"

lemma ack_one_db: "fst (ack_one i s) = without_inbox {i} (fst s)"
proof (cases "has_row (\<lambda>x. fst x = i) (l_tor_inbox (fst s))")
  case False
  then have "i \<notin> fst ` set (l_tor_inbox (fst s))" by (auto simp: has_row_iff)
  with False show ?thesis by (simp add: ack_one_def without_inbox_absent)
qed (simp add: ack_one_def)

lemma ack_inbox_fold: "ack_inbox ids db = fold ack_one ids (db, [])"
proof -
  have "(\<lambda>i (d, rest). if has_row (\<lambda>x. fst x = i) (l_tor_inbox d)
            then (d\<lparr>l_tor_inbox := delete_where (\<lambda>x. fst x = i) (l_tor_inbox d)\<rparr>, rest) else (d, rest @ [i])) = ack_one"
    by (rule ext, rule ext) (simp add: ack_one_def without_inbox_def split: prod.split)
  then show ?thesis by (simp only: ack_inbox_def)
qed

lemma ack_inbox_db: "fst (ack_inbox ids db) = without_inbox (set ids) db"
proof -
  have "fst (fold ack_one ids s) = without_inbox (set ids) (fst s)" for s
  proof (induction ids arbitrary: s)
    case Nil
    show ?case by (simp add: without_inbox_def delete_where_def)
  next
    case (Cons i ids)
    then show ?case by (simp add: ack_one_db without_inbox_twice)
  qed
  then show ?thesis by (simp add: ack_inbox_fold)
qed
end
