(* ===== verification/Tor_System.thy ===== *)
theory Tor_System
  imports Tor_Routing
begin

text \<open>
  The onion transport and the routing as one machine: the serialized parts of requests, peers, jobs,
  control data and settings in any order, with a log of what was received, acknowledged, accepted and
  handed to the relay. The theorems on it are the promises of the three modes.
\<close>

section \<open>The machine\<close>

datatype tor_event = Received string json | Acked "string list" | Relayed tor_mode string | Accepted string | Mode_Set tor_mode

definition acked_ids :: "routing \<Rightarrow> string \<Rightarrow> json \<Rightarrow> string list" where
  "acked_ids r path body =
     (if rt_mode r = Relay_Only \<or> path \<noteq> ''/api/messages/ack'' then []
      else case required ''envelopeIds'' (array_of as_string) body of None \<Rightarrow> [] | Some ids \<Rightarrow> ids)"

definition relayed :: "tor_mode \<Rightarrow> string \<Rightarrow> string + routed \<Rightarrow> tor_event list" where
  "relayed m path res = (case res of Inr (To_Relay _) \<Rightarrow> [Relayed m path] | _ \<Rightarrow> [])"

definition sent_envelope :: "daemon_env \<Rightarrow> peer_request \<Rightarrow> envelope option" where
  "sent_envelope env q =
     Option.bind (json_parse env (utf8_text env (concat (pr_body q)))) (envelope_schema (is_uuid env))"

definition received :: "daemon_env \<Rightarrow> peer_request \<Rightarrow> json option \<Rightarrow> tor_event list" where
  "received env q reply =
     (if reply \<noteq> Some accepted_json then []
      else case sent_envelope env q of None \<Rightarrow> [] | Some e \<Rightarrow> [Received (env_id e) (inbox_json e (pr_sender q))])"

text \<open>
  The rest of the daemon, between these steps, leaves the inbox and the chosen mode alone and adds to the
  outbox; messages that disappear are the subject of \<open>Daemon_System\<close>.
\<close>

definition other_work :: "local_db \<Rightarrow> local_db \<Rightarrow> bool" where
  "other_work db db' \<longleftrightarrow>
     l_tor_inbox db' = l_tor_inbox db \<and> l_tor_mode db' = l_tor_mode db \<and> set (l_outbox db) \<subseteq> set (l_outbox db')"

inductive tor_step :: "daemon_env \<Rightarrow> local_db \<times> routing \<Rightarrow> tor_event list \<Rightarrow> local_db \<times> routing \<Rightarrow> bool" for env where
  on_request: "route env now path meth body (db, r) = (s', res) \<Longrightarrow>
    tor_step env (db, r) (Acked (acked_ids r path body) # relayed (rt_mode r) path res) s'"
| on_peer: "rt_transport r = Some t \<Longrightarrow> receive env arrived now q (db, t) = ((db', t'), reply) \<Longrightarrow>
    tor_step env (db, r) (received env q reply) (db', r\<lparr>rt_transport := Some t'\<rparr>)"
| on_control: "rt_transport r = Some t \<Longrightarrow>
    t' = fst (on_data chunk t) \<or> t' = poll reply t \<or> t' = fst (close_transport t) \<or>
      t' = fst (command_timeout t) \<or> send_command t = Inr t' \<Longrightarrow>
    tor_step env (db, r) [] (db, r\<lparr>rt_transport := Some t'\<rparr>)"
| on_service: "rt_transport r = Some t \<Longrightarrow> register_service answer (db, t) = ((db', t'), res) \<Longrightarrow>
    tor_step env (db, r) [] (db', r\<lparr>rt_transport := Some t'\<rparr>)"
| on_relay: "prepare_relay session unlocked e body (db, r) = Inr (Some ps) \<Longrightarrow> run_posts same answer ps = (posted, fine) \<Longrightarrow>
    tor_step env (db, r) (map (\<lambda>p. Relayed (rt_mode r) (fst p)) posted) (db, r)"
| on_finish: "finish_send session e granted (db, r) = s' \<Longrightarrow> tor_step env (db, r) (if granted then [Accepted e] else []) s'"
| on_chunk: "fetch_part session unlocked m i peer relay (db, r) = (s', res) \<Longrightarrow>
    tor_step env (db, r) (if asks_relay session unlocked peer r then [Relayed (rt_mode r) (mf_blob m)] else []) s'"
| on_blob_end: "fetch_blob session unlocked m peer relay [] (db, r) = s' \<Longrightarrow> tor_step env (db, r) [] s'"
| on_mode: "set_mode m awake now device (db, r) = s' \<Longrightarrow> tor_step env (db, r) [Mode_Set m] s'"
| on_ensure: "r' = ensure_tor awake now device db r \<or> r' = stop_tor r \<or> r' = tor_started generation session fine now r \<Longrightarrow>
    tor_step env (db, r) [] (db, r')"
| on_clean: "tor_step env (db, r) [] (fst (cleanup_spool env now db), r)"
| on_other: "other_work db db' \<Longrightarrow> tor_step env (db, r) [] (db', r)"

inductive tor_run :: "daemon_env \<Rightarrow> local_db \<times> routing \<Rightarrow> tor_event list \<Rightarrow> local_db \<times> routing \<Rightarrow> bool" for env s where
  run_nil: "tor_run env s [] s"
| run_step: "tor_run env s log s1 \<Longrightarrow> tor_step env s1 es s2 \<Longrightarrow> tor_run env s (log @ es) s2"

section \<open>What the steps do to the mail\<close>

text \<open>The inbox without the given ids, the outbox, and the chosen mode.\<close>

definition mail :: "local_db \<Rightarrow> (string \<times> json) list \<times> outgoing list \<times> string option" where
  "mail db = (l_tor_inbox db, l_outbox db, l_tor_mode db)"

definition mail_after :: "string list \<Rightarrow> local_db \<Rightarrow> (string \<times> json) list \<times> outgoing list \<times> string option" where
  "mail_after ids db = (delete_where (\<lambda>x. fst x \<in> set ids) (l_tor_inbox db), l_outbox db, l_tor_mode db)"

lemma mail_after_none: "mail_after [] db = mail db"
  by (simp add: mail_after_def mail_def delete_where_def)

definition routes_mail :: "string list \<Rightarrow> local_db \<Rightarrow> routing \<Rightarrow> (local_db \<times> routing) \<times> (string + routed) \<Rightarrow> bool" where
  "routes_mail ids db r x \<longleftrightarrow> mail (fst (fst x)) = mail_after ids db \<and> rt_mode (snd (fst x)) = rt_mode r \<and>
     rt_transport (snd (fst x)) = rt_transport r"

lemma routes_mail_if: "(c \<Longrightarrow> routes_mail i d r a) \<Longrightarrow> (\<not> c \<Longrightarrow> routes_mail i d r b) \<Longrightarrow> routes_mail i d r (if c then a else b)"
  by simp

lemma routes_mail_same: "routes_mail [] db r ((db, r), v)"
  by (simp add: routes_mail_def mail_after_none)

lemma spool_mail: "spool_blob now body db = Inr d \<Longrightarrow> mail d = mail db" "spool_chunk b body db = Inr d \<Longrightarrow> mail d = mail db"
  by (auto simp: spool_blob_def spool_chunk_def mail_def split: option.splits if_splits prod.splits)

lemma routes_mail_spool: "(\<And>d. f db = Inr d \<Longrightarrow> mail d = mail db) \<Longrightarrow> routes_mail [] db r (on_spool f (db, r))"
  by (simp add: on_spool_def routes_mail_def mail_after_none split: sum.split)

lemma routes_mail_send: "routes_mail [] db r (route_send body (db, r))"
  by (simp add: route_send_def routes_mail_def mail_after_none start_job_def split: option.split)

lemma routes_mail_download: "routes_mail [] db r (route_download env n i body (db, r))"
  by (simp add: route_download_def routes_mail_def mail_after_none start_job_def split: option.split sum.split)

lemma route_mail: "routes_mail (acked_ids r path body) db r (route env now path meth body (db, r))"
proof (cases "rt_mode r = Relay_Only \<or> path \<noteq> ''/api/messages/ack''")
  case True
  then have ids: "acked_ids r path body = []" by (simp add: acked_ids_def)
  have fetch: "routes_mail [] db r (case x of (n, i) \<Rightarrow> route_download env n i body (db, r))" for x
    by (simp add: routes_mail_download split: prod.split)
  have drop: "routes_mail [] db r ((db\<lparr>l_tor_downloads := v\<rparr>, r), w)" for v w
    by (simp add: routes_mail_def mail_after_none) (simp add: mail_def)
  have ack: "path = ''/api/messages/ack'' \<Longrightarrow> rt_mode r \<noteq> Relay_Only \<Longrightarrow> routes_mail [] db r v" for v
    using True by simp
  show ?thesis
    unfolding ids route_def Let_def prod.case
    by (intro routes_mail_if routes_mail_same routes_mail_send fetch drop ack routes_mail_spool; (erule spool_mail | assumption))
next
  case False
  have spool: "mail (fst (ack_inbox ids db)) = mail_after ids db" for ids
    by (simp add: ack_inbox_db without_inbox_def mail_def mail_after_def)
  have path: "path = ''/api/messages/ack''" and r: "rt_mode r \<noteq> Relay_Only" using False by simp_all
  have r': "(rt_mode r = Relay_Only) = False" using r by simp
  have p': "(path = ''/api/messages/pending'') = False" unfolding path by simp
  show ?thesis
  proof (cases "required ''envelopeIds'' (array_of as_string) body")
    case None
    then have "acked_ids r path body = []" by (simp add: acked_ids_def)
    with None show ?thesis
      unfolding route_def Let_def prod.case r' p' if_False path by (simp add: routes_mail_same)
  next
    case (Some ids)
    then have "acked_ids r path body = ids" using r path by (simp add: acked_ids_def)
    moreover have "route env now path meth body (db, r) =
        (case ack_inbox ids db of (d, rest) \<Rightarrow> ((d, r), Inr (if rt_mode r = Hybrid_Tor \<and> rest \<noteq> [] then To_Relay (ids_json rest) else Answer 204 JNull)))"
      unfolding route_def Let_def prod.case r' p' if_False path by (simp add: Some)
    ultimately show ?thesis using spool [of ids] by (simp add: routes_mail_def case_prod_beta)
  qed
qed

lemma accept_envelope_mail:
  "accept_envelope env device sender body db = Inr db' \<Longrightarrow> l_outbox db' = l_outbox db \<and> l_tor_mode db' = l_tor_mode db"
  by (auto simp: accept_envelope_Inr)

lemma settle_outbox: "l_outbox (settle_envelope e db) = delete_where (\<lambda>q. og_envelope q = e) (l_outbox db)"
  and settle_rest: "l_tor_inbox (settle_envelope e db) = l_tor_inbox db" "l_tor_mode (settle_envelope e db) = l_tor_mode db"
  by (simp_all add: settle_envelope_def Let_def)

lemma keep_chunk_mail: "keep_chunk session c (db, r) = Inr db' \<Longrightarrow> mail db' = mail db"
  by (auto simp: keep_chunk_def mail_def split: if_splits)

lemma fetch_part_mail: "mail (fst (fst (fetch_part session unlocked m i peer relay (db, r)))) = mail db"
    (is "mail (fst (fst ?x)) = _")
  and fetch_part_mode: "rt_mode (snd (fst (fetch_part session unlocked m i peer relay (db, r)))) = rt_mode r"
    (is "rt_mode (snd (fst ?x)) = _")
proof -
  have one: "mail db' = mail db" if "try_then b (\<lambda>c. keep_chunk session c (db, r)) = Inr db'" for b db'
    using that keep_chunk_mail by (auto simp: try_then_Inr_iff)
  have two: "mail db' = mail db" if "try_then a (\<lambda>_. try_then b (\<lambda>c. keep_chunk session c (db, r))) = Inr db'"
    for a :: "string + unit" and b db'
    using that keep_chunk_mail by (auto simp: try_then_Inr_iff)
  show "mail (fst (fst ?x)) = mail db"
  proof (cases "asks_relay session unlocked peer r")
    case True
    then show ?thesis by (auto simp: fetch_part_def Let_def split: sum.split dest: two)
  next
    case False
    then show ?thesis by (auto simp: fetch_part_def Let_def split: sum.split dest: one)
  qed
  show "rt_mode (snd (fst ?x)) = rt_mode r" by (simp add: fetch_part_def Let_def split: sum.split chunk_answer.split)
qed

lemma cleanup_mail: "mail (fst (cleanup_spool env now db)) = mail db"
  by (simp add: cleanup_spool_def drop_blobs_def mail_def Let_def split: sum.split)

lemma register_service_mail: "register_service answer (db, t) = ((db', t'), res) \<Longrightarrow> mail db' = mail db"
  by (auto simp: register_service_def Let_def mail_def split: if_splits option.splits)

lemma ensure_tor_mode:
  "rt_mode (ensure_tor awake now device db r) = rt_mode r \<or> rt_mode (ensure_tor awake now device db r) = mode_of (l_tor_mode db)"
  by (simp add: ensure_tor_def load_mode_def forget_stopped_def without_transport_def Let_def split: option.split)

lemma routing_mode: "rt_mode (stop_tor r) = rt_mode r" "rt_mode (tor_started generation session fine now r) = rt_mode r"
  by (simp_all add: stop_tor_def tor_started_def without_transport_def Let_def)

section \<open>The inbox as a mailbox\<close>

definition inbox_ids :: "(string \<times> json) list \<Rightarrow> string set" where
  "inbox_ids rs = fst ` set rs"

definition inbox_put :: "string \<Rightarrow> json \<Rightarrow> (string \<times> json) list \<Rightarrow> (string \<times> json) list" where
  "inbox_put i j rs = insert_ignore fst (i, j) rs"

definition inbox_ack :: "string set \<Rightarrow> (string \<times> json) list \<Rightarrow> (string \<times> json) list" where
  "inbox_ack A rs = delete_where (\<lambda>x. fst x \<in> A) rs"

interpretation tor_mailbox: durable_mailbox inbox_ids set inbox_put inbox_ack
  by unfold_locales (auto simp: inbox_ids_def inbox_put_def inbox_ack_def insert_ignore_def has_row_iff delete_where_def)

lemma run_mailbox_append: "run_mailbox put ack (xs @ ys) s = run_mailbox put ack ys (run_mailbox put ack xs s)"
  by (induction put ack xs s rule: run_mailbox.induct) simp_all

text \<open>\<open>received\<close> names exactly the envelope that \<open>receive\<close> put into the inbox.\<close>

fun mail_ops :: "tor_event list \<Rightarrow> (string, json) mailbox_op list" where
  "mail_ops [] = []"
| "mail_ops (Received i j # es) = Put i j # mail_ops es"
| "mail_ops (Acked ids # es) = Ack (set ids) # mail_ops es"
| "mail_ops (_ # es) = mail_ops es"

lemma mail_ops_append: "mail_ops (es @ fs) = mail_ops es @ mail_ops fs"
  by (induction es rule: mail_ops.induct) simp_all

lemma mail_ops_ack: "Ack K \<in> set (mail_ops es) \<Longrightarrow> \<exists>ids. Acked ids \<in> set es \<and> K = set ids"
  by (induction es rule: mail_ops.induct) auto

abbreviation run_inbox :: "tor_event list \<Rightarrow> (string \<times> json) list \<Rightarrow> (string \<times> json) list" where
  "run_inbox es \<equiv> run_mailbox inbox_put inbox_ack (mail_ops es)"

lemma accepted_not_chunk: "chunk_json c \<noteq> accepted_json"
  by (simp add: chunk_json_def accepted_json_def)

lemma receive_inbox:
  assumes "receive env arrived now q (db, t) = ((db', t'), reply)"
  shows "l_tor_inbox db' = run_inbox (received env q reply) (l_tor_inbox db) \<and> l_outbox db' = l_outbox db \<and>
    l_tor_mode db' = l_tor_mode db"
proof (cases reply)
  case None
  with assms receive_None [of env arrived now q db t] have "db' = db" by simp
  with None show ?thesis by (simp add: received_def)
next
  case (Some j)
  with assms have s: "serve_peer env arrived now q (utf8_text env (concat (pr_body q))) (db, t) = ((db', t'), Inr j)"
    using receive_Some [of env arrived now q "(db, t)"] by simp
  from s show ?thesis
  proof (cases rule: serve_peer_Inr)
    case (envelope p)
    then obtain j1 e where e: "json_parse env (utf8_text env (concat (pr_body q))) = Some j1"
        "envelope_schema (is_uuid env) j1 = Some e"
        "db' = db\<lparr>l_tor_inbox := insert_ignore fst (env_id e, inbox_json e (pr_sender q)) (l_tor_inbox db)\<rparr>"
      unfolding accept_envelope_Inr by blast
    have "received env q reply = [Received (env_id e) (inbox_json e (pr_sender q))]"
      using Some envelope(2) e(1,2) by (simp add: received_def sent_envelope_def)
    then show ?thesis by (simp add: e(3) inbox_put_def)
  next
    case (chunk p b i c)
    with Some show ?thesis by (simp add: received_def accepted_not_chunk)
  qed
qed

section \<open>The promises\<close>

definition promise :: "local_db \<times> routing \<Rightarrow> tor_event list \<Rightarrow> local_db \<times> routing \<Rightarrow> bool" where
  "promise s es s' \<longleftrightarrow>
     l_tor_inbox (fst s') = run_inbox es (l_tor_inbox (fst s)) \<and>
     (\<forall>q \<in> set (l_outbox (fst s)). q \<in> set (l_outbox (fst s')) \<or> Accepted (og_envelope q) \<in> set es)"

lemma promise_quiet: "mail (fst s') = mail (fst s) \<Longrightarrow> mail_ops es = [] \<Longrightarrow> promise s es s'"
  by (simp add: promise_def mail_def)

lemma mail_ops_simple: "mail_ops (if c then [Relayed m p] else []) = []" "mail_ops (if c then [Accepted e] else []) = []"
  by simp_all

lemma mail_ops_relayed: "mail_ops (relayed m p res) = []" "mail_ops (map (\<lambda>x. Relayed m (g x)) xs) = []"
proof -
  show "mail_ops (relayed m p res) = []" by (simp add: relayed_def split: sum.split routed.split)
  show "mail_ops (map (\<lambda>x. Relayed m (g x)) xs) = []" by (induction xs) simp_all
qed

lemma step_promise: "tor_step env s es s' \<Longrightarrow> promise s es s'"
proof (induction rule: tor_step.induct)
  case (on_request now path meth body db r s' res)
  have m: "mail (fst s') = mail_after (acked_ids r path body) db"
    using route_mail [of r path body db env now meth] on_request by (simp add: routes_mail_def)
  then show ?case by (simp add: promise_def mail_def mail_after_def mail_ops_relayed inbox_ack_def)
next
  case (on_peer r t arrived now q db db' t' reply)
  show ?case using receive_inbox [OF on_peer(2)] by (simp add: promise_def)
next
  case (on_service r t answer db db' t' res)
  show ?case by (rule promise_quiet) (simp_all add: register_service_mail [OF on_service(2)])
next
  case (on_relay session unlocked e body db r ps same answer posted fine)
  show ?case by (simp add: promise_quiet mail_ops_relayed)
next
  case (on_finish session e granted db r s')
  then have "fst s' = (if granted \<and> same_session session r then settle_envelope e db else db)"
    by (auto simp: finish_send_def)
  then show ?case by (auto simp: promise_def mail_ops_simple settle_rest settle_outbox delete_where_def)
next
  case (on_chunk session unlocked m i peer relay db r s' res)
  show ?case using fetch_part_mail [of session unlocked m i peer relay db r] on_chunk
    by (simp add: promise_quiet mail_ops_simple)
next
  case (on_mode m awake now device db r s')
  then show ?case by (auto simp: promise_def set_mode_def Let_def)
next
  case (on_clean db r now)
  show ?case by (rule promise_quiet) (simp_all add: cleanup_mail)
next
  case (on_other db db' r)
  then show ?case by (auto simp: promise_def other_work_def)
qed (auto simp: promise_quiet)

lemma promise_trans: "promise s es s1 \<Longrightarrow> promise s1 fs s2 \<Longrightarrow> promise s (es @ fs) s2"
  by (auto simp: promise_def mail_ops_append run_mailbox_append)

lemma run_promise: "tor_run env s log s' \<Longrightarrow> promise s log s'"
proof (induction rule: tor_run.induct)
  case run_nil
  show ?case by (simp add: promise_def)
next
  case (run_step log s1 es s2)
  with step_promise promise_trans show ?case by blast
qed

section \<open>Direct mode\<close>

definition stays_direct :: "local_db \<times> routing \<Rightarrow> bool" where
  "stays_direct s \<longleftrightarrow> rt_mode (snd s) = Direct_Tor \<and> mode_of (l_tor_mode (fst s)) = Direct_Tor"

definition only_direct :: "tor_event list \<Rightarrow> bool" where
  "only_direct es \<longleftrightarrow> (\<forall>e \<in> set es. case e of Mode_Set m \<Rightarrow> m = Direct_Tor | _ \<Rightarrow> True)"

definition is_relayed :: "tor_event \<Rightarrow> bool" where
  "is_relayed e \<longleftrightarrow> (case e of Relayed _ _ \<Rightarrow> True | _ \<Rightarrow> False)"

lemma set_mode_direct: "set_mode Direct_Tor awake now device s = s' \<Longrightarrow> stays_direct s \<Longrightarrow> stays_direct s'"
  using ensure_tor_mode [of awake now device "(fst s)\<lparr>l_tor_mode := Some ''DIRECT_TOR_P2P''\<rparr>" "stop_tor (snd s)"]
  by (auto simp: set_mode_def stays_direct_def routing_mode mode_of_def Let_def)

lemma relayed_direct:
  assumes "route env now path meth body (db, r) = (s', res)" and "rt_mode r = Direct_Tor"
  shows "relayed m path res = []"
  using route_direct [OF assms(2), of env now path meth body db] assms(1)
  by (auto simp: stays_local_def relayed_def split: sum.splits routed.splits)

text \<open>In the direct mode a step hands nothing to the relay, and the mode remains until another is chosen.\<close>

lemma step_direct:
  assumes "tor_step env s es s'" and "stays_direct s" and "only_direct es"
  shows "stays_direct s' \<and> (\<forall>e \<in> set es. \<not> is_relayed e)"
  using assms
proof (induction rule: tor_step.induct)
  case (on_request now path meth body db r s' res)
  then have r: "rt_mode r = Direct_Tor" by (simp add: stays_direct_def)
  have "mail (fst s') = mail_after (acked_ids r path body) db" "rt_mode (snd s') = rt_mode r"
    using route_mail [of r path body db env now meth] on_request(1) by (simp_all add: routes_mail_def)
  with r on_request(2) have "stays_direct s'" by (simp add: stays_direct_def mail_after_def mail_def)
  moreover have "relayed (rt_mode r) path res = []" by (rule relayed_direct [OF on_request(1) r])
  ultimately show ?case by (simp add: is_relayed_def)
next
  case (on_peer r t arrived now q db db' t' reply)
  have "\<not> is_relayed e" if "e \<in> set (received env q reply)" for e
    using that by (auto simp: received_def is_relayed_def split: if_splits option.splits)
  with receive_inbox [OF on_peer(2)] on_peer(3) show ?case by (simp add: stays_direct_def)
next
  case (on_service r t answer db db' t' res)
  with register_service_mail [OF on_service(2)] show ?case by (simp add: stays_direct_def mail_def)
next
  case (on_relay session unlocked e body db r ps same answer posted fine)
  with prepare_relay_mode [OF on_relay(1)] show ?case by (simp add: stays_direct_def)
next
  case (on_finish session e granted db r s')
  then show ?case by (auto simp: finish_send_def stays_direct_def is_relayed_def settle_rest)
next
  case (on_chunk session unlocked m i peer relay db r s' res)
  then have "\<not> asks_relay session unlocked peer r" by (auto simp: asks_relay_def stays_direct_def)
  with on_chunk fetch_part_mail [of session unlocked m i peer relay db r] fetch_part_mode [of session unlocked m i peer relay db r]
  show ?case by (simp add: stays_direct_def mail_def)
next
  case (on_blob_end session unlocked m peer relay db r s')
  then show ?case by (auto simp: stays_direct_def)
next
  case (on_mode m awake now device db r s')
  then have "m = Direct_Tor" by (simp add: only_direct_def)
  with set_mode_direct [of awake now device "(db, r)" s'] on_mode(1,2) show ?case by (simp add: is_relayed_def)
next
  case (on_ensure r' awake now device db r generation session fine)
  with ensure_tor_mode [of awake now device db r] show ?case by (auto simp: stays_direct_def routing_mode)
next
  case (on_clean db r now)
  with cleanup_mail [of env now db] show ?case by (simp add: stays_direct_def mail_def)
next
  case (on_other db db' r)
  then show ?case by (simp add: stays_direct_def other_work_def)
qed (auto simp: stays_direct_def)

lemma only_direct_append: "only_direct (es @ fs) \<longleftrightarrow> only_direct es \<and> only_direct fs"
  by (auto simp: only_direct_def)

lemma run_direct: "tor_run env s log s' \<Longrightarrow> stays_direct s \<Longrightarrow> only_direct log \<Longrightarrow>
    stays_direct s' \<and> (\<forall>e \<in> set log. \<not> is_relayed e)"
proof (induction rule: tor_run.induct)
  case (run_step log s1 es s2)
  then show ?case using step_direct [OF run_step(2)] by (auto simp: only_direct_append)
qed simp

section \<open>The wake-up of the queues\<close>

text \<open>Calls and callbacks in any order: never more than one retry at a time, none after \<open>close\<close>.\<close>

inductive wakeup_run :: "wakeup \<Rightarrow> bool" where
  fresh: "wakeup_run new_wakeup"
| wakes: "wakeup_run w \<Longrightarrow> wakeup_run (wake_up w)"
| fires: "wakeup_run w \<Longrightarrow> wakeup_run (wakeup_fires w)"
| ended: "wakeup_run w \<Longrightarrow> wakeup_run (retry_ends w)"
| closes: "wakeup_run w \<Longrightarrow> wakeup_run (wakeup_close w)"

lemma wakeup_invariant: "wakeup_run w \<Longrightarrow> wu_scheduled w + wu_running w = (if wu_pending w then 1 else 0)"
  by (induction rule: wakeup_run.induct)
    (auto simp: new_wakeup_def wake_up_def wakeup_fires_def retry_ends_def wakeup_close_def split: if_splits)
end
