(* ===== verification/Tor_Contacts.thy ===== *)
theory Tor_Contacts
  imports Tor_Peer
begin

text \<open>
  \<open>serverless-contacts.ts\<close>: the invite that the daemon shows for itself, and adding a contact from the
  invite of another, without a relay. The address, the authentication key and the identity of a contact
  are pinned the first time and never replaced by another invite.
\<close>

section \<open>The own invite\<close>

definition prekey_of :: "int \<times> string \<times> string \<Rightarrow> signed_prekey" where
  "prekey_of k = (case k of (i, p, s) \<Rightarrow> \<lparr>sp_id = i, sp_public = p, sp_signature = s\<rparr>)"

definition own_invite ::
  "daemon_env \<Rightarrow> invite_env \<Rightarrow> fresh_identity \<Rightarrow> ms \<Rightarrow> string \<Rightarrow> local_db \<Rightarrow> string + local_db \<times> (invite_error + string)" where
  "own_invite env ienv f now onion db =
     try_then (ensure_identity env f now db) (\<lambda>(db1, b).
     case (l_activation db1, l_public_uid db1) of
       (Some a, Some u) \<Rightarrow>
         if an_name a = [] \<or> u = [] then Inl ''DEVICE_NOT_REGISTERED''
         else try_then (auth_key_pair db1) (\<lambda>(private, _).
              try_then (local_address db1) (\<lambda>me.
              Inr (db1, create_invite ienv \<lparr>iv_uid = u, iv_username = an_name a, iv_onion = onion, iv_user = fst me,
                   iv_device = pb_device b, iv_signal_device = pb_signal_device b, iv_registration = pb_registration b,
                   iv_auth_key = pb_auth_key b, iv_identity = pb_identity b, iv_signed = prekey_of (pb_signed b),
                   iv_last_resort = prekey_of (pb_pq_last b)\<rparr> private)))
     | _ \<Rightarrow> Inl ''DEVICE_NOT_REGISTERED'')"

section \<open>Importing\<close>

definition invite_address :: "invite \<Rightarrow> address" where
  "invite_address v = (iv_user v, iv_signal_device v)"

definition prekeys_signed :: "daemon_env \<Rightarrow> invite \<Rightarrow> string + unit" where
  "prekeys_signed env v =
     (case key_verify env (b64_decode (iv_identity v)) of
        None \<Rightarrow> Inl ''invalid public key''
      | Some ok \<Rightarrow>
          if ok (b64_decode (sp_public (iv_signed v))) (b64_decode (sp_signature (iv_signed v))) \<and>
             ok (b64_decode (sp_public (iv_last_resort v))) (b64_decode (sp_signature (iv_last_resort v)))
          then Inr () else Inl ''INVALID_SIGNAL_PREKEY_SIGNATURE'')"

text \<open>What is pinned of the device and of the contact agrees with the invite.\<close>

definition pins_agree :: "string \<Rightarrow> invite \<Rightarrow> local_db \<Rightarrow> bool" where
  "pins_agree c v db \<longleftrightarrow>
     \<not> has_row (\<lambda>p. (po_device p = iv_device v \<or> po_contact p = c) \<and>
       (po_contact p \<noteq> c \<or> po_auth p \<noteq> iv_auth_key v \<or> po_onion p \<noteq> iv_onion v)) (l_peer_onions db)"

definition remotes_agree :: "string \<Rightarrow> invite \<Rightarrow> local_db \<Rightarrow> bool" where
  "remotes_agree c v db \<longleftrightarrow>
     \<not> has_row (\<lambda>r. (rm_device r = iv_device v \<or> rm_contact r = c) \<and>
       (rm_contact r \<noteq> c \<or> rm_device r \<noteq> iv_device v \<or> rm_user r \<noteq> iv_user v \<or> rm_signal r \<noteq> iv_signal_device v))
     (l_remotes db)"

definition bundle_of_invite :: "invite \<Rightarrow> fetched_bundle" where
  "bundle_of_invite v =
     \<lparr>fb_user = iv_user v, fb_device = iv_device v, fb_signal = iv_signal_device v, fb_registration = iv_registration v,
      fb_name = Some (iv_username v), fb_uid = Some (iv_uid v), fb_identity = iv_identity v,
      fb_signed = (sp_id (iv_signed v), sp_public (iv_signed v), sp_signature (iv_signed v)),
      fb_one_time = None, fb_pq_one_time = None,
      fb_pq_last = (sp_id (iv_last_resort v), sp_public (iv_last_resort v), sp_signature (iv_last_resort v))\<rparr>"

text \<open>A session that exists is kept; then the pinned identity has to be the one of the invite.\<close>

definition session_or_pin :: "daemon_env \<Rightarrow> string \<Rightarrow> invite \<Rightarrow> ms \<Rightarrow> ('x, unit) daemon_op" where
  "session_or_pin env c v now =
     bind_op (look (\<lambda>db. has_row (\<lambda>s. ra_contact s = c) (l_ratchets db))) (\<lambda>known.
     if \<not> known then establish_session env (invite_address v) (bundle_of_invite v) now
     else bind_op (look (find_contact c)) (\<lambda>x.
       case x of None \<Rightarrow> throw ''PINNED_IDENTITY_CHANGED''
       | Some k \<Rightarrow> if ct_identity k = b64_decode (iv_identity v) then ret () else throw ''PINNED_IDENTITY_CHANGED''))"

text \<open>\<open>INSERT OR IGNORE INTO remote_contacts\<close> and \<open>INSERT OR REPLACE INTO peer_onions\<close>\<close>

definition add_remote :: "string \<Rightarrow> invite \<Rightarrow> local_db \<Rightarrow> string + local_db" where
  "add_remote c v db =
     (if has_row (\<lambda>r. rm_contact r = c) (l_remotes db) then Inr db
      else if \<not> has_contact c db then Inl ''FOREIGN KEY''
      else Inr (db\<lparr>l_remotes := l_remotes db @ [\<lparr>rm_contact = c, rm_user = iv_user v, rm_device = iv_device v,
             rm_signal = iv_signal_device v\<rparr>]\<rparr>))"

definition pin_peer :: "string \<Rightarrow> invite \<Rightarrow> string \<Rightarrow> local_db \<Rightarrow> local_db" where
  "pin_peer c v uri db =
     db\<lparr>l_peer_onions := delete_where (\<lambda>p. po_device p = iv_device v) (l_peer_onions db) @
          [\<lparr>po_device = iv_device v, po_contact = c, po_onion = iv_onion v, po_auth = iv_auth_key v, po_invite = uri\<rparr>]\<rparr>"

definition mark_verified :: "string \<Rightarrow> invite \<Rightarrow> string \<Rightarrow> local_db \<Rightarrow> local_db" where
  "mark_verified c v safety db =
     db\<lparr>l_contacts := update_where (\<lambda>x. ct_id x = c)
          (\<lambda>x. x\<lparr>ct_name := iv_username v, ct_uid := Some (iv_uid v), ct_verified := True, ct_changed := False,
                  ct_safety := Some safety\<rparr>) (l_contacts db)\<rparr>"

definition open_conversation :: "string \<Rightarrow> string \<Rightarrow> ms \<Rightarrow> ('x, string) daemon_op" where
  "open_conversation c fresh now =
     bind_op (look (\<lambda>db. List.find (\<lambda>x. co_contact x = c) (l_conversations db))) (\<lambda>x.
     case x of Some k \<Rightarrow> if co_id k = [] then
           then_op (attempt (insert_conversation \<lparr>co_id = fresh, co_contact = c, co_timer = None, co_created = now\<rparr>)) (ret fresh)
           else ret (co_id k)
     | None \<Rightarrow> then_op (attempt (insert_conversation \<lparr>co_id = fresh, co_contact = c, co_timer = None, co_created = now\<rparr>)) (ret fresh))"

definition import_tx ::
  "daemon_env \<Rightarrow> string \<Rightarrow> invite \<Rightarrow> string \<Rightarrow> string \<Rightarrow> ms \<Rightarrow> ('x, string \<times> string) daemon_op" where
  "import_tx env c v uri fresh now =
     then_op (session_or_pin env c v now)
     (bind_op (look (safety_number env (invite_address v))) (\<lambda>sn.
      bind_op (value_of sn) (\<lambda>safety.
      then_op (attempt (add_remote c v))
      (then_op (change (pin_peer c v uri))
      (then_op (change (mark_verified c v safety))
      (bind_op (open_conversation c fresh now) (\<lambda>k.
      ret (k, safety))))))))"

text \<open>The device id of the daemon itself comes from \<open>ensureIdentity\<close>, which has created it by then.\<close>

definition import_contact ::
  "daemon_env \<Rightarrow> invite_env \<Rightarrow> string \<Rightarrow> string \<Rightarrow> string \<Rightarrow> ms \<Rightarrow> ('x, string \<times> string) daemon_op" where
  "import_contact env ienv device uri fresh now =
     (case parse_invite ienv uri of
        Inl _ \<Rightarrow> throw ''INVALID_INVITE''
      | Inr v \<Rightarrow>
          if iv_device v = device then throw ''SELF_INVITE''
          else then_op (value_of (prekeys_signed env v))
            (let c = address_text env (invite_address v)
             in bind_op (look (pins_agree c v)) (\<lambda>pins.
                if \<not> pins then throw ''PINNED_INVITE_CHANGED''
                else bind_op (look (remotes_agree c v)) (\<lambda>remotes.
                if \<not> remotes then throw ''PINNED_DEVICE_CHANGED''
                else bind_op (look (identity_changed c)) (\<lambda>changed.
                if changed then throw ''IDENTITY_CHANGED_REQUIRES_REVIEW''
                else in_tx (import_tx env c v uri fresh now))))))"

section \<open>What an import does\<close>

text \<open>What the pins are made of; the text of the invite may be replaced by a newer one.\<close>

definition pin_of :: "peer_onion \<Rightarrow> string \<times> string \<times> string \<times> string" where
  "pin_of p = (po_device p, po_contact p, po_onion p, po_auth p)"

definition invite_pin :: "string \<Rightarrow> invite \<Rightarrow> string \<times> string \<times> string \<times> string" where
  "invite_pin c v = (iv_device v, c, iv_onion v, iv_auth_key v)"

lemma pin_peer_pins:
  assumes "pins_agree c v db"
  shows "pin_of ` set (l_peer_onions (pin_peer c v uri db)) = insert (invite_pin c v) (pin_of ` set (l_peer_onions db))"
proof -
  have same: "pin_of p = invite_pin c v" if "p \<in> set (l_peer_onions db)" "po_device p = iv_device v" for p
    using assms that by (auto simp: pins_agree_def has_row_iff pin_of_def invite_pin_def)
  have "pin_of ` set (l_peer_onions (pin_peer c v uri db)) =
      insert (invite_pin c v) (pin_of ` {p \<in> set (l_peer_onions db). po_device p \<noteq> iv_device v})"
    by (simp add: pin_peer_def pin_of_def invite_pin_def set_delete_where)
  also have "\<dots> = insert (invite_pin c v) (pin_of ` set (l_peer_onions db))" using same by blast
  finally show ?thesis .
qed

lemma find_peer_pinned:
  "find_peer (iv_device v) (pin_peer c v uri db) =
     Some \<lparr>po_device = iv_device v, po_contact = c, po_onion = iv_onion v, po_auth = iv_auth_key v, po_invite = uri\<rparr>"
proof -
  have "List.find (\<lambda>p. po_device p = d) (delete_where (\<lambda>p. po_device p = d) ps @ [x]) = (if po_device x = d then Some x else None)"
    for d :: string and ps :: "peer_onion list" and x
    by (induction ps) (auto simp: delete_where_def)
  from this [of "iv_device v"] show ?thesis by (simp add: find_peer_def pin_peer_def)
qed

text \<open>The tables that the invite writes besides the session.\<close>

definition contact_tables :: "local_db \<Rightarrow> peer_onion list \<times> remote_contact list" where
  "contact_tables db = (l_peer_onions db, l_remotes db)"

lemma signal_contact_tables: "signal_frame db db' \<Longrightarrow> contact_tables db' = contact_tables db"
proof -
  assume "signal_frame db db'"
  note eq = this [unfolded signal_frame_def, THEN arg_cong]
  show ?thesis using eq [of l_peer_onions] eq [of l_remotes] by (simp add: contact_tables_def outside_signal_def)
qed

lemma establish_frame:
  assumes "libsignal_ok env" and "establish_session env a b now (db, x) = ((db', x'), Inr ())"
  shows "signal_frame db db'"
proof -
  from assms(2) obtain me d where d: "sig_process env a me (key_bundle_of b) db = (d, Inr ())"
      "db' = fst (save_identity env a (b64_decode (fb_identity b)) now d)"
    by (auto simp: establish_session_def op_Inr)
  have "store_calls env db (fst (sig_process env a me (key_bundle_of b) db))" using assms(1) unfolding libsignal_ok_def by blast
  then have "store_calls env db d" by (simp add: d(1))
  then show ?thesis unfolding d(2) by (rule signal_frame_trans [OF store_calls_frame save_identity_frame])
qed

lemma session_or_pin_ok:
  assumes "libsignal_ok env" and "session_or_pin env c v now (db, x) = ((db', x'), Inr ())"
  shows "contact_tables db' = contact_tables db"
    and "has_row (\<lambda>s. ra_contact s = c) (l_ratchets db) \<Longrightarrow> db' = db \<and>
       (\<exists>k. find_contact c db = Some k \<and> ct_identity k = b64_decode (iv_identity v))"
proof -
  have "contact_tables db' = contact_tables db \<and> (has_row (\<lambda>s. ra_contact s = c) (l_ratchets db) \<longrightarrow> db' = db \<and>
       (\<exists>k. find_contact c db = Some k \<and> ct_identity k = b64_decode (iv_identity v)))"
  proof (cases "has_row (\<lambda>s. ra_contact s = c) (l_ratchets db)")
    case True
    then show ?thesis using assms(2)
      by (auto simp: session_or_pin_def bind_op_def op_defs split: option.splits if_splits)
  next
    case False
    then have "establish_session env (invite_address v) (bundle_of_invite v) now (db, x) = ((db', x'), Inr ())"
      using assms(2) by (simp add: session_or_pin_def bind_op_def op_defs)
    then show ?thesis using False signal_contact_tables [OF establish_frame [OF assms(1)]] by simp
  qed
  then show "contact_tables db' = contact_tables db"
    and "has_row (\<lambda>s. ra_contact s = c) (l_ratchets db) \<Longrightarrow> db' = db \<and>
       (\<exists>k. find_contact c db = Some k \<and> ct_identity k = b64_decode (iv_identity v))" by simp_all
qed

lemma add_remote_ok: "add_remote c v db = Inr db' \<Longrightarrow>
    l_peer_onions db' = l_peer_onions db \<and> l_contacts db' = l_contacts db \<and> l_ratchets db' = l_ratchets db \<and>
    set (l_remotes db) \<subseteq> set (l_remotes db') \<and> has_row (\<lambda>r. rm_contact r = c) (l_remotes db')"
  by (auto simp: add_remote_def has_row_iff split: if_splits)

lemma open_conversation_ok:
  "open_conversation c fresh now (db, x) = ((db', x'), Inr k) \<Longrightarrow>
     l_peer_onions db' = l_peer_onions db \<and> l_contacts db' = l_contacts db \<and> l_ratchets db' = l_ratchets db \<and>
     l_remotes db' = l_remotes db \<and> has_row (\<lambda>q. co_id q = k \<and> co_contact q = c) (l_conversations db')"
  by (auto simp: open_conversation_def bind_op_def op_defs insert_conversation_def has_row_iff
      split: option.splits if_splits sum.splits dest!: find_SomeD)

lemma import_tx_ok:
  assumes ok: "libsignal_ok env" and tx: "import_tx env c v uri fresh now (db, x) = ((db', x'), Inr (k, safety))"
  obtains d1 x1 d2 d4 where "session_or_pin env c v now (db, x) = ((d1, x1), Inr ())"
    and "safety_number env (invite_address v) d1 = Inr safety" and "add_remote c v d1 = Inr d2"
    and "d4 = mark_verified c v safety (pin_peer c v uri d2)"
    and "open_conversation c fresh now (d4, x1) = ((db', x'), Inr k)"
proof -
  from tx obtain d1 x1 d2 where "session_or_pin env c v now (db, x) = ((d1, x1), Inr ())"
    and "safety_number env (invite_address v) d1 = Inr safety" and "add_remote c v d1 = Inr d2"
    and "open_conversation c fresh now (mark_verified c v safety (pin_peer c v uri d2), x1) = ((db', x'), Inr k)"
    unfolding import_tx_def op_Inr by auto
  then show thesis by (intro that) auto
qed

lemma import_contact_Inr:
  assumes "import_contact env ienv device uri fresh now (db, x) = ((db', x'), Inr (k, safety))"
  obtains v c where "parse_invite ienv uri = Inr v" "iv_device v \<noteq> device" "prekeys_signed env v = Inr ()"
    "c = address_text env (invite_address v)" "pins_agree c v db" "remotes_agree c v db" "\<not> identity_changed c db"
    "import_tx env c v uri fresh now (db, x) = ((db', x'), Inr (k, safety))"
  using assms
  by (auto simp: import_contact_def op_Inr Let_def split: sum.splits if_splits)

lemma import_contact_Inl:
  assumes "import_contact env ienv device uri fresh now (db, x) = ((db', x'), Inl e)"
  shows "db' = db"
proof (cases "parse_invite ienv uri")
  case (Inr v)
  let ?tx = "import_tx env (address_text env (invite_address v)) v uri fresh now"
  from Inr assms consider "db' = db" | "in_tx ?tx (db, x) = ((db', x'), Inl e)"
    by (auto simp: import_contact_def bind_op_def op_defs Let_def split: sum.splits if_splits)
  then show ?thesis by cases (auto dest: in_tx_Inl)
qed (use assms in \<open>simp add: import_contact_def throw_def\<close>)

lemma import_contact_ok:
  assumes ok: "libsignal_ok env" and im: "import_contact env ienv device uri fresh now (db, x) = ((db', x'), Inr (k, safety))"
    and v: "parse_invite ienv uri = Inr v" and c: "c = address_text env (invite_address v)"
  shows "pin_of ` set (l_peer_onions db') = insert (invite_pin c v) (pin_of ` set (l_peer_onions db))"
    and "find_peer (iv_device v) db' =
      Some \<lparr>po_device = iv_device v, po_contact = c, po_onion = iv_onion v, po_auth = iv_auth_key v, po_invite = uri\<rparr>"
    and "set (l_remotes db) \<subseteq> set (l_remotes db')"
    and "has_row (\<lambda>s. ra_contact s = c) (l_ratchets db) \<Longrightarrow> l_ratchets db' = l_ratchets db"
    and "\<forall>y \<in> set (l_contacts db'). ct_id y = c \<longrightarrow> ct_verified y \<and> \<not> ct_changed y \<and> ct_safety y = Some safety"
    and "has_row (\<lambda>q. co_id q = k \<and> co_contact q = c) (l_conversations db')"
proof -
  obtain w d where w: "parse_invite ienv uri = Inr w" "d = address_text env (invite_address w)" "pins_agree d w db"
      "import_tx env d w uri fresh now (db, x) = ((db', x'), Inr (k, safety))"
    using im by (rule import_contact_Inr)
  have "w = v" using w(1) v by simp
  then have "d = c" using w(2) c by blast
  have pins: "pins_agree c v db" using w(3) unfolding \<open>d = c\<close> \<open>w = v\<close> .
  have tx: "import_tx env c v uri fresh now (db, x) = ((db', x'), Inr (k, safety))"
    using w(4) unfolding \<open>d = c\<close> \<open>w = v\<close> .
  obtain d1 x1 d2 d4 where s: "session_or_pin env c v now (db, x) = ((d1, x1), Inr ())"
    and r: "add_remote c v d1 = Inr d2" and d4: "d4 = mark_verified c v safety (pin_peer c v uri d2)"
    and o1: "open_conversation c fresh now (d4, x1) = ((db', x'), Inr k)"
    using tx by (rule import_tx_ok [OF ok])
  have t: "l_peer_onions d2 = l_peer_onions db" "set (l_remotes db) \<subseteq> set (l_remotes d2)"
    using session_or_pin_ok(1) [OF ok s] add_remote_ok [OF r] by (auto simp: contact_tables_def)
  have d: "l_peer_onions db' = l_peer_onions (pin_peer c v uri d2)" "l_remotes db' = l_remotes d2"
      "l_contacts db' = l_contacts d4" "l_ratchets db' = l_ratchets d2"
    using open_conversation_ok [OF o1] by (simp_all add: d4 mark_verified_def pin_peer_def)
  have pins2: "pins_agree c v d2" using pins t by (simp add: pins_agree_def)
  show "pin_of ` set (l_peer_onions db') = insert (invite_pin c v) (pin_of ` set (l_peer_onions db))"
    using pin_peer_pins [OF pins2] by (simp add: d t)
  show "find_peer (iv_device v) db' =
      Some \<lparr>po_device = iv_device v, po_contact = c, po_onion = iv_onion v, po_auth = iv_auth_key v, po_invite = uri\<rparr>"
    using find_peer_pinned [of v c uri d2] by (simp add: find_peer_def d)
  show "set (l_remotes db) \<subseteq> set (l_remotes db')" using t by (simp add: d)
  show "l_ratchets db' = l_ratchets db" if "has_row (\<lambda>s. ra_contact s = c) (l_ratchets db)"
    using session_or_pin_ok(2) [OF ok s that] add_remote_ok [OF r] by (simp add: d)
  show "\<forall>y \<in> set (l_contacts db'). ct_id y = c \<longrightarrow> ct_verified y \<and> \<not> ct_changed y \<and> ct_safety y = Some safety"
  proof -
    have "\<forall>y \<in> set (update_where (\<lambda>x. ct_id x = c) (\<lambda>x. x\<lparr>ct_name := n, ct_uid := u, ct_verified := True,
        ct_changed := False, ct_safety := Some safety\<rparr>) rs).
        ct_id y = c \<longrightarrow> ct_verified y \<and> \<not> ct_changed y \<and> ct_safety y = Some safety" for n u and rs :: "contact list"
      by (induction rs) (simp_all add: update_where_def)
    then show ?thesis unfolding d(3) d4 mark_verified_def by simp
  qed
  show "has_row (\<lambda>q. co_id q = k \<and> co_contact q = c) (l_conversations db')" using open_conversation_ok [OF o1] by blast
qed
end
