(* ===== verification/Tor_Properties.thy ===== *)
theory Tor_Properties
  imports Tor_System Tor_Contacts Daemon_Demo
begin

text \<open>
  The properties of the serverless transport, each with a witness on the concrete library functions of
  \<open>Daemon_Demo\<close>.
\<close>

section \<open>Direct mode\<close>





section \<open>Peers\<close>

text \<open>
  C24. A peer is served only after authentication, and only what is meant for it: a request is answered
  when its sender is a pinned device, the signature of the pinned key covers exactly the sender, time,
  nonce, method, path and body of the request, the time is within two minutes, and the identity of the
  contact is not in question. Then either an envelope addressed to this device was stored under the id of
  its sender, or a chunk was read of an attachment that was sent to this very contact and has not
  disappeared. In every other case nothing changes.
\<close>

theorem peer_requests_authenticated:
  assumes "receive env arrived now q (db, t) = ((db', t'), reply)"
  shows "case reply of
    None \<Rightarrow> db' = db
  | Some j \<Rightarrow> \<exists>p time. find_peer (pr_sender q) db = Some p \<and> pr_time q = Some time \<and> \<bar>arrived - time\<bar> \<le> 120000 \<and>
      \<not> identity_changed (po_contact p) db \<and> length (concat (pr_body q)) \<le> max_peer_body \<and>
      verify_challenge (dg_verify env) (b64_decode (po_auth p))
        (p2p_signing_bytes (pr_sender q) time (pr_nonce q) (pr_method q) (pr_path q)
          (b64_encode (utf8 (utf8_text env (concat (pr_body q)))))) (b64_decode (pr_signature q)) \<and>
      ((\<exists>e. env_mailbox e = tt_device t \<and>
          db' = db\<lparr>l_tor_inbox := insert_ignore fst (env_id e, inbox_json e (pr_sender q)) (l_tor_inbox db)\<rparr>) \<or>
       db' = db \<and> (\<exists>b i c. may_fetch (po_contact p) now b db \<and> find_chunk b i (l_tor_chunks db) = Some c \<and> j = chunk_json c))"
proof (cases reply)
  case None
  with receive_None [OF assms [unfolded None]] show ?thesis by simp
next
  case (Some j)
  let ?body = "utf8_text env (concat (pr_body q))"
  from receive_Some [OF assms [unfolded Some]] have len: "length (concat (pr_body q)) \<le> max_peer_body"
    and s: "serve_peer env arrived now q ?body (db, t) = ((db', t'), Inr j)" by simp_all
  obtain p where auth: "authenticate_peer env arrived q ?body db = Inr p"
    and served: "(\<exists>e. env_mailbox e = tt_device t \<and>
          db' = db\<lparr>l_tor_inbox := insert_ignore fst (env_id e, inbox_json e (pr_sender q)) (l_tor_inbox db)\<rparr>) \<or>
       db' = db \<and> (\<exists>b i c. may_fetch (po_contact p) now b db \<and> find_chunk b i (l_tor_chunks db) = Some c \<and> j = chunk_json c)"
    using s
  proof (cases rule: serve_peer_Inr)
    case (envelope p)
    then have "\<exists>e. env_mailbox e = tt_device t \<and>
        db' = db\<lparr>l_tor_inbox := insert_ignore fst (env_id e, inbox_json e (pr_sender q)) (l_tor_inbox db)\<rparr>"
      unfolding accept_envelope_Inr by blast
    with envelope(1) that show thesis by blast
  next
    case (chunk p b i c)
    then have "\<exists>b i c. may_fetch (po_contact p) now b db \<and> find_chunk b i (l_tor_chunks db) = Some c \<and> j = chunk_json c" by blast
    with chunk(1,2) that show thesis by blast
  qed
  from auth len served show ?thesis
    unfolding authenticate_peer_Inr signed_request_def Some option.case by blast
qed

definition peer_db :: local_db where
  "peer_db = empty_local\<lparr>l_peer_onions := [\<lparr>po_device = ''bob'', po_contact = ''bob.1'', po_onion = ''x'',
     po_auth = ''AAAA'', po_invite = ''''\<rparr>]\<rparr>"

definition envelope_json :: json where
  "envelope_json = JObj [(''version'', JInt 1), (''envelopeId'', JStr ''e1''), (''mailboxId'', JStr ''me''), (''ciphertext'', JStr ''AAAA'')]"

definition peer_post :: peer_request where
  "peer_post = \<lparr>pr_method = ''POST'', pr_path = ''/p2p/v1/envelopes'', pr_sender = ''bob'', pr_time = Some 1000,
     pr_nonce = hex_encode (replicate 16 170), pr_signature = ''AAAA'', pr_body = [utf8 (put envelope_json)]\<rparr>"

definition my_transport :: transport where
  "my_transport = new_transport\<lparr>tt_device := ''me''\<rparr>"

definition peer_envelope :: envelope where
  "peer_envelope = \<lparr>env_id = ''e1'', env_mailbox = ''me'', env_ciphertext = ''AAAA'', env_capabilities = None,
     env_type = None, env_ttl = None, env_created = None\<rparr>"

lemma demo_receive:
  "receive demo_daemon 1000 1000 peer_post (peer_db, my_transport) =
     ((peer_db\<lparr>l_tor_inbox := [(''e1'', inbox_json peer_envelope ''bob'')]\<rparr>, my_transport\<lparr>tt_envelopes := 1\<rparr>), Some accepted_json)"
proof -
  have env: "envelope_schema (is_uuid demo_daemon) envelope_json = Some peer_envelope"
    by (simp add: envelope_schema_def envelope_json_def required_def optional_def field_def int_where_def string_where_def
        nonempty_string_def base64_schema_def envelope_id_ok_def is_hex_string_def demo_daemon_def is_base64_def pad_length_def
        is_b64_letter_def is_upper_def code_def is_obj_def peer_envelope_def max_safe_integer_def)
  have auth: "authenticate_peer demo_daemon 1000 peer_post (put envelope_json) peer_db = Inr (hd (l_peer_onions peer_db))"
    by (simp add: authenticate_peer_def peer_post_def peer_db_def empty_local_def find_peer_def
        verify_challenge_def demo_daemon_def identity_changed_def has_row_def)
  have small: "length (b64_decode ''AAAA'') \<le> 3" by (simp add: b64_decode_def b64_value_def code_def is_upper_def)
  have accept: "accept_envelope demo_daemon ''me'' ''bob'' (put envelope_json) peer_db =
      Inr (peer_db\<lparr>l_tor_inbox := [(''e1'', inbox_json peer_envelope ''bob'')]\<rparr>)"
  proof -
    have "json_parse demo_daemon (put envelope_json) = Some envelope_json" by (simp add: demo_daemon_def parse_put)
    moreover have "insert_ignore fst (env_id peer_envelope, inbox_json peer_envelope ''bob'') (l_tor_inbox peer_db) =
        [(''e1'', inbox_json peer_envelope ''bob'')]"
      by (simp add: insert_ignore_def has_row_def peer_db_def empty_local_def peer_envelope_def)
    ultimately show ?thesis unfolding accept_envelope_Inr using env small by (auto simp: peer_envelope_def)
  qed
  have body: "read_body 0 (pr_body peer_post) = Inr (utf8 (put envelope_json))"
  proof -
    have u: "length (utf8 s) \<le> 2 * length s" for s by (induction s) (auto simp: utf8_Cons utf8_char_def)
    have "length (put envelope_json) \<le> 1000" by (simp add: envelope_json_def put_int_def)
    with u [of "put envelope_json"] have "length (utf8 (put envelope_json)) \<le> 2000" by linarith
    then show ?thesis by (simp add: read_body_ok peer_post_def max_peer_body_def)
  qed
  have decoded: "utf8_text demo_daemon (utf8 (put envelope_json)) = put envelope_json"
    by (simp add: demo_daemon_def decode_utf8)
  show ?thesis
    unfolding receive_def body sum.case decoded
    using accept auth by (simp add: serve_peer_def my_transport_def new_transport_def peer_post_def)
qed

theorem peer_requests_authenticated_witness: "\<exists>p. find_peer ''bob'' peer_db = Some p \<and> \<not> identity_changed (po_contact p) peer_db"
  using peer_requests_authenticated [OF demo_receive] by (auto simp: peer_post_def)

text \<open>
  C26. The inbox of the onion service is a durable mailbox: after any run its rows are exactly what the
  abstract mailbox holds after the same envelopes were put and the same ids acknowledged, in their order.
  So an envelope that a peer was told is accepted stays until the daemon itself acknowledges its id.
\<close>

theorem tor_inbox_refines_mailbox:
  assumes "tor_run env s log s'"
  shows "l_tor_inbox (fst s') = run_mailbox inbox_put inbox_ack (mail_ops log) (l_tor_inbox (fst s)) \<and>
    (\<forall>m \<in> set (l_tor_inbox (fst s)). (\<forall>ids. Acked ids \<in> set log \<longrightarrow> fst m \<notin> set ids) \<longrightarrow> m \<in> set (l_tor_inbox (fst s')))"
proof -
  have run: "l_tor_inbox (fst s') = run_inbox log (l_tor_inbox (fst s))"
    using run_promise [OF assms] by (simp add: promise_def)
  have "m \<in> set (run_inbox log (l_tor_inbox (fst s)))"
    if "m \<in> set (l_tor_inbox (fst s))" "\<forall>ids. Acked ids \<in> set log \<longrightarrow> fst m \<notin> set ids" for m
    using that(2) by (intro tor_mailbox.pending_until_acked [OF that(1)]) (blast dest: mail_ops_ack)
  with run show ?thesis by simp
qed

definition serving :: routing where
  "serving = new_routing\<lparr>rt_transport := Some my_transport\<rparr>"

lemma demo_delivery:
  "\<exists>s'. tor_run demo_daemon (peer_db, serving) [Received ''e1'' (inbox_json peer_envelope ''bob'')] s' \<and>
     l_tor_inbox (fst s') = [(''e1'', inbox_json peer_envelope ''bob'')]"
proof -
  have sent: "sent_envelope demo_daemon peer_post = Some peer_envelope"
  proof -
    have "envelope_schema (is_uuid demo_daemon) envelope_json = Some peer_envelope"
      by (simp add: envelope_schema_def envelope_json_def required_def optional_def field_def int_where_def string_where_def
          nonempty_string_def base64_schema_def envelope_id_ok_def is_hex_string_def demo_daemon_def is_base64_def pad_length_def
          is_b64_letter_def is_upper_def code_def is_obj_def peer_envelope_def max_safe_integer_def)
    moreover have "json_parse demo_daemon (utf8_text demo_daemon (concat (pr_body peer_post))) = Some envelope_json"
      by (simp add: demo_daemon_def peer_post_def decode_utf8 parse_put)
    ultimately show ?thesis by (simp add: sent_envelope_def)
  qed
  have "rt_transport serving = Some my_transport" by (simp add: serving_def)
  from run_step [OF run_nil on_peer [OF this demo_receive]] sent show ?thesis
    by (auto simp: received_def peer_envelope_def peer_post_def)
qed

theorem tor_inbox_refines_mailbox_witness:
  "run_mailbox inbox_put inbox_ack [Put ''e1'' (inbox_json peer_envelope ''bob'')] [] = [(''e1'', inbox_json peer_envelope ''bob'')]"
proof -
  obtain s' where s': "tor_run demo_daemon (peer_db, serving) [Received ''e1'' (inbox_json peer_envelope ''bob'')] s'"
    "l_tor_inbox (fst s') = [(''e1'', inbox_json peer_envelope ''bob'')]" using demo_delivery by blast
  with tor_inbox_refines_mailbox [OF s'(1)] show ?thesis by (simp add: peer_db_def empty_local_def)
qed

section \<open>The control connection\<close>

text \<open>
  C33. Reading the control port does not depend on how the data is split: any chunks of a stream leave the
  transport in the same state, with the same events in the same order, as the stream at once. And the
  asynchronous \<open>650\<close> events that arrive between the lines of a reply do not disturb it: the commands get
  the replies that they would get if those lines were not there. A stopped transport wakes nobody.
\<close>

theorem control_stream_chunks:
  "on_chunks (c # cs) t = on_data (concat (c # cs)) t \<and>
   filter is_settled (snd (on_lines ls t)) = filter is_settled (snd (on_lines (filter (\<lambda>l. \<not> starts_with ''650'' l) ls) t)) \<and>
   (tt_stopped t \<longrightarrow> Wake \<notin> set (snd (on_lines ls t)))"
  using on_chunks_joined on_lines_settled on_lines_stopped by blast

theorem control_stream_chunks_witness: "Wake \<notin> set (snd (on_lines [''650 CIRC 1 BUILT''] (new_transport\<lparr>tt_stopped := True\<rparr>)))"
  using control_stream_chunks [of "[]" "[]" "new_transport\<lparr>tt_stopped := True\<rparr>" "[''650 CIRC 1 BUILT'']"] by simp

section \<open>Contacts\<close>

text \<open>
  C27. An invite cannot replace what is pinned: after importing one, every device keeps the contact, the
  onion address and the authentication key it had, every remote contact remains, and a session that
  existed is untouched. A successful import adds just the pin of a verified invite that is not the
  daemon's own, leaves the contact verified, with a conversation; from then on exactly the holder of the
  invite's key is served as that device. An import that fails changes nothing.
\<close>

theorem import_keeps_pins:
  assumes "libsignal_ok env" and "import_contact env ienv device uri fresh now (db, x) = ((db', x'), res)"
  shows "case res of
    Inl e \<Rightarrow> db' = db
  | Inr (k, safety) \<Rightarrow> \<exists>v c. parse_invite ienv uri = Inr v \<and> c = address_text env (invite_address v) \<and> iv_device v \<noteq> device \<and>
      pin_of ` set (l_peer_onions db') = insert (invite_pin c v) (pin_of ` set (l_peer_onions db)) \<and>
      (\<forall>p \<in> set (l_peer_onions db). po_device p = iv_device v \<longrightarrow> pin_of p = invite_pin c v) \<and>
      find_peer (iv_device v) db' = Some \<lparr>po_device = iv_device v, po_contact = c, po_onion = iv_onion v,
        po_auth = iv_auth_key v, po_invite = uri\<rparr> \<and>
      set (l_remotes db) \<subseteq> set (l_remotes db') \<and>
      (has_row (\<lambda>s. ra_contact s = c) (l_ratchets db) \<longrightarrow> l_ratchets db' = l_ratchets db) \<and>
      (\<forall>y \<in> set (l_contacts db'). ct_id y = c \<longrightarrow> ct_verified y \<and> \<not> ct_changed y \<and> ct_safety y = Some safety) \<and>
      has_row (\<lambda>q. co_id q = k \<and> co_contact q = c) (l_conversations db')"
proof (cases res)
  case (Inl e)
  with import_contact_Inl assms(2) show ?thesis by simp
next
  case (Inr a)
  obtain k safety where a: "a = (k, safety)" by (cases a)
  have im: "import_contact env ienv device uri fresh now (db, x) = ((db', x'), Inr (k, safety))"
    using assms(2) Inr a by simp
  obtain v c where v: "parse_invite ienv uri = Inr v" and c: "c = address_text env (invite_address v)"
    and d: "iv_device v \<noteq> device" and pins: "pins_agree c v db"
    using im by (rule import_contact_Inr)
  have "\<forall>p \<in> set (l_peer_onions db). po_device p = iv_device v \<longrightarrow> pin_of p = invite_pin c v"
    using pins by (auto simp: pins_agree_def has_row_iff pin_of_def invite_pin_def)
  then show ?thesis
    unfolding Inr a sum.case prod.case
    using v c d import_contact_ok [OF assms(1) im v c] by blast
qed

definition import_db :: local_db where
  "import_db = empty_local\<lparr>l_account := Some \<lparr>sa_identity = [1], sa_registration = 7, sa_user = Some ''me'',
     sa_device = ''mine'', sa_created = 0\<rparr>\<rparr>"

lemma demo_import:
  assumes "parse_invite demo_env uri = Inr demo_invite"
  shows "\<exists>db'. import_contact demo_daemon demo_env ''mine'' uri ''conv'' 5 (import_db, ()) =
    ((db', ()), Inr (''conv'', replicate 60 (CHR ''0'')))"
proof -
  let ?c = demo_uuid
  define k where "k = \<lparr>ct_id = ?c, ct_name = ?c, ct_uid = None, ct_identity = b64_decode (iv_identity demo_invite),
     ct_verified = False, ct_safety = None, ct_changed = False, ct_created = 5\<rparr>"
  define d1 where "d1 = import_db\<lparr>l_contacts := [k]\<rparr>"
  have v: "iv_user demo_invite = ?c" "iv_device demo_invite = ?c" "iv_signal_device demo_invite = 1"
    by (simp_all add: demo_invite_def)
  have me: "local_address db = Inr (''me'', 1)" if "l_account db = l_account import_db" for db
    using that by (simp add: local_address_def store_account_def import_db_def)
  have lib: "address_text demo_daemon = fst" "sig_process demo_daemon = (\<lambda>a me b db. (db, Inr ()))"
    "key_verify demo_daemon = (\<lambda>k. Some (\<lambda>m s. True))" by (simp_all add: demo_daemon_def)
  have one: "session_or_pin demo_daemon ?c demo_invite 5 (import_db, ()) = ((d1, ()), Inr ())"
    by (simp add: session_or_pin_def establish_session_def bind_op_def op_defs me lib invite_address_def v
        bundle_of_invite_def save_identity_def find_contact_def d1_def k_def)
      (simp add: import_db_def empty_local_def has_row_def)
  have safety: "safety_number demo_daemon (invite_address demo_invite) d1 = Inr (replicate 60 (CHR ''0''))"
    using me [of d1] by (simp add: safety_number_def identity_key_pair_def store_account_def get_identity_def find_contact_def lib invite_address_def v)
      (simp add: d1_def k_def import_db_def demo_daemon_def)
  obtain d2 where two: "add_remote ?c demo_invite d1 = Inr d2" "l_contacts d2 = [k]" "l_conversations d2 = []"
    by (simp add: add_remote_def d1_def import_db_def empty_local_def has_row_def has_contact_def k_def)
  let ?d4 = "mark_verified ?c demo_invite (replicate 60 (CHR ''0'')) (pin_peer ?c demo_invite uri d2)"
  have "\<exists>db'. open_conversation ?c ''conv'' 5 (?d4, ()) = ((db', ()), Inr ''conv'')"
    using two by (simp add: open_conversation_def bind_op_def op_defs insert_conversation_def mark_verified_def pin_peer_def
        has_contact_def has_row_def update_where_def k_def)
  then obtain db' where "import_tx demo_daemon ?c demo_invite uri ''conv'' 5 (import_db, ()) = ((db', ()), Inr (''conv'', replicate 60 (CHR ''0'')))"
    using one safety two by (auto simp: import_tx_def bind_op_def op_defs)
  then have "in_tx (import_tx demo_daemon ?c demo_invite uri ''conv'' 5) (import_db, ()) = ((db', ()), Inr (''conv'', replicate 60 (CHR ''0'')))"
    by (simp add: in_tx_def)
  moreover have "pins_agree ?c demo_invite import_db" "remotes_agree ?c demo_invite import_db" "\<not> identity_changed ?c import_db"
    by (simp_all add: pins_agree_def remotes_agree_def identity_changed_def import_db_def empty_local_def has_row_def)
  moreover have "prekeys_signed demo_daemon demo_invite = Inr ()" by (simp add: prekeys_signed_def lib)
  moreover have "?c \<noteq> ''mine''" by (simp add: demo_uuid_def)
  ultimately show ?thesis
    using assms by (simp add: import_contact_def bind_op_def op_defs lib invite_address_def v)
qed

theorem import_keeps_pins_witness: "\<exists>db p. find_peer demo_uuid db = Some p \<and> po_onion p = iv_onion demo_invite"
proof -
  obtain uri where "create_invite demo_env demo_invite [] = Inr uri" using demo_create by blast
  then have uri: "parse_invite demo_env uri = Inr demo_invite" by (rule invite_roundtrip [OF demo_env_ok])
  from demo_import [OF uri] obtain db' where "import_contact demo_daemon demo_env ''mine'' uri ''conv'' 5 (import_db, ()) =
    ((db', ()), Inr (''conv'', replicate 60 (CHR ''0'')))" by blast
  from import_keeps_pins [OF demo_libsignal this] uri
  have "\<exists>p. find_peer (iv_device demo_invite) db' = Some p \<and> po_onion p = iv_onion demo_invite" by auto
  moreover have "iv_device demo_invite = demo_uuid" by (simp add: demo_invite_def)
  ultimately show ?thesis by auto
qed

end
