(* ===== verification/Daemon_Secure.thy ===== *)
theory Daemon_Secure
  imports Daemon_Shards
begin

text \<open>
  \<open>secure-vault.ts\<close>: the vault that is opened with a vault id and a password together with all seven
  shards, its backups on the relay, the storage file that it can be carried in, changing the password by
  building a new directory beside the old one, and the decoy that a duress id opens. The directory is part
  of the state; the answers of the relay, random values and the clock are arguments.
\<close>

section \<open>State\<close>

text \<open>
  What the functions of \<open>node:zlib\<close>, SQLCipher's file format and Ed25519 do. \<open>db_file k d\<close> are the bytes of
  a database file with key \<open>k\<close> and contents \<open>d\<close>, after a checkpoint of its log.
\<close>

record secure_lib =
  zip_bytes :: "bytes \<Rightarrow> bytes"
  unzip_bytes :: "nat \<Rightarrow> bytes \<Rightarrow> bytes option"
  db_file :: "bytes \<Rightarrow> local_db \<Rightarrow> bytes"
  db_load :: "bytes \<Rightarrow> (bytes \<times> local_db) option"
  writer_public :: "bytes \<Rightarrow> string"
  ed_sign :: "bytes \<Rightarrow> bytes \<Rightarrow> bytes"
  datetime_ok :: "string \<Rightarrow> bool"

record secure_config =
  cf_nonce :: string
  cf_salt :: string
  cf_hashes :: "string list"
  cf_version :: int
  cf_external :: bool
  cf_cloud :: bool
  cf_pending :: bool

text \<open>
  The object and its directory: \<open>s_saved\<close> is the configuration file, \<open>s_files\<close> the attachments directory;
  the shards and the database file are in \<open>s_shards\<close> and \<open>s_vault\<close>. A directory of an older version has the
  configuration of the class \<open>Vault\<close> instead.
\<close>

record sec_vault =
  s_vault :: vault
  s_config :: "secure_config option"
  s_saved :: "secure_config option"
  s_shards :: shards
  s_remote7 :: "string option"
  s_external7 :: "bytes option"
  s_keys :: "vault_keys option"
  s_vmk :: "bytes option"
  s_client :: bool
  s_relay :: bool
  s_files :: files

definition fresh_sec :: sec_vault where
  "fresh_sec = \<lparr>s_vault = fresh_vault, s_config = None, s_saved = None, s_shards = no_shards, s_remote7 = None,
     s_external7 = None, s_keys = None, s_vmk = None, s_client = False, s_relay = False, s_files = []\<rparr>"

definition sec_locked :: "sec_vault \<Rightarrow> bool" where
  "sec_locked w \<longleftrightarrow> \<not> vt_open (s_vault w)"

definition sec_database :: "sec_vault \<Rightarrow> string + local_db" where
  "sec_database w = vault_database (s_vault w)"

definition sec_exists :: "sec_vault \<Rightarrow> bool" where
  "sec_exists w \<longleftrightarrow> s_config w \<noteq> None \<or> vault_exists (s_vault w)"

definition secure_config_of :: "sec_vault \<Rightarrow> string + secure_config" where
  "secure_config_of w = (case s_config w of None \<Rightarrow> Inl ''LEGACY_VAULT_USE_EXISTING_PASSWORD'' | Some c \<Rightarrow> Inr c)"

definition with_config :: "(secure_config \<Rightarrow> secure_config) \<Rightarrow> sec_vault \<Rightarrow> sec_vault" where
  "with_config f w = w\<lparr>s_config := map_option f (s_config w)\<rparr>"

definition save_config :: "sec_vault \<Rightarrow> sec_vault" where
  "save_config w = w\<lparr>s_saved := s_config w\<rparr>"

definition sec_lock :: "sec_vault \<Rightarrow> sec_vault" where
  "sec_lock w = w\<lparr>s_vault := lock_vault (s_vault w), s_shards := shards_lock (s_shards w), s_keys := None, s_vmk := None,
     s_external7 := None, s_remote7 := None, s_client := False, s_relay := False\<rparr>"

text \<open>A directory whose creation was not confirmed is renamed away.\<close>

definition sec_initialize :: "sec_vault \<Rightarrow> sec_vault" where
  "sec_initialize w =
     (if (case s_saved w of None \<Rightarrow> False | Some c \<Rightarrow> cf_pending c) then fresh_sec
      else w\<lparr>s_vault := vault_initialize (s_vault w), s_config := s_saved w\<rparr>)"

text \<open>\<open>confirmShard7Saved\<close> and \<open>setCloudBackup\<close> change the configuration, when the session has a database.\<close>

definition saved_config :: "secure_config \<Rightarrow> secure_config" where
  "saved_config c = c\<lparr>cf_external := True, cf_cloud := False, cf_pending := False\<rparr>"

definition cloud_config :: "bool \<Rightarrow> secure_config \<Rightarrow> secure_config" where
  "cloud_config b c = c\<lparr>cf_cloud := b\<rparr>"

definition update_config :: "(string + local_db) \<Rightarrow> (secure_config \<Rightarrow> secure_config) \<Rightarrow> sec_vault \<Rightarrow> sec_vault \<times> (string + unit)" where
  "update_config session f w =
     (case try_then session (\<lambda>_. secure_config_of w) of
        Inl e \<Rightarrow> (w, Inl e)
      | Inr _ \<Rightarrow> (save_config (with_config f w), Inr ()))"

definition shard7_file :: "sec_vault \<Rightarrow> string + bytes" where
  "shard7_file w =
     try_then (sec_database w) (\<lambda>_.
     case s_external7 w of
       Some b \<Rightarrow> Inr (shard_header @ b)
     | None \<Rightarrow> (case s_remote7 w of
           None \<Rightarrow> Inl ''SHARD7_FILE_REQUIRED''
         | Some s \<Rightarrow> if s = [] then Inl ''SHARD7_FILE_REQUIRED'' else Inr (shard_header @ utf8 s)))"

section \<open>Provisioning and opening\<close>

record secure_draw =
  sd_vmk :: bytes
  sd_salt :: bytes
  sd_nonce :: bytes
  sd_scatter :: scatter_draw

definition vmk_aad :: string where
  "vmk_aad = ''vmk-wrap-v1''"

definition provision ::
  "daemon_env \<Rightarrow> secure_draw \<Rightarrow> bytes \<Rightarrow> vault_keys \<Rightarrow> string \<Rightarrow> bytes option \<Rightarrow> sec_vault \<Rightarrow> sec_vault \<times> (string + string)" where
  "provision env d vmk keys salt ext w =
     (let wrapped = seal env (sd_nonce d) vmk (vk_kek keys) vmk_aad
      in case scatter env (sd_scatter d) (b64_decode (se_ciphertext wrapped)) (vk_mask keys) (vk_backup keys) ext (s_shards w) of
           (h, Inl e) \<Rightarrow> (w\<lparr>s_shards := h\<rparr>, Inl e)
         | (h, Inr r) \<Rightarrow>
             (w\<lparr>s_shards := h,
                s_config := Some \<lparr>cf_nonce = se_nonce wrapped, cf_salt = salt, cf_hashes = st_hashes r, cf_version = 0,
                  cf_external = False, cf_cloud = False, cf_pending = False\<rparr>,
                s_remote7 := Some (st_fragment7 r), s_keys := Some keys, s_vmk := Some vmk, s_client := True\<rparr>,
              Inr (st_client r)))"

definition sec_open :: "daemon_env \<Rightarrow> cipher \<Rightarrow> bytes \<Rightarrow> bytes \<Rightarrow> sec_vault \<Rightarrow> sec_vault \<times> (string + unit)" where
  "sec_open env opens vmk salt w = (case open_db env opens vmk salt (s_vault w) of (v, r) \<Rightarrow> (w\<lparr>s_vault := v\<rparr>, r))"

section \<open>The backup on the relay\<close>

text \<open>What a request was answered: not at all, or with a status and a text.\<close>

datatype http = Unreached | Http nat string

definition http_ok :: "nat \<Rightarrow> bool" where
  "http_ok n \<longleftrightarrow> 200 \<le> n \<and> n < 300"

definition download_backup :: "daemon_env \<Rightarrow> secure_lib \<Rightarrow> vault_keys \<Rightarrow> http \<Rightarrow> string + backup_put option" where
  "download_backup env lib keys answer =
     (case answer of
        Unreached \<Rightarrow> Inl ''fetch failed''
      | Http n body \<Rightarrow>
          if n = 404 then
            (if Option.bind (json_parse env body) (field ''error'') = Some (JStr ''BACKUP_NOT_FOUND'')
             then Inr None else Inl ''RELAY_BACKUP_UNAVAILABLE'')
          else if \<not> http_ok n then Inl ''RELAY_BACKUP_UNAVAILABLE''
          else if 90 * 1024 * 1024 < length body then Inl ''backup_too_large''
          else (case json_parse env body of
                  None \<Rightarrow> Inl ''SyntaxError''
                | Some j \<Rightarrow>
                    (case backup_put_schema (is_uuid env) (datetime_ok lib) j of
                       None \<Rightarrow> Inl ''ZodError''
                     | Some b \<Rightarrow>
                         let expected = writer_public lib (vk_writer keys)
                         in if bp_writer b \<noteq> expected \<or>
                               \<not> verify_challenge (dg_verify env) (b64_decode expected) (backup_signing_payload b)
                                   (b64_decode (bp_signature b))
                            then Inl ''INVALID_BACKUP_SIGNATURE'' else Inr (Some b))))"

text \<open>The snapshot: master key, salt, database file and the files of the attachments directory.\<close>

record snapshot =
  sn_vmk :: string
  sn_salt :: string
  sn_database :: string
  sn_files :: "(string \<times> string) list"

definition snapshot_json :: "snapshot \<Rightarrow> json" where
  "snapshot_json s = JObj
     [(''format'', JInt 1), (''vmk'', JStr (sn_vmk s)), (''hkdfSalt'', JStr (sn_salt s)),
      (''database'', JStr (sn_database s)), (''files'', JObj (map (\<lambda>(n, d). (n, JStr d)) (sn_files s)))]"

definition string_map :: "json \<Rightarrow> (string \<times> string) list option" where
  "string_map j = (case j of JObj kvs \<Rightarrow> those (map (\<lambda>(k, v). map_option (\<lambda>s. (k, s)) (as_string v)) kvs) | _ \<Rightarrow> None)"

definition snapshot_schema :: "json \<Rightarrow> snapshot option" where
  "snapshot_schema j = do {
     f \<leftarrow> required ''format'' (int_where (\<lambda>n. n = 1)) j;
     v \<leftarrow> required ''vmk'' (string_where (\<lambda>s. length s = 44)) j;
     s \<leftarrow> required ''hkdfSalt'' (string_where (\<lambda>s. length s = 24)) j;
     d \<leftarrow> required ''database'' (string_where (\<lambda>s. length s \<le> 256 * 1024 * 1024)) j;
     fs \<leftarrow> optional ''files'' string_map j;
     Some \<lparr>sn_vmk = v, sn_salt = s, sn_database = d, sn_files = (case fs of None \<Rightarrow> [] | Some l \<Rightarrow> l)\<rparr>}"

definition own_files :: "files \<Rightarrow> (string \<times> string) list" where
  "own_files fs = map (\<lambda>(n, b). (n, b64_encode b)) (filter (\<lambda>e. is_lower_hex_of 32 (fst e)) fs)"

definition disk_key :: "sec_vault \<Rightarrow> bytes" where
  "disk_key w = (case dk_key (s_vault w) of None \<Rightarrow> [] | Some k \<Rightarrow> k)"

definition take_snapshot :: "secure_lib \<Rightarrow> bytes \<Rightarrow> secure_config \<Rightarrow> sec_vault \<Rightarrow> snapshot" where
  "take_snapshot lib vmk c w =
     \<lparr>sn_vmk = b64_encode vmk, sn_salt = cf_salt c,
      sn_database = b64_encode (db_file lib (disk_key w) (dk_db (s_vault w))), sn_files = own_files (s_files w)\<rparr>"

definition snapshot_bytes :: "daemon_env \<Rightarrow> snapshot \<Rightarrow> bytes" where
  "snapshot_bytes env s = utf8 (json_text env (snapshot_json s))"

definition set_db :: "(local_db \<Rightarrow> local_db) \<Rightarrow> sec_vault \<Rightarrow> sec_vault" where
  "set_db f w = w\<lparr>s_vault := (s_vault w)\<lparr>dk_db := f (dk_db (s_vault w))\<rparr>\<rparr>"

text \<open>The proof that a registered device gives, and the body of the upload.\<close>

definition instance_proof :: "daemon_env \<Rightarrow> secure_lib \<Rightarrow> string \<Rightarrow> local_db \<Rightarrow> (string \<times> string \<times> string) option" where
  "instance_proof env lib token db =
     (let h = hex_encode (dg_sha256 env (utf8 token))
      in case (l_account db, l_auth_key db) of
           (Some a, Some (private, _)) \<Rightarrow>
             (case sa_user a of
                None \<Rightarrow> None
              | Some u \<Rightarrow> if u = [] then None
                  else Some (sa_device a, h, b64_encode (ed_sign lib private (utf8 (''cp-vault-instance-v1:'' @ h)))))
         | _ \<Rightarrow> None)"

definition unsigned_body ::
  "daemon_env \<Rightarrow> secure_lib \<Rightarrow> bytes \<Rightarrow> string \<Rightarrow> bool \<Rightarrow> vault_keys \<Rightarrow> secure_config \<Rightarrow> bytes \<Rightarrow> string \<Rightarrow> sec_vault \<Rightarrow>
     string + backup_put" where
  "unsigned_body env lib nonce now claim keys c vmk token w =
     try_then (encrypt_backup env (zip_bytes lib) nonce (snapshot_bytes env (take_snapshot lib vmk c w)) (vk_backup keys)) (\<lambda>e.
     let p = instance_proof env lib token (dk_db (s_vault w))
     in Inr \<lparr>bp_token = hex_encode (vk_lookup keys), bp_version = cf_version c + 1, bp_nonce = se_nonce e,
          bp_ciphertext = se_ciphertext e, bp_updated = now,
          bp_fragment = b64_encode (case s_external7 w of Some b \<Rightarrow> b
            | None \<Rightarrow> utf8 (case s_remote7 w of Some s \<Rightarrow> s | None \<Rightarrow> [])),
          bp_writer = writer_public lib (vk_writer keys), bp_signature = [],
          bp_device = map_option fst p, bp_instance = map_option (\<lambda>x. fst (snd x)) p,
          bp_device_signature = map_option (\<lambda>x. snd (snd x)) p, bp_claim = claim\<rparr>)"

definition signed_body :: "secure_lib \<Rightarrow> vault_keys \<Rightarrow> backup_put \<Rightarrow> backup_put" where
  "signed_body lib keys b = b\<lparr>bp_signature := b64_encode (ed_sign lib (vk_writer keys) (backup_signing_payload b))\<rparr>"

datatype sync_done = Skipped | Legacy | Stored int

text \<open>\<open>syncBackup\<close> with the body that was sent; \<open>put\<close> is the status of the answer.\<close>

definition sync_backup ::
  "daemon_env \<Rightarrow> secure_lib \<Rightarrow> bytes \<Rightarrow> string \<Rightarrow> string \<Rightarrow> bool \<Rightarrow> nat option \<Rightarrow> sec_vault \<Rightarrow>
     sec_vault \<times> backup_put option \<times> (string + sync_done)" where
  "sync_backup env lib nonce token now claim put w =
     (case s_config w of
        None \<Rightarrow> (w, None, Inr Skipped)
      | Some c \<Rightarrow>
          if \<not> cf_cloud c then (w, None, Inr Skipped)
          else (case (s_keys w, s_vmk w) of
             (Some keys, Some vmk) \<Rightarrow>
               if sec_locked w then (w, None, Inl ''vault_locked'')
               else (let w1 = set_db (\<lambda>db. db\<lparr>l_instance := Some (case l_instance db of None \<Rightarrow> token | Some t \<Rightarrow> t)\<rparr>) w;
                         t = (case l_instance (dk_db (s_vault w)) of None \<Rightarrow> token | Some t \<Rightarrow> t)
                     in case unsigned_body env lib nonce now claim keys c vmk t w1 of
                          Inl e \<Rightarrow> (w1, None, Inl e)
                        | Inr b \<Rightarrow>
                            (case put of
                               None \<Rightarrow> (w1, Some (signed_body lib keys b), Inl ''fetch failed'')
                             | Some n \<Rightarrow>
                                 if http_ok n
                                 then (save_config ((with_config (\<lambda>c. c\<lparr>cf_version := bp_version b\<rparr>) w1)\<lparr>s_relay := True\<rparr>),
                                       Some (signed_body lib keys b), Inr (Stored (bp_version b)))
                                 else (w1, Some (signed_body lib keys b),
                                       Inl (if n = 409 then ''BACKUP_CONFLICT_RESTORE_REQUIRED'' else ''RELAY_BACKUP_UNAVAILABLE''))))
           | _ \<Rightarrow> (w, None, Inl ''vault_locked'')))"

section \<open>Creating and unlocking\<close>

text \<open>
  What a call needs from outside: the random values of a new wrapping and of an upload, the clock, and the
  answers of the relay to the download and the upload.
\<close>

record secure_io =
  io_draw :: secure_draw
  io_nonce :: bytes
  io_token :: string
  io_now :: string
  io_get :: http
  io_put :: "nat option"

text \<open>A creation that fails removes the directory, if it was not there before.\<close>

definition abandon :: "bool \<Rightarrow> sec_vault \<Rightarrow> sec_vault" where
  "abandon existed w = (if existed then (sec_lock w)\<lparr>s_config := None\<rparr> else fresh_sec)"

definition keep_capsule :: "sec_vault \<Rightarrow> sec_vault" where
  "keep_capsule w = w\<lparr>s_external7 := map_option utf8 (s_remote7 w), s_remote7 := None\<rparr>"

definition provision_new :: "daemon_env \<Rightarrow> cipher \<Rightarrow> secure_draw \<Rightarrow> bool \<Rightarrow> vault_keys \<Rightarrow> sec_vault \<Rightarrow> sec_vault \<times> (string + string)" where
  "provision_new env opens d relay_backed keys w =
     (case provision env d (sd_vmk d) keys (b64_encode (sd_salt d)) None w of
        (w1, Inl e) \<Rightarrow> (w1, Inl e)
      | (w1, Inr client) \<Rightarrow>
          (case sec_open env opens (sd_vmk d) (sd_salt d) w1 of
             (w2, Inl e) \<Rightarrow> (w2, Inl e)
           | (w2, Inr _) \<Rightarrow>
               let w3 = with_config (\<lambda>c. c\<lparr>cf_cloud := relay_backed\<rparr>) w2
               in (if relay_backed then w3
                   else (keep_capsule (with_config (\<lambda>c. c\<lparr>cf_external := True, cf_pending := True\<rparr>) w3))\<lparr>s_relay := True\<rparr>,
                   Inr client)))"

definition create_secure ::
  "daemon_env \<Rightarrow> secure_lib \<Rightarrow> cipher \<Rightarrow> secure_io \<Rightarrow> bool \<Rightarrow> string \<Rightarrow> string \<Rightarrow> bool \<Rightarrow> sec_vault \<Rightarrow>
     sec_vault \<times> (string + string \<times> bytes)" where
  "create_secure env lib opens io existed i p relay_backed w =
     (if sec_exists w then (w, Inl ''vault_already_exists'')
      else (case validate_password p of
         Some e \<Rightarrow> (w, Inl e)
       | None \<Rightarrow>
           (let keys = derive_vault_keys env i p in
            case (if relay_backed then download_backup env lib keys (io_get io) else Inr None) of
              Inl e \<Rightarrow> (abandon existed w, Inl e)
            | Inr (Some _) \<Rightarrow> (abandon existed w, Inl ''VAULT_ID_ALREADY_EXISTS_USE_RESTORE'')
            | Inr None \<Rightarrow>
                (case provision_new env opens (io_draw io) relay_backed keys w of
                   (w1, Inl e) \<Rightarrow> (abandon existed w1, Inl e)
                 | (w1, Inr client) \<Rightarrow>
                     (case (if relay_backed
                            then sync_backup env lib (io_nonce io) (io_token io) (io_now io) False (io_put io) w1
                            else (w1, None, Inr Skipped)) of
                        (w2, _, Inl e) \<Rightarrow> (abandon existed w2, Inl e)
                      | (w2, _, Inr _) \<Rightarrow>
                          (case shard7_file (save_config w2) of
                             Inl e \<Rightarrow> (abandon existed (save_config w2), Inl e)
                           | Inr capsule \<Rightarrow> (save_config w2, Inr (client, capsule))))))))"

text \<open>The shares and the wrapped key of an existing vault, with the text of the seventh fragment.\<close>

definition unwrap_shards ::
  "daemon_env \<Rightarrow> cipher \<Rightarrow> string option \<Rightarrow> string \<Rightarrow> vault_keys \<Rightarrow> secure_config \<Rightarrow> sec_vault \<Rightarrow> sec_vault \<times> (string + bytes)" where
  "unwrap_shards env opens client f7 keys c w =
     (case collect env opens client (Some f7) (vk_mask keys) (vk_backup keys) (cf_hashes c) (s_shards w) of
        (h, Inl e) \<Rightarrow> (w\<lparr>s_shards := h\<rparr>, Inl e)
      | (h, Inr wrapped) \<Rightarrow>
          (case open_sealed env \<lparr>se_nonce = cf_nonce c, se_ciphertext = b64_encode wrapped\<rparr> (vk_kek keys) vmk_aad of
             Inl e \<Rightarrow> (w\<lparr>s_shards := h\<rparr>, Inl e)
           | Inr vmk \<Rightarrow>
               (case sec_open env opens vmk (b64_decode (cf_salt c)) (w\<lparr>s_shards := h\<rparr>) of
                  (w', Inl e) \<Rightarrow> (w', Inl e)
                | (w', Inr _) \<Rightarrow> (w', Inr vmk))))"

definition check_capsule :: "daemon_env \<Rightarrow> vault_keys \<Rightarrow> secure_config \<Rightarrow> string option \<Rightarrow> string + bytes" where
  "check_capsule env keys c payload =
     (case payload of
        None \<Rightarrow> Inl ''SHARD7_FILE_REQUIRED''
      | Some p \<Rightarrow>
          if p = [] then Inl ''SHARD7_FILE_REQUIRED''
          else try_then (seventh env (b64_decode p) keys) (\<lambda>share.
               if length (cf_hashes c) < 7 \<or> shard_digest env share \<noteq> cf_hashes c ! 6 then Inl ''SHARD7_FILE_MISMATCH''
               else file_envelope (b64_decode p) shard_header 2048))"

definition unlock_external ::
  "daemon_env \<Rightarrow> cipher \<Rightarrow> vault_keys \<Rightarrow> string option \<Rightarrow> string option \<Rightarrow> secure_config \<Rightarrow> sec_vault \<Rightarrow> sec_vault \<times> (string + unit)" where
  "unlock_external env opens keys client payload c w =
     (case check_capsule env keys c payload of
        Inl e \<Rightarrow> (sec_lock w, Inl e)
      | Inr sealed \<Rightarrow>
          (case unwrap_shards env opens client (utf8_text env sealed) keys c w of
             (w1, Inl e) \<Rightarrow> (sec_lock w1, Inl e)
           | (w1, Inr vmk) \<Rightarrow>
               (w1\<lparr>s_keys := Some keys, s_vmk := Some vmk, s_external7 := Some sealed, s_client := True, s_relay := True\<rparr>, Inr ())))"

definition unlock_remote ::
  "daemon_env \<Rightarrow> secure_lib \<Rightarrow> cipher \<Rightarrow> http \<Rightarrow> vault_keys \<Rightarrow> string option \<Rightarrow> secure_config \<Rightarrow> sec_vault \<Rightarrow>
     sec_vault \<times> (string + unit)" where
  "unlock_remote env lib opens answer keys client c w =
     (case download_backup env lib keys answer of
        Inl e \<Rightarrow> (sec_lock w,
          Inl (if e = ''ZodError'' \<or> e = ''INVALID_BACKUP_SIGNATURE'' then ''HORCRUX_INCOMPLETE_RESTORE_REQUIRED'' else e))
      | Inr None \<Rightarrow> (sec_lock w, Inl ''BACKUP_NOT_FOUND_OR_INVALID_CREDENTIALS'')
      | Inr (Some b) \<Rightarrow>
          (let f7 = utf8_text env (b64_decode (bp_fragment b)) in
           case unwrap_shards env opens client f7 keys c (w\<lparr>s_relay := True\<rparr>) of
             (w1, Inl e) \<Rightarrow> (sec_lock w1, Inl e)
           | (w1, Inr vmk) \<Rightarrow>
               (with_config (\<lambda>c. c\<lparr>cf_version := bp_version b\<rparr>)
                  ((save_config (w1\<lparr>s_remote7 := Some f7\<rparr>))\<lparr>s_keys := Some keys, s_vmk := Some vmk, s_client := True\<rparr>),
                Inr ())))"

text \<open>\<open>unlockSecure\<close>, when the id is not the duress id.\<close>

definition unlock_main ::
  "daemon_env \<Rightarrow> secure_lib \<Rightarrow> cipher \<Rightarrow> http \<Rightarrow> string \<Rightarrow> string \<Rightarrow> string option \<Rightarrow> string option \<Rightarrow> sec_vault \<Rightarrow>
     sec_vault \<times> (string + unit)" where
  "unlock_main env lib opens answer i p client payload w =
     (if \<not> sec_locked w then (w, Inl ''vault_already_unlocked'')
      else (case s_config w of
         None \<Rightarrow> (case unlock env opens p (s_vault w) of (v, r) \<Rightarrow> (w\<lparr>s_vault := v\<rparr>, r))
       | Some c \<Rightarrow>
           if cf_external c then unlock_external env opens (derive_vault_keys env i p) client payload c w
           else unlock_remote env lib opens answer (derive_vault_keys env i p) client c w))"

section \<open>Carrying the vault\<close>

definition export_storage :: "daemon_env \<Rightarrow> secure_lib \<Rightarrow> bytes \<Rightarrow> sec_vault \<Rightarrow> string + bytes" where
  "export_storage env lib nonce w =
     (case (s_keys w, s_vmk w) of
        (Some keys, Some vmk) \<Rightarrow>
          try_then (sec_database w) (\<lambda>_.
          try_then (secure_config_of w) (\<lambda>c.
          try_then (shard7_file w) (\<lambda>capsule.
          encode_storage env nonce (zip_bytes lib (snapshot_bytes env (take_snapshot lib vmk c w))) capsule keys)))
      | _ \<Rightarrow> Inl ''vault_locked'')"

definition read_snapshot :: "daemon_env \<Rightarrow> bytes option \<Rightarrow> string + snapshot" where
  "read_snapshot env plain =
     (case plain of
        None \<Rightarrow> Inl ''gunzip''
      | Some b \<Rightarrow> (case json_parse env (utf8_text env b) of
           None \<Rightarrow> Inl ''SyntaxError''
         | Some j \<Rightarrow> (case snapshot_schema j of None \<Rightarrow> Inl ''ZodError'' | Some s \<Rightarrow> Inr s)))"

definition snapshot_limit :: nat where
  "snapshot_limit = 256 * 1024 * 1024"

definition place_files :: "(string \<times> string) list \<Rightarrow> string + files" where
  "place_files fs =
     (if list_all (\<lambda>e. is_lower_hex_of 32 (fst e)) fs then Inr (fold (\<lambda>(n, d). map_set n (b64_decode d)) fs [])
      else Inl ''invalid_snapshot_path'')"

text \<open>The cached files get the paths of the directory \<open>dir\<close> that the vault is moved to.\<close>

definition relocate :: "string \<Rightarrow> local_db \<Rightarrow> local_db" where
  "relocate dir db = db\<lparr>l_attachments := update_where (\<lambda>a. at_path a \<noteq> None) (\<lambda>a. a\<lparr>at_path := Some (dir @ at_id a)\<rparr>)
     (l_attachments db)\<rparr>"

definition open_file ::
  "daemon_env \<Rightarrow> secure_lib \<Rightarrow> cipher \<Rightarrow> bytes \<Rightarrow> bytes \<Rightarrow> bytes \<Rightarrow> sec_vault \<Rightarrow> string + sec_vault" where
  "open_file env lib opens content vmk salt w =
     (case db_load lib content of
        None \<Rightarrow> Inl ''invalid_vault_password''
      | Some (k, db) \<Rightarrow>
          (case sec_open env opens vmk salt (w\<lparr>s_vault := (s_vault w)\<lparr>dk_key := Some k, dk_db := db\<rparr>\<rparr>) of
             (_, Inl e) \<Rightarrow> Inl e
           | (w', Inr _) \<Rightarrow> Inr w'))"

text \<open>The directory that \<open>importStorage\<close> builds, with the new client shard.\<close>

definition stage_storage ::
  "daemon_env \<Rightarrow> secure_lib \<Rightarrow> cipher \<Rightarrow> secure_draw \<Rightarrow> string \<Rightarrow> vault_keys \<Rightarrow> bytes \<Rightarrow> snapshot \<Rightarrow> string + sec_vault \<times> string" where
  "stage_storage env lib opens d dir keys capsule s =
     (let master = b64_decode (sn_vmk s); salt = b64_decode (sn_salt s)
      in if length master \<noteq> 32 \<or> length salt \<noteq> 16 then Inl ''INVALID_STORAGE_FILE''
         else try_then (seventh env capsule keys) (\<lambda>share.
           case provision env d master keys (sn_salt s) (Some share) fresh_sec of
             (_, Inl e) \<Rightarrow> Inl e
           | (w1, Inr client) \<Rightarrow>
               try_then (file_envelope capsule shard_header 2048) (\<lambda>sealed.
               let w2 = (with_config (\<lambda>c. c\<lparr>cf_external := True, cf_cloud := False\<rparr>) w1)
                          \<lparr>s_external7 := Some sealed, s_remote7 := None\<rparr>
               in try_then (open_file env lib opens (b64_decode (sn_database s)) master salt w2) (\<lambda>w3.
                  try_then (place_files (sn_files s)) (\<lambda>fs.
                  if list_ex (\<lambda>a. at_path a \<noteq> None \<and> map_get fs (at_id a) = None) (l_attachments (dk_db (s_vault w3)))
                  then Inl ''BACKUP_ATTACHMENT_MISSING''
                  else Inr (sec_lock (save_config (set_db (relocate dir) (w3\<lparr>s_files := fs\<rparr>))), client))))))"

definition import_storage ::
  "daemon_env \<Rightarrow> secure_lib \<Rightarrow> cipher \<Rightarrow> secure_draw \<Rightarrow> string \<Rightarrow> bytes \<Rightarrow> string \<Rightarrow> string \<Rightarrow> bytes \<Rightarrow> sec_vault \<Rightarrow>
     sec_vault \<times> (string + string)" where
  "import_storage env lib opens d dir content i p capsule w =
     (if \<not> sec_locked w then (w, Inl ''LOCK_BEFORE_STORAGE_SWITCH'')
      else (let keys = derive_vault_keys env i p in
        case try_then (decode_storage env content capsule keys) (\<lambda>z.
             try_then (read_snapshot env (unzip_bytes lib snapshot_limit z)) (stage_storage env lib opens d dir keys capsule)) of
          Inl e \<Rightarrow> (w, Inl e)
        | Inr (staged, client) \<Rightarrow>
            (case unlock_main env lib opens Unreached i p (Some client) (Some (b64_encode capsule)) (sec_initialize staged) of
               (w', Inl e) \<Rightarrow> (w', Inl e)
             | (w', Inr _) \<Rightarrow> (w', Inr client))))"

text \<open>The directory that \<open>restoreSecure\<close> builds from a backup: no token of the relay is carried over.\<close>

definition forget_relay :: "local_db \<Rightarrow> local_db" where
  "forget_relay db = db\<lparr>l_relay_token := None, l_instance := None\<rparr>"

definition stage_backup ::
  "daemon_env \<Rightarrow> secure_lib \<Rightarrow> cipher \<Rightarrow> secure_draw \<Rightarrow> string \<Rightarrow> vault_keys \<Rightarrow> int \<Rightarrow> snapshot \<Rightarrow>
     string + sec_vault \<times> string \<times> bytes" where
  "stage_backup env lib opens d dir keys version s =
     (let vmk = b64_decode (sn_vmk s)
      in if length vmk \<noteq> 32 then Inl ''invalid_snapshot''
         else case provision env d vmk keys (sn_salt s) None fresh_sec of
             (_, Inl e) \<Rightarrow> Inl e
           | (w1, Inr client) \<Rightarrow>
               try_then (open_file env lib opens (b64_decode (sn_database s)) vmk (b64_decode (sn_salt s)) w1) (\<lambda>w2.
               try_then (place_files (sn_files s)) (\<lambda>fs.
               let w3 = set_db (relocate dir) ((set_db forget_relay w2)\<lparr>s_files := fs\<rparr>);
                   w4 = save_config (keep_capsule
                          (with_config (\<lambda>c. c\<lparr>cf_version := version, cf_external := True, cf_cloud := False\<rparr>) w3))
               in try_then (shard7_file w4) (\<lambda>capsule. Inr (sec_lock w4, client, capsule)))))"

definition restore_secure ::
  "daemon_env \<Rightarrow> secure_lib \<Rightarrow> cipher \<Rightarrow> secure_draw \<Rightarrow> http \<Rightarrow> string \<Rightarrow> string \<Rightarrow> string \<Rightarrow> sec_vault \<Rightarrow>
     sec_vault \<times> (string + string \<times> bytes)" where
  "restore_secure env lib opens d answer dir i p w =
     (if \<not> sec_locked w then (w, Inl ''LOCK_BEFORE_RESTORE'')
      else (let keys = derive_vault_keys env i p in
        case try_then (download_backup env lib keys answer) (\<lambda>remote.
             case remote of
               None \<Rightarrow> Inl ''BACKUP_NOT_FOUND_OR_INVALID_CREDENTIALS''
             | Some b \<Rightarrow>
                 try_then (open_sealed env \<lparr>se_nonce = bp_nonce b, se_ciphertext = bp_ciphertext b\<rparr> (vk_backup keys) ''vault-backup-v1'') (\<lambda>z.
                 try_then (read_snapshot env (unzip_bytes lib snapshot_limit z)) (stage_backup env lib opens d dir keys (bp_version b)))) of
          Inl e \<Rightarrow> (w, Inl e)
        | Inr (staged, client, capsule) \<Rightarrow>
            (case unlock_main env lib opens Unreached i p (Some client) (Some (b64_encode capsule)) (sec_initialize staged) of
               (w', Inl e) \<Rightarrow> (w', Inl e)
             | (w', Inr _) \<Rightarrow> (w', Inr (client, capsule)))))"

section \<open>Changing the password\<close>

text \<open>A copy of the directory, opened by a new object.\<close>

definition copy_dir :: "sec_vault \<Rightarrow> sec_vault" where
  "copy_dir w = (sec_lock w)\<lparr>s_vault := (lock_vault (s_vault w))\<lparr>vt_config := None\<rparr>, s_config := None\<rparr>"

definition same_keys :: "vault_keys \<Rightarrow> vault_keys \<Rightarrow> vault_keys \<Rightarrow> string + unit" where
  "same_keys running old next =
     (if vk_kek old \<noteq> vk_kek running then Inl ''invalid_vault_password''
      else if vk_lookup old = vk_lookup next then Inl ''NEW_PASSWORD_MUST_DIFFER'' else Inr ())"

definition rotate_local ::
  "daemon_env \<Rightarrow> cipher \<Rightarrow> secure_draw \<Rightarrow> bytes \<Rightarrow> vault_keys \<Rightarrow> secure_config \<Rightarrow> sec_vault \<Rightarrow> string + sec_vault \<times> string \<times> bytes" where
  "rotate_local env opens d vmk next c w =
     (case provision env d vmk next (cf_salt c) None (copy_dir w) of
        (_, Inl e) \<Rightarrow> Inl e
      | (w1, Inr client) \<Rightarrow>
          let w2 = keep_capsule (with_config (\<lambda>c. c\<lparr>cf_external := True, cf_cloud := False\<rparr>) w1)
          in case sec_open env opens vmk (b64_decode (cf_salt c)) w2 of
               (_, Inl e) \<Rightarrow> Inl e
             | (w3, Inr _) \<Rightarrow>
                 try_then (shard7_file (save_config w3)) (\<lambda>capsule. Inr (sec_lock (save_config w3), client, capsule)))"

text \<open>The two uploads and the removal of the old backup; \<open>gone\<close> is the status of the answer to the last.\<close>

definition delete_payload :: "vault_keys \<Rightarrow> int \<Rightarrow> bytes" where
  "delete_payload keys version = utf8 (''cp-backup-delete-v1:'' @ hex_encode (vk_lookup keys) @ '':'' @ show_int version)"

definition rotate_cloud ::
  "daemon_env \<Rightarrow> secure_lib \<Rightarrow> cipher \<Rightarrow> secure_io \<Rightarrow> secure_io \<Rightarrow> nat option \<Rightarrow> bytes \<Rightarrow> vault_keys \<Rightarrow> sec_vault \<Rightarrow>
     sec_vault \<times> (string + sec_vault \<times> string)" where
  "rotate_cloud env lib opens io io' gone vmk next w =
     (case download_backup env lib next (io_get io) of
        Inl e \<Rightarrow> (w, Inl e)
      | Inr (Some _) \<Rightarrow> (w, Inl ''NEW_CREDENTIALS_ALREADY_IN_USE'')
      | Inr None \<Rightarrow>
          (case sync_backup env lib (io_nonce io) (io_token io) (io_now io) False (io_put io) w of
             (w1, _, Inl e) \<Rightarrow> (w1, Inl e)
           | (w1, _, Inr _) \<Rightarrow>
               (case s_config w1 of
                  None \<Rightarrow> (w1, Inl ''LEGACY_VAULT_USE_EXISTING_PASSWORD'')
                | Some c \<Rightarrow>
                    (case provision env (io_draw io') vmk next (cf_salt c) None (copy_dir w1) of
                       (_, Inl e) \<Rightarrow> (w1, Inl e)
                     | (n1, Inr client) \<Rightarrow>
                         (case sec_open env opens vmk (b64_decode (cf_salt c)) n1 of
                            (_, Inl e) \<Rightarrow> (w1, Inl e)
                          | (n2, Inr _) \<Rightarrow>
                              (case sync_backup env lib (io_nonce io') (io_token io') (io_now io') False (io_put io')
                                      (with_config (\<lambda>c. c\<lparr>cf_cloud := True\<rparr>) n2) of
                                 (_, _, Inl e) \<Rightarrow> (w1, Inl e)
                               | (n3, _, Inr _) \<Rightarrow>
                                   (case gone of
                                      None \<Rightarrow> (w1, Inl ''fetch failed'')
                                    | Some n \<Rightarrow>
                                        if http_ok n then (w1, Inr (sec_lock n3, client))
                                        else (w1, Inl ''OLD_BACKUP_REMOVAL_FAILED_PASSWORD_UNCHANGED''))))))))"

definition finish_rotation ::
  "daemon_env \<Rightarrow> secure_lib \<Rightarrow> cipher \<Rightarrow> http \<Rightarrow> string \<Rightarrow> string \<Rightarrow> string \<Rightarrow> bytes option \<Rightarrow> sec_vault \<Rightarrow>
     sec_vault \<times> (string + string \<times> bytes option)" where
  "finish_rotation env lib opens answer i p client capsule staged =
     (case unlock_main env lib opens answer i p (Some client) (map_option b64_encode capsule) (sec_initialize staged) of
        (w', Inl e) \<Rightarrow> (w', Inl e)
      | (w', Inr _) \<Rightarrow> (w', Inr (client, capsule)))"

text \<open>
  \<open>changeSecurePassword\<close>; \<open>io\<close> serves the running vault, \<open>io'\<close> the staged one, \<open>back\<close> is the answer to
  the download of the last unlock.
\<close>

definition change_secure_password ::
  "daemon_env \<Rightarrow> secure_lib \<Rightarrow> cipher \<Rightarrow> secure_io \<Rightarrow> secure_io \<Rightarrow> nat option \<Rightarrow> http \<Rightarrow> string \<Rightarrow> string \<Rightarrow> string \<Rightarrow> sec_vault \<Rightarrow>
     sec_vault \<times> (string + string \<times> bytes option)" where
  "change_secure_password env lib opens io io' gone back i old new w =
     (case s_config w of
        None \<Rightarrow> (case change_password env (sd_salt (io_draw io)) (sd_nonce (io_draw io)) old new (s_vault w) of
            (v, Inl e) \<Rightarrow> (w\<lparr>s_vault := v\<rparr>, Inl e) | (v, Inr _) \<Rightarrow> (w\<lparr>s_vault := v\<rparr>, Inr ([], None)))
      | Some c \<Rightarrow>
          (case (s_keys w, s_vmk w) of
             (Some keys, Some vmk) \<Rightarrow>
               if sec_locked w then (w, Inl ''vault_locked'')
               else (case validate_password new of
                  Some e \<Rightarrow> (w, Inl e)
                | None \<Rightarrow>
                    (case same_keys keys (derive_vault_keys env i old) (derive_vault_keys env i new) of
                       Inl e \<Rightarrow> (w, Inl e)
                     | Inr _ \<Rightarrow>
                         if cf_external c \<or> \<not> cf_cloud c
                         then (case rotate_local env opens (io_draw io) vmk (derive_vault_keys env i new) c w of
                                 Inl e \<Rightarrow> (w, Inl e)
                               | Inr (staged, client, capsule) \<Rightarrow>
                                   finish_rotation env lib opens back i new client (Some capsule) staged)
                         else (case rotate_cloud env lib opens io io' gone vmk (derive_vault_keys env i new) w of
                                 (w1, Inl e) \<Rightarrow> (w1, Inl e)
                               | (_, Inr (staged, client)) \<Rightarrow>
                                   finish_rotation env lib opens back i new client None staged)))
           | _ \<Rightarrow> (w, Inl ''vault_locked'')))"

definition plain_change_password :: "daemon_env \<Rightarrow> bytes \<Rightarrow> bytes \<Rightarrow> string \<Rightarrow> string \<Rightarrow> sec_vault \<Rightarrow> sec_vault \<times> (string + unit)" where
  "plain_change_password env salt nonce old new w =
     (if s_config w \<noteq> None then (w, Inl ''DUAL_KEY_PASSWORD_ROTATION_REQUIRES_BACKUP_MIGRATION'')
      else (case change_password env salt nonce old new (s_vault w) of (v, r) \<Rightarrow> (w\<lparr>s_vault := v\<rparr>, r)))"

section \<open>The decoy\<close>

text \<open>
  The vault with the registry of \<open>duress.json\<close>: salt, tag and the decoy's own vault in its directory.
  \<open>sv_active\<close> tells that the decoy is what the daemon works on.
\<close>

record sovereign =
  sv_main :: sec_vault
  sv_registry :: "(string \<times> string \<times> sec_vault) option"
  sv_active :: bool

definition sov_vault :: "sovereign \<Rightarrow> sec_vault" where
  "sov_vault s = (case sv_registry s of None \<Rightarrow> sv_main s | Some (_, _, d) \<Rightarrow> if sv_active s then d else sv_main s)"

definition sov_database :: "sovereign \<Rightarrow> string + local_db" where
  "sov_database s = sec_database (sov_vault s)"

definition sov_locked :: "sovereign \<Rightarrow> bool" where
  "sov_locked s = sec_locked (sov_vault s)"

definition sov_with_decoy :: "(sec_vault \<Rightarrow> sec_vault) \<Rightarrow> sovereign \<Rightarrow> sovereign" where
  "sov_with_decoy f s = s\<lparr>sv_registry := map_option (\<lambda>(a, b, d). (a, b, f d)) (sv_registry s)\<rparr>"

definition sov_lock :: "sovereign \<Rightarrow> sovereign" where
  "sov_lock s = (sov_with_decoy sec_lock s)\<lparr>sv_main := sec_lock (sv_main s)\<rparr>"

definition drop_decoy :: "sovereign \<Rightarrow> sovereign" where
  "drop_decoy s = (sov_with_decoy sec_lock s)\<lparr>sv_active := False\<rparr>"

definition duress_tag :: "daemon_env \<Rightarrow> string \<Rightarrow> string \<Rightarrow> string" where
  "duress_tag env salt i = hex_encode (dg_sha256 env (utf8 (salt @ i)))"

definition decoy_password :: "daemon_env \<Rightarrow> string \<Rightarrow> string" where
  "decoy_password env i = hex_encode (dg_sha256 env (utf8 (''cp-decoy-password-v1:'' @ i))) @ ''Aa1!''"

definition is_duress :: "daemon_env \<Rightarrow> string \<Rightarrow> sovereign \<Rightarrow> bool" where
  "is_duress env i s = (case sv_registry s of None \<Rightarrow> False | Some (salt, tag, _) \<Rightarrow> duress_tag env salt i = tag)"

definition unlock_secure ::
  "daemon_env \<Rightarrow> secure_lib \<Rightarrow> cipher \<Rightarrow> http \<Rightarrow> string \<Rightarrow> string \<Rightarrow> string option \<Rightarrow> string option \<Rightarrow> string option \<Rightarrow> sovereign \<Rightarrow>
     sovereign \<times> (string + unit)" where
  "unlock_secure env lib opens answer i p client decoy_client payload s =
     (if is_duress env i s
      then (case sv_registry (sov_lock s) of
              None \<Rightarrow> (s, Inr ())
            | Some (salt, tag, d) \<Rightarrow>
                (case unlock_main env lib opens answer i (decoy_password env i) decoy_client None (sec_initialize d) of
                   (d', r) \<Rightarrow> ((sov_lock s)\<lparr>sv_registry := Some (salt, tag, d'), sv_active := (r = Inr ())\<rparr>, r)))
      else let s1 = (if sv_active s then drop_decoy s else s)
           in case unlock_main env lib opens answer i p client payload (sv_main s1) of
                (w, r) \<Rightarrow> (s1\<lparr>sv_main := w\<rparr>, r))"

text \<open>The notes that the decoy shows; the identifiers and the key are random.\<close>

record decoy_draw =
  dd_salt :: bytes
  dd_contact :: string
  dd_conversation :: string
  dd_key :: bytes
  dd_user :: string
  dd_device :: string
  dd_notes :: "string list"
  dd_now :: ms

definition decoy_notes :: "string list" where
  "decoy_notes = [''Pick up groceries after work.'', ''Walk in the park this weekend.'', ''Remember to water the plants.'']"

definition seed_decoy :: "decoy_draw \<Rightarrow> local_db \<Rightarrow> local_db" where
  "seed_decoy d db = db
     \<lparr>l_contacts := l_contacts db @ [\<lparr>ct_id = dd_contact d, ct_name = ''Daily notes'', ct_uid = None, ct_identity = dd_key d,
        ct_verified = False, ct_safety = None, ct_changed = False, ct_created = dd_now d\<rparr>],
      l_remotes := l_remotes db @ [\<lparr>rm_contact = dd_contact d, rm_user = dd_user d, rm_device = dd_device d, rm_signal = 1\<rparr>],
      l_conversations := l_conversations db @ [\<lparr>co_id = dd_conversation d, co_contact = dd_contact d, co_timer = None,
        co_created = dd_now d\<rparr>],
      l_messages := l_messages db @ map (\<lambda>(i, t). \<lparr>lm_id = i, lm_conversation = dd_conversation d, lm_direction = Received,
        lm_text = t, lm_sent = None, lm_received = Some (dd_now d), lm_disappear = None, lm_remote = None,
        lm_status = ''received''\<rparr>) (zip (dd_notes d) decoy_notes)\<rparr>"

definition configure_duress ::
  "daemon_env \<Rightarrow> secure_lib \<Rightarrow> cipher \<Rightarrow> secure_io \<Rightarrow> secure_io \<Rightarrow> decoy_draw \<Rightarrow> string \<Rightarrow> sovereign \<Rightarrow>
     sovereign \<times> (string + string)" where
  "configure_duress env lib opens io io' d i s =
     (if sv_active s \<or> sov_locked s then (s, Inl ''PRIMARY_VAULT_REQUIRED'')
      else if length i < 16 \<or> 256 < length i then (s, Inl ''DURESS_ID_MINIMUM_16_CHARACTERS'')
      else (case create_secure env lib opens io False i (decoy_password env i) True fresh_sec of
              (_, Inl e) \<Rightarrow> (s, Inl e)
            | (w, Inr (client, _)) \<Rightarrow>
                (case sync_backup env lib (io_nonce io') (io_token io') (io_now io') False (io_put io') (set_db (seed_decoy d) w) of
                   (_, _, Inl e) \<Rightarrow> (s, Inl e)
                 | (w', _, Inr _) \<Rightarrow>
                     (s\<lparr>sv_registry := Some (hex_encode (dd_salt d), duress_tag env (hex_encode (dd_salt d)) i, sec_lock w')\<rparr>,
                      Inr client))))"

text \<open>
  Operations that ask the database of the session, but change the configuration of the object: with the
  decoy active this is the main vault's.
\<close>

definition set_cloud_backup :: "bool \<Rightarrow> sovereign \<Rightarrow> sovereign \<times> (string + unit)" where
  "set_cloud_backup b s =
     (case update_config (sov_database s) (cloud_config b) (sv_main s) of (w, r) \<Rightarrow> (s\<lparr>sv_main := w\<rparr>, r))"

definition confirm_shard7_saved :: "sovereign \<Rightarrow> sovereign \<times> (string + unit)" where
  "confirm_shard7_saved s =
     (case update_config (sov_database s) saved_config (sv_main s) of (w, r) \<Rightarrow> (s\<lparr>sv_main := w\<rparr>, r))"

definition cloud_backup_enabled :: "sovereign \<Rightarrow> bool" where
  "cloud_backup_enabled s = (case s_config (sov_vault s) of None \<Rightarrow> False | Some c \<Rightarrow> cf_cloud c)"

definition sov_sync_backup ::
  "daemon_env \<Rightarrow> secure_lib \<Rightarrow> secure_io \<Rightarrow> bool \<Rightarrow> sovereign \<Rightarrow> sovereign \<times> backup_put option \<times> (string + sync_done)" where
  "sov_sync_backup env lib io claim s =
     (case sync_backup env lib (io_nonce io) (io_token io) (io_now io) claim (io_put io) (sov_vault s) of
        (w, b, r) \<Rightarrow> (if sv_active s \<and> sv_registry s \<noteq> None then sov_with_decoy (\<lambda>_. w) s else s\<lparr>sv_main := w\<rparr>, b, r))"

definition sov_status :: "bool option \<Rightarrow> sovereign \<Rightarrow> (bool list \<times> nat \<times> bool) \<times> bool" where
  "sov_status client s =
     (let w = sov_vault s; hashes = (case s_config w of None \<Rightarrow> [] | Some c \<Rightarrow> cf_hashes c);
          external = (case s_config w of None \<Rightarrow> False | Some c \<Rightarrow> cf_external c)
      in (shard_status (case client of None \<Rightarrow> s_client (sv_main s) | Some b \<Rightarrow> b) (s_relay w) hashes (s_shards w), external))"

end
