(* ===== verification/Daemon_Sovereign.thy ===== *)
theory Daemon_Sovereign
  imports Daemon_Secure
begin

text \<open>
  Runs of the secure vault: whatever is done with it, the vault id, the password, the client shard and the
  file of the seventh shard that the user was last given open it again.
\<close>

section \<open>What opens a vault\<close>

text \<open>
  The hypotheses about libraries: \<open>JSON.stringify\<close> of a sealed share of 48 bytes fits into the 2048 bytes
  that a capsule may have, \<open>gunzip\<close> undoes \<open>gzip\<close> up to its limit, and the file of the database is read back.
\<close>

definition capsule_fits :: "daemon_env \<Rightarrow> bool" where
  "capsule_fits env \<longleftrightarrow> (\<forall>v. length (se_nonce v) = 16 \<longrightarrow> length (se_ciphertext v) = 88 \<longrightarrow>
     length (utf8 (json_text env (sealed_json v))) \<le> 2039)"

definition lib_ok :: "secure_lib \<Rightarrow> sec_vault \<Rightarrow> bool" where
  "lib_ok lib w \<longleftrightarrow> (\<forall>n b. length b \<le> n \<longrightarrow> unzip_bytes lib n (zip_bytes lib b) = Some b) \<and>
     (\<forall>k. dk_key (s_vault w) = Some k \<longrightarrow>
        db_load lib (db_file lib k (dk_db (s_vault w))) = Some (k, dk_db (s_vault w)))"

definition draw_ok :: "secure_draw \<Rightarrow> bool" where
  "draw_ok d \<longleftrightarrow> length (sd_vmk d) = 32 \<and> length (sd_salt d) = 16 \<and> length (sd_nonce d) = 12 \<and>
     randoms (sc_shares (sd_scatter d)) \<and> length (sc_nonce3 (sd_scatter d)) = 12 \<and>
     length (sc_nonce6 (sd_scatter d)) = 12 \<and> length (sc_nonce7 (sd_scatter d)) = 12"

definition same_shards :: "shards \<Rightarrow> shards \<Rightarrow> bool" where
  "same_shards h h' \<longleftrightarrow> h\<lparr>hx_session := None\<rparr> = h'\<lparr>hx_session := None\<rparr>"

text \<open>The configuration and the shards give back the master key, and the key of the database fits.\<close>

definition openable ::
  "daemon_env \<Rightarrow> cipher \<Rightarrow> vault_keys \<Rightarrow> string \<Rightarrow> bytes \<Rightarrow> bytes \<Rightarrow> secure_config \<Rightarrow> shards \<Rightarrow> bool" where
  "openable env opens keys client share vmk c h \<longleftrightarrow>
     length (cf_hashes c) = 7 \<and> shard_digest env share = cf_hashes c ! 6 \<and> hx_meta h \<noteq> None \<and> length vmk = 32 \<and>
     (\<exists>wrapped.
        (\<forall>f7. unseal_text env f7 (vk_backup keys) ''cp-shard7-v1'' = Some share \<longrightarrow>
           snd (collect env opens (Some client) (Some f7) (vk_mask keys) (vk_backup keys) (cf_hashes c) h) = Inr wrapped) \<and>
        open_sealed env \<lparr>se_nonce = cf_nonce c, se_ciphertext = b64_encode wrapped\<rparr> (vk_kek keys) vmk_aad = Inr vmk)"

definition key_fits :: "daemon_env \<Rightarrow> cipher \<Rightarrow> bytes \<Rightarrow> bytes \<Rightarrow> vault \<Rightarrow> bool" where
  "key_fits env opens vmk salt v \<longleftrightarrow>
     (\<exists>k. dk_key v = Some k \<and> opens (derive_subkey env vmk salt ''sqlcipher-key-v1'') k)"

lemma read_shares_session: "read_shares env opens client f7 m b (h\<lparr>hx_session := x\<rparr>) = read_shares env opens client f7 m b h"
  by (simp add: read_shares_def metadata_def)

lemma collect_session:
  assumes "same_shards h h'"
  shows "snd (collect env opens client f7 m b hs h') = snd (collect env opens client f7 m b hs h)"
proof -
  have "read_shares env opens client f7 m b h' = read_shares env opens client f7 m b h"
    using assms read_shares_session [of env opens client f7 m b None] unfolding same_shards_def by metis
  then show ?thesis by (simp add: collect_def Let_def) blast
qed

lemma collect_same:
  assumes "hx_meta h \<noteq> None"
  shows "same_shards h (fst (collect env opens client f7 m b hs h))"
proof -
  have "(case metadata env opens b h of None \<Rightarrow> h | Some x \<Rightarrow> h\<lparr>hx_meta := Some x\<rparr>) = h"
    using assms by (cases h) (auto simp: metadata_def split: option.splits)
  then show ?thesis by (simp add: collect_def same_shards_def Let_def)
qed

lemma same_shards_lock [simp]: "same_shards h (shards_lock h)" "shards_lock (shards_lock h) = shards_lock h"
  by (simp_all add: same_shards_def shards_lock_def)

lemma same_shards_refl [simp]: "same_shards h h"
  by (simp add: same_shards_def)

lemma same_shards_trans: "same_shards h h' \<Longrightarrow> same_shards h' h'' \<Longrightarrow> same_shards h h''"
  by (simp add: same_shards_def)

lemma same_shards_meta: "same_shards h h' \<Longrightarrow> hx_meta h' = hx_meta h"
  by (cases h; cases h') (simp add: same_shards_def)

lemma openable_same: "openable env opens keys client share vmk c h \<Longrightarrow> same_shards h h' \<Longrightarrow> openable env opens keys client share vmk c h'"
  using collect_session [of h h'] same_shards_meta [of h h'] by (simp add: openable_def)

lemma openable_config:
  "openable env opens keys client share vmk c h \<Longrightarrow> cf_hashes c' = cf_hashes c \<Longrightarrow> cf_nonce c' = cf_nonce c \<Longrightarrow>
     openable env opens keys client share vmk c' h"
  by (simp add: openable_def)

lemma seventhD:
  assumes "seventh env capsule keys = Inr share"
  obtains b where "file_envelope capsule shard_header 2048 = Inr b" and "is_share share"
    and "unseal_text env (utf8_text env b) (vk_backup keys) ''cp-shard7-v1'' = Some share"
proof -
  from assms obtain v where v: "sealed_file env capsule shard_header 2048 = Inr v" "is_share share"
    "unseal env v (vk_backup keys) ''cp-shard7-v1'' = Some share"
    by (auto simp: seventh_def try_then_Inr_iff open_sealed_def split: option.splits if_splits)
  from v(1) obtain b j where b: "file_envelope capsule shard_header 2048 = Inr b" "json_parse env (utf8_text env b) = Some j"
    "sealed_of j = Some v"
    by (auto simp: sealed_file_def try_then_Inr_iff split: option.splits if_splits)
  show thesis by (rule that [OF b(1) v(2)]) (simp add: unseal_text_def b(2,3) v(3))
qed


section \<open>Opening\<close>

lemma sec_open_ok:
  assumes "key_fits env opens vmk salt (s_vault w)"
  shows "\<exists>v. sec_open env opens vmk salt w = (w\<lparr>s_vault := v\<rparr>, Inr ()) \<and> vt_open v \<and> dk_db v = dk_db (s_vault w) \<and>
    dk_key v = dk_key (s_vault w) \<and> vt_config v = vt_config (s_vault w) \<and> dk_config v = dk_config (s_vault w)"
  using assms by (auto simp: key_fits_def sec_open_def open_db_def Let_def)

lemma sec_open_new:
  assumes "dk_key (s_vault w) = None" and "cipher_ok opens"
  shows "\<exists>v. sec_open env opens vmk salt w = (w\<lparr>s_vault := v\<rparr>, Inr ()) \<and> vt_open v \<and> dk_db v = dk_db (s_vault w) \<and>
    key_fits env opens vmk salt v \<and> vt_config v = vt_config (s_vault w) \<and> dk_config v = dk_config (s_vault w)"
  using assms by (auto simp: key_fits_def sec_open_def open_db_def Let_def cipher_ok_def)

lemma unwrap_shards_ok:
  assumes "openable env opens keys client share vmk c (s_shards w)"
    and "unseal_text env f7 (vk_backup keys) ''cp-shard7-v1'' = Some share"
    and "key_fits env opens vmk (b64_decode (cf_salt c)) (s_vault w)"
  shows "\<exists>h v. unwrap_shards env opens (Some client) f7 keys c w = (w\<lparr>s_shards := h, s_vault := v\<rparr>, Inr vmk) \<and>
    same_shards (s_shards w) h \<and> vt_open v \<and> dk_db v = dk_db (s_vault w) \<and> dk_key v = dk_key (s_vault w) \<and>
    vt_config v = vt_config (s_vault w) \<and> dk_config v = dk_config (s_vault w)"
proof -
  let ?run = "collect env opens (Some client) (Some f7) (vk_mask keys) (vk_backup keys) (cf_hashes c) (s_shards w)"
  let ?h = "fst ?run"
  from assms(1,2) obtain wrapped where col: "snd ?run = Inr wrapped"
    and open_vmk: "open_sealed env \<lparr>se_nonce = cf_nonce c, se_ciphertext = b64_encode wrapped\<rparr> (vk_kek keys) vmk_aad = Inr vmk"
    and meta: "hx_meta (s_shards w) \<noteq> None"
    by (auto simp: openable_def)
  have run: "?run = (?h, Inr wrapped)" using col by (metis prod.collapse)
  have same: "same_shards (s_shards w) ?h" by (rule collect_same [OF meta])
  have "key_fits env opens vmk (b64_decode (cf_salt c)) (s_vault (w\<lparr>s_shards := ?h\<rparr>))" using assms(3) by simp
  from sec_open_ok [OF this] obtain v where v:
    "sec_open env opens vmk (b64_decode (cf_salt c)) (w\<lparr>s_shards := ?h\<rparr>) = (w\<lparr>s_shards := ?h, s_vault := v\<rparr>, Inr ())"
    "vt_open v" "dk_db v = dk_db (s_vault w)" "dk_key v = dk_key (s_vault w)"
    "vt_config v = vt_config (s_vault w)" "dk_config v = dk_config (s_vault w)"
    by (auto simp del: split_paired_Ex)
  have "unwrap_shards env opens (Some client) f7 keys c w = (w\<lparr>s_shards := ?h, s_vault := v\<rparr>, Inr vmk)"
    unfolding unwrap_shards_def by (subst run) (simp add: open_vmk v(1))
  with same v(2-6) show ?thesis by blast
qed

lemma open_wrapped:
  "gcm_ok env \<Longrightarrow> length n = 12 \<Longrightarrow>
     open_sealed env \<lparr>se_nonce = b64_encode n, se_ciphertext = b64_encode (gcm_encrypt env k n (utf8 aad) p)\<rparr> k aad = Inr p"
  using unseal_seal [of env n p k aad] by (simp add: open_sealed_def seal_def)

text \<open>What a successful wrapping leaves.\<close>

lemma provision_ok:
  assumes env: "gcm_ok env" "json_ok env" "cipher_ok opens" and "draw_ok d" and vmk: "length vmk = 32"
    and ext: "\<forall>e. ext = Some e \<longrightarrow> is_share e"
  shows "\<exists>h c client f7 share. provision env d vmk keys salt ext w =
      (w\<lparr>s_shards := h, s_config := Some c, s_remote7 := Some f7, s_keys := Some keys, s_vmk := Some vmk, s_client := True\<rparr>, Inr client) \<and>
    openable env opens keys client share vmk c h \<and> cf_salt c = salt \<and> cf_version c = 0 \<and> \<not> cf_external c \<and> \<not> cf_cloud c \<and> \<not> cf_pending c \<and>
    f7 = json_text env (sealed_json (seal env (sc_nonce7 (sd_scatter d)) share (vk_backup keys) ''cp-shard7-v1'')) \<and>
    is_share share \<and> (\<forall>e. ext = Some e \<longrightarrow> share = e)"
proof -
  let ?wrapped = "gcm_encrypt env (vk_kek keys) (sd_nonce d) (utf8 vmk_aad) vmk"
  let ?sd = "sd_scatter d"
  have n: "length (sd_nonce d) = 12" "length (sc_nonce7 ?sd) = 12" "randoms (sc_shares ?sd)" using assms(4) by (simp_all add: draw_ok_def)
  have wl: "is_share ?wrapped" using env(1) vmk by (simp add: gcm_ok_def)
  have sok: "scatter_ok ?sd ?wrapped ext" using assms(4) wl ext by (auto simp: scatter_ok_def draw_ok_def split: option.splits)
  let ?ss = "placed ext (shares_of (sc_shares ?sd) ?wrapped)"
  note s7 = shares_ok [OF n(3) wl]
  have p7: "length ?ss = 7" "\<forall>x \<in> set ?ss. is_share x" using placed_ok [OF _ _ ext, of "shares_of (sc_shares ?sd) ?wrapped"] s7 by blast+
  have placing: "try_then (split_seven (sc_shares ?sd) ?wrapped) (place_external ext) = Inr ?ss"
    using place_external_placed [OF ext] by (simp add: split_shares wl)
  let ?run = "scatter env ?sd ?wrapped (vk_mask keys) (vk_backup keys) ext (s_shards w)"
  obtain h r where run: "?run = (h, Inr r)" and meta: "hx_meta h \<noteq> None"
    and f7: "st_fragment7 r = json_text env (sealed_json (seal env (sc_nonce7 ?sd) (?ss ! 6) (vk_backup keys) ''cp-shard7-v1''))"
    by (simp add: scatter_def placing)
  note rd = read_scattered [OF env sok p7 placing run]
  have hashes: "length (st_hashes r) = 7" "shard_digest env (?ss ! 6) = st_hashes r ! 6" using rd(2) p7(1) by simp_all
  have f7_opens: "unseal_text env (st_fragment7 r) (vk_backup keys) ''cp-shard7-v1'' = Some (?ss ! 6)"
    unfolding f7 by (rule unseal_text_seal [OF env(1,2) n(2)])
  have col: "snd (collect env opens (Some (st_client r)) (Some g) (vk_mask keys) (vk_backup keys) (st_hashes r) h) = Inr ?wrapped"
    if g: "unseal_text env g (vk_backup keys) ''cp-shard7-v1'' = Some (?ss ! 6)" for g
  proof -
    have "read_shares env opens (Some (st_client r)) (Some g) (vk_mask keys) (vk_backup keys) h =
        read_shares env opens (Some (st_client r)) (Some (st_fragment7 r)) (vk_mask keys) (vk_backup keys) h"
      using g f7_opens by (simp add: read_shares_def)
    then have "snd (collect env opens (Some (st_client r)) (Some g) (vk_mask keys) (vk_backup keys) (st_hashes r) h) =
        snd (collect env opens (Some (st_client r)) (Some (st_fragment7 r)) (vk_mask keys) (vk_backup keys) (st_hashes r) h)"
      by (simp add: collect_def Let_def)
    then show ?thesis using collect_scattered [OF env sok run] by simp
  qed
  let ?c = "\<lparr>cf_nonce = b64_encode (sd_nonce d), cf_salt = salt, cf_hashes = st_hashes r, cf_version = 0,
    cf_external = False, cf_cloud = False, cf_pending = False\<rparr>"
  have "openable env opens keys (st_client r) (?ss ! 6) vmk ?c h"
    unfolding openable_def using hashes meta vmk col open_wrapped [OF env(1) n(1)]
    by (auto intro!: exI [of _ ?wrapped])
  moreover have "provision env d vmk keys salt ext w =
      (w\<lparr>s_shards := h, s_config := Some ?c, s_remote7 := Some (st_fragment7 r), s_keys := Some keys, s_vmk := Some vmk,
        s_client := True\<rparr>, Inr (st_client r))"
    using run by (simp add: provision_def seal_def b64_decode_encode)
  moreover have "\<forall>e. ext = Some e \<longrightarrow> ?ss ! 6 = e" using s7 by (auto simp: placed_def)
  moreover have "is_share (?ss ! 6)" using p7 by simp
  ultimately show ?thesis using f7
    by (intro exI [of _ h] exI [of _ ?c] exI [of _ "st_client r"] exI [of _ "st_fragment7 r"] exI [of _ "?ss ! 6"]) simp
qed


section \<open>Invariant\<close>

definition memory :: "sec_vault \<Rightarrow> vault_keys option \<times> bytes option \<times> bytes option" where
  "memory w = (s_keys w, s_vmk w, s_external7 w)"

type_synonym credentials = "string \<times> string \<times> string \<times> bytes"

text \<open>The vault in the state that a vault id, a password, a client shard and a capsule open.\<close>

definition sec_good :: "daemon_env \<Rightarrow> cipher \<Rightarrow> credentials \<Rightarrow> sec_vault \<Rightarrow> bool" where
  "sec_good env opens s w \<longleftrightarrow> (case s of (i, p, client, capsule) \<Rightarrow>
     \<exists>c share vmk sealed. s_config w = Some c \<and> s_saved w = Some c \<and> cf_external c \<and>
       seventh env capsule (derive_vault_keys env i p) = Inr share \<and> file_envelope capsule shard_header 2048 = Inr sealed \<and>
       openable env opens (derive_vault_keys env i p) client share vmk c (s_shards w) \<and>
       key_fits env opens vmk (b64_decode (cf_salt c)) (s_vault w) \<and>
       memory w = (if sec_locked w then (None, None, None) else (Some (derive_vault_keys env i p), Some vmk, Some sealed)))"

definition sec_inv :: "daemon_env \<Rightarrow> cipher \<Rightarrow> sec_vault \<Rightarrow> credentials option \<Rightarrow> bool" where
  "sec_inv env opens w s \<longleftrightarrow> distinct (map fst (s_files w)) \<and>
     (case s of None \<Rightarrow> w = fresh_sec | Some s \<Rightarrow> sec_good env opens s w)"

lemma sec_goodI:
  assumes "s_config w = Some c" and "s_saved w = Some c" and "cf_external c"
    and "seventh env capsule (derive_vault_keys env i p) = Inr share" and "file_envelope capsule shard_header 2048 = Inr sealed"
    and "openable env opens (derive_vault_keys env i p) client share vmk c (s_shards w)"
    and "key_fits env opens vmk (b64_decode (cf_salt c)) (s_vault w)"
    and "memory w = (if sec_locked w then (None, None, None) else (Some (derive_vault_keys env i p), Some vmk, Some sealed))"
  shows "sec_good env opens (i, p, client, capsule) w"
  unfolding sec_good_def prod.case using assms by blast

text \<open>It depends on the files of the directory, and on what is in memory.\<close>

definition same_dir :: "sec_vault \<Rightarrow> sec_vault \<Rightarrow> bool" where
  "same_dir w w' \<longleftrightarrow> s_config w' = s_config w \<and> s_saved w' = s_saved w \<and> same_shards (s_shards w) (s_shards w') \<and>
     dk_key (s_vault w') = dk_key (s_vault w)"

lemma same_dir_simps [simp]:
  "same_dir w w" "same_dir w (sec_lock w)" "same_dir w (set_db f w)" "same_dir w (w\<lparr>s_files := fs\<rparr>)"
  "same_dir w (w\<lparr>s_vault := lock_vault (s_vault w)\<rparr>)"
  by (simp_all add: same_dir_def sec_lock_def lock_vault_def set_db_def)

lemma same_dir_trans: "same_dir w w' \<Longrightarrow> same_dir w' w'' \<Longrightarrow> same_dir w w''"
  by (simp add: same_dir_def same_shards_def)

lemma lock_locked [simp]: "sec_locked (sec_lock w)" "memory (sec_lock w) = (None, None, None)" "s_files (sec_lock w) = s_files w"
  "dk_db (s_vault (sec_lock w)) = dk_db (s_vault w)" "sec_lock fresh_sec = fresh_sec" "sec_locked fresh_sec"
  by (simp_all add: sec_lock_def sec_locked_def memory_def lock_vault_def fresh_sec_def fresh_vault_def shards_lock_def no_shards_def)

lemma sec_good_same:
  assumes "sec_good env opens s w" and "same_dir w w'"
    and "sec_locked w' \<and> memory w' = (None, None, None) \<or> (sec_locked w' \<longleftrightarrow> sec_locked w) \<and> memory w' = memory w"
  shows "sec_good env opens s w'"
proof -
  obtain i p client capsule where s: "s = (i, p, client, capsule)" by (cases s)
  obtain c share vmk sealed where w: "s_config w = Some c" "s_saved w = Some c" "cf_external c"
    "seventh env capsule (derive_vault_keys env i p) = Inr share" "file_envelope capsule shard_header 2048 = Inr sealed"
    "openable env opens (derive_vault_keys env i p) client share vmk c (s_shards w)"
    "key_fits env opens vmk (b64_decode (cf_salt c)) (s_vault w)"
    "memory w = (if sec_locked w then (None, None, None) else (Some (derive_vault_keys env i p), Some vmk, Some sealed))"
    using assms(1) unfolding s sec_good_def prod.case by blast
  have "openable env opens (derive_vault_keys env i p) client share vmk c (s_shards w')"
    using openable_same [OF w(6)] assms(2) by (simp add: same_dir_def)
  moreover have "key_fits env opens vmk (b64_decode (cf_salt c)) (s_vault w')" using w(7) assms(2) by (simp add: key_fits_def same_dir_def)
  moreover have "memory w' = (if sec_locked w' then (None, None, None) else (Some (derive_vault_keys env i p), Some vmk, Some sealed))"
    using w(8) assms(3) by auto
  moreover have "s_config w' = Some c" "s_saved w' = Some c" using w(1,2) assms(2) by (simp_all add: same_dir_def)
  ultimately show ?thesis using sec_goodI w(3-5) unfolding s by blast
qed

lemma good_lock: "sec_good env opens s w \<Longrightarrow> sec_good env opens s (sec_lock w)"
  by (erule sec_good_same) simp_all

lemma good_config:
  assumes "sec_good env opens s w" and "\<And>c. cf_external c \<Longrightarrow> cf_external (f c) \<and> cf_nonce (f c) = cf_nonce c \<and> cf_hashes (f c) = cf_hashes c \<and>
      cf_salt (f c) = cf_salt c"
  shows "sec_good env opens s (save_config (with_config f w))"
proof -
  obtain i p client capsule where s: "s = (i, p, client, capsule)" by (cases s)
  obtain c share vmk sealed where w: "s_config w = Some c" "s_saved w = Some c" "cf_external c"
    "seventh env capsule (derive_vault_keys env i p) = Inr share" "file_envelope capsule shard_header 2048 = Inr sealed"
    "openable env opens (derive_vault_keys env i p) client share vmk c (s_shards w)"
    "key_fits env opens vmk (b64_decode (cf_salt c)) (s_vault w)"
    "memory w = (if sec_locked w then (None, None, None) else (Some (derive_vault_keys env i p), Some vmk, Some sealed))"
    using assms(1) unfolding s sec_good_def prod.case by blast
  show ?thesis unfolding s
  proof (rule sec_goodI [of _ "f c"])
    show "openable env opens (derive_vault_keys env i p) client share vmk (f c) (s_shards (save_config (with_config f w)))"
      using openable_config [OF w(6)] assms(2) [OF w(3)] by (simp add: save_config_def with_config_def)
    show "memory (save_config (with_config f w)) = (if sec_locked (save_config (with_config f w)) then (None, None, None)
        else (Some (derive_vault_keys env i p), Some vmk, Some sealed))"
      using w(8) by (simp add: memory_def sec_locked_def save_config_def with_config_def)
  qed (use w assms(2) [OF w(3)] in \<open>simp_all add: save_config_def with_config_def\<close>)
qed

text \<open>The credentials open a locked vault.\<close>

lemma envelopeD: "file_envelope f header n = Inr b \<Longrightarrow> f = header @ b \<and> length f \<le> n \<and> b \<noteq> []"
  by (auto simp: file_envelope_def split: if_splits) (metis append_take_drop_id)

lemma payload_nonempty: "file_envelope capsule header n = Inr b \<Longrightarrow> b64_encode capsule \<noteq> []"
  by (drule envelopeD) (metis append_is_Nil_conv b64_decode_encode b64_encode.simps(1))

lemma good_unlock:
  assumes "sec_good env opens (i, p, client, capsule) w" and "sec_locked w"
  shows "\<exists>w'. unlock_main env lib opens answer i p (Some client) (Some (b64_encode capsule)) w = (w', Inr ()) \<and>
    sec_good env opens (i, p, client, capsule) w' \<and> \<not> sec_locked w' \<and> dk_db (s_vault w') = dk_db (s_vault w) \<and> s_files w' = s_files w"
proof -
  let ?keys = "derive_vault_keys env i p"
  obtain c share vmk sealed where w: "s_config w = Some c" "s_saved w = Some c" "cf_external c"
    "seventh env capsule ?keys = Inr share" "file_envelope capsule shard_header 2048 = Inr sealed"
    "openable env opens ?keys client share vmk c (s_shards w)" "key_fits env opens vmk (b64_decode (cf_salt c)) (s_vault w)"
    using assms(1) unfolding sec_good_def prod.case by blast
  have f7: "unseal_text env (utf8_text env sealed) (vk_backup ?keys) ''cp-shard7-v1'' = Some share"
    using seventhD [OF w(4)] w(5) by (metis sum.inject(2))
  have hashes: "\<not> length (cf_hashes c) < 7" "shard_digest env share = cf_hashes c ! 6" using w(6) by (simp_all add: openable_def)
  have check: "check_capsule env ?keys c (Some (b64_encode capsule)) = Inr sealed"
    using payload_nonempty [OF w(5)] w(4,5) hashes by (simp add: check_capsule_def b64_decode_encode)
  obtain h v where run: "unwrap_shards env opens (Some client) (utf8_text env sealed) ?keys c w = (w\<lparr>s_shards := h, s_vault := v\<rparr>, Inr vmk)"
    and same: "same_shards (s_shards w) h" and v: "vt_open v" "dk_db v = dk_db (s_vault w)" "dk_key v = dk_key (s_vault w)"
    using unwrap_shards_ok [OF w(6) f7 w(7)] by blast
  let ?w = "w\<lparr>s_shards := h, s_vault := v, s_keys := Some ?keys, s_vmk := Some vmk, s_external7 := Some sealed, s_client := True,
    s_relay := True\<rparr>"
  have "unlock_main env lib opens answer i p (Some client) (Some (b64_encode capsule)) w = (?w, Inr ())"
    unfolding unlock_main_def unlock_external_def using assms(2) w(1,3) by (simp add: check run)
  moreover have "sec_good env opens (i, p, client, capsule) ?w"
  proof (rule sec_goodI [where w = ?w])
    show "openable env opens ?keys client share vmk c (s_shards ?w)" using openable_same [OF w(6) same] by simp
    show "key_fits env opens vmk (b64_decode (cf_salt c)) (s_vault ?w)" using w(7) v(3) by (simp add: key_fits_def)
  qed (use w v(1) in \<open>simp_all add: memory_def sec_locked_def\<close>)
  ultimately show ?thesis using v by (intro exI [of _ ?w]) (simp add: sec_locked_def)
qed

text \<open>Other credentials, when they fail, change nothing of the directory.\<close>

lemma sec_open_same: "sec_open env opens vmk salt w = (w', r) \<Longrightarrow> same_dir w w' \<or> dk_key (s_vault w) = None"
  by (auto simp: sec_open_def open_db_def same_dir_def Let_def split: if_splits option.splits)

lemma sec_open_frame:
  "sec_open env opens vmk salt w = (w', r) \<Longrightarrow> dk_db (s_vault w') = dk_db (s_vault w) \<and> s_files w' = s_files w"
  by (auto simp: sec_open_def open_db_def Let_def split: if_splits)

lemma unwrap_shards_frame:
  assumes "unwrap_shards env opens client f7 keys c w = (w', r)" and "hx_meta (s_shards w) \<noteq> None" and "dk_key (s_vault w) \<noteq> None"
  shows "same_dir w w' \<and> dk_db (s_vault w') = dk_db (s_vault w) \<and> s_files w' = s_files w"
proof -
  let ?run = "collect env opens client (Some f7) (vk_mask keys) (vk_backup keys) (cf_hashes c) (s_shards w)"
  let ?w = "w\<lparr>s_shards := fst ?run\<rparr>"
  have same: "same_dir w ?w" using collect_same [OF assms(2)] by (simp add: same_dir_def)
  show ?thesis
  proof (cases "w' = ?w")
    case True
    then show ?thesis using same by simp
  next
    case False
    then obtain vmk r' where "sec_open env opens vmk (b64_decode (cf_salt c)) ?w = (w', r')"
      using assms(1) by (auto simp: unwrap_shards_def case_prod_beta split: sum.splits) (metis prod.collapse)+
    from sec_open_same [OF this] sec_open_frame [OF this] same assms(3) show ?thesis
      using same_dir_trans by auto
  qed
qed

lemma good_some: "sec_good env opens s w \<Longrightarrow> \<exists>c. s_config w = Some c \<and> s_saved w = Some c \<and> cf_external c \<and>
    hx_meta (s_shards w) \<noteq> None \<and> dk_key (s_vault w) \<noteq> None"
  by (auto simp: sec_good_def openable_def key_fits_def split: prod.splits)

lemma unlock_refused_good:
  assumes "sec_good env opens s w" and "unlock_main env lib opens answer i p client payload w = (w', Inl e)"
  shows "sec_good env opens s w' \<and> dk_db (s_vault w') = dk_db (s_vault w) \<and> s_files w' = s_files w"
proof -
  obtain c where c: "s_config w = Some c" "cf_external c" "hx_meta (s_shards w) \<noteq> None" "dk_key (s_vault w) \<noteq> None"
    using good_some [OF assms(1)] by blast
  consider "w' = w" | "w' = sec_lock w"
    | f7 w1 r where "unwrap_shards env opens client f7 (derive_vault_keys env i p) c w = (w1, r)" "w' = sec_lock w1"
    using assms(2) c(1,2) by (auto simp: unlock_main_def unlock_external_def split: if_splits sum.splits prod.splits)
  then show ?thesis
  proof cases
    case 3
    from unwrap_shards_frame [OF 3(1) c(3,4)] have "same_dir w w'" "dk_db (s_vault w') = dk_db (s_vault w)" "s_files w' = s_files w"
      using same_dir_trans same_dir_simps(2) by (auto simp: 3(2))
    then show ?thesis using sec_good_same [OF assms(1)] 3(2) by simp
  qed (use assms(1) good_lock [OF assms(1)] in simp_all)
qed

section \<open>New directories\<close>

lemma capsule_of:
  assumes env: "gcm_ok env" "json_ok env" "capsule_fits env" and n: "length n = 12" and share: "is_share share"
    and f7: "f7 = json_text env (sealed_json (seal env n share (vk_backup keys) ''cp-shard7-v1''))"
  shows "seventh env (shard_header @ utf8 f7) keys = Inr share" and "file_envelope (shard_header @ utf8 f7) shard_header 2048 = Inr (utf8 f7)"
proof -
  let ?v = "seal env n share (vk_backup keys) ''cp-shard7-v1''"
  have "length (se_nonce ?v) = 16" "length (se_ciphertext ?v) = 88"
    using env(1) n share by (simp_all add: seal_def length_b64_encode gcm_ok_def)
  then have "length (utf8 f7) \<le> 2039" using env(3) by (simp add: capsule_fits_def f7)
  moreover have header: "length shard_header = 9" by code_simp
  ultimately have len: "length (shard_header @ utf8 f7) \<le> 2048" by simp
  show seventh: "seventh env (shard_header @ utf8 f7) keys = Inr share"
    by (rule capsule_opens [OF env(1,2) n share _ len]) (simp add: f7)
  show "file_envelope (shard_header @ utf8 f7) shard_header 2048 = Inr (utf8 f7)"
    using seventhD [OF seventh] by (metis envelopeD same_append_eq)
qed

lemma kept_good:
  assumes env: "gcm_ok env" "json_ok env" "cipher_ok opens" "capsule_fits env" and d: "draw_ok d" and vmk: "length vmk = 32"
    and run: "provision env d vmk (derive_vault_keys env i p) salt None w = (w1, Inr client)"
    and w4: "s_shards w4 = s_shards w1" "s_config w4 = map_option f (s_config w1)" "s_saved w4 = s_config w4"
      "s_external7 w4 = map_option utf8 (s_remote7 w1)" "s_keys w4 = s_keys w1" "s_vmk w4 = s_vmk w1"
      "vt_open (s_vault w4)" "key_fits env opens vmk (b64_decode salt) (s_vault w4)"
    and f: "\<And>c. cf_external (f c) \<and> cf_nonce (f c) = cf_nonce c \<and> cf_hashes (f c) = cf_hashes c \<and> cf_salt (f c) = cf_salt c"
  shows "\<exists>capsule. shard7_file w4 = Inr capsule \<and> sec_good env opens (i, p, client, capsule) w4"
proof -
  let ?keys = "derive_vault_keys env i p"
  obtain h c f7 share where w1:
    "w1 = w\<lparr>s_shards := h, s_config := Some c, s_remote7 := Some f7, s_keys := Some ?keys, s_vmk := Some vmk, s_client := True\<rparr>"
    and op: "openable env opens ?keys client share vmk c h" "cf_salt c = salt"
    and f7: "f7 = json_text env (sealed_json (seal env (sc_nonce7 (sd_scatter d)) share (vk_backup ?keys) ''cp-shard7-v1''))"
    and share: "is_share share"
    using provision_ok [OF env(1,2,3) d vmk, of None ?keys salt w] run by auto
  have n: "length (sc_nonce7 (sd_scatter d)) = 12" using d by (simp add: draw_ok_def)
  note cap = capsule_of [OF env(1,2,4) n share f7]
  have "shard7_file w4 = Inr (shard_header @ utf8 f7)"
    using w4(4,7) by (simp add: shard7_file_def sec_database_def vault_database_def unless_locked_def w1)
  moreover have "sec_good env opens (i, p, client, shard_header @ utf8 f7) w4"
  proof (rule sec_goodI [OF _ _ _ cap])
    show "openable env opens ?keys client share vmk (f c) (s_shards w4)"
      using openable_config [OF op(1)] f w4(1) by (simp add: w1)
  qed (use w4 f op(2) in \<open>simp_all add: w1 memory_def sec_locked_def\<close>)
  ultimately show ?thesis by blast
qed

lemma good_init:
  assumes "sec_good env opens s w" and "sec_locked w" and "\<forall>c. s_saved w = Some c \<longrightarrow> \<not> cf_pending c"
  shows "sec_good env opens s (sec_initialize w) \<and> sec_locked (sec_initialize w) \<and>
    dk_db (s_vault (sec_initialize w)) = dk_db (s_vault w) \<and> s_files (sec_initialize w) = s_files w"
proof -
  obtain c where c: "s_config w = Some c" "s_saved w = Some c" using good_some [OF assms(1)] by blast
  have init: "sec_initialize w = w\<lparr>s_vault := vault_initialize (s_vault w), s_config := s_saved w\<rparr>"
    using assms(3) c(2) by (simp add: sec_initialize_def)
  have locked: "sec_locked (sec_initialize w)" unfolding init by (simp add: sec_locked_def vault_initialize_def)
  have "memory w = (None, None, None)" using assms(1,2) by (auto simp: sec_good_def)
  moreover have "same_dir w (sec_initialize w)" using c by (simp add: init same_dir_def vault_initialize_def)
  ultimately have "sec_good env opens s (sec_initialize w)"
    using sec_good_same [OF assms(1)] locked by (simp add: init memory_def)
  with locked show ?thesis by (simp add: init vault_initialize_def)
qed

text \<open>A staged directory that takes the place of the old one is opened with its own credentials.\<close>

lemma adopt_good:
  assumes "sec_good env opens (i, p, client, capsule) w" and "sec_locked w" and "\<forall>c. s_saved w = Some c \<longrightarrow> \<not> cf_pending c"
  shows "\<exists>w'. unlock_main env lib opens answer i p (Some client) (Some (b64_encode capsule)) (sec_initialize w) = (w', Inr ()) \<and>
    sec_good env opens (i, p, client, capsule) w' \<and> \<not> sec_locked w' \<and> dk_db (s_vault w') = dk_db (s_vault w) \<and> s_files w' = s_files w"
  using good_init [OF assms] good_unlock [of env opens i p client capsule "sec_initialize w" lib answer] by auto

lemma create_good:
  assumes env: "gcm_ok env" "json_ok env" "cipher_ok opens" "capsule_fits env" and d: "draw_ok (io_draw io)"
    and run: "create_secure env lib opens io existed i p False fresh_sec = (w', r)"
  shows "case validate_password p of Some e \<Rightarrow> w' = fresh_sec \<and> r = Inl e
    | None \<Rightarrow> \<exists>client capsule. r = Inr (client, capsule) \<and> sec_good env opens (i, p, client, capsule) w' \<and> \<not> sec_locked w' \<and>
        dk_db (s_vault w') = empty_local \<and> s_files w' = [] \<and> s_vmk w' = Some (sd_vmk (io_draw io)) \<and>
        (\<exists>c. s_config w' = Some c \<and> cf_salt c = b64_encode (sd_salt (io_draw io)) \<and> cf_version c = 0) \<and>
        (\<exists>share. is_share share \<and> s_external7 w' = Some (utf8 (json_text env (sealed_json (seal env (sc_nonce7 (sd_scatter (io_draw io))) share
           (vk_backup (derive_vault_keys env i p)) ''cp-shard7-v1'')))))"
proof (cases "validate_password p")
  case (Some e)
  then show ?thesis using run by (simp add: create_secure_def sec_exists_def vault_exists_def fresh_sec_def)
next
  case None
  let ?d = "io_draw io" and ?keys = "derive_vault_keys env i p"
  have vmk: "length (sd_vmk ?d) = 32" using d by (simp add: draw_ok_def)
  obtain w1 client where w1: "provision env ?d (sd_vmk ?d) ?keys (b64_encode (sd_salt ?d)) None fresh_sec = (w1, Inr client)"
    and f1: "s_vault w1 = fresh_vault" "s_files w1 = []" "\<exists>c. s_config w1 = Some c \<and> cf_salt c = b64_encode (sd_salt ?d) \<and> cf_version c = 0" "s_vmk w1 = Some (sd_vmk ?d)"
      "\<exists>share. is_share share \<and> s_remote7 w1 = Some (json_text env (sealed_json (seal env (sc_nonce7 (sd_scatter ?d)) share (vk_backup ?keys) ''cp-shard7-v1'')))"
    using provision_ok [OF env(1,2,3) d vmk, of None ?keys "b64_encode (sd_salt ?d)" fresh_sec]
    by (auto simp: fresh_sec_def) blast
  have "dk_key (s_vault w1) = None" by (simp add: f1(1))
  from sec_open_new [OF this env(3), of env "sd_vmk ?d" "sd_salt ?d"] obtain v where v: "sec_open env opens (sd_vmk ?d) (sd_salt ?d) w1 = (w1\<lparr>s_vault := v\<rparr>, Inr ())"
    "vt_open v" "dk_db v = empty_local" "key_fits env opens (sd_vmk ?d) (sd_salt ?d) v"
    using f1(1) by (auto simp: fresh_vault_def)
  let ?f = "\<lambda>c. c\<lparr>cf_cloud := False, cf_external := True, cf_pending := True\<rparr>"
  let ?w = "save_config ((keep_capsule (with_config (\<lambda>c. c\<lparr>cf_external := True, cf_pending := True\<rparr>)
    (with_config (\<lambda>c. c\<lparr>cf_cloud := False\<rparr>) (w1\<lparr>s_vault := v\<rparr>))))\<lparr>s_relay := True\<rparr>)"
  have "\<exists>capsule. shard7_file ?w = Inr capsule \<and> sec_good env opens (i, p, client, capsule) ?w"
    by (rule kept_good [OF env d vmk w1, where f = ?f])
      (use v in \<open>simp_all add: save_config_def keep_capsule_def with_config_def option.map_comp comp_def b64_decode_encode\<close>)
  then obtain capsule where cap: "shard7_file ?w = Inr capsule" "sec_good env opens (i, p, client, capsule) ?w" by blast
  have new: "\<not> sec_exists fresh_sec" by (simp add: sec_exists_def vault_exists_def fresh_sec_def)
  have "provision_new env opens ?d False ?keys fresh_sec = ((keep_capsule (with_config (\<lambda>c. c\<lparr>cf_external := True, cf_pending := True\<rparr>)
      (with_config (\<lambda>c. c\<lparr>cf_cloud := False\<rparr>) (w1\<lparr>s_vault := v\<rparr>))))\<lparr>s_relay := True\<rparr>, Inr client)"
    by (simp add: provision_new_def w1 v(1))
  then have "create_secure env lib opens io existed i p False fresh_sec = (?w, Inr (client, capsule))"
    by (simp add: create_secure_def new None cap(1))
  then have "w' = ?w" "r = Inr (client, capsule)" using run by simp_all
  moreover have "\<not> sec_locked ?w" "dk_db (s_vault ?w) = empty_local" "s_files ?w = []" "s_vmk ?w = Some (sd_vmk ?d)"
    "\<exists>c. s_config ?w = Some c \<and> cf_salt c = b64_encode (sd_salt ?d) \<and> cf_version c = 0"
    "\<exists>share. is_share share \<and> s_external7 ?w = Some (utf8 (json_text env (sealed_json (seal env (sc_nonce7 (sd_scatter ?d)) share (vk_backup ?keys) ''cp-shard7-v1''))))"
    using v f1(2-5) by (auto simp: sec_locked_def save_config_def keep_capsule_def with_config_def)
  ultimately show ?thesis using None cap(2) by simp
qed

section \<open>Operations on a good vault\<close>

lemma update_config_good:
  assumes "sec_good env opens s w" and "f \<in> {saved_config, cloud_config b}"
  shows "sec_good env opens s (fst (update_config session f w)) \<and> s_files (fst (update_config session f w)) = s_files w"
proof (cases "fst (update_config session f w) = w")
  case False
  then have eq: "fst (update_config session f w) = save_config (with_config f w)"
    by (auto simp: update_config_def split: sum.splits)
  have "sec_good env opens s (save_config (with_config f w))"
    by (rule good_config [OF assms(1)]) (use assms(2) in \<open>auto simp: saved_config_def cloud_config_def\<close>)
  then show ?thesis unfolding eq by (simp add: save_config_def with_config_def)
qed (use assms(1) in simp)

lemma set_db_good: "sec_good env opens s w \<Longrightarrow> sec_good env opens s (set_db f w) \<and> s_files (set_db f w) = s_files w"
  by (rule conjI, erule sec_good_same) (simp_all add: set_db_def sec_locked_def memory_def same_dir_def)

text \<open>An upload leaves the row of the instance and, when it was accepted, the number of the version.\<close>

definition with_token :: "string \<Rightarrow> local_db \<Rightarrow> local_db" where
  "with_token t db = db\<lparr>l_instance := Some (case l_instance db of None \<Rightarrow> t | Some t' \<Rightarrow> t')\<rparr>"

lemma sync_result:
  assumes "sync_backup env lib nonce token now claim put w = (w', b, r)"
  shows "w' = w \<or> w' = set_db (with_token token) w \<or>
    (\<exists>v. w' = save_config ((with_config (\<lambda>c. c\<lparr>cf_version := v\<rparr>) (set_db (with_token token) w))\<lparr>s_relay := True\<rparr>))"
proof -
  let ?w1 = "set_db (with_token token) w"
  have wt: "set_db (\<lambda>db. db\<lparr>l_instance := Some (case l_instance db of None \<Rightarrow> token | Some t \<Rightarrow> t)\<rparr>) w = ?w1"
    by (simp add: with_token_def [abs_def])
  show ?thesis
    using assms unfolding sync_backup_def wt Let_def
    by (simp split: option.splits if_splits sum.splits) blast+
qed

lemma sync_good:
  assumes "sec_good env opens s w" and "sync_backup env lib nonce token now claim put w = (w', b, r)"
  shows "sec_good env opens s w' \<and> s_files w' = s_files w"
proof -
  have 1: "sec_good env opens s (set_db (with_token token) w)" using set_db_good [OF assms(1)] by simp
  have "sec_good env opens s (save_config ((with_config (\<lambda>c. c\<lparr>cf_version := v\<rparr>) (set_db (with_token token) w))\<lparr>s_relay := True\<rparr>))" for v
  proof -
    have "sec_good env opens s (save_config (with_config (\<lambda>c. c\<lparr>cf_version := v\<rparr>) (set_db (with_token token) w)))"
      by (rule good_config [OF 1]) simp
    then show ?thesis
      by (rule sec_good_same) (simp_all add: same_dir_def memory_def sec_locked_def save_config_def)
  qed
  with 1 assms(1) sync_result [OF assms(2)] show ?thesis
    by (auto simp: set_db_def save_config_def with_config_def)
qed

text \<open>A copy of the directory wrapped anew.\<close>

lemma rotate_local_good:
  assumes env: "gcm_ok env" "json_ok env" "cipher_ok opens" "capsule_fits env" and d: "draw_ok d"
    and good: "sec_good env opens s w" and w: "s_config w = Some c" "s_vmk w = Some vmk"
  shows "\<exists>w' client capsule. rotate_local env opens d vmk (derive_vault_keys env i p) c w = Inr (w', client, capsule) \<and>
    sec_good env opens (i, p, client, capsule) w' \<and> sec_locked w' \<and> (\<forall>c. s_saved w' = Some c \<longrightarrow> \<not> cf_pending c) \<and>
    dk_db (s_vault w') = dk_db (s_vault w) \<and> s_files w' = s_files w"
proof -
  let ?keys = "derive_vault_keys env i p"
  have vmk: "length vmk = 32" and fits: "key_fits env opens vmk (b64_decode (cf_salt c)) (s_vault w)"
    using good w by (auto simp: sec_good_def memory_def openable_def split: prod.splits if_splits)
  obtain w1 client where w1: "provision env d vmk ?keys (cf_salt c) None (copy_dir w) = (w1, Inr client)"
    and f1: "s_vault w1 = s_vault (copy_dir w)" "s_files w1 = s_files w" "\<exists>c. s_config w1 = Some c \<and> \<not> cf_pending c"
    using provision_ok [OF env(1,2,3) d vmk, of None ?keys "cf_salt c" "copy_dir w"]
    by (auto simp: copy_dir_def)
  let ?f = "\<lambda>c. c\<lparr>cf_external := True, cf_cloud := False\<rparr>"
  let ?w2 = "keep_capsule (with_config ?f w1)"
  have k2: "key_fits env opens vmk (b64_decode (cf_salt c)) (s_vault ?w2)" and db2: "dk_db (s_vault ?w2) = dk_db (s_vault w)"
    using fits f1(1) by (simp_all add: key_fits_def keep_capsule_def with_config_def copy_dir_def lock_vault_def)
  from sec_open_ok [OF k2] obtain v where v: "sec_open env opens vmk (b64_decode (cf_salt c)) ?w2 = (?w2\<lparr>s_vault := v\<rparr>, Inr ())"
    "vt_open v" "dk_db v = dk_db (s_vault w)" "key_fits env opens vmk (b64_decode (cf_salt c)) v"
    using db2 k2 by (auto simp: key_fits_def)
  let ?w3 = "save_config (?w2\<lparr>s_vault := v\<rparr>)"
  have "\<exists>capsule. shard7_file ?w3 = Inr capsule \<and> sec_good env opens (i, p, client, capsule) ?w3"
    by (rule kept_good [OF env d vmk w1, where f = ?f])
      (use v in \<open>simp_all add: save_config_def keep_capsule_def with_config_def\<close>)
  then obtain capsule where cap: "shard7_file ?w3 = Inr capsule" "sec_good env opens (i, p, client, capsule) ?w3" by blast
  have "rotate_local env opens d vmk ?keys c w = Inr (sec_lock ?w3, client, capsule)"
    by (simp add: rotate_local_def w1 v(1) cap(1))
  moreover have "\<forall>c. s_saved (sec_lock ?w3) = Some c \<longrightarrow> \<not> cf_pending c"
    using f1(3) by (auto simp: sec_lock_def save_config_def keep_capsule_def with_config_def)
  moreover have "dk_db (s_vault ?w3) = dk_db (s_vault w)" "s_files ?w3 = s_files w"
    using v(3) f1(2) by (simp_all add: save_config_def keep_capsule_def with_config_def)
  ultimately show ?thesis using good_lock [OF cap(2)]
    by (intro exI [of _ "sec_lock ?w3"] exI [of _ client] exI [of _ capsule]) simp
qed

lemma change_good:
  assumes env: "gcm_ok env" "json_ok env" "cipher_ok opens" "capsule_fits env" and d: "draw_ok (io_draw io)"
    and good: "sec_good env opens s w" and run: "change_secure_password env lib opens io io' gone back i old new w = (w', r)"
  shows "(\<exists>e. r = Inl e) \<and> w' = w \<or>
    (\<exists>client capsule. r = Inr (client, Some capsule) \<and> sec_good env opens (i, new, client, capsule) w' \<and> \<not> sec_locked w' \<and>
       dk_db (s_vault w') = dk_db (s_vault w) \<and> s_files w' = s_files w)"
proof (cases "\<exists>e. r = Inl e \<and> w' = w")
  case False
  obtain c where c: "s_config w = Some c" "cf_external c" using good_some [OF good] by blast
  from run False c obtain keys vmk where mem: "s_keys w = Some keys" "s_vmk w = Some vmk" "\<not> sec_locked w"
    by (auto simp: change_secure_password_def split: option.splits if_splits)
  from run False c mem have fin: "(case rotate_local env opens (io_draw io) vmk (derive_vault_keys env i new) c w of
        Inl e \<Rightarrow> (w, Inl e)
      | Inr (staged, client, capsule) \<Rightarrow> finish_rotation env lib opens back i new client (Some capsule) staged) = (w', r)"
    by (auto simp: change_secure_password_def split: option.splits sum.splits)
  obtain st client capsule where st: "rotate_local env opens (io_draw io) vmk (derive_vault_keys env i new) c w = Inr (st, client, capsule)"
    "sec_good env opens (i, new, client, capsule) st" "sec_locked st" "\<forall>c. s_saved st = Some c \<longrightarrow> \<not> cf_pending c"
    "dk_db (s_vault st) = dk_db (s_vault w)" "s_files st = s_files w"
    using rotate_local_good [OF env d good c(1) mem(2)] by blast
  from adopt_good [OF st(2-4), of lib "back"] fin st(1,5,6) show ?thesis
    by (auto simp: finish_rotation_def)
qed blast

section \<open>Directories from a file or a backup\<close>

lemma distinct_placed: "place_files l = Inr fs \<Longrightarrow> distinct (map fst fs)"
proof -
  have "distinct (map fst m) \<Longrightarrow> distinct (map fst (fold (\<lambda>(n, d). map_set n (b64_decode d)) l m))" for m :: files
    by (induction l arbitrary: m) (simp_all add: distinct_map_set split: prod.splits)
  from this [of "[]"] show "place_files l = Inr fs \<Longrightarrow> distinct (map fst fs)" by (auto simp: place_files_def split: if_splits)
qed

lemma get_placed:
  assumes "distinct (map fst l)"
  shows "map_get (fold (\<lambda>(n, d). map_set n (b64_decode d)) l m) k =
    (case map_of l k of None \<Rightarrow> map_get m k | Some d \<Rightarrow> Some (b64_decode d))"
  using assms
proof (induction l arbitrary: m)
  case (Cons e l)
  obtain n d where e: "e = (n, d)" by (cases e)
  have "map_of l n = None" using Cons.prems by (simp add: e map_of_eq_None_iff)
  with Cons show ?case by (simp add: e map_get_set split: option.splits)
qed simp

lemma own_files_placed:
  assumes "distinct (map fst fs)"
  shows "\<exists>fs'. place_files (own_files fs) = Inr fs' \<and> (\<forall>n. map_get fs' n = (if is_lower_hex_of 32 n then map_get fs n else None))"
proof -
  let ?own = "filter (\<lambda>e. is_lower_hex_of 32 (fst e)) fs"
  have d: "distinct (map fst (own_files fs))"
    using assms by (simp add: own_files_def case_prod_beta comp_def distinct_map_filter)
  have m: "map_of (own_files fs) n = map_option b64_encode (if is_lower_hex_of 32 n then map_of fs n else None)" for n
    unfolding own_files_def by (induction fs) (auto simp: case_prod_beta)
  have "list_all (\<lambda>e. is_lower_hex_of 32 (fst e)) (own_files fs)" by (auto simp: own_files_def list_all_iff)
  then have "place_files (own_files fs) = Inr (fold (\<lambda>(n, d). map_set n (b64_decode d)) (own_files fs) [])"
    by (simp add: place_files_def)
  moreover have "map_get (fold (\<lambda>(n, d). map_set n (b64_decode d)) (own_files fs) []) n =
      (if is_lower_hex_of 32 n then map_get fs n else None)" for n
    unfolding get_placed [OF d] m by (auto simp: map_get_def b64_decode_encode split: option.splits)
  ultimately show ?thesis by blast
qed

lemma open_file_ok:
  assumes "open_file env lib opens content vmk salt w = Inr w'"
  shows "\<exists>k db v. db_load lib content = Some (k, db) \<and> w' = w\<lparr>s_vault := v\<rparr> \<and> vt_open v \<and> dk_db v = db \<and>
    key_fits env opens vmk salt v"
  using assms
  by (auto simp: open_file_def sec_open_def open_db_def key_fits_def Let_def split: option.splits prod.splits sum.splits if_splits)

lemma open_file_runs:
  assumes "db_load lib content = Some (k, db)" and "opens (derive_subkey env vmk salt ''sqlcipher-key-v1'') k"
  shows "\<exists>v. open_file env lib opens content vmk salt w = Inr (w\<lparr>s_vault := v\<rparr>) \<and> dk_db v = db"
  using assms by (simp add: open_file_def sec_open_def open_db_def Let_def) (rule exI, rule conjI, rule refl, simp)

lemma stage_storage_good:
  assumes env: "gcm_ok env" "json_ok env" "cipher_ok opens" and d: "draw_ok d"
    and run: "stage_storage env lib opens d dir (derive_vault_keys env i p) capsule s = Inr (st, client)"
  shows "sec_good env opens (i, p, client, capsule) st \<and> sec_locked st \<and> (\<forall>c. s_saved st = Some c \<longrightarrow> \<not> cf_pending c) \<and>
    distinct (map fst (s_files st)) \<and> place_files (sn_files s) = Inr (s_files st) \<and>
    (\<exists>k db. db_load lib (b64_decode (sn_database s)) = Some (k, db) \<and> dk_db (s_vault st) = relocate dir db)"
proof -
  let ?keys = "derive_vault_keys env i p" and ?master = "b64_decode (sn_vmk s)" and ?salt = "b64_decode (sn_salt s)"
  have len: "length ?master = 32" using run by (auto simp: stage_storage_def Let_def split: if_splits)
  have "\<exists>share. seventh env capsule ?keys = Inr share"
  proof (cases "seventh env capsule ?keys")
    case (Inl e)
    with run show ?thesis by (simp add: stage_storage_def Let_def split: if_splits)
  qed simp
  then obtain share where seven: "seventh env capsule ?keys = Inr share" by blast
  obtain sealed where cap: "seventh env capsule ?keys = Inr share" "file_envelope capsule shard_header 2048 = Inr sealed"
    using seven seventhD [OF seven] by blast
  have "is_share share" using seventhD [OF cap(1)] by blast
  then obtain h c client' f7 where prov: "provision env d ?master ?keys (sn_salt s) (Some share) fresh_sec =
      (fresh_sec\<lparr>s_shards := h, s_config := Some c, s_remote7 := Some f7, s_keys := Some ?keys, s_vmk := Some ?master, s_client := True\<rparr>,
       Inr client')"
    and op: "openable env opens ?keys client' share ?master c h" "cf_salt c = sn_salt s" "\<not> cf_pending c"
    using provision_ok [OF env d len, of "Some share" ?keys "sn_salt s" fresh_sec] by auto
  let ?c = "c\<lparr>cf_external := True, cf_cloud := False\<rparr>"
  let ?w2 = "(with_config (\<lambda>c. c\<lparr>cf_external := True, cf_cloud := False\<rparr>) (fresh_sec\<lparr>s_shards := h, s_config := Some c,
    s_remote7 := Some f7, s_keys := Some ?keys, s_vmk := Some ?master, s_client := True\<rparr>))\<lparr>s_external7 := Some sealed, s_remote7 := None\<rparr>"
  from run len obtain w3 fs where w3: "open_file env lib opens (b64_decode (sn_database s)) ?master ?salt ?w2 = Inr w3"
    and fs: "place_files (sn_files s) = Inr fs" and st: "st = sec_lock (save_config (set_db (relocate dir) (w3\<lparr>s_files := fs\<rparr>)))" "client = client'"
    by (auto simp: stage_storage_def Let_def try_then_Inr_iff cap prov split: if_splits)
  obtain k db v where v: "db_load lib (b64_decode (sn_database s)) = Some (k, db)" "w3 = ?w2\<lparr>s_vault := v\<rparr>" "vt_open v" "dk_db v = db"
    "key_fits env opens ?master ?salt v"
    using open_file_ok [OF w3] by blast
  let ?w4 = "save_config (set_db (relocate dir) (w3\<lparr>s_files := fs\<rparr>))"
  have "sec_good env opens (i, p, client', capsule) ?w4"
  proof (rule sec_goodI [OF _ _ _ cap])
    show "openable env opens ?keys client' share ?master ?c (s_shards ?w4)"
      using openable_config [OF op(1)] by (simp add: v(2) save_config_def set_db_def with_config_def)
    show "key_fits env opens ?master (b64_decode (cf_salt ?c)) (s_vault ?w4)"
      using v(5) op(2) by (simp add: v(2) save_config_def set_db_def key_fits_def with_config_def)
  qed (use v(3) in \<open>simp_all add: v(2) save_config_def set_db_def memory_def sec_locked_def with_config_def\<close>)
  from good_lock [OF this] have "sec_good env opens (i, p, client, capsule) st" unfolding st .
  moreover have "s_files st = fs" "\<forall>c. s_saved st = Some c \<longrightarrow> \<not> cf_pending c" "dk_db (s_vault st) = relocate dir db" "sec_locked st"
    using op(3) v(4) by (simp_all add: st v(2) save_config_def set_db_def with_config_def sec_lock_def sec_locked_def lock_vault_def)
  ultimately show ?thesis using fs v(1) distinct_placed [OF fs] by blast
qed

lemma import_good:
  assumes env: "gcm_ok env" "json_ok env" "cipher_ok opens" and d: "draw_ok d"
    and run: "import_storage env lib opens d dir content i p capsule w = (w', r)"
  shows "(\<exists>e. r = Inl e) \<and> w' = w \<or>
    (\<exists>client. r = Inr client \<and> sec_good env opens (i, p, client, capsule) w' \<and> \<not> sec_locked w' \<and> distinct (map fst (s_files w')))"
proof (cases "\<exists>e. r = Inl e \<and> w' = w")
  case False
  with run obtain s st client where st: "stage_storage env lib opens d dir (derive_vault_keys env i p) capsule s = Inr (st, client)"
    and fin: "(case unlock_main env lib opens Unreached i p (Some client) (Some (b64_encode capsule)) (sec_initialize st) of
        (w', Inl e) \<Rightarrow> (w', Inl e) | (w', Inr _) \<Rightarrow> (w', Inr client)) = (w', r)"
    by (auto simp: import_storage_def Let_def try_then_Inr_iff split: if_splits sum.splits)
  from stage_storage_good [OF env d st] have good: "sec_good env opens (i, p, client, capsule) st" "sec_locked st"
    "\<forall>c. s_saved st = Some c \<longrightarrow> \<not> cf_pending c" "distinct (map fst (s_files st))" by blast+
  from adopt_good [OF good(1-3), of lib Unreached] fin good(4) show ?thesis by auto
qed blast

lemma stage_backup_good:
  assumes env: "gcm_ok env" "json_ok env" "cipher_ok opens" "capsule_fits env" and d: "draw_ok d"
    and run: "stage_backup env lib opens d dir (derive_vault_keys env i p) version s = Inr (st, client, capsule)"
  shows "sec_good env opens (i, p, client, capsule) st \<and> sec_locked st \<and> (\<forall>c. s_saved st = Some c \<longrightarrow> \<not> cf_pending c) \<and>
    distinct (map fst (s_files st)) \<and> place_files (sn_files s) = Inr (s_files st) \<and>
    (\<exists>k db. db_load lib (b64_decode (sn_database s)) = Some (k, db) \<and> dk_db (s_vault st) = relocate dir (forget_relay db))"
proof -
  let ?keys = "derive_vault_keys env i p" and ?vmk = "b64_decode (sn_vmk s)" and ?salt = "b64_decode (sn_salt s)"
  have len: "length ?vmk = 32" using run by (auto simp: stage_backup_def Let_def split: if_splits)
  obtain w1 client' where w1: "provision env d ?vmk ?keys (sn_salt s) None fresh_sec = (w1, Inr client')"
    and pend: "\<exists>c. s_config w1 = Some c \<and> \<not> cf_pending c"
    using provision_ok [OF env(1-3) d len, of None ?keys "sn_salt s" fresh_sec] by auto
  let ?f = "\<lambda>c. c\<lparr>cf_version := version, cf_external := True, cf_cloud := False\<rparr>"
  let ?stage = "\<lambda>w2 fs. save_config (keep_capsule (with_config ?f (set_db (relocate dir) ((set_db forget_relay w2)\<lparr>s_files := fs\<rparr>))))"
  from run len obtain w2 fs where w2: "open_file env lib opens (b64_decode (sn_database s)) ?vmk ?salt w1 = Inr w2"
    and fs: "place_files (sn_files s) = Inr fs" and st: "st = sec_lock (?stage w2 fs)" "client = client'" "shard7_file (?stage w2 fs) = Inr capsule"
    by (auto simp: stage_backup_def Let_def try_then_Inr_iff w1 split: if_splits)
  obtain k db v where v: "db_load lib (b64_decode (sn_database s)) = Some (k, db)" "w2 = w1\<lparr>s_vault := v\<rparr>" "vt_open v" "dk_db v = db"
    "key_fits env opens ?vmk ?salt v"
    using open_file_ok [OF w2] by blast
  let ?w4 = "?stage w2 fs"
  have "\<exists>capsule. shard7_file ?w4 = Inr capsule \<and> sec_good env opens (i, p, client', capsule) ?w4"
    by (rule kept_good [OF env d len w1, where f = ?f])
      (use v in \<open>simp_all add: save_config_def keep_capsule_def with_config_def set_db_def key_fits_def\<close>)
  then have good: "sec_good env opens (i, p, client, capsule) ?w4" using st(2,3) by auto
  have rest: "s_files ?w4 = fs" "\<forall>c. s_saved ?w4 = Some c \<longrightarrow> \<not> cf_pending c" "dk_db (s_vault ?w4) = relocate dir (forget_relay db)"
    using pend v(4) by (auto simp: v(2) save_config_def keep_capsule_def with_config_def set_db_def)
  then have "s_files st = fs" "\<forall>c. s_saved st = Some c \<longrightarrow> \<not> cf_pending c" "dk_db (s_vault st) = relocate dir (forget_relay db)"
    by (simp_all add: st(1) sec_lock_def lock_vault_def)
  then show ?thesis using good_lock [OF good] fs v(1) distinct_placed [OF fs] by (simp add: st(1))
qed

lemma restore_good:
  assumes env: "gcm_ok env" "json_ok env" "cipher_ok opens" "capsule_fits env" and d: "draw_ok d"
    and run: "restore_secure env lib opens d answer dir i p w = (w', r)"
  shows "(\<exists>e. r = Inl e) \<and> w' = w \<or>
    (\<exists>client capsule. r = Inr (client, capsule) \<and> sec_good env opens (i, p, client, capsule) w' \<and> \<not> sec_locked w' \<and>
       distinct (map fst (s_files w')))"
proof (cases "\<exists>e. r = Inl e \<and> w' = w")
  case False
  with run obtain v s st client capsule where
    st: "stage_backup env lib opens d dir (derive_vault_keys env i p) v s = Inr (st, client, capsule)"
    and fin: "(case unlock_main env lib opens Unreached i p (Some client) (Some (b64_encode capsule)) (sec_initialize st) of
        (w', Inl e) \<Rightarrow> (w', Inl e) | (w', Inr _) \<Rightarrow> (w', Inr (client, capsule))) = (w', r)"
    by (auto simp: restore_secure_def Let_def try_then_Inr_iff split: if_splits sum.splits option.splits)
  from stage_backup_good [OF env d st] have good: "sec_good env opens (i, p, client, capsule) st" "sec_locked st"
    "\<forall>c. s_saved st = Some c \<longrightarrow> \<not> cf_pending c" "distinct (map fst (s_files st))" by blast+
  from adopt_good [OF good(1-3), of lib Unreached] fin good(4) show ?thesis by auto
qed blast

section \<open>Runs of the secure vault\<close>

text \<open>
  What the daemon does with it. The index is what the user holds: the vault id and password that were
  used last, with the client shard and the capsule that were returned for them. Unlocking is also tried
  with anything else; what is not considered is that other keys decrypt the wrapped master key.
\<close>

definition creation_pending :: "sec_vault \<Rightarrow> bool" where
  "creation_pending w \<longleftrightarrow> (case s_saved w of None \<Rightarrow> False | Some c \<Rightarrow> cf_pending c)"

text \<open>An upload that was accepted ends later than it began, perhaps when the vault is locked.\<close>

definition finish_upload :: "sec_vault \<Rightarrow> sec_vault" where
  "finish_upload w =
     (case s_config w of
        None \<Rightarrow> w
      | Some c \<Rightarrow> if cf_cloud c then (save_config (with_config (\<lambda>c. c\<lparr>cf_version := cf_version c + 1\<rparr>) w))\<lparr>s_relay := True\<rparr> else w)"

lemma good_relay: "sec_good env opens s w \<Longrightarrow> sec_good env opens s (w\<lparr>s_relay := b\<rparr>)"
  by (erule sec_good_same) (simp_all add: same_dir_def memory_def sec_locked_def)

lemma finish_upload_inv: "sec_inv env opens w s \<Longrightarrow> sec_inv env opens (finish_upload w) s"
proof -
  assume inv: "sec_inv env opens w s"
  show ?thesis
  proof (cases s)
    case (Some t)
    have "sec_good env opens t w" using inv by (simp add: sec_inv_def Some)
    then have "sec_good env opens t (save_config (with_config (\<lambda>c. c\<lparr>cf_version := cf_version c + 1\<rparr>) w))"
      by (rule good_config) simp
    from good_relay [OF this] inv show ?thesis
      by (auto simp: sec_inv_def Some finish_upload_def save_config_def with_config_def split: option.split)
  qed (use inv in \<open>simp add: sec_inv_def finish_upload_def fresh_sec_def\<close>)
qed

inductive sec_run :: "daemon_env \<Rightarrow> secure_lib \<Rightarrow> cipher \<Rightarrow> sec_vault \<Rightarrow> credentials option \<Rightarrow> bool" for env lib opens where
  fresh: "sec_run env lib opens fresh_sec None"
| create: "sec_run env lib opens w None \<Longrightarrow> draw_ok (io_draw io) \<Longrightarrow>
    create_secure env lib opens io existed i p False w = (w', Inr (client, capsule)) \<Longrightarrow>
    sec_run env lib opens w' (Some (i, p, client, capsule))"
| create_fails: "sec_run env lib opens w s \<Longrightarrow> draw_ok (io_draw io) \<Longrightarrow>
    create_secure env lib opens io existed i p False w = (w', Inl e) \<Longrightarrow> sec_run env lib opens w' s"
| confirm: "sec_run env lib opens w s \<Longrightarrow> update_config (sec_database w) saved_config w = (w', r) \<Longrightarrow> sec_run env lib opens w' s"
| cloud: "sec_run env lib opens w s \<Longrightarrow> update_config (sec_database w) (cloud_config b) w = (w', r) \<Longrightarrow> sec_run env lib opens w' s"
| sync: "sec_run env lib opens w s \<Longrightarrow> sync_backup env lib nonce token now claim put w = (w', b, r) \<Longrightarrow> sec_run env lib opens w' s"
| write_db: "sec_run env lib opens w s \<Longrightarrow> \<not> sec_locked w \<Longrightarrow> sec_run env lib opens (set_db f w) s"
| write_file: "sec_run env lib opens w s \<Longrightarrow> \<not> sec_locked w \<Longrightarrow> sec_run env lib opens (w\<lparr>s_files := map_set n b (s_files w)\<rparr>) s"
| change_files: "sec_run env lib opens w s \<Longrightarrow> \<not> sec_locked w \<Longrightarrow> distinct (map fst fs) \<Longrightarrow>
    sec_run env lib opens (w\<lparr>s_files := fs\<rparr>) s"
| unlock: "sec_run env lib opens w (Some (i, p, client, capsule)) \<Longrightarrow>
    unlock_main env lib opens answer i p (Some client) (Some (b64_encode capsule)) w = (w', r) \<Longrightarrow>
    sec_run env lib opens w' (Some (i, p, client, capsule))"
| unlock_fails: "sec_run env lib opens w s \<Longrightarrow> unlock_main env lib opens answer i p client payload w = (w', Inl e) \<Longrightarrow>
    sec_run env lib opens w' s"
| change: "sec_run env lib opens w s \<Longrightarrow> draw_ok (io_draw io) \<Longrightarrow>
    change_secure_password env lib opens io io' gone answer i old new w = (w', Inr (client, Some capsule)) \<Longrightarrow>
    sec_run env lib opens w' (Some (i, new, client, capsule))"
| change_fails: "sec_run env lib opens w s \<Longrightarrow> draw_ok (io_draw io) \<Longrightarrow>
    change_secure_password env lib opens io io' gone answer i old new w = (w', Inl e) \<Longrightarrow> sec_run env lib opens w' s"
| import: "sec_run env lib opens w s \<Longrightarrow> draw_ok d \<Longrightarrow>
    import_storage env lib opens d dir content i p capsule w = (w', Inr client) \<Longrightarrow>
    sec_run env lib opens w' (Some (i, p, client, capsule))"
| import_fails: "sec_run env lib opens w s \<Longrightarrow> draw_ok d \<Longrightarrow>
    import_storage env lib opens d dir content i p capsule w = (w', Inl e) \<Longrightarrow> sec_run env lib opens w' s"
| restore: "sec_run env lib opens w s \<Longrightarrow> draw_ok d \<Longrightarrow>
    restore_secure env lib opens d answer dir i p w = (w', Inr (client, capsule)) \<Longrightarrow>
    sec_run env lib opens w' (Some (i, p, client, capsule))"
| restore_fails: "sec_run env lib opens w s \<Longrightarrow> draw_ok d \<Longrightarrow>
    restore_secure env lib opens d answer dir i p w = (w', Inl e) \<Longrightarrow> sec_run env lib opens w' s"
| lock: "sec_run env lib opens w s \<Longrightarrow> sec_run env lib opens (sec_lock w) s"
| upload_ends: "sec_run env lib opens w s \<Longrightarrow> sec_run env lib opens (finish_upload w) s"
| relay_seen: "sec_run env lib opens w s \<Longrightarrow> s_config w \<noteq> None \<Longrightarrow> sec_run env lib opens (w\<lparr>s_relay := b\<rparr>) s"
| restart: "sec_run env lib opens w s \<Longrightarrow>
    sec_run env lib opens (sec_initialize (sec_lock w)) (if creation_pending w then None else s)"

text \<open>What the operations do to a vault that was never created.\<close>

lemma fresh_sec_fields [simp]:
  "s_config fresh_sec = None" "s_saved fresh_sec = None" "s_keys fresh_sec = None" "s_vmk fresh_sec = None" "s_files fresh_sec = []"
  by (simp_all add: fresh_sec_def)

lemma fresh_locked: "sec_locked fresh_sec"
  by (simp add: sec_locked_def fresh_sec_def fresh_vault_def)

lemma fresh_ops:
  "update_config session f fresh_sec = (w', r) \<Longrightarrow> w' = fresh_sec"
  "sync_backup env lib nonce token now claim put fresh_sec = (w', b, r') \<Longrightarrow> w' = fresh_sec"
  "unlock_main env lib opens answer i p client payload fresh_sec = (w', q) \<Longrightarrow> w' = fresh_sec"
  "change_secure_password env lib opens io io' gone answer i old new fresh_sec = (w', q') \<Longrightarrow> w' = fresh_sec \<and> (\<exists>e. q' = Inl e)"
  "sec_initialize fresh_sec = fresh_sec"
  by (auto simp: update_config_def secure_config_of_def sync_backup_def unlock_main_def unlock_def change_secure_password_def
      change_password_def fresh_sec_def fresh_vault_def sec_initialize_def vault_initialize_def sec_locked_def try_then_Inr_iff split: sum.splits)

lemma create_refused_good:
  assumes "sec_good env opens s w" and "create_secure env lib opens io existed i p False w = (w', r)"
  shows "w' = w \<and> (\<exists>e. r = Inl e)"
  using good_some [OF assms(1)] assms(2) by (auto simp: create_secure_def sec_exists_def)

lemma update_config_inv:
  assumes "sec_inv env opens w s" and "f \<in> {saved_config, cloud_config b}" and "update_config session f w = (w', r)"
  shows "sec_inv env opens w' s"
proof (cases s)
  case None
  then show ?thesis using assms fresh_ops(1) by (auto simp: sec_inv_def)
next
  case (Some t)
  have "w' = fst (update_config session f w)" using assms(3) by simp
  with update_config_good [OF _ assms(2), of env opens t w session] assms(1) show ?thesis by (simp add: sec_inv_def Some)
qed

lemma sync_inv:
  assumes "sec_inv env opens w s" and "sync_backup env lib nonce token now claim put w = (w', b, r)"
  shows "sec_inv env opens w' s"
proof (cases s)
  case None
  then show ?thesis using assms by (auto simp: sec_inv_def dest: fresh_ops(2))
next
  case (Some t)
  with sync_good [OF _ assms(2), of opens t] assms(1) show ?thesis by (simp add: sec_inv_def)
qed

lemma unlock_refused_inv:
  assumes "sec_inv env opens w s" and "unlock_main env lib opens answer i p client payload w = (w', Inl e)"
  shows "sec_inv env opens w' s"
proof (cases s)
  case None
  then show ?thesis using assms by (auto simp: sec_inv_def dest: fresh_ops(3))
next
  case (Some t)
  with unlock_refused_good [OF _ assms(2), of t] assms(1) show ?thesis by (simp add: sec_inv_def)
qed

lemma sec_run_inv:
  assumes env: "gcm_ok env" "json_ok env" "cipher_ok opens" "capsule_fits env"
  shows "sec_run env lib opens w s \<Longrightarrow> sec_inv env opens w s"
proof (induction rule: sec_run.induct)
  case fresh
  then show ?case by (simp add: sec_inv_def)
next
  case (create w io existed i p w' client capsule)
  from create_good [OF env create.hyps(2), of lib existed i p w'] create show ?case
    by (auto simp: sec_inv_def split: option.splits)
next
  case (create_fails w s io existed i p w' e)
  show ?case
  proof (cases s)
    case None
    with create_good [OF env create_fails.hyps(2), of lib existed i p w'] create_fails show ?thesis
      by (auto simp: sec_inv_def split: option.splits)
  next
    case (Some t)
    with create_fails create_refused_good show ?thesis by (fastforce simp: sec_inv_def)
  qed
next
  case (confirm w s w' r)
  then show ?case by (blast intro: update_config_inv [of env opens w s saved_config])
next
  case (cloud w s b w' r)
  then show ?case by (blast intro: update_config_inv [of env opens w s "cloud_config b" b])
next
  case (sync w s nonce token now claim put w' b r)
  then show ?case by (blast intro: sync_inv)
next
  case (write_db w s f)
  then show ?case using set_db_good by (cases s) (auto simp: sec_inv_def)
next
  case (write_file w s n b)
  then show ?case
  proof (cases s)
    case (Some t)
    have "sec_good env opens t (w\<lparr>s_files := map_set n b (s_files w)\<rparr>)"
      using write_file.IH by (rule_tac sec_good_same [of env opens t w]) (simp_all add: sec_inv_def Some memory_def sec_locked_def)
    then show ?thesis using write_file.IH by (simp add: sec_inv_def Some distinct_map_set)
  qed (simp add: sec_inv_def)
next
  case (change_files w s fs)
  then show ?case
  proof (cases s)
    case None
    then have "w = fresh_sec" using change_files.IH by (simp add: sec_inv_def)
    then show ?thesis using change_files.hyps by (simp add: fresh_locked)
  next
    case (Some t)
    have "sec_good env opens t (w\<lparr>s_files := fs\<rparr>)"
      using change_files.IH by (rule_tac sec_good_same [of env opens t w]) (simp_all add: sec_inv_def Some memory_def sec_locked_def)
    then show ?thesis using change_files.hyps by (simp add: sec_inv_def Some)
  qed
next
  case (unlock w i p client capsule answer w' r)
  then have good: "sec_good env opens (i, p, client, capsule) w" "distinct (map fst (s_files w))" by (simp_all add: sec_inv_def)
  show ?case
  proof (cases "sec_locked w")
    case True
    from good_unlock [OF good(1) True, of lib answer] unlock(2) good(2) show ?thesis by (auto simp: sec_inv_def)
  next
    case False
    then have "w' = w" using unlock(2) by (simp add: unlock_main_def)
    then show ?thesis using unlock.IH by simp
  qed
next
  case (unlock_fails w s answer i p client payload w' e)
  then show ?case by (blast intro: unlock_refused_inv)
next
  case (change w s io io' gone answer i old new w' client capsule)
  show ?case
  proof (cases s)
    case None
    with change fresh_ops(4) show ?thesis by (fastforce simp: sec_inv_def)
  next
    case (Some t)
    with change have "sec_good env opens t w" "distinct (map fst (s_files w))" by (simp_all add: sec_inv_def)
    with change_good [OF env change.hyps(2) _ change.hyps(3)] show ?thesis by (auto simp: sec_inv_def)
  qed
next
  case (change_fails w s io io' gone answer i old new w' e)
  show ?case
  proof (cases s)
    case None
    with change_fails fresh_ops(4) show ?thesis by (fastforce simp: sec_inv_def)
  next
    case (Some t)
    with change_fails have "sec_good env opens t w" by (simp add: sec_inv_def)
    from change_good [OF env change_fails.hyps(2) this change_fails.hyps(3)] change_fails.IH show ?thesis by auto
  qed
next
  case (import w s d dir content i p capsule w' client)
  from import_good [OF env(1-3) import.hyps(2,3)] show ?case by (auto simp: sec_inv_def)
next
  case (import_fails w s d dir content i p capsule w' e)
  from import_good [OF env(1-3) import_fails.hyps(2,3)] import_fails.IH show ?case by auto
next
  case (restore w s d answer dir i p w' client capsule)
  from restore_good [OF env restore.hyps(2,3)] show ?case by (auto simp: sec_inv_def)
next
  case (restore_fails w s d answer dir i p w' e)
  from restore_good [OF env restore_fails.hyps(2,3)] restore_fails.IH show ?case by auto
next
  case (lock w s)
  then show ?case using good_lock by (cases s) (auto simp: sec_inv_def)
next
  case (upload_ends w s)
  then show ?case by (simp add: finish_upload_inv)
next
  case (relay_seen w s b)
  then show ?case using good_relay by (cases s) (auto simp: sec_inv_def fresh_sec_def)
next
  case (restart w s)
  show ?case
  proof (cases s)
    case None
    with restart.IH fresh_ops(5) show ?thesis by (simp add: sec_inv_def)
  next
    case (Some t)
    then have good: "sec_good env opens t (sec_lock w)" "distinct (map fst (s_files w))"
      using restart.IH good_lock by (simp_all add: sec_inv_def)
    have saved: "s_saved (sec_lock w) = s_saved w" by (simp add: sec_lock_def)
    show ?thesis
    proof (cases "creation_pending w")
      case True
      then have "sec_initialize (sec_lock w) = fresh_sec" by (simp add: sec_initialize_def saved creation_pending_def)
      then show ?thesis using True by (simp add: sec_inv_def)
    next
      case False
      then have "\<forall>c. s_saved (sec_lock w) = Some c \<longrightarrow> \<not> cf_pending c" by (auto simp: saved creation_pending_def)
      from good_init [OF good(1) _ this] show ?thesis using Some False good(2) by (simp add: sec_inv_def)
    qed
  qed
qed

section \<open>What a file and a backup carry\<close>

lemma string_map_strings: "string_map (JObj (map (\<lambda>(n, d). (n, JStr d)) l)) = Some l"
proof -
  have "those (map (\<lambda>(k, v). map_option (\<lambda>s. (k, s)) (as_string v)) (map (\<lambda>(n, d). (n, JStr d)) l)) = Some l"
    by (induction l) (auto simp: as_string_def)
  then show ?thesis by (simp add: string_map_def)
qed

text \<open>The sizes that the schema of a snapshot asks for.\<close>

definition snapshot_fits :: "daemon_env \<Rightarrow> secure_lib \<Rightarrow> sec_vault \<Rightarrow> bool" where
  "snapshot_fits env lib w \<longleftrightarrow> (\<exists>c vmk. s_config w = Some c \<and> s_vmk w = Some vmk \<and> length (cf_salt c) = 24 \<and>
     length (b64_decode (cf_salt c)) = 16 \<and> length (sn_database (take_snapshot lib vmk c w)) \<le> snapshot_limit \<and>
     length (snapshot_bytes env (take_snapshot lib vmk c w)) \<le> snapshot_limit)"

definition cached_present :: "sec_vault \<Rightarrow> bool" where
  "cached_present w \<longleftrightarrow> list_all (\<lambda>a. at_path a \<noteq> None \<longrightarrow> is_lower_hex_of 32 (at_id a) \<and> map_get (s_files w) (at_id a) \<noteq> None)
     (l_attachments (dk_db (s_vault w)))"

lemma schema_snapshot:
  assumes "length vmk = 32" and "length (cf_salt c) = 24" and "length (sn_database (take_snapshot lib vmk c w)) \<le> snapshot_limit"
  shows "snapshot_schema (snapshot_json (take_snapshot lib vmk c w)) = Some (take_snapshot lib vmk c w)"
proof -
  have v: "length (sn_vmk (take_snapshot lib vmk c w)) = 44" "length (sn_salt (take_snapshot lib vmk c w)) = 24"
    using assms(1,2) by (simp_all add: take_snapshot_def length_b64_encode)
  show ?thesis
    unfolding snapshot_schema_def snapshot_json_def
    using v assms(3) string_map_strings
    by (simp add: required_def optional_def field_def int_where_def string_where_def as_string_def snapshot_limit_def
        is_obj_def max_safe_integer_def)
qed

lemma read_taken:
  assumes "json_ok env" and "length vmk = 32" and "length (cf_salt c) = 24" and "length (sn_database (take_snapshot lib vmk c w)) \<le> snapshot_limit"
  shows "read_snapshot env (Some (snapshot_bytes env (take_snapshot lib vmk c w))) = Inr (take_snapshot lib vmk c w)"
  using assms schema_snapshot [OF assms(2-4)] by (simp add: read_snapshot_def snapshot_bytes_def json_ok_def)

lemma good_open:
  assumes "sec_good env opens (i, p, client, capsule) w" and "\<not> sec_locked w"
  shows "\<exists>c share vmk sealed k. s_config w = Some c \<and> s_keys w = Some (derive_vault_keys env i p) \<and> s_vmk w = Some vmk \<and>
    length vmk = 32 \<and> seventh env capsule (derive_vault_keys env i p) = Inr share \<and>
    file_envelope capsule shard_header 2048 = Inr sealed \<and> shard7_file w = Inr capsule \<and>
    dk_key (s_vault w) = Some k \<and> opens (derive_subkey env vmk (b64_decode (cf_salt c)) ''sqlcipher-key-v1'') k"
proof -
  let ?keys = "derive_vault_keys env i p"
  obtain c share vmk sealed where w: "s_config w = Some c" "seventh env capsule ?keys = Inr share"
    "file_envelope capsule shard_header 2048 = Inr sealed" "openable env opens ?keys client share vmk c (s_shards w)"
    "key_fits env opens vmk (b64_decode (cf_salt c)) (s_vault w)" "memory w = (Some ?keys, Some vmk, Some sealed)"
    using assms unfolding sec_good_def prod.case by auto
  have "shard7_file w = Inr capsule"
    using assms(2) w(6) envelopeD [OF w(3)]
    by (simp add: shard7_file_def sec_database_def vault_database_def unless_locked_def sec_locked_def memory_def)
  with w show ?thesis by (auto simp: memory_def openable_def key_fits_def)
qed

lemma stage_storage_runs:
  assumes env: "gcm_ok env" "json_ok env" "cipher_ok opens" and lib: "lib_ok lib w" and d: "draw_ok d"
    and good: "sec_good env opens (i, p, client, capsule) w" "\<not> sec_locked w" "distinct (map fst (s_files w))"
    and w: "s_config w = Some c" "s_vmk w = Some vmk" "length (b64_decode (cf_salt c)) = 16" and present: "cached_present w"
  shows "\<exists>st client'. stage_storage env lib opens d dir (derive_vault_keys env i p) capsule (take_snapshot lib vmk c w) = Inr (st, client') \<and>
    dk_db (s_vault st) = relocate dir (dk_db (s_vault w)) \<and> (\<forall>n. is_lower_hex_of 32 n \<longrightarrow> map_get (s_files st) n = map_get (s_files w) n)"
proof -
  let ?keys = "derive_vault_keys env i p" and ?s = "take_snapshot lib vmk c w" and ?db = "dk_db (s_vault w)"
  obtain share sealed k where o: "length vmk = 32" "seventh env capsule ?keys = Inr share" "file_envelope capsule shard_header 2048 = Inr sealed"
    "dk_key (s_vault w) = Some k" "opens (derive_subkey env vmk (b64_decode (cf_salt c)) ''sqlcipher-key-v1'') k"
    using good_open [OF good(1,2)] w(1,2) by auto
  obtain fs where fs: "place_files (sn_files ?s) = Inr fs" "\<And>n. map_get fs n = (if is_lower_hex_of 32 n then map_get (s_files w) n else None)"
    using own_files_placed [OF good(3)] by (auto simp: take_snapshot_def)
  have db: "db_load lib (b64_decode (sn_database ?s)) = Some (k, ?db)"
    using lib o(4) by (simp add: take_snapshot_def disk_key_def b64_decode_encode lib_ok_def)
  have fields: "b64_decode (sn_vmk ?s) = vmk" "sn_salt ?s = cf_salt c" by (simp_all add: take_snapshot_def b64_decode_encode)
  obtain w1 client' where w1: "provision env d vmk ?keys (cf_salt c) (Some share) fresh_sec = (w1, Inr client')"
    using provision_ok [OF env d o(1), of "Some share" ?keys "cf_salt c" fresh_sec] seventhD [OF o(2)] by auto
  let ?w2 = "(with_config (\<lambda>c. c\<lparr>cf_external := True, cf_cloud := False\<rparr>) w1)\<lparr>s_external7 := Some sealed, s_remote7 := None\<rparr>"
  obtain v where v: "open_file env lib opens (b64_decode (sn_database ?s)) vmk (b64_decode (cf_salt c)) ?w2 = Inr (?w2\<lparr>s_vault := v\<rparr>)"
    "dk_db v = ?db"
    using open_file_runs [where opens = opens and env = env and vmk = vmk, OF db o(5), of ?w2] by blast
  have "\<not> list_ex (\<lambda>a. at_path a \<noteq> None \<and> map_get fs (at_id a) = None) (l_attachments ?db)"
    using present fs(2) by (auto simp: cached_present_def list_all_iff list_ex_iff)
  then have run: "stage_storage env lib opens d dir ?keys capsule ?s =
      Inr (sec_lock (save_config (set_db (relocate dir) (?w2\<lparr>s_vault := v, s_files := fs\<rparr>))), client')"
    unfolding stage_storage_def Let_def fields using o(1,2,3) w(3) w1 v fs(1) by simp
  show ?thesis unfolding run using fs(2) v(2)
    by (simp add: sec_lock_def save_config_def set_db_def with_config_def lock_vault_def)
qed

text \<open>An exported file brings database and cached files to any other directory.\<close>

lemma import_exported:
  assumes env: "gcm_ok env" "json_ok env" "cipher_ok opens" and lib: "lib_ok lib w" and d: "draw_ok d"
    and inv: "sec_inv env opens w (Some (i, p, client, capsule))" and nonce: "length nonce = 12"
    and ex: "export_storage env lib nonce w = Inr content" "length content \<le> 64 * 1024 * 1024"
    and fits: "snapshot_fits env lib w" and present: "cached_present w" and v: "sec_locked v"
  shows "\<exists>v' client'. import_storage env lib opens d dir content i p capsule v = (v', Inr client') \<and>
    sec_database v' = Inr (relocate dir (dk_db (s_vault w))) \<and>
    (\<forall>n. is_lower_hex_of 32 n \<longrightarrow> map_get (s_files v') n = map_get (s_files w) n)"
proof -
  let ?keys = "derive_vault_keys env i p"
  have good: "sec_good env opens (i, p, client, capsule) w" "distinct (map fst (s_files w))" using inv by (simp_all add: sec_inv_def)
  have open_w: "\<not> sec_locked w"
    using ex(1) by (auto simp: export_storage_def try_then_Inr_iff sec_database_def vault_database_def unless_locked_def sec_locked_def
        split: option.splits if_splits)
  obtain c vmk where w: "s_config w = Some c" "s_vmk w = Some vmk" "length (cf_salt c) = 24" "length (b64_decode (cf_salt c)) = 16"
    "length (sn_database (take_snapshot lib vmk c w)) \<le> snapshot_limit"
    "length (snapshot_bytes env (take_snapshot lib vmk c w)) \<le> snapshot_limit"
    using fits by (auto simp: snapshot_fits_def)
  let ?s = "take_snapshot lib vmk c w"
  have o: "s_keys w = Some ?keys" "length vmk = 32" "shard7_file w = Inr capsule" using good_open [OF good(1) open_w] w(1,2) by auto
  have enc: "encode_storage env nonce (zip_bytes lib (snapshot_bytes env ?s)) capsule ?keys = Inr content"
    using ex(1) o w(1,2) by (auto simp: export_storage_def try_then_Inr_iff secure_config_of_def)
  have dec: "decode_storage env content capsule ?keys = Inr (zip_bytes lib (snapshot_bytes env ?s))"
    by (rule storage_decodes [OF env(1,2) nonce enc ex(2)])
  have unz: "unzip_bytes lib snapshot_limit (zip_bytes lib (snapshot_bytes env ?s)) = Some (snapshot_bytes env ?s)"
    using lib w(6) by (simp add: lib_ok_def)
  note rd = read_taken [OF env(2) o(2) w(3,5)]
  obtain st client' where st: "stage_storage env lib opens d dir ?keys capsule ?s = Inr (st, client')"
    "dk_db (s_vault st) = relocate dir (dk_db (s_vault w))" "\<forall>n. is_lower_hex_of 32 n \<longrightarrow> map_get (s_files st) n = map_get (s_files w) n"
    using stage_storage_runs [OF env lib d good(1) open_w good(2) w(1,2,4) present] by blast
  from stage_storage_good [OF env d st(1)] have good': "sec_good env opens (i, p, client', capsule) st" "sec_locked st"
    "\<forall>c. s_saved st = Some c \<longrightarrow> \<not> cf_pending c" by blast+
  obtain v' where v': "unlock_main env lib opens Unreached i p (Some client') (Some (b64_encode capsule)) (sec_initialize st) = (v', Inr ())"
    "\<not> sec_locked v'" "dk_db (s_vault v') = dk_db (s_vault st)" "s_files v' = s_files st"
    using adopt_good [OF good', of lib Unreached] by blast
  have "import_storage env lib opens d dir content i p capsule v = (v', Inr client')"
    using v by (simp add: import_storage_def Let_def dec unz rd st(1) v'(1))
  moreover have "sec_database v' = Inr (dk_db (s_vault v'))"
    using v'(2) by (simp add: sec_database_def vault_database_def unless_locked_def sec_locked_def)
  ultimately show ?thesis using v'(3,4) st(2,3) by simp
qed

lemma stored_body:
  assumes good: "sec_good env opens (i, p, client, capsule) w"
    and run: "sync_backup env lib nonce token now claim put w = (w', Some b, Inr (Stored n))"
  shows "\<not> sec_locked w \<and> (\<exists>c vmk. s_config w = Some c \<and> s_vmk w = Some vmk \<and>
    encrypt_backup env (zip_bytes lib) nonce (snapshot_bytes env (take_snapshot lib vmk c (set_db (with_token token) w)))
      (vk_backup (derive_vault_keys env i p)) = Inr \<lparr>se_nonce = bp_nonce b, se_ciphertext = bp_ciphertext b\<rparr>)"
proof -
  have wt: "set_db (\<lambda>db. db\<lparr>l_instance := Some (case l_instance db of None \<Rightarrow> token | Some t \<Rightarrow> t)\<rparr>) w = set_db (with_token token) w"
    by (simp add: with_token_def [abs_def])
  have open_w: "\<not> sec_locked w" using run by (auto simp: sync_backup_def split: option.splits if_splits)
  obtain c vmk where w: "s_config w = Some c" "s_keys w = Some (derive_vault_keys env i p)" "s_vmk w = Some vmk"
    using good_open [OF good open_w] by blast
  let ?keys = "derive_vault_keys env i p"
  obtain t b0 where b0: "unsigned_body env lib nonce now claim ?keys c vmk t (set_db (with_token token) w) = Inr b0" "b = signed_body lib ?keys b0"
    using run w open_w unfolding sync_backup_def wt Let_def by (auto split: if_splits sum.splits option.splits)
  obtain e where e: "encrypt_backup env (zip_bytes lib) nonce (snapshot_bytes env (take_snapshot lib vmk c (set_db (with_token token) w)))
      (vk_backup ?keys) = Inr e" and b: "bp_nonce b0 = se_nonce e" "bp_ciphertext b0 = se_ciphertext e"
    using b0(1) by (auto simp: unsigned_body_def try_then_Inr_iff Let_def)
  show ?thesis using open_w w(1,3) e b by (simp add: b0(2) signed_body_def)
qed

lemma stage_backup_runs:
  assumes env: "gcm_ok env" "json_ok env" "cipher_ok opens" "capsule_fits env" and lib: "lib_ok lib w" and d: "draw_ok d"
    and good: "sec_good env opens (i, p, client, capsule) w" "\<not> sec_locked w" "distinct (map fst (s_files w))"
    and w: "s_config w = Some c" "s_vmk w = Some vmk"
  shows "\<exists>st client' capsule'. stage_backup env lib opens d dir (derive_vault_keys env i p) version (take_snapshot lib vmk c w) =
      Inr (st, client', capsule') \<and> dk_db (s_vault st) = relocate dir (forget_relay (dk_db (s_vault w))) \<and>
      (\<forall>n. is_lower_hex_of 32 n \<longrightarrow> map_get (s_files st) n = map_get (s_files w) n)"
proof -
  let ?keys = "derive_vault_keys env i p" and ?s = "take_snapshot lib vmk c w" and ?db = "dk_db (s_vault w)"
  obtain k where o: "length vmk = 32" "dk_key (s_vault w) = Some k" "opens (derive_subkey env vmk (b64_decode (cf_salt c)) ''sqlcipher-key-v1'') k"
    using good_open [OF good(1,2)] w(1,2) by auto
  obtain fs where fs: "place_files (sn_files ?s) = Inr fs" "\<And>n. map_get fs n = (if is_lower_hex_of 32 n then map_get (s_files w) n else None)"
    using own_files_placed [OF good(3)] by (auto simp: take_snapshot_def)
  have db: "db_load lib (b64_decode (sn_database ?s)) = Some (k, ?db)"
    using lib o(2) by (simp add: take_snapshot_def disk_key_def b64_decode_encode lib_ok_def)
  have fields: "b64_decode (sn_vmk ?s) = vmk" "sn_salt ?s = cf_salt c" by (simp_all add: take_snapshot_def b64_decode_encode)
  obtain w1 client' where w1: "provision env d vmk ?keys (cf_salt c) None fresh_sec = (w1, Inr client')"
    using provision_ok [OF env(1-3) d o(1), of None ?keys "cf_salt c" fresh_sec] by auto
  obtain v where v: "open_file env lib opens (b64_decode (sn_database ?s)) vmk (b64_decode (cf_salt c)) w1 = Inr (w1\<lparr>s_vault := v\<rparr>)"
    "dk_db v = ?db" "vt_open v" "key_fits env opens vmk (b64_decode (cf_salt c)) v"
  proof -
    obtain v where v: "open_file env lib opens (b64_decode (sn_database ?s)) vmk (b64_decode (cf_salt c)) w1 = Inr (w1\<lparr>s_vault := v\<rparr>)"
      using open_file_runs [where opens = opens and env = env and vmk = vmk, OF db o(3), of w1] by blast
    from open_file_ok [OF this] obtain v' where "w1\<lparr>s_vault := v\<rparr> = w1\<lparr>s_vault := v'\<rparr>" "vt_open v'" "dk_db v' = ?db"
      "key_fits env opens vmk (b64_decode (cf_salt c)) v'" using db by auto
    then show thesis using that [of v'] v by simp
  qed
  let ?f = "\<lambda>c. c\<lparr>cf_version := version, cf_external := True, cf_cloud := False\<rparr>"
  let ?w4 = "save_config (keep_capsule (with_config ?f (set_db (relocate dir) ((set_db forget_relay (w1\<lparr>s_vault := v\<rparr>))\<lparr>s_files := fs\<rparr>))))"
  have "\<exists>capsule. shard7_file ?w4 = Inr capsule \<and> sec_good env opens (i, p, client', capsule) ?w4"
    by (rule kept_good [OF env d o(1) w1, where f = ?f])
      (use v in \<open>simp_all add: save_config_def keep_capsule_def with_config_def set_db_def key_fits_def\<close>)
  then obtain capsule' where cap: "shard7_file ?w4 = Inr capsule'" by blast
  have run: "stage_backup env lib opens d dir ?keys version ?s = Inr (sec_lock ?w4, client', capsule')"
    unfolding stage_backup_def Let_def fields using o(1) w1 v(1) fs(1) cap by simp
  show ?thesis unfolding run using fs(2) v(2)
    by (simp add: sec_lock_def save_config_def keep_capsule_def set_db_def with_config_def lock_vault_def)
qed

lemma restore_stored:
  assumes env: "gcm_ok env" "json_ok env" "cipher_ok opens" "capsule_fits env" and lib: "lib_ok lib (set_db (with_token token) w)" and d: "draw_ok d"
    and inv: "sec_inv env opens w (Some (i, p, client, capsule))" and nonce: "length nonce = 12"
    and sync: "sync_backup env lib nonce token now claim put w = (w', Some b, Inr (Stored n))"
    and fits: "snapshot_fits env lib (set_db (with_token token) w)"
    and answer: "download_backup env lib (derive_vault_keys env i p) answer = Inr (Some b)" and v: "sec_locked v"
  shows "\<exists>v' client' capsule'. restore_secure env lib opens d answer dir i p v = (v', Inr (client', capsule')) \<and>
    sec_database v' = Inr (relocate dir (forget_relay (dk_db (s_vault w)))) \<and>
    (\<forall>n. is_lower_hex_of 32 n \<longrightarrow> map_get (s_files v') n = map_get (s_files w) n)"
proof -
  let ?keys = "derive_vault_keys env i p" and ?w = "set_db (with_token token) w"
  have good0: "sec_good env opens (i, p, client, capsule) w" "distinct (map fst (s_files w))" using inv by (simp_all add: sec_inv_def)
  obtain c vmk where w: "\<not> sec_locked w" "s_config w = Some c" "s_vmk w = Some vmk"
    "encrypt_backup env (zip_bytes lib) nonce (snapshot_bytes env (take_snapshot lib vmk c ?w)) (vk_backup ?keys) =
       Inr \<lparr>se_nonce = bp_nonce b, se_ciphertext = bp_ciphertext b\<rparr>"
    using stored_body [OF good0(1) sync] by blast
  let ?s = "take_snapshot lib vmk c ?w"
  have same: "s_config ?w = Some c" "s_vmk ?w = Some vmk" "\<not> sec_locked ?w" "s_files ?w = s_files w" "dk_db (s_vault ?w) = with_token token (dk_db (s_vault w))"
    using w by (simp_all add: set_db_def sec_locked_def)
  have good: "sec_good env opens (i, p, client, capsule) ?w" using set_db_good [OF good0(1)] by simp
  have lim: "length (cf_salt c) = 24" "length (sn_database ?s) \<le> snapshot_limit" "length (snapshot_bytes env ?s) \<le> snapshot_limit"
    using fits same by (auto simp: snapshot_fits_def)
  have vmk: "length vmk = 32" using good_open [OF good same(3)] same(2) by auto
  let ?z = "zip_bytes lib (snapshot_bytes env ?s)"
  have "\<lparr>se_nonce = bp_nonce b, se_ciphertext = bp_ciphertext b\<rparr> = seal env nonce ?z (vk_backup ?keys) ''vault-backup-v1''"
    using w(4) by (auto simp: encrypt_backup_def Let_def split: if_splits)
  then have dec: "open_sealed env \<lparr>se_nonce = bp_nonce b, se_ciphertext = bp_ciphertext b\<rparr> (vk_backup ?keys) ''vault-backup-v1'' = Inr ?z"
    by (simp add: open_sealed_def unseal_seal [OF env(1) nonce])
  have unz: "unzip_bytes lib snapshot_limit ?z = Some (snapshot_bytes env ?s)" using lib lim(3) by (simp add: lib_ok_def)
  note rd = read_taken [OF env(2) vmk lim(1,2)]
  obtain st client' capsule' where st: "stage_backup env lib opens d dir ?keys (bp_version b) ?s = Inr (st, client', capsule')"
    "dk_db (s_vault st) = relocate dir (forget_relay (dk_db (s_vault ?w)))"
    "\<forall>n. is_lower_hex_of 32 n \<longrightarrow> map_get (s_files st) n = map_get (s_files ?w) n"
    using stage_backup_runs [OF env lib d good same(3) _ same(1,2)] good0(2) same(4) by metis
  from stage_backup_good [OF env d st(1)] have good': "sec_good env opens (i, p, client', capsule') st" "sec_locked st"
    "\<forall>c. s_saved st = Some c \<longrightarrow> \<not> cf_pending c" by blast+
  obtain v' where v': "unlock_main env lib opens Unreached i p (Some client') (Some (b64_encode capsule')) (sec_initialize st) = (v', Inr ())"
    "\<not> sec_locked v'" "dk_db (s_vault v') = dk_db (s_vault st)" "s_files v' = s_files st"
    using adopt_good [OF good', of lib Unreached] by blast
  have "restore_secure env lib opens d answer dir i p v = (v', Inr (client', capsule'))"
    using v by (simp add: restore_secure_def Let_def answer dec unz rd st(1) v'(1))
  moreover have "sec_database v' = Inr (dk_db (s_vault v'))"
    using v'(2) by (simp add: sec_database_def vault_database_def unless_locked_def sec_locked_def)
  moreover have "forget_relay (with_token token db) = forget_relay db" for db by (simp add: forget_relay_def with_token_def)
  ultimately show ?thesis using v'(3,4) st(2,3) same(4,5) by simp
qed

section \<open>The decoy\<close>

text \<open>Opening the decoy locks the main vault and leaves its directory as it is.\<close>

lemma duress_unlock:
  assumes "is_duress env i s" and "unlock_secure env lib opens answer i p client decoy_client payload s = (s', r)"
  shows "sv_main s' = sec_lock (sv_main s) \<and> (sv_active s' \<longleftrightarrow> r = Inr ()) \<and>
    (\<exists>salt tag d d'. sv_registry s = Some (salt, tag, d) \<and> sv_registry s' = Some (salt, tag, d') \<and>
       unlock_main env lib opens answer i (decoy_password env i) decoy_client None (sec_initialize (sec_lock d)) = (d', r))"
  using assms
  by (auto simp: is_duress_def unlock_secure_def sov_lock_def sov_with_decoy_def split: option.splits prod.splits)

lemma unlock_main_keeps_db:
  assumes "unlock_main env lib opens answer i p client payload w = (w', r)"
  shows "dk_db (s_vault w') = dk_db (s_vault w)"
proof -
  have o: "dk_db (fst (open_db env opens vmk salt v)) = dk_db v" for vmk salt v by (simp add: open_db_def Let_def)
  have u: "dk_db (fst (unlock env opens p v)) = dk_db v" for v by (simp add: unlock_def o split: option.splits)
  have s: "dk_db (s_vault (fst (sec_open env opens vmk salt v))) = dk_db (s_vault v)" for vmk salt v
    by (simp add: sec_open_def case_prod_beta o)
  have n: "dk_db (s_vault (fst (unwrap_shards env opens cl f keys c v))) = dk_db (s_vault v)" for cl f keys c v
    by (simp add: unwrap_shards_def case_prod_beta s split: sum.splits)
  have e: "dk_db (s_vault (fst (unlock_external env opens keys cl pay c v))) = dk_db (s_vault v)" for keys cl pay c v
    by (simp add: unlock_external_def case_prod_beta n split: sum.splits)
  have m: "dk_db (s_vault (fst (unlock_remote env lib opens answer keys cl c v))) = dk_db (s_vault v)" for keys cl c v
    by (simp add: unlock_remote_def case_prod_beta n save_config_def with_config_def Let_def split: sum.splits option.splits)
  have "dk_db (s_vault (fst (unlock_main env lib opens answer i p client payload w))) = dk_db (s_vault w)"
    by (simp add: unlock_main_def case_prod_beta u e m split: option.splits)
  with assms show ?thesis by simp
qed

lemma unlock_main_opens:
  assumes "unlock_main env lib opens answer i p client payload w = (w', Inr ())"
  shows "\<not> sec_locked w'"
proof -
  have o: "vt_open v'" if "open_db env opens vmk salt v = (v', Inr ())" for vmk salt v v'
    using open_db_keys [OF that] by blast
  have s: "vt_open (s_vault v')" if "sec_open env opens vmk salt v = (v', Inr ())" for vmk salt v v'
    using that o by (auto simp: sec_open_def split: prod.splits)
  have n: "vt_open (s_vault v')" if "unwrap_shards env opens cl f keys c v = (v', Inr m)" for cl f keys c v v' m
    using that s by (auto simp: unwrap_shards_def split: prod.splits sum.splits)
  show ?thesis
  proof (cases "s_config w")
    case None
    with assms show ?thesis
      by (auto simp: unlock_main_def sec_locked_def unlock_def o split: if_splits option.splits prod.splits)
  next
    case (Some c)
    with assms n show ?thesis
      by (auto simp: unlock_main_def sec_locked_def unlock_external_def unlock_remote_def save_config_def with_config_def Let_def
          split: if_splits prod.splits sum.splits option.splits)
  qed
qed

end
