(* ===== verification/Daemon_Secure_Properties.thy ===== *)
theory Daemon_Secure_Properties
  imports Daemon_Sovereign Daemon_Demo
begin

text \<open>
  Properties of the secure vault: it can always be opened again, the storage file and the backup carry
  it to another directory, and what the duress id opens.
\<close>

section \<open>Opening again\<close>

text \<open>
  C14. Whatever is done with a secure vault (database and files written, settings changed, uploads, failed
  attempts to open it with other credentials, changes of the password, imports and restores, locking and
  restarts of the process), when it is locked the vault id, password, client shard and capsule that the
  user was last given open it, and the database is the one that was there.
\<close>

theorem secure_vault_reopens:
  assumes "gcm_ok env" and "json_ok env" and "cipher_ok opens" and "capsule_fits env"
    and "sec_run env lib opens w (Some (i, p, client, capsule))" and "sec_locked w"
  shows "\<exists>w'. unlock_main env lib opens answer i p (Some client) (Some (b64_encode capsule)) w = (w', Inr ()) \<and>
    sec_database w' = Inr (dk_db (s_vault w)) \<and> s_files w' = s_files w"
proof -
  have "sec_good env opens (i, p, client, capsule) w"
    using sec_run_inv [OF assms(1-5)] by (simp add: sec_inv_def)
  from good_unlock [OF this assms(6), of lib answer] show ?thesis
    by (auto simp: sec_database_def vault_database_def unless_locked_def sec_locked_def)
qed

text \<open>A concrete vault, with a contact's cached file.\<close>

definition demo_saved :: local_db where
  "demo_saved = empty_local\<lparr>l_attachments := [\<lparr>at_id = replicate 32 (CHR ''a''), at_message = ''m'', at_path = Some ''old'',
     at_name = [], at_size = 2, at_hash = [], at_key = []\<rparr>], l_instance := Some ''t''\<rparr>"

definition demo_lib :: secure_lib where
  "demo_lib = \<lparr>zip_bytes = (\<lambda>b. b), unzip_bytes = (\<lambda>n b. if length b \<le> n then Some b else None), db_file = (\<lambda>k d. k),
     db_load = (\<lambda>b. Some (b, demo_saved)), writer_public = (\<lambda>k. b64_encode (replicate 44 0)), ed_sign = (\<lambda>k m. replicate 64 0),
     datetime_ok = (\<lambda>s. True)\<rparr>"

definition demo_draw :: secure_draw where
  "demo_draw = \<lparr>sd_vmk = replicate 32 5, sd_salt = replicate 16 6, sd_nonce = replicate 12 7,
     sd_scatter = \<lparr>sc_shares = map (\<lambda>i. replicate 48 i) [1, 2, 3, 4, 5, 6], sc_nonce3 = replicate 12 0,
       sc_nonce6 = replicate 12 1, sc_nonce7 = replicate 12 2\<rparr>\<rparr>"

definition demo_io :: secure_io where
  "demo_io = \<lparr>io_draw = demo_draw, io_nonce = replicate 12 3, io_token = ''t'', io_now = ''now'', io_get = Unreached, io_put = Some 200\<rparr>"

definition demo_created :: "sec_vault \<times> (string + string \<times> bytes)" where
  "demo_created = create_secure demo_daemon demo_lib demo_cipher demo_io False ''vault-id'' ''Correct-Horse-1'' False fresh_sec"

definition demo_client :: string where
  "demo_client = fst (projr (snd demo_created))"

definition demo_shard7 :: bytes where
  "demo_shard7 = snd (projr (snd demo_created))"

definition demo_used :: sec_vault where
  "demo_used = (set_db (\<lambda>_. demo_saved) (fst demo_created))\<lparr>s_files :=
     map_set (replicate 32 (CHR ''a'')) [1, 2] (s_files (set_db (\<lambda>_. demo_saved) (fst demo_created)))\<rparr>"

lemma demo_draw_ok: "draw_ok demo_draw" "io_draw demo_io = demo_draw"
  by (simp_all add: draw_ok_def demo_draw_def randoms_def demo_io_def)

lemma quote_len: "length (quote s) \<le> 2 * length s + 1"
  by (induction s) auto

lemma utf8_len: "length (utf8 s) \<le> 2 * length s"
  by (induction s) (auto simp: utf8_Cons utf8_char_def)

lemma demo_fits: "capsule_fits demo_daemon"
  unfolding capsule_fits_def
proof (intro allI impI)
  fix v :: sealed assume v: "length (se_nonce v) = 16" "length (se_ciphertext v) = 88"
  have "length (quote ''nonce'') = 6" "length (quote ''ciphertext'') = 11" by code_simp+
  then have "length (put (sealed_json v)) = length (quote (se_nonce v)) + length (quote (se_ciphertext v)) + 23"
    by (simp add: sealed_json_def)
  then have "length (put (sealed_json v)) \<le> 300" using quote_len [of "se_nonce v"] quote_len [of "se_ciphertext v"] v by simp
  then have "length (utf8 (put (sealed_json v))) \<le> 2039" using utf8_len [of "put (sealed_json v)"] by linarith
  then show "length (utf8 (json_text demo_daemon (sealed_json v))) \<le> 2039" by (simp add: demo_daemon_def)
qed

lemma demo_created_run: "sec_run demo_daemon demo_lib demo_cipher (fst demo_created) (Some (''vault-id'', ''Correct-Horse-1'', demo_client, demo_shard7))"
  and demo_created_open: "\<not> sec_locked (fst demo_created)" and demo_created_ok: "snd demo_created = Inr (demo_client, demo_shard7)"
proof -
  have p: "validate_password ''Correct-Horse-1'' = None" by code_simp
  have d: "draw_ok (io_draw demo_io)" by (simp add: demo_draw_ok)
  have run: "create_secure demo_daemon demo_lib demo_cipher demo_io False ''vault-id'' ''Correct-Horse-1'' False fresh_sec =
      (fst demo_created, snd demo_created)" by (simp add: demo_created_def)
  from create_good [OF demo_gcm demo_json demo_cipher_ok demo_fits d run] p
  have r: "snd demo_created = Inr (demo_client, demo_shard7)" and "\<not> sec_locked (fst demo_created)"
    by (auto simp: demo_client_def demo_shard7_def)
  then show "\<not> sec_locked (fst demo_created)" "snd demo_created = Inr (demo_client, demo_shard7)" by simp_all
  show "sec_run demo_daemon demo_lib demo_cipher (fst demo_created) (Some (''vault-id'', ''Correct-Horse-1'', demo_client, demo_shard7))"
    by (rule sec_run.create [OF sec_run.fresh d]) (use run r in simp)
qed

lemma demo_used_run: "sec_run demo_daemon demo_lib demo_cipher demo_used (Some (''vault-id'', ''Correct-Horse-1'', demo_client, demo_shard7))"
  and demo_used_open: "\<not> sec_locked demo_used" and demo_used_db: "dk_db (s_vault demo_used) = demo_saved"
  and demo_used_files: "s_files demo_used = [(replicate 32 (CHR ''a''), [1, 2])]"
proof -
  have o: "\<not> sec_locked (set_db (\<lambda>_. demo_saved) (fst demo_created))"
    using demo_created_open by (simp add: set_db_def sec_locked_def)
  show "sec_run demo_daemon demo_lib demo_cipher demo_used (Some (''vault-id'', ''Correct-Horse-1'', demo_client, demo_shard7))"
    unfolding demo_used_def by (rule sec_run.write_file [OF sec_run.write_db [OF demo_created_run demo_created_open] o])
  show "\<not> sec_locked demo_used" "dk_db (s_vault demo_used) = demo_saved"
    using o by (simp_all add: demo_used_def sec_locked_def set_db_def)
  have p: "validate_password ''Correct-Horse-1'' = None" by code_simp
  have "s_files (fst demo_created) = []"
    using create_good [OF demo_gcm demo_json demo_cipher_ok demo_fits, of demo_io demo_lib False "''vault-id''" "''Correct-Horse-1''"
        "fst demo_created" "snd demo_created"] p by (auto simp: demo_created_def demo_draw_ok)
  then show "s_files demo_used = [(replicate 32 (CHR ''a''), [1, 2])]" by (simp add: demo_used_def set_db_def)
qed

theorem secure_vault_reopens_witness:
  "\<exists>w'. unlock_main demo_daemon demo_lib demo_cipher Unreached ''vault-id'' ''Correct-Horse-1'' (Some demo_client)
      (Some (b64_encode demo_shard7)) (sec_lock demo_used) = (w', Inr ()) \<and> sec_database w' = Inr demo_saved"
  using secure_vault_reopens [OF demo_gcm demo_json demo_cipher_ok demo_fits sec_run.lock [OF demo_used_run], of Unreached]
  by (auto simp: demo_used_db)

section \<open>Carrying the vault\<close>














section \<open>The backup on the relay\<close>
















section \<open>Duress\<close>

text \<open>
  C21. The duress id never opens the main vault, whatever password comes with it: the main vault is locked
  and its directory stays as it is, and the session's database is the decoy's, or none when the decoy does
  not open. Any other id never opens the decoy.
\<close>

theorem duress_opens_decoy:
  assumes "unlock_secure env lib opens answer i p client decoy_client payload s = (s', r)"
  shows "(\<forall>salt tag d. is_duress env i s \<and> sv_registry s = Some (salt, tag, d) \<longrightarrow>
      sec_locked (sv_main s') \<and> sv_main s' = sec_lock (sv_main s) \<and>
      sov_database s' = (if r = Inr () then Inr (dk_db (s_vault (sec_initialize (sec_lock d)))) else Inl ''vault_locked'')) \<and>
    (\<not> is_duress env i s \<longrightarrow> sov_database s' = sec_database (sv_main s'))"
proof (intro conjI allI impI)
  fix salt tag d assume d: "is_duress env i s \<and> sv_registry s = Some (salt, tag, d)"
  from duress_unlock [OF conjunct1 [OF d] assms] d obtain d' where m: "sv_main s' = sec_lock (sv_main s)"
    "sv_active s' \<longleftrightarrow> r = Inr ()" "sv_registry s' = Some (salt, tag, d')"
    "unlock_main env lib opens answer i (decoy_password env i) decoy_client None (sec_initialize (sec_lock d)) = (d', r)" by auto
  show "sec_locked (sv_main s')" "sv_main s' = sec_lock (sv_main s)" by (simp_all add: m(1))
  show "sov_database s' = (if r = Inr () then Inr (dk_db (s_vault (sec_initialize (sec_lock d)))) else Inl ''vault_locked'')"
  proof (cases "r = Inr ()")
    case True
    then have "\<not> sec_locked d'" using unlock_main_opens m(4) by blast
    then show ?thesis using True m(2,3) unlock_main_keeps_db [OF m(4)]
      by (simp add: sov_database_def sov_vault_def sec_database_def vault_database_def unless_locked_def sec_locked_def)
  next
    case False
    have "sec_database (sec_lock (sv_main s)) = Inl ''vault_locked''"
      by (simp add: sec_database_def vault_database_def unless_locked_def sec_lock_def lock_vault_def)
    then show ?thesis using False m(1-3) by (simp add: sov_database_def sov_vault_def)
  qed
next
  assume "\<not> is_duress env i s"
  then have "\<not> sv_active s'"
    using assms by (auto simp: unlock_secure_def drop_decoy_def sov_with_decoy_def Let_def split: prod.splits if_splits)
  then show "sov_database s' = sec_database (sv_main s')" by (simp add: sov_database_def sov_vault_def split: option.splits)
qed

definition demo_duress :: sovereign where
  "demo_duress = \<lparr>sv_main = demo_used, sv_registry = Some (''s'', duress_tag demo_daemon ''s'' ''duress-identifier'', fresh_sec), sv_active = False\<rparr>"

theorem duress_opens_decoy_witness:
  "sec_locked (sv_main (fst (unlock_secure demo_daemon demo_lib demo_cipher Unreached ''duress-identifier'' ''Correct-Horse-1''
     None None None demo_duress)))"
proof -
  let ?run = "unlock_secure demo_daemon demo_lib demo_cipher Unreached ''duress-identifier'' ''Correct-Horse-1'' None None None demo_duress"
  have "is_duress demo_daemon ''duress-identifier'' demo_duress" by (simp add: is_duress_def demo_duress_def)
  moreover have "sv_registry demo_duress = Some (''s'', duress_tag demo_daemon ''s'' ''duress-identifier'', fresh_sec)" by (simp add: demo_duress_def)
  moreover have "?run = (fst ?run, snd ?run)" by simp
  ultimately show ?thesis using duress_opens_decoy by blast
qed

text \<open>
  While the decoy is open, confirming that the shard was saved and switching backups change the saved
  configuration of the main vault, not the decoy's.
\<close>

theorem decoy_settings_reach_main:
  assumes "sv_active s" and "sv_registry s = Some (salt, tag, d)" and "\<not> sec_locked d" and "s_config (sv_main s) = Some c"
  shows "\<exists>s' s''. confirm_shard7_saved s = (s', Inr ()) \<and> s_saved (sv_main s') = Some (saved_config c) \<and> sv_registry s' = sv_registry s \<and>
    set_cloud_backup b s = (s'', Inr ()) \<and> s_saved (sv_main s'') = Some (cloud_config b c) \<and> sv_registry s'' = sv_registry s"
  using assms
  by (simp add: confirm_shard7_saved_def set_cloud_backup_def update_config_def sov_database_def sov_vault_def sec_database_def
      vault_database_def unless_locked_def sec_locked_def secure_config_of_def save_config_def with_config_def)

end
