(* ===== verification/Daemon_Client.thy ===== *)
theory Daemon_Client
  imports Daemon_Secure Daemon_Messages Tor_Routing
begin

text \<open>
  \<open>relay-client.ts\<close>: the token of the relay and how it is renewed, requests with one retry, requests that
  are prepared and sent later, and the WebSocket that announces new envelopes. Each part of a function
  between two awaits is an operation; answers of the relay are arguments.
\<close>

section \<open>State and errors\<close>

record relay_client =
  rc_token :: "string option"
  rc_expires :: ms
  rc_refreshing :: "nat option"
  rc_socket :: "nat option"
  rc_reconnect :: "nat option"
  rc_watching :: bool
  rc_generation :: nat
  rc_pushed :: "json list"

definition new_client :: relay_client where
  "new_client = \<lparr>rc_token = None, rc_expires = 0, rc_refreshing = None, rc_socket = None, rc_reconnect = None,
     rc_watching = False, rc_generation = 0, rc_pushed = []\<rparr>"

text \<open>\<open>RelayClientError\<close> with its status and code, and every other exception with its message.\<close>

datatype client_error = Relay_Error nat json | Other_Error string

definition relay_error :: "daemon_env \<Rightarrow> nat \<Rightarrow> string \<Rightarrow> client_error" where
  "relay_error env status body =
     Relay_Error status
       (case Option.bind (json_parse env body) (field ''error'') of
          None \<Rightarrow> JStr ''RELAY_UNAVAILABLE''
        | Some e \<Rightarrow> if truthy e then e else JStr ''RELAY_UNAVAILABLE'')"

definition json_answer :: "daemon_env \<Rightarrow> http \<Rightarrow> client_error + json" where
  "json_answer env a =
     (case a of
        Unreached \<Rightarrow> Inl (Other_Error ''fetch failed'')
      | Http n body \<Rightarrow>
          if \<not> http_ok n then Inl (relay_error env n body)
          else (case json_parse env body of None \<Rightarrow> Inl (Other_Error ''SyntaxError'') | Some j \<Rightarrow> Inr j))"

section \<open>Authentication\<close>

definition challenge_body :: "string \<Rightarrow> json" where
  "challenge_body device = JObj [(''deviceId'', JStr device)]"

text \<open>The text of a template or a concatenation.\<close>

definition text_of :: "daemon_env \<Rightarrow> json option \<Rightarrow> string" where
  "text_of env j = (case j of None \<Rightarrow> ''undefined'' | Some (JStr s) \<Rightarrow> s | Some j \<Rightarrow> json_text env j)"

definition respond_body :: "daemon_env \<Rightarrow> secure_lib \<Rightarrow> bytes \<Rightarrow> string \<Rightarrow> string \<Rightarrow> json \<Rightarrow> json" where
  "respond_body env lib private device host answer =
     (let c = field ''challenge'' answer
      in JObj ([(''deviceId'', JStr device)] @ (case c of None \<Rightarrow> [] | Some j \<Rightarrow> [(''challenge'', j)]) @
           [(''signature'', JStr (hex_encode (ed_sign lib private (utf8 (device @ text_of env c @ host))))),
            (''relayHostname'', JStr host)]))"

text \<open>The two answers; a session without token or expiry is of no use and counts as an exception here.\<close>

definition session_of :: "json \<Rightarrow> client_error + string \<times> ms" where
  "session_of j =
     (case (field ''sessionToken'' j, field ''expiresAt'' j) of
        (Some (JStr t), Some (JInt e)) \<Rightarrow> Inr (t, e)
      | _ \<Rightarrow> Inl (Other_Error ''TypeError''))"

definition authenticate_fresh ::
  "daemon_env \<Rightarrow> secure_lib \<Rightarrow> bytes \<Rightarrow> string \<Rightarrow> string \<Rightarrow> http \<Rightarrow> http \<Rightarrow> json list \<times> (client_error + string \<times> ms)" where
  "authenticate_fresh env lib private device host a1 a2 =
     (case json_answer env a1 of
        Inl e \<Rightarrow> ([challenge_body device], Inl e)
      | Inr j1 \<Rightarrow> ([challenge_body device, respond_body env lib private device host j1],
          case json_answer env a2 of Inl e \<Rightarrow> Inl e | Inr j2 \<Rightarrow> session_of j2))"

text \<open>Its end: nothing is stored when the vault was locked or the session cleared in between.\<close>

definition finish_auth ::
  "bool \<Rightarrow> nat \<Rightarrow> client_error + string \<times> ms \<Rightarrow> relay_client \<times> local_db \<Rightarrow> (relay_client \<times> local_db) \<times> (client_error + string)" where
  "finish_auth locked g r s =
     (case r of
        Inl e \<Rightarrow> (s, Inl e)
      | Inr (t, e) \<Rightarrow>
          if locked \<or> g \<noteq> rc_generation (fst s) then (s, Inl (Other_Error ''vault_locked''))
          else (((fst s)\<lparr>rc_token := Some t, rc_expires := e\<rparr>, (snd s)\<lparr>l_relay_token := Some t\<rparr>), Inr t))"

definition auth_settled :: "nat \<Rightarrow> relay_client \<Rightarrow> relay_client" where
  "auth_settled i c = (if rc_refreshing c = Some i then c\<lparr>rc_refreshing := None\<rparr> else c)"

text \<open>\<open>getToken\<close>: the cached token, the authentication that is running, or a new one with number \<open>i\<close>.\<close>

datatype token_step = Cached string | Joined nat | Started nat

definition get_token :: "ms \<Rightarrow> nat \<Rightarrow> relay_client \<Rightarrow> relay_client \<times> token_step" where
  "get_token now i c =
     (case (if now < rc_expires c - 5000 then rc_token c else None) of
        Some (x # t) \<Rightarrow> (c, Cached (x # t))
      | _ \<Rightarrow> (case rc_refreshing c of Some j \<Rightarrow> (c, Joined j) | None \<Rightarrow> (c\<lparr>rc_refreshing := Some i\<rparr>, Started i)))"

definition accept_session :: "string \<Rightarrow> ms \<Rightarrow> relay_client \<Rightarrow> relay_client" where
  "accept_session t e c = c\<lparr>rc_token := Some t, rc_expires := e\<rparr>"

section \<open>Requests\<close>

definition auth_headers :: "string \<Rightarrow> local_db \<Rightarrow> (string \<times> string) list" where
  "auth_headers t db = (''Authorization'', ''Bearer '' @ t) #
     (case l_instance db of None \<Rightarrow> [] | Some i \<Rightarrow> [(''X-Vault-Instance'', i)])"

definition after_401 :: "string \<Rightarrow> relay_client \<Rightarrow> relay_client" where
  "after_401 t c = (if rc_token c = Some t then c\<lparr>rc_token := None, rc_expires := 0\<rparr> else c)"

text \<open>
  \<open>request\<close> for what the transport does not answer itself: the first token with its answer, and for a 401
  the second token with its answer. The result has the headers of what was sent.
\<close>

definition client_request ::
  "(client_error + string) \<Rightarrow> http \<Rightarrow> (client_error + string) \<Rightarrow> http \<Rightarrow> relay_client \<times> local_db \<Rightarrow>
     relay_client \<times> (string \<times> string) list list \<times> (client_error + nat \<times> string)" where
  "client_request t1 a1 t2 a2 s =
     (case t1 of
        Inl e \<Rightarrow> (fst s, [], Inl e)
      | Inr t \<Rightarrow>
          (case a1 of
             Unreached \<Rightarrow> (fst s, [auth_headers t (snd s)], Inl (Other_Error ''fetch failed''))
           | Http n body \<Rightarrow>
               if n \<noteq> 401 then (fst s, [auth_headers t (snd s)], Inr (n, body))
               else (let c = after_401 t (fst s) in
                 case t2 of
                   Inl e \<Rightarrow> (c, [auth_headers t (snd s)], Inl e)
                 | Inr u \<Rightarrow> (c, [auth_headers t (snd s), map_set ''Authorization'' (''Bearer '' @ u) (auth_headers t (snd s))],
                     case a2 of Unreached \<Rightarrow> Inl (Other_Error ''fetch failed'') | Http m b \<Rightarrow> Inr (m, b)))))"

text \<open>\<open>prepareRequest\<close> remembers the generation before it waits for the token; sending later checks it.\<close>

record prepared =
  pd_generation :: nat
  pd_token :: string
  pd_headers :: "(string \<times> string) list"

definition prepare_request :: "nat \<Rightarrow> string \<Rightarrow> local_db \<Rightarrow> prepared" where
  "prepare_request g t db = \<lparr>pd_generation = g, pd_token = t, pd_headers = auth_headers t db\<rparr>"

definition send_prepared :: "prepared \<Rightarrow> http \<Rightarrow> relay_client \<Rightarrow> relay_client \<times> (client_error + nat \<times> string)" where
  "send_prepared p a c =
     (if pd_generation p \<noteq> rc_generation c then (c, Inl (Other_Error ''VAULT_SESSION_CHANGED''))
      else (case a of
              Unreached \<Rightarrow> (c, Inl (Other_Error ''fetch failed''))
            | Http n body \<Rightarrow> (if n = 401 then after_401 (pd_token p) c else c, Inr (n, body))))"

section \<open>The socket\<close>

definition stop_events :: "relay_client \<Rightarrow> relay_client" where
  "stop_events c = c\<lparr>rc_watching := False, rc_reconnect := None, rc_socket := None\<rparr>"

definition clear_session :: "relay_client \<Rightarrow> relay_client" where
  "clear_session c = (stop_events (c\<lparr>rc_pushed := [], rc_generation := rc_generation c + 1\<rparr>))
     \<lparr>rc_token := None, rc_expires := 0, rc_refreshing := None\<rparr>"

definition take_pushed :: "relay_client \<Rightarrow> relay_client \<times> json list" where
  "take_pushed c = (c\<lparr>rc_pushed := drop 256 (rc_pushed c)\<rparr>, take 256 (rc_pushed c))"

text \<open>\<open>watch\<close>, with whether it connects.\<close>

definition watch :: "tor_mode option \<Rightarrow> relay_client \<Rightarrow> relay_client \<times> bool" where
  "watch mode c =
     (if mode = Some Direct_Tor \<or> rc_watching c then (c, False) else (c\<lparr>rc_watching := True\<rparr>, True))"

text \<open>The check before the token is asked for, and again before the socket \<open>i\<close> is made.\<close>

definition may_connect :: "bool \<Rightarrow> relay_client \<Rightarrow> bool" where
  "may_connect locked c \<longleftrightarrow> rc_watching c \<and> \<not> locked"

definition connected :: "bool \<Rightarrow> nat \<Rightarrow> relay_client \<Rightarrow> relay_client" where
  "connected locked i c = (if may_connect locked c then c\<lparr>rc_socket := Some i\<rparr> else c)"

definition on_packet :: "nat \<Rightarrow> json option \<Rightarrow> relay_client \<Rightarrow> relay_client \<times> string list" where
  "on_packet i packet c =
     (if rc_socket c \<noteq> Some i then (c, [])
      else (case packet of
              None \<Rightarrow> (c, [])
            | Some p \<Rightarrow>
                (case field ''envelope'' p of
                   Some e \<Rightarrow>
                     if field ''type'' p = Some (JStr ''ENCRYPTED_ENVELOPE'') \<and> truthy e \<and> length (rc_pushed c) < 256
                     then (c\<lparr>rc_pushed := rc_pushed c @ [e]\<rparr>, [])
                     else (c, if field ''type'' p \<in> {Some (JStr ''NEW_ENVELOPE''), Some (JStr ''envelope'')} then [''NEW_ENVELOPE''] else [])
                 | None \<Rightarrow> (c, if field ''type'' p \<in> {Some (JStr ''NEW_ENVELOPE''), Some (JStr ''envelope'')} then [''NEW_ENVELOPE''] else []))))"

text \<open>The close of a socket, or a connection that failed, arms a timer while events are wanted.\<close>

definition arm_reconnect :: "nat \<Rightarrow> relay_client \<Rightarrow> relay_client" where
  "arm_reconnect t c = (if rc_watching c then c\<lparr>rc_reconnect := Some t\<rparr> else c)"

definition on_close :: "nat \<Rightarrow> nat \<Rightarrow> relay_client \<Rightarrow> relay_client" where
  "on_close i t c = arm_reconnect t (if rc_socket c = Some i then c\<lparr>rc_socket := None\<rparr> else c)"

section \<open>The client in its surroundings\<close>

text \<open>
  The authentications that run with the generation they began in, the connections that wait for a token,
  the sockets and timers that are alive, and what is remembered for the theorems: in which generation each
  token was stored, and the generations of requests that were prepared and then sent.
\<close>

record client_world =
  cw_client :: relay_client
  cw_db :: local_db
  cw_locked :: bool
  cw_auths :: "(nat \<times> nat) list"
  cw_connecting :: nat
  cw_alive :: "nat list"
  cw_timers :: "nat list"
  cw_next :: nat
  cw_origin :: "(string \<times> nat) list"
  cw_sent :: "(prepared \<times> nat) list"

datatype client_event =
    Ask_Token ms
  | Auth_Ends nat "client_error + string \<times> ms"
  | Accept string ms
  | Clear
  | Watch "tor_mode option"
  | Connect_Token bool
  | Timer_Fires nat
  | Packet nat "json option"
  | Socket_Closes nat
  | Take_Pushed
  | Send_Prepared prepared http
  | Set_Locked bool

definition new_world :: client_world where
  "new_world = \<lparr>cw_client = new_client, cw_db = empty_local, cw_locked = False, cw_auths = [], cw_connecting = 0, cw_alive = [],
     cw_timers = [], cw_next = 0, cw_origin = [], cw_sent = []\<rparr>"

definition set_client :: "relay_client \<Rightarrow> client_world \<Rightarrow> client_world" where
  "set_client c w = w\<lparr>cw_client := c\<rparr>"

definition arm_timer :: "client_world \<Rightarrow> client_world" where
  "arm_timer w = (if rc_watching (cw_client w)
     then w\<lparr>cw_client := arm_reconnect (cw_next w) (cw_client w), cw_timers := cw_next w # cw_timers w, cw_next := cw_next w + 1\<rparr> else w)"

text \<open>
  Clearing ends the timer that the field names, and no other. The socket that the field names is terminated;
  its close event is still to come.
\<close>

definition clear_world :: "client_world \<Rightarrow> client_world" where
  "clear_world w = w\<lparr>cw_client := clear_session (cw_client w),
     cw_timers := filter (\<lambda>t. rc_reconnect (cw_client w) \<noteq> Some t) (cw_timers w)\<rparr>"

fun client_step :: "client_event \<Rightarrow> client_world \<Rightarrow> client_world option" where
  "client_step (Ask_Token now) w =
     (case get_token now (cw_next w) (cw_client w) of
        (c, Started i) \<Rightarrow> Some (w\<lparr>cw_client := c, cw_auths := (i, rc_generation c) # cw_auths w, cw_next := cw_next w + 1\<rparr>)
      | _ \<Rightarrow> Some w)"
| "client_step (Auth_Ends i r) w =
     (case map_of (cw_auths w) i of
        None \<Rightarrow> None
      | Some g \<Rightarrow>
          (case finish_auth (cw_locked w) g r (cw_client w, cw_db w) of
             ((c, db), q) \<Rightarrow> Some (w\<lparr>cw_client := auth_settled i c, cw_db := db, cw_auths := filter (\<lambda>a. fst a \<noteq> i) (cw_auths w),
               cw_origin := (case q of Inl _ \<Rightarrow> cw_origin w | Inr t \<Rightarrow> (t, g) # cw_origin w)\<rparr>)))"
| "client_step (Accept t e) w =
     Some (w\<lparr>cw_client := accept_session t e (cw_client w), cw_origin := (t, rc_generation (cw_client w)) # cw_origin w\<rparr>)"
| "client_step Clear w = Some (clear_world w)"
| "client_step (Watch mode) w =
     (case watch mode (cw_client w) of
        (c, connects) \<Rightarrow> Some (w\<lparr>cw_client := c, cw_connecting := (if connects \<and> may_connect (cw_locked w) c then cw_connecting w + 1 else cw_connecting w)\<rparr>))"
| "client_step (Connect_Token ok) w =
     (if cw_connecting w = 0 then None
      else let w1 = w\<lparr>cw_connecting := cw_connecting w - 1\<rparr>
           in if \<not> ok then Some (arm_timer w1)
              else if may_connect (cw_locked w) (cw_client w)
              then Some (w1\<lparr>cw_client := connected (cw_locked w) (cw_next w) (cw_client w), cw_alive := cw_next w # cw_alive w,
                cw_next := cw_next w + 1\<rparr>)
              else Some w1)"
| "client_step (Timer_Fires t) w =
     (if t \<notin> set (cw_timers w) then None
      else Some (w\<lparr>cw_timers := removeAll t (cw_timers w),
        cw_connecting := (if may_connect (cw_locked w) (cw_client w) then cw_connecting w + 1 else cw_connecting w)\<rparr>))"
| "client_step (Packet i p) w =
     (if i \<notin> set (cw_alive w) then None else Some (w\<lparr>cw_client := fst (on_packet i p (cw_client w))\<rparr>))"
| "client_step (Socket_Closes i) w =
     (if i \<notin> set (cw_alive w) then None
      else Some (arm_timer (w\<lparr>cw_client := (if rc_socket (cw_client w) = Some i then (cw_client w)\<lparr>rc_socket := None\<rparr> else cw_client w),
        cw_alive := removeAll i (cw_alive w)\<rparr>)))"
| "client_step Take_Pushed w = Some (w\<lparr>cw_client := fst (take_pushed (cw_client w))\<rparr>)"
| "client_step (Send_Prepared p a) w =
     (if rc_generation (cw_client w) < pd_generation p then None
      else (case send_prepared p a (cw_client w) of
              (c, Inl (Other_Error _)) \<Rightarrow> Some (w\<lparr>cw_client := c\<rparr>)
            | (c, _) \<Rightarrow> Some (w\<lparr>cw_client := c, cw_sent := (p, rc_generation c) # cw_sent w\<rparr>)))"
| "client_step (Set_Locked b) w = Some (w\<lparr>cw_locked := b\<rparr>)"

fun client_run :: "client_event list \<Rightarrow> client_world \<Rightarrow> client_world option" where
  "client_run [] w = Some w"
| "client_run (e # es) w = (case client_step e w of None \<Rightarrow> None | Some w' \<Rightarrow> client_run es w')"

definition sent_ok :: "(prepared \<times> nat) list \<Rightarrow> bool" where
  "sent_ok xs \<longleftrightarrow> (\<forall>(p, g) \<in> set xs. pd_generation p = g)"

lemma sent_ok_simps [simp]: "sent_ok []" "sent_ok ((p, g) # xs) \<longleftrightarrow> pd_generation p = g \<and> sent_ok xs"
  by (simp_all add: sent_ok_def)

definition client_ok :: "client_world \<Rightarrow> bool" where
  "client_ok w \<longleftrightarrow> length (rc_pushed (cw_client w)) \<le> 256 \<and>
     (\<forall>t. rc_token (cw_client w) = Some t \<longrightarrow> (t, rc_generation (cw_client w)) \<in> set (cw_origin w)) \<and>
     sent_ok (cw_sent w) \<and>
     (\<forall>i. rc_refreshing (cw_client w) = Some i \<longrightarrow> map_of (cw_auths w) i = Some (rc_generation (cw_client w)))"

lemmas client_defs = clear_session_def stop_events_def get_token_def finish_auth_def auth_settled_def accept_session_def watch_def
  connected_def on_packet_def take_pushed_def send_prepared_def after_401_def arm_reconnect_def arm_timer_def clear_world_def Let_def

lemma map_of_filter_other: "map_of l i = Some g \<Longrightarrow> i \<noteq> j \<Longrightarrow> map_of (filter (\<lambda>a. fst a \<noteq> j) l) i = Some g"
  by (induction l) (auto split: if_splits)

lemma client_step_ok:
  assumes "client_step e w = Some w'" and "client_ok w"
  shows "client_ok w'"
proof (cases e)
  case (Auth_Ends i r)
  then obtain g where g: "map_of (cw_auths w) i = Some g" using assms(1) by (auto split: option.splits)
  then show ?thesis using assms Auth_Ends map_of_filter_other
    by (auto simp: client_ok_def client_defs split: option.splits sum.splits if_splits)
next
  case (Ask_Token now)
  then show ?thesis using assms
    by (auto simp: client_ok_def client_defs split: option.splits token_step.splits list.splits if_splits)
next
  case (Packet i p)
  then show ?thesis using assms by (auto simp: client_ok_def on_packet_def split: option.splits if_splits)
next
  case (Send_Prepared p a)
  then show ?thesis using assms
    by (auto simp: client_ok_def client_defs split: http.splits if_splits)
qed (use assms in \<open>auto simp: client_ok_def client_defs split: if_splits\<close>)

lemma client_run_ok: "client_run es w = Some w' \<Longrightarrow> client_ok w \<Longrightarrow> client_ok w'"
  by (induction es arbitrary: w) (auto split: option.splits dest: client_step_ok)

lemma new_world_ok: "client_ok new_world"
  by (simp add: client_ok_def new_world_def new_client_def)

text \<open>
  Two sockets at a time: when the session is cleared and watched again, the close event of the terminated
  socket arms a timer although the new socket is there, and so does a connection that waited for its token
  meanwhile. The timer makes a further socket and does not end the one before.
\<close>

lemma two_sockets:
  "\<exists>w. client_run [Watch None, Connect_Token True, Clear, Watch None, Connect_Token True, Socket_Closes 0, Timer_Fires 2, Connect_Token True]
     new_world = Some w \<and> cw_alive w = [3, 1] \<and> rc_socket (cw_client w) = Some 3"
  "\<exists>w. client_run [Watch None, Clear, Watch None, Connect_Token True, Connect_Token True] new_world = Some w \<and> length (cw_alive w) = 2"
  by (simp_all add: new_world_def new_client_def client_defs may_connect_def)

lemma old_socket_reconnects:
  assumes "rc_socket (cw_client w) = Some b" and "b \<in> set (cw_alive w)" and "a \<noteq> b" and "a \<in> set (cw_alive w)"
    and "rc_watching (cw_client w)" and "\<not> cw_locked w"
  shows "\<exists>w'. client_run [Socket_Closes a, Timer_Fires (cw_next w), Connect_Token True] w = Some w' \<and>
    rc_socket (cw_client w') = Some (cw_next w + 1) \<and> b \<in> set (cw_alive w')"
  using assms by (simp add: client_defs may_connect_def)

end
