(* ===== verification/Daemon_Jobs.thy ===== *)
theory Daemon_Jobs
  imports Prelude
begin

text \<open>
  \<open>debounced-backup.ts\<close>, the scheduling of backups after changes, and \<open>change-feed.ts\<close>, the notifications
  that the UI waits for. Timers and finished uploads are events; whether the vault is open with backups
  enabled is what the caller tells.
\<close>

section \<open>Scheduling backups\<close>

record backup_job =
  bj_timer :: bool
  bj_active :: bool
  bj_dirty :: bool

definition idle_job :: backup_job where
  "idle_job = \<lparr>bj_timer = False, bj_active = False, bj_dirty = False\<rparr>"

definition schedule :: "bool \<Rightarrow> backup_job \<Rightarrow> backup_job" where
  "schedule unlocked b = (if unlocked then b\<lparr>bj_dirty := True, bj_timer := True\<rparr> else b)"

definition cancel_backup :: "backup_job \<Rightarrow> backup_job" where
  "cancel_backup b = b\<lparr>bj_timer := False, bj_dirty := False\<rparr>"

definition pending_backup :: "backup_job \<Rightarrow> bool" where
  "pending_backup b \<longleftrightarrow> bj_dirty b \<or> bj_active b"

text \<open>\<open>run\<close> when the timer fires, with whether an upload starts, and its end.\<close>

definition timer_fires :: "bool \<Rightarrow> backup_job \<Rightarrow> backup_job \<times> bool" where
  "timer_fires unlocked b =
     (let b1 = b\<lparr>bj_timer := False\<rparr>
      in if \<not> unlocked \<or> \<not> bj_dirty b then (b1, False)
         else if bj_active b then (schedule unlocked b1, False)
         else (b1\<lparr>bj_dirty := False, bj_active := True\<rparr>, True))"

definition upload_ends :: "bool \<Rightarrow> bool \<Rightarrow> backup_job \<Rightarrow> backup_job" where
  "upload_ends ok unlocked b = (if ok then b else schedule unlocked b)\<lparr>bj_active := False\<rparr>"

text \<open>
  The job in its surroundings. \<open>jw_due\<close> tells that a change since backups were enabled is in no upload that
  succeeded, \<open>jw_covers\<close> that the running upload was started after the last change.
\<close>

record job_world =
  jw_job :: backup_job
  jw_enabled :: bool
  jw_due :: bool
  jw_covers :: bool

datatype job_event = Changed | Timer | Ended bool | Disabled bool | Enabled

definition initial_jobs :: job_world where
  "initial_jobs = \<lparr>jw_job = idle_job, jw_enabled = False, jw_due = False, jw_covers = False\<rparr>"

text \<open>
  A timer fires only when it is armed and an upload ends only when one runs. Backups stop when the vault is
  locked, which cancels the job, or when the shard was confirmed, which does not; they start after a cancel.
\<close>

fun job_step :: "job_event \<Rightarrow> job_world \<Rightarrow> job_world option" where
  "job_step Changed w = Some (w\<lparr>jw_job := schedule (jw_enabled w) (jw_job w), jw_due := jw_enabled w \<or> jw_due w,
     jw_covers := (jw_covers w \<and> \<not> jw_enabled w)\<rparr>)"
| "job_step Timer w =
     (if \<not> bj_timer (jw_job w) then None
      else (case timer_fires (jw_enabled w) (jw_job w) of
              (b, started) \<Rightarrow> Some (w\<lparr>jw_job := b, jw_covers := started \<or> jw_covers w\<rparr>)))"
| "job_step (Ended ok) w =
     (if \<not> bj_active (jw_job w) then None
      else Some (w\<lparr>jw_job := upload_ends ok (jw_enabled w) (jw_job w), jw_due := (jw_due w \<and> \<not> (ok \<and> jw_covers w)), jw_covers := False\<rparr>))"
| "job_step (Disabled cancelled) w = Some (w\<lparr>jw_job := (if cancelled then cancel_backup (jw_job w) else jw_job w), jw_enabled := False, jw_due := False\<rparr>)"
| "job_step Enabled w =
     Some (if jw_enabled w then w else w\<lparr>jw_job := cancel_backup (jw_job w), jw_enabled := True, jw_due := False\<rparr>)"

fun job_run :: "job_event list \<Rightarrow> job_world \<Rightarrow> job_world option" where
  "job_run [] w = Some w"
| "job_run (e # es) w = (case job_step e w of None \<Rightarrow> None | Some w' \<Rightarrow> job_run es w')"

definition job_ok :: "job_world \<Rightarrow> bool" where
  "job_ok w \<longleftrightarrow> (jw_enabled w \<and> bj_dirty (jw_job w) \<longrightarrow> bj_timer (jw_job w)) \<and>
     (jw_enabled w \<and> jw_due w \<longrightarrow> bj_dirty (jw_job w) \<or> bj_active (jw_job w) \<and> jw_covers w) \<and>
     (jw_covers w \<longrightarrow> bj_active (jw_job w)) \<and> (\<not> jw_enabled w \<longrightarrow> \<not> jw_due w)"

lemmas job_defs = job_ok_def schedule_def cancel_backup_def timer_fires_def upload_ends_def idle_job_def initial_jobs_def

lemma job_step_ok: "job_step e w = Some w' \<Longrightarrow> job_ok w \<Longrightarrow> job_ok w'"
  by (cases e) (auto simp: job_defs Let_def split: if_splits)

lemma job_run_ok: "job_run es w = Some w' \<Longrightarrow> job_ok w \<Longrightarrow> job_ok w'"
  by (induction es arbitrary: w) (auto split: option.splits dest: job_step_ok)

lemma initial_ok: "job_ok initial_jobs"
  by (simp add: job_defs)

text \<open>The uploads of a run: how many started and how many ended.\<close>

fun uploads :: "job_event list \<Rightarrow> job_world \<Rightarrow> nat \<times> nat" where
  "uploads [] w = (0, 0)"
| "uploads (e # es) w =
     (case job_step e w of
        None \<Rightarrow> (0, 0)
      | Some w' \<Rightarrow>
          (case uploads es w' of (s, f) \<Rightarrow>
             (if \<not> bj_active (jw_job w) \<and> bj_active (jw_job w') then s + 1 else s,
              if bj_active (jw_job w) \<and> \<not> bj_active (jw_job w') then f + 1 else f)))"

lemma uploads_balance:
  "job_run es w = Some w' \<Longrightarrow>
     fst (uploads es w) + (if bj_active (jw_job w) then 1 else 0) = snd (uploads es w) + (if bj_active (jw_job w') then 1 else 0)"
proof (induction es arbitrary: w)
  case (Cons e es)
  then obtain v where v: "job_step e w = Some v" "job_run es v = Some w'" by (auto split: option.splits)
  obtain s f where sf: "uploads es v = (s, f)" by (cases "uploads es v")
  from Cons.IH [OF v(2)] show ?case by (simp add: v(1) sf split: if_splits)
qed simp

text \<open>The timer and the ends of uploads get every change into a successful upload.\<close>

lemma job_progress:
  assumes "job_ok w" and "jw_enabled w"
  shows "\<exists>es w'. set es \<subseteq> {Timer, Ended True} \<and> length es \<le> 3 \<and> job_run es w = Some w' \<and> \<not> jw_due w' \<and> \<not> bj_active (jw_job w')"
proof -
  let ?b = "jw_job w"
  consider "bj_dirty ?b" "\<not> bj_active ?b" | "bj_dirty ?b" "bj_active ?b" | "\<not> bj_dirty ?b" "bj_active ?b" | "\<not> bj_dirty ?b" "\<not> bj_active ?b"
    by blast
  then show ?thesis
  proof cases
    case 1
    then show ?thesis using assms by (intro exI [of _ "[Timer, Ended True]"]) (auto simp: job_defs)
  next
    case 2
    then show ?thesis using assms by (intro exI [of _ "[Ended True, Timer, Ended True]"]) (auto simp: job_defs)
  next
    case 3
    then show ?thesis using assms by (intro exI [of _ "[Ended True]"]) (auto simp: job_defs)
  next
    case 4
    then show ?thesis using assms by (intro exI [of _ "[]"]) (auto simp: job_defs)
  qed
qed

section \<open>The change feed\<close>

text \<open>Requests that wait are numbered; each has the cursor that it was made with.\<close>

record feed =
  fd_revision :: int
  fd_type :: string
  fd_waiting :: "(nat \<times> int) list"

definition new_feed :: feed where
  "new_feed = \<lparr>fd_revision = 0, fd_type = ''READY'', fd_waiting = []\<rparr>"

type_synonym feed_reply = "nat \<times> int \<times> string"

definition finish_waiting :: "(nat \<times> int \<Rightarrow> bool) \<Rightarrow> feed \<Rightarrow> feed \<times> feed_reply list" where
  "finish_waiting p f =
     (f\<lparr>fd_waiting := filter (\<lambda>x. \<not> p x) (fd_waiting f)\<rparr>,
      map (\<lambda>x. (fst x, fd_revision f, fd_type f)) (filter p (fd_waiting f)))"

definition publish :: "string \<Rightarrow> feed \<Rightarrow> feed \<times> feed_reply list" where
  "publish t f = finish_waiting (\<lambda>_. True) (f\<lparr>fd_type := t, fd_revision := fd_revision f + 1\<rparr>)"

definition wait_after :: "nat \<Rightarrow> int \<Rightarrow> bool \<Rightarrow> feed \<Rightarrow> feed \<times> feed_reply list" where
  "wait_after i cursor aborted f =
     (let f1 = f\<lparr>fd_waiting := fd_waiting f @ [(i, cursor)]\<rparr>
      in if cursor < fd_revision f \<or> aborted then finish_waiting (\<lambda>x. fst x = i) f1 else (f1, []))"

text \<open>The timer of a request or its connection being closed.\<close>

definition stop_waiting :: "nat \<Rightarrow> feed \<Rightarrow> feed \<times> feed_reply list" where
  "stop_waiting i = finish_waiting (\<lambda>x. fst x = i)"

datatype feed_event = Publish string | Wait nat int | Stop nat

fun feed_step :: "feed_event \<Rightarrow> feed \<Rightarrow> feed \<times> feed_reply list" where
  "feed_step (Publish t) f = publish t f"
| "feed_step (Wait i c) f = wait_after i c False f"
| "feed_step (Stop i) f = stop_waiting i f"

fun feed_run :: "feed_event list \<Rightarrow> feed \<Rightarrow> feed \<times> feed_reply list" where
  "feed_run [] f = (f, [])"
| "feed_run (e # es) f = (case feed_step e f of (f1, rs) \<Rightarrow> (case feed_run es f1 of (f2, rs') \<Rightarrow> (f2, rs @ rs')))"

definition feed_ok :: "feed \<Rightarrow> bool" where
  "feed_ok f \<longleftrightarrow> (\<forall>x \<in> set (fd_waiting f). fd_revision f \<le> snd x)"

definition publications :: "feed_event list \<Rightarrow> string list" where
  "publications es = concat (map (\<lambda>e. case e of Publish t \<Rightarrow> [t] | _ \<Rightarrow> []) es)"

lemmas feed_defs = publish_def wait_after_def stop_waiting_def finish_waiting_def feed_ok_def Let_def

lemma feed_step_ok: "feed_ok f \<Longrightarrow> feed_ok (fst (feed_step e f))"
  by (cases e) (auto simp: feed_defs)

lemma feed_run_ok: "feed_ok f \<Longrightarrow> feed_ok (fst (feed_run es f))"
  by (induction es arbitrary: f) (auto simp: case_prod_beta feed_step_ok)

lemma feed_run_revision:
  "fd_revision (fst (feed_run es f)) = fd_revision f + int (length (publications es)) \<and>
   fd_type (fst (feed_run es f)) = last (fd_type f # publications es)"
proof (induction es arbitrary: f)
  case (Cons e es)
  have "fd_revision (fst (feed_step e f)) = fd_revision f + int (length (publications [e])) \<and>
      fd_type (fst (feed_step e f)) = last (fd_type f # publications [e])"
    by (cases e) (simp_all add: feed_defs publications_def)
  with Cons.IH [of "fst (feed_step e f)"] show ?case
    by (cases e) (simp_all add: case_prod_beta publications_def)
qed (simp add: publications_def)

end
