(* ===== verification/Logging.thy ===== *)
theory Logging
  imports Protocol
begin

text \<open>
  \<open>logger.ts\<close> of the relay and of the daemon: what \<open>redact\<close> leaves of a value, and the line that is written.
  The two differ in the list of secret keys and in that the relay removes IP addresses.
\<close>

section \<open>Redaction\<close>

record log_config =
  lc_secret :: "string list"
  lc_ip :: bool

definition shared_secrets :: "string list" where
  "shared_secrets = [''vaultid'', ''clientshard'', ''fragment7shard'', ''lookuptoken'', ''bootstrapsecret'', ''instancehash'',
     ''password'', ''passkey'', ''token'', ''authorization'', ''signature'', ''ciphertext'', ''public_key'', ''publickey'',
     ''identitykey'', ''signedprekey'', ''onetimeprekeys'', ''pqonetimeprekeys'', ''activationcode'', ''privatekey'',
     ''private_key'', ''pepper'', ''database_url'', ''databaseurl'']"

definition relay_log :: log_config where
  "relay_log = \<lparr>lc_secret = ''encryptedsignalpayload'' # shared_secrets, lc_ip = True\<rparr>"

definition daemon_log :: log_config where
  "daemon_log = \<lparr>lc_secret = shared_secrets, lc_ip = False\<rparr>"

definition bearer :: "string \<Rightarrow> bool" where
  "bearer s \<longleftrightarrow> take 7 s = ''Bearer ''"

text \<open>\<open>/^[A-Za-z0-9+/]{40,}={0,2}$/\<close> and \<open>/^[0-9a-fA-F]{64,}$/\<close>\<close>

definition long_base64 :: "string \<Rightarrow> bool" where
  "long_base64 s \<longleftrightarrow> is_base64 s \<and> 40 \<le> length s - pad_length s"

definition long_hex :: "string \<Rightarrow> bool" where
  "long_hex s \<longleftrightarrow> is_hex_string s \<and> 64 \<le> length s"

text \<open>\<open>/^(?:\d{1,3}\.){3}\d{1,3}$/\<close>\<close>

fun octets :: "nat \<Rightarrow> string \<Rightarrow> bool" where
  "octets n s =
     (let d = takeWhile is_digit s; r = dropWhile is_digit s
      in 1 \<le> length d \<and> length d \<le> 3 \<and>
         (case n of 0 \<Rightarrow> r = [] | Suc m \<Rightarrow> (case r of [] \<Rightarrow> False | c # t \<Rightarrow> c = CHR ''.'' \<and> octets m t)))"

declare octets.simps [simp del]

definition redact_text :: "log_config \<Rightarrow> string \<Rightarrow> string" where
  "redact_text c s =
     (if bearer s then ''Bearer [REDACTED]''
      else if long_base64 s then ''[REDACTED_BASE64]''
      else if long_hex s then ''[REDACTED_HEX]''
      else if lc_ip c \<and> octets 3 s then ''[REDACTED_IP]''
      else s)"

definition secret_key :: "log_config \<Rightarrow> string \<Rightarrow> bool" where
  "secret_key c k \<longleftrightarrow> to_lower k \<in> set (lc_secret c)"

fun redact :: "log_config \<Rightarrow> json \<Rightarrow> json" where
  "redact c (JStr s) = JStr (if s = [] then s else redact_text c s)"
| "redact c (JArr js) = JArr (map (redact c) js)"
| "redact c (JObj kvs) = JObj (map (\<lambda>(k, v). (k, if secret_key c k then JStr ''[REDACTED]'' else redact c v)) kvs)"
| "redact c j = j"

text \<open>The line: \<open>{time, level, msg, ...redact(obj)}\<close>, where later keys replace earlier ones.\<close>

definition spread :: "json \<Rightarrow> (string \<times> json) list" where
  "spread j = (case j of JObj kvs \<Rightarrow> kvs | JArr js \<Rightarrow> zip (map (\<lambda>i. show_int (int i)) [0..<length js]) js | _ \<Rightarrow> [])"

definition log_line :: "log_config \<Rightarrow> string \<Rightarrow> string \<Rightarrow> json \<Rightarrow> string option \<Rightarrow> json" where
  "log_line c now level obj msg =
     (case obj of
        JStr s \<Rightarrow> JObj [(''time'', JStr now), (''level'', JStr level), (''msg'', redact c obj)]
      | _ \<Rightarrow> JObj (fold (\<lambda>(k, v). map_set k v) (spread (redact c obj))
          ([(''time'', JStr now), (''level'', JStr level)] @ (case msg of None \<Rightarrow> [] | Some m \<Rightarrow> [(''msg'', JStr m)]))))"

definition levels :: "string list" where
  "levels = [''debug'', ''info'', ''warn'', ''error'']"

text \<open>\<open>indexOf\<close>, which is -1 for what the list does not have.\<close>

fun index_of :: "string \<Rightarrow> string list \<Rightarrow> int" where
  "index_of x [] = - 1"
| "index_of x (y # ys) = (if x = y then 0 else (let i = index_of x ys in if i < 0 then i else i + 1))"

definition relay_logs :: "string \<Rightarrow> string \<Rightarrow> string \<Rightarrow> json \<Rightarrow> string option \<Rightarrow> json option" where
  "relay_logs configured now level obj msg =
     (if index_of level levels < index_of configured levels then None else Some (log_line relay_log now level obj msg))"

section \<open>What is left\<close>

definition quiet :: "log_config \<Rightarrow> string \<Rightarrow> bool" where
  "quiet c s \<longleftrightarrow> s = ''Bearer [REDACTED]'' \<or> \<not> bearer s \<and> \<not> long_base64 s \<and> \<not> long_hex s \<and> \<not> (lc_ip c \<and> octets 3 s)"

fun clean :: "log_config \<Rightarrow> json \<Rightarrow> bool" where
  "clean c (JStr s) = quiet c s"
| "clean c (JArr js) = list_all (clean c) js"
| "clean c (JObj kvs) = list_all (\<lambda>(k, v). if secret_key c k then v = JStr ''[REDACTED]'' else clean c v) kvs"
| "clean c j = True"

lemma markers_quiet:
  "quiet c ''[REDACTED_BASE64]''" "quiet c ''[REDACTED_HEX]''" "quiet c ''[REDACTED_IP]''" "quiet c ''Bearer [REDACTED]''" "quiet c []"
proof -
  have "\<not> bearer ''[REDACTED_BASE64]'' \<and> \<not> long_base64 ''[REDACTED_BASE64]'' \<and> \<not> long_hex ''[REDACTED_BASE64]'' \<and> \<not> octets 3 ''[REDACTED_BASE64]''"
    "\<not> bearer ''[REDACTED_HEX]'' \<and> \<not> long_base64 ''[REDACTED_HEX]'' \<and> \<not> long_hex ''[REDACTED_HEX]'' \<and> \<not> octets 3 ''[REDACTED_HEX]''"
    "\<not> bearer ''[REDACTED_IP]'' \<and> \<not> long_base64 ''[REDACTED_IP]'' \<and> \<not> long_hex ''[REDACTED_IP]'' \<and> \<not> octets 3 ''[REDACTED_IP]''"
    "\<not> bearer [] \<and> \<not> long_base64 [] \<and> \<not> long_hex [] \<and> \<not> octets 3 []"
    by code_simp+
  then show "quiet c ''[REDACTED_BASE64]''" "quiet c ''[REDACTED_HEX]''" "quiet c ''[REDACTED_IP]''" "quiet c ''Bearer [REDACTED]''" "quiet c []"
    by (simp_all add: quiet_def)
qed

lemma redact_text_quiet: "quiet c (redact_text c s)"
  using markers_quiet by (simp add: redact_text_def) (simp add: quiet_def)

lemma quiet_text: "quiet c s \<Longrightarrow> redact_text c s = s"
  by (auto simp: quiet_def redact_text_def bearer_def)

lemma redact_clean: "clean c (redact c j)"
  by (induction j) (auto simp: list_all_iff redact_text_quiet markers_quiet)

lemma clean_redact: "clean c j \<Longrightarrow> redact c j = j"
  by (induction j) (force simp: list_all_iff quiet_text intro: map_idI)+

end
