(* ===== verification/Ui_State.thy ===== *)
theory Ui_State
  imports Protocol
begin

text \<open>
  The two parts of \<open>apps/local-ui\<close> that keep state of their own: \<open>vaultFragments.ts\<close>, the client shards in
  the browser's storage, and \<open>backNavigation.ts\<close>, the stack of open surfaces that the back key closes.
\<close>

section \<open>Client shards in the browser\<close>

type_synonym storage = "(string, string) jsmap"

definition shard_storage_key :: string where
  "shard_storage_key = ''cp-browser-shard-v1''"

definition vault_shards_key :: string where
  "vault_shards_key = ''cp-browser-shards-v2''"

definition active_vault_key :: string where
  "active_vault_key = ''cp-active-vault-v2''"

definition handle_pattern :: "string \<Rightarrow> bool" where
  "handle_pattern s \<longleftrightarrow> s = ''legacy'' \<or> is_lower_hex_of 32 s"

definition shard_pattern :: "string \<Rightarrow> bool" where
  "shard_pattern s \<longleftrightarrow> length s = 64 \<and> list_all is_b64_letter s"

text \<open>\<open>storage.getItem(k)\<close> where the code treats the empty string as absent.\<close>

definition item :: "storage \<Rightarrow> string \<Rightarrow> string option" where
  "item st k = (case map_get st k of None \<Rightarrow> None | Some s \<Rightarrow> if s = [] then None else Some s)"

definition entry_ok :: "string \<times> json \<Rightarrow> bool" where
  "entry_ok e \<longleftrightarrow> handle_pattern (fst e) \<and> (case snd e of JStr s \<Rightarrow> shard_pattern s | _ \<Rightarrow> False)"

definition entry_text :: "string \<times> json \<Rightarrow> string \<times> string" where
  "entry_text e = (fst e, case snd e of JStr s \<Rightarrow> s | _ \<Rightarrow> [])"

definition stored_shards :: "(string \<Rightarrow> json option) \<Rightarrow> storage \<Rightarrow> string + (string, string) jsmap" where
  "stored_shards parse st =
     (case (case item st vault_shards_key of None \<Rightarrow> Some (JObj []) | Some t \<Rightarrow> parse t) of
        Some (JObj kvs) \<Rightarrow>
          if list_all entry_ok kvs then Inr (fold (\<lambda>e. case entry_text e of (k, v) \<Rightarrow> map_set k v) kvs [])
          else Inl ''BROWSER_VAULT_SHARDS_INVALID''
      | _ \<Rightarrow> Inl ''BROWSER_VAULT_SHARDS_INVALID'')"

definition active_handle :: "storage \<Rightarrow> string" where
  "active_handle st = (case item st active_vault_key of None \<Rightarrow> ''legacy'' | Some h \<Rightarrow> h)"

definition read_vault_shards :: "(string \<Rightarrow> json option) \<Rightarrow> storage \<Rightarrow> string + (string, string) jsmap" where
  "read_vault_shards parse st =
     try_then (stored_shards parse st) (\<lambda>m. Inr
       (case item st shard_storage_key of
          None \<Rightarrow> m
        | Some s \<Rightarrow>
            if shard_pattern s \<and> handle_pattern (active_handle st) \<and> map_get m (active_handle st) = None
            then map_set (active_handle st) s m else m))"

text \<open>The writes of \<open>rememberVaultShard\<close>, in their order.\<close>

definition shards_json :: "(string, string) jsmap \<Rightarrow> json" where
  "shards_json m = JObj (map (\<lambda>(k, v). (k, JStr v)) m)"

definition remember_writes ::
  "(string \<Rightarrow> json option) \<Rightarrow> (json \<Rightarrow> string) \<Rightarrow> string option \<Rightarrow> string option \<Rightarrow> storage \<Rightarrow> string + (string \<times> string) list" where
  "remember_writes parse stringify shard vault_handle st =
     try_then (read_vault_shards parse st) (\<lambda>m.
     let h = (case vault_handle of Some v \<Rightarrow> if v = [] then active_handle st else v | None \<Rightarrow> active_handle st)
     in if \<not> handle_pattern h then Inl ''BROWSER_VAULT_SHARDS_INVALID''
        else try_then (case shard of
              None \<Rightarrow> Inr m
            | Some s \<Rightarrow> if s = [] then Inr m else if \<not> shard_pattern s then Inl ''BROWSER_VAULT_SHARDS_INVALID'' else Inr (map_set h s m)) (\<lambda>m1.
          Inr ((vault_shards_key, stringify (shards_json m1)) #
               (case map_get m1 h of None \<Rightarrow> [] | Some s \<Rightarrow> [(shard_storage_key, s)]) @ [(active_vault_key, h)])))"

definition apply_writes :: "(string \<times> string) list \<Rightarrow> storage \<Rightarrow> storage" where
  "apply_writes ws st = fold (\<lambda>(k, v). map_set k v) ws st"

definition remember_vault_shard ::
  "(string \<Rightarrow> json option) \<Rightarrow> (json \<Rightarrow> string) \<Rightarrow> string option \<Rightarrow> string option \<Rightarrow> storage \<Rightarrow> string + storage" where
  "remember_vault_shard parse stringify shard vault_handle st =
     try_then (remember_writes parse stringify shard vault_handle st) (\<lambda>ws. Inr (apply_writes ws st))"

section \<open>Back navigation\<close>

record surface =
  sf_id :: nat
  sf_priority :: int

record navigation =
  nv_sequence :: nat
  nv_entries :: "(nat, surface) jsmap"

definition new_navigation :: navigation where
  "new_navigation = \<lparr>nv_sequence = 0, nv_entries = []\<rparr>"

text \<open>The new surface and its layer among those of its priority.\<close>

definition register_surface :: "int \<Rightarrow> navigation \<Rightarrow> navigation \<times> nat \<times> nat" where
  "register_surface p n =
     (let i = nv_sequence n + 1; es = map_set i \<lparr>sf_id = i, sf_priority = p\<rparr> (nv_entries n)
      in (n\<lparr>nv_sequence := i, nv_entries := es\<rparr>, i, length (filter (\<lambda>e. sf_priority (snd e) = p) es)))"

definition release_surface :: "nat \<Rightarrow> navigation \<Rightarrow> navigation" where
  "release_surface i n = n\<lparr>nv_entries := map_delete i (nv_entries n)\<rparr>"

definition above :: "surface \<Rightarrow> surface option \<Rightarrow> bool" where
  "above e t \<longleftrightarrow> (case t of None \<Rightarrow> True
     | Some u \<Rightarrow> sf_priority u < sf_priority e \<or> sf_priority e = sf_priority u \<and> sf_id u < sf_id e)"

definition top_surface :: "navigation \<Rightarrow> surface option" where
  "top_surface n = fold (\<lambda>e t. if above (snd e) t then Some (snd e) else t) (nv_entries n) None"

definition is_top :: "nat \<Rightarrow> navigation \<Rightarrow> bool" where
  "is_top i n \<longleftrightarrow> map_option sf_id (top_surface n) = Some i"

text \<open>\<open>back()\<close> runs the action of the top surface, if there is one.\<close>

definition back_surface :: "navigation \<Rightarrow> nat option" where
  "back_surface n = map_option sf_id (top_surface n)"

section \<open>Lemmas on the shards\<close>

lemma get_item: "map_get st k = Some s \<Longrightarrow> s \<noteq> [] \<Longrightarrow> item st k = Some s"
  by (simp add: item_def)

lemma item_set: "item (map_set k v st) k' = (if k' = k then (if v = [] then None else Some v) else item st k')"
  by (simp add: item_def map_get_set)

lemma shard_keys [simp]:
  "shard_storage_key \<noteq> vault_shards_key" "vault_shards_key \<noteq> shard_storage_key" "active_vault_key \<noteq> vault_shards_key"
  "vault_shards_key \<noteq> active_vault_key" "active_vault_key \<noteq> shard_storage_key" "shard_storage_key \<noteq> active_vault_key"
  by (simp_all add: shard_storage_key_def vault_shards_key_def active_vault_key_def)

definition shards_ok :: "(string, string) jsmap \<Rightarrow> bool" where
  "shards_ok m \<longleftrightarrow> distinct (map fst m) \<and> (\<forall>(k, v) \<in> set m. handle_pattern k \<and> shard_pattern v)"

lemma set_map_set: "set (map_set k v m) \<subseteq> insert (k, v) (set m)"
  by (induction k v m rule: map_set.induct) auto

lemma shards_ok_set: "shards_ok m \<Longrightarrow> handle_pattern k \<Longrightarrow> shard_pattern v \<Longrightarrow> shards_ok (map_set k v m)"
  using set_map_set [of k v m] by (auto simp: shards_ok_def distinct_map_set)

lemma stored_ok: "stored_shards parse st = Inr m \<Longrightarrow> shards_ok m"
proof -
  have "list_all entry_ok kvs \<Longrightarrow> shards_ok m \<Longrightarrow> shards_ok (fold (\<lambda>e. case entry_text e of (k, v) \<Rightarrow> map_set k v) kvs m)" for kvs m
    by (induction kvs arbitrary: m) (auto simp: entry_ok_def entry_text_def shards_ok_set split: json.splits)
  moreover have "shards_ok []" by (simp add: shards_ok_def)
  ultimately show "stored_shards parse st = Inr m \<Longrightarrow> shards_ok m"
    by (auto simp: stored_shards_def split: option.splits json.splits if_splits)
qed

lemma read_ok: "read_vault_shards parse st = Inr m \<Longrightarrow> shards_ok m"
  by (auto simp: read_vault_shards_def try_then_Inr_iff dest!: stored_ok intro!: shards_ok_set split: option.splits if_splits)

lemma stored_back:
  assumes "shards_ok m" and "parse (stringify (shards_json m)) = Some (shards_json m)" and "stringify (shards_json m) \<noteq> []"
    and "map_get st vault_shards_key = Some (stringify (shards_json m))"
  shows "\<exists>m'. stored_shards parse st = Inr m' \<and> (\<forall>k. map_get m' k = map_get m k)"
proof -
  let ?kvs = "map (\<lambda>(k, v). (k, JStr v)) m"
  have ok: "list_all entry_ok ?kvs" using assms(1) by (auto simp: list_all_iff shards_ok_def entry_ok_def)
  have "map_get (fold (\<lambda>e. case entry_text e of (k, v) \<Rightarrow> map_set k v) (map (\<lambda>(k, v). (k, JStr v)) l) a) k =
      (case map_of l k of None \<Rightarrow> map_get a k | Some v \<Rightarrow> Some v)" if "distinct (map fst l)" for l a k
    using that
  proof (induction l arbitrary: a)
    case (Cons e l)
    obtain n d where e: "e = (n, d)" by (cases e)
    have "map_of l n = None" using Cons.prems by (simp add: e map_of_eq_None_iff)
    with Cons show ?case by (simp add: e entry_text_def map_get_set split: option.splits)
  qed simp
  from this [of m "[]"] have "\<forall>k. map_get (fold (\<lambda>e. case entry_text e of (k, v) \<Rightarrow> map_set k v) ?kvs []) k = map_get m k"
    using assms(1) by (auto simp: shards_ok_def map_get_def split: option.splits)
  moreover have "stored_shards parse st = Inr (fold (\<lambda>e. case entry_text e of (k, v) \<Rightarrow> map_set k v) ?kvs [])"
    using assms(2-4) ok by (simp add: stored_shards_def get_item) (simp add: shards_json_def)
  ultimately show ?thesis by blast
qed

section \<open>Lemmas on the surfaces\<close>

definition surfaces_ok :: "navigation \<Rightarrow> bool" where
  "surfaces_ok n \<longleftrightarrow> distinct (map fst (nv_entries n)) \<and> (\<forall>(i, e) \<in> set (nv_entries n). sf_id e = i \<and> i \<le> nv_sequence n)"

definition not_above :: "surface \<Rightarrow> surface \<Rightarrow> bool" where
  "not_above e t \<longleftrightarrow> sf_priority e < sf_priority t \<or> sf_priority e = sf_priority t \<and> sf_id e \<le> sf_id t"

lemma top_fold:
  "fold (\<lambda>e t. if above (snd e) t then Some (snd e) else t) es t0 = Some t \<Longrightarrow>
     (t \<in> snd ` set es \<or> t0 = Some t) \<and> (\<forall>e \<in> set es. not_above (snd e) t) \<and> (\<forall>u. t0 = Some u \<longrightarrow> not_above u t)"
proof (induction es arbitrary: t0)
  case (Cons e es)
  let ?t1 = "if above (snd e) t0 then Some (snd e) else t0"
  from Cons have IH: "(t \<in> snd ` set es \<or> ?t1 = Some t) \<and> (\<forall>e \<in> set es. not_above (snd e) t) \<and> (\<forall>u. ?t1 = Some u \<longrightarrow> not_above u t)"
    by simp
  show ?case
  proof (cases "above (snd e) t0")
    case True
    with IH show ?thesis by (auto simp: above_def not_above_def split: option.splits)
  next
    case False
    then obtain u where "t0 = Some u" by (auto simp: above_def split: option.splits)
    with False IH show ?thesis by (auto simp: above_def not_above_def)
  qed
qed (auto simp: not_above_def)

lemma top_none: "fold (\<lambda>e t. if above (snd e) t then Some (snd e) else t) es t0 = None \<longleftrightarrow> es = [] \<and> t0 = None"
  by (induction es arbitrary: t0) (auto simp: above_def split: option.splits)

lemma register_ok: "surfaces_ok n \<Longrightarrow> surfaces_ok (fst (register_surface p n))"
  using set_map_set [of "nv_sequence n + 1" "\<lparr>sf_id = nv_sequence n + 1, sf_priority = p\<rparr>" "nv_entries n"]
  by (fastforce simp: surfaces_ok_def register_surface_def Let_def distinct_map_set)

lemma release_ok: "surfaces_ok n \<Longrightarrow> surfaces_ok (release_surface i n)"
  by (auto simp: surfaces_ok_def release_surface_def map_delete_def distinct_map_filter)

lemma register_top:
  assumes "surfaces_ok n" and "\<forall>(i, e) \<in> set (nv_entries n). sf_priority e \<le> p"
  shows "back_surface (fst (register_surface p n)) = Some (fst (snd (register_surface p n)))"
proof -
  let ?n = "fst (register_surface p n)" and ?i = "nv_sequence n + 1"
  have fresh: "\<forall>(i, e) \<in> set (nv_entries n). i \<noteq> ?i" using assms(1) by (auto simp: surfaces_ok_def)
  have get: "map_get (nv_entries ?n) ?i = Some \<lparr>sf_id = ?i, sf_priority = p\<rparr>" by (simp add: register_surface_def Let_def map_get_set)
  then have mem: "(?i, \<lparr>sf_id = ?i, sf_priority = p\<rparr>) \<in> set (nv_entries ?n)" by (simp add: map_get_def map_of_SomeD)
  then have "nv_entries ?n \<noteq> []" by auto
  then obtain t where t: "top_surface ?n = Some t" using top_none [of "nv_entries ?n" None] unfolding top_surface_def by fastforce
  from top_fold [OF this [unfolded top_surface_def]] have top: "t \<in> snd ` set (nv_entries ?n)" "\<forall>e \<in> set (nv_entries ?n). not_above (snd e) t" by auto
  have sub: "set (nv_entries ?n) \<subseteq> insert (?i, \<lparr>sf_id = ?i, sf_priority = p\<rparr>) (set (nv_entries n))"
    using set_map_set by (fastforce simp: register_surface_def Let_def)
  have "not_above \<lparr>sf_id = ?i, sf_priority = p\<rparr> t" using top(2) mem by force
  moreover have "sf_id t = ?i \<or> (sf_priority t \<le> p \<and> sf_id t \<le> nv_sequence n)"
    using top(1) sub assms by (fastforce simp: surfaces_ok_def)
  ultimately have "sf_id t = ?i" by (auto simp: not_above_def)
  moreover have "fst (snd (register_surface p n)) = ?i" by (simp add: register_surface_def Let_def)
  ultimately show ?thesis using t by (simp add: back_surface_def)
qed

end
