(* ===== verification/Ui_App.thy ===== *)
theory Ui_App
  imports Ui_State
begin

text \<open>
  \<open>App.tsx\<close> of \<open>apps/local-ui\<close> without its rendering: the state that the handlers and effects of the one
  component keep, each request as the step that starts it and the step that its answer makes, and what the
  polls do next. Requests that run when the vault is locked carry the epoch they began in.
\<close>

section \<open>State\<close>

record ui_contact =
  uc_id :: string
  uc_conversation :: string
  uc_name :: string
  uc_display :: "string option"
  uc_uid :: "string option"
  uc_timer :: int

record ui_message =
  um_id :: string
  um_conversation :: string
  um_sent :: bool
  um_text :: string
  um_at :: ms
  um_status :: string

datatype ui_vault = Bootstrapping | Unconfigured | Closed | Opened

datatype ui_registration = Reg_Idle | Reg_Pending | Reg_Success

text \<open>What is shown to the user: a fixed text, the explanation of an error code, or the code itself.\<close>

datatype notice = Said string | Wrong_Credentials | Relay_Down | Uploading | Explained string | Raw string

record ui =
  ui_csrf :: "string option"
  ui_vault :: ui_vault
  ui_quick :: bool
  ui_busy :: bool
  ui_requires_id :: bool
  ui_multiple :: bool
  ui_relay :: string
  ui_profile :: "string \<times> string"
  ui_typing :: bool
  ui_contacts :: "ui_contact list"
  ui_selected :: "ui_contact option"
  ui_current :: "string option"
  ui_messages :: "ui_message list"
  ui_input :: string
  ui_timer :: int
  ui_requests :: "json list"
  ui_invites :: "string list"
  ui_uid :: string
  ui_registration :: ui_registration
  ui_username :: string
  ui_pending :: bool
  ui_storage_selected :: bool
  ui_restore :: bool
  ui_error :: "notice option"
  ui_info :: "notice option"
  ui_unavailable :: bool
  ui_optimistic :: "(string, ui_message) jsmap"
  ui_sending :: bool
  ui_uploading :: bool
  ui_epoch :: nat
  ui_sync :: "nat option"
  ui_storage :: storage

text \<open>\<open>selectedConversationRef\<close> follows the selected contact with every rendering.\<close>

definition select :: "ui_contact option \<Rightarrow> ui \<Rightarrow> ui" where
  "select c u = u\<lparr>ui_selected := c, ui_current := map_option uc_conversation c\<rparr>"

section \<open>Error codes\<close>

definition occurs_in :: "string \<Rightarrow> string \<Rightarrow> bool" where
  "occurs_in p s \<longleftrightarrow> list_ex (\<lambda>i. take (length p) (drop i s) = p) [0..<Suc (length s)]"

definition credential_phrases :: "string list" where
  "credential_phrases = [''unable to authenticate'', ''bad decrypt'', ''invalid_password'', ''wrong final block'']"

definition network_phrases :: "string list" where
  "network_phrases = [''fetch failed'', ''econnrefused'', ''enotfound'', ''etimedout'', ''eai_again'', ''network'']"

definition explained_codes :: "string list" where
  "explained_codes = [''RELAY_BACKUP_UNAVAILABLE'', ''BACKUP_NOT_FOUND_OR_INVALID_CREDENTIALS'', ''INVALID_VAULT_CREDENTIALS'',
     ''VAULT_ID_ALREADY_ON_DEVICE'', ''LOCK_BEFORE_VAULT_SWITCH'', ''BROWSER_VAULT_SHARDS_INVALID'', ''vault_already_exists'',
     ''SHARD7_FILE_REQUIRED'', ''SHARD7_FILE_MISMATCH'', ''RESTORE_FAILED_CHECK_CREDENTIALS_AND_RELAY'', ''INVALID_BACKUP_SIGNATURE'',
     ''VAULT_ID_ALREADY_EXISTS_USE_RESTORE'', ''LEGACY_VAULT_USE_EXISTING_PASSWORD'', ''LOCK_BEFORE_RESTORE'',
     ''LOCK_BEFORE_RELAY_CHANGE'', ''INVALID_RELAY_URL'', ''INVALID_SESSION_PIN'', ''PIN_RETRY_LATER'', ''NEW_PASSWORD_MUST_DIFFER'',
     ''NEW_CREDENTIALS_ALREADY_IN_USE'', ''SAFETY_NUMBER_CHANGED'', ''IDENTITY_NOT_READY'', ''INTERNAL_ERROR'', ''REQUEST_ID_REQUIRED'',
     ''REQUEST_ID_INVALID'', ''ACTIVATION_CODE_REQUIRED'', ''ACTIVATION_CODE_EXPIRED'', ''ACTIVATION_CODE_INVALID'',
     ''ACTIVATION_ATTEMPTS_EXCEEDED'', ''REQUEST_NOT_APPROVED'', ''REQUEST_NOT_FOUND'', ''ACTIVATION_ALREADY_COMPLETED'',
     ''PREKEY_REGISTRATION_FAILED'', ''LOCAL_VAULT_PERSISTENCE_FAILED'', ''DEVICE_NOT_REGISTERED'', ''TOR_NOT_READY'',
     ''RELAY_DISABLED_IN_DIRECT_MODE'', ''PINNED_INVITE_CHANGED'', ''USERNAME_UNAVAILABLE'']"

definition error_message :: "string \<Rightarrow> notice" where
  "error_message err =
     (if list_ex (\<lambda>p. occurs_in p (to_lower err)) credential_phrases then Wrong_Credentials
      else if list_ex (\<lambda>p. occurs_in p (to_lower err)) network_phrases then Relay_Down
      else if err \<in> {''RELAY_UNAVAILABLE'', ''RELAY_SYNC_UNAVAILABLE''} then Relay_Down
      else if err \<in> set explained_codes then Explained err
      else if err = [] then Said ''Request failed'' else Raw err)"

definition queued_notice :: notice where
  "queued_notice = Said ''Message queued. It will retry while the app is open and your vault is unlocked.''"

section \<open>Pairing with the daemon\<close>

record session_answer =
  ss_token :: string
  ss_vault :: string
  ss_requires :: "bool option"
  ss_multiple :: bool
  ss_relay :: "string option"

definition vault_of_text :: "string \<Rightarrow> ui_vault" where
  "vault_of_text s = (if s = ''unconfigured'' then Unconfigured else if s = ''locked'' then Closed else Opened)"

text \<open>\<open>bootstrapSession\<close>: the answers, a refusal, or no answer.\<close>

definition session_arrives :: "session_answer option option \<Rightarrow> ui \<Rightarrow> ui" where
  "session_arrives a u =
     (case a of
        None \<Rightarrow> u\<lparr>ui_unavailable := True, ui_vault := Closed\<rparr>
      | Some None \<Rightarrow> u\<lparr>ui_unavailable := False, ui_vault := Closed,
          ui_error := Some (Said ''Open the single-use bootstrap link from your paired daemon to connect this browser.'')\<rparr>
      | Some (Some s) \<Rightarrow> u\<lparr>ui_unavailable := False, ui_csrf := Some (ss_token s), ui_quick := (ss_vault s = ''quick_locked''),
          ui_vault := vault_of_text (ss_vault s),
          ui_requires_id := (case ss_requires s of None \<Rightarrow> True | Some b \<Rightarrow> b), ui_multiple := ss_multiple s,
          ui_relay := (case ss_relay s of None \<Rightarrow> ui_relay u | Some r \<Rightarrow> if r = [] then ui_relay u else r)\<rparr>)"

section \<open>Creating, opening and restoring\<close>

definition sent_field :: "string \<Rightarrow> string option \<Rightarrow> (string \<times> json) list" where
  "sent_field k x = (case x of None \<Rightarrow> [] | Some s \<Rightarrow> [(k, JStr s)])"

text \<open>The body of the request; fields that are \<open>undefined\<close> are not sent.\<close>

definition submit_body ::
  "(string \<Rightarrow> json option) \<Rightarrow> string \<Rightarrow> string \<Rightarrow> string \<Rightarrow> string option \<Rightarrow> string option \<Rightarrow> ui \<Rightarrow> string + json" where
  "submit_body parse mode i p name shard7 u =
     try_then (read_vault_shards parse (ui_storage u)) (\<lambda>m. Inr (JObj
       ([(''vaultId'', JStr (if i = [] \<and> \<not> ui_requires_id u then ''legacy-local'' else i)), (''password'', JStr p)] @
        sent_field ''username'' name @ sent_field ''shard7Payload'' shard7 @
        sent_field ''clientShard'' (map_get (ui_storage u) shard_storage_key) @ [(''clientShards'', shards_json m)] @
        sent_field ''decoyClientShard'' (map_get (ui_storage u) ''cp-decoy-shard-v1'') @
        (if mode = ''restore'' then [(''transferConfirmed'', JBool True)] else []))))"

definition submit_begins :: "string \<Rightarrow> string \<Rightarrow> string \<Rightarrow> ui \<Rightarrow> ui \<times> bool" where
  "submit_begins mode password confirm u =
     (if mode = ''create'' \<and> password \<noteq> confirm then (u\<lparr>ui_error := Some (Said ''Passwords do not match'')\<rparr>, False)
      else (u\<lparr>ui_busy := True, ui_error := None, ui_epoch := ui_epoch u + 1\<rparr>, True))"

record submit_answer =
  sb_decoy :: bool
  sb_client :: "string option"
  sb_handle :: "string option"
  sb_shard7 :: bool
  sb_onboarding :: bool

definition given :: "string option \<Rightarrow> bool" where
  "given x \<longleftrightarrow> (case x of None \<Rightarrow> False | Some s \<Rightarrow> s \<noteq> [])"

definition submit_fails :: "string \<Rightarrow> ui \<Rightarrow> ui" where
  "submit_fails err u =
     u\<lparr>ui_busy := False, ui_restore := (if err = ''HORCRUX_INCOMPLETE_RESTORE_REQUIRED'' then True else ui_restore u),
       ui_error := Some (if err = ''HORCRUX_INCOMPLETE_RESTORE_REQUIRED''
         then Said ''Part of your vault on this device is missing or damaged. Restore from your encrypted backup to get access back.''
         else error_message err)\<rparr>"

text \<open>The client shard is stored before anything else; a new vault waits for its seventh shard to be saved.\<close>

definition submit_arrives ::
  "(string \<Rightarrow> json option) \<Rightarrow> (json \<Rightarrow> string) \<Rightarrow> string option \<Rightarrow> session_answer option option \<Rightarrow> string + submit_answer \<Rightarrow> ui \<Rightarrow> ui" where
  "submit_arrives parse stringify name again a u =
     (case a of
        Inl err \<Rightarrow> submit_fails err u
      | Inr b \<Rightarrow>
          (case (if \<not> sb_decoy b \<and> (given (sb_client b) \<or> given (sb_handle b))
                 then remember_vault_shard parse stringify (sb_client b) (sb_handle b) (ui_storage u) else Inr (ui_storage u)) of
             Inl err \<Rightarrow> submit_fails err u
           | Inr st \<Rightarrow>
               (let u1 = u\<lparr>ui_storage := st\<rparr>
                in if sb_shard7 b
                   then u1\<lparr>ui_pending := True, ui_username := (case name of None \<Rightarrow> [] | Some n \<Rightarrow> n), ui_busy := False\<rparr>
                   else (let u2 = session_arrives again (u1\<lparr>ui_storage_selected := False, ui_restore := False\<rparr>)
                         in u2\<lparr>ui_busy := False, ui_info := (if sb_onboarding b
                              then Some (Said ''Your vault is ready. Choose a username to finish setting up.'') else ui_info u2)\<rparr>))))"

section \<open>Locking\<close>

text \<open>What is decrypted is hidden at once, and requests under way belong to an older epoch from then on.\<close>

definition lock_begins :: "ui \<Rightarrow> ui" where
  "lock_begins u =
     (if ui_busy u then u
      else (select None u)\<lparr>ui_busy := True, ui_epoch := ui_epoch u + 1, ui_sync := None, ui_profile := ([], []), ui_typing := False,
        ui_quick := False, ui_vault := Closed, ui_input := [], ui_messages := [], ui_contacts := [], ui_optimistic := []\<rparr>)"

text \<open>\<open>result\<close>: whether the backup was synchronised and whether the storage file failed; or the refusal.\<close>

definition lock_arrives :: "session_answer option option \<Rightarrow> notice + bool \<times> bool \<Rightarrow> ui \<Rightarrow> ui" where
  "lock_arrives again result u =
     (case result of
        Inl n \<Rightarrow> u\<lparr>ui_error := Some n, ui_busy := False\<rparr>
      | Inr (synced, storage_error) \<Rightarrow>
          (session_arrives again
             ((select None u)\<lparr>ui_error :=
                (if \<not> synced then Some (Said ''Vault locked, but backup sync failed. The relay may have an older backup.'')
                 else if storage_error then Some (Said ''Vault locked. The chosen storage file could not be updated; the encrypted working copy is preserved.'')
                 else ui_error u),
              ui_vault := Closed, ui_quick := False, ui_csrf := None, ui_input := [], ui_messages := [], ui_optimistic := [], ui_contacts := [],
              ui_requests := [], ui_invites := [], ui_uid := [], ui_registration := Reg_Idle\<rparr>))\<lparr>ui_busy := False\<rparr>)"

text \<open>Quick locking with a PIN: refused during a recording, and \<open>409\<close> asks for a PIN to be chosen first.\<close>

definition quick_lock_arrives :: "nat option \<Rightarrow> ui \<Rightarrow> ui" where
  "quick_lock_arrives status u =
     (case status of
        None \<Rightarrow> u\<lparr>ui_error := Some (Said ''Finish your voice note before locking'')\<rparr>
      | Some n \<Rightarrow>
          if 200 \<le> n \<and> n < 300 then u\<lparr>ui_quick := True, ui_input := []\<rparr>
          else if n = 409 then u
          else u\<lparr>ui_error := Some (Said ''Could not quick lock'')\<rparr>)"

section \<open>Contacts and their profile\<close>

text \<open>Each answer comes with the epoch in which its request was made; \<open>None\<close> is a refusal or no answer.\<close>

definition profile_arrives :: "nat \<Rightarrow> (string \<times> string) option \<Rightarrow> ui \<Rightarrow> ui" where
  "profile_arrives e a u = (case a of Some p \<Rightarrow> if e = ui_epoch u then u\<lparr>ui_profile := p\<rparr> else u | None \<Rightarrow> u)"

definition contacts_arrive :: "nat \<Rightarrow> ui_contact list option \<Rightarrow> ui \<Rightarrow> ui \<times> ui_contact list option" where
  "contacts_arrive e a u =
     (case a of
        Some cs \<Rightarrow>
          if e \<noteq> ui_epoch u then (u, None)
          else (select (map_option (\<lambda>c. case List.find (\<lambda>d. uc_id d = uc_id c) cs of None \<Rightarrow> c | Some d \<Rightarrow> d) (ui_selected u))
                 (u\<lparr>ui_contacts := cs\<rparr>), Some cs)
      | None \<Rightarrow> (u, None))"

record access_answer =
  ac_uid :: "string option"
  ac_request :: "string option"
  ac_name :: "string option"
  ac_status :: string

definition registration_arrives :: "nat \<Rightarrow> access_answer option \<Rightarrow> ui \<Rightarrow> ui" where
  "registration_arrives e a u =
     (case a of
        None \<Rightarrow> u
      | Some r \<Rightarrow>
          if e \<noteq> ui_epoch u then u
          else (let u1 = u\<lparr>ui_uid := (case ac_uid r of None \<Rightarrow> [] | Some s \<Rightarrow> s)\<rparr>
                in if ac_status r = ''pending'' \<and> given (ac_request r)
                   then u1\<lparr>ui_username := (case ac_name r of None \<Rightarrow> [] | Some n \<Rightarrow> n), ui_registration := Reg_Pending\<rparr>
                   else u1\<lparr>ui_registration := (if ac_status r = ''activated'' then Reg_Success else Reg_Idle)\<rparr>))"

definition requests_arrive :: "nat \<Rightarrow> json list option \<Rightarrow> ui \<Rightarrow> ui" where
  "requests_arrive e a u = (case a of Some rs \<Rightarrow> if e = ui_epoch u then u\<lparr>ui_requests := rs\<rparr> else u | None \<Rightarrow> u)"

text \<open>
  \<open>establishSession\<close>: an invite is imported, a name asked of the relay. When it was accepted the contacts are
  loaded again (\<open>listed\<close>, with the epoch of then), and the new conversation is opened.
\<close>

definition is_invite :: "string \<Rightarrow> bool" where
  "is_invite peer = starts_with ''pigeon://invite?'' peer"

definition same_text :: "string \<Rightarrow> string option \<Rightarrow> bool" where
  "same_text key x \<longleftrightarrow> (case x of None \<Rightarrow> False | Some s \<Rightarrow> to_lower s = key)"

definition is_peer :: "string \<Rightarrow> string \<Rightarrow> ui_contact \<Rightarrow> bool" where
  "is_peer peer v c \<longleftrightarrow> uc_conversation c = v \<or> same_text (to_lower peer) (uc_uid c) \<or> same_text (to_lower peer) (Some (uc_name c))"

definition session_established ::
  "string \<Rightarrow> bool \<Rightarrow> string \<Rightarrow> nat \<Rightarrow> ui_contact list option \<Rightarrow> ui \<Rightarrow> ui \<times> ui_contact option" where
  "session_established peer open_it v e listed u =
     (case contacts_arrive e listed (u\<lparr>ui_invites := removeAll peer (ui_invites u)\<rparr>) of
        (u1, list) \<Rightarrow>
          (let c = (case list of None \<Rightarrow> None | Some cs \<Rightarrow> List.find (is_peer peer v) cs)
           in (if open_it \<and> c \<noteq> None then select c u1 else u1, c)))"

definition contact_name :: "ui_contact \<Rightarrow> string" where
  "contact_name c = (case uc_display c of Some d \<Rightarrow> if d = [] then uc_name c else d | None \<Rightarrow> uc_name c)"

text \<open>One invitation of the pass over those that wait: when it was accepted the user is told.\<close>

definition invitation_accepted :: "string \<Rightarrow> string \<Rightarrow> nat \<Rightarrow> ui_contact list option \<Rightarrow> ui \<Rightarrow> ui" where
  "invitation_accepted peer v e listed u =
     (case session_established peer False v e listed u of
        (u1, c) \<Rightarrow>
          (let n = (case c of None \<Rightarrow> [] | Some d \<Rightarrow> contact_name d)
           in u1\<lparr>ui_info := Some (Said ((if n = [] then peer else n) @ '' accepted. Your conversation is ready.''))\<rparr>))"

definition waits_for :: "string \<Rightarrow> ui \<Rightarrow> ui" where
  "waits_for peer u = u\<lparr>ui_invites := (if peer \<in> set (ui_invites u) then ui_invites u else ui_invites u @ [peer])\<rparr>"

definition invitation_sent :: "string \<Rightarrow> ui \<Rightarrow> ui" where
  "invitation_sent peer u =
     (waits_for peer u)\<lparr>ui_info := Some (Said ''Invitation sent. The conversation opens automatically once they accept.'')\<rparr>"

definition invite_imported :: "string \<Rightarrow> string \<Rightarrow> nat \<Rightarrow> ui_contact list option \<Rightarrow> ui \<Rightarrow> ui" where
  "invite_imported peer v e listed u =
     (fst (session_established peer True v e listed u))\<lparr>ui_info :=
        Some (Said ''Signed invite verified and contact pinned. Share your invite with them too.'')\<rparr>"

text \<open>
  The relay has taken a decision on the request of \<open>name\<close>. The requests \<open>rs\<close> are loaded again, and after an
  acceptance the session is set up: \<open>s\<close> is the new conversation with the contacts listed then, or \<open>None\<close> when
  that failed and the peer waits for the next pass.
\<close>

definition decision_arrives ::
  "bool \<Rightarrow> string option \<Rightarrow> string \<Rightarrow> nat \<Rightarrow> json list option \<Rightarrow> (string \<times> nat \<times> ui_contact list option) option \<Rightarrow> ui \<Rightarrow> ui" where
  "decision_arrives accept uid name e rs s u =
     (let u1 = requests_arrive e rs u; peer = (if given uid then the uid else name)
      in if \<not> accept then u1\<lparr>ui_info := Some (Said ''Request declined.'')\<rparr>
         else (case s of
             Some (v, f, listed) \<Rightarrow> (fst (session_established peer True v f listed u1))\<lparr>ui_info :=
               Some (Said (''You're connected with '' @ name @ ''.''))\<rparr>
           | None \<Rightarrow> (waits_for peer u1)\<lparr>ui_info :=
               Some (Said ''Accepted. Setting up the secure session; this retries automatically.'')\<rparr>))"

definition contacts_found :: "string \<Rightarrow> ui_contact list \<Rightarrow> ui_contact list" where
  "contacts_found search cs =
     filter (\<lambda>c. search = [] \<or> list_ex (\<lambda>v. occurs_in (to_lower search) (to_lower v))
       ([uc_name c] @ (case uc_display c of None \<Rightarrow> [] | Some d \<Rightarrow> [d]) @ (case uc_uid c of None \<Rightarrow> [] | Some i \<Rightarrow> [i]))) cs"

section \<open>Messages\<close>

text \<open>Opening a conversation; its messages are then loaded.\<close>

definition conversation_opened :: "ui_contact \<Rightarrow> ui \<Rightarrow> ui" where
  "conversation_opened c u =
     (if ui_current u = Some (uc_conversation c) then select (Some c) u
      else (select (Some c) u)\<lparr>ui_messages := [], ui_input := [], ui_timer := uc_timer c\<rparr>)"

text \<open>Own messages that the daemon has not listed yet are shown after its list.\<close>

definition reconcile :: "string \<Rightarrow> ui_message list \<Rightarrow> ui \<Rightarrow> ui" where
  "reconcile v ms u =
     (let opt = filter (\<lambda>(_, m). um_id m \<notin> um_id ` set ms) (ui_optimistic u)
      in u\<lparr>ui_optimistic := opt, ui_messages := ms @ filter (\<lambda>m. um_conversation m = v) (map snd opt)\<rparr>)"

definition messages_arrive :: "nat \<Rightarrow> string \<Rightarrow> ui_message list option \<Rightarrow> ui \<Rightarrow> ui" where
  "messages_arrive e v a u =
     (case a of Some ms \<Rightarrow> if e = ui_epoch u \<and> ui_current u = Some v then reconcile v ms u else u | None \<Rightarrow> u)"

datatype follow_up = Load_Messages string | Load_Contacts

record sync_answer =
  sa_typing :: bool
  sa_conversation :: "string option"
  sa_messages :: "ui_message list option"
  sa_received :: int
  sa_sent :: int

text \<open>Only one synchronisation runs; the others join it.\<close>

definition sync_begins :: "nat \<Rightarrow> ui \<Rightarrow> ui \<times> nat" where
  "sync_begins i u = (case ui_sync u of Some j \<Rightarrow> (u, j) | None \<Rightarrow> (u\<lparr>ui_sync := Some i\<rparr>, i))"

definition sync_ends :: "nat \<Rightarrow> ui \<Rightarrow> ui" where
  "sync_ends i u = (if ui_sync u = Some i then u\<lparr>ui_sync := None\<rparr> else u)"

definition sync_arrives :: "nat \<Rightarrow> sync_answer \<Rightarrow> ui \<Rightarrow> ui \<times> follow_up list" where
  "sync_arrives e a u =
     (if e \<noteq> ui_epoch u then (u, [])
      else (let u1 = u\<lparr>ui_typing := sa_typing a\<rparr>;
                (u2, fs) =
                  (case ui_current u1 of
                     None \<Rightarrow> (u1, [])
                   | Some v \<Rightarrow>
                       (case sa_messages a of
                          Some ms \<Rightarrow> if sa_conversation a = Some v then (reconcile v ms u1, []) else (u1, [Load_Messages v])
                        | None \<Rightarrow> (u1, [Load_Messages v])))
            in (if 0 < sa_sent a \<and> ui_info u2 = Some queued_notice then u2\<lparr>ui_info := None\<rparr> else u2,
                fs @ (if 0 < sa_received a then [Load_Contacts] else []))))"

section \<open>Sending\<close>

definition send_begins :: "string \<Rightarrow> ms \<Rightarrow> ui \<Rightarrow> ui \<times> ui_message option" where
  "send_begins i now u =
     (case ui_selected u of
        None \<Rightarrow> (u, None)
      | Some c \<Rightarrow>
          if trim (ui_input u) = [] \<or> ui_sending u then (u, None)
          else (let m = \<lparr>um_id = i, um_conversation = uc_conversation c, um_sent = True, um_text = ui_input u, um_at = now,
                         um_status = ''sending''\<rparr>
                in (u\<lparr>ui_sending := True, ui_optimistic := map_set i m (ui_optimistic u), ui_input := [], ui_messages := ui_messages u @ [m]\<rparr>,
                    Some m)))"

text \<open>The daemon has taken the message \<open>m\<close> that was sent: its id, its state, and whether the backup failed.\<close>

definition send_succeeds :: "ui_message \<Rightarrow> string \<Rightarrow> string \<Rightarrow> bool \<Rightarrow> ui \<Rightarrow> ui \<times> follow_up list" where
  "send_succeeds m i status unsynced u =
     (let d = m\<lparr>um_id := i, um_status := status\<rparr>;
          u1 = u\<lparr>ui_info := (if status = ''queued'' then Some queued_notice else ui_info u),
                 ui_error := (if unsynced then Some (Said ''Message saved, but cloud backup did not sync. Retry backup in Settings.'') else ui_error u),
                 ui_optimistic := map_set (um_id m) d (ui_optimistic u)\<rparr>
      in (if ui_current u1 = Some (um_conversation m)
          then u1\<lparr>ui_messages := map (\<lambda>x. if um_id x = um_id m then d else x) (ui_messages u1)\<rparr> else u1,
          [Load_Messages (um_conversation m)]))"

definition send_fails :: "ui_message \<Rightarrow> notice \<Rightarrow> ui \<Rightarrow> ui" where
  "send_fails m n u =
     (let u1 = u\<lparr>ui_optimistic := map_delete (um_id m) (ui_optimistic u), ui_error := Some n\<rparr>
      in if ui_current u1 = Some (um_conversation m)
         then u1\<lparr>ui_messages := filter (\<lambda>x. um_id x \<noteq> um_id m) (ui_messages u1),
                 ui_input := (if ui_input u1 = [] then um_text m else ui_input u1)\<rparr>
         else u1)"

definition send_ends :: "ui \<Rightarrow> ui" where
  "send_ends u = u\<lparr>ui_sending := False\<rparr>"

definition max_attachment :: nat where
  "max_attachment = 25 * 1024 * 1024"

text \<open>An attachment of \<open>n\<close> bytes; \<open>True\<close>: it is encrypted and sent.\<close>

definition attachment_begins :: "nat \<Rightarrow> ui \<Rightarrow> ui \<times> bool" where
  "attachment_begins n u =
     (if ui_uploading u then (u, False)
      else if max_attachment < n then (u\<lparr>ui_error := Some (Said ''Attachments must be 25 MiB or smaller'')\<rparr>, False)
      else (u\<lparr>ui_uploading := True, ui_error := None, ui_info := Some Uploading\<rparr>, True))"

definition attachment_text :: "string \<Rightarrow> string \<Rightarrow> string" where
  "attachment_text filename mime =
     (if starts_with ''audio/'' mime then ''Voice note'' else ''Sent an attachment: '' @ filename)"

definition attachment_sent :: "string \<Rightarrow> string \<Rightarrow> bool \<Rightarrow> ui \<Rightarrow> ui \<times> follow_up list" where
  "attachment_sent v status unsynced u =
     (u\<lparr>ui_info := (if status = ''queued'' then Some queued_notice else None),
        ui_error := (if unsynced then Some (Said ''File saved, but backup did not sync. Retry backup in Settings.'') else ui_error u)\<rparr>,
      [Load_Messages v])"

definition attachment_fails :: "notice \<Rightarrow> ui \<Rightarrow> ui" where
  "attachment_fails n u = u\<lparr>ui_error := Some n, ui_info := None\<rparr>"

definition attachment_ends :: "ui \<Rightarrow> ui" where
  "attachment_ends u = u\<lparr>ui_uploading := False\<rparr>"

definition timer_set :: "string \<Rightarrow> int \<Rightarrow> ui \<Rightarrow> ui" where
  "timer_set v n u =
     (let u1 = u\<lparr>ui_contacts := map (\<lambda>c. if uc_conversation c = v then c\<lparr>uc_timer := n\<rparr> else c) (ui_contacts u)\<rparr>
      in if ui_current u1 = Some v then u1\<lparr>ui_timer := n, ui_selected := map_option (\<lambda>c. c\<lparr>uc_timer := n\<rparr>) (ui_selected u1)\<rparr> else u1)"

section \<open>Polls\<close>

text \<open>The time until the next synchronisation after so many failures, at once when it was asked for again.\<close>

definition poll_delay :: "bool \<Rightarrow> bool \<Rightarrow> nat \<Rightarrow> nat" where
  "poll_delay again chatting failures = (if again then 0 else min ((if chatting then 1200 else 3000) * 2 ^ failures) 30000)"

datatype poll_next = Stop | Again nat

definition poll_answered :: "bool \<Rightarrow> bool \<Rightarrow> nat \<Rightarrow> bool \<times> nat option \<Rightarrow> ui \<Rightarrow> ui \<times> nat \<times> poll_next" where
  "poll_answered again chatting failures r u =
     (if snd r = Some 401 \<or> snd r = Some 409
      then (u\<lparr>ui_error := Some (Said ''Device is not registered or the vault moved. Unlock again to reconnect.'')\<rparr>, failures, Stop)
      else (let n = (if fst r then 0 else failures + 1) in (u, n, Again (poll_delay again chatting n))))"

text \<open>What a notification of the daemon does besides moving the cursor; \<open>True\<close> wakes the poll.\<close>

definition event_arrives :: "string \<Rightarrow> ui \<Rightarrow> ui \<times> bool" where
  "event_arrives t u =
     ((if t = ''QUICK_LOCKED'' then u\<lparr>ui_quick := True\<rparr>
       else if t = ''STORAGE_SAVE_FAILED''
       then u\<lparr>ui_error := Some (Said ''Your chosen storage file could not be updated. The encrypted working copy is safe; export to a writable location.'')\<rparr>
       else if t = ''BACKUP_FAILED''
       then u\<lparr>ui_error := Some (Said ''Background backup could not sync. Messages remain on this device; backup will retry while unlocked.'')\<rparr>
       else u),
      t \<in> {''NEW_ENVELOPE'', ''CONNECTED'', ''ROUTE_CHANGED'', ''MESSAGES_CHANGED''})"

section \<open>After the lock\<close>

definition hidden :: "ui \<Rightarrow> bool" where
  "hidden u \<longleftrightarrow> ui_contacts u = [] \<and> ui_messages u = [] \<and> ui_selected u = None \<and> ui_current u = None \<and> ui_input u = [] \<and>
     ui_profile u = ([], []) \<and> \<not> ui_typing u \<and> ui_vault u \<noteq> Opened"

text \<open>
  Answers to requests of an earlier epoch, in any order. A request that such an answer leads to is refused by
  the daemon, which is locking.
\<close>

inductive late :: "ui \<Rightarrow> ui \<Rightarrow> bool" where
  profile: "e < ui_epoch u \<Longrightarrow> late u (profile_arrives e a u)"
| contacts: "e < ui_epoch u \<Longrightarrow> late u (fst (contacts_arrive e cs u))"
| registration: "e < ui_epoch u \<Longrightarrow> late u (registration_arrives e r u)"
| requests: "e < ui_epoch u \<Longrightarrow> late u (requests_arrive e rs u)"
| messages: "e < ui_epoch u \<Longrightarrow> late u (messages_arrive e v ms u)"
| sync: "e < ui_epoch u \<Longrightarrow> late u (fst (sync_arrives e s u))"
| sync_ended: "late u (sync_ends i u)"
| established: "late u (fst (session_established peer open_it v e None u))"
| accepted: "late u (invitation_accepted peer v e None u)"
| invited: "late u (invitation_sent peer u)"
| imported: "late u (invite_imported peer v e None u)"
| decided: "e < ui_epoch u \<Longrightarrow> late u (decision_arrives accept uid name e rs (Some (v, f, None)) u)"
| decided_later: "e < ui_epoch u \<Longrightarrow> late u (decision_arrives accept uid name e rs None u)"
| uploaded: "late u (fst (attachment_sent v status unsynced u))"
| upload_failed: "late u (attachment_fails n u)"
| upload_ended: "late u (attachment_ends u)"
| sent: "late u (fst (send_succeeds m i status unsynced u))"
| failed: "late u (send_fails m n u)"
| send_ended: "late u (send_ends u)"
| timed: "late u (timer_set v n u)"

lemma hidden_begins: "\<not> ui_busy u \<Longrightarrow> hidden (lock_begins u)"
  by (simp add: hidden_def lock_begins_def select_def)

lemmas arrivals = profile_arrives_def contacts_arrive_def registration_arrives_def requests_arrive_def messages_arrive_def sync_arrives_def
  sync_ends_def session_established_def invitation_accepted_def invitation_sent_def send_succeeds_def send_fails_def send_ends_def timer_set_def
  waits_for_def invite_imported_def decision_arrives_def attachment_sent_def attachment_fails_def attachment_ends_def

lemma hidden_late: "late u u' \<Longrightarrow> hidden u \<Longrightarrow> hidden u'"
  by (induction rule: late.induct) (auto simp: arrivals hidden_def Let_def split: option.splits)

lemma hidden_late_run: "late\<^sup>*\<^sup>* u u' \<Longrightarrow> hidden u \<Longrightarrow> hidden u'"
  by (induction rule: rtranclp_induct) (auto intro: hidden_late)

text \<open>The answer to the lock, and the pairing that follows with a daemon whose vault is locked.\<close>

lemma hidden_lock_arrives:
  assumes "hidden u" and "\<And>s. again = Some (Some s) \<Longrightarrow> ss_vault s = ''locked''"
  shows "hidden (lock_arrives again (Inr r) u)"
  using assms by (cases r) (auto simp: hidden_def lock_arrives_def session_arrives_def vault_of_text_def select_def
    split: option.splits)

section \<open>Messages that are shown\<close>

text \<open>Every own message of the conversation that the daemon has not listed is shown, and nothing twice.\<close>

lemma reconcile_shows:
  assumes "(k, m) \<in> set (ui_optimistic u)" and "um_conversation m = v"
  shows "um_id m \<in> um_id ` set (ui_messages (reconcile v ms u))"
proof (cases "um_id m \<in> um_id ` set ms")
  case False
  then have "m \<in> set (ui_messages (reconcile v ms u))" using assms by (force simp: reconcile_def Let_def)
  then show ?thesis by blast
qed (auto simp: reconcile_def Let_def)

lemma reconcile_once:
  assumes "distinct (map um_id ms)" and "distinct (map (um_id \<circ> snd) (ui_optimistic u))"
  shows "distinct (map um_id (ui_messages (reconcile v ms u)))"
proof -
  have "distinct (map um_id (filter (\<lambda>m. um_conversation m = v) (map snd (filter (\<lambda>(_, m). um_id m \<notin> um_id ` set ms) opt))))"
    if "distinct (map (um_id \<circ> snd) opt)" for opt
    using that by (induction opt) (force split: prod.splits)+
  moreover have "um_id x \<noteq> um_id y" if "x \<in> set ms" "um_id y \<notin> um_id ` set ms" for x y :: ui_message
    using that by (metis imageI)
  ultimately show ?thesis using assms by (fastforce simp: reconcile_def Let_def)
qed

text \<open>
  The text of a message that was not sent comes back only into its own conversation and an empty draft,
  although the notice says that the draft is restored.
\<close>

lemma draft_lost:
  assumes "ui_current u \<noteq> Some (um_conversation m)"
  shows "ui_input (send_fails m n u) = ui_input u \<and> ui_messages (send_fails m n u) = ui_messages u \<and>
    map_get (ui_optimistic (send_fails m n u)) (um_id m) = None"
  using assms by (simp add: send_fails_def map_get_delete)

text \<open>An invitation that was asked for before the lock names the peer on the locked screen.\<close>

lemma late_name:
  "hidden u \<Longrightarrow> hidden (invitation_accepted peer v e None u) \<and>
     ui_info (invitation_accepted peer v e None u) = Some (Said (peer @ '' accepted. Your conversation is ready.''))"
  by (auto simp: invitation_accepted_def session_established_def contacts_arrive_def hidden_def Let_def)

lemma poll_delay_bounds: "poll_delay again chatting n \<le> 30000" "\<not> again \<Longrightarrow> 1200 \<le> poll_delay again chatting n"
  "poll_delay again chatting n \<le> poll_delay again chatting (n + 1)"
proof -
  have "(1::nat) \<le> 2 ^ n" by simp
  then have "2 \<le> 5 * (2::nat) ^ n" by linarith
  then show "1200 \<le> poll_delay again chatting n" if "\<not> again" using that by (simp add: poll_delay_def min_def)
qed (auto simp: poll_delay_def)

end
