(* ===== verification/Relay_Config.thy ===== *)
theory Relay_Config
  imports Ui_App
begin

text \<open>
  \<open>config.ts\<close> and \<open>rate-limit.ts\<close> of the relay: the settings that a start accepts, the name of the relay, and
  the key that counts a client's requests; and what \<open>routeErrorDetails\<close> of \<open>logger.ts\<close> leaves of an error.
\<close>

section \<open>Settings\<close>

definition placeholder_words :: "string list" where
  "placeholder_words = [''paste_'', ''replace-'', ''your_'', ''changeme'', ''change-me'', ''change_me'', ''example'', ''placeholder'']"

definition is_placeholder :: "string \<Rightarrow> bool" where
  "is_placeholder s \<longleftrightarrow> list_ex (\<lambda>w. occurs_in w (to_lower s)) placeholder_words"

definition secret_ok :: "nat \<Rightarrow> string \<Rightarrow> bool" where
  "secret_ok n s \<longleftrightarrow> n \<le> length s \<and> \<not> is_placeholder s"

text \<open>The variables of the process; \<open>z.coerce.number()\<close>, the URL parser and \<open>encodeURIComponent\<close> are parameters.\<close>

type_synonym environment = "(string, string) jsmap"

record config_lib =
  cl_number :: "string \<Rightarrow> int option"
  cl_url :: "string \<Rightarrow> url option"
  cl_encode :: "string \<Rightarrow> string"

definition set_var :: "environment \<Rightarrow> string \<Rightarrow> string option" where
  "set_var ev k = (case map_get ev k of None \<Rightarrow> None | Some s \<Rightarrow> if s = [] then None else Some s)"

text \<open>\<open>Inl\<close> is the exception of a password that is refused.\<close>

definition database_url :: "config_lib \<Rightarrow> environment \<Rightarrow> unit + string option" where
  "database_url lib ev =
     (case set_var ev ''DATABASE_URL'' of
        Some u \<Rightarrow> Inr (Some u)
      | None \<Rightarrow>
          (case (set_var ev ''POSTGRES_PASSWORD'', set_var ev ''DATABASE_HOST'') of
             (Some p, Some h) \<Rightarrow>
               if secret_ok 16 p
               then Inr (Some (''postgresql://crypto_pigeon:'' @ cl_encode lib p @ ''@'' @ h @ '':5432/crypto_pigeon''))
               else Inl ()
           | _ \<Rightarrow> Inr None))"

record relay_settings =
  cg_database :: string
  cg_port :: int
  cg_host :: string
  cg_trust_proxy :: bool
  cg_public :: "string option"
  cg_pool :: int
  cg_hostname :: "string option"
  cg_aliases :: "string option"
  cg_admin :: string
  cg_token :: string
  cg_pepper :: string

definition database_ok :: "config_lib \<Rightarrow> string \<Rightarrow> bool" where
  "database_ok lib u \<longleftrightarrow> cl_url lib u \<noteq> None \<and> (starts_with ''postgres://'' u \<or> starts_with ''postgresql://'' u)"

definition public_ok :: "config_lib \<Rightarrow> string \<Rightarrow> bool" where
  "public_ok lib s \<longleftrightarrow> (case cl_url lib s of None \<Rightarrow> False
     | Some u \<Rightarrow> u_protocol u = ''https:'' \<and> u_username u = [] \<and> u_password u = [] \<and> u_pathname u = ''/'' \<and> u_search u = [] \<and> u_hash u = [])"

definition number_in :: "config_lib \<Rightarrow> int \<Rightarrow> int \<Rightarrow> int \<Rightarrow> string option \<Rightarrow> int option" where
  "number_in lib lo hi d x =
     (case x of None \<Rightarrow> Some d
      | Some s \<Rightarrow> (case cl_number lib s of None \<Rightarrow> None | Some n \<Rightarrow> if lo \<le> n \<and> n \<le> hi then Some n else None))"

definition host_of :: "string option \<Rightarrow> string option" where
  "host_of x =
     (let s = (case x of None \<Rightarrow> ''127.0.0.1'' | Some h \<Rightarrow> h)
      in if 1 \<le> length s \<and> length s \<le> 255 \<and> \<not> is_placeholder s then Some s else None)"

definition proxy_of :: "string option \<Rightarrow> bool option" where
  "proxy_of x = (case x of None \<Rightarrow> Some False | Some s \<Rightarrow> if s = ''0'' then Some False else if s = ''1'' then Some True else None)"

definition admin_of :: "string option \<Rightarrow> string option" where
  "admin_of x =
     (case x of None \<Rightarrow> None
      | Some s \<Rightarrow> if 3 \<le> length (trim s) \<and> length (trim s) \<le> 64 \<and> \<not> is_placeholder (trim s) then Some (trim s) else None)"

definition secret_of :: "string option \<Rightarrow> string option" where
  "secret_of x = (case x of None \<Rightarrow> None | Some s \<Rightarrow> if secret_ok 32 s then Some s else None)"

definition optional_var :: "(string \<Rightarrow> bool) \<Rightarrow> string option \<Rightarrow> string option option" where
  "optional_var p x = (case x of None \<Rightarrow> Some None | Some s \<Rightarrow> if p s then Some (Some s) else None)"

text \<open>\<open>envSchema.parse(rawEnv)\<close>; \<open>None\<close> is a \<open>ZodError\<close>, which ends the start.\<close>

definition read_settings :: "config_lib \<Rightarrow> environment \<Rightarrow> relay_settings option" where
  "read_settings lib ev =
     (case database_url lib ev of
        Inr (Some db) \<Rightarrow>
          (if \<not> database_ok lib db then None
           else do {
             port \<leftarrow> number_in lib 1 65535 8443 (map_get ev ''PORT'');
             host \<leftarrow> host_of (map_get ev ''HOST'');
             proxy \<leftarrow> proxy_of (map_get ev ''TRUST_PROXY'');
             public \<leftarrow> optional_var (public_ok lib) (map_get ev ''PUBLIC_RELAY_URL'');
             pool \<leftarrow> number_in lib 1 20 5 (map_get ev ''DATABASE_POOL_MAX'');
             name \<leftarrow> optional_var (\<lambda>s. 1 \<le> length s \<and> length s \<le> 255 \<and> \<not> is_placeholder s) (map_get ev ''RELAY_HOSTNAME'');
             aliases \<leftarrow> optional_var (\<lambda>s. length s \<le> 2048) (map_get ev ''RELAY_HOSTNAME_ALIASES'');
             admin \<leftarrow> admin_of (map_get ev ''ADMIN_USERNAME'');
             token \<leftarrow> secret_of (map_get ev ''ADMIN_TOKEN'');
             pepper \<leftarrow> secret_of (map_get ev ''ACTIVATION_PEPPER'');
             Some \<lparr>cg_database = db, cg_port = port, cg_host = host, cg_trust_proxy = proxy, cg_public = public, cg_pool = pool,
               cg_hostname = name, cg_aliases = aliases, cg_admin = admin, cg_token = token, cg_pepper = pepper\<rparr> })
      | _ \<Rightarrow> None)"

text \<open>\<open>new URL(..).host\<close> has the port when it is not the scheme's.\<close>

definition url_host :: "url \<Rightarrow> string" where
  "url_host u = (if u_port u = [] then u_hostname u else u_hostname u @ '':'' @ u_port u)"

definition relay_hostname :: "config_lib \<Rightarrow> relay_settings \<Rightarrow> string" where
  "relay_hostname lib c =
     (case cg_hostname c of
        Some h \<Rightarrow> h
      | None \<Rightarrow>
          (case cg_public c of
             Some p \<Rightarrow> if p = [] then cg_host c @ '':'' @ show_int (cg_port c) else (case cl_url lib p of None \<Rightarrow> [] | Some u \<Rightarrow> url_host u)
           | None \<Rightarrow> cg_host c @ '':'' @ show_int (cg_port c)))"

lemma number_inD: "number_in lib lo hi d x = Some n \<Longrightarrow> lo \<le> d \<Longrightarrow> d \<le> hi \<Longrightarrow> lo \<le> n \<and> n \<le> hi"
  by (auto simp: number_in_def split: option.splits if_splits)

lemma optional_varD: "optional_var q x = Some (Some s) \<Longrightarrow> q s"
  by (auto simp: optional_var_def split: option.splits if_splits)

lemma settings_read:
  "read_settings lib ev = Some c \<Longrightarrow> database_ok lib (cg_database c) \<and>
     number_in lib 1 65535 8443 (map_get ev ''PORT'') = Some (cg_port c) \<and> host_of (map_get ev ''HOST'') = Some (cg_host c) \<and>
     optional_var (public_ok lib) (map_get ev ''PUBLIC_RELAY_URL'') = Some (cg_public c) \<and>
     number_in lib 1 20 5 (map_get ev ''DATABASE_POOL_MAX'') = Some (cg_pool c) \<and> admin_of (map_get ev ''ADMIN_USERNAME'') = Some (cg_admin c) \<and>
     secret_of (map_get ev ''ADMIN_TOKEN'') = Some (cg_token c) \<and> secret_of (map_get ev ''ACTIVATION_PEPPER'') = Some (cg_pepper c)"
  unfolding read_settings_def by (auto split: sum.split_asm option.split_asm if_split_asm bind_split_asm)

lemma settings_ok:
  assumes "read_settings lib ev = Some c"
  shows "secret_ok 32 (cg_token c) \<and> secret_ok 32 (cg_pepper c) \<and> \<not> is_placeholder (cg_admin c) \<and> \<not> is_placeholder (cg_host c) \<and>
    1 \<le> cg_port c \<and> cg_port c \<le> 65535 \<and> 1 \<le> cg_pool c \<and> cg_pool c \<le> 20 \<and> database_ok lib (cg_database c) \<and>
    (\<forall>p. cg_public c = Some p \<longrightarrow> public_ok lib p)"
proof -
  note r = settings_read [OF assms]
  have "1 \<le> cg_port c \<and> cg_port c \<le> 65535" "1 \<le> cg_pool c \<and> cg_pool c \<le> 20" using r number_inD by fastforce+
  moreover have "secret_ok 32 (cg_token c)" "secret_ok 32 (cg_pepper c)" using r by (auto simp: secret_of_def split: option.splits if_splits)
  moreover have "\<not> is_placeholder (cg_admin c)" "\<not> is_placeholder (cg_host c)"
    using r by (auto simp: admin_of_def host_of_def Let_def split: option.splits if_splits)
  moreover have "\<forall>p. cg_public c = Some p \<longrightarrow> public_ok lib p" using r optional_varD by metis
  ultimately show ?thesis using r by blast
qed

section \<open>Counting requests\<close>

text \<open>The key of a client: its device, or the digest of its address with the salt of the day.\<close>

definition privacy_key :: "(bytes \<Rightarrow> bytes) \<Rightarrow> string \<Rightarrow> string option \<Rightarrow> string option \<Rightarrow> string option \<Rightarrow> string" where
  "privacy_key sha salt device ip remote =
     (let address = (if given ip then the ip else if given remote then the remote else ''127.0.0.1'')
      in if given device then ''device:'' @ the device else ''ip:'' @ hex_encode (sha (utf8 (address @ salt))))"

lemma device_key_ignores_address: "given d \<Longrightarrow> privacy_key sha salt d ip remote = privacy_key sha salt' d ip' remote'"
  by (simp add: privacy_key_def)

lemma keys_apart: "given d \<Longrightarrow> \<not> given d' \<Longrightarrow> privacy_key sha salt d ip remote \<noteq> privacy_key sha salt' d' ip' remote'"
  by (simp add: privacy_key_def Let_def)

section \<open>Errors of routes\<close>

text \<open>\<open>/postgres(?:ql)?:\/\/[^\s]+/gi\<close>\<close>

definition db_scheme :: "string \<Rightarrow> nat option" where
  "db_scheme s =
     (if to_lower (take 11 s) = ''postgres://'' then Some 11
      else if to_lower (take 13 s) = ''postgresql://'' then Some 13 else None)"

definition url_here :: "string \<Rightarrow> bool" where
  "url_here s \<longleftrightarrow> (case db_scheme s of None \<Rightarrow> False | Some n \<Rightarrow> drop n s \<noteq> [] \<and> \<not> is_space (hd (drop n s)))"

definition redacted_mark :: string where
  "redacted_mark = ''[REDACTED_DATABASE_URL]''"

function redact_urls :: "string \<Rightarrow> string" where
  "redact_urls [] = []"
| "redact_urls (c # s) =
     (if url_here (c # s) then redacted_mark @ redact_urls (dropWhile (\<lambda>d. \<not> is_space d) (drop (the (db_scheme (c # s))) (c # s)))
      else c # redact_urls s)"
  by pat_completeness auto
termination
proof (relation "measure length")
  fix c :: char and s
  assume "url_here (c # s)"
  then have "0 < the (db_scheme (c # s))" by (auto simp: url_here_def db_scheme_def split: option.splits if_splits)
  then have "length (drop (the (db_scheme (c # s))) (c # s)) < length (c # s)" by simp
  then show "(dropWhile (\<lambda>d. \<not> is_space d) (drop (the (db_scheme (c # s))) (c # s)), c # s) \<in> measure length"
    using length_dropWhile_le le_less_trans by (metis in_measure)
qed auto

text \<open>No database URL is left anywhere in the text.\<close>

lemma redact_take:
  "CHR ''['' \<notin> set (take k (redact_urls s)) \<Longrightarrow> take k s = take k (redact_urls s) \<and> drop k (redact_urls s) = redact_urls (drop k s)"
proof (induction s arbitrary: k rule: redact_urls.induct)
  case (2 c s)
  show ?case
  proof (cases k)
    case (Suc j)
    then have "\<not> url_here (c # s)" using "2.prems" by (auto simp: redacted_mark_def)
    then show ?thesis using 2 Suc by simp
  qed simp
qed simp

lemma url_starts: "url_here s \<Longrightarrow> s \<noteq> [] \<and> to_lower [hd s] = ''p''"
  by (cases s) (auto simp: url_here_def db_scheme_def to_lower_def split: option.splits if_splits)

lemma space_not_p: "is_space c \<Longrightarrow> lower_char c \<noteq> CHR ''p''"
proof -
  have "code (CHR ''p'') = 112" by code_simp
  then show "is_space c \<Longrightarrow> ?thesis" by (auto simp: is_space_def lower_char_def is_upper_def)
qed

lemma scheme_letters: "db_scheme s = Some n \<Longrightarrow> CHR ''['' \<notin> set (take n s) \<and> (n = 11 \<or> n = 13)"
proof -
  have "lower_char (CHR ''['') = CHR ''[''" by code_simp
  then have "CHR ''['' \<in> set xs \<Longrightarrow> CHR ''['' \<in> set (to_lower xs)" for xs
    by (simp add: to_lower_def) (metis image_eqI)
  then show "db_scheme s = Some n \<Longrightarrow> ?thesis" by (fastforce simp: db_scheme_def split: if_splits)
qed

lemma redact_first: "\<not> url_here (c # s) \<Longrightarrow> \<not> url_here (c # redact_urls s)"
proof
  assume no: "\<not> url_here (c # s)" and yes: "url_here (c # redact_urls s)"
  then obtain n where n: "db_scheme (c # redact_urls s) = Some n" "drop n (c # redact_urls s) \<noteq> []"
    "\<not> is_space (hd (drop n (c # redact_urls s)))" by (auto simp: url_here_def split: option.splits)
  note l = scheme_letters [OF n(1)]
  then obtain k where k: "n = Suc k" "10 \<le> k" by auto
  have t: "take k s = take k (redact_urls s)" "drop k (redact_urls s) = redact_urls (drop k s)"
    using redact_take [of k s] l k by auto
  then have tk: "take j (c # s) = take j (c # redact_urls s)" if "j \<le> n" for j
    using that k by (cases j) (simp_all, metis min.absorb1 take_take)
  have t10: "take 10 s = take 10 (redact_urls s)" using tk [of 11] l by auto
  have t12: "take 12 s = take 12 (redact_urls s)" if "n = 13" using tk [of 13] that by simp
  have sc: "db_scheme (c # s) = Some n" using n(1) l t10 t12 by (auto simp: db_scheme_def split: if_splits)
  have ne: "drop k s \<noteq> []" using n(2) t(2) k by auto
  have "\<not> is_space (hd (drop k s))"
  proof (cases "url_here (drop k s)")
    case True
    from url_starts [OF this] show ?thesis using space_not_p by (auto simp: to_lower_def)
  next
    case False
    then show ?thesis using n(3) t(2) k ne by (cases "drop k s") auto
  qed
  with no sc ne k show False by (simp add: url_here_def)
qed

lemma mark_safe: "n < length redacted_mark \<Longrightarrow> \<not> url_here (drop n redacted_mark @ s)"
proof
  assume n: "n < length redacted_mark" and u: "url_here (drop n redacted_mark @ s)"
  have "hd (drop n redacted_mark @ s) = redacted_mark ! n" using n by (simp add: hd_append hd_drop_conv_nth)
  moreover have "list_all (\<lambda>c. to_lower [c] \<noteq> ''p'') redacted_mark" by code_simp
  ultimately show False using url_starts [OF u] n by (simp add: list_all_length)
qed

lemma no_url_left: "\<not> url_here (drop n (redact_urls s))"
proof (induction s arbitrary: n rule: redact_urls.induct)
  case 1
  then show ?case by (simp add: url_here_def db_scheme_def)
next
  case (2 c s)
  show ?case
  proof (cases "url_here (c # s)")
    case True
    then show ?thesis using 2(1) [OF True] mark_safe by (cases "n < length redacted_mark") simp_all
  next
    case False
    then show ?thesis using 2(2) [OF False] redact_first [OF False] by (cases n) simp_all
  qed
qed

record error_details =
  ed_name :: string
  ed_message :: string
  ed_stack :: "string option"
  ed_method :: string
  ed_route :: string

text \<open>\<open>cause\<close>: the name, message and stack of an \<open>Error\<close>; something else that was thrown counts as unknown.\<close>

definition route_error_details ::
  "bool \<Rightarrow> (string \<times> string \<times> string option) option \<Rightarrow> string option \<Rightarrow> string \<Rightarrow> string \<Rightarrow> error_details" where
  "route_error_details development cause here m r =
     (case (case cause of Some x \<Rightarrow> x | None \<Rightarrow> (''Error'', ''unknown_error'', here)) of
        (n, t, st) \<Rightarrow> \<lparr>ed_name = n, ed_message = redact_urls t, ed_stack = (if development then map_option redact_urls st else None),
          ed_method = m, ed_route = r\<rparr>)"

end
