(* ===== verification/Support_Properties.thy ===== *)
theory Support_Properties
  imports Daemon_Client Daemon_Demo Daemon_Jobs Logging Ui_App Relay_Config "HOL-Library.Multiset"
begin

text \<open>
  Properties of the parts around the daemon's core: the scheduled backups, the relay client's session, the log
  lines of relay and daemon, the browser's storage of client shards, and the page after a lock.
\<close>

section \<open>Scheduled backups\<close>



section \<open>The change feed\<close>

definition asked :: "feed_event list \<Rightarrow> nat list" where
  "asked es = concat (map (\<lambda>e. case e of Wait i c \<Rightarrow> [i] | _ \<Rightarrow> []) es)"

lemma finish_balance:
  "mset (map fst (snd (finish_waiting p f))) + mset (map fst (fd_waiting (fst (finish_waiting p f)))) = mset (map fst (fd_waiting f))"
proof -
  have "mset (map fst (filter p xs)) + mset (map fst (filter (\<lambda>x. \<not> p x) xs)) = mset (map fst xs)" for xs :: "(nat \<times> int) list"
    by (induction xs) auto
  then show ?thesis by (simp add: finish_waiting_def comp_def)
qed

lemma feed_step_balance:
  "mset (map fst (snd (feed_step e f))) + mset (map fst (fd_waiting (fst (feed_step e f)))) = mset (map fst (fd_waiting f)) + mset (asked [e])"
  by (cases e) (simp_all add: publish_def wait_after_def stop_waiting_def asked_def finish_balance Let_def del: mset_map)

lemma feed_balance:
  "mset (map fst (snd (feed_run es f))) + mset (map fst (fd_waiting (fst (feed_run es f)))) = mset (map fst (fd_waiting f)) + mset (asked es)"
proof (induction es arbitrary: f)
  case (Cons e es)
  have "asked (e # es) = asked [e] @ asked es" by (simp add: asked_def)
  with Cons.IH [of "fst (feed_step e f)"] feed_step_balance [of e f] show ?case
    by (simp add: case_prod_beta del: mset_map) (metis add.assoc)
qed (simp add: asked_def)

text \<open>
  C31. The change feed answers every request once. After any sequence of publications, requests and ends of
  requests, every request was answered exactly once or is still waiting, the revision counts the publications,
  what waits has seen that revision, and the next publication answers all that wait with its own type.
\<close>

theorem change_feed_answers:
  "mset (asked es) = mset (map fst (snd (feed_run es new_feed))) + mset (map fst (fd_waiting (fst (feed_run es new_feed)))) \<and>
   fd_revision (fst (feed_run es new_feed)) = int (length (publications es)) \<and>
   list_all (\<lambda>x. int (length (publications es)) \<le> snd x) (fd_waiting (fst (feed_run es new_feed))) \<and>
   fd_waiting (fst (publish t (fst (feed_run es new_feed)))) = [] \<and>
   snd (publish t (fst (feed_run es new_feed))) =
     map (\<lambda>x. (fst x, int (length (publications es)) + 1, t)) (fd_waiting (fst (feed_run es new_feed)))"
proof -
  have "feed_ok (fst (feed_run es new_feed))" by (rule feed_run_ok) (simp add: feed_ok_def new_feed_def)
  moreover have "fd_revision (fst (feed_run es new_feed)) = int (length (publications es))"
    using feed_run_revision [where f = new_feed and es = es] by (simp add: new_feed_def)
  ultimately show ?thesis using feed_balance [where f = new_feed and es = es]
    by (simp add: feed_ok_def list_all_iff publish_def finish_waiting_def) (simp add: new_feed_def)
qed

section \<open>The relay client\<close>

text \<open>
  C28. A token is used in the session it belongs to. Whatever the relay, the timers and the sockets do, and
  however clearing the session, locking, running authentications and prepared requests overlap: the cached
  token was stored in the current session, a request that was prepared is sent only in the session it was
  prepared in, and at most 256 pushed envelopes are kept.
\<close>

theorem client_session_fresh:
  assumes "client_run es new_world = Some w" and "rc_token (cw_client w) = Some t"
  shows "(t, rc_generation (cw_client w)) \<in> set (cw_origin w) \<and> list_all (\<lambda>(p, g). pd_generation p = g) (cw_sent w) \<and>
    length (rc_pushed (cw_client w)) \<le> 256"
proof -
  have "client_ok w" by (rule client_run_ok [OF assms(1) new_world_ok])
  then show ?thesis using assms(2) by (simp add: client_ok_def sent_ok_def list_all_iff)
qed

theorem client_session_fresh_witness:
  "\<exists>w. client_run [Ask_Token 0, Clear, Auth_Ends 0 (Inr (''old'', 9)), Ask_Token 0, Auth_Ends 1 (Inr (''new'', 9))] new_world = Some w \<and>
     rc_token (cw_client w) = Some ''new'' \<and> (''new'', 1) \<in> set (cw_origin w)"
  using client_session_fresh [of "[Ask_Token 0, Clear, Auth_Ends 0 (Inr (''old'', 9)), Ask_Token 0, Auth_Ends 1 (Inr (''new'', 9))]" _ "''new''"]
  by (simp add: new_world_def new_client_def client_defs)

section \<open>Log lines\<close>




section \<open>Client shards in the browser\<close>

definition target_handle :: "string option \<Rightarrow> storage \<Rightarrow> string" where
  "target_handle h st = (case h of Some v \<Rightarrow> if v = [] then active_handle st else v | None \<Rightarrow> active_handle st)"

text \<open>What the writes are: one map of shards, perhaps the fragment of the target, the target.\<close>

lemma remember_shape:
  assumes "read_vault_shards parse st = Inr m" and "remember_writes parse stringify shard h st = Inr ws"
  obtains m1 where "shards_ok m1" and "\<And>k. k \<noteq> target_handle h st \<Longrightarrow> map_get m1 k = map_get m k"
    and "\<And>c s. shard = Some (c # s) \<Longrightarrow> map_get m1 (target_handle h st) = Some (c # s)"
    and "ws = (vault_shards_key, stringify (shards_json m1)) #
      (case map_get m1 (target_handle h st) of None \<Rightarrow> [] | Some s \<Rightarrow> [(shard_storage_key, s)]) @ [(active_vault_key, target_handle h st)]"
    and "handle_pattern (target_handle h st)"
proof -
  let ?m1 = "case shard of Some (c # s) \<Rightarrow> map_set (target_handle h st) (c # s) m | _ \<Rightarrow> m"
  have ok: "shards_ok m" by (rule read_ok [OF assms(1)])
  have hp: "handle_pattern (target_handle h st)"
    using assms by (auto simp: remember_writes_def target_handle_def Let_def split: if_splits option.splits)
  have sp: "shard_pattern (c # s)" if "shard = Some (c # s)" for c s
    using assms that by (auto simp: remember_writes_def Let_def try_then_Inr_iff split: if_splits)
  have "shards_ok ?m1" using ok hp sp by (auto intro: shards_ok_set split: option.split list.split)
  moreover have "map_get ?m1 k = map_get m k" if "k \<noteq> target_handle h st" for k
    using that by (simp add: map_get_set split: option.split list.split)
  moreover have "ws = (vault_shards_key, stringify (shards_json ?m1)) #
      (case map_get ?m1 (target_handle h st) of None \<Rightarrow> [] | Some s \<Rightarrow> [(shard_storage_key, s)]) @ [(active_vault_key, target_handle h st)]"
    using assms hp sp
    by (cases shard) (auto simp: remember_writes_def target_handle_def Let_def try_then_Inr_iff split: list.splits option.splits if_splits)
  ultimately show thesis using hp that [of ?m1] by (simp add: map_get_set)
qed

lemma read_stored:
  assumes "stored_shards parse st = Inr m"
  shows "\<exists>m'. read_vault_shards parse st = Inr m' \<and> (\<forall>k v. map_get m k = Some v \<longrightarrow> map_get m' k = Some v)"
  using assms by (auto simp: read_vault_shards_def try_then_Inr_iff map_get_set split: option.split)

text \<open>After the first write the map of shards stays.\<close>

lemma writes_keep_map:
  assumes "ws = (vault_shards_key, x) # (case o1 of None \<Rightarrow> [] | Some s \<Rightarrow> [(shard_storage_key, s)]) @ [(active_vault_key, t)]"
  shows "map_get (apply_writes (take (Suc n) ws) st) vault_shards_key = Some x"
    and "t \<noteq> [] \<Longrightarrow> item (apply_writes ws st) active_vault_key = Some t"
    and "o1 = Some s \<Longrightarrow> map_get (apply_writes ws st) shard_storage_key = Some s"
  using assms by (auto simp: apply_writes_def map_get_set item_def take_Cons' split: option.splits)

lemma handle_nonempty: "handle_pattern h \<Longrightarrow> h \<noteq> []"
  by (auto simp: handle_pattern_def is_lower_hex_of_def)

lemma kept_after_first:
  assumes "json_ok env" and "shards_ok m1"
    and "ws = (vault_shards_key, json_text env (shards_json m1)) #
      (case o1 of None \<Rightarrow> [] | Some s \<Rightarrow> [(shard_storage_key, s)]) @ [(active_vault_key, t)]"
  shows "\<exists>m'. read_vault_shards (json_parse env) (apply_writes (take (Suc i) ws) st) = Inr m' \<and>
    (\<forall>k v. map_get m1 k = Some v \<longrightarrow> map_get m' k = Some v)"
proof -
  let ?st = "apply_writes (take (Suc i) ws) st"
  have "json_parse env (json_text env (shards_json m1)) = Some (shards_json m1)" "json_text env (shards_json m1) \<noteq> []"
    using assms(1) by (simp_all add: json_ok_def)
  then obtain m2 where m2: "stored_shards (json_parse env) ?st = Inr m2" "\<forall>k. map_get m2 k = map_get m1 k"
    using stored_back [of m1 "json_parse env" "json_text env" ?st] assms(2) writes_keep_map(1) [OF assms(3), of i st] by blast
  from read_stored [OF m2(1)] show ?thesis unfolding m2(2) [rule_format] .
qed

text \<open>
  No vault loses its fragment in the browser. Storing the fragment of one vault is several writes to the
  browser's storage; after any number of them the fragments of all other vaults are still read as before, and
  after all of them the fragment that was given is read under its vault, which is the active one.
\<close>

theorem fragments_kept:
  assumes "json_ok env" and "read_vault_shards (json_parse env) st = Inr m"
    and "remember_writes (json_parse env) (json_text env) shard h st = Inr ws"
  shows "active_handle (apply_writes ws st) = target_handle h st \<and>
    (\<exists>m'. read_vault_shards (json_parse env) (apply_writes (take n ws) st) = Inr m' \<and>
      (\<forall>k v. map_get m k = Some v \<longrightarrow> k = target_handle h st \<or> map_get m' k = Some v) \<and>
      (shard = None \<or> shard = Some [] \<or> n < length ws \<or> map_get m' (target_handle h st) = shard))"
proof -
  obtain m1 where m1: "shards_ok m1" "\<And>k. k \<noteq> target_handle h st \<Longrightarrow> map_get m1 k = map_get m k"
      "\<And>c s. shard = Some (c # s) \<Longrightarrow> map_get m1 (target_handle h st) = Some (c # s)"
    and ws: "ws = (vault_shards_key, json_text env (shards_json m1)) #
      (case map_get m1 (target_handle h st) of None \<Rightarrow> [] | Some s \<Rightarrow> [(shard_storage_key, s)]) @ [(active_vault_key, target_handle h st)]"
    and hp: "handle_pattern (target_handle h st)"
    by (rule remember_shape [OF assms(2,3)]) blast
  have active: "active_handle (apply_writes ws st) = target_handle h st"
    by (simp add: active_handle_def writes_keep_map(2) [OF ws handle_nonempty [OF hp]])
  show ?thesis
  proof (cases n)
    case 0
    then show ?thesis using assms(2) active by (simp add: apply_writes_def ws)
  next
    case (Suc i)
    from kept_after_first [OF assms(1) m1(1) ws, of i st]
    obtain m' where m': "read_vault_shards (json_parse env) (apply_writes (take n ws) st) = Inr m'"
        "\<And>k v. map_get m1 k = Some v \<Longrightarrow> map_get m' k = Some v"
      unfolding Suc by blast
    have "shard = None \<or> shard = Some [] \<or> map_get m' (target_handle h st) = shard"
    proof (cases shard)
      case (Some s)
      then show ?thesis using m1(3) m'(2) by (cases s) auto
    qed simp
    moreover have "k = target_handle h st \<or> map_get m' k = Some v" if "map_get m k = Some v" for k v
      using that m1(2) [of k] m'(2) [of k v] by auto
    ultimately show ?thesis using m'(1) active by blast
  qed
qed

theorem fragments_kept_witness:
  "\<exists>ws. remember_writes parse_text put (Some (replicate 64 (CHR ''b''))) (Some (replicate 32 (CHR ''a''))) [(shard_storage_key, replicate 64 (CHR ''c''))] = Inr ws \<and>
     (\<exists>m'. read_vault_shards parse_text (apply_writes (take 2 ws) [(shard_storage_key, replicate 64 (CHR ''c''))]) = Inr m' \<and>
       map_get m' ''legacy'' = Some (replicate 64 (CHR ''c'')))"
proof -
  let ?st = "[(shard_storage_key, replicate 64 (CHR ''c''))]"
  have "(case read_vault_shards parse_text ?st of Inl _ \<Rightarrow> False | Inr m \<Rightarrow> map_get m ''legacy'' = Some (replicate 64 (CHR ''c''))) \<and>
      \<not> isl (remember_writes parse_text put (Some (replicate 64 (CHR ''b''))) (Some (replicate 32 (CHR ''a''))) ?st)"
    by code_simp
  then obtain m ws where r: "read_vault_shards parse_text ?st = Inr m" "map_get m ''legacy'' = Some (replicate 64 (CHR ''c''))"
    "remember_writes parse_text put (Some (replicate 64 (CHR ''b''))) (Some (replicate 32 (CHR ''a''))) ?st = Inr ws"
    by (auto split: sum.splits simp: isl_def) (metis sum.exhaust)
  have "json_parse demo_daemon = parse_text" "json_text demo_daemon = put" by (simp_all add: demo_daemon_def)
  with fragments_kept [OF demo_json, of ?st m "Some (replicate 64 (CHR ''b''))" "Some (replicate 32 (CHR ''a''))" ws 2] r
  obtain m' where m': "read_vault_shards parse_text (apply_writes (take 2 ws) ?st) = Inr m'"
      "\<And>k v. map_get m k = Some v \<Longrightarrow> k = replicate 32 (CHR ''a'') \<or> map_get m' k = Some v"
    by (auto simp: target_handle_def)
  moreover have "''legacy'' \<noteq> replicate 32 (CHR ''a'')" by code_simp
  ultimately have "map_get m' ''legacy'' = Some (replicate 64 (CHR ''c''))" using r(2) by blast
  with m'(1) r(3) show ?thesis by blast
qed

section \<open>The browser after a lock\<close>






end
