(* ===== verification/Daemon_Gateway.thy ===== *)
theory Daemon_Gateway
  imports Daemon_Sovereign Daemon_Client Daemon_Jobs Daemon_System
begin

text \<open>
  \<open>server.ts\<close>: the process around the vault, and the routes that create, open, lock, carry and back it up.
  A request is one step, as \<open>requestTail\<close> lets one run at a time; what a handler starts and does not wait for
  (the timer and the end of a background upload) are steps of their own.
\<close>

section \<open>The process\<close>

text \<open>What does not change, and what one request needs from outside.\<close>

record gate_env =
  ge_env :: daemon_env
  ge_lib :: secure_lib
  ge_opens :: cipher
  ge_url :: "string \<Rightarrow> url option"
  ge_relay :: string
  ge_root :: string

definition ge_dir :: "gate_env \<Rightarrow> string" where
  "ge_dir e = ge_root e @ ''/attachments/''"

text \<open>
  The request, two sets of random values and relay answers, the status of a removal, the answer to a download, whether
  the vault's directory was there, whether an upload that runs is accepted, and the new bootstrap secret.
\<close>

record gate_io =
  gi_request :: local_request
  gi_io :: secure_io
  gi_io' :: secure_io
  gi_gone :: "nat option"
  gi_answer :: http
  gi_existed :: bool
  gi_upload :: bool
  gi_secret :: bytes
  gi_now :: ms

text \<open>
  \<open>gw_upload\<close> tells which configuration the running upload has captured: the decoy's, the vault's, or one
  that has been replaced since.
\<close>

record gateway =
  gw_vault :: sovereign
  gw_pending :: "bytes option"
  gw_pin :: pin_memory
  gw_session :: session_memory
  gw_relay :: string
  gw_client :: relay_client
  gw_job :: backup_job
  gw_upload :: "bool option"
  gw_feed :: feed
  gw_routing :: routing
  gw_typing :: typing

definition new_gateway :: "gate_env \<Rightarrow> gateway" where
  "new_gateway e = \<lparr>gw_vault = \<lparr>sv_main = fresh_sec, sv_registry = None, sv_active = False\<rparr>, gw_pending = None,
     gw_pin = pin_start, gw_session = session_start, gw_relay = ge_relay e, gw_client = new_client, gw_job = idle_job,
     gw_upload = None, gw_feed = new_feed, gw_routing = new_routing, gw_typing = []\<rparr>"

datatype payload = Json json | File bytes

type_synonym gate_op = "gateway \<Rightarrow> gateway \<times> payload reply"

text \<open>What the error handler makes of an exception that leaves a route.\<close>

definition uncaught :: "string \<Rightarrow> payload reply" where
  "uncaught e = (if e = ''ZodError'' then invalid_request else internal_error)"

definition ok_with :: "(string \<times> json) list \<Rightarrow> payload reply" where
  "ok_with kvs = Done 200 (Json (JObj ((''ok'', JBool True) # kvs)))"

definition gate_locked :: "gateway \<Rightarrow> bool" where
  "gate_locked g \<longleftrightarrow> sov_locked (gw_vault g)"

text \<open>\<open>unlocked\<close> of the backup job.\<close>

definition backs_up :: "gateway \<Rightarrow> bool" where
  "backs_up g \<longleftrightarrow> \<not> gate_locked g \<and> cloud_backup_enabled (gw_vault g)"

definition schedule_backup :: "gateway \<Rightarrow> gateway" where
  "schedule_backup g = g\<lparr>gw_job := schedule (backs_up g) (gw_job g)\<rparr>"

definition cancel_backups :: "gateway \<Rightarrow> gateway" where
  "cancel_backups g = g\<lparr>gw_job := cancel_backup (gw_job g)\<rparr>"

definition announce :: "string \<Rightarrow> gateway \<Rightarrow> gateway" where
  "announce t g = g\<lparr>gw_feed := fst (publish t (gw_feed g))\<rparr>"

definition halt_tor :: "gateway \<Rightarrow> gateway" where
  "halt_tor g = g\<lparr>gw_routing := stop_tor (gw_routing g)\<rparr>"

definition end_session :: "gateway \<Rightarrow> gateway" where
  "end_session g = g\<lparr>gw_client := clear_session (gw_client g)\<rparr>"

section \<open>Background uploads\<close>

text \<open>\<open>finish_upload\<close> on the configuration that was captured.\<close>

definition upload_stored :: "gateway \<Rightarrow> sovereign" where
  "upload_stored g =
     (case gw_upload g of
        None \<Rightarrow> gw_vault g
      | Some d \<Rightarrow> if d then sov_with_decoy finish_upload (gw_vault g)
          else (gw_vault g)\<lparr>sv_main := finish_upload (sv_main (gw_vault g))\<rparr>)"

definition upload_settles :: "bool \<Rightarrow> gateway \<Rightarrow> gateway" where
  "upload_settles fine g =
     (let g1 = (if fine then g\<lparr>gw_vault := upload_stored g\<rparr> else announce ''BACKUP_FAILED'' g)
      in g1\<lparr>gw_upload := None, gw_job := upload_ends fine (backs_up g1) (gw_job g1)\<rparr>)"

text \<open>\<open>drain\<close> waits for the upload that runs, and throws when it fails.\<close>

definition drain :: "bool \<Rightarrow> gateway \<Rightarrow> gateway \<times> (string + unit)" where
  "drain fine g =
     (if \<not> bj_active (gw_job g) then (g, Inr ())
      else (upload_settles fine g, if fine then Inr () else Inl ''RELAY_BACKUP_UNAVAILABLE''))"

definition sov_map :: "(sec_vault \<Rightarrow> sec_vault) \<Rightarrow> sovereign \<Rightarrow> sovereign" where
  "sov_map f s = (if sv_active s \<and> sv_registry s \<noteq> None then sov_with_decoy f s else s\<lparr>sv_main := f (sv_main s)\<rparr>)"

text \<open>The part of \<open>syncBackup\<close> before it waits writes the row of the instance.\<close>

definition begin_upload :: "string \<Rightarrow> sec_vault \<Rightarrow> sec_vault" where
  "begin_upload token w = (if s_config w = None \<or> s_keys w = None \<or> s_vmk w = None then w else set_db (with_token token) w)"

definition backup_timer :: "string \<Rightarrow> gateway \<Rightarrow> gateway" where
  "backup_timer token g =
     (case timer_fires (backs_up g) (gw_job g) of
        (b, started) \<Rightarrow>
          if started
          then g\<lparr>gw_job := b, gw_vault := sov_map (begin_upload token) (gw_vault g), gw_upload := Some (sv_active (gw_vault g))\<rparr>
          else g\<lparr>gw_job := b\<rparr>)"

section \<open>The relay that is used\<close>

definition trusted_routes :: "gate_env \<Rightarrow> string list" where
  "trusted_routes e = [ge_relay e, ''http://192.168.1.5:8443'', ''http://127.0.0.1:8443'',
     ''https://musical-medal-cleared-tube.trycloudflare.com'']"

definition relay_reply :: "gate_env \<Rightarrow> gateway \<Rightarrow> payload reply" where
  "relay_reply e g = Done 200 (Json (JObj [(''relayUrl'', JStr (gw_relay g)), (''defaultRelayUrl'', JStr (ge_relay e))]))"

text \<open>A failing upload that is waited for ends in the same reply as a URL that is not one.\<close>

definition set_relay :: "gate_env \<Rightarrow> gate_io \<Rightarrow> json \<Rightarrow> gate_op" where
  "set_relay e io body g =
     (case Option.bind (required ''relayUrl'' as_string body) (\<lambda>u. normalize_relay_url (ge_url e) u True) of
        None \<Rightarrow> (g, Fail 400 ''INVALID_RELAY_URL'')
      | Some u \<Rightarrow>
          if \<not> gate_locked g \<and> \<not> (gw_relay g \<in> set (trusted_routes e) \<and> u \<in> set (trusted_routes e))
          then (g, Fail 409 ''LOCK_BEFORE_RELAY_CHANGE'')
          else (case drain (gi_upload io) (cancel_backups g) of
             (g1, Inl _) \<Rightarrow> (g1, Fail 400 ''INVALID_RELAY_URL'')
           | (g1, Inr _) \<Rightarrow>
               (let g2 = g1\<lparr>gw_client := new_client, gw_relay := u\<rparr>;
                    g3 = announce ''ROUTE_CHANGED'' (if pending_backup (gw_job g) \<and> \<not> gate_locked g2 then schedule_backup g2 else g2)
                in (g3, relay_reply e g3))))"

section \<open>Bodies\<close>

definition vault_credentials :: "json \<Rightarrow> (string \<times> string) option" where
  "vault_credentials j = do {
     i \<leftarrow> required ''vaultId'' (string_where (\<lambda>s. 8 \<le> length s \<and> length s \<le> 256)) j;
     p \<leftarrow> required ''password'' (string_where (\<lambda>s. 12 \<le> length s \<and> length s \<le> 1024)) j;
     Some (i, p) }"

definition vault_open_schema :: "json \<Rightarrow> (string \<times> string \<times> string option \<times> string option) option" where
  "vault_open_schema j = do {
     (i, p) \<leftarrow> vault_credentials j;
     c \<leftarrow> optional ''clientShard'' (base64_length 64) j;
     d \<leftarrow> optional ''decoyClientShard'' (base64_length 64) j;
     Some (i, p, c, d) }"

definition vault_restore_schema :: "json \<Rightarrow> (string \<times> string) option" where
  "vault_restore_schema j = do {
     c \<leftarrow> vault_credentials j;
     _ \<leftarrow> required ''transferConfirmed'' (\<lambda>v. must (v = JBool True)) j;
     Some c }"

definition change_schema :: "json \<Rightarrow> (string \<times> string \<times> string) option" where
  "change_schema j = do {
     i \<leftarrow> required ''vaultId'' (string_where (\<lambda>s. 8 \<le> length s \<and> length s \<le> 256)) j;
     old \<leftarrow> required ''oldPassword'' as_string j;
     new \<leftarrow> required ''newPassword'' as_string j;
     Some (i, old, new) }"

definition shard7_payload :: "json \<Rightarrow> string option option" where
  "shard7_payload = optional ''shard7Payload'' (string_where (\<lambda>s. length s \<le> 4096))"

definition shards_reply :: "string \<Rightarrow> bytes option \<Rightarrow> (string \<times> json) list" where
  "shards_reply client capsule = (''clientShard'', JStr client) #
     (case capsule of None \<Rightarrow> [] | Some b \<Rightarrow> [(''shard7FileBytes'', JStr (b64_encode b))])"

section \<open>Creating and opening\<close>

definition vault_status :: "gateway \<Rightarrow> payload reply" where
  "vault_status g = Done 200 (Json (JObj
     [(''requiresVaultId'', JBool (s_config (sv_main (gw_vault g)) \<noteq> None)),
      (''vaultState'', JStr (vault_state (sec_exists (sv_main (gw_vault g))) (gate_locked g) (pm_quick (gw_pin g))))]))"

definition set_main :: "sec_vault \<Rightarrow> gateway \<Rightarrow> gateway" where
  "set_main w g = g\<lparr>gw_vault := (gw_vault g)\<lparr>sv_main := w\<rparr>\<rparr>"

definition create_route :: "gate_env \<Rightarrow> gate_io \<Rightarrow> json \<Rightarrow> gate_op" where
  "create_route e io body g =
     (case vault_credentials body of
        None \<Rightarrow> (g, invalid_request)
      | Some (i, p) \<Rightarrow>
          (case create_secure (ge_env e) (ge_lib e) (ge_opens e) (gi_io io) (gi_existed io) i p False (sv_main (gw_vault g)) of
             (w, Inl err) \<Rightarrow> (set_main w g, Fail 400 err)
           | (w, Inr (client, capsule)) \<Rightarrow>
               (set_main w g, ok_with (shards_reply client (Some capsule) @
                  [(''onboardingPending'', JBool (case field ''username'' body of None \<Rightarrow> False | Some u \<Rightarrow> truthy u))]))))"

text \<open>
  Importing and restoring put another directory in place of the vault's; the file of the duress registry is
  in the old one. The test repeats what they check before.
\<close>

definition storage_staged ::
  "gate_env \<Rightarrow> secure_draw \<Rightarrow> bytes \<Rightarrow> string \<Rightarrow> string \<Rightarrow> bytes \<Rightarrow> bool" where
  "storage_staged e d content i p capsule =
     (let keys = derive_vault_keys (ge_env e) i p
      in \<not> isl (try_then (decode_storage (ge_env e) content capsule keys) (\<lambda>z.
           try_then (read_snapshot (ge_env e) (unzip_bytes (ge_lib e) snapshot_limit z))
             (stage_storage (ge_env e) (ge_lib e) (ge_opens e) d (ge_dir e) keys capsule))))"

definition in_place :: "bool \<Rightarrow> sec_vault \<Rightarrow> sovereign \<Rightarrow> sovereign" where
  "in_place replaced w s = (if replaced then \<lparr>sv_main = w, sv_registry = None, sv_active = False\<rparr> else s\<lparr>sv_main := w\<rparr>)"

definition sov_import ::
  "gate_env \<Rightarrow> secure_draw \<Rightarrow> bytes \<Rightarrow> string \<Rightarrow> string \<Rightarrow> bytes \<Rightarrow> sovereign \<Rightarrow> sovereign \<times> (string + string)" where
  "sov_import e d content i p capsule s =
     (if \<not> sov_locked s then (s, Inl ''LOCK_BEFORE_STORAGE_SWITCH'')
      else (case import_storage (ge_env e) (ge_lib e) (ge_opens e) d (ge_dir e) content i p capsule (sv_main s) of
              (w, r) \<Rightarrow> (in_place (storage_staged e d content i p capsule) w s, r)))"

definition configuration_replaced :: "bool \<Rightarrow> gateway \<Rightarrow> gateway" where
  "configuration_replaced b g = (if b then g\<lparr>gw_upload := None\<rparr> else g)"

definition open_selected :: "gate_env \<Rightarrow> gate_io \<Rightarrow> string \<Rightarrow> string \<Rightarrow> string option \<Rightarrow> bytes \<Rightarrow> gate_op" where
  "open_selected e io i p shard7 content g =
     (case shard7 of
        Some (c # cs) \<Rightarrow>
          (let d = io_draw (gi_io io); g1 = configuration_replaced (storage_staged e d content i p (b64_decode (c # cs))) g
           in case sov_import e d content i p (b64_decode (c # cs)) (gw_vault g) of
                (v, Inl err) \<Rightarrow> (g1\<lparr>gw_vault := v\<rparr>, Fail 400 err)
              | (v, Inr client) \<Rightarrow> (g1\<lparr>gw_vault := v, gw_pending := None\<rparr>, ok_with (shards_reply client None)))
      | _ \<Rightarrow> (g, Fail 400 ''SHARD7_FILE_REQUIRED''))"

text \<open>The message of a schema error inside the \<open>try\<close> is written \<open>ZodError\<close>.\<close>

definition open_route :: "gate_env \<Rightarrow> gate_io \<Rightarrow> json \<Rightarrow> gate_op" where
  "open_route e io body g =
     (case vault_open_schema body of
        None \<Rightarrow> (g, invalid_request)
      | Some (i, p, client, decoy_client) \<Rightarrow>
          (case shard7_payload body of
             None \<Rightarrow> (g, Fail 400 ''ZodError'')
           | Some shard7 \<Rightarrow>
               (let g1 = end_session (halt_tor g)
                in case gw_pending g1 of
                     Some content \<Rightarrow> open_selected e io i p shard7 content g1
                   | None \<Rightarrow>
                       (case unlock_secure (ge_env e) (ge_lib e) (ge_opens e) (gi_answer io) i p client decoy_client shard7 (gw_vault g1) of
                          (v, r) \<Rightarrow>
                            (g1\<lparr>gw_vault := v, gw_upload := (if is_duress (ge_env e) i (gw_vault g1) \<and> gw_upload g1 = Some True then None
                                  else gw_upload g1)\<rparr>,
                             case r of Inl err \<Rightarrow> Fail 400 err | Inr _ \<Rightarrow> ok_with [])))))"

section \<open>Locking\<close>

text \<open>
  The upload is prepared with the open vault and answered when it is locked; an accepted one sets
  \<open>relayPresent\<close> afterwards. The result has the body that was sent.
\<close>

definition lock_effect :: "gate_env \<Rightarrow> gate_io \<Rightarrow> gateway \<Rightarrow> gateway \<times> backup_put option \<times> bool" where
  "lock_effect e io g =
     (let g1 = announce ''LOCKED'' (end_session (cancel_backups
            ((halt_tor (g\<lparr>gw_pending := None\<rparr>))\<lparr>gw_pin := (gw_pin g)\<lparr>pm_quick := False\<rparr>, gw_typing := []\<rparr>)))
      in case sov_sync_backup (ge_env e) (ge_lib e) (gi_io io) False (gw_vault g1) of
           (v, body, r) \<Rightarrow>
             (let v1 = sov_lock v;
                  v2 = (case r of Inr (Stored _) \<Rightarrow> sov_map (\<lambda>w. w\<lparr>s_relay := True\<rparr>) v1 | _ \<Rightarrow> v1)
              in (g1\<lparr>gw_vault := v2, gw_session := next_bootstrap (gi_secret io) (gw_session g)\<rparr>, body, \<not> isl r)))"

definition lock_route :: "gate_env \<Rightarrow> gate_io \<Rightarrow> gate_op" where
  "lock_route e io g =
     (case lock_effect e io g of
        (g1, _, synced) \<Rightarrow>
          (g1, ok_with [(''backupSynced'', JBool synced), (''bootstrapSecret'', JStr (hex_encode (gi_secret io)))]))"

section \<open>Backups, files and settings\<close>

definition sync_route :: "gate_env \<Rightarrow> gate_io \<Rightarrow> gate_op" where
  "sync_route e io g =
     (case drain (gi_upload io) (cancel_backups g) of
        (g1, Inl err) \<Rightarrow> (g1, uncaught err)
      | (g1, Inr _) \<Rightarrow>
          (case sov_sync_backup (ge_env e) (ge_lib e) (gi_io io) False (gw_vault g1) of
             (v, _, r) \<Rightarrow>
               (g1\<lparr>gw_vault := v\<rparr>,
                case r of
                  Inl err \<Rightarrow> uncaught err
                | Inr Skipped \<Rightarrow> ok_with [(''skipped'', JBool True), (''cloudBackupEnabled'', JBool False)]
                | Inr Legacy \<Rightarrow> ok_with [(''legacy'', JBool True)]
                | Inr (Stored n) \<Rightarrow> ok_with [(''version'', JInt n)])))"

definition storage_status :: "sovereign \<Rightarrow> json" where
  "storage_status s = JObj
     [(''cloudBackupEnabled'', JBool (cloud_backup_enabled s)),
      (''externalShard7'', JBool (case s_config (sv_main s) of None \<Rightarrow> False | Some c \<Rightarrow> cf_external c)),
      (''storageBound'', JBool False)]"

definition set_storage :: "gate_env \<Rightarrow> gate_io \<Rightarrow> json \<Rightarrow> gate_op" where
  "set_storage e io body g =
     (case drain (gi_upload io) (cancel_backups g) of
        (g1, Inl err) \<Rightarrow> (g1, uncaught err)
      | (g1, Inr _) \<Rightarrow>
          (case required ''cloudBackupEnabled'' as_bool body of
             None \<Rightarrow> (g1, invalid_request)
           | Some b \<Rightarrow>
               (case set_cloud_backup b (gw_vault g1) of
                  (v, Inl err) \<Rightarrow> (g1\<lparr>gw_vault := v\<rparr>, uncaught err)
                | (v, Inr _) \<Rightarrow>
                    (let g2 = g1\<lparr>gw_vault := v\<rparr>
                     in (if cloud_backup_enabled v then schedule_backup g2 else g2, Done 200 (Json (storage_status v)))))))"

definition select_storage :: "json \<Rightarrow> gate_op" where
  "select_storage body g =
     (if \<not> gate_locked g then (g, internal_error)
      else (case required ''storagePayload'' (string_where (\<lambda>s. length s \<le> 24 * 1024 * 1024)) body of
              None \<Rightarrow> (g, invalid_request)
            | Some s \<Rightarrow>
                (case file_envelope (b64_decode s) storage_header (18 * 1024 * 1024) of
                   Inl err \<Rightarrow> (g, uncaught err)
                 | Inr _ \<Rightarrow> (g\<lparr>gw_pending := Some (b64_decode s)\<rparr>, ok_with [(''storageSelected'', JBool True)]))))"

text \<open>\<open>shard7File\<close> and \<open>exportStorage\<close> ask the database of the session and read the fields of the object.\<close>

definition file_reply :: "string + bytes \<Rightarrow> payload reply" where
  "file_reply r = (case r of Inl err \<Rightarrow> uncaught err | Inr b \<Rightarrow> Done 200 (File b))"

definition shard7_route :: "gate_op" where
  "shard7_route g = (g, file_reply (try_then (sov_database (gw_vault g)) (\<lambda>_. shard7_file (sv_main (gw_vault g)))))"

definition storage_file :: "gate_env \<Rightarrow> gate_io \<Rightarrow> gate_op" where
  "storage_file e io g =
     (g, file_reply (export_storage (ge_env e) (ge_lib e) (io_nonce (gi_io io)) (sv_main (gw_vault g))))"

definition shard7_saved :: "gate_op" where
  "shard7_saved g =
     (case confirm_shard7_saved (gw_vault g) of
        (v, r) \<Rightarrow> (g\<lparr>gw_vault := v\<rparr>, case r of Inl err \<Rightarrow> uncaught err | Inr _ \<Rightarrow> ok_with []))"

definition shard_names :: "string list" where
  "shard_names = [''Hardware shard'', ''SQLite shard'', ''Preferences shard'', ''Binary shard'', ''WebView shard'', ''RAM session shard'',
     ''Relay shard'']"

definition horcrux_route :: "string option \<Rightarrow> gate_op" where
  "horcrux_route present g =
     (case sov_status (Some (present = Some ''true'')) (gw_vault g) of
        ((places, n, complete), external) \<Rightarrow>
          (g, Done 200 (Json (JObj
             [(''sharesPresent'', JInt (int n)), (''totalShares'', JInt 7),
              (''locations'', JObj (zip shard_names (map JBool places))), (''isReconstructable'', JBool complete), (''externalShard7'', JBool external),
              (''configured'', JBool (sec_exists (sv_main (gw_vault g)))), (''locked'', JBool (gate_locked g))]))))"

section \<open>Restoring and changing the password\<close>

definition backup_staged :: "gate_env \<Rightarrow> secure_draw \<Rightarrow> http \<Rightarrow> string \<Rightarrow> string \<Rightarrow> bool" where
  "backup_staged e d answer i p =
     (let keys = derive_vault_keys (ge_env e) i p
      in \<not> isl (try_then (download_backup (ge_env e) (ge_lib e) keys answer) (\<lambda>remote.
           case remote of
             None \<Rightarrow> Inl ''BACKUP_NOT_FOUND_OR_INVALID_CREDENTIALS''
           | Some b \<Rightarrow>
               try_then (open_sealed (ge_env e) \<lparr>se_nonce = bp_nonce b, se_ciphertext = bp_ciphertext b\<rparr> (vk_backup keys) ''vault-backup-v1'') (\<lambda>z.
               try_then (read_snapshot (ge_env e) (unzip_bytes (ge_lib e) snapshot_limit z))
                 (stage_backup (ge_env e) (ge_lib e) (ge_opens e) d (ge_dir e) keys (bp_version b))))))"

definition sov_restore ::
  "gate_env \<Rightarrow> secure_draw \<Rightarrow> http \<Rightarrow> string \<Rightarrow> string \<Rightarrow> sovereign \<Rightarrow> sovereign \<times> (string + string \<times> bytes)" where
  "sov_restore e d answer i p s =
     (if \<not> sov_locked s then (s, Inl ''LOCK_BEFORE_RESTORE'')
      else (case restore_secure (ge_env e) (ge_lib e) (ge_opens e) d answer (ge_dir e) i p (sv_main s) of
              (w, r) \<Rightarrow> (in_place (backup_staged e d answer i p) w s, r)))"

text \<open>The session with the relay is not cleared here.\<close>

definition restore_route :: "gate_env \<Rightarrow> gate_io \<Rightarrow> json \<Rightarrow> gate_op" where
  "restore_route e io body g =
     (case vault_restore_schema body of
        None \<Rightarrow> (g, invalid_request)
      | Some (i, p) \<Rightarrow>
          (let d = io_draw (gi_io io); g1 = configuration_replaced (backup_staged e d (gi_answer io) i p) (halt_tor g)
           in case sov_restore e d (gi_answer io) i p (gw_vault g) of
                (v, Inl _) \<Rightarrow> (g1\<lparr>gw_vault := v\<rparr>, Fail 400 ''RESTORE_FAILED_CHECK_CREDENTIALS_AND_RELAY'')
              | (v, Inr (client, capsule)) \<Rightarrow> (g1\<lparr>gw_vault := v\<rparr>, ok_with (shards_reply client (Some capsule)))))"

definition sov_change_password ::
  "gate_env \<Rightarrow> gate_io \<Rightarrow> string \<Rightarrow> string \<Rightarrow> string \<Rightarrow> sovereign \<Rightarrow> sovereign \<times> (string + string \<times> bytes option)" where
  "sov_change_password e io i old new s =
     (case change_secure_password (ge_env e) (ge_lib e) (ge_opens e) (gi_io io) (gi_io' io) (gi_gone io) (gi_answer io) i old new
             (sv_main s) of
        (w, r) \<Rightarrow> (s\<lparr>sv_main := w\<rparr>, r))"

text \<open>
  The scheduled backup is dropped before anything is checked. An id that is the duress id as well, with
  which the last unlocking would open the decoy, is not modelled.
\<close>

definition change_route :: "gate_env \<Rightarrow> gate_io \<Rightarrow> json \<Rightarrow> gate_op" where
  "change_route e io body g =
     (case drain (gi_upload io) (cancel_backups g) of
        (g1, Inl err) \<Rightarrow> (g1, uncaught err)
      | (g1, Inr _) \<Rightarrow>
          (case change_schema body of
             None \<Rightarrow> (g1, invalid_request)
           | Some (i, old, new) \<Rightarrow>
               (case sov_change_password e io i old new (gw_vault g1) of
                  (v, Inl err) \<Rightarrow> ((halt_tor g1)\<lparr>gw_vault := v\<rparr>, Fail 400 err)
                | (v, Inr (client, capsule)) \<Rightarrow>
                    ((halt_tor g1)\<lparr>gw_vault := v\<rparr>,
                     ok_with (if s_config (sv_main (gw_vault g1)) = None then [] else shards_reply client capsule)))))"

definition duress_route :: "gate_env \<Rightarrow> gate_io \<Rightarrow> decoy_draw \<Rightarrow> json \<Rightarrow> gate_op" where
  "duress_route e io d body g =
     (case required ''duressId'' (string_where (\<lambda>s. 16 \<le> length s \<and> length s \<le> 256)) body of
        None \<Rightarrow> (g, invalid_request)
      | Some i \<Rightarrow>
          (case configure_duress (ge_env e) (ge_lib e) (ge_opens e) (gi_io io) (gi_io' io) d i (gw_vault g) of
             (v, Inl err) \<Rightarrow> (g\<lparr>gw_vault := v\<rparr>, uncaught err)
           | (v, Inr client) \<Rightarrow> (g\<lparr>gw_vault := v\<rparr>, ok_with [(''decoyClientShard'', JStr client)])))"

section \<open>Change notifications\<close>

text \<open>\<open>cursor\<close> is the number in the query, \<open>None\<close> what is none; a request that waits has no reply yet.\<close>

definition events_route :: "nat \<Rightarrow> int option \<Rightarrow> gateway \<Rightarrow> gateway \<times> payload reply option \<times> feed_reply list" where
  "events_route n cursor g =
     (if gate_locked g then (g, Some (Fail 409 ''vault_locked''), [])
      else (case cursor of
              None \<Rightarrow> (g, Some invalid_request, [])
            | Some c \<Rightarrow>
                if c < 0 then (g, Some invalid_request, [])
                else (case wait_after n c False (gw_feed g) of (f, rs) \<Rightarrow> (g\<lparr>gw_feed := f\<rparr>, None, rs))))"

end
