(* ===== verification/Daemon_Routes.thy ===== *)
theory Daemon_Routes
  imports Daemon_Gateway Tor_Contacts Logging
begin

text \<open>
  \<open>server.ts\<close>: the routes that register the device, that show and choose the transport, and that work on the
  open database.
\<close>

section \<open>Operations on the open database\<close>

definition put_db :: "local_db \<Rightarrow> gateway \<Rightarrow> gateway" where
  "put_db db g = g\<lparr>gw_vault := sov_map (set_db (\<lambda>_. db)) (gw_vault g)\<rparr>"

definition run_op :: "(typing, 'a) daemon_op \<Rightarrow> gateway \<Rightarrow> gateway \<times> (string + 'a)" where
  "run_op m g =
     (case sov_database (gw_vault g) of
        Inl err \<Rightarrow> (g, Inl err)
      | Inr db \<Rightarrow> (case m (db, gw_typing g) of ((db', t), r) \<Rightarrow> ((put_db db' g)\<lparr>gw_typing := t\<rparr>, r)))"

text \<open>A change of the database that is then to be backed up.\<close>

definition backed_up :: "('a \<Rightarrow> payload reply) \<Rightarrow> gateway \<times> (string + 'a) \<Rightarrow> gateway \<times> payload reply" where
  "backed_up f x = (case x of (g, Inl err) \<Rightarrow> (g, uncaught err) | (g, Inr a) \<Rightarrow> (schedule_backup g, f a))"

definition backup_pending :: "(string \<times> json) list" where
  "backup_pending = [(''backupPending'', JBool True)]"

definition value_reply :: "(string \<times> json) list \<Rightarrow> payload reply" where
  "value_reply kvs = Done 200 (Json (JObj kvs))"

definition awake :: "gateway \<Rightarrow> bool" where
  "awake g \<longleftrightarrow> \<not> gate_locked g \<and> \<not> pm_quick (gw_pin g) \<and> \<not> sv_active (gw_vault g)"

definition own_device :: "local_db \<Rightarrow> string" where
  "own_device db = (case l_account db of None \<Rightarrow> [] | Some a \<Rightarrow> sa_device a)"

text \<open>\<open>ensureTor\<close> with the device of the database.\<close>

definition start_tor :: "gate_io \<Rightarrow> gateway \<Rightarrow> gateway" where
  "start_tor io g =
     (case sov_database (gw_vault g) of
        Inl _ \<Rightarrow> g
      | Inr db \<Rightarrow> g\<lparr>gw_routing := ensure_tor (awake g) (gi_now io) (own_device db) db (gw_routing g)\<rparr>)"

definition mode_name :: "tor_mode \<Rightarrow> string" where
  "mode_name m = (case m of Direct_Tor \<Rightarrow> ''DIRECT_TOR_P2P'' | Hybrid_Tor \<Rightarrow> ''HYBRID_TOR_RELAY'' | Relay_Only \<Rightarrow> ''RELAY_ONLY'')"

definition some_field :: "string \<Rightarrow> string option \<Rightarrow> (string \<times> json) list" where
  "some_field k x = (case x of None \<Rightarrow> [] | Some s \<Rightarrow> [(k, JStr s)])"

text \<open>\<open>torStatus\<close>; fields that are \<open>undefined\<close> are left out.\<close>

definition status_fields :: "transport_status \<Rightarrow> (string \<times> json) list" where
  "status_fields st =
     [(''activeTransport'', JStr (if st_serverless st then ''Direct Tor Onion P2P'' else ''Tor connecting'')),
      (''serverless'', JBool (st_serverless st)), (''bootstrapPercent'', JInt (int (st_bootstrap st))),
      (''descriptorPublished'', JBool (st_descriptor st))] @ some_field ''errorCode'' (st_failure st) @
     [(''peerEnvelopes'', JInt (int (st_envelopes st))), (''peerChunks'', JInt (int (st_chunks st)))] @
     some_field ''peerError'' (st_peer_error st)"

definition transport_fields :: "routing \<Rightarrow> (string \<times> json) list" where
  "transport_fields r =
     (case rt_transport r of
        Some t \<Rightarrow> status_fields (tor_status t)
      | None \<Rightarrow> [(''activeTransport'', JStr (if rt_mode r = Relay_Only then ''Encrypted Relay'' else ''Tor connecting'')),
          (''serverless'', JBool False), (''bootstrapPercent'', JInt 0)]) @
     [(''mode'', JStr (mode_name (rt_mode r)))] @ some_field ''transferError'' (nonempty (rt_error r))"

definition transport_route :: "gateway \<Rightarrow> payload reply" where
  "transport_route g = value_reply (transport_fields (gw_routing g))"

definition privacy_route :: "gateway \<Rightarrow> payload reply" where
  "privacy_route g = value_reply (transport_fields (gw_routing g) @
     [(''relayOnly'', JBool (rt_mode (gw_routing g) = Relay_Only)), (''blindRouting'', JBool False),
      (''duressArmed'', JBool (sv_registry (gw_vault g) \<noteq> None)), (''liveRelayAnonymity'', JBool False)])"

definition mode_route :: "gate_io \<Rightarrow> json \<Rightarrow> gate_op" where
  "mode_route io body g =
     (case required ''mode'' (string_where (\<lambda>s. s \<in> {''DIRECT_TOR_P2P'', ''HYBRID_TOR_RELAY'', ''RELAY_ONLY''})) body of
        None \<Rightarrow> (g, invalid_request)
      | Some m \<Rightarrow>
          (case sov_database (gw_vault g) of
             Inl err \<Rightarrow> (g, uncaught err)
           | Inr db \<Rightarrow>
               (case set_mode (mode_of (Some m)) (awake g) (gi_now io) (own_device db) (db, gw_routing g) of
                  (db', r) \<Rightarrow>
                    (end_session ((put_db db' g)\<lparr>gw_routing := r\<rparr>), value_reply (transport_fields r)))))"

section \<open>Registration\<close>

definition access_state :: "gate_op" where
  "access_state g =
     (if sv_active (gw_vault g) then (g, value_reply [(''status'', JStr ''activated'')])
      else (case sov_database (gw_vault g) of
              Inl err \<Rightarrow> (g, uncaught err)
            | Inr db \<Rightarrow> (g,
                case l_activation db of
                  None \<Rightarrow> value_reply [(''status'', JStr ''idle'')]
                | Some a \<Rightarrow> value_reply
                    ([(''requestId'', JStr (an_request a)), (''username'', JStr (an_name a)),
                      (''status'', JStr (case an_status a of Act_Pending \<Rightarrow> ''pending'' | Act_Activated \<Rightarrow> ''activated''))] @
                     (case l_public_uid db of None \<Rightarrow> [] | Some u \<Rightarrow> [(''publicUid'', JStr u)]) @
                     (case an_expires a of None \<Rightarrow> [] | Some t \<Rightarrow> [(''expiresAt'', JStr t)])))))"

text \<open>The answer of the relay is used unchecked; without one of the fields it counts as an exception here.\<close>

definition activated_of :: "json \<Rightarrow> (registration \<times> ms) option" where
  "activated_of j = do {
     u \<leftarrow> required ''userId'' as_string j;
     d \<leftarrow> required ''deviceId'' as_string j;
     n \<leftarrow> required ''username'' as_string j;
     t \<leftarrow> required ''sessionToken'' as_string j;
     x \<leftarrow> required ''expiresAt'' (int_where (\<lambda>_. True)) j;
     Some (\<lparr>rg_user = u, rg_device = d, rg_name = n, rg_token = t, rg_uid = Option.bind (field ''publicUid'' j) as_string\<rparr>, x) }"

definition activation_reply :: "string option \<Rightarrow> json" where
  "activation_reply u = JObj ([(''ok'', JBool True), (''activated'', JBool True)] @
     (case u of None \<Rightarrow> [] | Some s \<Rightarrow> [(''publicUid'', JStr s)]))"

definition activate_identity ::
  "gate_env \<Rightarrow> fresh_identity \<Rightarrow> ms \<Rightarrow> http \<Rightarrow> gateway \<Rightarrow> gateway \<times> (client_error + json)" where
  "activate_identity e f now answer g =
     (case sov_database (gw_vault g) of
        Inl err \<Rightarrow> (g, Inl (Other_Error err))
      | Inr db \<Rightarrow>
          if is_registered db then (g, Inl (Other_Error ''ALREADY_REGISTERED''))
          else (case ensure_identity (ge_env e) f now db of
             Inl err \<Rightarrow> (g, Inl (Other_Error err))
           | Inr (db1, _) \<Rightarrow>
               (let g1 = put_db db1 g
                in case json_answer (ge_env e) answer of
                     Inl err \<Rightarrow> (g1, Inl err)
                   | Inr j \<Rightarrow>
                       (case activated_of j of
                          None \<Rightarrow> (g1, Inl (Other_Error ''TypeError''))
                        | Some (r, x) \<Rightarrow>
                            (case complete_registration now r db1 of
                               Inl err \<Rightarrow> (g1, Inl (Other_Error err))
                             | Inr db2 \<Rightarrow>
                                 (schedule_backup ((put_db db2 g1)\<lparr>gw_client := accept_session (rg_token r) x (gw_client g1)\<rparr>),
                                  Inr (activation_reply (rg_uid r))))))))"

definition activate_schema :: "(string \<Rightarrow> bool) \<Rightarrow> json \<Rightarrow> (string \<times> string) option" where
  "activate_schema uuid j = do {
     r \<leftarrow> required ''requestId'' (string_where uuid) j;
     c \<leftarrow> required ''activationCode'' (string_where (\<lambda>s. 20 \<le> length s \<and> length s \<le> 256)) j;
     Some (r, c) }"

definition activate_route :: "gate_env \<Rightarrow> fresh_identity \<Rightarrow> gate_io \<Rightarrow> json \<Rightarrow> gate_op" where
  "activate_route e f io body g =
     (case activate_schema (is_uuid (ge_env e)) body of
        None \<Rightarrow> (g, invalid_request)
      | Some _ \<Rightarrow>
          (case activate_identity e f (gi_now io) (gi_answer io) g of
             (g1, Inl (Other_Error err)) \<Rightarrow> (g1, uncaught err)
           | (g1, Inl (Relay_Error _ _)) \<Rightarrow> (g1, internal_error)
           | (g1, Inr j) \<Rightarrow> (g1, Done 200 (Json j))))"

text \<open>\<open>accessApplyResponseSchema\<close>: request, name, activation code and expiry.\<close>

definition applied_of :: "gate_env \<Rightarrow> json \<Rightarrow> (string \<times> string \<times> string option \<times> string option) option" where
  "applied_of e j = do {
     r \<leftarrow> required ''requestId'' (string_where (is_uuid (ge_env e))) j;
     n \<leftarrow> required ''username'' username_schema j;
     _ \<leftarrow> required ''status'' (string_where (\<lambda>s. s \<in> {''pending'', ''approved''})) j;
     c \<leftarrow> optional ''activationCode'' (string_where (\<lambda>s. 20 \<le> length s \<and> length s \<le> 256)) j;
     x \<leftarrow> optional ''expiresAt'' (string_where (datetime_ok (ge_lib e))) j;
     Some (r, n, c, x) }"

definition apply_db :: "string \<Rightarrow> string \<Rightarrow> string \<Rightarrow> string option \<Rightarrow> ms \<Rightarrow> local_db \<Rightarrow> local_db" where
  "apply_db r n c x now db = db
     \<lparr>l_activation := Some \<lparr>an_request = r, an_name = n, an_status = Act_Pending, an_expires = x, an_updated = now\<rparr>,
      l_claim := Some \<lparr>am_request = r, am_name = n, am_token = c\<rparr>\<rparr>"

text \<open>Without a relay the device names itself after its identity.\<close>

definition self_registered :: "gate_env \<Rightarrow> string \<Rightarrow> string \<Rightarrow> published_bundle \<Rightarrow> ms \<Rightarrow> local_db \<Rightarrow> local_db" where
  "self_registered e fresh name b now db = (set_account (pb_device b) db)
     \<lparr>l_activation := Some \<lparr>an_request = fresh, an_name = name, an_status = Act_Activated, an_expires = None, an_updated = now\<rparr>,
      l_public_uid := Some (format_public_uid (dg_sha256 (ge_env e)) (pb_identity b))\<rparr>"

definition direct_activate :: "gate_env \<Rightarrow> fresh_identity \<Rightarrow> string \<Rightarrow> gate_io \<Rightarrow> string \<Rightarrow> local_db \<Rightarrow> gateway \<Rightarrow> gateway \<times> (client_error + json)" where
  "direct_activate e f fresh io name db g =
     (if \<not> username_ok name then (g, Inl (Other_Error ''ZodError''))
      else (case ensure_identity (ge_env e) f (gi_now io) db of
              Inl err \<Rightarrow> (g, Inl (Other_Error err))
            | Inr (db1, b) \<Rightarrow>
                (let db2 = self_registered e fresh name b (gi_now io) db1
                 in (schedule_backup (start_tor io (put_db db2 g)), Inr (activation_reply (l_public_uid db2))))))"

text \<open>\<open>asked\<close> is the answer to the application, the \<open>gi_answer\<close> the one to the activation.\<close>

definition self_activate ::
  "gate_env \<Rightarrow> fresh_identity \<Rightarrow> string \<Rightarrow> gate_io \<Rightarrow> http \<Rightarrow> string \<Rightarrow> gateway \<Rightarrow> gateway \<times> (client_error + json)" where
  "self_activate e f fresh io asked name g =
     (let g0 = start_tor io g
      in case sov_database (gw_vault g0) of
           Inl err \<Rightarrow> (g0, Inl (Other_Error err))
         | Inr db \<Rightarrow>
             if is_registered db then (g0, Inl (Other_Error ''ALREADY_REGISTERED''))
             else if rt_mode (gw_routing g0) = Direct_Tor then direct_activate e f fresh io name db g0
             else if (case l_claim db of None \<Rightarrow> False | Some c \<Rightarrow> am_name c = name)
             then activate_identity e f (gi_now io) (gi_answer io) g0
             else (case json_answer (ge_env e) asked of
                     Inl err \<Rightarrow> (g0, Inl err)
                   | Inr j \<Rightarrow>
                       (case applied_of e j of
                          None \<Rightarrow> (g0, Inl (Other_Error ''ZodError''))
                        | Some (_, _, None, _) \<Rightarrow> (g0, Inl (Other_Error ''SELF_SERVE_UNAVAILABLE''))
                        | Some (r, n, Some c, x) \<Rightarrow>
                            activate_identity e f (gi_now io) (gi_answer io) (put_db (apply_db r n c x (gi_now io) db) g0))))"

definition error_reply :: "gate_env \<Rightarrow> client_error \<Rightarrow> payload reply" where
  "error_reply e err = (case err of Relay_Error n j \<Rightarrow> Fail n (text_of (ge_env e) (Some j)) | Other_Error s \<Rightarrow> Fail 400 s)"

definition apply_route :: "gate_env \<Rightarrow> fresh_identity \<Rightarrow> string \<Rightarrow> gate_io \<Rightarrow> http \<Rightarrow> json \<Rightarrow> gate_op" where
  "apply_route e f fresh io asked body g =
     (case required ''username'' as_string body of
        None \<Rightarrow> (g, Fail 400 ''ZodError'')
      | Some name \<Rightarrow>
          (case self_activate e f fresh io asked name g of
             (g1, Inl err) \<Rightarrow> (g1, error_reply e err)
           | (g1, Inr j) \<Rightarrow> (g1, Done 200 (Json j))))"

section \<open>Contacts and requests\<close>

definition opt_json :: "('a \<Rightarrow> json) \<Rightarrow> 'a option \<Rightarrow> json" where
  "opt_json f x = (case x of None \<Rightarrow> JNull | Some a \<Rightarrow> f a)"

text \<open>A contact with a profile and a remote address, or without, in one of its conversations.\<close>

definition contact_json :: "gate_env \<Rightarrow> peer_profile option \<Rightarrow> contact \<Rightarrow> conversation \<Rightarrow> remote_contact option \<Rightarrow> json" where
  "contact_json e p c v r = JObj
     ([(''displayName'', opt_json (JStr \<circ> pp_name) p), (''statusLine'', opt_json (JStr \<circ> pp_status) p),
       (''contact_id'', JStr (ct_id c)), (''username'', JStr (ct_name c)), (''public_uid'', opt_json JStr (ct_uid c)),
       (''verified'', JInt (if ct_verified c then 1 else 0)), (''identity_changed'', JInt (if ct_changed c then 1 else 0)),
       (''safety_number_hash'', opt_json JStr (ct_safety c)), (''user_id'', opt_json (JStr \<circ> rm_user) r),
       (''conversation_id'', JStr (co_id v)), (''disappearing_seconds'', opt_json JInt (co_timer v))] @
      (case (ct_uid c, r) of
         (Some u, _) \<Rightarrow> [(''publicUid'', JStr u)]
       | (None, Some m) \<Rightarrow>
           if rm_user m = [] then [] else [(''publicUid'', JStr (format_public_uid (dg_sha256 (ge_env e)) (rm_user m)))]
       | _ \<Rightarrow> []))"

text \<open>\<open>LEFT JOIN\<close>\<close>

definition left_rows :: "('a \<Rightarrow> bool) \<Rightarrow> 'a list \<Rightarrow> 'a option list" where
  "left_rows p xs = (case filter p xs of [] \<Rightarrow> [None] | ys \<Rightarrow> map Some ys)"

definition contacts_list :: "gate_env \<Rightarrow> local_db \<Rightarrow> json list" where
  "contacts_list e db =
     map snd (sort_key fst
       [(ct_name c, contact_json e p c v r). c \<leftarrow> l_contacts db, p \<leftarrow> left_rows (\<lambda>p. pp_contact p = ct_id c) (l_peer_profiles db),
          v \<leftarrow> filter (\<lambda>v. co_contact v = ct_id c) (l_conversations db),
          r \<leftarrow> left_rows (\<lambda>r. rm_contact r = ct_id c) (l_remotes db)])"

definition contacts_route :: "gate_env \<Rightarrow> gate_op" where
  "contacts_route e g =
     (g, case sov_database (gw_vault g) of Inl err \<Rightarrow> uncaught err | Inr db \<Rightarrow> Done 200 (Json (JArr (contacts_list e db))))"

definition add_contact_route ::
  "gate_env \<Rightarrow> string \<Rightarrow> (nat \<Rightarrow> ms) \<Rightarrow> fetched_bundle option \<Rightarrow> json \<Rightarrow> gate_op" where
  "add_contact_route e fresh clock answer body g =
     (case required ''username'' as_string body of
        None \<Rightarrow> (g, invalid_request)
      | Some n \<Rightarrow> backed_up (\<lambda>(v, safety). value_reply ([(''conversationId'', JStr v), (''verified'', JBool False),
            (''safetyNumber'', JStr safety)] @ backup_pending))
          (run_op (add_contact (ge_env e) fresh clock answer n) g))"

definition import_contact_route :: "gate_env \<Rightarrow> invite_env \<Rightarrow> string \<Rightarrow> ms \<Rightarrow> json \<Rightarrow> gate_op" where
  "import_contact_route e ienv fresh now body g =
     (case required ''uri'' (string_where (\<lambda>s. length s \<le> 4096)) body of
        None \<Rightarrow> (g, invalid_request)
      | Some uri \<Rightarrow>
          (case backed_up (\<lambda>(v, safety). value_reply [(''conversationId'', JStr v), (''verified'', JBool True), (''safetyNumber'', JStr safety)])
              (run_op (bind_op (look own_device) (\<lambda>d. import_contact (ge_env e) ienv d uri fresh now)) g) of
             (g1, Done n p) \<Rightarrow> (announce ''CONTACTS_CHANGED'' g1, Done n p)
           | x \<Rightarrow> x))"

definition verify_route :: "string \<Rightarrow> json \<Rightarrow> gate_op" where
  "verify_route c body g =
     (case required ''safetyNumber'' as_string body of
        None \<Rightarrow> (g, invalid_request)
      | Some n \<Rightarrow>
          (case run_op (attempt (verify_contact c n)) g of
             (g1, Inl err) \<Rightarrow> (g1, if err = ''INVALID_REQUEST'' then invalid_request
                else if err = ''SAFETY_NUMBER_CHANGED'' then Fail 409 err else uncaught err)
           | (g1, Inr _) \<Rightarrow> (schedule_backup g1, ok_with backup_pending)))"

definition registered_db :: "gateway \<Rightarrow> payload reply + local_db" where
  "registered_db g =
     (case sov_database (gw_vault g) of
        Inl err \<Rightarrow> Inl (uncaught err)
      | Inr db \<Rightarrow> if is_registered db then Inr db else Inl (Fail 409 ''DEVICE_NOT_REGISTERED''))"

text \<open>\<open>reply.code(res.status).send(await res.json())\<close>\<close>

definition relay_answer :: "gate_env \<Rightarrow> (json \<Rightarrow> json) \<Rightarrow> http \<Rightarrow> payload reply" where
  "relay_answer e f a =
     (case a of
        Unreached \<Rightarrow> internal_error
      | Http n body \<Rightarrow> (case json_parse (ge_env e) body of None \<Rightarrow> internal_error | Some j \<Rightarrow> Done n (Json (f j))))"

definition asked_name :: "string \<Rightarrow> string" where
  "asked_name s = (let v = trim s in if starts_with ''CP-'' (to_upper v) then to_upper v else to_lower v)"

text \<open>The body of the request to the relay.\<close>

definition ask_request :: "json \<Rightarrow> json option" where
  "ask_request body = map_option (\<lambda>s. JObj [(''recipientUsername'', JStr (asked_name s))]) (required ''recipientUsername'' as_string body)"

definition ask_route :: "gate_env \<Rightarrow> gate_io \<Rightarrow> json \<Rightarrow> gate_op" where
  "ask_route e io body g =
     (g, case ask_request body of
           None \<Rightarrow> invalid_request
         | Some _ \<Rightarrow> (case registered_db g of Inl r \<Rightarrow> r | Inr _ \<Rightarrow> relay_answer e (\<lambda>j. j) (gi_answer io)))"

definition requests_route :: "gate_env \<Rightarrow> gate_io \<Rightarrow> gate_op" where
  "requests_route e io g =
     (g, if rt_mode (gw_routing g) = Direct_Tor then Done 200 (Json (JArr []))
         else (case registered_db g of Inl r \<Rightarrow> r | Inr _ \<Rightarrow> relay_answer e (\<lambda>j. j) (gi_answer io)))"

definition decide_request :: "gate_env \<Rightarrow> gate_io \<Rightarrow> string \<Rightarrow> string \<Rightarrow> gate_op" where
  "decide_request e io request decision g =
     (if \<not> is_uuid (ge_env e) request \<or> decision \<notin> {''accept'', ''reject''} then (g, invalid_request)
      else (case registered_db g of
         Inl r \<Rightarrow> (g, r)
       | Inr _ \<Rightarrow>
           (let fine = (case gi_answer io of Unreached \<Rightarrow> False | Http n _ \<Rightarrow> http_ok n)
            in (if fine then schedule_backup g else g,
                relay_answer e (\<lambda>j. JObj (map_set ''backupPending'' (JBool fine) (spread j))) (gi_answer io)))))"

section \<open>Messages\<close>

definition send_schema :: "gate_env \<Rightarrow> json \<Rightarrow> (string \<times> string \<times> json option) option" where
  "send_schema e j = do {
     v \<leftarrow> required ''conversationId'' (string_where (is_uuid (ge_env e))) j;
     t \<leftarrow> required ''plaintext'' as_string j;
     Some (v, t, Option.bind (field ''attachmentManifest'' j) (\<lambda>a. if truthy a then Some a else None)) }"

definition gate_key :: "gateway \<Rightarrow> bytes" where
  "gate_key g = (case attachment_key (s_vault (sov_vault (gw_vault g))) of Inl _ \<Rightarrow> [] | Inr k \<Rightarrow> k)"

definition send_route :: "gate_env \<Rightarrow> send_draw \<Rightarrow> (outgoing \<Rightarrow> bool) \<Rightarrow> json \<Rightarrow> gate_op" where
  "send_route e d post body g =
     (case send_schema e body of
        None \<Rightarrow> (g, invalid_request)
      | Some (v, t, a) \<Rightarrow>
          backed_up (\<lambda>(m, st). value_reply ([(''messageId'', JStr m), (''status'', JStr st)] @ backup_pending))
            (run_op (send_message_local (ge_env e) (ge_root e) (gate_key g) d post True v t a) g))"

definition timer_route :: "gate_env \<Rightarrow> string \<Rightarrow> json \<Rightarrow> gate_op" where
  "timer_route e v body g =
     (case required ''seconds'' (int_where (\<lambda>_. True)) body of
        None \<Rightarrow> (g, invalid_request)
      | Some s \<Rightarrow>
          (case run_op (attempt (set_timer (ge_env e) v s)) g of
             (g1, Inl err) \<Rightarrow> (g1, if err = ''INVALID_REQUEST'' then invalid_request else uncaught err)
           | (g1, Inr _) \<Rightarrow> (schedule_backup g1, ok_with backup_pending)))"

definition message_json :: "local_message \<times> local_attachment option \<Rightarrow> json" where
  "message_json x = (case x of (m, a) \<Rightarrow> JObj
     [(''message_id'', JStr (lm_id m)), (''conversation_id'', JStr (lm_conversation m)),
      (''direction'', JStr (case lm_direction m of Sent \<Rightarrow> ''sent'' | Received \<Rightarrow> ''received'')), (''plaintext'', JStr (lm_text m)),
      (''sent_at'', opt_json JInt (lm_sent m)), (''received_at'', opt_json JInt (lm_received m)), (''status'', JStr (lm_status m)),
      (''attachment_id'', opt_json (JStr \<circ> at_id) a), (''file_size'', opt_json (JInt \<circ> at_size) a),
      (''attachment_ready'', JInt (case a of None \<Rightarrow> 0 | Some y \<Rightarrow> if at_path y = None then 0 else 1))])"

definition messages_json :: "string \<Rightarrow> ms \<Rightarrow> local_db \<Rightarrow> json" where
  "messages_json v now db = JArr (map message_json (conversation_messages v now db))"

definition messages_route :: "gate_env \<Rightarrow> string \<Rightarrow> ms \<Rightarrow> gate_op" where
  "messages_route e v now g =
     (g, if \<not> is_uuid (ge_env e) v then invalid_request
         else (case sov_database (gw_vault g) of Inl err \<Rightarrow> uncaught err | Inr db \<Rightarrow> Done 200 (Json (messages_json v now db))))"

text \<open>
  What \<open>POST /api/fetch-messages\<close> needs: whether the relay takes an envelope, the bundles it answers with,
  random values and clocks, and its list of pending envelopes.
\<close>

record fetch_io =
  fi_now :: ms
  fi_post :: "outgoing \<Rightarrow> bool"
  fi_bundle :: "string \<Rightarrow> fetched_bundle option"
  fi_draws :: "nat \<Rightarrow> sync_draw"
  fi_pending :: "json list option"
  fi_control :: "string \<Rightarrow> bool"
  fi_clock :: "string \<Rightarrow> ms"

definition with_messages :: "string option \<Rightarrow> ms \<Rightarrow> local_db \<Rightarrow> (string \<times> json) list" where
  "with_messages v now db =
     (case v of None \<Rightarrow> [] | Some i \<Rightarrow> [(''conversationId'', JStr i), (''messages'', messages_json i now db)])"

definition fetch_decoy :: "fetch_io \<Rightarrow> json \<Rightarrow> gate_op" where
  "fetch_decoy fi body g =
     (g, case sov_database (gw_vault g) of
           Inl err \<Rightarrow> uncaught err
         | Inr db \<Rightarrow> value_reply ([(''received'', JInt 0), (''sent'', JInt 0), (''typing'', JBool False)] @
             with_messages (case field ''conversationId'' body of Some (JStr (c # i)) \<Rightarrow> Some (c # i) | _ \<Rightarrow> None) (fi_now fi) db))"

text \<open>The reply; the id is checked only here, after the queues were worked off.\<close>

definition fetched_reply :: "gate_env \<Rightarrow> fetch_io \<Rightarrow> json \<Rightarrow> nat \<Rightarrow> nat \<Rightarrow> gate_op" where
  "fetched_reply e fi body n sent g =
     (g, case (optional ''conversationId'' (string_where (is_uuid (ge_env e))) body, sov_database (gw_vault g)) of
           (Some v, Inr db) \<Rightarrow> value_reply
             ([(''typing'', JBool (case v of None \<Rightarrow> False | Some i \<Rightarrow>
                  (case map_get (gw_typing g) i of None \<Rightarrow> fi_now fi < 0 | Some t \<Rightarrow> fi_now fi < t))),
               (''received'', JInt (int n)), (''sent'', JInt (int sent)), (''backupPending'', JBool (pending_backup (gw_job g)))] @
              with_messages v (fi_now fi) db)
         | _ \<Rightarrow> invalid_request)"

definition fetch_queues :: "gate_env \<Rightarrow> fetch_io \<Rightarrow> gateway \<Rightarrow> gateway \<times> (string + nat \<times> nat)" where
  "fetch_queues e fi g =
     (let (c, pushed) = take_pushed (fst (watch (Some (rt_mode (gw_routing g))) (gw_client g)))
      in run_op
        (bind_op (on_db (\<lambda>db. case flush_outbox (fi_post fi) (fi_now fi) db of (db', _, k) \<Rightarrow> (db', Inr k))) (\<lambda>sent.
         bind_op (sync_messages (ge_env e) (gate_key g) (fi_bundle fi) (fi_draws fi) pushed (fi_pending fi)) (\<lambda>(_, n).
         then_op (change (\<lambda>db. fst (flush_controls (fi_control fi) (fi_clock fi) db))) (ret (n, sent)))))
        (g\<lparr>gw_client := c\<rparr>))"

definition fetch_route :: "gate_env \<Rightarrow> fetch_io \<Rightarrow> json \<Rightarrow> gate_op" where
  "fetch_route e fi body g =
     (if sv_active (gw_vault g) then fetch_decoy fi body g
      else (case registered_db g of
              Inl r \<Rightarrow> (g, r)
            | Inr _ \<Rightarrow>
                (case fetch_queues e fi g of
                   (g1, Inl err) \<Rightarrow> (g1, uncaught err)
                 | (g1, Inr (n, sent)) \<Rightarrow>
                     fetched_reply e fi body n sent (if 0 < n \<or> 0 < sent then schedule_backup g1 else g1))))"

section \<open>Profile, control messages and the session PIN\<close>

definition profile_route :: "gate_op" where
  "profile_route g =
     (g, case sov_database (gw_vault g) of Inl err \<Rightarrow> uncaught err | Inr db \<Rightarrow> Done 200 (Json (profile_json db)))"

definition set_profile_route ::
  "gate_env \<Rightarrow> (string \<Rightarrow> bytes \<times> ms) \<Rightarrow> fetch_io \<Rightarrow> json \<Rightarrow> gate_op" where
  "set_profile_route e draw fi body g =
     (case (required ''displayName'' as_string body, required ''statusLine'' as_string body) of
        (Some n, Some s) \<Rightarrow>
          (case run_op (post_profile (ge_env e) draw (fi_control fi) (fi_clock fi) n s) g of
             (g1, Inl err) \<Rightarrow> (g1, if err = ''INVALID_REQUEST'' then invalid_request else uncaught err)
           | (g1, Inr (n1, s1)) \<Rightarrow> (schedule_backup g1, value_reply [(''displayName'', JStr n1), (''statusLine'', JStr s1)]))
      | _ \<Rightarrow> (g, invalid_request))"

definition control_route :: "gate_env \<Rightarrow> bytes \<Rightarrow> (nat \<Rightarrow> ms) \<Rightarrow> fetch_io \<Rightarrow> string \<Rightarrow> control_kind \<Rightarrow> gate_op" where
  "control_route e envelope now fi v kind g =
     (case run_op (bind_op (look (last_received v)) (\<lambda>link.
          then_op (post_control (ge_env e) envelope now (fi_control fi) (fi_clock fi) v kind) (ret (kind = Typing \<or> link \<noteq> None)))) g of
        (g1, Inl err) \<Rightarrow> (g1, if err = ''INVALID_REQUEST'' then invalid_request else uncaught err)
      | (g1, Inr queued) \<Rightarrow> (if queued then schedule_backup g1 else g1, ok_with []))"

definition pin_route :: "gate_env \<Rightarrow> bytes \<Rightarrow> json \<Rightarrow> gate_op" where
  "pin_route e salt body g =
     (case required ''pin'' as_string body of
        None \<Rightarrow> (g, invalid_request)
      | Some pin \<Rightarrow> backed_up (\<lambda>_. ok_with []) (run_op (attempt (set_pin (ge_env e) salt pin)) g))"

definition quick_lock :: "gate_op" where
  "quick_lock g =
     (case sov_database (gw_vault g) of
        Inl err \<Rightarrow> (g, uncaught err)
      | Inr db \<Rightarrow>
          (case pin_lock db (gw_pin g) of
             (p, n) \<Rightarrow> if n = 409 then (g, Fail 409 ''SET_SESSION_PIN_FIRST'')
                else ((end_session (halt_tor g))\<lparr>gw_pin := p\<rparr>, ok_with [])))"

definition quick_unlock :: "gate_env \<Rightarrow> ms \<Rightarrow> json \<Rightarrow> gate_op" where
  "quick_unlock e now body g =
     (if now < pm_retry (gw_pin g) then (g, Fail 429 ''PIN_RETRY_LATER'')
      else (case required ''pin'' as_string body of
         None \<Rightarrow> (g, invalid_request)
       | Some pin \<Rightarrow>
           (case sov_database (gw_vault g) of
              Inl err \<Rightarrow> (g, uncaught err)
            | Inr db \<Rightarrow>
                (case pin_unlock (ge_env e) db now pin (gw_pin g) of
                   (p, n) \<Rightarrow> (g\<lparr>gw_pin := p\<rparr>, if n = 200 then ok_with [] else Fail 401 ''INVALID_SESSION_PIN'')))))"

section \<open>Attachments\<close>

text \<open>The cached files under their paths.\<close>

definition gate_files :: "gate_env \<Rightarrow> gateway \<Rightarrow> files" where
  "gate_files e g = map (\<lambda>(n, b). (ge_dir e @ n, b)) (s_files (sov_vault (gw_vault g)))"

definition encrypt_route ::
  "gate_env \<Rightarrow> upload_draw \<Rightarrow> (upload_request \<Rightarrow> bool) \<Rightarrow> json \<Rightarrow> gate_op" where
  "encrypt_route e d taken body g =
     (case (required ''filedataB64'' as_string body, required ''filename'' as_string body, required ''mimeType'' as_string body) of
        (Some b, Some n, Some m) \<Rightarrow>
          if gate_locked g \<or> 25 * 1024 * 1024 < length (b64_decode b) then (g, internal_error)
          else (case snd (encrypt_and_upload (ge_env e) (ge_root e) (gate_key g) d taken (b64_decode b) n m (gate_files e g)) of
                  Inl err \<Rightarrow> (g, uncaught err)
                | Inr (fs, mf) \<Rightarrow>
                    (case map_get fs (ge_dir e @ mf_id mf) of
                       None \<Rightarrow> (g, internal_error)
                     | Some raw \<Rightarrow>
                         (g\<lparr>gw_vault := sov_map (\<lambda>w. w\<lparr>s_files := map_set (mf_id mf) raw (s_files w)\<rparr>) (gw_vault g)\<rparr>,
                          Done 200 (Json (manifest_json mf)))))
      | _ \<Rightarrow> (g, invalid_request))"

text \<open>\<open>filename.replace(/[^\x20-\x7E]|["\\;]/g,'_')\<close>\<close>

definition header_name :: "string \<Rightarrow> string" where
  "header_name = map (\<lambda>c. if code c < 32 \<or> 126 < code c \<or> c \<in> {quote_char, backslash, CHR '';''} then CHR ''_'' else c)"

definition disposition :: "(string \<Rightarrow> string) \<Rightarrow> string \<Rightarrow> string" where
  "disposition encode n =
     ''attachment; filename='' @ [quote_char] @ header_name n @ [quote_char] @ ''; filename*=UTF-8'' @ [CHR 39, CHR 39] @ encode n"

definition voice_type :: "string \<Rightarrow> string option" where
  "voice_type n = map_of [(''voice-note.webm'', ''audio/webm''), (''voice-note.ogg'', ''audio/ogg''), (''voice-note.m4a'', ''audio/mp4'')] n"

text \<open>The headers that are set, with the reply; \<open>encode\<close> is \<open>encodeURIComponent\<close>.\<close>

definition download_route ::
  "gate_env \<Rightarrow> (string \<Rightarrow> string) \<Rightarrow> string \<Rightarrow> bool \<Rightarrow> bool \<Rightarrow> gateway \<Rightarrow> (string \<times> string) list \<times> payload reply" where
  "download_route e encode i play download g =
     (if \<not> is_lower_hex_of 32 i then ([], invalid_request)
      else (case sov_database (gw_vault g) of
         Inl err \<Rightarrow> ([], uncaught err)
       | Inr db \<Rightarrow>
           (case find_attachment i db of
              None \<Rightarrow> ([], Fail 404 ''attachment_not_found'')
            | Some a \<Rightarrow>
                if at_path a = None \<or> at_path a = Some [] then ([], Fail 409 ''attachment_pending'')
                else (case read_attachment (ge_env e) (gate_key g) i (gate_files e g) db of
                        Inl err \<Rightarrow> ([], uncaught err)
                      | Inr (n, b) \<Rightarrow>
                          (case (if play then voice_type n else None) of
                             Some t \<Rightarrow> ([(''Content-Type'', t)], Done 200 (File b))
                           | None \<Rightarrow>
                               if download
                               then ([(''Content-Disposition'', disposition encode n), (''Content-Type'', ''application/octet-stream'')],
                                     Done 200 (File b))
                               else ([], Done 200 (Json (JObj [(''filename'', JStr n), (''filedataB64'', JStr (b64_encode b))])))))))) "

end
