(* ===== verification/Daemon_Process.thy ===== *)
theory Daemon_Process
  imports Daemon_Routes Tor_System
begin

text \<open>
  The process of \<open>server.ts\<close> as a whole: the session routes of \<open>auth.ts\<close>, the own invite, the built user
  interface, the request with the hook before its handler, and what runs without a request (the queues of the
  onion transport, expiring messages, downloads, the end of the process).
\<close>

section \<open>The session and the own invite\<close>

definition own_state :: "gateway \<Rightarrow> string" where
  "own_state g = vault_state (sec_exists (sv_main (gw_vault g))) (gate_locked g) (pm_quick (gw_pin g))"

text \<open>A secret that is not a string counts as none.\<close>

definition bootstrap_route :: "ms \<Rightarrow> bytes \<times> bytes \<Rightarrow> json \<Rightarrow> gate_op" where
  "bootstrap_route now random body g =
     (case bootstrap (Option.bind (field ''secret'' body) as_string) now random (gw_session g) of
        (m, Inl (n, err)) \<Rightarrow> (g\<lparr>gw_session := m\<rparr>, Fail n err)
      | (m, Inr csrf) \<Rightarrow> (g\<lparr>gw_session := m\<rparr>, value_reply [(''csrfToken'', JStr csrf), (''vaultState'', JStr (own_state g))]))"

definition session_route :: "ms \<Rightarrow> local_request \<Rightarrow> gateway \<Rightarrow> payload reply" where
  "session_route now r g =
     (case session_query now r (gw_session g) of
        Inl (n, err) \<Rightarrow> Fail n err
      | Inr csrf \<Rightarrow> value_reply [(''csrfToken'', JStr csrf), (''vaultState'', JStr (own_state g))])"

definition invite_route :: "gate_env \<Rightarrow> fresh_identity \<Rightarrow> invite_env \<Rightarrow> gate_io \<Rightarrow> gate_op" where
  "invite_route e f ienv io g =
     (let g1 = start_tor io g
      in case rt_transport (gw_routing g1) of
           None \<Rightarrow> (g1, Fail 503 ''TOR_NOT_READY'')
         | Some t \<Rightarrow>
             if \<not> st_serverless (tor_status t) then (g1, Fail 503 ''TOR_NOT_READY'')
             else (case sov_database (gw_vault g1) of
                     Inl err \<Rightarrow> (g1, uncaught err)
                   | Inr db \<Rightarrow>
                       (case own_invite (ge_env e) ienv f (gi_now io) (tt_onion t) db of
                          Inl err \<Rightarrow> (g1, uncaught err)
                        | Inr (db', Inl err) \<Rightarrow> (put_db db' g1, if err = Invite_Schema then invalid_request else internal_error)
                        | Inr (db', Inr uri) \<Rightarrow> (put_db db' g1, value_reply [(''uri'', JStr uri)]))))"

section \<open>The built user interface\<close>

definition asset_types :: "(string \<times> string) list" where
  "asset_types = [(''js'', ''text/javascript''), (''css'', ''text/css''), (''png'', ''image/png''), (''svg'', ''image/svg+xml''),
     (''woff'', ''font/woff''), (''woff2'', ''font/woff2'')]"

text \<open>\<open>name.split('.').pop()\<close>; the names of the directory's files that end in one of the extensions are read at the start.\<close>

definition extension :: "string \<Rightarrow> string" where
  "extension n = last (split_on (CHR ''.'') n)"

definition known_assets :: "(string \<times> bytes) list \<Rightarrow> (string \<times> bytes) list" where
  "known_assets dir = filter (\<lambda>(n, _). CHR ''.'' \<in> set n \<and> extension n \<in> fst ` set asset_types) dir"

definition asset_route :: "(string \<times> bytes) list \<Rightarrow> string \<Rightarrow> (string \<times> bytes) reply" where
  "asset_route dir n =
     (case map_get (known_assets dir) n of
        None \<Rightarrow> Fail 404 ''asset_not_found''
      | Some b \<Rightarrow> Done 200 (the (map_of asset_types (extension n)), b))"

text \<open>Any other path shows the start page, except under \<open>/api/\<close>.\<close>

definition not_found_route :: "bytes option \<Rightarrow> string \<Rightarrow> (string \<times> bytes) reply" where
  "not_found_route index url =
     (if \<not> starts_with ''/api/'' url \<and> index \<noteq> None then Done 200 (''text/html'', the index) else Fail 404 ''not_found'')"

section \<open>Requests\<close>

text \<open>The routes, each with its body and what it needs from outside.\<close>

datatype api =
    Bootstrap "bytes \<times> bytes" json | Session | Get_Transport | Get_Privacy | Own_Invite fresh_identity invite_env
  | Get_Relay | Put_Relay json | Get_Status | Create json | Open json | Lock | Sync_Now
  | Get_Storage | Put_Storage json | Select json | Shard7 | Export | Saved | Horcrux "string option"
  | Restore json | Change_Password json | Duress decoy_draw json | Put_Mode json
  | Get_Access | Apply fresh_identity string http json | Activate fresh_identity json
  | Contacts | Add_Contact string "nat \<Rightarrow> ms" "fetched_bundle option" json | Import_Contact invite_env string json
  | Verify string json | Ask json | Requests | Decide string string
  | Send send_draw "outgoing \<Rightarrow> bool" json | Timer_Of string json | Messages string | Fetch fetch_io json
  | Get_Profile | Put_Profile "string \<Rightarrow> bytes \<times> ms" fetch_io json | Control bytes "nat \<Rightarrow> ms" fetch_io string control_kind
  | Set_Pin bytes json | Quick_Lock | Quick_Unlock json
  | Encrypt upload_draw "upload_request \<Rightarrow> bool" json | Download "string \<Rightarrow> string" string bool bool

fun api_path :: "api \<Rightarrow> string" where
  "api_path (Bootstrap _ _) = ''/api/bootstrap''"
| "api_path Session = ''/api/session''"
| "api_path Get_Transport = ''/api/transport/status''"
| "api_path Get_Privacy = ''/api/transport/privacy''"
| "api_path (Own_Invite _ _) = ''/api/contacts/invite''"
| "api_path Get_Relay = ''/api/relay/config''"
| "api_path (Put_Relay _) = ''/api/relay/config''"
| "api_path Get_Status = ''/api/vault/status''"
| "api_path (Create _) = ''/api/vault/create''"
| "api_path (Open _) = ''/api/vault/open''"
| "api_path Lock = ''/api/vault/lock''"
| "api_path Sync_Now = ''/api/vault/sync-backup''"
| "api_path Get_Storage = ''/api/vault/storage''"
| "api_path (Put_Storage _) = ''/api/vault/storage''"
| "api_path (Select _) = ''/api/vault/storage/import''"
| "api_path Shard7 = ''/api/vault/files/shard7''"
| "api_path Export = ''/api/vault/files/storage''"
| "api_path Saved = ''/api/vault/shard7/saved''"
| "api_path (Horcrux _) = ''/api/vault/horcrux-status''"
| "api_path (Restore _) = ''/api/vault/restore''"
| "api_path (Change_Password _) = ''/api/vault/change-password''"
| "api_path (Duress _ _) = ''/api/duress/config''"
| "api_path (Put_Mode _) = ''/api/transport/config''"
| "api_path Get_Access = ''/api/access/state''"
| "api_path (Apply _ _ _ _) = ''/api/access/apply''"
| "api_path (Activate _ _) = ''/api/access/activate''"
| "api_path Contacts = ''/api/contacts''"
| "api_path (Add_Contact _ _ _ _) = ''/api/contacts/add''"
| "api_path (Import_Contact _ _ _) = ''/api/contacts/import''"
| "api_path (Verify c _) = ''/api/contacts/'' @ c @ ''/verify''"
| "api_path (Ask _) = ''/api/conversations/requests''"
| "api_path Requests = ''/api/conversations/requests''"
| "api_path (Decide r d) = ''/api/conversations/requests/'' @ r @ ''/'' @ d"
| "api_path (Send _ _ _) = ''/api/send''"
| "api_path (Timer_Of v _) = ''/api/conversations/'' @ v @ ''/timer''"
| "api_path (Messages v) = ''/api/messages/'' @ v"
| "api_path (Fetch _ _) = ''/api/fetch-messages''"
| "api_path Get_Profile = ''/api/profile''"
| "api_path (Put_Profile _ _ _) = ''/api/profile''"
| "api_path (Control _ _ _ _ _) = ''/api/control''"
| "api_path (Set_Pin _ _) = ''/api/session/pin''"
| "api_path Quick_Lock = ''/api/session/lock''"
| "api_path (Quick_Unlock _) = ''/api/session/unlock''"
| "api_path (Encrypt _ _ _) = ''/api/attachments/encrypt''"
| "api_path (Download _ i _ _) = ''/api/attachments/'' @ i @ ''/decrypt''"

fun serve :: "gate_env \<Rightarrow> gate_io \<Rightarrow> api \<Rightarrow> gate_op" where
  "serve e io (Bootstrap random b) g = bootstrap_route (gi_now io) random b g"
| "serve e io Session g = (g, session_route (gi_now io) (gi_request io) g)"
| "serve e io Get_Transport g = (g, transport_route g)"
| "serve e io Get_Privacy g = (g, privacy_route g)"
| "serve e io (Own_Invite f ienv) g = invite_route e f ienv io g"
| "serve e io Get_Relay g = (g, relay_reply e g)"
| "serve e io (Put_Relay b) g = set_relay e io b g"
| "serve e io Get_Status g = (g, vault_status g)"
| "serve e io (Create b) g = create_route e io b g"
| "serve e io (Open b) g = open_route e io b g"
| "serve e io Lock g = lock_route e io g"
| "serve e io Sync_Now g = sync_route e io g"
| "serve e io Get_Storage g = (g, Done 200 (Json (storage_status (gw_vault g))))"
| "serve e io (Put_Storage b) g = set_storage e io b g"
| "serve e io (Select b) g = select_storage b g"
| "serve e io Shard7 g = shard7_route g"
| "serve e io Export g = storage_file e io g"
| "serve e io Saved g = shard7_saved g"
| "serve e io (Horcrux p) g = horcrux_route p g"
| "serve e io (Restore b) g = restore_route e io b g"
| "serve e io (Change_Password b) g = change_route e io b g"
| "serve e io (Duress d b) g = duress_route e io d b g"
| "serve e io (Put_Mode b) g = mode_route io b g"
| "serve e io Get_Access g = access_state g"
| "serve e io (Apply f fresh asked b) g = apply_route e f fresh io asked b g"
| "serve e io (Activate f b) g = activate_route e f io b g"
| "serve e io Contacts g = contacts_route e g"
| "serve e io (Add_Contact fresh clock answer b) g = add_contact_route e fresh clock answer b g"
| "serve e io (Import_Contact ienv fresh b) g = import_contact_route e ienv fresh (gi_now io) b g"
| "serve e io (Verify c b) g = verify_route c b g"
| "serve e io (Ask b) g = ask_route e io b g"
| "serve e io Requests g = requests_route e io g"
| "serve e io (Decide r d) g = decide_request e io r d g"
| "serve e io (Send d post b) g = send_route e d post b g"
| "serve e io (Timer_Of v b) g = timer_route e v b g"
| "serve e io (Messages v) g = messages_route e v (gi_now io) g"
| "serve e io (Fetch fi b) g = fetch_route e fi b g"
| "serve e io Get_Profile g = profile_route g"
| "serve e io (Put_Profile draw fi b) g = set_profile_route e draw fi b g"
| "serve e io (Control envelope clock fi v k) g = control_route e envelope clock fi v k g"
| "serve e io (Set_Pin salt b) g = pin_route e salt b g"
| "serve e io Quick_Lock g = quick_lock g"
| "serve e io (Quick_Unlock b) g = quick_unlock e (gi_now io) b g"
| "serve e io (Encrypt d taken b) g = encrypt_route e d taken b g"
| "serve e io (Download encode i play download) g = (g, snd (download_route e encode i play download g))"

fun only_reads :: "api \<Rightarrow> bool" where
  "only_reads a \<longleftrightarrow> (case a of
       Session \<Rightarrow> True | Get_Transport \<Rightarrow> True | Get_Privacy \<Rightarrow> True | Own_Invite _ _ \<Rightarrow> True
     | Get_Relay \<Rightarrow> True | Get_Status \<Rightarrow> True | Get_Storage \<Rightarrow> True | Shard7 \<Rightarrow> True | Export \<Rightarrow> True | Horcrux _ \<Rightarrow> True | Get_Access \<Rightarrow> True
     | Contacts \<Rightarrow> True | Requests \<Rightarrow> True | Messages _ \<Rightarrow> True | Get_Profile \<Rightarrow> True | Download _ _ _ _ \<Rightarrow> True | _ \<Rightarrow> False)"

text \<open>The request for the route of its method and path; the hook sees the process as it is then.\<close>

definition handle :: "gate_env \<Rightarrow> gate_io \<Rightarrow> api \<Rightarrow> gate_op" where
  "handle e io a g =
     (let r = gi_request io
      in if url_path (lr_url r) \<noteq> api_path a \<or> lr_method r \<noteq> (if only_reads a then ''GET'' else ''POST'')
         then (g, Fail 404 ''not_found'')
         else (case admit (gate_locked g) (gi_now io) r (gw_session g) (gw_pin g) of
                 Some (n, err) \<Rightarrow> (g, Fail n err)
               | None \<Rightarrow> serve e io a g))"

section \<open>Work without a request\<close>

text \<open>
  \<open>retryTorQueues\<close>: what fails is left for the next time, with what was stored until then. Downloads of
  attachments that are due, and expired messages, are steps of their own.
\<close>

definition retry_queues :: "gate_env \<Rightarrow> gate_io \<Rightarrow> fetch_io \<Rightarrow> gateway \<Rightarrow> gateway" where
  "retry_queues e io fi g =
     (if \<not> awake g then g
      else (case run_op (on_db (cleanup_spool (ge_env e) (fi_now fi))) (start_tor io g) of
              (g1, Inl _) \<Rightarrow> g1
            | (g1, Inr _) \<Rightarrow>
                (case registered_db g1 of
                   Inl _ \<Rightarrow> g1
                 | Inr _ \<Rightarrow>
                     (let (c, pushed) = take_pushed (gw_client g1)
                      in case run_op
                           (bind_op (sync_messages (ge_env e) (gate_key g1) (fi_bundle fi) (fi_draws fi) pushed (fi_pending fi)) (\<lambda>(_, n).
                            then_op (change (\<lambda>db. fst (flush_outbox (fi_post fi) (fi_now fi) db)))
                              (then_op (change (\<lambda>db. fst (flush_controls (fi_control fi) (fi_clock fi) db))) (ret n))))
                           (g1\<lparr>gw_client := c\<rparr>) of
                           (g2, Inl _) \<Rightarrow> g2
                         | (g2, Inr n) \<Rightarrow> if 0 < n then schedule_backup (announce ''MESSAGES_CHANGED'' g2) else g2))))"

text \<open>Work on the database together with the cached files.\<close>

definition put_files :: "gate_env \<Rightarrow> files \<Rightarrow> gateway \<Rightarrow> gateway" where
  "put_files e fs g = g\<lparr>gw_vault := sov_map (\<lambda>w. w\<lparr>s_files := map (\<lambda>(p, b). (drop (length (ge_dir e)) p, b))
     (filter (\<lambda>(p, _). starts_with (ge_dir e) p) fs)\<rparr>) (gw_vault g)\<rparr>"

definition with_files :: "gate_env \<Rightarrow> (files \<times> local_db \<Rightarrow> files \<times> local_db) \<Rightarrow> gateway \<Rightarrow> gateway" where
  "with_files e f g =
     (case sov_database (gw_vault g) of
        Inl _ \<Rightarrow> g
      | Inr db \<Rightarrow> (case f (gate_files e g, db) of (fs, db') \<Rightarrow> put_files e fs (put_db db' g)))"

definition expire_messages :: "gate_env \<Rightarrow> ms \<Rightarrow> gateway \<Rightarrow> gateway" where
  "expire_messages e now g = with_files e (disappearing_tick now) g"

definition download_due ::
  "gate_env \<Rightarrow> (string \<Rightarrow> bytes) \<Rightarrow> (string \<Rightarrow> nat \<Rightarrow> (string \<times> string) option) \<Rightarrow> ms \<Rightarrow> gateway \<Rightarrow> gateway" where
  "download_due e nonce answer now g =
     with_files e (\<lambda>st. fst (retry_downloads (ge_env e) (ge_root e) (gate_key g) nonce answer now st)) g"

text \<open>The desktop shell stops the daemon.\<close>

definition desktop_stop :: "gateway \<Rightarrow> gateway" where
  "desktop_stop g =
     (let g1 = end_session (cancel_backups (halt_tor g))
      in g1\<lparr>gw_vault := sov_lock (gw_vault g1), gw_session := invalidate_session (gw_session g1)\<rparr>)"

text \<open>The server listens, on a port it is given.\<close>

definition listening :: "nat \<Rightarrow> bytes \<Rightarrow> gateway \<Rightarrow> gateway" where
  "listening port secret g = g\<lparr>gw_session := generate_bootstrap port secret (gw_session g)\<rparr>"

end
