(* ===== verification/Gateway_Runs.thy ===== *)
theory Gateway_Runs
  imports Daemon_Process
begin

text \<open>
  The process as a whole: what any sequence of requests, background uploads and restarts does to the vault is a
  run of the vault's operations, with the credentials that the replies have given.
\<close>

section \<open>What a client shard looks like\<close>

definition client_fits :: "string \<Rightarrow> bool" where
  "client_fits c \<longleftrightarrow> (\<exists>b. length b = 48 \<and> c = b64_encode b)"

lemma client_schema: "client_fits c \<Longrightarrow> base64_length 64 (JStr c) = Some c"
proof -
  assume "client_fits c"
  then obtain b where b: "length b = 48" "c = b64_encode b" by (auto simp: client_fits_def)
  then have "b \<noteq> []" by auto
  then show ?thesis using b by (simp add: base64_length_def string_where_def is_base64_encode length_b64_encode)
qed

lemma provision_client:
  assumes "provision env d vmk keys salt ext w = (w', Inr client)" and "draw_ok d"
  shows "client_fits client"
proof -
  have r: "length (sc_shares (sd_scatter d)) = 6" "\<forall>x \<in> set (sc_shares (sd_scatter d)). length x = 48"
    using assms(2) by (auto simp: draw_ok_def randoms_def)
  then have "length (sc_shares (sd_scatter d) ! 4) = 48" by simp
  then show ?thesis using assms(1) r
    by (auto simp: provision_def scatter_def split_seven_def place_external_def client_fits_def Let_def nth_append
        split: option.splits if_splits sum.splits prod.splits)
qed

lemma create_client:
  assumes "create_secure env lib opens io existed i p relay_backed w = (w', Inr (client, capsule))" and "draw_ok (io_draw io)"
  shows "client_fits client"
proof -
  obtain w1 where "provision_new env opens (io_draw io) relay_backed (derive_vault_keys env i p) w = (w1, Inr client)"
    using assms(1) by (auto simp: create_secure_def Let_def split: option.splits if_splits sum.splits prod.splits)
  then show ?thesis using provision_client [OF _ assms(2)]
    by (fastforce simp: provision_new_def Let_def split: sum.splits prod.splits)
qed

lemma stage_storage_client: "stage_storage env lib opens d dir keys capsule s = Inr (st, client) \<Longrightarrow> draw_ok d \<Longrightarrow> client_fits client"
  by (clarsimp simp: stage_storage_def Let_def try_then_Inr_iff split: if_split_asm)
    (auto simp: try_then_Inr_iff dest: provision_client split: prod.split_asm sum.split_asm if_split_asm)

lemma import_client:
  assumes "import_storage env lib opens d dir content i p capsule w = (w', Inr client)" and "draw_ok d"
  shows "client_fits client"
proof -
  obtain s st where "stage_storage env lib opens d dir (derive_vault_keys env i p) capsule s = Inr (st, client)"
    using assms(1) by (auto simp: import_storage_def Let_def try_then_Inr_iff split: if_splits sum.splits prod.splits)
  then show ?thesis using assms(2) by (rule stage_storage_client)
qed

lemma stage_backup_client: "stage_backup env lib opens d dir keys v s = Inr (st, client, capsule) \<Longrightarrow> draw_ok d \<Longrightarrow> client_fits client"
  by (auto simp: stage_backup_def Let_def try_then_Inr_iff split: if_split_asm sum.split_asm prod.split_asm dest: provision_client)

lemma restore_client:
  assumes "restore_secure env lib opens d answer dir i p w = (w', Inr (client, capsule))" and "draw_ok d"
  shows "client_fits client"
proof -
  obtain v s st where "stage_backup env lib opens d dir (derive_vault_keys env i p) v s = Inr (st, client, capsule)"
    using assms(1) by (auto simp: restore_secure_def Let_def try_then_Inr_iff split: if_splits sum.splits prod.splits option.splits)
  then show ?thesis using assms(2) by (rule stage_backup_client)
qed

lemma rotate_local_client: "rotate_local env opens d vmk next c w = Inr (st, client, capsule) \<Longrightarrow> draw_ok d \<Longrightarrow> client_fits client"
  by (auto simp: rotate_local_def Let_def try_then_Inr_iff split: sum.splits prod.splits dest: provision_client)

lemma rotate_cloud_client:
  "rotate_cloud env lib opens io io' gone vmk next w = (w', Inr (st, client)) \<Longrightarrow> draw_ok (io_draw io') \<Longrightarrow> client_fits client"
  by (auto simp: rotate_cloud_def Let_def split: sum.splits prod.splits option.splits if_splits dest: provision_client)

lemma change_client:
  assumes "change_secure_password env lib opens io io' gone answer i old new w = (w', Inr (client, Some capsule))"
    and "draw_ok (io_draw io)" and "draw_ok (io_draw io')"
  shows "client_fits client \<and> 12 \<le> length new"
proof -
  have "validate_password new = None"
    using assms(1) by (auto simp: change_secure_password_def split: option.splits sum.splits prod.splits if_splits)
  moreover have "client_fits client"
    using assms by (auto simp: change_secure_password_def finish_rotation_def rotate_local_client rotate_cloud_client
        split: option.splits sum.splits prod.splits if_splits)
  ultimately show ?thesis by (auto simp: validate_password_def split: if_splits)
qed

section \<open>Runs\<close>

definition reply_text :: "string \<Rightarrow> payload reply \<Rightarrow> string option" where
  "reply_text k r = (case r of Done _ (Json j) \<Rightarrow> (case field k j of Some (JStr t) \<Rightarrow> Some t | _ \<Rightarrow> None) | _ \<Rightarrow> None)"

text \<open>The credentials that the user holds after a request: what was typed, and what the reply has.\<close>

fun granted :: "api \<Rightarrow> payload reply \<Rightarrow> credentials option \<Rightarrow> credentials option" where
  "granted (Create b) r s =
     (case (vault_credentials b, reply_text ''clientShard'' r, reply_text ''shard7FileBytes'' r) of
        (Some (i, p), Some c, Some f) \<Rightarrow> Some (i, p, c, b64_decode f) | _ \<Rightarrow> s)"
| "granted (Open b) r s =
     (case (vault_credentials b, reply_text ''clientShard'' r, shard7_payload b) of
        (Some (i, p), Some c, Some (Some f)) \<Rightarrow> Some (i, p, c, b64_decode f) | _ \<Rightarrow> s)"
| "granted (Restore b) r s =
     (case (vault_restore_schema b, reply_text ''clientShard'' r, reply_text ''shard7FileBytes'' r) of
        (Some (i, p), Some c, Some f) \<Rightarrow> Some (i, p, c, b64_decode f) | _ \<Rightarrow> s)"
| "granted (Change_Password b) r s =
     (case (change_schema b, reply_text ''clientShard'' r, reply_text ''shard7FileBytes'' r) of
        (Some (i, _, p), Some c, Some f) \<Rightarrow> Some (i, p, c, b64_decode f) | _ \<Rightarrow> s)"
| "granted _ r s = s"

text \<open>
  A vault without a selected file opens only with the credentials of its user, and the duress id is not
  configured here.
\<close>

fun expected :: "api \<Rightarrow> gateway \<Rightarrow> payload reply \<Rightarrow> credentials option \<Rightarrow> bool" where
  "expected (Duress _ _) g r s = False"
| "expected (Open b) g r s =
     (gw_pending g \<noteq> None \<or> \<not> is_done r \<or>
      (case (s, vault_open_schema b, shard7_payload b) of
         (Some (i, p, c, f), Some (i', p', c', _), Some f') \<Rightarrow> i' = i \<and> p' = p \<and> c' = Some c \<and> f' = Some (b64_encode f)
       | _ \<Rightarrow> False))"
| "expected _ g r s = True"

text \<open>A new process; the address of the relay is kept in a file.\<close>

definition restarted :: "gate_env \<Rightarrow> gateway \<Rightarrow> gateway" where
  "restarted e g = (new_gateway e)\<lparr>gw_vault := \<lparr>sv_main = sec_initialize (sec_lock (sv_main (gw_vault g))), sv_registry = None, sv_active = False\<rparr>,
     gw_relay := gw_relay g\<rparr>"

text \<open>
  The steps: requests, waiting for a notification, the timer and the end of a background upload, the
  queues, expiring messages, downloads, whatever the onion transport and the relay's client do on their own,
  the end of the process and the next one.
\<close>

inductive gate_run :: "gate_env \<Rightarrow> gateway \<Rightarrow> credentials option \<Rightarrow> bool" for e where
  start: "gate_run e (listening port secret (new_gateway e)) None"
| request: "gate_run e g s \<Longrightarrow> draw_ok (io_draw (gi_io io)) \<Longrightarrow> draw_ok (io_draw (gi_io' io)) \<Longrightarrow>
    handle e io a g = (g', rep) \<Longrightarrow> expected a g rep s \<Longrightarrow> gate_run e g' (granted a rep s)"
| events: "gate_run e g s \<Longrightarrow> events_route n cursor g = (g', rep, rs) \<Longrightarrow> gate_run e g' s"
| unheard: "gate_run e g s \<Longrightarrow> gate_run e (g\<lparr>gw_feed := fst (stop_waiting n (gw_feed g))\<rparr>) s"
| timer: "gate_run e g s \<Longrightarrow> gate_run e (backup_timer token g) s"
| settles: "gate_run e g s \<Longrightarrow> bj_active (gw_job g) \<Longrightarrow> gate_run e (upload_settles fine g) s"
| queues: "gate_run e g s \<Longrightarrow> gate_run e (retry_queues e io fi g) s"
| expiry: "gate_run e g s \<Longrightarrow> gate_run e (expire_messages e now g) s"
| downloads: "gate_run e g s \<Longrightarrow> gate_run e (download_due e nonce answer now g) s"
| transport: "gate_run e g s \<Longrightarrow> sov_database (gw_vault g) = Inr db \<Longrightarrow>
    tor_step (ge_env e) (db, gw_routing g) es (db', r) \<Longrightarrow> gate_run e ((put_db db' g)\<lparr>gw_routing := r\<rparr>) s"
| tor_starts: "gate_run e g s \<Longrightarrow> gate_run e (g\<lparr>gw_routing := tor_started generation session fine now (gw_routing g)\<rparr>) s"
| client: "gate_run e g s \<Longrightarrow> sov_database (gw_vault g) = Inr (cw_db w) \<Longrightarrow> cw_client w = gw_client g \<Longrightarrow>
    client_step ev w = Some w' \<Longrightarrow> gate_run e ((put_db (cw_db w') g)\<lparr>gw_client := cw_client w'\<rparr>) s"
| stop: "gate_run e g s \<Longrightarrow> gate_run e (desktop_stop g) s"
| restart: "gate_run e g s \<Longrightarrow>
    gate_run e (listening port secret (restarted e g)) (if creation_pending (sv_main (gw_vault g)) then None else s)"

section \<open>Steps that keep the credentials\<close>

definition plain :: "gateway \<Rightarrow> bool" where
  "plain g \<longleftrightarrow> sv_registry (gw_vault g) = None \<and> \<not> sv_active (gw_vault g)"

abbreviation main :: "gateway \<Rightarrow> sec_vault" where
  "main g \<equiv> sv_main (gw_vault g)"

abbreviation runs :: "gate_env \<Rightarrow> sec_vault \<Rightarrow> credentials option \<Rightarrow> bool" where
  "runs e \<equiv> sec_run (ge_env e) (ge_lib e) (ge_opens e)"

definition follows :: "gate_env \<Rightarrow> gateway \<Rightarrow> gateway \<Rightarrow> bool" where
  "follows e g g' \<longleftrightarrow> (plain g \<longrightarrow> plain g' \<and> (\<forall>s. runs e (main g) s \<longrightarrow> runs e (main g') s))"

named_theorems following \<open>steps of the process that keep the credentials\<close>

lemma follows_same [following]: "gw_vault g' = gw_vault g \<Longrightarrow> follows e g g'"
  by (simp add: follows_def plain_def)

lemma follows_trans: "follows e g g1 \<Longrightarrow> follows e g1 g2 \<Longrightarrow> follows e g g2"
  by (simp add: follows_def)

lemma follows_after: "follows e g g1 \<Longrightarrow> gw_vault g2 = gw_vault g1 \<Longrightarrow> follows e g g2"
  by (simp add: follows_def plain_def)

lemma vault_kept [simp]:
  "gw_vault (schedule_backup g) = gw_vault g" "gw_vault (cancel_backups g) = gw_vault g" "gw_vault (announce t g) = gw_vault g"
  "gw_vault (halt_tor g) = gw_vault g" "gw_vault (end_session g) = gw_vault g" "gw_vault (configuration_replaced b g) = gw_vault g"
  "gw_vault (start_tor io g) = gw_vault g"
  by (simp_all add: schedule_backup_def cancel_backups_def announce_def halt_tor_def end_session_def configuration_replaced_def
      start_tor_def split: sum.split)

lemma plain_sov: "plain g \<Longrightarrow> sov_vault (gw_vault g) = main g" "plain g \<Longrightarrow> sov_locked (gw_vault g) = sec_locked (main g)"
  "plain g \<Longrightarrow> sov_database (gw_vault g) = sec_database (main g)" "plain g \<Longrightarrow> sov_map f (gw_vault g) = (gw_vault g)\<lparr>sv_main := f (main g)\<rparr>"
  by (simp_all add: plain_def sov_vault_def sov_locked_def sov_database_def sov_map_def)

lemma database_open: "sec_database w = Inr db \<Longrightarrow> \<not> sec_locked w"
  by (auto simp: sec_database_def vault_database_def unless_locked_def sec_locked_def split: if_splits option.splits)

lemma follows_main:
  assumes "\<And>s. plain g \<Longrightarrow> runs e (main g) s \<Longrightarrow> runs e w s" and "plain g \<Longrightarrow> gw_vault g' = (gw_vault g)\<lparr>sv_main := w\<rparr>"
  shows "follows e g g'"
  using assms by (auto simp: follows_def plain_def)

lemma follows_put_db [following]: "sov_database (gw_vault g) = Inr db \<Longrightarrow> follows e g (put_db db' g)"
  by (rule follows_main [where w = "set_db (\<lambda>_. db') (main g)"])
    (auto simp: plain_sov put_db_def intro: sec_run.write_db dest: database_open)

lemma follows_run_op: "run_op m g = (g', r) \<Longrightarrow> follows e g g'"
proof (cases "sov_database (gw_vault g)")
  case (Inr db)
  assume run: "run_op m g = (g', r)"
  obtain db' t r' where m: "m (db, gw_typing g) = ((db', t), r')" by (metis surj_pair)
  with run have "g' = (put_db db' g)\<lparr>gw_typing := t\<rparr>" by (simp add: run_op_def Inr)
  then show ?thesis using follows_after [OF follows_put_db [OF Inr]] by simp
qed (auto simp: run_op_def intro: follows_same)

lemma database_after_put:
  assumes "sov_database (gw_vault g) = Inr db"
  shows "sov_database (gw_vault (put_db db' g)) = Inr db'"
  using assms
  by (auto simp: put_db_def sov_map_def sov_database_def sov_vault_def sov_with_decoy_def set_db_def sec_database_def vault_database_def
      unless_locked_def split: option.splits if_splits)

lemma follows_settles [following]: "follows e g (upload_settles fine g)"
  by (rule follows_main [where w = "if fine \<and> gw_upload g = Some False then finish_upload (main g) else main g"])
    (auto simp: upload_settles_def upload_stored_def Let_def plain_def sov_with_decoy_def intro: sec_run.upload_ends split: option.split)

lemma follows_drain: "drain fine g = (g', r) \<Longrightarrow> follows e g g'"
  by (auto simp: drain_def intro: following split: if_splits)

lemma follows_timer: "follows e g (backup_timer token g)"
proof (rule follows_main [where w = "if snd (timer_fires (backs_up g) (gw_job g)) then begin_upload token (main g) else main g"])
  fix s assume p: "plain g" and r: "runs e (main g) s"
  have "backs_up g" if "snd (timer_fires (backs_up g) (gw_job g))"
    using that by (auto simp: timer_fires_def Let_def split: if_splits)
  then show "runs e (if snd (timer_fires (backs_up g) (gw_job g)) then begin_upload token (main g) else main g) s"
    using p r by (auto simp: begin_upload_def backs_up_def gate_locked_def plain_sov intro: sec_run.write_db)
qed (auto simp: backup_timer_def plain_sov split: prod.split)

lemma follows_sync:
  assumes "sov_sync_backup (ge_env e) (ge_lib e) io claim (gw_vault g) = (v, b, r)" and "gw_vault g' = v"
  shows "follows e g g'"
proof -
  obtain w b' r' where w: "sync_backup (ge_env e) (ge_lib e) (io_nonce io) (io_token io) (io_now io) claim (io_put io) (main g) = (w, b', r')"
    by (metis surj_pair)
  show ?thesis
  proof (rule follows_main [where w = w])
    show "plain g \<Longrightarrow> gw_vault g' = (gw_vault g)\<lparr>sv_main := w\<rparr>"
      using assms w by (auto simp: sov_sync_backup_def plain_sov plain_def)
  qed (rule sec_run.sync [OF _ w])
qed

section \<open>Routes that keep the credentials\<close>

lemma follows_backed_up: "backed_up f (run_op m g) = (g', rep) \<Longrightarrow> follows e g g'"
  by (auto simp: backed_up_def intro: follows_run_op follows_after split: prod.splits sum.splits)

lemma follows_tor [following]: "follows e g (start_tor io g)"
  by (rule follows_same) simp

lemma follows_mode: "mode_route io b g = (g', rep) \<Longrightarrow> follows e g g'"
  by (auto simp: mode_route_def intro: following follows_after [OF follows_put_db] split: option.splits sum.splits prod.splits)

lemma follows_activate_identity: "activate_identity e' f now answer g = (g', rep) \<Longrightarrow> follows e g g'"
  apply (auto simp: activate_identity_def Let_def intro: following split: sum.splits if_splits prod.splits option.splits)
  apply (rule follows_after, rule follows_trans, rule follows_put_db, assumption, rule follows_put_db, rule database_after_put, assumption, simp)
  done

lemma follows_direct:
  "direct_activate e' f fresh io n db g = (g', rep) \<Longrightarrow> sov_database (gw_vault g) = Inr db \<Longrightarrow> follows e g g'"
  by (auto simp: direct_activate_def Let_def intro: following follows_after [OF follows_put_db] split: sum.splits if_splits prod.splits)

lemma follows_self_activate: "self_activate e' f fresh io asked n g = (g', rep) \<Longrightarrow> follows e g g'"
proof -
  assume run: "self_activate e' f fresh io asked n g = (g', rep)"
  have "follows e (start_tor io g) g'"
    using run by (auto simp: self_activate_def Let_def intro: following follows_activate_identity follows_direct
        follows_trans [OF follows_put_db follows_activate_identity] split: sum.splits if_splits option.splits prod.splits)
  then show ?thesis using follows_trans [OF follows_tor] by blast
qed

lemma follows_apply: "apply_route e' f fresh io asked b g = (g', rep) \<Longrightarrow> follows e g g'"
  by (auto simp: apply_route_def intro: following dest!: follows_self_activate [where e = e] split: option.splits sum.splits prod.splits)

lemma follows_activate: "activate_route e' f io b g = (g', rep) \<Longrightarrow> follows e g g'"
  by (auto simp: activate_route_def intro: following dest!: follows_activate_identity [where e = e]
      split: option.splits sum.splits prod.splits client_error.splits)

lemma follows_add: "add_contact_route e' fresh clock answer b g = (g', rep) \<Longrightarrow> follows e g g'"
  by (auto simp: add_contact_route_def intro: following dest: follows_backed_up split: option.splits)

lemma follows_import: "import_contact_route e' ienv fresh now b g = (g', rep) \<Longrightarrow> follows e g g'"
  by (auto simp: import_contact_route_def intro: following follows_after dest!: follows_backed_up [where e = e]
      split: option.splits prod.splits reply.splits)

lemma follows_verify: "verify_route c b g = (g', rep) \<Longrightarrow> follows e g g'"
  by (auto simp: verify_route_def intro: following follows_after dest!: follows_run_op [where e = e]
      split: option.splits prod.splits sum.splits)

lemma follows_decide: "decide_request e' io request d g = (g', rep) \<Longrightarrow> follows e g g'"
  by (auto simp: decide_request_def Let_def intro!: following split: if_splits sum.splits)

lemma follows_send: "send_route e' d post b g = (g', rep) \<Longrightarrow> follows e g g'"
  by (auto simp: send_route_def intro: following dest: follows_backed_up split: option.splits prod.splits)

lemma follows_message_timer: "timer_route e' v b g = (g', rep) \<Longrightarrow> follows e g g'"
  by (auto simp: timer_route_def intro: following follows_after dest!: follows_run_op [where e = e]
      split: option.splits prod.splits sum.splits)

lemma follows_run_client: "run_op m (g\<lparr>gw_client := c\<rparr>) = (g', rep) \<Longrightarrow> follows e g g'"
  by (rule follows_trans [OF follows_same follows_run_op]) auto

lemma follows_queues: "fetch_queues e' fi g = (g', rep) \<Longrightarrow> follows e g g'"
  by (auto simp: fetch_queues_def Let_def split: prod.splits dest: follows_run_client)

lemma follows_fetch: "fetch_route e' fi b g = (g', rep) \<Longrightarrow> follows e g g'"
  by (auto simp: fetch_route_def fetch_decoy_def fetched_reply_def intro: following follows_after dest!: follows_queues [where e = e]
      split: if_splits sum.splits prod.splits)

lemma follows_set_profile: "set_profile_route e' draw fi b g = (g', rep) \<Longrightarrow> follows e g g'"
  by (auto simp: set_profile_route_def intro: following follows_after dest!: follows_run_op [where e = e]
      split: option.splits prod.splits sum.splits)

lemma follows_control: "control_route e' x now fi v k g = (g', rep) \<Longrightarrow> follows e g g'"
  by (auto simp: control_route_def intro: following follows_after dest!: follows_run_op [where e = e]
      split: if_splits prod.splits sum.splits)

lemma follows_pin: "pin_route e' salt b g = (g', rep) \<Longrightarrow> follows e g g'"
  by (auto simp: pin_route_def intro: following dest: follows_backed_up split: option.splits)

lemma follows_quick_lock: "quick_lock g = (g', rep) \<Longrightarrow> follows e g g'"
  by (auto simp: quick_lock_def intro!: follows_same split: sum.splits prod.splits if_splits)

lemma follows_quick_unlock: "quick_unlock e' now b g = (g', rep) \<Longrightarrow> follows e g g'"
  by (auto simp: quick_unlock_def intro!: follows_same split: sum.splits prod.splits if_splits option.splits)

lemma follows_encrypt: "encrypt_route e' d taken b g = (g', rep) \<Longrightarrow> follows e g g'"
  apply (auto simp: encrypt_route_def intro: following split: option.splits if_splits sum.splits prod.splits)
  apply (rule follows_main)
  apply (rule sec_run.write_file, assumption)
  apply (simp add: gate_locked_def plain_sov)
  apply (simp add: plain_sov)
  done

section \<open>Routes of the vault\<close>

lemma follows_cancelled: "drain fine (cancel_backups g) = (g', r) \<Longrightarrow> follows e g g'"
  by (rule follows_trans [OF follows_same follows_drain]) auto

lemma follows_relay: "set_relay e' io b g = (g', rep) \<Longrightarrow> follows e g g'"
  by (auto simp: set_relay_def Let_def intro: following follows_after dest!: follows_cancelled [where e = e]
      split: option.splits if_splits prod.splits sum.splits)

lemma follows_sync_route: "sync_route e io g = (g', rep) \<Longrightarrow> follows e g g'"
  by (auto simp: sync_route_def dest: follows_cancelled [where e = e] intro: follows_trans [OF follows_cancelled follows_sync]
      split: prod.splits sum.splits)

lemma follows_settings:
  assumes "update_config (sov_database (gw_vault g)) f (main g) = (w, r)" and "f = saved_config \<or> f = cloud_config b"
    and "gw_vault g' = (gw_vault g)\<lparr>sv_main := w\<rparr>"
  shows "follows e g g'"
  using assms by (intro follows_main [where w = w]) (auto simp: plain_sov intro: sec_run.confirm sec_run.cloud)

lemma follows_saved: "shard7_saved g = (g', rep) \<Longrightarrow> follows e g g'"
  by (auto simp: shard7_saved_def confirm_shard7_saved_def intro: follows_settings [OF _ disjI1 [OF refl]] split: prod.splits)

lemma follows_storage: "set_storage e' io b g = (g', rep) \<Longrightarrow> follows e g g'"
  by (auto simp: set_storage_def set_cloud_backup_def Let_def dest: follows_cancelled [where e = e]
      intro: follows_trans [OF follows_cancelled follows_settings [OF _ disjI2 [OF refl]]] split: prod.splits sum.splits option.splits)

lemma follows_select: "select_storage b g = (g', rep) \<Longrightarrow> follows e g g'"
  by (auto simp: select_storage_def intro!: follows_same split: if_splits sum.splits option.splits)

section \<open>Sessions, the own invite and work without a request\<close>

lemma follows_bootstrap: "bootstrap_route now random b g = (g', rep) \<Longrightarrow> follows e g g'"
  by (auto simp: bootstrap_route_def intro!: follows_same split: prod.splits sum.splits)

lemma follows_invite: "invite_route e' f ienv io g = (g', rep) \<Longrightarrow> follows e g g'"
  by (auto simp: invite_route_def Let_def intro: following follows_trans [OF follows_tor follows_put_db]
      split: option.splits if_splits sum.splits prod.splits)

lemma follows_retry: "follows e g (retry_queues e' io fi g)"
proof -
  have tor: "follows e g g1" if "run_op m (start_tor io g) = (g1, r)" for m :: "(typing, unit) daemon_op" and g1 r
    by (rule follows_trans [OF follows_tor follows_run_op [OF that]])
  have job: "follows e g g2" if "run_op m (start_tor io g) = (g1, r)" and "run_op m' (g1\<lparr>gw_client := c\<rparr>) = (g2, q)"
    for m :: "(typing, unit) daemon_op" and m' :: "(typing, nat) daemon_op" and g1 g2 r q c
    by (rule follows_trans [OF tor [OF that(1)] follows_run_client [OF that(2)]])
  show ?thesis
    by (auto simp: retry_queues_def Let_def intro: following tor job follows_after [OF job] split: prod.splits sum.splits)
qed

lemma follows_transport: "sov_database (gw_vault g) = Inr db \<Longrightarrow> follows e g ((put_db db' g)\<lparr>gw_routing := r, gw_client := c\<rparr>)"
  "sov_database (gw_vault g) = Inr db \<Longrightarrow> follows e g ((put_db db' g)\<lparr>gw_routing := r\<rparr>)"
  "sov_database (gw_vault g) = Inr db \<Longrightarrow> follows e g ((put_db db' g)\<lparr>gw_client := c\<rparr>)"
  by (rule follows_after [OF follows_put_db], assumption, simp)+

lemma follows_stop: "follows e g (desktop_stop g)"
  by (rule follows_main [where w = "sec_lock (main g)"])
    (auto simp: desktop_stop_def Let_def plain_def sov_lock_def sov_with_decoy_def intro: sec_run.lock)

lemma follows_events: "events_route n cursor g = (g', rep, rs) \<Longrightarrow> follows e g g'"
  by (auto simp: events_route_def intro!: follows_same split: if_splits option.splits prod.splits)

end
