(* ===== verification/Gateway_Vault.thy ===== *)
theory Gateway_Vault
  imports Gateway_Runs
begin

text \<open>
  The routes that lock, create, open, restore and carry the vault or change its password: with each of them the
  user's last credentials stay, or become, those that open it. So every run of the process is one of the vault.
\<close>

lemma stored_config: "sync_backup env lib n t now claim put w = (w', b, Inr (Stored k)) \<Longrightarrow> s_config w' \<noteq> None"
  by (auto simp: sync_backup_def with_config_def save_config_def Let_def set_db_def split: if_splits option.splits sum.splits)

lemma follows_lock: "lock_route e io g = (g', rep) \<Longrightarrow> follows e g g'"
proof -
  assume run: "lock_route e io g = (g', rep)"
  obtain w b r where w: "sync_backup (ge_env e) (ge_lib e) (io_nonce (gi_io io)) (io_token (gi_io io)) (io_now (gi_io io)) False
      (io_put (gi_io io)) (main g) = (w, b, r)" by (metis surj_pair)
  let ?w = "case r of Inr (Stored _) \<Rightarrow> (sec_lock w)\<lparr>s_relay := True\<rparr> | _ \<Rightarrow> sec_lock w"
  have "runs e ?w s" if "runs e (main g) s" for s
  proof -
    have l: "runs e (sec_lock w) s" by (rule sec_run.lock [OF sec_run.sync [OF that w]])
    moreover have "s_config (sec_lock w) \<noteq> None" if "r = Inr (Stored k)" for k
      using stored_config w that by (fastforce simp: sec_lock_def)
    ultimately show ?thesis by (auto intro: sec_run.relay_seen split: sum.split sync_done.split)
  qed
  moreover have "gw_vault g' = (gw_vault g)\<lparr>sv_main := ?w\<rparr>" if "plain g"
    using run that w
    by (auto simp: lock_route_def lock_effect_def Let_def plain_def sov_sync_backup_def sov_vault_def sov_lock_def sov_with_decoy_def
        sov_map_def split: prod.splits sum.splits sync_done.splits)
  ultimately show ?thesis by (rule follows_main)
qed

section \<open>Routes that give new credentials\<close>

definition libs_ok :: "gate_env \<Rightarrow> bool" where
  "libs_ok e \<longleftrightarrow> gcm_ok (ge_env e) \<and> json_ok (ge_env e) \<and> cipher_ok (ge_opens e) \<and> capsule_fits (ge_env e)"

text \<open>What the schema of \<open>POST /api/vault/open\<close> asks, except the greatest length of a password.\<close>

definition usable :: "credentials option \<Rightarrow> bool" where
  "usable s \<longleftrightarrow> (case s of None \<Rightarrow> True | Some (i, p, c, _) \<Rightarrow> 8 \<le> length i \<and> length i \<le> 256 \<and> 12 \<le> length p \<and> client_fits c)"

definition on_track :: "gate_env \<Rightarrow> gateway \<Rightarrow> credentials option \<Rightarrow> bool" where
  "on_track e g s \<longleftrightarrow> plain g \<and> runs e (main g) s \<and> usable s"

lemma on_track_follows: "follows e g g' \<Longrightarrow> on_track e g s \<Longrightarrow> on_track e g' s"
  by (simp add: follows_def on_track_def)

lemma credentials_fit: "vault_credentials j = Some (i, p) \<Longrightarrow> 8 \<le> length i \<and> length i \<le> 256 \<and> 12 \<le> length p \<and> length p \<le> 1024"
  by (auto simp: vault_credentials_def required_def string_where_def split: option.splits json.splits if_splits bind_splits)

lemma reply_shards:
  "reply_text ''clientShard'' (ok_with (shards_reply c f @ kvs)) = Some c"
  "reply_text ''shard7FileBytes'' (ok_with (shards_reply c (Some b) @ kvs)) = Some (b64_encode b)"
  "reply_text k (Fail n err) = None" "reply_text ''clientShard'' (ok_with []) = None"
  by (simp_all add: reply_text_def ok_with_def shards_reply_def field_def)

lemma run_good: "libs_ok e \<Longrightarrow> runs e w (Some s) \<Longrightarrow> sec_good (ge_env e) (ge_opens e) s w"
  using sec_run_inv [of "ge_env e" "ge_opens e" "ge_lib e" w "Some s"] by (simp add: libs_ok_def sec_inv_def)

lemma run_fresh: "libs_ok e \<Longrightarrow> runs e w None \<Longrightarrow> w = fresh_sec"
  using sec_run_inv [of "ge_env e" "ge_opens e" "ge_lib e" w None] by (simp add: libs_ok_def sec_inv_def)

lemma create_track:
  assumes ok: "libs_ok e" and d: "draw_ok (io_draw (gi_io io))" and on: "on_track e g s" and run: "create_route e io b g = (g', rep)"
  shows "on_track e g' (granted (Create b) rep s)"
proof (cases "vault_credentials b")
  case None
  then show ?thesis using on run by (auto simp: create_route_def)
next
  case (Some ip)
  obtain i p where ip: "ip = (i, p)" by (cases ip)
  obtain w r where w: "create_secure (ge_env e) (ge_lib e) (ge_opens e) (gi_io io) (gi_existed io) i p False (main g) = (w, r)"
    by (metis surj_pair)
  have g: "plain g" "runs e (main g) s" "usable s" using on by (simp_all add: on_track_def)
  have g': "plain (set_main w g)" "main (set_main w g) = w" using g(1) by (simp_all add: plain_def set_main_def)
  show ?thesis
  proof (cases r)
    case (Inl err)
    have "runs e w s" by (rule sec_run.create_fails [OF g(2) d]) (use w Inl in simp)
    then show ?thesis using run w Inl Some ip g g'
      by (auto simp: create_route_def on_track_def reply_shards)
  next
    case (Inr cf)
    obtain client capsule where cf: "cf = (client, capsule)" by (cases cf)
    have "s = None"
      using create_refused_good [OF run_good [OF ok] w] g(2) Inr by (cases s) auto
    then have "runs e w (Some (i, p, client, capsule))" using sec_run.create [OF _ d] g(2) w Inr cf by blast
    moreover have "client_fits client" by (rule create_client [OF _ d]) (use w Inr cf in simp)
    moreover have "8 \<le> length i \<and> length i \<le> 256 \<and> 12 \<le> length p" using credentials_fit Some ip by simp
    ultimately show ?thesis using run w Inr cf Some ip g'
      by (auto simp: create_route_def on_track_def reply_shards b64_decode_encode usable_def)
  qed
qed

lemma restore_track:
  assumes d: "draw_ok (io_draw (gi_io io))" and on: "on_track e g s" and run: "restore_route e io b g = (g', rep)"
  shows "on_track e g' (granted (Restore b) rep s)"
proof (cases "vault_restore_schema b")
  case None
  then show ?thesis using on run by (auto simp: restore_route_def)
next
  case (Some ip)
  obtain i p where ip: "ip = (i, p)" by (cases ip)
  have g: "plain g" "runs e (main g) s" "usable s" using on by (simp_all add: on_track_def)
  obtain w r where w: "restore_secure (ge_env e) (ge_lib e) (ge_opens e) (io_draw (gi_io io)) (gi_answer io) (ge_dir e) i p (main g) = (w, r)"
    by (metis surj_pair)
  have p: "sv_main (in_place x w (gw_vault g)) = w" "sv_registry (in_place x w (gw_vault g)) = None"
    "\<not> sv_active (in_place x w (gw_vault g))" for x
    using g(1) by (simp_all add: in_place_def plain_def)
  have fit: "8 \<le> length i \<and> length i \<le> 256 \<and> 12 \<le> length p"
    using Some ip by (auto simp: vault_restore_schema_def dest: credentials_fit split: bind_splits)
  show ?thesis
  proof (cases r)
    case (Inl err)
    have "runs e w s" by (rule sec_run.restore_fails [OF g(2) d]) (use w Inl in simp)
    then show ?thesis using run w Inl Some ip g p
      by (auto simp: restore_route_def sov_restore_def Let_def on_track_def reply_shards plain_def split: if_splits)
  next
    case (Inr cf)
    obtain client capsule where cf: "cf = (client, capsule)" by (cases cf)
    have "runs e w (Some (i, p, client, capsule))" by (rule sec_run.restore [OF g(2) d]) (use w Inr cf in simp)
    moreover have "client_fits client" by (rule restore_client [OF _ d]) (use w Inr cf in simp)
    ultimately show ?thesis using run w Inr cf Some ip p fit g reply_shards(1) [of client "Some capsule" "[]"]
        reply_shards(2) [of client capsule "[]"]
      by (auto simp: restore_route_def sov_restore_def Let_def on_track_def reply_shards b64_decode_encode usable_def plain_def
          split: if_splits)
  qed
qed

lemma change_capsule:
  assumes ok: "libs_ok e" and d: "draw_ok (io_draw io)" and r: "runs e w s"
    and w: "change_secure_password (ge_env e) (ge_lib e) (ge_opens e) io io' gone answer i old new w = (w', Inr (client, capsule))"
  shows "capsule \<noteq> None \<and> s_config w \<noteq> None"
proof (cases s)
  case None
  then have "w = fresh_sec" using run_fresh ok r by blast
  then show ?thesis using w fresh_ops(4) by blast
next
  case (Some t)
  then have "sec_good (ge_env e) (ge_opens e) t w" using run_good ok r by blast
  with change_good [OF _ _ _ _ d this w] good_some [OF this] ok show ?thesis by (auto simp: libs_ok_def)
qed

lemma change_track:
  assumes ok: "libs_ok e" and d: "draw_ok (io_draw (gi_io io))" "draw_ok (io_draw (gi_io' io))" and on: "on_track e g s"
    and run: "change_route e io b g = (g', rep)"
  shows "on_track e g' (granted (Change_Password b) rep s)"
proof -
  obtain g1 q where g1: "drain (gi_upload io) (cancel_backups g) = (g1, q)" by (metis surj_pair)
  have on1: "on_track e g1 s" by (rule on_track_follows [OF follows_cancelled [OF g1] on])
  then have g: "plain g1" "runs e (main g1) s" "usable s" by (simp_all add: on_track_def)
  show ?thesis
  proof (cases "\<exists>i old new. q = Inr () \<and> change_schema b = Some (i, old, new)")
    case False
    then have "g' = g1 \<and> \<not> is_done rep" using run g1
      by (auto simp: change_route_def uncaught_def split: sum.splits option.splits if_splits)
    then show ?thesis using on1 by (auto simp: reply_text_def split: option.splits reply.splits)
  next
    case True
    then obtain i old new where b: "q = Inr ()" "change_schema b = Some (i, old, new)" by blast
    obtain w r where w: "change_secure_password (ge_env e) (ge_lib e) (ge_opens e) (gi_io io) (gi_io' io) (gi_gone io) (gi_answer io)
        i old new (main g1) = (w, r)" by (metis surj_pair)
    have p: "plain ((halt_tor g1)\<lparr>gw_vault := (gw_vault g1)\<lparr>sv_main := w\<rparr>\<rparr>)" using g(1) by (simp add: plain_def)
    show ?thesis
    proof (cases r)
      case (Inl err)
      have "runs e w s" by (rule sec_run.change_fails [OF g(2) d(1)]) (use w Inl in simp)
      then show ?thesis using run g1 b w Inl g p
        by (auto simp: change_route_def sov_change_password_def on_track_def reply_shards)
    next
      case (Inr cf)
      obtain client capsule where cf: "r = Inr (client, Some capsule)" "s_config (main g1) \<noteq> None"
        using change_capsule [OF ok d(1) g(2)] w Inr by (cases cf) fastforce
      have "runs e w (Some (i, new, client, capsule))" by (rule sec_run.change [OF g(2) d(1)]) (use w cf in simp)
      moreover have "client_fits client \<and> 12 \<le> length new" by (rule change_client [OF _ d]) (use w cf in simp)
      moreover have "8 \<le> length i \<and> length i \<le> 256"
        using b(2) by (auto simp: change_schema_def required_def string_where_def split: option.splits json.splits if_splits bind_splits)
      ultimately show ?thesis using run g1 b w cf p g reply_shards(1) [of client "Some capsule" "[]"]
        reply_shards(2) [of client capsule "[]"]
        by (auto simp: change_route_def sov_change_password_def on_track_def b64_decode_encode usable_def)
    qed
  qed
qed

lemma import_track:
  assumes d: "draw_ok (io_draw (gi_io io))" and on: "on_track e g s" and f: "f \<noteq> []"
    and fit: "8 \<le> length i \<and> length i \<le> 256 \<and> 12 \<le> length p"
    and run: "open_selected e io i p (Some f) content g = (g', rep)"
  shows "on_track e g' (case reply_text ''clientShard'' rep of None \<Rightarrow> s | Some c \<Rightarrow> Some (i, p, c, b64_decode f))"
proof -
  have g: "plain g" "runs e (main g) s" "usable s" using on by (simp_all add: on_track_def)
  obtain w r where w: "import_storage (ge_env e) (ge_lib e) (ge_opens e) (io_draw (gi_io io)) (ge_dir e) content i p (b64_decode f) (main g) = (w, r)"
    by (metis surj_pair)
  have p: "sv_main (in_place x w (gw_vault g)) = w" "sv_registry (in_place x w (gw_vault g)) = None"
    "\<not> sv_active (in_place x w (gw_vault g))" for x
    using g(1) by (simp_all add: in_place_def plain_def)
  show ?thesis
  proof (cases r)
    case (Inl err)
    have "runs e w s" by (rule sec_run.import_fails [OF g(2) d]) (use w Inl in simp)
    then show ?thesis using run w Inl g p f
      by (cases f) (auto simp: open_selected_def sov_import_def Let_def on_track_def reply_shards plain_def split: if_splits)
  next
    case (Inr client)
    have "runs e w (Some (i, p, client, b64_decode f))" by (rule sec_run.import [OF g(2) d]) (use w Inr in simp)
    moreover have "client_fits client" by (rule import_client [OF _ d]) (use w Inr in simp)
    ultimately show ?thesis using run w Inr g p f fit reply_shards(1) [of client None "[]"]
      by (cases f) (auto simp: open_selected_def sov_import_def Let_def on_track_def reply_shards plain_def usable_def split: if_splits)
  qed
qed

lemma open_track:
  assumes d: "draw_ok (io_draw (gi_io io))" and on: "on_track e g s" and run: "open_route e io b g = (g', rep)"
    and ex: "expected (Open b) g rep s"
  shows "on_track e g' (granted (Open b) rep s)"
proof (cases "\<exists>i p c c' f. vault_open_schema b = Some (i, p, c, c') \<and> shard7_payload b = Some f")
  case False
  then show ?thesis using on run by (auto simp: open_route_def reply_shards split: option.splits)
next
  case True
  then obtain i p c c' f where b: "vault_open_schema b = Some (i, p, c, c')" "shard7_payload b = Some f" by blast
  then have ip: "vault_credentials b = Some (i, p)" by (auto simp: vault_open_schema_def split: bind_splits)
  let ?g = "end_session (halt_tor g)"
  have on1: "on_track e ?g s" using on by (auto simp: on_track_def plain_def)
  have pend: "gw_pending ?g = gw_pending g" by (simp add: end_session_def halt_tor_def)
  show ?thesis
  proof (cases "gw_pending g")
    case (Some content)
    then have sel: "open_selected e io i p f content ?g = (g', rep)" using run b pend by (simp add: open_route_def Let_def)
    show ?thesis
    proof (cases "\<exists>x. f = Some x \<and> x \<noteq> []")
      case True
      then obtain x where x: "f = Some x" "x \<noteq> []" by blast
      from import_track [OF d on1 x(2) _ sel [unfolded x(1)]] credentials_fit [OF ip] ip b(2) x(1) show ?thesis
        by (auto split: option.split)
    next
      case False
      then show ?thesis using sel on1 by (auto simp: open_selected_def reply_shards split: option.splits list.splits)
    qed
  next
    case None
    obtain w r where w: "unlock_main (ge_env e) (ge_lib e) (ge_opens e) (gi_answer io) i p c f (main g) = (w, r)" by (metis surj_pair)
    have g: "plain g" "runs e (main g) s" "usable s" using on by (simp_all add: on_track_def)
    have main': "gw_vault g' = (gw_vault g)\<lparr>sv_main := w\<rparr>" "rep = (case r of Inl err \<Rightarrow> Fail 400 err | Inr _ \<Rightarrow> ok_with [])"
      using run b None pend w g(1) by (auto simp: open_route_def Let_def unlock_secure_def is_duress_def plain_def split: prod.splits)
    have "runs e w s"
    proof (cases r)
      case (Inl err)
      show ?thesis by (rule sec_run.unlock_fails [OF g(2)]) (use w Inl in simp)
    next
      case (Inr u)
      then have "is_done rep" using main'(2) by (simp add: ok_with_def)
      with ex None b obtain f' where s: "s = Some (i, p, the c, f')" "c \<noteq> None" "f = Some (b64_encode f')"
        by (auto split: option.splits)
      then show ?thesis using sec_run.unlock [where w = "main g"] g(2) w by auto
    qed
    then have "on_track e g' s" using g main'(1) by (simp add: on_track_def plain_def)
    then show ?thesis using main'(2) by (auto simp: reply_shards split: sum.splits option.splits)
  qed
qed

lemma serve_track:
  assumes ok: "libs_ok e" and d: "draw_ok (io_draw (gi_io io))" "draw_ok (io_draw (gi_io' io))" and on: "on_track e g s"
    and run: "serve e io a g = (g', rep)" and ex: "expected a g rep s"
  shows "on_track e g' (granted a rep s)"
proof -
  note data = follows_mode follows_apply follows_activate follows_add follows_import follows_verify follows_decide follows_send
    follows_message_timer follows_fetch follows_set_profile follows_control follows_pin follows_quick_lock follows_quick_unlock
    follows_encrypt follows_bootstrap follows_invite follows_relay follows_sync_route follows_saved follows_storage follows_select follows_lock
  have "granted a rep s = s \<and> follows e g g' \<or> (\<exists>b. a \<in> {Create b, Open b, Restore b, Change_Password b})"
    using run ex by (cases a) (auto intro: data follows_same simp: contacts_route_def ask_route_def requests_route_def messages_route_def
        profile_route_def access_state_def shard7_route_def storage_file_def horcrux_route_def split: prod.splits if_splits sum.splits)
  then show ?thesis
    using on_track_follows on create_track [OF ok d(1) on] open_track [OF d(1) on] restore_track [OF d(1) on] change_track [OF ok d on] run ex
    by auto
qed

section \<open>Files\<close>

lemma names_distinct:
  assumes "distinct (map fst fs)"
  shows "distinct (map fst (map (\<lambda>(p, b). (drop (length d) p, b)) (filter (\<lambda>(p, _). starts_with d p) fs)))"
  using assms
proof (induction fs)
  case (Cons x fs)
  obtain p b where x: "x = (p, b)" by (cases x)
  have same: "p = q" if "starts_with d p" "starts_with d q" "drop (length d) p = drop (length d) q" for q
    using that by (metis append_take_drop_id starts_with_def)
  have "drop (length d) p \<notin> fst ` set (map (\<lambda>(p, b). (drop (length d) p, b)) (filter (\<lambda>(p, _). starts_with d p) fs))" if p: "starts_with d p"
  proof
    assume "drop (length d) p \<in> fst ` set (map (\<lambda>(p, b). (drop (length d) p, b)) (filter (\<lambda>(p, _). starts_with d p) fs))"
    then obtain q c where q: "(q, c) \<in> set fs" "starts_with d q" "drop (length d) p = drop (length d) q" by auto
    then have "q \<in> fst ` set fs" by force
    with same [OF p q(2,3)] Cons.prems show False by (simp add: x)
  qed
  then show ?case using Cons by (simp add: x image_image)
qed simp

lemma files_track:
  assumes ok: "libs_ok e" and on: "on_track e g s" and f: "\<And>st. distinct (map fst (fst st)) \<Longrightarrow> distinct (map fst (fst (f st)))"
  shows "on_track e (with_files e f g) s"
proof (cases "sov_database (gw_vault g)")
  case (Inr db)
  obtain fs db' where r: "f (gate_files e g, db) = (fs, db')" by (metis surj_pair)
  have g: "plain g" "runs e (main g) s" "usable s" using on by (simp_all add: on_track_def)
  have "distinct (map fst (s_files (main g)))"
    using sec_run_inv [of "ge_env e" "ge_opens e" "ge_lib e" "main g" s] g(2) ok by (simp add: libs_ok_def sec_inv_def)
  moreover have "map fst (gate_files e g) = map ((@) (ge_dir e)) (map fst (s_files (main g)))"
    using g(1) by (simp add: gate_files_def plain_sov comp_def case_prod_beta)
  ultimately have "distinct (map fst (gate_files e g))" by (simp add: distinct_map inj_on_def)
  then have d: "distinct (map fst fs)" using f [of "(gate_files e g, db)"] r by simp
  have o: "\<not> sec_locked (main g)" using g(1) Inr by (auto simp: plain_sov dest: database_open)
  have "on_track e (put_db db' g) s" by (rule on_track_follows [OF follows_put_db [OF Inr] on])
  then have p: "plain (put_db db' g)" "runs e (main (put_db db' g)) s" by (simp_all add: on_track_def)
  have l: "\<not> sec_locked (main (put_db db' g))" using o g(1) by (simp add: put_db_def plain_sov set_db_def sec_locked_def)
  from sec_run.change_files [OF p(2) l names_distinct [OF d]] p(1) g(3) show ?thesis
    by (simp add: with_files_def Inr r put_files_def plain_sov on_track_def plain_def)
qed (simp add: with_files_def on)

lemma distinct_delete: "distinct (map fst m) \<Longrightarrow> distinct (map fst (map_delete k m))"
  by (simp add: map_delete_def distinct_map_filter)

lemma distinct_drops: "distinct (map fst fs) \<Longrightarrow>
    distinct (map fst (fold (\<lambda>a fs. case at_path a of None \<Rightarrow> fs | Some p \<Rightarrow> if p = [] then fs else map_delete p fs) xs fs))"
  by (induction xs arbitrary: fs) (auto simp: distinct_delete split: option.split)

lemma distinct_tick: "distinct (map fst (fst st)) \<Longrightarrow> distinct (map fst (fst (disappearing_tick now st)))"
proof -
  have "distinct (map fst (fst (fold drop_message ms st)))" if "distinct (map fst (fst st))" for ms st
    using that by (induction ms arbitrary: st) (auto simp: drop_message_def distinct_drops split: prod.split)
  then show "distinct (map fst (fst st)) \<Longrightarrow> ?thesis" by (simp add: disappearing_tick_def)
qed

lemma distinct_download:
  "distinct (map fst (fst st)) \<Longrightarrow> download_and_decrypt env root key nonce answer m msg st = (st', r) \<Longrightarrow> distinct (map fst (fst st'))"
  by (auto simp: download_and_decrypt_def cache_attachment_def try_then_Inr_iff distinct_map_set
      split: prod.splits option.splits sum.splits)

lemma distinct_retry: "distinct (map fst (fst st)) \<Longrightarrow> distinct (map fst (fst (fst (retry_downloads env root key nonce answer now st))))"
proof -
  have "distinct (map fst (fst (fst (fold (retry_download env root key nonce answer) ds acc))))"
    if "distinct (map fst (fst (fst acc)))" for ds acc
    using that
  proof (induction ds arbitrary: acc)
    case (Cons d ds)
    have "distinct (map fst (fst (fst (retry_download env root key nonce answer d acc))))"
      using Cons.prems by (auto simp: retry_download_def Let_def dest: distinct_download [rotated] split: prod.splits option.splits sum.splits)
    then show ?case using Cons.IH by simp
  qed simp
  then show "distinct (map fst (fst st)) \<Longrightarrow> ?thesis" by (simp add: retry_downloads_def)
qed

section \<open>Every run\<close>

lemma handle_track:
  assumes "libs_ok e" and "draw_ok (io_draw (gi_io io))" and "draw_ok (io_draw (gi_io' io))" and "on_track e g s"
    and "handle e io a g = (g', rep)" and "expected a g rep s"
  shows "on_track e g' (granted a rep s)"
proof -
  have "granted a (Fail n err) s = s" for n err
    by (cases "(a, Fail n err :: payload reply, s)" rule: granted.cases) (auto simp: reply_shards split: option.split prod.split)
  then show ?thesis using serve_track [OF assms(1-4) _ assms(6)] assms(4,5) by (auto simp: handle_def Let_def split: if_splits option.splits)
qed

lemma gate_run_track:
  assumes "libs_ok e"
  shows "gate_run e g s \<Longrightarrow> on_track e g s"
proof (induction rule: gate_run.induct)
  case start
  show ?case by (simp add: on_track_def plain_def new_gateway_def listening_def usable_def sec_run.fresh)
next
  case (request g s io a g' rep)
  then show ?case using handle_track [OF assms] by blast
next
  case (restart g s)
  then show ?case using sec_run.restart [of "ge_env e" "ge_lib e" "ge_opens e" "main g" s]
    by (auto simp: on_track_def plain_def restarted_def listening_def usable_def)
next
  case (expiry g s now)
  then show ?case using files_track [OF assms _ distinct_tick] by (simp add: expire_messages_def)
next
  case (downloads g s nonce answer now)
  then show ?case using files_track [OF assms _ distinct_retry] by (simp add: download_due_def)
next
  case (unheard g s n)
  then show ?case by (simp add: on_track_def plain_def)
next
  case (tor_starts g s generation session fine now)
  then show ?case by (simp add: on_track_def plain_def)
qed (auto intro: on_track_follows follows_timer follows_settles follows_events follows_retry follows_stop follows_transport)

end
