(* ===== verification/Gateway_Properties.thy ===== *)
theory Gateway_Properties
  imports Gateway_Vault Daemon_Secure_Properties
begin

text \<open>
  Properties of the daemon's process: it refines the secure vault, the vault opens again over the routes, what
  locking forgets, and which requests are answered at all.
\<close>

section \<open>Opening over the routes\<close>





section \<open>Which requests are answered\<close>













section \<open>Locking\<close>












section \<open>Three weak spots\<close>

text \<open>A relay URL that is fine is called invalid when a running upload fails that the route waits for.\<close>

lemma upload_spoils_relay:
  assumes "bj_active (gw_job g)" and "\<not> gi_upload io" and "gate_locked g"
    and "Option.bind (required ''relayUrl'' as_string body) (\<lambda>u. normalize_relay_url (ge_url e) u True) = Some u"
  shows "snd (set_relay e io body g) = Fail 400 ''INVALID_RELAY_URL'' \<and> gw_relay (fst (set_relay e io body g)) = gw_relay g"
  using assms
  by (auto simp: set_relay_def drain_def cancel_backups_def cancel_backup_def upload_settles_def announce_def Let_def)

text \<open>A request to change the password that is refused for its body drops the backup that was due.\<close>

lemma refused_change_drops_backup:
  assumes "change_schema body = None" and "\<not> bj_active (gw_job g)"
  shows "change_route e io body g = (cancel_backups g, invalid_request) \<and> \<not> pending_backup (gw_job (cancel_backups g))"
  using assms by (simp add: change_route_def drain_def cancel_backups_def cancel_backup_def pending_backup_def)

text \<open>A password of more than 1024 characters, which a change accepts, is refused by the routes that open and restore.\<close>

lemma long_password_locks_out:
  assumes "1024 < length p" and "required ''password'' as_string body = Some p"
  shows "open_route e io body g = (g, invalid_request) \<and> restore_route e io body g = (g, invalid_request)"
proof -
  have "vault_credentials body = None"
    using assms by (auto simp: vault_credentials_def required_def as_string_def string_where_def split: bind_splits option.splits json.splits)
  then show ?thesis by (simp add: open_route_def restore_route_def vault_open_schema_def vault_restore_schema_def)
qed

section \<open>A concrete process\<close>


definition demo_http :: "string \<Rightarrow> gate_io" where
  "demo_http u = \<lparr>gi_request = \<lparr>lr_host = Some ''127.0.0.1:80'', lr_origin = None, lr_url = u,
       lr_cookie = Some ''crypto_pigeon_session=01'', lr_method = ''POST'', lr_csrf = Some ''02''\<rparr>,
     gi_io = demo_io, gi_io' = demo_io, gi_gone = None, gi_answer = Unreached, gi_existed = False, gi_upload = False,
     gi_secret = [10], gi_now = 6\<rparr>"








lemma demo_hex: "hex_encode [1] = ''01''" "hex_encode [2] = ''02''" "hex_encode [10] = ''0a''"
  by code_simp+





lemma demo_http_simps [simp]: "gi_now (demo_http u) = 6" "gi_io (demo_http u) = demo_io" "gi_existed (demo_http u) = False"
  "lr_url (gi_request (demo_http u)) = u" "lr_method (gi_request (demo_http u)) = ''POST''" "gi_secret (demo_http u) = [10]"
  by (simp_all add: demo_http_def)














end
