(* ===== verification/Spec2Isabelle.thy ===== *)
theory Spec2Isabelle
  imports Relay_Data_Properties Daemon_Properties Tor_Properties Daemon_Secure_Properties Support_Properties Gateway_Properties
begin

text \<open>
  A verification development for Crypto Pigeon: a messenger whose relay server (\<open>apps/relay-server\<close>) only
  sees ciphertext, whose local daemon (\<open>apps/local-daemon\<close>) holds keys and messages in an encrypted
  database, and whose daemons can also reach each other through onion services. \<open>packages/protocol\<close> has the
  wire formats that both sides parse.

  \<^bold>\<open>Parts and their interaction.\<close> A daemon proves a device key to the relay (\<open>auth.ts\<close>) and then uses its
  routes: accounts and prekeys, contact requests, the mailbox of envelopes, attachment blobs, vault backups,
  blind dropboxes and WebRTC signals over a WebSocket. The daemon's routes are called by the local UI under a
  session cookie; behind them are the vault (password, master key, seven shards), the store for libsignal, the
  message queues and the background jobs. With the onion transport the same requests are answered locally
  from \<open>tor_*\<close> tables (\<open>tor-routing.ts\<close>), by peers' signed requests (\<open>tor-transport.ts\<close>), or by both.

  \<^bold>\<open>Theories.\<close> Shared: \<open>Prelude\<close> (tables as lists of rows, transactions as handlers with commit and rollback,
  errors as sums, JavaScript maps, the locales), \<open>Js_Text\<close> (character classes, hex, base64, UTF-8), \<open>Json\<close>
  (values, schema readers, \<open>JSON.stringify\<close> of scalars), \<open>Protocol\<close> (\<open>packages/protocol/src/index.ts\<close>) and
  \<open>Invite\<close> (\<open>serverless-invite.ts\<close>).

  Relay, one theory per file of \<open>apps/relay-server/src\<close>: \<open>Relay_Db\<close> (\<open>schema.sql\<close>, \<open>db.ts\<close>: tables as records
  with the invariant \<open>db_ok\<close>), \<open>Relay_Auth\<close> and \<open>Relay_Access\<close> (\<open>auth.ts\<close>), \<open>Relay_Queue\<close> (\<open>queue.ts\<close>),
  \<open>Relay_Conversations\<close>, \<open>Relay_Prekeys\<close>, \<open>Relay_Attachments\<close>, \<open>Relay_Backup\<close> (\<open>vault-backup.ts\<close>), \<open>Relay_Blind\<close>
  (\<open>blind-dropbox.ts\<close>), \<open>Relay_Ws\<close> and \<open>Relay_Signaling\<close> (\<open>ws-handler.ts\<close>, \<open>signaling.ts\<close>), \<open>Relay_Admin\<close> (the
  operator's routes of \<open>server.ts\<close>, \<open>admin-cli\<close>), \<open>Relay_System\<close> (all routes behind their middleware as one step
  relation \<open>relay_reachable\<close>).

  Daemon, \<open>apps/local-daemon/src\<close>: \<open>Daemon_Db\<close> (the SQLite tables, the library functions as the record
  \<open>daemon_env\<close>, statements as a state monad), \<open>Daemon_Store\<close> (\<open>signal-store.ts\<close>, \<open>signal-adapter.ts\<close>,
  \<open>fingerprint.ts\<close>), \<open>Daemon_Attachments\<close>, \<open>Daemon_Messages\<close> (\<open>messages.ts\<close>, \<open>consumer.ts\<close>), \<open>Daemon_Delivery\<close>
  (lemmas on sending and receiving), \<open>Daemon_Session\<close> (\<open>auth.ts\<close>, quick lock), \<open>Daemon_Vault\<close> (\<open>vault.ts\<close>,
  \<open>vault-keys.ts\<close>), \<open>Daemon_Shards\<close> (\<open>vault-dual-key.ts\<close>, \<open>horcrux.ts\<close>, \<open>sovereign-files.ts\<close>), \<open>Daemon_Secure\<close> and
  \<open>Daemon_Sovereign\<close> (\<open>secure-vault.ts\<close>: operations, and the runs of a vault), \<open>Daemon_System\<close> (the database
  routes of \<open>server.ts\<close>, \<open>disappearing.ts\<close>, the daemon as a step relation \<open>daemon_reach\<close>).

  Onion transport: \<open>Tor_Control\<close> and \<open>Tor_Peer\<close> (\<open>tor-transport.ts\<close>), \<open>Tor_Routing\<close> (\<open>tor-routing.ts\<close>,
  \<open>tor-recovery.ts\<close> and the parts of \<open>server.ts\<close> that start, stop and prepare it), \<open>Tor_Contacts\<close>
  (\<open>serverless-contacts.ts\<close>), \<open>Tor_System\<close> (all of it as one machine with a log of events).

  The process, \<open>server.ts\<close>: \<open>Daemon_Gateway\<close> (its state as the record \<open>gateway\<close>: vault, session, quick lock, relay
  client, backup job, change feed, transport; the routes around the vault), \<open>Daemon_Routes\<close> (registration, contacts,
  messages, profile, attachments), \<open>Daemon_Process\<close> (the session routes of \<open>auth.ts\<close>, the hook and the dispatch
  \<open>handle\<close>, queues and jobs without a request, the end), \<open>Gateway_Runs\<close> (all of it as the step relation
  \<open>gate_run\<close>, which carries the credentials that the replies gave to the user) and \<open>Gateway_Vault\<close> (every run of
  the process is one of the vault).

  Around them: \<open>Daemon_Client\<close> (\<open>relay-client.ts\<close>), \<open>Daemon_Jobs\<close> (\<open>debounced-backup.ts\<close>, \<open>change-feed.ts\<close>), \<open>Logging\<close>
  (\<open>logger.ts\<close> of relay and daemon), \<open>Relay_Config\<close> (\<open>config.ts\<close> and \<open>rate-limit.ts\<close> of the relay, \<open>routeErrorDetails\<close>),
  \<open>Ui_State\<close> (\<open>vaultFragments.ts\<close> and \<open>backNavigation.ts\<close> of \<open>apps/local-ui\<close>) and \<open>Ui_App\<close> (the handlers and effects of its
  \<open>App.tsx\<close>: each request as the step that starts it and the step its answer makes, with the epoch it began in; the
  relation \<open>late\<close> has the answers that come after a lock).

  \<open>Relay_Properties\<close>, \<open>Relay_Data_Properties\<close>, \<open>Daemon_Properties\<close>, \<open>Daemon_Secure_Properties\<close>,
  \<open>Gateway_Properties\<close>, \<open>Support_Properties\<close> and \<open>Tor_Properties\<close> state the properties, each with an instance at concrete values; \<open>Daemon_Demo\<close> holds the
  concrete library functions of those instances.

  \<^bold>\<open>Interfaces.\<close> \<open>keyed_table\<close> (a map with get, set and delete) is interpreted on JavaScript maps;
  \<open>durable_mailbox\<close> (a letter stays until it is acknowledged) on the relay's mailbox and on the onion inbox;
  \<open>single_use\<close> (what was handed out is not handed out again) on one-time and post-quantum prekeys; \<open>grant_store\<close>
  on conversation permissions. The client lemmas are proved once in the locales and used through the
  interpretations.

  \<^bold>\<open>What the lemmas show.\<close> Relay: every request keeps keys, references and checks of the schema; sessions need a
  signature over a fresh challenge for a host of the list, and die at their expiry; an account needs the
  operator's approval and the code within five guesses; envelopes come only from permitted senders and stay
  until the recipient acknowledges them; one-time prekeys are handed out once; backups advance by one version
  under one writer. Daemon: the database invariant holds in every reachable state; an envelope becomes at most
  one message and is acknowledged only when that is recorded; a message that was accepted is in the outbox
  until the relay has it; a pinned identity changes only by the user's approval; expired messages go exactly
  when they expire, with their files; the vault's keys are in memory only while it is open. Shards: seven give
  the key back and six fit every key equally well. Secure vault: after any sequence of operations the last
  credentials open it and show the same database; storage file and backup carry database and files; the
  duress id shows the decoy only. Process: requests, background uploads, the transport and restarts refine the
  vault's operations; the credentials of the last replies open it over the routes; the full lock leaves nothing
  in memory and a session that must be paired anew; requests are answered only with the session, and behind a
  lock only where the lock allows it. Onion transport: nothing goes to the relay in the direct mode, peers are
  served only when their signature, nonce and time are right, the inbox refines the mailbox, and chunks of the
  control stream can be cut anywhere. Around: changes end in a backup, the change feed answers every request
  once, tokens and prepared requests stay in their session, log lines are redacted, no vault loses its fragment in
  the browser, and what the page shows after a lock stays hidden whatever arrives late.

  \<^bold>\<open>How it is modelled.\<close> A handler is one function from state and request to state and reply, with the guards,
  early returns and errors of the code in its order; \<open>BEGIN\<close> to \<open>COMMIT\<close> is one step, and errors roll back. Node
  runs a handler without interruption between two awaits: where other handlers can run in between and it
  matters (the transport's jobs, the relay's transactions with row locks), the parts are separate steps that
  take part in runs in any order. Clocks, random bytes, answers of the network, files and faults are
  arguments. Rows that SQL may return in any order are chosen by an argument. Integers are unbounded with the
  bounds that the schemas check; bytes are 8-bit words. There is no fuel: loops are structural recursion or
  functions with a measure (the lines of the control stream, the search for a free public UID).

  Libraries are parameters with named hypotheses that state what they document: \<open>gcm_ok\<close> (AES-GCM decrypts what
  it encrypted and adds 16 bytes), \<open>json_ok\<close> (\<open>JSON.parse\<close> reads \<open>JSON.stringify\<close>, UTF-8 is read back), \<open>capsule_fits\<close>
  (the JSON of a sealed share is small), \<open>cipher_ok\<close> (SQLCipher opens a file with its key), \<open>lib_ok\<close> (gunzip undoes
  gzip, a database file is read back), \<open>libsignal_ok\<close> (libsignal writes only through the store it is given).
  Secrecy and unforgeability of the primitives are not stated.

  \<^bold>\<open>Not modelled.\<close> The rendering of the local UI, its entrance screen, settings dialogs and voice recorder; the Electron shell and
  the Android project. The Tor process, sockets, HTTP framing and the timers themselves: what arrives is an argument of the
  function that handles it. Scripts, tests and the old compiled \<open>.js\<close> files beside the daemon's sources. Failing
  or partial file-system operations (a rename or a write is one step that succeeds). Two uploads of a backup at
  once, and a password change for a vault id that is the duress id as well. \<open>gate_run\<close> leaves out the configuration
  of the duress id; \<open>duress_opens_decoy\<close> is about that. The rate limiter's package. Column defaults and
  migrations of old databases. \<open>identity_keys\<close> and columns that no code reads.
\<close>

end
